(* ===== verification/Prelude.thy ===== *)
theory Prelude
  imports Main "HOL-Library.Multiset"
begin

text \<open>
  What every component of the development shares: the types that stand for Go's basic types
  (strings as byte lists, \<open>time.Time\<close> as nanoseconds since Go's zero time, errors as values),
  the part of Go's \<open>strings\<close> package the program calls, list lemmas, and the interface of a
  transition system with an invariant.
\<close>

named_theorems sf_defs "definitions unfolded by the component proofs"

section \<open>Go values\<close>

text \<open>
  \<open>time.Time\<close> is an instant; the model counts nanoseconds from Go's zero time (January 1,
  year 1), so that \<open>IsZero\<close> is a comparison with 0 and \<open>Add\<close> is addition. A nil pointer is
  \<open>None\<close>.
\<close>

type_synonym gotime = int

definition IsZero :: "gotime \<Rightarrow> bool" where
  "IsZero t \<longleftrightarrow> t = 0"

abbreviation second :: int where "second \<equiv> 1000000000"
abbreviation minute :: int where "minute \<equiv> 60 * second"
abbreviation hour :: int where "hour \<equiv> 60 * minute"

section \<open>The strings package\<close>

text \<open>
  Go strings are byte sequences. \<open>unicode.IsSpace\<close> restricted to one-byte code points is the set
  below, and \<open>strings.ToLower\<close> on ASCII bytes shifts \<open>A..Z\<close>; bytes above 127 are left alone,
  which is what both functions do with the ASCII input the program's validators accept.
\<close>

definition is_space :: "char \<Rightarrow> bool" where
  "is_space c \<longleftrightarrow> of_char c \<in> {9, 10, 11, 12, 13, 32 :: nat}"

definition TrimSpace :: "string \<Rightarrow> string" where
  "TrimSpace s = rev (dropWhile is_space (rev (dropWhile is_space s)))"

definition to_lower_char :: "char \<Rightarrow> char" where
  "to_lower_char c =
     (let n = of_char c :: nat in if 65 \<le> n \<and> n \<le> 90 then char_of (n + 32) else c)"

definition ToLower :: "string \<Rightarrow> string" where
  "ToLower s = map to_lower_char s"

lemma dropWhile_hd_fix [simp]:
  "(xs = [] \<or> \<not> P (hd xs)) \<Longrightarrow> dropWhile P xs = xs"
  by (cases xs) auto

lemma dropWhile_result: "dropWhile P xs = [] \<or> \<not> P (hd (dropWhile P xs))"
  by (induction xs) auto

lemma last_dropWhile: "dropWhile P xs \<noteq> [] \<Longrightarrow> last (dropWhile P xs) = last xs"
  by (induction xs) auto

lemma TrimSpace_hd: "TrimSpace s \<noteq> [] \<Longrightarrow> \<not> is_space (hd (TrimSpace s))"
proof -
  assume ne: "TrimSpace s \<noteq> []"
  let ?d = "dropWhile is_space s"
  from ne have "hd (TrimSpace s) = last (dropWhile is_space (rev ?d))"
    by (simp add: TrimSpace_def hd_rev)
  also have "\<dots> = last (rev ?d)"
    using ne by (intro last_dropWhile) (simp add: TrimSpace_def)
  finally have "hd (TrimSpace s) = hd ?d"
    by (simp add: last_rev)
  moreover from ne have "?d \<noteq> []" by (intro notI) (simp add: TrimSpace_def)
  ultimately show ?thesis using dropWhile_result [of is_space s] by auto
qed

lemma TrimSpace_last: "TrimSpace s \<noteq> [] \<Longrightarrow> \<not> is_space (last (TrimSpace s))"
  using dropWhile_result [of is_space "rev (dropWhile is_space s)"]
  by (auto simp: TrimSpace_def last_rev)

lemma TrimSpace_fix:
  assumes "s = [] \<or> (\<not> is_space (hd s) \<and> \<not> is_space (last s))"
  shows "TrimSpace s = s"
  using assms by (auto simp: TrimSpace_def hd_rev)

lemma TrimSpace_idem [simp]: "TrimSpace (TrimSpace s) = TrimSpace s"
  by (intro TrimSpace_fix) (auto dest: TrimSpace_hd TrimSpace_last)

lemma TrimSpace_Nil [simp]: "TrimSpace [] = []"
  by (simp add: TrimSpace_def)

lemma to_lower_char_idem [simp]: "to_lower_char (to_lower_char c) = to_lower_char c"
  by (auto simp: to_lower_char_def Let_def)

lemma is_space_to_lower [simp]: "is_space (to_lower_char c) = is_space c"
  by (auto simp: to_lower_char_def is_space_def Let_def)

lemma ToLower_idem [simp]: "ToLower (ToLower s) = ToLower s"
  by (simp add: ToLower_def)

lemma dropWhile_ToLower: "dropWhile is_space (map to_lower_char s) = map to_lower_char (dropWhile is_space s)"
  by (induction s) auto

lemma TrimSpace_ToLower: "TrimSpace (ToLower s) = ToLower (TrimSpace s)"
  by (simp add: TrimSpace_def ToLower_def dropWhile_ToLower rev_map)

section \<open>Lists\<close>

lemma sum_list_split_at:
  fixes f :: "'a \<Rightarrow> 'b::comm_monoid_add"
  assumes "i < length xs"
  shows "\<exists>rest. sum_list (map f xs) = f (xs ! i) + rest \<and>
                (\<forall>y. sum_list (map f (xs[i := y])) = f y + rest)"
proof -
  let ?rest = "sum_list (map f (take i xs)) + sum_list (map f (drop (Suc i) xs))"
  have "xs = take i xs @ xs ! i # drop (Suc i) xs"
    using assms by (rule id_take_nth_drop)
  then have "sum_list (map f xs) = sum_list (map f (take i xs @ xs ! i # drop (Suc i) xs))"
    by simp
  then have "sum_list (map f xs) = f (xs ! i) + ?rest"
    by (simp add: algebra_simps)
  moreover have "sum_list (map f (xs[i := y])) = f y + ?rest" for y
    using assms by (simp add: upd_conv_take_nth_drop algebra_simps)
  ultimately show ?thesis by blast
qed

lemma sum_list_all_zero: "\<forall>x \<in> set xs. f x = 0 \<Longrightarrow> sum_list (map f xs) = 0"
  by (induction xs) auto

lemma sum_list_replicate_zero [simp]: "sum_list (replicate n (0 :: 'a::comm_monoid_add)) = 0"
  by (induction n) auto

lemma replicate_eq_singleton: "replicate n x = [y] \<Longrightarrow> y = x"
  by (cases n) auto

lemma set_update_cases: "y \<in> set (xs[i := b]) \<Longrightarrow> y = b \<or> y \<in> set xs"
  using set_update_subset_insert [of xs i b] by auto

text \<open>An update of the rows a condition selects leaves the others alone.\<close>

lemma filter_update_others:
  "(\<And>x. P (f x) = P x) \<Longrightarrow>
   filter (\<lambda>x. \<not> P x) (map (\<lambda>x. if P x then f x else x) xs) = filter (\<lambda>x. \<not> P x) xs"
  by (induction xs) auto

lemma find_map_keep: "(\<And>x. P (f x) = P x) \<Longrightarrow> find P (map f xs) = map_option f (find P xs)"
  by (induction xs) auto

lemma find_append_one: "find P (xs @ [x]) = (case find P xs of None \<Rightarrow> if P x then Some x else None | Some y \<Rightarrow> Some y)"
  by (induction xs) auto

lemma find_SomeD: "find P xs = Some x \<Longrightarrow> x \<in> set xs \<and> P x"
  by (induction xs) (auto split: if_splits)

section \<open>Transition systems\<close>

text \<open>
  A component that runs concurrently is a step relation. The reachable states are the least set
  that holds the initial states and is closed under steps.
\<close>

inductive reach :: "('s \<Rightarrow> bool) \<Rightarrow> ('s \<Rightarrow> 's \<Rightarrow> bool) \<Rightarrow> 's \<Rightarrow> bool"
  for init :: "'s \<Rightarrow> bool" and step :: "'s \<Rightarrow> 's \<Rightarrow> bool" where
  reach_init: "init s \<Longrightarrow> reach init step s"
| reach_step: "reach init step s \<Longrightarrow> step s t \<Longrightarrow> reach init step t"

text \<open>
  The contract of an inductive invariant: it holds at the start and every step keeps it. A
  component proves the two laws for its own relation and gets the invariant of all reachable
  states.
\<close>

locale invariant_system =
  fixes init :: "'s \<Rightarrow> bool"
    and step :: "'s \<Rightarrow> 's \<Rightarrow> bool"
    and inv :: "'s \<Rightarrow> bool"
  assumes init_inv: "init s \<Longrightarrow> inv s"
    and step_inv: "inv s \<Longrightarrow> step s t \<Longrightarrow> inv t"
begin

lemma reach_inv: "reach init step s \<Longrightarrow> inv s"
  by (induction rule: reach.induct) (auto intro: init_inv step_inv)

lemma run_inv: "step\<^sup>*\<^sup>* s t \<Longrightarrow> inv s \<Longrightarrow> inv t"
  by (induction rule: rtranclp.induct) (auto intro: step_inv)

end

text \<open>
  A system whose every step lowers a measure has no infinite run, and if it is never stuck before
  it is finished, every run from a good state can only end in a finished state.
\<close>

locale terminating_system = invariant_system +
  fixes final :: "'s \<Rightarrow> bool"
    and rank :: "'s \<Rightarrow> nat"
  assumes step_rank: "inv s \<Longrightarrow> step s t \<Longrightarrow> rank t < rank s"
    and progress: "inv s \<Longrightarrow> \<not> final s \<Longrightarrow> \<exists>t. step s t"
begin

lemma run_ends: "inv s \<Longrightarrow> \<exists>t. step\<^sup>*\<^sup>* s t \<and> final t"
proof (induction s rule: measure_induct_rule [where f = rank])
  case (less s)
  show ?case
  proof (cases "final s")
    case True
    then show ?thesis by blast
  next
    case False
    then obtain u where su: "step s u" using progress less.prems by blast
    then have "\<exists>t. step\<^sup>*\<^sup>* u t \<and> final t"
      using less.IH step_rank step_inv less.prems by blast
    then show ?thesis using su by (meson converse_rtranclp_into_rtranclp)
  qed
qed

lemma run_bounded: "(step ^^ n) s t \<Longrightarrow> inv s \<Longrightarrow> inv t \<and> rank t + n \<le> rank s"
proof (induction n arbitrary: t)
  case 0
  then show ?case by simp
next
  case (Suc n)
  then obtain u where "(step ^^ n) s u" and ut: "step u t" by auto
  with Suc have "inv u" "rank u + n \<le> rank s" by auto
  with ut show ?case using step_rank step_inv by fastforce
qed

lemma no_infinite_run: "inv (f 0) \<Longrightarrow> \<exists>k. \<not> step (f k) (f (Suc k))"
proof (rule ccontr)
  assume inv0: "inv (f 0)" and "\<nexists>k. \<not> step (f k) (f (Suc k))"
  then have st: "step (f k) (f (Suc k))" for k by blast
  have "(step ^^ k) (f 0) (f k)" for k
    by (induction k) (auto intro: st relcomppI)
  from run_bounded [OF this [of "Suc (rank (f 0))"] inv0] show False by simp
qed

end

end
