(* ===== verification/Permissions.thy ===== *)
theory Permissions
  imports Prelude "HOL-Library.Word" "HOL-Library.List_Lexorder" "HOL-Library.Char_ord"
begin

text \<open>
  The errors and the permission arithmetic of the identity module (\<open>internal/modules/identity/domain/errors.go\<close> and
  \<open>domain/access.go\<close>): the registry of permissions, the conversions between 64-bit masks and lists of names, roles,
  and \<open>resolvePermissionMask\<close> of \<open>app/workspace_access.go\<close>. Field names carry the prefixes \<open>p_\<close> (\<open>Permission\<close>) and
  \<open>rl_\<close> (\<open>Role\<close>).
\<close>

unbundle bit_operations_syntax

section \<open>Errors\<close>

datatype id_error =
    IdInvalidCredentials
  | IdEmailAlreadyExists
  | IdNotFound
  | IdUnauthorized
  | IdInvalidOAuthState
  | IdProviderDisabled
  | IdInvalidEmail
  | IdPasswordPolicy
  | IdRateLimited
  | IdVerificationToken
  | IdResetToken
  | IdMFARequired
  | IdMFAInvalidCode
  | IdWorkspaceNotFound
  | IdWorkspaceAccessDenied
  | IdMembershipNotFound
  | IdMembershipManageDenied
  | IdInvitationNotFound
  | IdInvitationExpired
  | IdInvitationAccepted
  | IdLastOwnerCannotBeRemoved
  | IdInvitationPayloadInvalid
  | IdInvalidRole
  | IdRoleNotFound
  | IdRoleManageDenied
  | IdRoleNameConflict
  | IdPermissionSetInvalid
  | IdPermissionRegistryUnknown
  | IdRoleAssignmentConflict
  | IdSessionNotOwned
  | IdInvalidWorkspaceName
  | IdWorkspaceNameConflict
  | IdInvalidPermissionMask
  | IdSettingsNotFound
  | IdSettingsPayloadInvalid
  | IdSettingsVersionConflict
  | IdSettingsManageDenied

section \<open>The registry\<close>

type_synonym int64 = "64 word"

record Permission =
  p_Bit :: int64
  p_Name :: string

definition permissionRegistry :: "Permission list" where
  "permissionRegistry =
    [\<lparr>p_Bit = push_bit 0 1, p_Name = ''workspace.read''\<rparr>,
     \<lparr>p_Bit = push_bit 1 1, p_Name = ''workspace.manage_members''\<rparr>,
     \<lparr>p_Bit = push_bit 2 1, p_Name = ''workspace.manage_roles''\<rparr>,
     \<lparr>p_Bit = push_bit 3 1, p_Name = ''workspace.manage_settings''\<rparr>,
     \<lparr>p_Bit = push_bit 4 1, p_Name = ''sender.manage''\<rparr>,
     \<lparr>p_Bit = push_bit 5 1, p_Name = ''audience.read''\<rparr>,
     \<lparr>p_Bit = push_bit 6 1, p_Name = ''audience.write''\<rparr>,
     \<lparr>p_Bit = push_bit 7 1, p_Name = ''audience.import''\<rparr>,
     \<lparr>p_Bit = push_bit 8 1, p_Name = ''audience.export''\<rparr>,
     \<lparr>p_Bit = push_bit 9 1, p_Name = ''template.read''\<rparr>,
     \<lparr>p_Bit = push_bit 10 1, p_Name = ''template.write''\<rparr>,
     \<lparr>p_Bit = push_bit 11 1, p_Name = ''template.render''\<rparr>,
     \<lparr>p_Bit = push_bit 12 1, p_Name = ''suppression.read''\<rparr>,
     \<lparr>p_Bit = push_bit 13 1, p_Name = ''suppression.manage''\<rparr>,
     \<lparr>p_Bit = push_bit 14 1, p_Name = ''campaign.read''\<rparr>,
     \<lparr>p_Bit = push_bit 15 1, p_Name = ''campaign.write''\<rparr>,
     \<lparr>p_Bit = push_bit 16 1, p_Name = ''campaign.send''\<rparr>,
     \<lparr>p_Bit = push_bit 17 1, p_Name = ''api_key.manage''\<rparr>,
     \<lparr>p_Bit = push_bit 18 1, p_Name = ''analytics.read''\<rparr>,
     \<lparr>p_Bit = push_bit 19 1, p_Name = ''webhook.manage''\<rparr>,
     \<lparr>p_Bit = push_bit 20 1, p_Name = ''webhook.delivery.read''\<rparr>,
     \<lparr>p_Bit = push_bit 21 1, p_Name = ''webhook.delivery.retry''\<rparr>,
     \<lparr>p_Bit = push_bit 22 1, p_Name = ''operations.queue.read''\<rparr>,
     \<lparr>p_Bit = push_bit 23 1, p_Name = ''operations.dlq.read''\<rparr>,
     \<lparr>p_Bit = push_bit 24 1, p_Name = ''operations.replay.manage''\<rparr>,
     \<lparr>p_Bit = push_bit 25 1, p_Name = ''audit.read''\<rparr>,
     \<lparr>p_Bit = push_bit 26 1, p_Name = ''notification.read''\<rparr>]"

definition PermissionNamesFromMask :: "int64 \<Rightarrow> string list" where
  "PermissionNamesFromMask m = sort (map p_Name (filter (\<lambda>p. m AND p_Bit p \<noteq> 0) permissionRegistry))"

definition AllPermissionsMask :: int64 where
  "AllPermissionsMask = foldl (\<lambda>m p. m OR p_Bit p) 0 permissionRegistry"

definition HasPermission :: "string list \<Rightarrow> string \<Rightarrow> bool" where
  "HasPermission names target = list_ex (\<lambda>name. name = target) names"

text \<open>\<open>seen\<close> and \<open>m\<close> (\<open>mask\<close> in the code) are the variables of the loop.\<close>

definition normal_name :: "string \<Rightarrow> string" where
  "normal_name rawName = TrimSpace (ToLower rawName)"

fun mask_loop :: "string list \<Rightarrow> string set \<Rightarrow> int64 \<Rightarrow> id_error + int64" where
  "mask_loop [] seen m = Inr m"
| "mask_loop (rawName # names) seen m =
     (let name = normal_name rawName in
      if name = [] then mask_loop names seen m
      else if name \<in> seen then mask_loop names seen m
      else case find (\<lambda>p. p_Name p = name) permissionRegistry of
          None \<Rightarrow> Inl IdPermissionRegistryUnknown
        | Some p \<Rightarrow> mask_loop names (insert name seen) (m OR p_Bit p))"

definition PermissionsMaskFromNames :: "string list \<Rightarrow> id_error + int64" where
  "PermissionsMaskFromNames names = mask_loop names {} 0"

definition permissionMaskOrZero :: "string list \<Rightarrow> int64" where
  "permissionMaskOrZero names = (case PermissionsMaskFromNames names of Inl _ \<Rightarrow> 0 | Inr m \<Rightarrow> m)"

text \<open>A mask given with the request (a pointer in the code) has precedence over the list of names.\<close>

definition resolvePermissionMask :: "string list \<Rightarrow> int64 option \<Rightarrow> id_error + int64" where
  "resolvePermissionMask permissionNames permissionMask =
     (case permissionMask of
        Some m \<Rightarrow>
          if m <s 0 \<or> m AND NOT AllPermissionsMask \<noteq> 0 then Inl IdInvalidPermissionMask else Inr m
      | None \<Rightarrow>
          (case PermissionsMaskFromNames permissionNames of
             Inl e \<Rightarrow> Inl (if e = IdPermissionRegistryUnknown then e else IdPermissionSetInvalid)
           | Inr m \<Rightarrow> Inr m))"

section \<open>Roles\<close>

record Role =
  rl_ID :: string
  rl_WorkspaceID :: string
  rl_Name :: string
  rl_Type :: string
  rl_PermissionsMask :: int64
  rl_Builtin :: bool
  rl_Status :: string
  rl_Version :: int
  rl_CreatedAt :: gotime
  rl_UpdatedAt :: gotime

definition EffectivePermissions :: "Role list \<Rightarrow> string list" where
  "EffectivePermissions roles = PermissionNamesFromMask (foldl (\<lambda>m r. m OR rl_PermissionsMask r) 0 roles)"

definition RoleIDs :: "Role list \<Rightarrow> string list" where
  "RoleIDs roles = map rl_ID roles"

definition RoleNames :: "Role list \<Rightarrow> string list" where
  "RoleNames roles = sort (map rl_Name roles)"

definition LegacyMembershipRole :: "Role list \<Rightarrow> string" where
  "LegacyMembershipRole roles = (if list_ex (\<lambda>r. rl_Type r = ''owner'') roles then ''Owner'' else ''Member'')"

definition DefaultRoleDefinitions :: "gotime \<Rightarrow> Role list" where
  "DefaultRoleDefinitions now =
    [\<lparr>rl_ID = [], rl_WorkspaceID = [], rl_Name = ''Owner'', rl_Type = ''owner'', rl_PermissionsMask = AllPermissionsMask,
       rl_Builtin = True, rl_Status = ''active'', rl_Version = 1, rl_CreatedAt = now, rl_UpdatedAt = now\<rparr>,
     \<lparr>rl_ID = [], rl_WorkspaceID = [], rl_Name = ''Member'', rl_Type = ''member'',
       rl_PermissionsMask = permissionMaskOrZero [''workspace.read''],
       rl_Builtin = True, rl_Status = ''active'', rl_Version = 1, rl_CreatedAt = now, rl_UpdatedAt = now\<rparr>]"


section \<open>Masks as sets\<close>

text \<open>Bit \<open>k\<close> of a mask stands for entry \<open>k\<close> of the registry; all facts about masks come down to this.\<close>

abbreviation pname :: "nat \<Rightarrow> string" where
  "pname k \<equiv> p_Name (permissionRegistry ! k)"

lemma length_registry [simp]: "length permissionRegistry = 27"
  by (simp add: permissionRegistry_def)

lemma registry_bits: "map p_Bit permissionRegistry = map (\<lambda>k. 2 ^ k) [0..<27]"
  unfolding permissionRegistry_def by (simp add: upt_rec)

lemma registry_bit: "k < 27 \<Longrightarrow> p_Bit (permissionRegistry ! k) = 2 ^ k"
  using arg_cong [OF registry_bits, of "\<lambda>xs. xs ! k"] by simp

lemma registry_set: "x \<in> set permissionRegistry \<longleftrightarrow> (\<exists>k<27. x = permissionRegistry ! k)"
  by (auto simp: in_set_conv_nth)

lemma registry_distinct: "distinct (map p_Name permissionRegistry)"
  unfolding permissionRegistry_def by code_simp

lemma pname_inj: "j < 27 \<Longrightarrow> k < 27 \<Longrightarrow> pname j = pname k \<Longrightarrow> j = k"
  using registry_distinct by (simp add: distinct_conv_nth) (metis nth_map length_registry)

lemma registry_normal: "list_all (\<lambda>p. p_Name p \<noteq> [] \<and> normal_name (p_Name p) = p_Name p) permissionRegistry"
  unfolding permissionRegistry_def by code_simp

lemma pname_normal: "k < 27 \<Longrightarrow> pname k \<noteq> [] \<and> normal_name (pname k) = pname k"
  using registry_normal by (simp add: list_all_length)

lemma bit_permission: "bit (2 ^ k :: int64) j \<longleftrightarrow> j = k \<and> k < 64"
  by (auto simp: bit_exp_iff)

lemma bit_foldl_or: "bit (foldl (\<lambda>m x. m OR f x) a xs) k \<longleftrightarrow> bit (a :: int64) k \<or> (\<exists>x\<in>set xs. bit (f x) k)"
  by (induction xs arbitrary: a) (auto simp: bit_or_iff)

lemma bit_AllPermissionsMask: "bit AllPermissionsMask k \<longleftrightarrow> k < 27"
proof -
  have "bit AllPermissionsMask k \<longleftrightarrow> (\<exists>j<27. bit (p_Bit (permissionRegistry ! j)) k)"
    unfolding AllPermissionsMask_def bit_foldl_or Bex_def registry_set by auto
  also have "\<dots> \<longleftrightarrow> (\<exists>j<27. j = k)" by (auto simp: registry_bit bit_permission)
  finally show ?thesis by simp
qed

lemma names_set: "set (PermissionNamesFromMask m) = {pname k |k. k < 27 \<and> bit m k}"
proof -
  have "m AND p_Bit (permissionRegistry ! k) \<noteq> 0 \<longleftrightarrow> bit m k" if "k < 27" for k
    using that by (simp add: registry_bit push_bit_eq_mult and_exp_eq_0_iff_not_bit)
  then show ?thesis
    by (auto simp: PermissionNamesFromMask_def registry_set)
qed

lemma names_ordered: "sorted (PermissionNamesFromMask m)" "distinct (PermissionNamesFromMask m)"
  using registry_distinct by (simp_all add: PermissionNamesFromMask_def distinct_map_filter)

lemma registry_find:
  "find (\<lambda>p. p_Name p = name) permissionRegistry = Some p \<longleftrightarrow> (\<exists>k<27. p = permissionRegistry ! k \<and> pname k = name)"
proof
  assume "find (\<lambda>p. p_Name p = name) permissionRegistry = Some p"
  then show "\<exists>k<27. p = permissionRegistry ! k \<and> pname k = name" by (auto simp: find_Some_iff)
next
  assume "\<exists>k<27. p = permissionRegistry ! k \<and> pname k = name"
  then obtain k where k: "k < 27" "p = permissionRegistry ! k" "pname k = name" by blast
  moreover have "pname j \<noteq> name" if "j < k" for j using that k pname_inj [of j k] by auto
  ultimately show "find (\<lambda>p. p_Name p = name) permissionRegistry = Some p" by (auto simp: find_Some_iff)
qed

text \<open>The loop over the names: an unknown name is an error, else the bits of the names are added.\<close>

lemma mask_loop_bits:
  assumes "mask_loop names seen m = Inr m'"
  shows "bit m' k \<longleftrightarrow> bit m k \<or> k < 27 \<and> pname k \<in> normal_name ` set names \<and> pname k \<notin> seen"
  using assms
proof (induction names seen m rule: mask_loop.induct)
  case (2 rawName names seen m)
  let ?name = "normal_name rawName"
  consider "?name = []" | "?name \<noteq> []" "?name \<in> seen" | "?name \<noteq> []" "?name \<notin> seen" by blast
  then show ?case
  proof cases
    case 1
    with 2 show ?thesis by (auto simp: Let_def) (metis pname_normal)
  next
    case 2
    with "2.IH"(2) "2.prems" show ?thesis by (auto simp: Let_def)
  next
    case 3
    with "2.prems" obtain j where j: "j < 27" "pname j = ?name"
      and run: "mask_loop names (insert ?name seen) (m OR 2 ^ j) = Inr m'"
      by (auto simp: Let_def registry_find registry_bit split: option.splits)
    have find: "find (\<lambda>p. p_Name p = ?name) permissionRegistry = Some (permissionRegistry ! j)"
      using j by (auto simp: registry_find)
    have "bit m' k \<longleftrightarrow> bit (m OR 2 ^ j) k \<or> k < 27 \<and> pname k \<in> normal_name ` set names \<and> pname k \<notin> insert ?name seen"
      using "2.IH"(3) [OF refl 3(1,2) find] run j by (simp add: registry_bit)
    with j 3(2) show ?thesis by (auto simp: bit_or_iff bit_permission dest: pname_inj)
  qed
qed simp

lemma mask_loop_unknown:
  "(mask_loop names seen m = Inl e) \<longleftrightarrow> e = IdPermissionRegistryUnknown \<and>
     (\<exists>n\<in>set names. normal_name n \<noteq> [] \<and> normal_name n \<notin> seen \<and> (\<forall>k<27. pname k \<noteq> normal_name n))"
proof (induction names seen m rule: mask_loop.induct)
  case (2 rawName names seen m)
  let ?f = "find (\<lambda>p. p_Name p = normal_name rawName) permissionRegistry"
  have none: "?f = None \<longleftrightarrow> (\<forall>k<27. pname k \<noteq> normal_name rawName)"
    by (auto simp: find_None_iff registry_set)
  show ?case
  proof (cases ?f)
    case None
    with 2(1,2) none show ?thesis by (auto simp: Let_def)
  next
    case (Some p)
    then obtain j where "j < 27" "pname j = normal_name rawName" by (auto simp: registry_find)
    with 2 Some show ?thesis by (auto simp: Let_def)
  qed
qed simp


lemma MaskFromNames_bits:
  "PermissionsMaskFromNames names = Inr m \<Longrightarrow> bit m k \<longleftrightarrow> k < 27 \<and> pname k \<in> normal_name ` set names"
  unfolding PermissionsMaskFromNames_def by (drule mask_loop_bits [of _ _ _ _ k]) simp

lemma inside_all: "(\<forall>k. bit m k \<longrightarrow> k < 27) \<longleftrightarrow> m AND NOT AllPermissionsMask = 0"
proof
  assume "m AND NOT AllPermissionsMask = 0"
  then have "\<not> bit (m AND NOT AllPermissionsMask) k" for k by simp
  then show "\<forall>k. bit m k \<longrightarrow> k < 27"
    using bit_imp_le_length by (fastforce simp: bit_and_iff bit_not_iff bit_AllPermissionsMask)
qed (auto simp: bit_eq_iff bit_and_iff bit_not_iff bit_AllPermissionsMask)

lemma within_all: "(\<forall>k. bit m k \<longrightarrow> k < 27) \<Longrightarrow> uint m < 2 ^ 27"
proof -
  assume "\<forall>k. bit m k \<longrightarrow> k < 27"
  then have "m = take_bit 27 m" by (auto simp: bit_eq_iff bit_take_bit_iff)
  then have "uint m = take_bit 27 (uint m)" by (metis unsigned_take_bit_eq)
  then show ?thesis by (metis take_bit_int_less_exp)
qed

text \<open>What a list of names denotes: the trimmed and lower-cased names, blank ones left out.\<close>

definition names_meant :: "string list \<Rightarrow> string set" where
  "names_meant names = normal_name ` set names - {[]}"

definition known_names :: "string set" where
  "known_names = p_Name ` set permissionRegistry"

lemma known_names_iff: "n \<in> known_names \<longleftrightarrow> (\<exists>k<27. pname k = n)"
  unfolding known_names_def by (metis (no_types, lifting) imageE image_eqI registry_set)

section \<open>Properties\<close>

text \<open>
  Claim C37. The permissions a member has with a list of roles (computed by or-ing the masks of the roles) are exactly those that one of
  the roles has by itself, listed in order without repetition: computing with masks is the same as the union of sets of
  names.
\<close>

theorem permissions_of_roles:
  "HasPermission (EffectivePermissions roles) name =
     list_ex (\<lambda>r. HasPermission (PermissionNamesFromMask (rl_PermissionsMask r)) name) roles \<and>
   EffectivePermissions roles =
     sorted_list_of_set (\<Union>r\<in>set roles. set (PermissionNamesFromMask (rl_PermissionsMask r)))"
proof
  have union: "set (EffectivePermissions roles) = (\<Union>r\<in>set roles. set (PermissionNamesFromMask (rl_PermissionsMask r)))"
    by (auto simp: EffectivePermissions_def names_set bit_foldl_or)
  then show "HasPermission (EffectivePermissions roles) name =
      list_ex (\<lambda>r. HasPermission (PermissionNamesFromMask (rl_PermissionsMask r)) name) roles"
    by (auto simp: HasPermission_def list_ex_iff)
  have "sorted (EffectivePermissions roles)" "distinct (EffectivePermissions roles)"
    by (simp_all add: EffectivePermissions_def names_ordered)
  with union show "EffectivePermissions roles =
      sorted_list_of_set (\<Union>r\<in>set roles. set (PermissionNamesFromMask (rl_PermissionsMask r)))"
    by (metis sorted_list_of_set.idem_if_sorted_distinct)
qed

text \<open>
  Masks and lists of permission names describe the same thing. A mask turned into names and back is the mask without
  its unregistered bits. A list of names turned into a mask and back is the list of the names it denotes, in order and without
  repetition; the conversion fails exactly if one of the names is not in the registry.
\<close>

lemma permissions_roundtrip:
  "PermissionsMaskFromNames (PermissionNamesFromMask m) = Inr (m AND AllPermissionsMask) \<and>
   map_sum id PermissionNamesFromMask (PermissionsMaskFromNames names) =
     (if names_meant names \<subseteq> known_names then Inr (sorted_list_of_set (names_meant names))
      else Inl IdPermissionRegistryUnknown)"
proof
  let ?r = "PermissionsMaskFromNames (PermissionNamesFromMask m)"
  have "?r \<noteq> Inl e" for e
    by (auto simp: PermissionsMaskFromNames_def mask_loop_unknown names_set pname_normal)
  then obtain m' where m': "?r = Inr m'" by (cases ?r) auto
  have "bit m' k = bit (m AND AllPermissionsMask) k" for k
    by (auto simp: MaskFromNames_bits [OF m'] names_set bit_and_iff bit_AllPermissionsMask image_iff)
      (metis pname_inj pname_normal, metis pname_normal)
  with m' show "?r = Inr (m AND AllPermissionsMask)" by (simp add: bit_eq_iff)
next
  have unknown: "names_meant names \<subseteq> known_names \<longleftrightarrow> (\<forall>e. PermissionsMaskFromNames names \<noteq> Inl e)"
    by (auto simp: PermissionsMaskFromNames_def mask_loop_unknown names_meant_def subset_iff known_names_iff)
  show "map_sum id PermissionNamesFromMask (PermissionsMaskFromNames names) =
     (if names_meant names \<subseteq> known_names then Inr (sorted_list_of_set (names_meant names))
      else Inl IdPermissionRegistryUnknown)"
  proof (cases "PermissionsMaskFromNames names")
    case (Inl e)
    moreover from this have "e = IdPermissionRegistryUnknown" by (simp add: PermissionsMaskFromNames_def mask_loop_unknown)
    ultimately show ?thesis using unknown by simp
  next
    case (Inr m')
    with unknown have known: "names_meant names \<subseteq> known_names" by auto
    have "n \<in> set (PermissionNamesFromMask m') \<longleftrightarrow> n \<in> known_names \<and> n \<in> normal_name ` set names" for n
      unfolding names_set MaskFromNames_bits [OF Inr] known_names_iff by blast
    moreover have "[] \<notin> known_names" using pname_normal by (auto simp: known_names_iff)
    ultimately have "set (PermissionNamesFromMask m') = names_meant names"
      using known by (auto simp: names_meant_def)
    with names_ordered [of m'] have "PermissionNamesFromMask m' = sorted_list_of_set (names_meant names)"
      by (metis sorted_list_of_set.idem_if_sorted_distinct)
    with Inr known show ?thesis by simp
  qed
qed

text \<open>
  A mask that a request may set, by a number or by names, is never negative and has registered bits only, so it
  is below two to the power of 27 and no role exceeds the owner's permissions.
\<close>

lemma resolved_mask_bounds:
  assumes "resolvePermissionMask names given = Inr m"
  shows "m AND NOT AllPermissionsMask = 0 \<and> 0 \<le> sint m \<and> sint m < 2 ^ 27"
proof -
  have bits: "\<forall>k. bit m k \<longrightarrow> k < 27"
  proof (cases given)
    case None
    with assms have "PermissionsMaskFromNames names = Inr m"
      by (simp add: resolvePermissionMask_def split: sum.splits)
    then show ?thesis by (simp add: MaskFromNames_bits)
  next
    case (Some x)
    with assms show ?thesis unfolding inside_all by (simp add: resolvePermissionMask_def split: if_splits)
  qed
  from within_all [OF bits] have "uint m < 2 ^ 27" .
  moreover have "sint m = uint m"
    unfolding sint_uint using \<open>uint m < 2 ^ 27\<close>
    by (intro signed_take_bit_int_eq_self order_trans [OF _ uint_ge_0 [of m]]) simp_all
  ultimately show ?thesis using inside_all bits by simp
qed

end
