(* ===== verification/World.thy ===== *)
theory World
  imports Prelude "HOL-Library.State_Monad"
begin

text \<open>
  The outside world of a command handler: a PostgreSQL database behind \<open>platform/postgres\<close> and
  \<open>platform/transaction\<close>, and an id generator. A handler is a program of the state monad over the
  world. Every call that leaves the process may go wrong, and the world carries the list of what
  will happen to the next calls, so a theorem about all worlds is a theorem about all faults:

  \<^item> \<open>OK\<close>: the call succeeds (also when the list is used up);
  \<^item> \<open>Fail\<close>: the call has no effect and returns an error;
  \<^item> \<open>LostAck\<close>: the call takes effect, but the connection breaks and the caller sees an error.

  A statement runs in the transaction of its context if there is one, else on its own. Inside a
  transaction an error leaves the transaction aborted, as PostgreSQL does: later statements are
  refused and the commit turns into a rollback. The programs run one at a time.
\<close>

section \<open>Errors\<close>

text \<open>
  A Go \<open>error\<close> is an error of the module's own (\<open>Err\<close>), or comes from a layer below:
  the database driver, an aborted transaction, Redis, the random source of the id generator,
  the event envelope, the object store, the mail sender; \<open>ErrLocal\<close> is a value a function makes for itself with
  \<open>errors.New\<close>, \<open>ErrPanic\<close> a run-time panic that ends the call. \<open>NonRetryable\<close> is the wrapper the
  consumers use for errors that must not be retried.
\<close>

datatype 'e goerr =
    Err 'e
  | ErrDriver
  | ErrTxAborted
  | ErrRedis
  | ErrIDGen
  | ErrEnvelope
  | ErrStorage
  | ErrSender string
  | ErrLocal string
  | ErrPanic
  | NonRetryable "'e goerr"

type_synonym ('e, 'a) result = "'e goerr + 'a"

section \<open>The world\<close>

datatype outcome = OK | Fail | LostAck

record 'db world =
  store :: 'db
  in_tx :: bool
  aborted :: bool
  outcomes :: "outcome list"
  id_ctr :: nat

abbreviation ret :: "'a \<Rightarrow> ('s, 'a) state" where
  "ret \<equiv> State_Monad.return"

definition next_outcome :: "(('db, 'm) world_scheme, outcome) state" where
  "next_outcome = State (\<lambda>w.
     case outcomes w of [] \<Rightarrow> (OK, w) | x # xs \<Rightarrow> (x, w\<lparr>outcomes := xs\<rparr>))"

text \<open>
  What the server does with a statement: it refuses it (\<open>SqlErr\<close>), or it executes it, with the
  new state of the database and what the repository function makes of the answer (which may be
  an error too, e.g. that no row was affected).
\<close>

datatype ('db, 'e, 'a) sql = SqlErr "'e goerr" | SqlOk "('e, 'a) result" 'db

text \<open>\<open>db.Exec\<close>, \<open>db.Query\<close> and \<open>db.QueryRow\<close> on what \<open>getDB(ctx)\<close> returns.\<close>

definition exec :: "('db \<Rightarrow> ('db, 'e, 'a) sql) \<Rightarrow> (('db, 'm) world_scheme, ('e, 'a) result) state" where
  "exec q = State (\<lambda>w.
     if in_tx w \<and> aborted w then (Inl ErrTxAborted, w)
     else case run_state next_outcome w of (x, w1) \<Rightarrow>
       if x = Fail then (Inl ErrDriver, w1\<lparr>aborted := in_tx w1\<rparr>)
       else case q (store w1) of
         SqlErr e \<Rightarrow> (Inl e, w1\<lparr>aborted := in_tx w1\<rparr>)
       | SqlOk r d \<Rightarrow>
           if x = OK then (r, w1\<lparr>store := d\<rparr>)
           else (Inl ErrDriver, if in_tx w1 then w1\<lparr>aborted := True\<rparr> else w1\<lparr>store := d\<rparr>))"

text \<open>
  \<open>Manager.WithinTx\<close> on \<open>pgx.BeginFunc\<close>: begin, run the body, roll back if it returns an error,
  else commit. A commit of an aborted transaction is a rollback and an error. A commit whose
  answer is lost has happened.
\<close>

definition rollback :: "'db \<Rightarrow> ('db, 'm) world_scheme \<Rightarrow> ('db, 'm) world_scheme" where
  "rollback d w = w\<lparr>store := d, in_tx := False, aborted := False\<rparr>"

definition WithinTx ::
  "(('db, 'm) world_scheme, ('e, 'a) result) state \<Rightarrow> (('db, 'm) world_scheme, ('e, 'a) result) state" where
  "WithinTx body = State (\<lambda>w.
     case run_state next_outcome w of (x, w1) \<Rightarrow>
       if x \<noteq> OK then (Inl ErrDriver, w1)
       else case run_state body (w1\<lparr>in_tx := True, aborted := False\<rparr>) of (r, w2) \<Rightarrow>
         (case r of
            Inl e \<Rightarrow> (Inl e, rollback (store w) w2)
          | Inr a \<Rightarrow>
              if aborted w2 then (Inl ErrTxAborted, rollback (store w) w2)
              else case run_state next_outcome w2 of (y, w3) \<Rightarrow>
                if y = OK then (Inr a, w3\<lparr>in_tx := False\<rparr>)
                else if y = LostAck then (Inl ErrDriver, w3\<lparr>in_tx := False\<rparr>)
                else (Inl ErrDriver, rollback (store w) w3)))"

text \<open>
  \<open>idGen()\<close>: the n-th id of the process, or an error when the random source fails. Which ids a
  process draws is an argument.
\<close>

definition idGen :: "(nat \<Rightarrow> string) \<Rightarrow> (('db, 'm) world_scheme, ('e, string) result) state" where
  "idGen gen = State (\<lambda>w.
     case run_state next_outcome w of (x, w1) \<Rightarrow>
       if x = OK then (Inr (gen (id_ctr w1)), w1\<lparr>id_ctr := Suc (id_ctr w1)\<rparr>) else (Inl ErrIDGen, w1))"

text \<open>A call to another module or service, with the answer it has: it may fail on the way.\<close>

definition remote :: "('e, 'a) result \<Rightarrow> (('db, 'm) world_scheme, ('e, 'a) result) state" where
  "remote answer = do { x \<leftarrow> next_outcome; ret (if x = OK then answer else Inl ErrDriver) }"

text \<open>
  The two shapes of Go error handling: \<open>if err := op(); err != nil { return err }\<close>, and the same
  with a value.
\<close>

definition bindE ::
  "('s, ('e, 'a) result) state \<Rightarrow> ('a \<Rightarrow> ('s, ('e, 'b) result) state) \<Rightarrow> ('s, ('e, 'b) result) state" where
  "bindE f g = do { r \<leftarrow> f; case r of Inl e \<Rightarrow> ret (Inl e) | Inr a \<Rightarrow> g a }"

definition thenE ::
  "('s, ('e, 'a) result) state \<Rightarrow> ('s, ('e, 'b) result) state \<Rightarrow> ('s, ('e, 'b) result) state" where
  "thenE f g = bindE f (\<lambda>_. g)"

section \<open>Worlds without faults\<close>

lemma next_outcome_ok [simp]: "outcomes w = [] \<Longrightarrow> run_state next_outcome w = (OK, w)"
  by (simp add: next_outcome_def)

lemma next_outcome_cons [simp]:
  "outcomes w = x # xs \<Longrightarrow> run_state next_outcome w = (x, w\<lparr>outcomes := xs\<rparr>)"
  by (simp add: next_outcome_def)

lemma exec_ok [simp]:
  "outcomes w = [] \<Longrightarrow> \<not> aborted w \<Longrightarrow> q (store w) = SqlOk r d \<Longrightarrow>
   run_state (exec q) w = (r, w\<lparr>store := d\<rparr>)"
  by (simp add: exec_def)

lemma idGen_ok [simp]:
  "outcomes w = [] \<Longrightarrow> run_state (idGen gen) w = (Inr (gen (id_ctr w)), w\<lparr>id_ctr := Suc (id_ctr w)\<rparr>)"
  by (simp add: idGen_def)

lemma WithinTx_ok:
  assumes "outcomes w = []"
    and "run_state body (w\<lparr>in_tx := True, aborted := False\<rparr>) = (Inr a, w2)"
    and "\<not> aborted w2" and "outcomes w2 = []"
  shows "run_state (WithinTx body) w = (Inr a, w2\<lparr>in_tx := False\<rparr>)"
  using assms by (simp add: WithinTx_def)

lemma run_bindE:
  "run_state (bindE f g) w =
     (case run_state f w of (Inl e, w') \<Rightarrow> (Inl e, w') | (Inr a, w') \<Rightarrow> run_state (g a) w')"
  by (auto simp: bindE_def split: prod.splits sum.splits)

lemma run_thenE:
  "run_state (thenE f g) w =
     (case run_state f w of (Inl e, w') \<Rightarrow> (Inl e, w') | (Inr a, w') \<Rightarrow> run_state g w')"
  by (simp add: thenE_def run_bindE)

lemma bindE_InrD:
  assumes "run_state (bindE f g) w = (Inr b, w')"
  obtains a v where "run_state f w = (Inr a, v)" and "run_state (g a) v = (Inr b, w')"
  using assms by (auto simp: run_bindE split: prod.splits sum.splits)

lemma idGen_InrD:
  "run_state (idGen gen) w = (Inr i, w') \<Longrightarrow> i = gen (id_ctr w) \<and> store w' = store w \<and> id_ctr w' = Suc (id_ctr w)"
  by (auto simp: idGen_def next_outcome_def split: list.splits if_splits)

lemma thenE_InrD:
  assumes "run_state (thenE f g) w = (Inr b, w')"
  obtains a v where "run_state f w = (Inr a, v)" and "run_state g v = (Inr b, w')"
  using assms unfolding thenE_def by (rule bindE_InrD)

lemma exec_InrD: "run_state (exec q) w = (Inr a, w') \<Longrightarrow> q (store w) = SqlOk (Inr a) (store w')"
  by (auto simp: exec_def next_outcome_def split: list.splits if_splits sql.splits)

text \<open>
  A transaction is all or nothing, whatever goes wrong: either the store is as before, or the body
  ran to its end and the store is what it left. If the caller sees success, the latter.
\<close>

lemma WithinTx_atomic:
  assumes run: "run_state (WithinTx body) w = (r, w')"
  shows "store w' = store w \<and> (\<forall>a. r \<noteq> Inr a) \<or>
    (\<exists>w1 a w2. store w1 = store w \<and> run_state body w1 = (Inr a, w2) \<and> store w' = store w2 \<and>
       (\<forall>b. r = Inr b \<longrightarrow> b = a))"
proof -
  obtain x w1 where 1: "run_state next_outcome w = (x, w1)" by fastforce
  obtain s w2 where 2: "run_state body (w1\<lparr>in_tx := True, aborted := False\<rparr>) = (s, w2)" by fastforce
  obtain y w3 where 3: "run_state next_outcome w2 = (y, w3)" by fastforce
  have st: "store w1 = store w" "store w3 = store w2"
    using 1 3 by (auto simp: next_outcome_def split: list.splits)
  have "store w' = store w \<and> (\<forall>a. r \<noteq> Inr a) \<or>
      (\<exists>a. s = Inr a \<and> store w' = store w3 \<and> (\<forall>b. r = Inr b \<longrightarrow> b = a))"
    using run 1 2 3 st
    by (cases "x = OK"; cases s; cases "aborted w2"; cases y) (auto simp: WithinTx_def rollback_def)
  then show ?thesis using 2 st by (metis simps(1) ext_inject surjective update_convs(2,3))
qed

text \<open>What a caller knows that saw the transaction succeed: only the world's bookkeeping lies between.\<close>

lemma WithinTx_InrD:
  assumes "run_state (WithinTx body) w = (Inr a, w')"
  obtains xs w2 ys where "run_state body (w\<lparr>outcomes := xs, in_tx := True, aborted := False\<rparr>) = (Inr a, w2)"
    and "w' = w2\<lparr>outcomes := ys, in_tx := False\<rparr>"
proof -
  obtain x w1 where 1: "run_state next_outcome w = (x, w1)" by fastforce
  then have w1: "w1 = w\<lparr>outcomes := outcomes w1\<rparr>" by (auto simp: next_outcome_def split: list.splits)
  obtain s w2 where 2: "run_state body (w1\<lparr>in_tx := True, aborted := False\<rparr>) = (s, w2)" by fastforce
  obtain y w3 where 3: "run_state next_outcome w2 = (y, w3)" by fastforce
  then have w3: "w3 = w2\<lparr>outcomes := outcomes w3\<rparr>" by (auto simp: next_outcome_def split: list.splits)
  have "s = Inr a \<and> w' = w3\<lparr>in_tx := False\<rparr>"
    using assms 1 2 3 by (cases "x = OK"; cases s; cases "aborted w2"; cases y) (auto simp: WithinTx_def)
  moreover have "w1\<lparr>in_tx := True, aborted := False\<rparr> = w\<lparr>outcomes := outcomes w1, in_tx := True, aborted := False\<rparr>"
    by (subst w1) simp
  moreover have "w3\<lparr>in_tx := False\<rparr> = w2\<lparr>outcomes := outcomes w3, in_tx := False\<rparr>" by (subst w3) simp
  ultimately show thesis using 2 that by metis
qed

section \<open>Programs that keep a relation\<close>

text \<open>
  Most of what is said about a handler under faults is a relation between the world before and
  the world after that every statement respects: nothing is handed to the provider, only one row
  changes, a status only moves forward. The locale collects what such a relation needs so that
  sequencing, branching, transactions and id generation respect it whenever the statements do.
  \<open>state_io_rel R f\<close> says that \<open>f\<close> relates every world to the one it leaves.
\<close>

lemma state_io_relE: "state_io_rel R f \<Longrightarrow> R w (snd (run_state f w))"
  by (simp add: state_io_rel_def)

lemma io_rel_case_sum:
  "(\<And>e. x = Inl e \<Longrightarrow> state_io_rel R (f e)) \<Longrightarrow> (\<And>a. x = Inr a \<Longrightarrow> state_io_rel R (g a)) \<Longrightarrow>
   state_io_rel R (case x of Inl e \<Rightarrow> f e | Inr a \<Rightarrow> g a)"
  by (cases x) simp_all

lemma io_rel_case_option:
  "(x = None \<Longrightarrow> state_io_rel R f) \<Longrightarrow> (\<And>a. x = Some a \<Longrightarrow> state_io_rel R (g a)) \<Longrightarrow>
   state_io_rel R (case x of None \<Rightarrow> f | Some a \<Rightarrow> g a)"
  by (cases x) simp_all

lemma io_rel_case_prod:
  "(\<And>a b. x = (a, b) \<Longrightarrow> state_io_rel R (f a b)) \<Longrightarrow> state_io_rel R (case x of (a, b) \<Rightarrow> f a b)"
  by (cases x) simp

lemma io_rel_if:
  "(b \<Longrightarrow> state_io_rel R f) \<Longrightarrow> (\<not> b \<Longrightarrow> state_io_rel R g) \<Longrightarrow> state_io_rel R (if b then f else g)"
  by simp

lemma io_rel_Let: "(\<And>x. x = a \<Longrightarrow> state_io_rel R (f x)) \<Longrightarrow> state_io_rel R (Let a f)"
  by simp

lemmas io_rel_split = io_rel_case_sum io_rel_case_option io_rel_case_prod io_rel_if io_rel_Let

locale world_rel =
  fixes R :: "('db, 'm) world_scheme \<Rightarrow> ('db, 'm) world_scheme \<Rightarrow> bool"
  assumes R_refl: "R w w"
    and R_trans: "R u v \<Longrightarrow> R v w \<Longrightarrow> R u w"
    and R_outcomes: "outcomes w = x # xs \<Longrightarrow> R w (w\<lparr>outcomes := xs\<rparr>)"
    and R_id_ctr: "R w (w\<lparr>id_ctr := Suc (id_ctr w)\<rparr>)"
    and R_in_tx: "R w (w\<lparr>in_tx := b\<rparr>)"
    and R_aborted: "R w (w\<lparr>aborted := c\<rparr>)"
    and R_rollback: "R w w' \<Longrightarrow> R w (w'\<lparr>store := store w\<rparr>)"
begin

lemma R_update:
  assumes "R w w'"
  shows "R w (w'\<lparr>id_ctr := Suc (id_ctr w')\<rparr>)" and "R w (w'\<lparr>in_tx := b\<rparr>)"
    and "R w (w'\<lparr>aborted := c\<rparr>)"
  using assms by (blast intro: R_trans R_id_ctr R_in_tx R_aborted)+

lemma keeps_return: "state_io_rel R (ret a)"
  by (simp add: state_io_rel_def R_refl)

lemma keeps_bind:
  assumes "state_io_rel R f" and "\<And>a. state_io_rel R (g a)"
  shows "state_io_rel R (State_Monad.bind f g)"
proof (rule state_io_relI)
  fix b w w' assume "run_state (State_Monad.bind f g) w = (b, w')"
  then obtain a v where "run_state f w = (a, v)" and "run_state (g a) v = (b, w')"
    by (auto split: prod.splits)
  with assms show "R w w'" by (meson R_trans state_io_relD)
qed

lemma keeps_bindE:
  assumes "state_io_rel R f" and "\<And>a. state_io_rel R (g a)"
  shows "state_io_rel R (bindE f g)"
  unfolding bindE_def using assms by (intro keeps_bind io_rel_case_sum keeps_return)

lemma keeps_thenE:
  "state_io_rel R f \<Longrightarrow> state_io_rel R g \<Longrightarrow> state_io_rel R (thenE f g)"
  unfolding thenE_def by (rule keeps_bindE)

lemma R_next_outcome: "run_state next_outcome w = (x, w') \<Longrightarrow> R w w'"
  by (auto simp: next_outcome_def R_refl R_outcomes split: list.splits)

lemma keeps_idGen: "state_io_rel R (idGen gen)"
  by (auto simp: state_io_rel_def idGen_def split: prod.splits
      dest!: R_next_outcome intro: R_update)

lemma keeps_exec:
  assumes "\<And>w r d. q (store w) = SqlOk r d \<Longrightarrow> R w (w\<lparr>store := d\<rparr>)"
  shows "state_io_rel R (exec q)"
proof (rule state_io_relI)
  fix a and w w' :: "('db, 'm) world_scheme"
  assume run: "run_state (exec q) w = (a, w')"
  obtain x w1 where 1: "run_state next_outcome w = (x, w1)" by fastforce
  then have w1: "R w w1" by (rule R_next_outcome)
  have "R w (w1\<lparr>store := d\<rparr>)" if "q (store w1) = SqlOk r d" for r d
    using w1 assms [OF that] by (rule R_trans)
  with run w1 show "R w w'"
    by (auto simp: exec_def 1 R_refl split: sql.splits if_splits intro: R_update)
qed

lemma next_outcome_store: "run_state next_outcome w = (x, w') \<Longrightarrow> store w' = store w"
  by (auto simp: next_outcome_def split: list.splits)

lemma R_rollback': "R w w' \<Longrightarrow> R w (rollback (store w) w')"
  unfolding rollback_def by (intro R_update R_rollback)

lemma keeps_WithinTx:
  assumes body: "state_io_rel R body"
  shows "state_io_rel R (WithinTx body)"
proof (rule state_io_relI)
  fix r w w' assume run: "run_state (WithinTx body) w = (r, w')"
  obtain x w1 where 1: "run_state next_outcome w = (x, w1)" by fastforce
  obtain s w2 where 2: "run_state body (w1\<lparr>in_tx := True, aborted := False\<rparr>) = (s, w2)" by fastforce
  obtain y w3 where 3: "run_state next_outcome w2 = (y, w3)" by fastforce
  have w1: "R w w1" using 1 by (rule R_next_outcome)
  have "R w1 (w1\<lparr>in_tx := True, aborted := False\<rparr>)"
    by (intro R_update R_refl)
  with w1 2 body have w2: "R w w2" by (meson R_trans state_io_relD)
  with 3 have w3: "R w w3" by (meson R_trans R_next_outcome)
  have "w' = w1 \<or> w' = rollback (store w) w2 \<or> w' = rollback (store w) w3 \<or> w' = w3\<lparr>in_tx := False\<rparr>"
    using run 1 2 3
    by (cases "x = OK"; cases s; cases "aborted w2"; cases y) (simp_all add: WithinTx_def)
  with w1 w2 w3 show "R w w'"
    by (elim disjE) (simp_all add: R_rollback' R_update)
qed

lemmas keeps_prog = keeps_return keeps_bind keeps_bindE keeps_thenE keeps_idGen keeps_WithinTx
  io_rel_split

end

end
