(* ===== verification/Security.thy ===== *)
theory Security
  imports World "HOL-Library.Word"
begin

text \<open>
  \<open>internal/platform/security/password.go\<close>: the password policy, password hashing, hashed tokens, HMAC signatures and one-time
  codes; with the unpadded URL alphabet of \<open>encoding/base64\<close> they are written in. A Go string and a byte slice are both
  strings of HOL, whose characters are bytes. The cryptographic primitives (\<open>bcrypt\<close>, \<open>SHA\<close>, \<open>HMAC\<close>, base 32) are the record
  \<open>crypto\<close>, an argument of the definitions that use them.
\<close>

section \<open>Base 64\<close>

abbreviation byte :: "char \<Rightarrow> nat" where "byte c \<equiv> of_char c"

definition url_alphabet :: string where
  "url_alphabet = ''ABCDEFGHIJKLMNOPQRSTUVWXYZabcdefghijklmnopqrstuvwxyz0123456789-_''"

fun sextets :: "nat list \<Rightarrow> nat list" where
  "sextets [] = []"
| "sextets [a] = [a div 4, (a mod 4) * 16]"
| "sextets [a, b] = [a div 4, (a mod 4) * 16 + b div 16, (b mod 16) * 4]"
| "sextets (a # b # c # r) =
     a div 4 # ((a mod 4) * 16 + b div 16) # ((b mod 16) * 4 + c div 64) # (c mod 64) # sextets r"

text \<open>A single sextet left at the end is an error; unused low bits are not looked at.\<close>

fun octets :: "nat list \<Rightarrow> nat list option" where
  "octets [] = Some []"
| "octets [x] = None"
| "octets [x, y] = Some [x * 4 + y div 16]"
| "octets [x, y, z] = Some [x * 4 + y div 16, (y mod 16) * 16 + z div 4]"
| "octets (x # y # z # t # r) =
     map_option (\<lambda>bs. (x * 4 + y div 16) # ((y mod 16) * 16 + z div 4) # ((z mod 4) * 64 + t) # bs) (octets r)"

definition RawURLEncode :: "string \<Rightarrow> string" where
  "RawURLEncode s = map (\<lambda>i. url_alphabet ! i) (sextets (map byte s))"

fun index_of :: "char \<Rightarrow> string \<Rightarrow> nat option" where
  "index_of c [] = None"
| "index_of c (x # xs) = (if x = c then Some 0 else map_option Suc (index_of c xs))"

fun all_some :: "'a option list \<Rightarrow> 'a list option" where
  "all_some [] = Some []"
| "all_some (None # r) = None"
| "all_some (Some a # r) = map_option (Cons a) (all_some r)"

text \<open>The decoder skips line breaks.\<close>

definition RawURLDecode :: "string \<Rightarrow> string option" where
  "RawURLDecode s =
     (case all_some (map (\<lambda>c. index_of c url_alphabet) (filter (\<lambda>c. c \<noteq> CHR 0x0A \<and> c \<noteq> CHR 0x0D) s)) of
        None \<Rightarrow> None
      | Some is \<Rightarrow> map_option (map char_of) (octets is))"

section \<open>Passwords and tokens\<close>

text \<open>
  \<open>c_bcrypt salt password\<close>: \<open>bcrypt.GenerateFromPassword\<close> with the salt it draws, \<open>None\<close> for an error; \<open>c_matches\<close>:
  \<open>bcrypt.CompareHashAndPassword\<close>; \<open>c_hmac1 key msg\<close>, \<open>c_hmac256 key msg\<close>: HMAC with SHA-1 and with SHA-256;
  \<open>c_b32\<close>: decoding of unpadded base 32.
\<close>

record crypto =
  c_bcrypt :: "nat \<Rightarrow> string \<Rightarrow> string option"
  c_matches :: "string \<Rightarrow> string \<Rightarrow> bool"
  c_sha256 :: "string \<Rightarrow> string"
  c_hmac1 :: "string \<Rightarrow> string \<Rightarrow> string"
  c_hmac256 :: "string \<Rightarrow> string \<Rightarrow> string"
  c_b32 :: "string \<Rightarrow> string option"

definition Hasher_Hash :: "crypto \<Rightarrow> nat \<Rightarrow> string \<Rightarrow> string option" where
  "Hasher_Hash C salt password = (if password = [] then None else c_bcrypt C salt password)"

definition Hasher_Compare :: "crypto \<Rightarrow> string \<Rightarrow> string \<Rightarrow> bool" where
  "Hasher_Compare C hash password = c_matches C hash password"

text \<open>
  The loop ranges over code points. A byte below 128 is one, and a byte of a longer or malformed sequence falls into the
  default case however it is grouped, so a loop over bytes classifies alike.
\<close>

definition is_upper :: "char \<Rightarrow> bool" where "is_upper c \<longleftrightarrow> 65 \<le> byte c \<and> byte c \<le> 90"
definition is_lower :: "char \<Rightarrow> bool" where "is_lower c \<longleftrightarrow> 97 \<le> byte c \<and> byte c \<le> 122"
definition is_number :: "char \<Rightarrow> bool" where "is_number c \<longleftrightarrow> 48 \<le> byte c \<and> byte c \<le> 57"

definition ValidatePasswordPolicy :: "string \<Rightarrow> string option" where
  "ValidatePasswordPolicy password =
     (if 128 < length password then Some ''password must not exceed 128 characters''
      else if length password < 12 then Some ''password must be at least 12 characters''
      else if \<not> list_ex is_upper password \<or> \<not> list_ex is_lower password \<or> \<not> list_ex is_number password \<or>
        \<not> list_ex (\<lambda>c. \<not> is_upper c \<and> \<not> is_lower c \<and> \<not> is_number c) password
      then Some ''password must include upper, lower, number, and special characters''
      else None)"

definition HashToken :: "crypto \<Rightarrow> string \<Rightarrow> string" where
  "HashToken C token = RawURLEncode (c_sha256 C token)"

definition SignHMACSHA256 :: "crypto \<Rightarrow> string \<Rightarrow> string \<Rightarrow> string option" where
  "SignHMACSHA256 C payload secret = (if secret = [] then None else Some (RawURLEncode (c_hmac256 C secret payload)))"

definition VerifyHMACSHA256 :: "crypto \<Rightarrow> string \<Rightarrow> string \<Rightarrow> string \<Rightarrow> bool" where
  "VerifyHMACSHA256 C payload signature secret =
     (case SignHMACSHA256 C payload secret of None \<Rightarrow> False | Some expected \<Rightarrow> TrimSpace signature = expected)"

section \<open>One-time codes\<close>

definition to_upper_char :: "char \<Rightarrow> char" where
  "to_upper_char c = (if is_lower c then char_of (byte c - 32) else c)"

definition ToUpper :: "string \<Rightarrow> string" where
  "ToUpper s = map to_upper_char s"

text \<open>The first twelve characters of a random token, in groups of four.\<close>

definition recovery_code :: "string \<Rightarrow> string" where
  "recovery_code raw = ToUpper (take 4 raw @ ''-'' @ take 4 (drop 4 raw) @ ''-'' @ take 4 (drop 8 raw))"

text \<open>\<open>t.Unix()\<close>, and division as in Go, which rounds towards zero.\<close>

definition Unix :: "gotime \<Rightarrow> int" where
  "Unix t = t div second"

definition quot :: "int \<Rightarrow> int \<Rightarrow> int" where
  "quot a b = (if a < 0 then - ((- a) div b) else a div b)"

definition counter_bytes :: "64 word \<Rightarrow> string" where
  "counter_bytes counter = map (\<lambda>k. char_of (unat (ucast (drop_bit k counter) :: 8 word))) [56, 48, 40, 32, 24, 16, 8, 0]"

text \<open>\<open>fmt.Sprintf("%06d", n)\<close> for n below a million.\<close>

definition six_digits :: "nat \<Rightarrow> string" where
  "six_digits n = map (\<lambda>k. char_of (48 + n div 10 ^ k mod 10)) [5, 4, 3, 2, 1, 0]"

definition truncated :: "string \<Rightarrow> nat option" where
  "truncated mac =
     (if mac = [] then None
      else let offset = byte (last mac) mod 16 in
        if length mac \<le> offset + 3 then None
        else Some ((byte (mac ! offset) mod 128) * 2 ^ 24 + byte (mac ! (offset + 1)) * 2 ^ 16 +
          byte (mac ! (offset + 2)) * 2 ^ 8 + byte (mac ! (offset + 3))))"

text \<open>\<open>ErrPanic\<close>: an index of the HMAC out of range. The period is a \<open>uint\<close>.\<close>

definition TOTPCode :: "crypto \<Rightarrow> string \<Rightarrow> gotime \<Rightarrow> nat \<Rightarrow> ('e, string) result" where
  "TOTPCode C secret at period =
     (case c_b32 C (ToUpper (TrimSpace secret)) of
        None \<Rightarrow> Inl (ErrLocal ''decode totp secret'')
      | Some key \<Rightarrow>
          let p = (if period = 0 then 30 else period);
              counter = word_of_int (quot (Unix at) (int p));
              mac = c_hmac1 C key (counter_bytes counter)
          in case truncated mac of None \<Rightarrow> Inl ErrPanic | Some bin \<Rightarrow> Inr (six_digits (bin mod 1000000)))"

fun verify_skews :: "crypto \<Rightarrow> string \<Rightarrow> string \<Rightarrow> gotime \<Rightarrow> int list \<Rightarrow> bool" where
  "verify_skews C secret code now [] = False"
| "verify_skews C secret code now (skew # skews) =
     (case (TOTPCode C secret (now + skew) 30 :: (unit, string) result) of
        Inl _ \<Rightarrow> False
      | Inr expected \<Rightarrow> if expected = code then True else verify_skews C secret code now skews)"

definition VerifyTOTPCode :: "crypto \<Rightarrow> string \<Rightarrow> string \<Rightarrow> gotime \<Rightarrow> bool" where
  "VerifyTOTPCode C secret code now =
     verify_skews C secret (TrimSpace code) now [- 30 * second, 0, 30 * second]"


section \<open>Facts on base 64\<close>

lemma sextets_bound: "list_all (\<lambda>b. b < 256) bs \<Longrightarrow> list_all (\<lambda>i. i < 64) (sextets bs)"
  by (induction bs rule: sextets.induct) (auto simp: less_mult_imp_div_less)

lemma octets_sextets: "list_all (\<lambda>b. b < 256) bs \<Longrightarrow> octets (sextets bs) = Some bs"
proof (induction bs rule: sextets.induct)
  case (3 a b)
  then have "b div 16 < 16" by (simp add: less_mult_imp_div_less)
  then show ?case by (simp add: div_mult_mod_eq)
next
  case (4 a b c r)
  then have "b div 16 < 16" "c div 64 < 4" by (simp_all add: less_mult_imp_div_less)
  with 4 show ?case by (simp add: div_mult_mod_eq)
qed simp_all

lemma byte_less [simp]: "byte c < 256"
  by (metis of_char_mod_256 mod_less_divisor zero_less_numeral)

lemma char_of_byte [simp]: "char_of (byte c) = c"
  by (rule char_of_char)

lemma url_alphabet_ok: "length url_alphabet = 64" "distinct url_alphabet" "CHR ''.'' \<notin> set url_alphabet"
    "CHR 0x0A \<notin> set url_alphabet" "CHR 0x0D \<notin> set url_alphabet"
  by (simp_all add: url_alphabet_def)

lemma index_of_nth: "distinct xs \<Longrightarrow> i < length xs \<Longrightarrow> index_of (xs ! i) xs = Some i"
  by (induction xs arbitrary: i) (auto simp: nth_Cons split: nat.splits)

lemma all_some_map: "all_some (map f xs) = Some ys \<longleftrightarrow> map f xs = map Some ys"
proof (induction xs arbitrary: ys)
  case (Cons x xs)
  then show ?case by (cases "f x"; cases ys) auto
qed auto

lemma RawURLEncode_chars: "c \<in> set (RawURLEncode s) \<Longrightarrow> c \<in> set url_alphabet"
  using sextets_bound [of "map byte s"]
  by (auto simp: RawURLEncode_def list_all_iff url_alphabet_ok)

text \<open>What has been encoded is decoded again, and the code has no dots.\<close>

lemma RawURL_roundtrip [simp]: "RawURLDecode (RawURLEncode s) = Some s"
proof -
  let ?is = "sextets (map byte s)"
  have bound: "list_all (\<lambda>i. i < 64) ?is" by (rule sextets_bound) (simp add: list_all_iff)
  have "filter (\<lambda>c. c \<noteq> CHR 0x0A \<and> c \<noteq> CHR 0x0D) (RawURLEncode s) = RawURLEncode s"
    using RawURLEncode_chars url_alphabet_ok(4,5) by (intro filter_True ballI) blast
  moreover have "map (\<lambda>c. index_of c url_alphabet) (RawURLEncode s) = map Some ?is"
    using bound by (auto simp: RawURLEncode_def list_all_iff url_alphabet_ok index_of_nth)
  then have "all_some (map (\<lambda>c. index_of c url_alphabet) (RawURLEncode s)) = Some ?is" by (simp only: all_some_map)
  moreover have "octets ?is = Some (map byte s)" by (rule octets_sextets) (simp add: list_all_iff)
  ultimately show ?thesis by (simp add: RawURLDecode_def comp_def)
qed

lemma RawURLEncode_no_dot: "CHR ''.'' \<notin> set (RawURLEncode s)"
  using RawURLEncode_chars url_alphabet_ok(3) by blast

section \<open>Facts on one-time codes\<close>

text \<open>An HMAC with SHA-1 has twenty bytes.\<close>

definition hmac_sized :: "crypto \<Rightarrow> bool" where
  "hmac_sized C \<longleftrightarrow> (\<forall>key msg. length (c_hmac1 C key msg) = 20)"

text \<open>The code for one period of thirty seconds.\<close>

definition code_at :: "crypto \<Rightarrow> string \<Rightarrow> int \<Rightarrow> string" where
  "code_at C key n = six_digits (the (truncated (c_hmac1 C key (counter_bytes (word_of_int n)))) mod 1000000)"

lemma truncated_some: "length mac = 20 \<Longrightarrow> \<exists>n. truncated mac = Some n"
  using mod_less_divisor [of 16 "byte (last mac)"] by (auto simp: truncated_def Let_def)

lemma TOTPCode_result:
  assumes "hmac_sized C" and "c_b32 C (ToUpper (TrimSpace secret)) = Some key" and "0 \<le> Unix at"
  shows "TOTPCode C secret at 30 = Inr (code_at C key (Unix at div 30))"
  using assms truncated_some [of "c_hmac1 C key (counter_bytes (word_of_int (Unix at div 30)))"]
  by (auto simp: TOTPCode_def code_at_def quot_def hmac_sized_def Let_def)

lemma code_at_digits: "length (code_at C key n) = 6 \<and> list_all is_number (code_at C key n)"
  by (auto simp: code_at_def six_digits_def is_number_def)

lemma Unix_shift: "Unix (t + k * second) = Unix t + k"
  by (simp add: Unix_def)

lemma period_shift: "(x + -30) div 30 = x div 30 + -1" "(x + 30) div 30 = x div 30 + 1" for x :: int
  using div_add_self2 [of 30 x] div_add_self2 [of 30 "x - 30"] by simp_all

section \<open>Properties\<close>

text \<open>
  A one-time code is accepted exactly if it is, up to surrounding blanks, the code of the current period of thirty
  seconds, of the one before or of the one after; codes have six decimal digits, and computing them never indexes out of range.
  An undecodable secret accepts nothing.
\<close>

lemma totp_window:
  assumes "hmac_sized C" and "30 \<le> Unix now"
  shows "VerifyTOTPCode C secret code now \<longleftrightarrow>
    (case c_b32 C (ToUpper (TrimSpace secret)) of
       None \<Rightarrow> False
     | Some key \<Rightarrow> length (TrimSpace code) = 6 \<and> list_all is_number (TrimSpace code) \<and>
         (\<exists>d\<in>{-1, 0, 1}. TrimSpace code = code_at C key (Unix now div 30 + d)))"
proof (cases "c_b32 C (ToUpper (TrimSpace secret))")
  case None
  then show ?thesis by (simp add: VerifyTOTPCode_def TOTPCode_def)
next
  case (Some key)
  have code: "TOTPCode C secret (now + k * second) 30 = Inr (code_at C key ((Unix now + k) div 30))" if "-30 \<le> k" for k
    using TOTPCode_result [OF assms(1) Some, of "now + k * second"] assms(2) that by (simp add: Unix_shift)
  have "(TOTPCode C secret (now + - 30 * second) 30 :: (unit, string) result) = Inr (code_at C key (Unix now div 30 + -1))"
      "(TOTPCode C secret (now + 0) 30 :: (unit, string) result) = Inr (code_at C key (Unix now div 30 + 0))"
      "(TOTPCode C secret (now + 30 * second) 30 :: (unit, string) result) = Inr (code_at C key (Unix now div 30 + 1))"
    using code [of "-30"] code [of 0] code [of 30] period_shift [of "Unix now"] by simp_all
  then have "VerifyTOTPCode C secret code now \<longleftrightarrow> (\<exists>d\<in>{-1, 0, 1}. TrimSpace code = code_at C key (Unix now div 30 + d))"
    unfolding VerifyTOTPCode_def by auto
  with code_at_digits show ?thesis by (auto simp: Some)
qed

definition sample_crypto :: crypto where
  "sample_crypto = \<lparr>c_bcrypt = (\<lambda>salt p. if 72 < length p then None else Some p), c_matches = (=), c_sha256 = id,
     c_hmac1 = (\<lambda>key msg. replicate 20 (CHR 0x00)), c_hmac256 = (\<lambda>key msg. key @ msg), c_b32 = Some\<rparr>"

lemma sample_hmac_sized: "hmac_sized sample_crypto"
  by (simp add: hmac_sized_def sample_crypto_def)

end
