(* ===== verification/Jwt.thy ===== *)
theory Jwt
  imports Security
begin

text \<open>
  The signed tokens of \<open>modules/identity/infrastructure/token/jwt_manager.go\<close>. The JSON text of the claims is made and read by
  \<open>encoding/json\<close>: \<open>j_enc\<close> and \<open>j_dec\<close> of the record \<open>jwt_config\<close>, which also holds the fields of \<open>JWTManager\<close>.
\<close>

record AccessClaims =
  Subject :: string
  SessionID :: string
  JWTID :: string
  Issuer :: string
  Audience :: string
  ExpiresAt :: int
  IssuedAt :: int
  Type :: string

record jwt_config =
  j_issuer :: string
  j_accessSecret :: string
  j_refreshSecret :: string
  j_accessTTL :: int
  j_refreshTTL :: int
  j_header :: string
  j_enc :: "AccessClaims \<Rightarrow> string"
  j_dec :: "string \<Rightarrow> AccessClaims option"

record TokenPair =
  AccessToken :: string
  RefreshToken :: string
  AccessExpiresAt :: gotime
  RefreshExpiresAt :: gotime

text \<open>\<open>strings.Split(token, ".")\<close>.\<close>

fun split_dot :: "string \<Rightarrow> string list" where
  "split_dot [] = [[]]"
| "split_dot (c # cs) =
     (if c = CHR ''.'' then [] # split_dot cs
      else case split_dot cs of [] \<Rightarrow> [[c]] | p # ps \<Rightarrow> (c # p) # ps)"

definition sign :: "crypto \<Rightarrow> jwt_config \<Rightarrow> AccessClaims \<Rightarrow> string \<Rightarrow> string" where
  "sign C J claims secret =
     (let unsigned = RawURLEncode (j_header J) @ ''.'' @ RawURLEncode (j_enc J claims)
      in unsigned @ ''.'' @ RawURLEncode (c_hmac256 C secret unsigned))"

definition parse :: "crypto \<Rightarrow> jwt_config \<Rightarrow> string \<Rightarrow> string \<Rightarrow> ('e, AccessClaims) result" where
  "parse C J token secret =
     (case split_dot token of
        [h, p, s] \<Rightarrow>
          (if RawURLEncode (c_hmac256 C secret (h @ ''.'' @ p)) \<noteq> s then Inl (ErrLocal ''invalid token signature'')
           else case RawURLDecode p of
               None \<Rightarrow> Inl (ErrLocal ''decode payload'')
             | Some payload \<Rightarrow>
                 (case j_dec J payload of None \<Rightarrow> Inl (ErrLocal ''parse payload'') | Some claims \<Rightarrow> Inr claims))
      | _ \<Rightarrow> Inl (ErrLocal ''invalid token format''))"

text \<open>Both kinds of token are checked alike, each with its own secret and type.\<close>

definition parse_typed :: "crypto \<Rightarrow> jwt_config \<Rightarrow> string \<Rightarrow> string \<Rightarrow> string \<Rightarrow> gotime \<Rightarrow> ('e, AccessClaims) result" where
  "parse_typed C J secret typ token now =
     (case parse C J token secret of
        Inl e \<Rightarrow> Inl e
      | Inr claims \<Rightarrow>
          if Type claims \<noteq> typ then Inl (ErrLocal ''invalid token type'')
          else if ExpiresAt claims < Unix now then Inl (ErrLocal ''token expired'')
          else Inr claims)"

definition ParseAccess :: "crypto \<Rightarrow> jwt_config \<Rightarrow> string \<Rightarrow> gotime \<Rightarrow> ('e, AccessClaims) result" where
  "ParseAccess C J token now = parse_typed C J (j_accessSecret J) ''access'' token now"

definition ParseRefresh :: "crypto \<Rightarrow> jwt_config \<Rightarrow> string \<Rightarrow> gotime \<Rightarrow> ('e, AccessClaims) result" where
  "ParseRefresh C J token now = parse_typed C J (j_refreshSecret J) ''refresh'' token now"

text \<open>\<open>Issue\<close> after the two ids have been drawn.\<close>

definition claims_for :: "jwt_config \<Rightarrow> string \<Rightarrow> string \<Rightarrow> string \<Rightarrow> int \<Rightarrow> string \<Rightarrow> gotime \<Rightarrow> AccessClaims" where
  "claims_for J userID sessionID jti ttl typ now = \<lparr>Subject = userID, SessionID = sessionID, JWTID = jti,
     Issuer = j_issuer J, Audience = j_issuer J, ExpiresAt = Unix (now + ttl), IssuedAt = Unix now, Type = typ\<rparr>"

definition token_pair :: "crypto \<Rightarrow> jwt_config \<Rightarrow> string \<Rightarrow> string \<Rightarrow> string \<Rightarrow> string \<Rightarrow> gotime \<Rightarrow> TokenPair" where
  "token_pair C J userID sessionID accessJTI refreshJTI now =
     \<lparr>AccessToken = sign C J (claims_for J userID sessionID accessJTI (j_accessTTL J) ''access'' now) (j_accessSecret J),
      RefreshToken = sign C J (claims_for J userID sessionID refreshJTI (j_refreshTTL J) ''refresh'' now) (j_refreshSecret J),
      AccessExpiresAt = now + j_accessTTL J, RefreshExpiresAt = now + j_refreshTTL J\<rparr>"

definition Issue ::
  "crypto \<Rightarrow> jwt_config \<Rightarrow> (nat \<Rightarrow> string) \<Rightarrow> string \<Rightarrow> string \<Rightarrow> gotime \<Rightarrow>
   (('db, 'm) world_scheme, ('e, TokenPair \<times> string \<times> string) result) state" where
  "Issue C J gen userID sessionID now =
     bindE (idGen gen) (\<lambda>accessJTI.
     bindE (idGen gen) (\<lambda>refreshJTI.
       ret (Inr (token_pair C J userID sessionID accessJTI refreshJTI now, accessJTI, refreshJTI))))"

section \<open>Reading back\<close>

text \<open>What the code relies on in \<open>encoding/json\<close>: marshalled claims unmarshal to themselves.\<close>

definition json_faithful :: "jwt_config \<Rightarrow> AccessClaims \<Rightarrow> bool" where
  "json_faithful J claims \<longleftrightarrow> j_dec J (j_enc J claims) = Some claims"

lemma split_dot_word: "CHR ''.'' \<notin> set a \<Longrightarrow> split_dot a = [a]"
  by (induction a) auto

lemma split_dot_append: "CHR ''.'' \<notin> set a \<Longrightarrow> split_dot (a @ CHR ''.'' # b) = a # split_dot b"
  by (induction a) auto

lemma split_dot_sign:
  "split_dot (sign C J claims secret) =
     [RawURLEncode (j_header J), RawURLEncode (j_enc J claims),
      RawURLEncode (c_hmac256 C secret (RawURLEncode (j_header J) @ ''.'' @ RawURLEncode (j_enc J claims)))]"
  by (simp add: sign_def Let_def split_dot_append split_dot_word RawURLEncode_no_dot)

lemma parse_sign: "json_faithful J claims \<Longrightarrow> parse C J (sign C J claims secret) secret = Inr claims"
  by (simp add: parse_def split_dot_sign json_faithful_def)

lemma parse_other_secret:
  "json_faithful J claims \<Longrightarrow> parse C J (sign C J claims secret) secret' = Inr claims' \<Longrightarrow> claims' = claims"
  by (auto simp: parse_def split_dot_sign json_faithful_def split: if_splits)

lemma parse_typed_own:
  assumes "json_faithful J claims" and "Type claims = typ" and "Unix t \<le> ExpiresAt claims"
  shows "parse_typed C J secret typ (sign C J claims secret) t = Inr claims"
  using assms by (simp add: parse_typed_def parse_sign)

lemma parse_typed_other:
  assumes "json_faithful J claims" and "Type claims \<noteq> typ"
  shows "parse_typed C J secret' typ (sign C J claims secret) t \<noteq> Inr claims'"
  using assms by (auto simp: parse_typed_def split: sum.splits if_splits dest!: parse_other_secret)

lemma Unix_mono: "a \<le> b \<Longrightarrow> Unix a \<le> Unix b"
  by (simp add: Unix_def zdiv_mono1)

section \<open>Properties\<close>

text \<open>
  Claim C36. The tokens of a pair are read back with the claims they were issued with, each by its own parser and at every time
  until it expires itself: the access token up to the end of its lifetime, the refresh token up to the end of its own, also when the
  access token has long expired. And a token never passes the parser of the other kind, at any time and whatever the secrets are
  (also if they are the same).
\<close>

theorem token_roundtrip:
  assumes "a = claims_for J user session ajti (j_accessTTL J) ''access'' now"
    and "r = claims_for J user session rjti (j_refreshTTL J) ''refresh'' now"
    and "json_faithful J a" "json_faithful J r"
    and "pair = token_pair C J user session ajti rjti now"
  shows "(t \<le> now + j_accessTTL J \<longrightarrow> ParseAccess C J (AccessToken pair) t = Inr a) \<and>
    (t \<le> now + j_refreshTTL J \<longrightarrow> ParseRefresh C J (RefreshToken pair) t = Inr r) \<and>
    ParseAccess C J (RefreshToken pair) t \<noteq> Inr claims \<and> ParseRefresh C J (AccessToken pair) t \<noteq> Inr claims"
proof -
  have pair: "AccessToken pair = sign C J a (j_accessSecret J)" "RefreshToken pair = sign C J r (j_refreshSecret J)"
    using assms by (simp_all add: token_pair_def)
  have kind: "Type a = ''access''" "Type r = ''refresh''" "ExpiresAt a = Unix (now + j_accessTTL J)"
      "ExpiresAt r = Unix (now + j_refreshTTL J)"
    using assms by (simp_all add: claims_for_def)
  show ?thesis unfolding ParseAccess_def ParseRefresh_def pair
    by (intro conjI impI parse_typed_own parse_typed_other assms(3,4)) (simp_all add: kind Unix_mono)
qed

text \<open>A manager that writes a claim as its type: enough to tell the two tokens of one pair apart.\<close>

definition sample_jwt :: jwt_config where
  "sample_jwt = \<lparr>j_issuer = ''i'', j_accessSecret = ''s'', j_refreshSecret = ''s'', j_accessTTL = 5 * second,
     j_refreshTTL = 50 * second, j_header = ''h'', j_enc = Type,
     j_dec = (\<lambda>s. Some \<lparr>Subject = ''u'', SessionID = ''x'', JWTID = s, Issuer = ''i'', Audience = ''i'',
       ExpiresAt = (if s = ''access'' then 6 else 51), IssuedAt = 1, Type = s\<rparr>)\<rparr>"

text \<open>At 40 seconds the access token has expired and the refresh token is still read.\<close>

theorem token_roundtrip_witness:
  "\<exists>pair r. pair = token_pair sample_crypto sample_jwt ''u'' ''x'' ''access'' ''refresh'' (1 * second) \<and>
     ParseRefresh sample_crypto sample_jwt (RefreshToken pair) (40 * second) = Inr r \<and> SessionID r = ''x'' \<and>
     ParseAccess sample_crypto sample_jwt (RefreshToken pair) (40 * second) \<noteq> Inr r"
proof -
  let ?a = "claims_for sample_jwt ''u'' ''x'' ''access'' (j_accessTTL sample_jwt) ''access'' (1 * second)"
  let ?r = "claims_for sample_jwt ''u'' ''x'' ''refresh'' (j_refreshTTL sample_jwt) ''refresh'' (1 * second)"
  have "json_faithful sample_jwt ?a" "json_faithful sample_jwt ?r"
    by (simp_all add: json_faithful_def sample_jwt_def claims_for_def Unix_def)
  from token_roundtrip [OF refl refl this refl, of "40 * second" sample_crypto ?r]
  show ?thesis by (auto simp: sample_jwt_def claims_for_def)
qed

end
