(* ===== verification/Events.thy ===== *)
theory Events
  imports Prelude
begin

text \<open>
  The event envelope of \<open>internal/platform/events\<close>, which every module wraps around the payloads
  it writes to the outbox, and the outbox row of \<open>internal/platform/outbox\<close>. JSON encoding is not
  modelled at the level of bytes: a payload is the JSON value it encodes, and a payload without
  bytes is \<open>None\<close>.
\<close>

section \<open>JSON values\<close>

text \<open>
  Values of type \<open>any\<close> that come from a request body, and the maps built from them. A map is a
  partial function (\<open>JMap\<close> when it is itself a value; \<open>JObj\<close> lists the fields of a struct or literal);
  a nil map is \<open>None\<close> where the code distinguishes it.
\<close>

datatype json =
    JNull
  | JBool bool
  | JNum int
  | JStr string
  | JArr "json list"
  | JObj "(string \<times> json) list"
  | JMap "string \<Rightarrow> json option"

type_synonym jsonmap = "string \<rightharpoonup> json"

text \<open>A struct field tagged \<open>omitempty\<close> is left out when it is the empty string.\<close>

definition omitempty :: "string \<Rightarrow> string \<Rightarrow> (string \<times> json) list" where
  "omitempty k v = (if v = [] then [] else [(k, JStr v)])"

text \<open>
  \<open>json.Unmarshal\<close> of a field: a missing field or null leaves the zero value, a value of another type
  is an error. A payload that is null leaves the whole struct zero.
\<close>

definition json_field :: "string \<Rightarrow> json \<Rightarrow> json option" where
  "json_field k j = (case j of JNull \<Rightarrow> Some JNull
     | JObj fs \<Rightarrow> Some (case map_of fs k of None \<Rightarrow> JNull | Some v \<Rightarrow> v)
     | JMap f \<Rightarrow> Some (case f k of None \<Rightarrow> JNull | Some v \<Rightarrow> v)
     | _ \<Rightarrow> None)"

definition str_field :: "string \<Rightarrow> json \<Rightarrow> string option" where
  "str_field k j = (case json_field k j of Some (JStr s) \<Rightarrow> Some s | Some JNull \<Rightarrow> Some [] | _ \<Rightarrow> None)"

definition num_field :: "string \<Rightarrow> json \<Rightarrow> int option" where
  "num_field k j = (case json_field k j of Some (JNum n) \<Rightarrow> Some n | Some JNull \<Rightarrow> Some 0 | _ \<Rightarrow> None)"

section \<open>Envelope\<close>

datatype envelope_error =
    ErrMissingEventID | ErrMissingEventType | ErrMissingAggregate
  | EventVersionNotPositive | EventPayloadRequired

record Envelope =
  EventID :: string
  EventType :: string
  EventVersion :: int
  AggregateType :: string
  AggregateID :: string
  WorkspaceID :: string
  OccurredAt :: gotime
  Payload :: "json option"
  Metadata :: "string \<rightharpoonup> string"

definition Validate :: "Envelope \<Rightarrow> envelope_error option" where
  "Validate e =
     (if TrimSpace (EventID e) = [] then Some ErrMissingEventID
      else if TrimSpace (EventType e) = [] then Some ErrMissingEventType
      else if TrimSpace (AggregateID e) = [] then Some ErrMissingAggregate
      else if EventVersion e < 1 then Some EventVersionNotPositive
      else if Payload e = None then Some EventPayloadRequired
      else None)"

record NewEnvelopeOptions =
  opt_EventID :: string
  opt_EventType :: string
  opt_EventVersion :: int
  opt_AggregateType :: string
  opt_AggregateID :: string
  opt_WorkspaceID :: string
  opt_OccurredAt :: gotime
  opt_Metadata :: "(string \<rightharpoonup> string) option"

text \<open>\<open>clock\<close> is the instant \<open>time.Now\<close> returns; it is read only when the options carry none.\<close>

definition NewEnvelope :: "gotime \<Rightarrow> NewEnvelopeOptions \<Rightarrow> json \<Rightarrow> envelope_error + Envelope" where
  "NewEnvelope clock opts payload =
     (let env = \<lparr>EventID = opt_EventID opts, EventType = opt_EventType opts,
            EventVersion = (if opt_EventVersion opts = 0 then 1 else opt_EventVersion opts),
            AggregateType = opt_AggregateType opts, AggregateID = opt_AggregateID opts,
            WorkspaceID = opt_WorkspaceID opts,
            OccurredAt = (if IsZero (opt_OccurredAt opts) then clock else opt_OccurredAt opts),
            Payload = Some payload,
            Metadata = (case opt_Metadata opts of None \<Rightarrow> Map.empty | Some md \<Rightarrow> md)\<rparr>
      in case Validate env of Some e \<Rightarrow> Inl e | None \<Rightarrow> Inr env)"

text \<open>
  \<open>Marshal\<close> validates before it encodes and \<open>Unmarshal\<close> after it has decoded; the bytes between
  them are represented by the envelope itself.
\<close>

definition Marshal :: "Envelope \<Rightarrow> envelope_error + Envelope" where
  "Marshal e = (case Validate e of Some err \<Rightarrow> Inl err | None \<Rightarrow> Inr e)"

definition Unmarshal :: "Envelope \<Rightarrow> envelope_error + Envelope" where
  "Unmarshal e = (case Validate e of Some err \<Rightarrow> Inl err | None \<Rightarrow> Inr e)"

section \<open>Topics\<close>

text \<open>\<open>strings.LastIndex(s, ".v")\<close>: the last position where the two bytes occur.\<close>

fun LastIndex_dot_v :: "string \<Rightarrow> nat option" where
  "LastIndex_dot_v [] = None"
| "LastIndex_dot_v (c # cs) =
     (case LastIndex_dot_v cs of
        Some i \<Rightarrow> Some (Suc i)
      | None \<Rightarrow> if c = CHR ''.'' \<and> cs \<noteq> [] \<and> hd cs = CHR ''v'' then Some 0 else None)"

definition is_digit :: "char \<Rightarrow> bool" where
  "is_digit c \<longleftrightarrow> 48 \<le> (of_char c :: nat) \<and> (of_char c :: nat) \<le> 57"

definition TopicFromEventType :: "string \<Rightarrow> string" where
  "TopicFromEventType eventType =
     (case LastIndex_dot_v eventType of
        None \<Rightarrow> eventType
      | Some idx \<Rightarrow>
          if 0 < idx then
            (if list_all is_digit (drop (idx + 2) eventType) then take idx eventType else eventType)
          else eventType)"

section \<open>Outbox rows\<close>

record OutboxEvent =
  o_ID :: string
  o_AggregateType :: string
  o_AggregateID :: string
  o_EventType :: string
  o_Payload :: Envelope
  o_WorkspaceID :: string
  o_OccurredAt :: gotime

section \<open>Facts\<close>

lemma Validate_None_iff:
  "Validate e = None \<longleftrightarrow>
     TrimSpace (EventID e) \<noteq> [] \<and> TrimSpace (EventType e) \<noteq> [] \<and> TrimSpace (AggregateID e) \<noteq> [] \<and>
     1 \<le> EventVersion e \<and> Payload e \<noteq> None"
  by (auto simp: Validate_def)

lemma NewEnvelope_valid: "NewEnvelope clock opts p = Inr e \<Longrightarrow> Validate e = None"
  by (auto simp: NewEnvelope_def Let_def split: option.splits)

lemma LastIndex_dot_v_Some:
  "LastIndex_dot_v s = Some i \<Longrightarrow> i + 1 < length s \<and> s ! i = CHR ''.'' \<and> s ! (i + 1) = CHR ''v''"
proof (induction s arbitrary: i)
  case (Cons c cs)
  show ?case
  proof (cases "LastIndex_dot_v cs")
    case None
    with Cons.prems show ?thesis by (cases cs) (auto split: if_splits)
  next
    case (Some j)
    with Cons.prems Cons.IH [of j] show ?thesis by auto
  qed
qed simp

lemma LastIndex_dot_v_digits:
  "list_all is_digit ds \<Longrightarrow> LastIndex_dot_v ds = None"
  by (induction ds) (auto simp: is_digit_def)

lemma LastIndex_dot_v_versioned:
  assumes "list_all is_digit ds"
  shows "LastIndex_dot_v (base @ ''.v'' @ ds) = Some (length base)"
proof -
  have "LastIndex_dot_v (CHR ''v'' # ds) = None"
    using LastIndex_dot_v_digits [OF assms] by simp
  then have "LastIndex_dot_v (''.v'' @ ds) = Some 0" by simp
  then show ?thesis by (induction base) auto
qed

text \<open>
  \<open>NewEnvelope\<close> builds only envelopes that \<open>Marshal\<close> accepts and \<open>Unmarshal\<close> gives back
  unchanged: no event written to the outbox is refused by the consumer's validation.
\<close>

lemma envelope_roundtrip:
  assumes "NewEnvelope clock opts p = Inr e"
  shows "Marshal e = Inr e \<and> Unmarshal e = Inr e \<and> Payload e = Some p \<and> 1 \<le> EventVersion e \<and>
    (opt_EventVersion opts \<noteq> 0 \<longrightarrow> EventVersion e = opt_EventVersion opts) \<and>
    (opt_OccurredAt opts \<noteq> 0 \<longrightarrow> OccurredAt e = opt_OccurredAt opts)"
  using assms NewEnvelope_valid [OF assms]
  by (auto simp: NewEnvelope_def Let_def Marshal_def Unmarshal_def IsZero_def Validate_None_iff
      split: option.splits if_splits)

text \<open>
  The topic of a versioned event type is the type without its version suffix, and it
  does not depend on the version: all versions of an event go to one topic.
\<close>

lemma topic_drops_version:
  assumes "base \<noteq> []" and "list_all is_digit ds"
  shows "TopicFromEventType (base @ ''.v'' @ ds) = base"
  using assms LastIndex_dot_v_versioned [OF assms(2), of base]
  by (simp add: TopicFromEventType_def)

end
