(* ===== verification/Pagination.thy ===== *)
theory Pagination
  imports Prelude "HOL-Library.Product_Lexorder" "HOL-Library.List_Lexorder" "HOL-Library.Char_ord"
begin

text \<open>
  The keyset pagination all list endpoints share (\<open>List\<close> of the message, message event and
  suppression repositories): \<open>ORDER BY created_at DESC, id DESC LIMIT limit+1\<close>, a cursor that is
  the id of the last row of the page before, and the condition
  \<open>(created_at, id) < (SELECT created_at, id ... WHERE id = cursor)\<close>. Text is compared byte by byte.
  A subquery without a row yields NULL, and a comparison with NULL selects nothing.
\<close>

section \<open>One page\<close>

abbreviation DefaultPageSize :: int where "DefaultPageSize \<equiv> 50"

definition after_cursor :: "('r \<Rightarrow> 'k::linorder) \<Rightarrow> ('r \<Rightarrow> string) \<Rightarrow> string \<Rightarrow> 'r list \<Rightarrow> 'r \<Rightarrow> bool" where
  "after_cursor key rid cursor rows r =
     (if cursor = [] then True
      else case find (\<lambda>c. rid c = cursor) rows of None \<Rightarrow> False | Some c \<Rightarrow> key r < key c)"

definition order_desc :: "('r \<Rightarrow> 'k::linorder) \<Rightarrow> 'r list \<Rightarrow> 'r list" where
  "order_desc key rs = rev (sort_key key rs)"

definition list_page ::
  "('r \<Rightarrow> 'k::linorder) \<Rightarrow> ('r \<Rightarrow> string) \<Rightarrow> ('r \<Rightarrow> bool) \<Rightarrow> nat \<Rightarrow> string \<Rightarrow> 'r list \<Rightarrow> 'r list \<times> string" where
  "list_page key rid wher limit cursor rows =
     (let results = take (limit + 1)
            (order_desc key (filter (\<lambda>r. wher r \<and> after_cursor key rid cursor rows r) rows))
      in if limit < length results then (take limit results, rid (results ! (limit - 1)))
         else (results, []))"

text \<open>A client that follows the cursor until it is empty; \<open>None\<close> when the fuel does not last.\<close>

fun follow ::
  "('r \<Rightarrow> 'k::linorder) \<Rightarrow> ('r \<Rightarrow> string) \<Rightarrow> ('r \<Rightarrow> bool) \<Rightarrow> nat \<Rightarrow> 'r list \<Rightarrow> nat \<Rightarrow> string \<Rightarrow> 'r list option" where
  "follow key rid wher limit rows 0 cursor = None"
| "follow key rid wher limit rows (Suc n) cursor =
     (case list_page key rid wher limit cursor rows of (page, next) \<Rightarrow>
        if next = [] then Some page
        else map_option ((@) page) (follow key rid wher limit rows n next))"

section \<open>Following the cursor\<close>

lemma order_desc_set [simp]: "set (order_desc key rs) = set rs"
  by (simp add: order_desc_def)

lemma order_desc_length [simp]: "length (order_desc key rs) = length rs"
  by (simp add: order_desc_def)

lemma filter_order_desc: "filter P (order_desc key rs) = order_desc key (filter P rs)"
  by (simp add: order_desc_def filter_sort flip: rev_filter)

lemma order_desc_sorted: "sorted_wrt (\<ge>) (map key (order_desc key rs))"
  by (simp add: order_desc_def rev_map [symmetric] sorted_wrt_rev)

lemma order_desc_strict:
  assumes "inj_on key (set rs)" and "distinct rs"
  shows "sorted_wrt (\<lambda>a b. key b < key a) (order_desc key rs)"
proof -
  let ?o = "order_desc key rs"
  have "sorted_wrt (\<lambda>a b. key b \<le> key a) ?o"
    using order_desc_sorted [of key rs] by (simp add: sorted_wrt_map)
  moreover have "distinct (map key ?o)"
    using assms by (simp add: distinct_map) (simp add: order_desc_def)
  ultimately show ?thesis
    unfolding sorted_wrt_iff_nth_less
    by (auto simp: less_le distinct_conv_nth nth_eq_iff_index_eq)
qed

lemma filter_below:
  assumes "sorted_wrt (\<lambda>a b. key b < (key a :: 'k::linorder)) (xs @ c # ys)"
  shows "filter (\<lambda>r. key r < key c) (xs @ c # ys) = ys"
proof -
  have "\<forall>x \<in> set xs. \<not> key x < key c" and "\<forall>y \<in> set ys. key y < key c"
    using assms by (auto simp: sorted_wrt_append)
  then show ?thesis by simp
qed

text \<open>A page that starts after a row holds the rows that follow it in the order.\<close>

lemma rows_after:
  assumes inj: "inj_on key (set rows)" and rid: "inj_on rid (set rows)" and dist: "distinct rows"
    and split: "order_desc key (filter wher rows) = xs @ c # ys" and "rid c \<noteq> []"
  shows "order_desc key (filter (\<lambda>r. wher r \<and> after_cursor key rid (rid c) rows r) rows) = ys"
proof -
  have c: "c \<in> set rows"
    using arg_cong [OF split, of set] by (metis filter_is_subset in_set_conv_decomp order_desc_set subsetD)
  have "find (\<lambda>d. rid d = rid c) rows = Some c"
  proof (cases "find (\<lambda>d. rid d = rid c) rows")
    case None
    with c show ?thesis by (auto simp: find_None_iff)
  next
    case (Some d)
    then have "d \<in> set rows" "rid d = rid c" by (auto simp: find_Some_iff)
    with c rid Some show ?thesis by (metis inj_onD)
  qed
  then have "order_desc key (filter (\<lambda>r. wher r \<and> after_cursor key rid (rid c) rows r) rows) =
      filter (\<lambda>r. key r < key c) (order_desc key (filter wher rows))"
    using assms(5) by (simp add: filter_order_desc after_cursor_def conj_commute)
  also have "\<dots> = ys"
    unfolding split
    using order_desc_strict [of key "filter wher rows"] inj dist
    by (intro filter_below) (auto simp: split [symmetric] intro: inj_on_subset)
  finally show ?thesis .
qed

lemma follow_from:
  assumes inj: "inj_on key (set rows)" and rid: "inj_on rid (set rows)" and dist: "distinct rows"
    and ids: "\<forall>r \<in> set rows. rid r \<noteq> []" and lim: "0 < limit"
    and here: "order_desc key (filter (\<lambda>r. wher r \<and> after_cursor key rid cursor rows r) rows) = ys"
    and all: "order_desc key (filter wher rows) = xs @ ys"
  shows "length ys < n \<Longrightarrow> follow key rid wher limit rows n cursor = Some ys"
  using here all
proof (induction n arbitrary: cursor xs ys)
  case (Suc n)
  show ?case
  proof (cases "limit < length ys")
    case False
    with Suc.prems show ?thesis by (simp add: list_page_def)
  next
    case True
    define c where "c = ys ! (limit - 1)"
    have split: "ys = take (limit - 1) ys @ c # drop limit ys"
      using True lim id_take_nth_drop [of "limit - 1" ys] by (simp add: c_def)
    have "c \<in> set rows"
      using arg_cong [OF Suc.prems(2), of set] True lim
      by (metis (no_types, lifting) c_def diff_less filter_is_subset less_trans nth_mem order_desc_set
          subsetD zero_less_one)
    with ids have cid: "rid c \<noteq> []" by blast
    have page: "list_page key rid wher limit cursor rows = (take limit ys, rid c)"
      using True lim Suc.prems(2) by (simp add: list_page_def c_def min_def)
    have all': "order_desc key (filter wher rows) = (xs @ take (limit - 1) ys) @ c # drop limit ys"
      using Suc.prems(3) split by simp
    have "follow key rid wher limit rows n (rid c) = Some (drop limit ys)"
    proof (rule Suc.IH)
      show "length (drop limit ys) < n" using Suc.prems(1) lim True by simp
      show "order_desc key (filter (\<lambda>r. wher r \<and> after_cursor key rid (rid c) rows r) rows) = drop limit ys"
        using rows_after [OF inj rid dist all' cid] .
      show "order_desc key (filter wher rows) = ((xs @ take (limit - 1) ys) @ [c]) @ drop limit ys"
        using all' by simp
    qed
    with page cid show ?thesis by simp
  qed
qed simp

text \<open>
  Following the cursor through a table that does not change visits every matching row exactly
  once, newest first.
\<close>

lemma follow_complete:
  assumes "inj_on key (set rows)" and "inj_on rid (set rows)" and "distinct rows"
    and "\<forall>r \<in> set rows. rid r \<noteq> []" and "0 < limit"
  shows "follow key rid wher limit rows (Suc (length rows)) [] = Some (order_desc key (filter wher rows))"
  using assms
  by (intro follow_from [where xs = "[]"]) (simp_all add: after_cursor_def le_imp_less_Suc)

end
