(* ===== verification/Identity_Store.thy ===== *)
theory Identity_Store
  imports Permissions Jwt Events Pagination
begin

text \<open>
  The identity module: its domain (\<open>internal/modules/identity/domain\<close>), its PostgreSQL repositories
  (\<open>infrastructure/postgres/repository.go\<close>, with the keys and references of the migrations) and its Redis stores
  (\<open>infrastructure/redis/store.go\<close>). Read and write repositories run the same queries and are one definition here. Tables are
  lists of rows. Fields carry a prefix: \<open>us_\<close> \<open>User\<close>, \<open>ex_\<close> \<open>ExternalAuthAccount\<close>, \<open>se_\<close> \<open>Session\<close>, \<open>tk_\<close> \<open>AuthToken\<close>,
  \<open>ts_\<close> \<open>TOTPSecret\<close>, \<open>rv_\<close> \<open>RecoveryCode\<close>, \<open>wk_\<close> \<open>Workspace\<close>, \<open>mb_\<close> \<open>Membership\<close>, \<open>iv_\<close> \<open>Invitation\<close>, \<open>sg_\<close> \<open>WorkspaceSettings\<close>.
\<close>

section \<open>Domain\<close>

record User =
  us_ID :: string
  us_Email :: string
  us_HashedPassword :: string
  us_PrimaryAuthMethod :: string
  us_EmailVerifiedAt :: "gotime option"
  us_MFAEnabledAt :: "gotime option"
  us_CreatedAt :: gotime
  us_UpdatedAt :: gotime

definition NewUser :: "string \<Rightarrow> string \<Rightarrow> string \<Rightarrow> string \<Rightarrow> gotime \<Rightarrow> User" where
  "NewUser i email hashedPassword authMethod now = \<lparr>us_ID = i, us_Email = email, us_HashedPassword = hashedPassword,
     us_PrimaryAuthMethod = authMethod, us_EmailVerifiedAt = None, us_MFAEnabledAt = None,
     us_CreatedAt = now, us_UpdatedAt = now\<rparr>"

definition NewOAuthUser :: "string \<Rightarrow> string \<Rightarrow> string \<Rightarrow> gotime \<Rightarrow> User" where
  "NewOAuthUser i email authMethod now = \<lparr>us_ID = i, us_Email = email, us_HashedPassword = [],
     us_PrimaryAuthMethod = authMethod, us_EmailVerifiedAt = Some now, us_MFAEnabledAt = None,
     us_CreatedAt = now, us_UpdatedAt = now\<rparr>"

definition EmailVerified :: "User \<Rightarrow> bool" where "EmailVerified u \<longleftrightarrow> us_EmailVerifiedAt u \<noteq> None"
definition MFAEnabled :: "User \<Rightarrow> bool" where "MFAEnabled u \<longleftrightarrow> us_MFAEnabledAt u \<noteq> None"

record ExternalAuthAccount =
  ex_ID :: string
  ex_UserID :: string
  ex_Provider :: string
  ex_ProviderUserID :: string
  ex_ProviderEmail :: string
  ex_ProviderEmailVerified :: bool
  ex_LinkedAt :: gotime
  ex_LastLoginAt :: "gotime option"

definition NewExternalAuthAccount ::
  "string \<Rightarrow> string \<Rightarrow> string \<Rightarrow> string \<Rightarrow> string \<Rightarrow> bool \<Rightarrow> gotime \<Rightarrow> ExternalAuthAccount" where
  "NewExternalAuthAccount i userID provider providerUserID providerEmail verified now = \<lparr>ex_ID = i, ex_UserID = userID,
     ex_Provider = provider, ex_ProviderUserID = providerUserID, ex_ProviderEmail = providerEmail,
     ex_ProviderEmailVerified = verified, ex_LinkedAt = now, ex_LastLoginAt = None\<rparr>"

record OAuthIdentity =
  oi_Provider :: string
  oi_ProviderUserID :: string
  oi_Email :: string
  oi_EmailVerified :: bool

record Session =
  se_ID :: string
  se_UserID :: string
  se_AuthMethod :: string
  se_AccessJTI :: string
  se_RefreshJTI :: string
  se_ExpiresAt :: gotime
  se_RevokedAt :: "gotime option"
  se_IPAddress :: string
  se_UserAgent :: string
  se_CreatedAt :: gotime

definition domain_NewSession ::
  "string \<Rightarrow> string \<Rightarrow> string \<Rightarrow> string \<Rightarrow> string \<Rightarrow> gotime \<Rightarrow> string \<Rightarrow> string \<Rightarrow> gotime \<Rightarrow> Session" where
  "domain_NewSession i userID authMethod accessJTI refreshJTI expiresAt ip ua now = \<lparr>se_ID = i, se_UserID = userID,
     se_AuthMethod = authMethod, se_AccessJTI = accessJTI, se_RefreshJTI = refreshJTI, se_ExpiresAt = expiresAt,
     se_RevokedAt = None, se_IPAddress = ip, se_UserAgent = ua, se_CreatedAt = now\<rparr>"

definition IsActive :: "Session \<Rightarrow> gotime \<Rightarrow> bool" where
  "IsActive s now \<longleftrightarrow> se_RevokedAt s = None \<and> now < se_ExpiresAt s"

definition IsRevoked :: "Session \<Rightarrow> bool" where "IsRevoked s \<longleftrightarrow> se_RevokedAt s \<noteq> None"

record AuthToken =
  tk_ID :: string
  tk_UserID :: string
  tk_Purpose :: string
  tk_TokenHash :: string
  tk_ExpiresAt :: gotime
  tk_ConsumedAt :: "gotime option"
  tk_CreatedAt :: gotime

definition IsUsable :: "AuthToken \<Rightarrow> gotime \<Rightarrow> bool" where
  "IsUsable t now \<longleftrightarrow> tk_ConsumedAt t = None \<and> now < tk_ExpiresAt t"

record TOTPSecret =
  ts_UserID :: string
  ts_Secret :: string
  ts_CreatedAt :: gotime
  ts_UpdatedAt :: gotime

record RecoveryCode =
  rv_ID :: string
  rv_UserID :: string
  rv_CodeHash :: string
  rv_ConsumedAt :: "gotime option"
  rv_CreatedAt :: gotime

record Workspace =
  wk_ID :: string
  wk_Name :: string
  wk_Plan :: "string option"
  wk_LogoIcon :: "string option"
  wk_MembershipID :: string
  wk_RoleNames :: "string list"
  wk_CreatedAt :: gotime
  wk_UpdatedAt :: gotime

definition NewWorkspace :: "string \<Rightarrow> string \<Rightarrow> gotime \<Rightarrow> (id_error, Workspace) result" where
  "NewWorkspace i name now =
     (if i = [] then Inl (ErrLocal ''workspace id is required'')
      else if TrimSpace name = [] then Inl (ErrLocal ''workspace name is required'')
      else Inr \<lparr>wk_ID = i, wk_Name = TrimSpace name, wk_Plan = None, wk_LogoIcon = None, wk_MembershipID = [],
        wk_RoleNames = [], wk_CreatedAt = now, wk_UpdatedAt = now\<rparr>)"

record Membership =
  mb_ID :: string
  mb_WorkspaceID :: string
  mb_UserID :: string
  mb_UserEmail :: "string option"
  mb_Role :: string
  mb_RoleIDs :: "string list"
  mb_RoleNames :: "string list"
  mb_EffectivePermissions :: "string list"
  mb_Status :: string
  mb_CreatedAt :: gotime
  mb_UpdatedAt :: gotime

definition NewMembership :: "string \<Rightarrow> string \<Rightarrow> string \<Rightarrow> string \<Rightarrow> gotime \<Rightarrow> Membership" where
  "NewMembership i workspaceID userID role now = \<lparr>mb_ID = i, mb_WorkspaceID = workspaceID, mb_UserID = userID,
     mb_UserEmail = None, mb_Role = role, mb_RoleIDs = [], mb_RoleNames = [], mb_EffectivePermissions = [], mb_Status = ''active'',
     mb_CreatedAt = now, mb_UpdatedAt = now\<rparr>"

record Invitation =
  iv_ID :: string
  iv_WorkspaceID :: string
  iv_Email :: string
  iv_Token :: string
  iv_Role :: string
  iv_RoleIDs :: "string list"
  iv_Status :: string
  iv_ExpiresAt :: gotime
  iv_CreatedAt :: gotime
  iv_UpdatedAt :: gotime

definition NewInvitation ::
  "string \<Rightarrow> string \<Rightarrow> string \<Rightarrow> string \<Rightarrow> string \<Rightarrow> gotime \<Rightarrow> gotime \<Rightarrow> Invitation" where
  "NewInvitation i workspaceID email token role expiresAt now = \<lparr>iv_ID = i, iv_WorkspaceID = workspaceID,
     iv_Email = email, iv_Token = token, iv_Role = role, iv_RoleIDs = [], iv_Status = ''pending'', iv_ExpiresAt = expiresAt,
     iv_CreatedAt = now, iv_UpdatedAt = now\<rparr>"

definition Invitation_IsExpired :: "Invitation \<Rightarrow> gotime \<Rightarrow> bool" where
  "Invitation_IsExpired i now \<longleftrightarrow> iv_ExpiresAt i < now"

definition Invitation_IsAccepted :: "Invitation \<Rightarrow> bool" where
  "Invitation_IsAccepted i \<longleftrightarrow> iv_Status i = ''accepted''"

section \<open>The world\<close>

record OAuthState =
  os_Provider :: string
  os_RedirectURI :: string
  os_Intent :: string
  os_CodeVerifier :: string
  os_CreatedAt :: gotime

text \<open>
  The join tables hold pairs of ids (their \<open>created_at\<close> is never read). A \<open>map[string]any\<close> is an association list. In a row of
  \<open>workspace_settings\<close> the empty id stands for null.
\<close>

record WorkspaceSettings =
  sg_WorkspaceID :: string
  sg_SettingsJSON :: "(string \<times> json) list"
  sg_DefaultSenderDomainID :: string
  sg_FeatureControls :: "(string \<times> json) list"
  sg_Version :: int
  sg_UpdatedByUserID :: string
  sg_CreatedAt :: gotime
  sg_UpdatedAt :: gotime

record settings_row =
  st_WorkspaceID :: string
  st_Data :: "(string \<times> json) list"
  st_Version :: int
  st_UpdatedBy :: string
  st_CreatedAt :: gotime
  st_UpdatedAt :: gotime

record identity_db =
  users :: "User list"
  externals :: "ExternalAuthAccount list"
  sessions :: "Session list"
  auth_tokens :: "AuthToken list"
  totp_secrets :: "TOTPSecret list"
  recovery_codes :: "RecoveryCode list"
  workspaces :: "Workspace list"
  roles :: "Role list"
  memberships :: "Membership list"
  membership_roles :: "(string \<times> string) list"
  invitations :: "Invitation list"
  invitation_roles :: "(string \<times> string) list"
  settings_rows :: "settings_row list"
  id_outbox :: "OutboxEvent list"

text \<open>
  Beside the tables: the refresh tokens and OAuth states in Redis, the cached memberships and settings with the locks for loading
  them, and as a history variable the mails
  sent, each with its address and the link in it. Entries of Redis expire; \<open>expire\<close> in the theories that follow drops
  any entry at any time.
\<close>

datatype cache_key = AccessKey string string | SettingsKey string

record id_world = "identity_db world" +
  refresh_store :: "string \<rightharpoonup> string"
  oauth_states :: "string \<rightharpoonup> OAuthState"
  access_cache :: "string \<times> string \<rightharpoonup> Membership"
  settings_cache :: "string \<rightharpoonup> WorkspaceSettings"
  load_locks :: "cache_key set"
  mails :: "(string \<times> string) list"

type_synonym 'a iprog = "(id_world, (id_error, 'a) result) state"

definition redis :: "(id_world \<Rightarrow> 'a) \<Rightarrow> (id_world \<Rightarrow> id_world) \<Rightarrow> 'a iprog" where
  "redis answer effect = State (\<lambda>w.
     case run_state next_outcome w of (x, w1) \<Rightarrow>
       if x = Fail then (Inl ErrRedis, w1)
       else (if x = OK then Inr (answer w1) else Inl ErrRedis, effect w1))"

abbreviation has :: "('r \<Rightarrow> 'k) \<Rightarrow> 'k \<Rightarrow> 'r list \<Rightarrow> bool" where
  "has key k rows \<equiv> list_ex (\<lambda>r. key r = k) rows"

definition found :: "id_error \<Rightarrow> 'r option \<Rightarrow> (id_error, 'r) result" where
  "found missing r = (case r of None \<Rightarrow> Inl (Err missing) | Some x \<Rightarrow> Inr x)"

definition update_where :: "('r \<Rightarrow> bool) \<Rightarrow> ('r \<Rightarrow> 'r) \<Rightarrow> 'r list \<Rightarrow> 'r list" where
  "update_where P f rows = map (\<lambda>r. if P r then f r else r) rows"

section \<open>Users\<close>

definition User_Create :: "User \<Rightarrow> unit iprog" where
  "User_Create user = exec (\<lambda>d.
     if has us_ID (us_ID user) (users d) \<or> has us_Email (us_Email user) (users d)
     then SqlErr (Err IdEmailAlreadyExists)
     else SqlOk (Inr ()) (d\<lparr>users := users d @ [user]\<rparr>))"

definition User_UpdatePassword :: "string \<Rightarrow> string \<Rightarrow> gotime \<Rightarrow> unit iprog" where
  "User_UpdatePassword userID hashedPassword at = exec (\<lambda>d. SqlOk (Inr ())
     (d\<lparr>users := update_where (\<lambda>u. us_ID u = userID)
       (\<lambda>u. u\<lparr>us_HashedPassword := hashedPassword, us_UpdatedAt := at\<rparr>) (users d)\<rparr>))"

definition User_MarkEmailVerified :: "string \<Rightarrow> gotime \<Rightarrow> unit iprog" where
  "User_MarkEmailVerified userID at = exec (\<lambda>d. SqlOk (Inr ())
     (d\<lparr>users := update_where (\<lambda>u. us_ID u = userID)
       (\<lambda>u. u\<lparr>us_EmailVerifiedAt := (case us_EmailVerifiedAt u of None \<Rightarrow> Some at | Some t \<Rightarrow> Some t),
          us_UpdatedAt := at\<rparr>) (users d)\<rparr>))"

definition User_SetMFAEnabledAt :: "string \<Rightarrow> gotime option \<Rightarrow> gotime \<Rightarrow> unit iprog" where
  "User_SetMFAEnabledAt userID enabledAt at = exec (\<lambda>d. SqlOk (Inr ())
     (d\<lparr>users := update_where (\<lambda>u. us_ID u = userID)
       (\<lambda>u. u\<lparr>us_MFAEnabledAt := enabledAt, us_UpdatedAt := at\<rparr>) (users d)\<rparr>))"

definition User_FindByID :: "string \<Rightarrow> User iprog" where
  "User_FindByID userID = exec (\<lambda>d. SqlOk (found IdNotFound (find (\<lambda>u. us_ID u = userID) (users d))) d)"

definition User_FindByEmail :: "string \<Rightarrow> User iprog" where
  "User_FindByEmail email = exec (\<lambda>d. SqlOk (found IdNotFound (find (\<lambda>u. us_Email u = email) (users d))) d)"

section \<open>External accounts\<close>

definition External_FindByProviderIdentity :: "string \<Rightarrow> string \<Rightarrow> ExternalAuthAccount iprog" where
  "External_FindByProviderIdentity provider providerUserID = exec (\<lambda>d. SqlOk (found IdNotFound
     (find (\<lambda>a. ex_Provider a = provider \<and> ex_ProviderUserID a = providerUserID) (externals d))) d)"

definition External_Create :: "ExternalAuthAccount \<Rightarrow> unit iprog" where
  "External_Create a = exec (\<lambda>d.
     if has ex_ID (ex_ID a) (externals d) \<or> \<not> has us_ID (ex_UserID a) (users d) \<or>
       list_ex (\<lambda>r. ex_Provider r = ex_Provider a \<and> ex_ProviderUserID r = ex_ProviderUserID a) (externals d)
     then SqlErr ErrDriver
     else SqlOk (Inr ()) (d\<lparr>externals := externals d @ [a\<lparr>ex_LastLoginAt := None\<rparr>]\<rparr>))"

definition External_TouchLogin :: "string \<Rightarrow> gotime \<Rightarrow> unit iprog" where
  "External_TouchLogin accountID at = exec (\<lambda>d. SqlOk (Inr ())
     (d\<lparr>externals := update_where (\<lambda>a. ex_ID a = accountID) (\<lambda>a. a\<lparr>ex_LastLoginAt := Some at\<rparr>) (externals d)\<rparr>))"

section \<open>Sessions\<close>

definition Session_Create :: "Session \<Rightarrow> unit iprog" where
  "Session_Create s = exec (\<lambda>d.
     if has se_ID (se_ID s) (sessions d) \<or> has se_AccessJTI (se_AccessJTI s) (sessions d) \<or>
       has se_RefreshJTI (se_RefreshJTI s) (sessions d) \<or> \<not> has us_ID (se_UserID s) (users d)
     then SqlErr ErrDriver
     else SqlOk (Inr ()) (d\<lparr>sessions := sessions d @ [s\<lparr>se_RevokedAt := None\<rparr>]\<rparr>))"

definition Session_FindByID :: "string \<Rightarrow> Session iprog" where
  "Session_FindByID sessionID = exec (\<lambda>d. SqlOk (found IdNotFound (find (\<lambda>s. se_ID s = sessionID) (sessions d))) d)"

definition Session_FindByAccessJTI :: "string \<Rightarrow> Session iprog" where
  "Session_FindByAccessJTI jti = exec (\<lambda>d. SqlOk (found IdNotFound (find (\<lambda>s. se_AccessJTI s = jti) (sessions d))) d)"

definition Session_ListByUser :: "string \<Rightarrow> gotime \<Rightarrow> Session list iprog" where
  "Session_ListByUser userID now = exec (\<lambda>d. SqlOk (Inr (order_desc se_CreatedAt
     (filter (\<lambda>s. se_UserID s = userID \<and> se_RevokedAt s = None \<and> now < se_ExpiresAt s) (sessions d)))) d)"

definition Session_RevokeByID :: "string \<Rightarrow> gotime \<Rightarrow> unit iprog" where
  "Session_RevokeByID sessionID now = exec (\<lambda>d. SqlOk (Inr ())
     (d\<lparr>sessions := update_where (\<lambda>s. se_ID s = sessionID \<and> se_RevokedAt s = None)
       (\<lambda>s. s\<lparr>se_RevokedAt := Some now\<rparr>) (sessions d)\<rparr>))"

definition Session_RevokeByUser :: "string \<Rightarrow> gotime \<Rightarrow> unit iprog" where
  "Session_RevokeByUser userID now = exec (\<lambda>d. SqlOk (Inr ())
     (d\<lparr>sessions := update_where (\<lambda>s. se_UserID s = userID \<and> se_RevokedAt s = None)
       (\<lambda>s. s\<lparr>se_RevokedAt := Some now\<rparr>) (sessions d)\<rparr>))"

definition Session_RotateTokens :: "string \<Rightarrow> string \<Rightarrow> string \<Rightarrow> gotime \<Rightarrow> unit iprog" where
  "Session_RotateTokens sessionID accessJTI refreshJTI expiresAt = exec (\<lambda>d.
     if has se_ID sessionID (sessions d) \<and>
       list_ex (\<lambda>s. se_ID s \<noteq> sessionID \<and> (se_AccessJTI s = accessJTI \<or> se_RefreshJTI s = refreshJTI)) (sessions d)
     then SqlErr ErrDriver
     else SqlOk (Inr ()) (d\<lparr>sessions := update_where (\<lambda>s. se_ID s = sessionID)
       (\<lambda>s. s\<lparr>se_AccessJTI := accessJTI, se_RefreshJTI := refreshJTI, se_ExpiresAt := expiresAt\<rparr>) (sessions d)\<rparr>))"

section \<open>Tokens and second factors\<close>

definition AuthToken_Create :: "AuthToken \<Rightarrow> unit iprog" where
  "AuthToken_Create token = exec (\<lambda>d.
     if has tk_ID (tk_ID token) (auth_tokens d) \<or> has tk_TokenHash (tk_TokenHash token) (auth_tokens d) \<or>
       \<not> has us_ID (tk_UserID token) (users d)
     then SqlErr ErrDriver
     else SqlOk (Inr ()) (d\<lparr>auth_tokens := auth_tokens d @ [token]\<rparr>))"

definition AuthToken_FindByHash :: "string \<Rightarrow> string \<Rightarrow> AuthToken iprog" where
  "AuthToken_FindByHash purpose tokenHash = exec (\<lambda>d. SqlOk (found IdNotFound
     (find (\<lambda>t. tk_Purpose t = purpose \<and> tk_TokenHash t = tokenHash) (auth_tokens d))) d)"

definition AuthToken_Consume :: "string \<Rightarrow> gotime \<Rightarrow> unit iprog" where
  "AuthToken_Consume tokenID at = exec (\<lambda>d. SqlOk (Inr ())
     (d\<lparr>auth_tokens := update_where (\<lambda>t. tk_ID t = tokenID \<and> tk_ConsumedAt t = None)
       (\<lambda>t. t\<lparr>tk_ConsumedAt := Some at\<rparr>) (auth_tokens d)\<rparr>))"

definition AuthToken_DeleteByUserAndPurpose :: "string \<Rightarrow> string \<Rightarrow> unit iprog" where
  "AuthToken_DeleteByUserAndPurpose userID purpose = exec (\<lambda>d. SqlOk (Inr ())
     (d\<lparr>auth_tokens := filter (\<lambda>t. \<not> (tk_UserID t = userID \<and> tk_Purpose t = purpose)) (auth_tokens d)\<rparr>))"

definition TOTP_UpsertSecret :: "TOTPSecret \<Rightarrow> unit iprog" where
  "TOTP_UpsertSecret secret = exec (\<lambda>d.
     if \<not> has us_ID (ts_UserID secret) (users d) then SqlErr ErrDriver
     else SqlOk (Inr ()) (d\<lparr>totp_secrets :=
       (if has ts_UserID (ts_UserID secret) (totp_secrets d)
        then update_where (\<lambda>t. ts_UserID t = ts_UserID secret)
          (\<lambda>t. t\<lparr>ts_Secret := ts_Secret secret, ts_UpdatedAt := ts_UpdatedAt secret\<rparr>) (totp_secrets d)
        else totp_secrets d @ [secret])\<rparr>))"

definition TOTP_FindSecretByUser :: "string \<Rightarrow> TOTPSecret iprog" where
  "TOTP_FindSecretByUser userID = exec (\<lambda>d. SqlOk (found IdNotFound
     (find (\<lambda>t. ts_UserID t = userID) (totp_secrets d))) d)"

definition TOTP_DeleteSecret :: "string \<Rightarrow> unit iprog" where
  "TOTP_DeleteSecret userID = exec (\<lambda>d. SqlOk (Inr ())
     (d\<lparr>totp_secrets := filter (\<lambda>t. ts_UserID t \<noteq> userID) (totp_secrets d)\<rparr>))"

definition delete_recovery_codes :: "string \<Rightarrow> unit iprog" where
  "delete_recovery_codes userID = exec (\<lambda>d. SqlOk (Inr ())
     (d\<lparr>recovery_codes := filter (\<lambda>c. rv_UserID c \<noteq> userID) (recovery_codes d)\<rparr>))"

definition insert_recovery_code :: "RecoveryCode \<Rightarrow> unit iprog" where
  "insert_recovery_code code = exec (\<lambda>d.
     if has rv_ID (rv_ID code) (recovery_codes d) \<or> has rv_CodeHash (rv_CodeHash code) (recovery_codes d) \<or>
       \<not> has us_ID (rv_UserID code) (users d)
     then SqlErr ErrDriver
     else SqlOk (Inr ()) (d\<lparr>recovery_codes := recovery_codes d @ [code]\<rparr>))"

fun insert_recovery_codes :: "RecoveryCode list \<Rightarrow> unit iprog" where
  "insert_recovery_codes [] = ret (Inr ())"
| "insert_recovery_codes (code # codes) = thenE (insert_recovery_code code) (insert_recovery_codes codes)"

definition TOTP_ReplaceRecoveryCodes :: "string \<Rightarrow> RecoveryCode list \<Rightarrow> unit iprog" where
  "TOTP_ReplaceRecoveryCodes userID codes = thenE (delete_recovery_codes userID) (insert_recovery_codes codes)"

definition TOTP_ListRecoveryCodes :: "string \<Rightarrow> RecoveryCode list iprog" where
  "TOTP_ListRecoveryCodes userID = exec (\<lambda>d. SqlOk (Inr (filter (\<lambda>c. rv_UserID c = userID) (recovery_codes d))) d)"

definition TOTP_ConsumeRecoveryCode :: "string \<Rightarrow> gotime \<Rightarrow> unit iprog" where
  "TOTP_ConsumeRecoveryCode codeID at = exec (\<lambda>d. SqlOk (Inr ())
     (d\<lparr>recovery_codes := update_where (\<lambda>c. rv_ID c = codeID \<and> rv_ConsumedAt c = None)
       (\<lambda>c. c\<lparr>rv_ConsumedAt := Some at\<rparr>) (recovery_codes d)\<rparr>))"

definition Identity_Outbox_Save :: "OutboxEvent \<Rightarrow> unit iprog" where
  "Identity_Outbox_Save event = exec (\<lambda>d.
     if has o_ID (o_ID event) (id_outbox d) then SqlErr ErrDriver
     else SqlOk (Inr ()) (d\<lparr>id_outbox := id_outbox d @ [event]\<rparr>))"

section \<open>Redis\<close>

text \<open>\<open>Find\<close> answers \<open>None\<close> where the code returns \<open>ErrCacheMiss\<close>. \<open>Replace\<close> is one transaction.\<close>

definition Refresh_Save :: "string \<Rightarrow> string \<Rightarrow> unit iprog" where
  "Refresh_Save refreshJTI sessionID = redis (\<lambda>_. ())
     (\<lambda>w. w\<lparr>refresh_store := (refresh_store w)(refreshJTI \<mapsto> sessionID)\<rparr>)"

definition Refresh_Find :: "string \<Rightarrow> string option iprog" where
  "Refresh_Find refreshJTI = redis (\<lambda>w. refresh_store w refreshJTI) id"

definition Refresh_Delete :: "string \<Rightarrow> unit iprog" where
  "Refresh_Delete refreshJTI = redis (\<lambda>_. ()) (\<lambda>w. w\<lparr>refresh_store := (refresh_store w)(refreshJTI := None)\<rparr>)"

definition Refresh_Replace :: "string \<Rightarrow> string \<Rightarrow> string \<Rightarrow> unit iprog" where
  "Refresh_Replace oldJTI newJTI sessionID = redis (\<lambda>_. ())
     (\<lambda>w. w\<lparr>refresh_store := (refresh_store w)(oldJTI := None, newJTI \<mapsto> sessionID)\<rparr>)"

definition OAuth_Save :: "string \<Rightarrow> OAuthState \<Rightarrow> unit iprog" where
  "OAuth_Save state v = redis (\<lambda>_. ()) (\<lambda>w. w\<lparr>oauth_states := (oauth_states w)(state \<mapsto> v)\<rparr>)"

text \<open>A missing entry is an error. That the deletion failed is only logged.\<close>

definition OAuth_GetAndDelete :: "string \<Rightarrow> OAuthState iprog" where
  "OAuth_GetAndDelete state =
     bindE (redis (\<lambda>w. oauth_states w state) id) (\<lambda>r.
       case r of None \<Rightarrow> ret (Inl ErrRedis)
       | Some v \<Rightarrow> do {
           _ \<leftarrow> redis (\<lambda>_. ()) (\<lambda>w. w\<lparr>oauth_states := (oauth_states w)(state := None)\<rparr>);
           ret (Inr v)
         })"

end
