(* ===== verification/Ids.thy ===== *)
theory Ids
  imports Prelude "HOL-Library.Word"
begin

unbundle bit_operations_syntax

text \<open>
  The id generator of \<open>internal/platform/id\<close>: version 4 UUIDs from sixteen random bytes, and the
  test \<open>IsUUID\<close>. The random source is an argument: the bytes it delivers, or \<open>None\<close> when it fails.
\<close>

type_synonym byte = "8 word"

definition hex_digit :: "nat \<Rightarrow> char" where
  "hex_digit n = (if n < 10 then char_of (48 + n) else char_of (87 + n))"

text \<open>\<open>hex.Encode\<close>: two digits per byte, the high half first.\<close>

definition hex_byte :: "byte \<Rightarrow> string" where
  "hex_byte b = [hex_digit (unat b div 16), hex_digit (unat b mod 16)]"

definition hex_encode :: "byte list \<Rightarrow> string" where
  "hex_encode bs = concat (map hex_byte bs)"

text \<open>\<open>UUIDGenerator.New\<close>\<close>

definition set_version :: "byte list \<Rightarrow> byte list" where
  "set_version b = b[6 := ((b ! 6) AND 0x0f) OR 0x40, 8 := ((b ! 8) AND 0x3f) OR 0x80]"

definition New :: "byte list option \<Rightarrow> string option" where
  "New reader =
     (case reader of
        None \<Rightarrow> None
      | Some bytes \<Rightarrow>
          if length bytes < 16 then None
          else
            let b = set_version (take 16 bytes) in
            Some (hex_encode (take 4 b) @ ''-'' @
                  hex_encode (take 2 (drop 4 b)) @ ''-'' @
                  hex_encode (take 2 (drop 6 b)) @ ''-'' @
                  hex_encode (take 2 (drop 8 b)) @ ''-'' @
                  hex_encode (take 6 (drop 10 b))))"

text \<open>\<open>IsUUID\<close>. The loop ranges over runes; on the byte strings that can pass, a rune is a byte.\<close>

definition uuid_char_ok :: "nat \<Rightarrow> char \<Rightarrow> bool" where
  "uuid_char_ok i r =
     (if i \<in> {8, 13, 18, 23} then r = CHR ''-''
      else \<not> (((of_char r :: nat) < 48 \<or> (of_char r :: nat) > 57) \<and>
               ((of_char r :: nat) < 97 \<or> (of_char r :: nat) > 102)))"

definition IsUUID :: "string \<Rightarrow> bool" where
  "IsUUID value =
     (let v = ToLower value in
      length v = 36 \<and> (\<forall>i \<in> set [0..<36]. uuid_char_ok i (v ! i)))"

section \<open>Facts\<close>

definition is_hex :: "char \<Rightarrow> bool" where
  "is_hex c \<longleftrightarrow> (\<exists>n < 16. c = hex_digit n)"

lemma hex_digit_of_char:
  assumes "n < 16"
  shows "(of_char (hex_digit n) :: nat) = (if n < 10 then 48 + n else 87 + n)"
  using assms by (simp add: hex_digit_def)

lemma hex_digit_inject:
  assumes "m < 16" and "n < 16" and "hex_digit m = hex_digit n"
  shows "m = n"
proof -
  have "(if m < 10 then 48 + m else 87 + m) = (if n < 10 then 48 + n else 87 + n)"
    using assms hex_digit_of_char by metis
  then show ?thesis using assms by (simp split: if_splits)
qed

lemma unat_byte_div: "unat (b :: byte) div 16 < 16"
  using unsigned_less [of b, where ?'a = nat] by simp

lemma hex_byte_inject: "hex_byte a = hex_byte b \<Longrightarrow> a = b"
proof -
  assume "hex_byte a = hex_byte b"
  then have "unat a div 16 = unat b div 16" "unat a mod 16 = unat b mod 16"
    by (auto simp: hex_byte_def unat_byte_div intro: hex_digit_inject)
  then have "unat a = unat b" by (metis div_mult_mod_eq)
  then show "a = b" by (rule unsigned_word_eqI)
qed

lemma is_hex_digit: "n < 16 \<Longrightarrow> is_hex (hex_digit n)"
  by (auto simp: is_hex_def)

lemma is_hex_hex_byte: "c \<in> set (hex_byte b) \<Longrightarrow> is_hex c"
  by (auto simp: hex_byte_def intro!: is_hex_digit unat_byte_div)

lemma is_hex_code: "is_hex c \<Longrightarrow> (of_char c :: nat) \<in> {48..57} \<union> {97..102}"
  by (auto simp: is_hex_def hex_digit_of_char split: if_splits)

lemma is_hex_ok: "is_hex c \<Longrightarrow> i \<notin> {8, 13, 18, 23} \<Longrightarrow> uuid_char_ok i c"
  by (auto simp: uuid_char_ok_def dest!: is_hex_code)

lemma is_hex_lower: "is_hex c \<Longrightarrow> to_lower_char c = c"
  by (auto simp: to_lower_char_def Let_def dest!: is_hex_code)

lemma hex_encode_simps [simp]:
  "hex_encode [] = []" "hex_encode (b # bs) = hex_byte b @ hex_encode bs"
  by (simp_all add: hex_encode_def)

text \<open>The sixteen bytes of a block, laid out.\<close>

lemma length_16E:
  assumes "length bs = 16"
  obtains b0 b1 b2 b3 b4 b5 b6 b7 b8 b9 b10 b11 b12 b13 b14 b15
  where "bs = [b0, b1, b2, b3, b4, b5, b6, b7, b8, b9, b10, b11, b12, b13, b14, b15]"
  using assms by (auto simp: eval_nat_numeral length_Suc_conv)

definition layout :: "byte list \<Rightarrow> string" where
  "layout b = hex_encode (take 4 b) @ ''-'' @ hex_encode (take 2 (drop 4 b)) @ ''-'' @
     hex_encode (take 2 (drop 6 b)) @ ''-'' @ hex_encode (take 2 (drop 8 b)) @ ''-'' @
     hex_encode (take 6 (drop 10 b))"

lemma New_layout:
  "New (Some bytes) = (if length bytes < 16 then None else Some (layout (set_version (take 16 bytes))))"
  by (simp add: New_def layout_def Let_def)

lemma layout_inject:
  assumes "length a = 16" and "length b = 16" and "layout a = layout b"
  shows "a = b"
  using assms(1)
proof (rule length_16E)
  fix a0 a1 a2 a3 a4 a5 a6 a7 a8 a9 a10 a11 a12 a13 a14 a15
  assume a: "a = [a0, a1, a2, a3, a4, a5, a6, a7, a8, a9, a10, a11, a12, a13, a14, a15]"
  from assms(2) show ?thesis
  proof (rule length_16E)
    fix b0 b1 b2 b3 b4 b5 b6 b7 b8 b9 b10 b11 b12 b13 b14 b15
    assume b: "b = [b0, b1, b2, b3, b4, b5, b6, b7, b8, b9, b10, b11, b12, b13, b14, b15]"
    from assms(3) show ?thesis
      unfolding a b layout_def
      by (simp add: hex_byte_def [symmetric]) (auto simp: hex_byte_def intro!: hex_byte_inject)
  qed
qed

lemma layout_IsUUID:
  assumes "length b = 16"
  shows "IsUUID (layout b)"
  using assms
proof (rule length_16E)
  fix b0 b1 b2 b3 b4 b5 b6 b7 b8 b9 b10 b11 b12 b13 b14 b15
  assume b: "b = [b0, b1, b2, b3, b4, b5, b6, b7, b8, b9, b10, b11, b12, b13, b14, b15]"
  have hi: "is_hex (hex_digit (unat (x :: byte) div 16))"
    and lo: "is_hex (hex_digit (unat (x :: byte) mod 16))" for x
    by (auto intro!: is_hex_digit unat_byte_div)
  have dash: "to_lower_char CHR ''-'' = CHR ''-''" by (simp add: to_lower_char_def)
  show ?thesis
    unfolding b layout_def IsUUID_def ToLower_def
    by (simp add: hex_byte_def is_hex_lower hi lo dash is_hex_ok upt_rec)
      (simp add: uuid_char_ok_def)
qed

lemma version_nibble: "unat (((x :: byte) AND 0x0f) OR 0x40) div 16 = 4"
proof -
  have "drop_bit 4 ((x AND 0x0f) OR 0x40) = (4 :: byte)"
    by (simp add: drop_bit_and drop_bit_or)
  then have "unat (drop_bit 4 ((x AND 0x0f) OR 0x40)) = 4" by simp
  then show ?thesis by (simp add: drop_bit_eq_div unat_div)
qed

lemma variant_nibble: "unat (((x :: byte) AND 0x3f) OR 0x80) div 16 \<in> {8, 9, 10, 11}"
proof -
  have "drop_bit 4 ((x AND 0x3f) OR 0x80) = (drop_bit 4 x AND 3) OR (8 :: byte)"
    by (simp add: drop_bit_and drop_bit_or)
  also have "drop_bit 4 x AND 3 = take_bit 2 (drop_bit 4 x)"
    by (simp add: take_bit_eq_mask mask_eq_exp_minus_1)
  finally have eq: "unat (((x AND 0x3f) OR 0x80) div 16) = unat (take_bit 2 (drop_bit 4 x) OR (8 :: byte))"
    by (simp add: drop_bit_eq_div)
  define y where "y = take_bit 2 (drop_bit 4 x)"
  have "unat y < 4"
    by (simp add: y_def take_bit_eq_mod unat_mod)
  then consider "unat y = 0" | "unat y = 1" | "unat y = 2" | "unat y = 3" by linarith
  then have "y = 0 \<or> y = 1 \<or> y = 2 \<or> y = 3"
    by cases (simp_all only: word_unat_eq_iff unat_0 unat_1 unat_numeral, simp_all)
  with eq [folded y_def] show ?thesis by (auto simp: unat_div)
qed

lemma hex_digit_chars:
  "hex_digit 4 = CHR ''4''" "hex_digit 8 = CHR ''8''" "hex_digit 9 = CHR ''9''"
  "hex_digit 10 = CHR ''a''" "hex_digit 11 = CHR ''b''"
  by (code_simp)+

section \<open>Properties\<close>

text \<open>
  When the random source delivers its sixteen bytes the generator succeeds, the id passes
  \<open>IsUUID\<close>, and it carries the version 4 and variant digits of RFC 4122; when the source fails or
  is short there is no id.
\<close>

lemma New_uuid_v4:
  "New None = None \<and>
   (length bytes < 16 \<longrightarrow> New (Some bytes) = None) \<and>
   (16 \<le> length bytes \<longrightarrow>
     (\<exists>u. New (Some bytes) = Some u \<and> IsUUID u \<and> u ! 14 = CHR ''4'' \<and> u ! 19 \<in> set ''89ab''))"
proof -
  have "\<exists>u. New (Some bytes) = Some u \<and> IsUUID u \<and> u ! 14 = CHR ''4'' \<and> u ! 19 \<in> set ''89ab''"
    if long: "16 \<le> length bytes"
  proof -
    have len: "length (take 16 bytes) = 16" using long by simp
    let ?b = "set_version (take 16 bytes)"
    have "IsUUID (layout ?b)" using len by (intro layout_IsUUID) (simp add: set_version_def)
    moreover from len have "layout ?b ! 14 = CHR ''4'' \<and> layout ?b ! 19 \<in> set ''89ab''"
    proof (rule length_16E)
      fix b0 b1 b2 b3 b4 b5 b6 b7 b8 b9 b10 b11 b12 b13 b14 b15
      assume b: "take 16 bytes =
        [b0, b1, b2, b3, b4, b5, b6, b7, b8, b9, b10, b11, b12, b13, b14, b15]"
      show ?thesis
        using variant_nibble [of b8] unfolding b set_version_def layout_def
        by (auto simp: hex_byte_def version_nibble hex_digit_chars)
    qed
    ultimately show ?thesis using long by (simp add: New_layout)
  qed
  then show ?thesis by (simp add: New_layout New_def)
qed

text \<open>
  The generator loses no randomness beyond the six bits it fixes: two draws give the same
  id only if they agree on all other bits.
\<close>

lemma New_injective:
  assumes "length a = 16" and "length b = 16" and "New (Some a) = New (Some b)"
  shows "set_version a = set_version b"
  using assms by (intro layout_inject) (simp_all add: New_layout set_version_def)

end
