(* ===== verification/Quota.thy ===== *)
theory Quota
  imports Prelude Complex_Main
begin

text \<open>
  The send quota of an API key: limits (\<open>internal/modules/access/domain/email_quota.go\<close>) and the token
  buckets in Redis (\<open>internal/modules/delivery/infrastructure/redis/quota.go\<close>). The two Lua scripts run
  atomically, so each is one function from the buckets to the buckets. Numbers of tokens are rationals
  (Lua computes with doubles); callers and Redis share one clock, in seconds.
\<close>

section \<open>Limits\<close>

record EmailQuotaLimits =
  PerMinute :: "int option"
  PerHour :: "int option"
  PerDay :: "int option"
  PerMonth :: "int option"

definition IsEmpty :: "EmailQuotaLimits \<Rightarrow> bool" where
  "IsEmpty l \<longleftrightarrow> PerMinute l = None \<and> PerHour l = None \<and> PerDay l = None \<and> PerMonth l = None"

text \<open>\<open>Validate\<close>; true where the Go method returns nil.\<close>

definition limit_ok :: "int option \<Rightarrow> bool" where
  "limit_ok x \<longleftrightarrow> (case x of None \<Rightarrow> True | Some n \<Rightarrow> 0 < n)"

definition ValidLimits :: "EmailQuotaLimits \<Rightarrow> bool" where
  "ValidLimits l \<longleftrightarrow> limit_ok (PerMinute l) \<and> limit_ok (PerHour l) \<and> limit_ok (PerDay l) \<and> limit_ok (PerMonth l)"

section \<open>Buckets\<close>

record bucket =
  b_tokens :: rat
  b_last :: int
  b_expires :: int

type_synonym buckets = "string \<rightharpoonup> bucket"

definition live :: "int \<Rightarrow> buckets \<Rightarrow> string \<Rightarrow> bucket option" where
  "live now m k = (case m k of None \<Rightarrow> None | Some b \<Rightarrow> if now < b_expires b then Some b else None)"

text \<open>A window of a call: the key of its bucket, its capacity and its length.\<close>

record window =
  w_key :: string
  w_cap :: int
  w_sec :: int

definition refilled :: "int \<Rightarrow> window \<Rightarrow> bucket option \<Rightarrow> rat" where
  "refilled now w data =
     (case data of
        None \<Rightarrow> of_int (w_cap w)
      | Some b \<Rightarrow>
          let elapsed = max 0 (now - b_last b);
              refill = of_int elapsed * (of_int (w_cap w) / of_int (w_sec w))
          in min (of_int (w_cap w)) (b_tokens b + refill))"

text \<open>Phase 1 of the script: the index of the first window without enough tokens, or the new states.\<close>

fun check_windows :: "int \<Rightarrow> int \<Rightarrow> nat \<Rightarrow> window list \<Rightarrow> buckets \<Rightarrow> nat + (window \<times> rat) list" where
  "check_windows now units i [] m = Inr []"
| "check_windows now units i (w # ws) m =
     (let tokens = refilled now w (live now m (w_key w)) in
      if tokens < of_int units then Inl i
      else case check_windows now units (Suc i) ws m of
        Inl j \<Rightarrow> Inl j
      | Inr sts \<Rightarrow> Inr ((w, tokens - of_int units) # sts))"

text \<open>Phase 2: store the new states with their expiry.\<close>

fun commit_windows :: "int \<Rightarrow> (window \<times> rat) list \<Rightarrow> buckets \<Rightarrow> buckets" where
  "commit_windows now [] m = m"
| "commit_windows now ((w, tokens) # sts) m =
     commit_windows now sts (m(w_key w \<mapsto> \<lparr>b_tokens = tokens, b_last = now, b_expires = now + 2 * w_sec w\<rparr>))"

definition tokenBucketLua :: "int \<Rightarrow> int \<Rightarrow> window list \<Rightarrow> buckets \<Rightarrow> (nat \<times> nat) \<times> buckets" where
  "tokenBucketLua now units ws m =
     (case check_windows now units 1 ws m of
        Inl i \<Rightarrow> ((0, i), m)
      | Inr sts \<Rightarrow> ((1, 0), commit_windows now sts m))"

definition refund_window :: "int \<Rightarrow> int \<Rightarrow> window \<Rightarrow> buckets \<Rightarrow> buckets" where
  "refund_window now units w m =
     (case live now m (w_key w) of
        None \<Rightarrow> m
      | Some b \<Rightarrow> m(w_key w \<mapsto> b\<lparr>b_tokens := min (of_int (w_cap w)) (b_tokens b + of_int units)\<rparr>))"

fun tokenRefundLua :: "int \<Rightarrow> int \<Rightarrow> window list \<Rightarrow> buckets \<Rightarrow> buckets" where
  "tokenRefundLua now units [] m = m"
| "tokenRefundLua now units (w # ws) m = tokenRefundLua now units ws (refund_window now units w m)"

section \<open>Service\<close>

definition KeyAPIKeyQuotaBucket :: "string \<Rightarrow> string \<Rightarrow> string \<Rightarrow> string" where
  "KeyAPIKeyQuotaBucket workspaceID apiKeyID window =
     ''quota:apikey:token_bucket:v1:'' @ workspaceID @ '':'' @ apiKeyID @ '':'' @ window"

definition quotaWindows :: "((EmailQuotaLimits \<Rightarrow> int option) \<times> string \<times> int) list" where
  "quotaWindows = [(PerMinute, ''minute'', 60), (PerHour, ''hour'', 3600), (PerDay, ''day'', 86400), (PerMonth, ''month'', 2592000)]"

definition configured :: "string \<Rightarrow> string \<Rightarrow> EmailQuotaLimits \<Rightarrow> window list" where
  "configured workspaceID apiKeyID limits =
     concat (map (\<lambda>(field, suffix, seconds).
       case field limits of
         None \<Rightarrow> []
       | Some v \<Rightarrow> [\<lparr>w_key = KeyAPIKeyQuotaBucket workspaceID apiKeyID suffix, w_cap = v, w_sec = seconds\<rparr>]) quotaWindows)"

text \<open>\<open>Some True\<close>: within the quota; \<open>Some False\<close>: exceeded. The Redis call itself is made by the caller's world.\<close>

definition consume :: "int \<Rightarrow> string \<Rightarrow> string \<Rightarrow> int \<Rightarrow> EmailQuotaLimits option \<Rightarrow> buckets \<Rightarrow> bool \<times> buckets" where
  "consume now workspaceID apiKeyID recipientCount limits m =
     (case limits of
        None \<Rightarrow> (True, m)
      | Some l \<Rightarrow>
          if IsEmpty l then (True, m)
          else case tokenBucketLua now recipientCount (configured workspaceID apiKeyID l) m of
            ((allowed, _), m') \<Rightarrow> (allowed = 1, m'))"

definition give_back :: "int \<Rightarrow> string \<Rightarrow> string \<Rightarrow> int \<Rightarrow> EmailQuotaLimits option \<Rightarrow> buckets \<Rightarrow> buckets" where
  "give_back now workspaceID apiKeyID recipientCount limits m =
     (case limits of
        None \<Rightarrow> m
      | Some l \<Rightarrow> if IsEmpty l then m else tokenRefundLua now recipientCount (configured workspaceID apiKeyID l) m)"

section \<open>Facts about one window\<close>

text \<open>A bucket that only the scripts have written, as seen at a time not before its last refill.\<close>

definition bucket_ok :: "int \<Rightarrow> window \<Rightarrow> buckets \<Rightarrow> bool" where
  "bucket_ok now w m \<longleftrightarrow>
     (case m (w_key w) of None \<Rightarrow> True
      | Some b \<Rightarrow> 0 \<le> b_tokens b \<and> b_tokens b \<le> of_int (w_cap w) \<and> b_last b \<le> now \<and> b_expires b = b_last b + 2 * w_sec w)"

definition window_ok :: "window \<Rightarrow> bool" where
  "window_ok w \<longleftrightarrow> 0 < w_cap w \<and> 0 < w_sec w"

abbreviation rate :: "window \<Rightarrow> rat" where
  "rate w \<equiv> of_int (w_cap w) / of_int (w_sec w)"

abbreviation avail :: "int \<Rightarrow> window \<Rightarrow> buckets \<Rightarrow> rat" where
  "avail now w m \<equiv> refilled now w (live now m (w_key w))"

lemma avail_range:
  assumes "window_ok w" and "bucket_ok now w m"
  shows "0 \<le> avail now w m" and "avail now w m \<le> of_int (w_cap w)"
proof -
  have "0 \<le> rate w" using assms(1) by (simp add: window_ok_def)
  then show "0 \<le> avail now w m" and "avail now w m \<le> of_int (w_cap w)"
    using assms by (auto simp: refilled_def live_def bucket_ok_def window_ok_def Let_def split: option.splits)
qed

text \<open>A bucket is full before its key expires.\<close>

lemma expired_full:
  assumes "window_ok w" and "0 \<le> a" and "t + 2 * w_sec w \<le> t'"
  shows "of_int (w_cap w) \<le> a + of_int (t' - t) * rate w"
proof -
  define r where "r = rate w"
  have r: "0 < r" and full: "of_int (w_sec w) * r = of_int (w_cap w)" and c: "0 < w_cap w"
    using assms(1) by (simp_all add: window_ok_def r_def)
  have "of_int (2 * w_sec w) * r \<le> of_int (t' - t) * r" using r assms(3) by (intro mult_right_mono) simp_all
  moreover have "of_int (2 * w_sec w) * r = 2 * of_int (w_cap w)" using full by (simp add: algebra_simps)
  moreover have "(0 :: rat) < of_int (w_cap w)" using c by simp
  ultimately show ?thesis unfolding r_def [symmetric] using assms(2) by linarith
qed

text \<open>Between two times a window fills up at its rate, whether or not its key expires.\<close>

lemma avail_refill:
  assumes "window_ok w" and "bucket_ok t w m" and "t \<le> t'"
  shows "avail t' w m = min (of_int (w_cap w)) (avail t w m + of_int (t' - t) * rate w)"
proof (cases "m (w_key w)")
  case None
  with assms show ?thesis by (simp add: live_def refilled_def window_ok_def)
next
  case (Some b)
  define c where "c = (of_int (w_cap w) :: rat)"
  have b: "0 \<le> b_tokens b" "b_last b \<le> t" "b_expires b = b_last b + 2 * w_sec w"
    using assms(2) Some by (simp_all add: bucket_ok_def)
  define A where "A = b_tokens b + of_int (t - b_last b) * rate w"
  define g where "g = of_int (t' - t) * rate w"
  have sum: "b_tokens b + of_int (t' - b_last b) * rate w = A + g"
    unfolding A_def g_def by (simp add: algebra_simps diff_divide_distrib)
  have g: "0 \<le> g" unfolding g_def using assms(1,3) by (simp add: window_ok_def)
  have at: "avail u w m = (if u < b_expires b then min c (b_tokens b + of_int (u - b_last b) * rate w) else c)"
    if "b_last b \<le> u" for u
    using that by (simp add: live_def Some refilled_def Let_def c_def)
  have full: "c \<le> A + g" if "\<not> t' < b_expires b"
    using expired_full [OF assms(1) b(1), of "b_last b" t'] that b(3) unfolding sum c_def by simp
  have "avail t w m = (if t < b_expires b then min c A else c)"
    unfolding A_def by (rule at [OF b(2)])
  then have now: "min c (avail t w m + g) = (if t < b_expires b then min c (A + g) else c)"
    using g by (simp only: split: if_split) (simp add: min_def)
  have "avail t' w m = (if t' < b_expires b then min c (A + g) else c)"
    using at [of t'] b(2) assms(3) unfolding sum by simp
  with full assms(3) have "avail t' w m = (if t < b_expires b then min c (A + g) else c)" by (auto simp: min_def)
  with now have "avail t' w m = min c (avail t w m + g)" by simp
  then show ?thesis by (simp only: c_def g_def)
qed

lemma avail_later:
  "window_ok w \<Longrightarrow> bucket_ok t w m \<Longrightarrow> t \<le> t' \<Longrightarrow> avail t' w m \<le> avail t w m + of_int (t' - t) * rate w"
  by (simp only: avail_refill [of w t m t'] min.cobounded2)

section \<open>What the scripts do\<close>

lemma check_windows_Inr:
  "check_windows now units i ws m = Inr sts \<Longrightarrow>
   sts = map (\<lambda>w. (w, avail now w m - of_int units)) ws \<and> (\<forall>w \<in> set ws. of_int units \<le> avail now w m)"
  by (induction ws arbitrary: i sts) (auto simp: Let_def split: if_splits sum.splits)

lemma check_windows_Inl:
  "check_windows now units i ws m = Inl j \<Longrightarrow> \<exists>w \<in> set ws. avail now w m < of_int units"
  by (induction ws arbitrary: i) (auto simp: Let_def split: if_splits sum.splits)

lemma commit_windows_other: "k \<notin> w_key ` fst ` set sts \<Longrightarrow> commit_windows now sts m k = m k"
  by (induction now sts m rule: commit_windows.induct) auto

lemma commit_windows_key:
  "distinct (map (w_key \<circ> fst) sts) \<Longrightarrow> (w, x) \<in> set sts \<Longrightarrow>
   commit_windows now sts m (w_key w) = Some \<lparr>b_tokens = x, b_last = now, b_expires = now + 2 * w_sec w\<rparr>"
proof (induction now sts m rule: commit_windows.induct)
  case (2 now v y sts m)
  show ?case
  proof (cases "(w, x) = (v, y)")
    case True
    with 2 show ?thesis by (simp add: commit_windows_other image_image)
  next
    case False
    with 2 show ?thesis by (auto simp del: fun_upd_apply)
  qed
qed simp

text \<open>
  The script is all or nothing: it succeeds exactly if every window has enough tokens, then takes the
  units from each, and otherwise changes nothing.
\<close>

lemma tokenBucketLua_iff:
  "fst (fst (tokenBucketLua now units ws m)) = 1 \<longleftrightarrow> (\<forall>w \<in> set ws. of_int units \<le> avail now w m)"
proof (cases "check_windows now units 1 ws m")
  case (Inl j)
  from check_windows_Inl [OF this] Inl show ?thesis by (auto simp: tokenBucketLua_def not_le)
next
  case (Inr sts)
  from check_windows_Inr [OF this] Inr show ?thesis by (simp add: tokenBucketLua_def)
qed

lemma tokenBucketLua_reject: "fst (fst (tokenBucketLua now units ws m)) \<noteq> 1 \<Longrightarrow> snd (tokenBucketLua now units ws m) = m"
  by (auto simp: tokenBucketLua_def split: sum.splits)

lemma tokenBucketLua_accept:
  assumes "fst (fst (tokenBucketLua now units ws m)) = 1" and "distinct (map w_key ws)"
  shows "w \<in> set ws \<Longrightarrow> snd (tokenBucketLua now units ws m) (w_key w) =
      Some \<lparr>b_tokens = avail now w m - of_int units, b_last = now, b_expires = now + 2 * w_sec w\<rparr>"
    and "k \<notin> w_key ` set ws \<Longrightarrow> snd (tokenBucketLua now units ws m) k = m k"
proof -
  from assms(1) obtain sts where c: "check_windows now units 1 ws m = Inr sts"
    and m': "snd (tokenBucketLua now units ws m) = commit_windows now sts m"
    by (auto simp: tokenBucketLua_def split: sum.splits)
  note sts = conjunct1 [OF check_windows_Inr [OF c]]
  show "snd (tokenBucketLua now units ws m) (w_key w) =
      Some \<lparr>b_tokens = avail now w m - of_int units, b_last = now, b_expires = now + 2 * w_sec w\<rparr>" if "w \<in> set ws"
    unfolding m' by (rule commit_windows_key) (use sts assms(2) that in \<open>auto simp: comp_def\<close>)
  show "snd (tokenBucketLua now units ws m) k = m k" if "k \<notin> w_key ` set ws"
    unfolding m' by (rule commit_windows_other) (use sts that in \<open>auto simp: image_image\<close>)
qed

lemma refund_window_other: "k \<noteq> w_key w \<Longrightarrow> refund_window now units w m k = m k"
  by (simp add: refund_window_def split: option.split)

lemma tokenRefundLua_other: "k \<notin> w_key ` set ws \<Longrightarrow> tokenRefundLua now units ws m k = m k"
  by (induction now units ws m rule: tokenRefundLua.induct) (auto simp: refund_window_other)

lemma live_cong: "m k = m' k \<Longrightarrow> live now m k = live now m' k"
  by (simp add: live_def)

lemma tokenRefundLua_key:
  "distinct (map w_key ws) \<Longrightarrow> w \<in> set ws \<Longrightarrow>
   tokenRefundLua now units ws m (w_key w) = refund_window now units w m (w_key w)"
proof (induction now units ws m rule: tokenRefundLua.induct)
  case (2 now units v ws m)
  show ?case
  proof (cases "w = v")
    case True
    with 2 show ?thesis by (simp add: tokenRefundLua_other)
  next
    case False
    with 2 have w: "w \<in> set ws" "w_key w \<noteq> w_key v" by (auto simp: image_iff)
    then have "refund_window now units v m (w_key w) = m (w_key w)" by (simp add: refund_window_other)
    with live_cong [of "refund_window now units v m" "w_key w" m now]
    have "refund_window now units w (refund_window now units v m) (w_key w) = refund_window now units w m (w_key w)"
      unfolding refund_window_def [of now units w] by (simp split: option.split)
    with 2 w show ?thesis by simp
  qed
qed simp

lemma consumed_level:
  assumes "fst (fst (tokenBucketLua now (int n) ws m)) = 1" and "distinct (map w_key ws)" and "w \<in> set ws"
    and "window_ok w" and "bucket_ok now w m"
  shows "avail now w (snd (tokenBucketLua now (int n) ws m)) = avail now w m - of_nat n"
  using tokenBucketLua_accept(1) [OF assms(1-3)] avail_range [OF assms(4,5)] assms(4)
  by (auto simp: live_def refilled_def Let_def window_ok_def)

section \<open>A limiter\<close>

text \<open>
  What a client of a limiter relies on: calls at times that do not decrease, a level that never is
  negative, grows at most with the rate, and pays for every unit a call lets through. Then the units
  let through in an interval are bounded by the level at its start and the rate times its length.
\<close>

fun run_all :: "('op \<Rightarrow> 's \<Rightarrow> int \<times> 's) \<Rightarrow> 'op list \<Rightarrow> 's \<Rightarrow> int \<times> 's" where
  "run_all step [] m = (0, m)"
| "run_all step (x # xs) m =
     (let (net, m1) = step x m; (rest, m2) = run_all step xs m1 in (net + rest, m2))"

locale limiter =
  fixes valid :: "'c \<Rightarrow> bool" and ok :: "int \<Rightarrow> 'c \<Rightarrow> 's \<Rightarrow> bool" and level :: "int \<Rightarrow> 'c \<Rightarrow> 's \<Rightarrow> rat"
    and speed :: "'c \<Rightarrow> rat" and time :: "'op \<Rightarrow> int" and step :: "'c \<Rightarrow> 'op \<Rightarrow> 's \<Rightarrow> int \<times> 's"
  assumes level_nonneg: "valid c \<Longrightarrow> ok t c m \<Longrightarrow> 0 \<le> level t c m"
    and ok_later: "ok t c m \<Longrightarrow> t \<le> t' \<Longrightarrow> ok t' c m"
    and level_later: "valid c \<Longrightarrow> ok t c m \<Longrightarrow> t \<le> t' \<Longrightarrow> level t' c m \<le> level t c m + of_int (t' - t) * speed c"
    and step_ok: "valid c \<Longrightarrow> ok (time x) c m \<Longrightarrow> step c x m = (net, m') \<Longrightarrow> ok (time x) c m'"
    and step_level: "valid c \<Longrightarrow> ok (time x) c m \<Longrightarrow> step c x m = (net, m') \<Longrightarrow>
      of_int net + level (time x) c m' \<le> level (time x) c m"
begin

lemma run_bound:
  assumes "valid c" and "ok t0 c m" and "sorted (t0 # map time xs)" and "\<forall>x \<in> set xs. time x \<le> t1" and "t0 \<le> t1"
  shows "of_int (fst (run_all (step c) xs m)) \<le> level t0 c m + of_int (t1 - t0) * speed c"
  using assms(2-)
proof (induction xs arbitrary: m t0)
  case Nil
  have "0 \<le> level t1 c m" using assms(1) Nil ok_later level_nonneg by blast
  also have "\<dots> \<le> level t0 c m + of_int (t1 - t0) * speed c" using assms(1) Nil by (intro level_later) simp_all
  finally show ?case by simp
next
  case (Cons x xs)
  obtain net m1 where s: "step c x m = (net, m1)" by fastforce
  have x: "ok (time x) c m" using Cons.prems ok_later by auto
  have "of_int (fst (run_all (step c) xs m1)) \<le> level (time x) c m1 + of_int (t1 - time x) * speed c"
    using Cons.prems step_ok [OF assms(1) x s] by (intro Cons.IH) auto
  moreover have "of_int net + level (time x) c m1 \<le> level (time x) c m" by (rule step_level [OF assms(1) x s])
  moreover have "level (time x) c m \<le> level t0 c m + of_int (time x - t0) * speed c"
    using assms(1) Cons.prems by (intro level_later) auto
  moreover have "of_int (t1 - t0) * speed c = of_int (t1 - time x) * speed c + of_int (time x - t0) * speed c"
    by (simp add: algebra_simps)
  moreover obtain rest m2 where "run_all (step c) xs m1 = (rest, m2)" by fastforce
  ultimately show ?case by (simp add: s)
qed

end

section \<open>Sequences of calls\<close>

text \<open>
  A history of one API key: calls that consume and calls that give back, each at its time. The net
  number of units is what was allowed less what was given back.
\<close>

datatype quota_op = Consume int nat | Refund int nat

fun op_time :: "quota_op \<Rightarrow> int" where
  "op_time (Consume t n) = t"
| "op_time (Refund t n) = t"

fun run_op :: "string \<times> string \<times> EmailQuotaLimits \<Rightarrow> quota_op \<Rightarrow> buckets \<Rightarrow> int \<times> buckets" where
  "run_op (wid, kid, l) (Consume t n) m =
     (case consume t wid kid (int n) (Some l) m of (a, m') \<Rightarrow> (if a then int n else 0, m'))"
| "run_op (wid, kid, l) (Refund t n) m = (- int n, give_back t wid kid (int n) (Some l) m)"

definition valid_window :: "(string \<times> string \<times> EmailQuotaLimits) \<times> window \<Rightarrow> bool" where
  "valid_window lw = (case lw of ((wid, kid, l), w) \<Rightarrow> ValidLimits l \<and> w \<in> set (configured wid kid l))"

lemma configured_ok: "ValidLimits l \<Longrightarrow> w \<in> set (configured wid kid l) \<Longrightarrow> window_ok w"
  by (auto simp: configured_def quotaWindows_def ValidLimits_def limit_ok_def window_ok_def split: option.splits)

lemma configured_distinct: "distinct (map w_key (configured wid kid l))"
  by (simp add: configured_def quotaWindows_def KeyAPIKeyQuotaBucket_def split: option.split)

lemma configured_empty: "IsEmpty l \<Longrightarrow> configured wid kid l = []"
  by (simp add: IsEmpty_def configured_def quotaWindows_def)

lemma bucket_ok_later: "bucket_ok t w m \<Longrightarrow> t \<le> t' \<Longrightarrow> bucket_ok t' w m"
  by (auto simp: bucket_ok_def split: option.splits)

lemma run_op_ok:
  assumes lw: "valid_window lw" and ok: "bucket_ok (op_time x) (snd lw) m" and run: "run_op (fst lw) x m = (net, m')"
  shows "bucket_ok (op_time x) (snd lw) m'"
    and "of_int net + avail (op_time x) (snd lw) m' \<le> avail (op_time x) (snd lw) m"
proof -
  obtain wid kid l w where lw': "lw = ((wid, kid, l), w)" by (metis prod.collapse)
  define ws where "ws = configured wid kid l"
  have w: "w \<in> set ws" "window_ok w" and dist: "distinct (map w_key ws)" and ne: "\<not> IsEmpty l"
    using lw configured_ok configured_distinct by (auto simp: lw' ws_def valid_window_def configured_empty)
  note ok = ok [unfolded lw' snd_conv] and run = run [unfolded lw' fst_conv]
  note range = avail_range [OF w(2) ok]
  have "bucket_ok (op_time x) w m' \<and> of_int net + avail (op_time x) w m' \<le> avail (op_time x) w m"
  proof (cases x)
    case (Consume t n)
    show ?thesis
    proof (cases "fst (fst (tokenBucketLua t (int n) ws m)) = 1")
      case True
      note m' = tokenBucketLua_accept(1) [OF True dist w(1)]
      from True tokenBucketLua_iff [of t "int n" ws m] w(1) have "of_int (int n) \<le> avail t w m" by simp
      with range m' run Consume True w(2) ne show ?thesis
        by (auto simp: consume_def ws_def bucket_ok_def live_def refilled_def window_ok_def split: prod.splits)
    next
      case False
      with tokenBucketLua_reject [OF False] run Consume ok ne show ?thesis by (auto simp: consume_def ws_def split: prod.splits)
    qed
  next
    case (Refund t n)
    with run dist w(1) ne have m': "m' (w_key w) = refund_window t (int n) w m (w_key w)"
      by (auto simp: give_back_def ws_def tokenRefundLua_key)
    show ?thesis
    proof (cases "live t m (w_key w)")
      case None
      with m' have same: "m' (w_key w) = m (w_key w)" by (simp add: refund_window_def)
      with live_cong [of m' "w_key w" m t] run Refund ok show ?thesis by (auto simp: bucket_ok_def)
    next
      case (Some b)
      then have b: "m (w_key w) = Some b" "t < b_expires b" by (auto simp: live_def split: option.splits if_splits)
      have m'': "m' (w_key w) = Some (b\<lparr>b_tokens := min (of_int (w_cap w)) (b_tokens b + of_int (int n))\<rparr>)"
        using m' Some by (simp add: refund_window_def)
      define g where "g = of_int (max 0 (t - b_last b)) * rate w"
      define c where "c = (of_int (w_cap w) :: rat)"
      have g: "0 \<le> g" and c: "0 < c" using w(2) by (simp_all add: window_ok_def g_def c_def)
      have "avail t w m = min c (b_tokens b + g)" and "avail t w m' = min c (min c (b_tokens b + of_nat n) + g)"
        using b m'' by (simp_all add: live_def refilled_def Let_def g_def c_def)
      moreover have "bucket_ok t w m'" using m'' ok Refund b c by (simp add: bucket_ok_def c_def)
      moreover have "b_tokens b \<le> c" using ok Refund b by (simp add: bucket_ok_def c_def)
      ultimately show ?thesis using run Refund g by (auto simp: min_def)
    qed
  qed
  then show "bucket_ok (op_time x) (snd lw) m'"
    and "of_int net + avail (op_time x) (snd lw) m' \<le> avail (op_time x) (snd lw) m" by (simp_all add: lw')
qed

interpretation quota: limiter valid_window "\<lambda>t lw. bucket_ok t (snd lw)" "\<lambda>t lw. avail t (snd lw)"
  "\<lambda>lw. rate (snd lw)" op_time "\<lambda>lw. run_op (fst lw)"
proof unfold_locales
  have ok: "window_ok (snd lw)" if "valid_window lw" for lw
    using that configured_ok by (auto simp: valid_window_def split: prod.splits)
  show "0 \<le> avail t (snd lw) m" if "valid_window lw" "bucket_ok t (snd lw) m" for lw t m
    using avail_range(1) ok that by blast
  show "avail t' (snd lw) m \<le> avail t (snd lw) m + of_int (t' - t) * rate (snd lw)"
    if "valid_window lw" "bucket_ok t (snd lw) m" "t \<le> t'" for lw t t' m
    using that by (intro avail_later ok)
qed (auto intro: bucket_ok_later run_op_ok)

section \<open>Taking and giving back\<close>

lemma consume_level:
  assumes "consume now wid kid (int n) (Some l) m = (allowed, m')" and "ValidLimits l"
    and "w \<in> set (configured wid kid l)" and "bucket_ok now w m"
  shows "avail now w m' = avail now w m - (if allowed then of_nat n else 0)"
proof -
  let ?run = "tokenBucketLua now (int n) (configured wid kid l) m"
  have ne: "\<not> IsEmpty l" using assms(3) configured_empty by auto
  have "allowed \<longleftrightarrow> fst (fst ?run) = 1" and "m' = snd ?run"
    using ne assms(1) by (auto simp: consume_def split: prod.splits)
  then show ?thesis
    using consumed_level [OF _ configured_distinct assms(3) configured_ok [OF assms(2,3)] assms(4)]
      tokenBucketLua_reject [of now "int n" "configured wid kid l" m] by auto
qed

lemma refund_undoes:
  assumes "ValidLimits l" and "w \<in> set (configured wid kid l)" and "bucket_ok t w m"
    and "consume t wid kid (int n) (Some l) m = (True, m1)" and "t \<le> t'"
    and "give_back t' wid kid (int n) (Some l) m1 = m2"
  shows "avail t' w m2 = avail t' w m"
proof -
  let ?ws = "configured wid kid l"
  have ne: "\<not> IsEmpty l" using assms(2) configured_empty by auto
  have ok: "window_ok w" using assms(1,2) by (rule configured_ok)
  have acc: "fst (fst (tokenBucketLua t (int n) ?ws m)) = 1" and m1: "m1 = snd (tokenBucketLua t (int n) ?ws m)"
    using ne assms(4) by (auto simp: consume_def split: prod.splits)
  note b = tokenBucketLua_accept(1) [OF acc configured_distinct assms(2), folded m1]
  have m2: "m2 (w_key w) = refund_window t' (int n) w m1 (w_key w)"
    using ne assms(2,6) by (auto simp: give_back_def tokenRefundLua_key configured_distinct)
  define a where "a = avail t w m"
  have a: "0 \<le> a" "a \<le> of_int (w_cap w)" using avail_range [OF ok assms(3)] by (simp_all add: a_def)
  have "of_int (w_cap w) \<le> a + of_int (t' - t) * rate w" if "t + 2 * w_sec w \<le> t'"
    using ok a(1) that by (rule expired_full)
  moreover have "live t' m2 (w_key w) =
      (if t' < t + 2 * w_sec w then Some \<lparr>b_tokens = a, b_last = t, b_expires = t + 2 * w_sec w\<rparr> else None)"
    using b [folded a_def] m2 a(2) by (simp add: live_def refund_window_def)
  ultimately have "avail t' w m2 = min (of_int (w_cap w)) (a + of_int (t' - t) * rate w)"
    using assms(5) by (simp add: refilled_def)
  with avail_refill [OF ok assms(3,5)] show ?thesis by (simp only: a_def)
qed

section \<open>Properties\<close>

text \<open>
  Claim C12. The rate limit: however the calls of an API key are spread over an interval, in each
  configured window the units allowed in it, less those refunded, are at most the capacity of the window plus what
  the window refills in the interval. This holds with any calls before the interval, and across the
  expiry of the Redis keys.
\<close>

theorem quota_rate:
  assumes "ValidLimits l" and "w \<in> set (configured wid kid l)" and "bucket_ok t0 w m"
    and "sorted (t0 # map op_time ops)" and "\<forall>x \<in> set ops. op_time x \<le> t1" and "t0 \<le> t1"
  shows "of_int (fst (run_all (run_op (wid, kid, l)) ops m)) \<le>
    (of_int (w_cap w) + of_int (t1 - t0) * (of_int (w_cap w) / of_int (w_sec w)) :: rat)"
proof -
  have "avail t0 w m \<le> of_int (w_cap w)" using assms by (intro avail_range(2) configured_ok)
  with quota.run_bound [of "((wid, kid, l), w)" t0 m ops t1] assms show ?thesis by (simp add: valid_window_def)
qed

abbreviation sample_limits :: EmailQuotaLimits where
  "sample_limits \<equiv> \<lparr>PerMinute = Some 10, PerHour = Some 100, PerDay = None, PerMonth = None\<rparr>"

abbreviation minute_window :: window where
  "minute_window \<equiv> \<lparr>w_key = KeyAPIKeyQuotaBucket ''w'' ''k'' ''minute'', w_cap = 10, w_sec = 60\<rparr>"

theorem quota_rate_witness:
  "fst (run_all (run_op (''w'', ''k'', sample_limits)) [Consume 0 10, Consume 3 2, Refund 4 5, Consume 6 6] Map.empty) = 11 \<and>
   (11 :: rat) \<le> 10 + of_int 6 * (10 / 60)"
proof -
  let ?ops = "[Consume 0 10, Consume 3 2, Refund 4 5, Consume 6 6]"
  have run: "fst (run_all (run_op (''w'', ''k'', sample_limits)) ?ops Map.empty) = 11"
    by code_simp
  with quota_rate [of sample_limits minute_window "''w''" "''k''" 0 Map.empty ?ops 6] show ?thesis
    by (simp add: ValidLimits_def limit_ok_def configured_def quotaWindows_def bucket_ok_def)
qed

text \<open>
  Consuming is all or nothing: a call is allowed exactly if every configured window has
  at least the requested units; then each window loses exactly these, and otherwise no bucket
  changes.
\<close>

lemma quota_all_or_nothing:
  assumes "ValidLimits l" and "\<forall>w \<in> set (configured wid kid l). bucket_ok now w m"
    and "consume now wid kid (int n) (Some l) m = (allowed, m')"
  shows "(allowed \<longleftrightarrow> (\<forall>w \<in> set (configured wid kid l). of_nat n \<le> avail now w m)) \<and>
    (if allowed then \<forall>w \<in> set (configured wid kid l). avail now w m' = avail now w m - of_nat n
     else m' = m)"
proof (cases "IsEmpty l")
  case True
  with assms show ?thesis by (simp add: configured_empty consume_def)
next
  case False
  let ?ws = "configured wid kid l"
  let ?run = "tokenBucketLua now (int n) ?ws m"
  have allowed: "allowed \<longleftrightarrow> fst (fst ?run) = 1" and m': "m' = snd ?run"
    using False assms(3) by (auto simp: consume_def split: prod.splits)
  have "avail now w m' = avail now w m - of_nat n" if allowed and w: "w \<in> set ?ws" for w
    using consume_level [OF assms(3,1) w] assms(2) that by simp
  with tokenBucketLua_iff [of now "int n" ?ws m] tokenBucketLua_reject [of now "int n" ?ws m] show ?thesis
    by (simp add: allowed m')
qed

text \<open>
  A refund undoes a consumption: after an allowed call at one time and its refund at any
  later time, every configured window has exactly the tokens it would have at that later time
  had the call never been made.
\<close>

lemma quota_refund_restores:
  assumes "ValidLimits l" and "w \<in> set (configured wid kid l)" and "bucket_ok t w m"
    and "consume t wid kid (int n) (Some l) m = (True, m1)" and "t \<le> t'"
    and "give_back t' wid kid (int n) (Some l) m1 = m2"
  shows "avail t' w m2 = avail t' w m"
  using assms by (rule refund_undoes)

end
