(* ===== verification/Atomic.thy ===== *)
theory Atomic
  imports World
begin

text \<open>
  Handlers that read, decide and then write once, in a statement or a transaction. \<open>reads d A f\<close>: started on the tables \<open>d\<close>, the
  program \<open>f\<close> leaves them alone and its result satisfies \<open>A\<close>. \<open>writes d Q f\<close>: started on \<open>d\<close> it either fails and leaves
  them alone, or leaves tables that satisfy \<open>Q\<close>, whatever it reports. The rules follow the shape of a program.
\<close>

definition reads :: "'db \<Rightarrow> ('r \<Rightarrow> bool) \<Rightarrow> (('db, 'm) world_scheme, 'r) state \<Rightarrow> bool" where
  "reads d A f \<longleftrightarrow> (\<forall>w r w'. store w = d \<longrightarrow> run_state f w = (r, w') \<longrightarrow> store w' = d \<and> A r)"

definition writes :: "'db \<Rightarrow> ('db \<Rightarrow> bool) \<Rightarrow> (('db, 'm) world_scheme, ('e, 'a) result) state \<Rightarrow> bool" where
  "writes d Q f \<longleftrightarrow> (\<forall>w r w'. store w = d \<longrightarrow> run_state f w = (r, w') \<longrightarrow> store w' = d \<and> isl r \<or> Q (store w'))"

lemma readsI: "(\<And>w r w'. store w = d \<Longrightarrow> run_state f w = (r, w') \<Longrightarrow> store w' = d \<and> A r) \<Longrightarrow> reads d A f"
  unfolding reads_def by blast

lemma readsD: "reads d A f \<Longrightarrow> run_state f w = (r, w') \<Longrightarrow> store w = d \<Longrightarrow> store w' = d \<and> A r"
  unfolding reads_def by blast

lemma writesI:
  "(\<And>w r w'. store w = d \<Longrightarrow> run_state f w = (r, w') \<Longrightarrow> store w' = d \<and> isl r \<or> Q (store w')) \<Longrightarrow> writes d Q f"
  unfolding writes_def by blast

lemma writesD: "writes d Q f \<Longrightarrow> run_state f w = (r, w') \<Longrightarrow> store w = d \<Longrightarrow> store w' = d \<and> isl r \<or> Q (store w')"
  unfolding writes_def by blast

lemma writes_mono: "writes d Q f \<Longrightarrow> (\<And>d'. Q d' \<Longrightarrow> Q' d') \<Longrightarrow> writes d Q' f"
  unfolding writes_def by blast

lemma reads_mono: "reads d A f \<Longrightarrow> (\<And>r. A r \<Longrightarrow> B r) \<Longrightarrow> reads d B f"
  unfolding reads_def by blast

section \<open>Reading\<close>

lemma reads_ret: "A a \<Longrightarrow> reads d A (ret a)"
  by (simp add: reads_def)

lemma reads_bind:
  assumes "reads d A f" and "\<And>a. A a \<Longrightarrow> reads d B (g a)"
  shows "reads d B (State_Monad.bind f g)"
proof (rule readsI)
  fix w r w' assume st: "store w = d" and run: "run_state (State_Monad.bind f g) w = (r, w')"
  obtain a v where f: "run_state f w = (a, v)" by fastforce
  with assms(1) st have "store v = d" "A a" by (auto dest: readsD)
  with run f show "store w' = d \<and> B r" by (auto dest!: readsD [OF assms(2)])
qed

lemma reads_bindE:
  assumes "reads d A f" and "\<And>a. A (Inr a) \<Longrightarrow> reads d B (g a)" and "\<And>e. A (Inl e) \<Longrightarrow> B (Inl e)"
  shows "reads d B (bindE f g)"
  unfolding bindE_def
  by (rule reads_bind [OF assms(1)]) (auto split: sum.splits intro: assms(2,3) reads_ret)

lemma reads_next_outcome: "reads d (\<lambda>_. True) next_outcome"
  by (auto simp: reads_def next_outcome_def split: list.splits)

lemma reads_idGen: "reads d (\<lambda>_. True) (idGen gen)"
  by (auto simp: reads_def idGen_def next_outcome_def split: list.splits if_splits)

lemma reads_remote: "reads d (\<lambda>_. True) (remote answer)"
  unfolding remote_def by (rule reads_bind [OF reads_next_outcome]) (rule reads_ret, simp)

text \<open>A query answers what is in the tables, or fails.\<close>

definition answers :: "('e, 'a) result \<Rightarrow> ('e, 'a) result \<Rightarrow> bool" where
  "answers truth r \<longleftrightarrow> r = truth \<or> r = Inl ErrDriver \<or> r = Inl ErrTxAborted"

lemma answers_Inr [simp]: "answers truth (Inr a) \<longleftrightarrow> truth = Inr a"
  by (auto simp: answers_def)

lemma answers_Err [simp]: "answers truth (Inl (Err e)) \<longleftrightarrow> truth = Inl (Err e)"
  by (auto simp: answers_def)

lemma reads_query: "reads d (answers (q d)) (exec (\<lambda>d. SqlOk (q d) d))"
  by (auto simp: reads_def answers_def exec_def next_outcome_def split: list.splits if_splits)

lemma reads_if: "(b \<Longrightarrow> reads d A f) \<Longrightarrow> (\<not> b \<Longrightarrow> reads d A g) \<Longrightarrow> reads d A (if b then f else g)"
  by simp

lemma reads_case_option:
  "(x = None \<Longrightarrow> reads d A f) \<Longrightarrow> (\<And>a. x = Some a \<Longrightarrow> reads d A (g a)) \<Longrightarrow> reads d A (case x of None \<Rightarrow> f | Some a \<Rightarrow> g a)"
  by (cases x) simp_all

lemma reads_case_sum:
  "(\<And>e. x = Inl e \<Longrightarrow> reads d A (f e)) \<Longrightarrow> (\<And>a. x = Inr a \<Longrightarrow> reads d A (g a)) \<Longrightarrow>
   reads d A (case x of Inl e \<Rightarrow> f e | Inr a \<Rightarrow> g a)"
  by (cases x) simp_all

section \<open>Writing\<close>

lemma writes_fail: "writes d Q (ret (Inl e))"
  by (simp add: writes_def)

lemma writes_bind:
  assumes "reads d A f" and "\<And>a. A a \<Longrightarrow> writes d Q (g a)"
  shows "writes d Q (State_Monad.bind f g)"
proof (rule writesI)
  fix w r w' assume st: "store w = d" and run: "run_state (State_Monad.bind f g) w = (r, w')"
  obtain a v where f: "run_state f w = (a, v)" by fastforce
  with assms(1) st have "store v = d" "A a" by (auto dest: readsD)
  with run f show "store w' = d \<and> isl r \<or> Q (store w')" by (auto dest!: writesD [OF assms(2)])
qed

lemma writes_bindE:
  assumes "reads d A f" and "\<And>a. A (Inr a) \<Longrightarrow> writes d Q (g a)"
  shows "writes d Q (bindE f g)"
  unfolding bindE_def
  by (rule writes_bind [OF assms(1)]) (auto split: sum.splits intro: assms(2) writes_fail)

lemma writes_thenE: "reads d A f \<Longrightarrow> (\<And>a. A (Inr a) \<Longrightarrow> writes d Q g) \<Longrightarrow> writes d Q (thenE f g)"
  unfolding thenE_def by (rule writes_bindE)

text \<open>What follows the write leaves the tables alone.\<close>

lemma writes_before:
  assumes "writes d Q f" and "\<And>a d'. reads d' (\<lambda>_. True) (g a)"
  shows "writes d Q (bindE f g)"
proof (rule writesI)
  fix w r w' assume st: "store w = d" and run: "run_state (bindE f g) w = (r, w')"
  obtain a v where f: "run_state f w = (a, v)" by fastforce
  with assms(1) st have v: "store v = d \<and> isl a \<or> Q (store v)" by (auto dest: writesD)
  show "store w' = d \<and> isl r \<or> Q (store w')"
  proof (cases a)
    case (Inl e)
    with run f v show ?thesis by (auto simp: run_bindE)
  next
    case (Inr x)
    with run f have "run_state (g x) v = (r, w')" by (simp add: run_bindE)
    from readsD [OF assms(2) this refl] v Inr show ?thesis by auto
  qed
qed

lemma writes_before_then:
  "writes d Q f \<Longrightarrow> (\<And>d'. reads d' (\<lambda>_. True) g) \<Longrightarrow> writes d Q (thenE f g)"
  unfolding thenE_def by (rule writes_before)

lemma writes_exec:
  assumes "\<And>r d'. q d = SqlOk r d' \<Longrightarrow> d' = d \<and> isl r \<or> Q d'"
  shows "writes d Q (exec q)"
proof (rule writesI)
  fix w r w' assume st: "store w = d" and run: "run_state (exec q) w = (r, w')"
  show "store w' = d \<and> isl r \<or> Q (store w')"
    using run st assms by (auto simp: exec_def next_outcome_def split: list.splits if_splits sql.splits)
qed

lemma writes_WithinTx:
  assumes "\<And>w a w'. store w = d \<Longrightarrow> run_state body w = (Inr a, w') \<Longrightarrow> Q (store w')"
  shows "writes d Q (WithinTx body)"
proof (rule writesI)
  fix w r w' assume st: "store w = d" and run: "run_state (WithinTx body) w = (r, w')"
  from WithinTx_atomic [OF run] st assms show "store w' = d \<and> isl r \<or> Q (store w')"
    by (cases r) auto
qed

lemma writes_if: "(b \<Longrightarrow> writes d Q f) \<Longrightarrow> (\<not> b \<Longrightarrow> writes d Q g) \<Longrightarrow> writes d Q (if b then f else g)"
  by simp

lemma writes_case_option:
  "(x = None \<Longrightarrow> writes d Q f) \<Longrightarrow> (\<And>a. x = Some a \<Longrightarrow> writes d Q (g a)) \<Longrightarrow> writes d Q (case x of None \<Rightarrow> f | Some a \<Rightarrow> g a)"
  by (cases x) simp_all

lemma writes_case_sum:
  "(\<And>e. x = Inl e \<Longrightarrow> writes d Q (f e)) \<Longrightarrow> (\<And>a. x = Inr a \<Longrightarrow> writes d Q (g a)) \<Longrightarrow>
   writes d Q (case x of Inl e \<Rightarrow> f e | Inr a \<Rightarrow> g a)"
  by (cases x) simp_all

lemma writes_Let: "(\<And>x. x = a \<Longrightarrow> writes d Q (f x)) \<Longrightarrow> writes d Q (Let a f)"
  by simp

lemmas writes_split = writes_if writes_case_sum writes_case_option writes_Let writes_fail

lemma exec_done: "run_state (exec (\<lambda>d. SqlOk (r d) (f d))) w = (Inr a, w') \<Longrightarrow> store w' = f (store w)"
  by (drule exec_InrD) simp

text \<open>From one command to a run of commands.\<close>

lemma writes_keeps:
  assumes "writes (store w) Q f" and "run_state f w = (r, w')" and "I (store w)" and "\<And>d'. Q d' \<Longrightarrow> I d'"
  shows "I (store w')"
  using writesD [OF assms(1,2)] assms(3,4) by auto

end
