(* ===== verification/Access.thy ===== *)
theory Access
  imports Identity_Store Security Ids Quota Pagination Atomic
begin

text \<open>
  The module \<open>access\<close>: API keys (\<open>internal/modules/access\<close>). Domain, secrets (\<open>infrastructure/secret.go\<close>), the repository
  (\<open>infrastructure/postgres/repository.go\<close>, with the keys of the migrations) and the handlers of \<open>app/apikey\<close>. Fields carry a prefix:
  \<open>ak_\<close> \<open>APIKey\<close>, \<open>ar_\<close> a row, \<open>ci_\<close> and \<open>ui_\<close> the inputs of the commands. The limits are those of the theory \<open>Quota\<close>.
\<close>

section \<open>Domain\<close>

datatype ak_error =
    AkNotFound | AkInvalid | AkManageDenied | AkScopeDenied | AkScopeInvalid | AkConfigInvalid | AkRotateConflict
  | AkEmailQuotaInvalid | AkPayloadInvalid

definition supportedScopes :: "string list" where
  "supportedScopes = [''transactional.send'', ''transactional.read'', ''mail_logs.read'']"

record APIKey =
  ak_ID :: string
  ak_WorkspaceID :: string
  ak_Name :: string
  ak_KeyPrefix :: string
  ak_SecretHash :: string
  ak_Scopes :: "string list"
  ak_Status :: string
  ak_CreatedAt :: gotime
  ak_UpdatedAt :: gotime
  ak_LastUsedAt :: "gotime option"
  ak_ExpiresAt :: "gotime option"
  ak_RevokedAt :: "gotime option"
  ak_QuotaLimits :: "EmailQuotaLimits option"

definition ValidateScopes :: "string list \<Rightarrow> (ak_error, unit) result" where
  "ValidateScopes scopes = (if scopes = [] \<or> \<not> list_all (\<lambda>s. s \<in> set supportedScopes) scopes then Inl (Err AkScopeInvalid) else Inr ())"

definition HasScope :: "string list \<Rightarrow> string \<Rightarrow> bool" where
  "HasScope scopes target \<longleftrightarrow> target \<in> set scopes"

definition Key_IsActive :: "APIKey \<Rightarrow> gotime \<Rightarrow> bool" where
  "Key_IsActive key now \<longleftrightarrow> ak_Status key = ''active'' \<and> (case ak_ExpiresAt key of None \<Rightarrow> True | Some t \<Rightarrow> \<not> t < now) \<and> ak_RevokedAt key = None"

definition NormalizeName :: "string \<Rightarrow> string" where
  "NormalizeName name = TrimSpace name"

definition SecretStablePrefix :: string where "SecretStablePrefix = ''sk_''"
definition PrefixVisibleChars :: nat where "PrefixVisibleChars = 14"

definition DerivePrefix :: "string \<Rightarrow> string" where
  "DerivePrefix secret = (if length secret < PrefixVisibleChars then secret else take PrefixVisibleChars secret)"

text \<open>
  The permission check of the identity module, the cryptographic primitives, ids, the random bytes of a secret, the text of an instant and
  \<open>PostgreSQL\<close>'s reading of a text as an instant.
\<close>

record access_ports =
  a_perm :: "string \<Rightarrow> string \<Rightarrow> string \<Rightarrow> (ak_error, unit) result"
  a_crypto :: crypto
  a_gen :: "nat \<Rightarrow> string"
  a_random :: "nat \<Rightarrow> string"
  a_rfc3339nano :: "gotime \<Rightarrow> string"
  a_timestamp :: "string \<Rightarrow> gotime option"

section \<open>Repository\<close>

text \<open>The column \<open>email_quota_limits\<close> is SQL \<open>NULL\<close> (\<open>None\<close>), JSON \<open>null\<close> (\<open>Some None\<close>) or an object.\<close>

record apiKeyRow =
  ar_ID :: string
  ar_WorkspaceID :: string
  ar_Name :: string
  ar_KeyPrefix :: string
  ar_SecretHash :: string
  ar_Scopes :: "string list"
  ar_EmailQuotaLimits :: "EmailQuotaLimits option option"
  ar_Status :: string
  ar_CreatedAt :: gotime
  ar_UpdatedAt :: gotime
  ar_LastUsedAt :: "gotime option"
  ar_ExpiresAt :: "gotime option"
  ar_RevokedAt :: "gotime option"

record access_db =
  ak_workspaces :: "string list"
  api_keys :: "apiKeyRow list"

type_synonym 'a aprog = "(access_db world, (ak_error, 'a) result) state"

text \<open>A row without limits cannot be scanned.\<close>

definition rowToDomain :: "apiKeyRow \<Rightarrow> (ak_error, APIKey) result" where
  "rowToDomain row = (case ar_EmailQuotaLimits row of
       None \<Rightarrow> Inl ErrDriver
     | Some ql \<Rightarrow> Inr \<lparr>ak_ID = ar_ID row, ak_WorkspaceID = ar_WorkspaceID row, ak_Name = ar_Name row, ak_KeyPrefix = ar_KeyPrefix row,
         ak_SecretHash = ar_SecretHash row, ak_Scopes = ar_Scopes row, ak_Status = ar_Status row, ak_CreatedAt = ar_CreatedAt row,
         ak_UpdatedAt = ar_UpdatedAt row, ak_LastUsedAt = ar_LastUsedAt row, ak_ExpiresAt = ar_ExpiresAt row, ak_RevokedAt = ar_RevokedAt row,
         ak_QuotaLimits = (case ql of None \<Rightarrow> None | Some l \<Rightarrow> if IsEmpty l then None else Some l)\<rparr>)"

definition findOne :: "(apiKeyRow \<Rightarrow> bool) \<Rightarrow> APIKey aprog" where
  "findOne cond = exec (\<lambda>d. SqlOk (case find cond (api_keys d) of None \<Rightarrow> Inl (Err AkNotFound) | Some row \<Rightarrow> rowToDomain row) d)"

definition Key_FindByID :: "string \<Rightarrow> string \<Rightarrow> APIKey aprog" where
  "Key_FindByID workspaceID keyID = findOne (\<lambda>r. ar_WorkspaceID r = workspaceID \<and> ar_ID r = keyID)"

definition FindByPrefix :: "string \<Rightarrow> APIKey aprog" where
  "FindByPrefix keyPrefix = findOne (\<lambda>r. ar_KeyPrefix r = keyPrefix)"

definition row_of :: "APIKey \<Rightarrow> apiKeyRow" where
  "row_of key = \<lparr>ar_ID = ak_ID key, ar_WorkspaceID = ak_WorkspaceID key, ar_Name = ak_Name key, ar_KeyPrefix = ak_KeyPrefix key,
     ar_SecretHash = ak_SecretHash key, ar_Scopes = ak_Scopes key, ar_EmailQuotaLimits = Some (ak_QuotaLimits key), ar_Status = ak_Status key,
     ar_CreatedAt = ak_CreatedAt key, ar_UpdatedAt = ak_UpdatedAt key, ar_LastUsedAt = ak_LastUsedAt key, ar_ExpiresAt = ak_ExpiresAt key,
     ar_RevokedAt = ak_RevokedAt key\<rparr>"

definition Key_Create :: "APIKey \<Rightarrow> unit aprog" where
  "Key_Create key = exec (\<lambda>d.
     if has ar_ID (ak_ID key) (api_keys d) \<or> has ar_KeyPrefix (ak_KeyPrefix key) (api_keys d) \<or> ak_WorkspaceID key \<notin> set (ak_workspaces d)
     then SqlErr ErrDriver
     else SqlOk (Inr ()) (d\<lparr>api_keys := api_keys d @ [row_of key]\<rparr>))"

definition written :: "APIKey \<Rightarrow> apiKeyRow \<Rightarrow> apiKeyRow" where
  "written key r = r\<lparr>ar_Name := ak_Name key, ar_KeyPrefix := ak_KeyPrefix key, ar_SecretHash := ak_SecretHash key,
     ar_Scopes := ak_Scopes key, ar_EmailQuotaLimits := Some (ak_QuotaLimits key), ar_Status := ak_Status key, ar_UpdatedAt := ak_UpdatedAt key,
     ar_ExpiresAt := ak_ExpiresAt key, ar_RevokedAt := ak_RevokedAt key\<rparr>"

definition Key_Update :: "APIKey \<Rightarrow> unit aprog" where
  "Key_Update key = exec (\<lambda>d.
     let hit = (\<lambda>r. ar_WorkspaceID r = ak_WorkspaceID key \<and> ar_ID r = ak_ID key) in
     if list_ex hit (api_keys d) \<and> list_ex (\<lambda>r. \<not> hit r \<and> ar_KeyPrefix r = ak_KeyPrefix key) (api_keys d) then SqlErr ErrDriver
     else SqlOk (Inr ()) (d\<lparr>api_keys := update_where hit (written key) (api_keys d)\<rparr>))"

definition TouchLastUsed :: "string \<Rightarrow> string \<Rightarrow> gotime \<Rightarrow> unit aprog" where
  "TouchLastUsed workspaceID keyID usedAt = exec (\<lambda>d. SqlOk (Inr ()) (d\<lparr>api_keys :=
     update_where (\<lambda>r. ar_WorkspaceID r = workspaceID \<and> ar_ID r = keyID \<and> ar_Status r = ''active'')
       (\<lambda>r. r\<lparr>ar_LastUsedAt := Some usedAt, ar_UpdatedAt := usedAt\<rparr>) (api_keys d)\<rparr>))"

record APIKeyListQuery =
  lq_WorkspaceID :: string
  lq_Status :: string
  lq_Limit :: int
  lq_Cursor :: string

fun scan_keys :: "apiKeyRow list \<Rightarrow> (ak_error, APIKey list) result" where
  "scan_keys [] = Inr []"
| "scan_keys (r # rs) = (case rowToDomain r of
       Inl e \<Rightarrow> Inl e
     | Inr k \<Rightarrow> (case scan_keys rs of Inl e \<Rightarrow> Inl e | Inr ks \<Rightarrow> Inr (k # ks)))"

text \<open>The cursor, an instant and an id, is used both as the instant and as the id.\<close>

definition list_keys :: "access_ports \<Rightarrow> APIKeyListQuery \<Rightarrow> (apiKeyRow \<Rightarrow> bool) \<Rightarrow> access_db \<Rightarrow> (ak_error, APIKey list \<times> string) result" where
  "list_keys P q cond d =
     (let limit = (if lq_Limit q \<le> 0 then DefaultPageSize else lq_Limit q);
          rows = take (nat limit) (order_desc (\<lambda>r. (ar_CreatedAt r, ar_ID r))
            (filter (\<lambda>r. ar_WorkspaceID r = lq_WorkspaceID q \<and> cond r) (api_keys d)))
      in case scan_keys rows of
           Inl e \<Rightarrow> Inl e
         | Inr ks \<Rightarrow> Inr (ks, if ks = [] then [] else a_rfc3339nano P (ak_CreatedAt (last ks)) @ '','' @ ak_ID (last ks)))"

definition Key_ListByWorkspace :: "access_ports \<Rightarrow> APIKeyListQuery \<Rightarrow> (APIKey list \<times> string) aprog" where
  "Key_ListByWorkspace P q = exec (\<lambda>d.
     if lq_Cursor q \<noteq> [] then
       (case a_timestamp P (lq_Cursor q) of
          None \<Rightarrow> SqlErr ErrDriver
        | Some t \<Rightarrow> SqlOk (list_keys P q (\<lambda>r. (ar_CreatedAt r, ar_ID r) < (t, lq_Cursor q)) d) d)
     else SqlOk (list_keys P q (\<lambda>r. lq_Status q \<noteq> [] \<longrightarrow> ar_Status r = lq_Status q) d) d)"

section \<open>Secrets\<close>

definition SecretHasher_Hash :: "access_ports \<Rightarrow> string \<Rightarrow> string aprog" where
  "SecretHasher_Hash P secret = do {
     w \<leftarrow> State_Monad.get;
     bindE (idGen (a_random P)) (\<lambda>_.
       ret (if secret = [] then Inl (ErrLocal ''secret is required'')
            else case c_bcrypt (a_crypto P) (id_ctr w) secret of None \<Rightarrow> Inl (ErrLocal ''hash secret'') | Some h \<Rightarrow> Inr h))
   }"

definition Verify :: "access_ports \<Rightarrow> string \<Rightarrow> string \<Rightarrow> bool" where
  "Verify P hash secret = c_matches (a_crypto P) hash secret"

definition Generate :: "access_ports \<Rightarrow> (string \<times> string) aprog" where
  "Generate P = bindE (idGen (a_random P)) (\<lambda>buf.
     let plaintext = SecretStablePrefix @ RawURLEncode buf in ret (Inr (plaintext, DerivePrefix plaintext)))"

section \<open>Handlers\<close>

record CreateInput =
  ci_WorkspaceID :: string
  ci_ActorUserID :: string
  ci_Name :: string
  ci_Scopes :: "string list"
  ci_ExpiresAt :: "gotime option"
  ci_QuotaLimits :: "EmailQuotaLimits option"

definition bad_expiry :: "gotime option \<Rightarrow> gotime \<Rightarrow> bool" where
  "bad_expiry x now \<longleftrightarrow> (case x of None \<Rightarrow> False | Some t \<Rightarrow> \<not> IsZero t \<and> t < now)"

definition check_create :: "CreateInput \<Rightarrow> gotime \<Rightarrow> (ak_error, unit) result" where
  "check_create cmd now =
     (let name = NormalizeName (ci_Name cmd) in
      if name = [] \<or> 120 < length name then Inl (Err AkConfigInvalid)
      else case ValidateScopes (ci_Scopes cmd) of
          Inl e \<Rightarrow> Inl e
        | Inr _ \<Rightarrow>
            if (case ci_QuotaLimits cmd of None \<Rightarrow> False | Some l \<Rightarrow> \<not> ValidLimits l) then Inl (Err AkEmailQuotaInvalid)
            else if bad_expiry (ci_ExpiresAt cmd) now then Inl (Err AkConfigInvalid)
            else Inr ())"

definition CreateKey_Execute :: "access_ports \<Rightarrow> CreateInput \<Rightarrow> gotime \<Rightarrow> (APIKey \<times> string) aprog" where
  "CreateKey_Execute P cmd now =
     (if ci_WorkspaceID cmd = [] \<or> ci_ActorUserID cmd = [] then ret (Inl (Err AkPayloadInvalid))
      else thenE (remote (a_perm P (ci_WorkspaceID cmd) (ci_ActorUserID cmd) ''api_key.manage''))
        (case check_create cmd now of
           Inl e \<Rightarrow> ret (Inl e)
         | Inr _ \<Rightarrow>
             bindE (idGen (a_gen P)) (\<lambda>i.
             bindE (Generate P) (\<lambda>(plaintext, keyPrefix).
             bindE (SecretHasher_Hash P plaintext) (\<lambda>secretHash.
               let key = \<lparr>ak_ID = i, ak_WorkspaceID = ci_WorkspaceID cmd, ak_Name = NormalizeName (ci_Name cmd), ak_KeyPrefix = keyPrefix,
                     ak_SecretHash = secretHash, ak_Scopes = ci_Scopes cmd, ak_Status = ''active'', ak_CreatedAt = now, ak_UpdatedAt = now,
                     ak_LastUsedAt = None, ak_ExpiresAt = ci_ExpiresAt cmd, ak_RevokedAt = None, ak_QuotaLimits = ci_QuotaLimits cmd\<rparr>
               in thenE (Key_Create key) (ret (Inr (key, plaintext))))))))"

record AuthenticateResult =
  au_WorkspaceID :: string
  au_APIKeyID :: string
  au_Scopes :: "string list"
  au_KeyPrefix :: string

definition AuthenticateKey_Execute :: "access_ports \<Rightarrow> string \<Rightarrow> gotime \<Rightarrow> AuthenticateResult aprog" where
  "AuthenticateKey_Execute P bearerToken now =
     (if bearerToken = [] then ret (Inl (Err AkInvalid))
      else do {
        r \<leftarrow> FindByPrefix (DerivePrefix bearerToken);
        case r of
          Inl _ \<Rightarrow> ret (Inl (Err AkInvalid))
        | Inr key \<Rightarrow>
            if \<not> Verify P (ak_SecretHash key) bearerToken \<or> \<not> Key_IsActive key now then ret (Inl (Err AkInvalid))
            else do {
              _ \<leftarrow> TouchLastUsed (ak_WorkspaceID key) (ak_ID key) now;
              ret (Inr \<lparr>au_WorkspaceID = ak_WorkspaceID key, au_APIKeyID = ak_ID key, au_Scopes = ak_Scopes key, au_KeyPrefix = ak_KeyPrefix key\<rparr>)
            }
      })"

record UpdateInput =
  ui_WorkspaceID :: string
  ui_ActorUserID :: string
  ui_APIKeyID :: string
  ui_Name :: "string option"
  ui_Scopes :: "string list option"
  ui_ExpiresAt :: "gotime option"
  ui_Rotate :: bool
  ui_QuotaLimits :: "EmailQuotaLimits option"

definition check_update :: "UpdateInput \<Rightarrow> gotime \<Rightarrow> (ak_error, unit) result" where
  "check_update cmd now =
     (if (case ui_Name cmd of None \<Rightarrow> False | Some n \<Rightarrow> NormalizeName n = [] \<or> 120 < length (NormalizeName n)) then Inl (Err AkConfigInvalid)
      else case (case ui_Scopes cmd of None \<Rightarrow> Inr () | Some s \<Rightarrow> ValidateScopes s) of
          Inl e \<Rightarrow> Inl e
        | Inr _ \<Rightarrow>
            if bad_expiry (ui_ExpiresAt cmd) now then Inl (Err AkConfigInvalid)
            else if (case ui_QuotaLimits cmd of None \<Rightarrow> False | Some l \<Rightarrow> \<not> ValidLimits l) then Inl (Err AkEmailQuotaInvalid)
            else Inr ())"

definition patched_key :: "UpdateInput \<Rightarrow> APIKey \<Rightarrow> APIKey" where
  "patched_key cmd key = key\<lparr>
     ak_Name := (case ui_Name cmd of None \<Rightarrow> ak_Name key | Some n \<Rightarrow> NormalizeName n),
     ak_Scopes := (case ui_Scopes cmd of None \<Rightarrow> ak_Scopes key | Some s \<Rightarrow> s),
     ak_ExpiresAt := (case ui_ExpiresAt cmd of None \<Rightarrow> ak_ExpiresAt key | Some t \<Rightarrow> Some t),
     ak_QuotaLimits := (case ui_QuotaLimits cmd of None \<Rightarrow> ak_QuotaLimits key | Some l \<Rightarrow> if IsEmpty l then None else Some l)\<rparr>"

text \<open>What follows the lookup of the key.\<close>

definition update_found :: "access_ports \<Rightarrow> UpdateInput \<Rightarrow> gotime \<Rightarrow> APIKey \<Rightarrow> (APIKey \<times> string) aprog" where
  "update_found P cmd now existing =
     (if ak_Status existing \<noteq> ''active'' then ret (Inl (Err AkRotateConflict))
      else case check_update cmd now of
          Inl e \<Rightarrow> ret (Inl e)
        | Inr _ \<Rightarrow>
            bindE (if ui_Rotate cmd
                then bindE (Generate P) (\<lambda>(plaintext, keyPrefix). bindE (SecretHasher_Hash P plaintext) (\<lambda>secretHash.
                  ret (Inr ((patched_key cmd existing)\<lparr>ak_KeyPrefix := keyPrefix, ak_SecretHash := secretHash\<rparr>, plaintext))))
                else ret (Inr (patched_key cmd existing, []))) (\<lambda>(key, newSecret).
              thenE (Key_Update (key\<lparr>ak_UpdatedAt := now\<rparr>)) (ret (Inr (key\<lparr>ak_UpdatedAt := now\<rparr>, newSecret)))))"

definition UpdateKey_Execute :: "access_ports \<Rightarrow> UpdateInput \<Rightarrow> gotime \<Rightarrow> (APIKey \<times> string) aprog" where
  "UpdateKey_Execute P cmd now =
     thenE (remote (a_perm P (ui_WorkspaceID cmd) (ui_ActorUserID cmd) ''api_key.manage''))
       (bindE (Key_FindByID (ui_WorkspaceID cmd) (ui_APIKeyID cmd)) (update_found P cmd now))"

definition RevokeKey_Execute :: "access_ports \<Rightarrow> string \<Rightarrow> string \<Rightarrow> string \<Rightarrow> gotime \<Rightarrow> APIKey aprog" where
  "RevokeKey_Execute P workspaceID actorUserID apiKeyID now =
     thenE (remote (a_perm P workspaceID actorUserID ''api_key.manage''))
       (bindE (Key_FindByID workspaceID apiKeyID) (\<lambda>existing.
          if ak_Status existing = ''revoked'' then ret (Inr existing)
          else let key = existing\<lparr>ak_Status := ''revoked'', ak_RevokedAt := Some now, ak_UpdatedAt := now\<rparr>
            in thenE (Key_Update key) (ret (Inr key))))"

record ListQuery =
  ls_WorkspaceID :: string
  ls_ActorUserID :: string
  ls_Status :: string
  ls_Limit :: int
  ls_Cursor :: string

definition ListKeys_Execute :: "access_ports \<Rightarrow> ListQuery \<Rightarrow> (APIKey list \<times> string) aprog" where
  "ListKeys_Execute P cmd =
     thenE (remote (a_perm P (ls_WorkspaceID cmd) (ls_ActorUserID cmd) ''api_key.manage''))
       (Key_ListByWorkspace P \<lparr>lq_WorkspaceID = ls_WorkspaceID cmd, lq_Status = ls_Status cmd,
          lq_Limit = (if ls_Limit cmd \<le> 0 \<or> 100 < ls_Limit cmd then DefaultPageSize else ls_Limit cmd), lq_Cursor = ls_Cursor cmd\<rparr>)"

section \<open>Service\<close>

record APIKeyResult =
  kr_ID :: string
  kr_WorkspaceID :: string
  kr_Name :: string
  kr_KeyPrefix :: string
  kr_Scopes :: "string list"
  kr_Status :: string
  kr_CreatedAt :: gotime
  kr_UpdatedAt :: gotime
  kr_LastUsedAt :: "gotime option"
  kr_ExpiresAt :: "gotime option"
  kr_RevokedAt :: "gotime option"
  kr_QuotaLimits :: "EmailQuotaLimits option"

definition apiKeyToResult :: "APIKey \<Rightarrow> APIKeyResult" where
  "apiKeyToResult k = \<lparr>kr_ID = ak_ID k, kr_WorkspaceID = ak_WorkspaceID k, kr_Name = ak_Name k, kr_KeyPrefix = ak_KeyPrefix k,
     kr_Scopes = ak_Scopes k, kr_Status = ak_Status k, kr_CreatedAt = ak_CreatedAt k, kr_UpdatedAt = ak_UpdatedAt k,
     kr_LastUsedAt = ak_LastUsedAt k, kr_ExpiresAt = ak_ExpiresAt k, kr_RevokedAt = ak_RevokedAt k, kr_QuotaLimits = ak_QuotaLimits k\<rparr>"

definition RequireAPIKeyScope :: "AuthenticateResult \<Rightarrow> string \<Rightarrow> (ak_error, unit) result" where
  "RequireAPIKeyScope key scope = (if HasScope (au_Scopes key) scope then Inr () else Inl (Err AkScopeDenied))"

definition ListAPIKeys :: "access_ports \<Rightarrow> ListQuery \<Rightarrow> (APIKeyResult list \<times> string) aprog" where
  "ListAPIKeys P input = bindE (ListKeys_Execute P input) (\<lambda>(keys, cursor). ret (Inr (map apiKeyToResult keys, cursor)))"

definition CreateAPIKey :: "access_ports \<Rightarrow> CreateInput \<Rightarrow> gotime \<Rightarrow> (APIKeyResult \<times> string) aprog" where
  "CreateAPIKey P input now = bindE (CreateKey_Execute P input now) (\<lambda>(key, secret). ret (Inr (apiKeyToResult key, secret)))"

definition UpdateAPIKey :: "access_ports \<Rightarrow> UpdateInput \<Rightarrow> gotime \<Rightarrow> (APIKeyResult \<times> string) aprog" where
  "UpdateAPIKey P input now = bindE (UpdateKey_Execute P input now) (\<lambda>(key, secret). ret (Inr (apiKeyToResult key, secret)))"

definition RevokeAPIKey :: "access_ports \<Rightarrow> string \<Rightarrow> string \<Rightarrow> string \<Rightarrow> gotime \<Rightarrow> APIKeyResult aprog" where
  "RevokeAPIKey P workspaceID actorUserID apiKeyID now =
     bindE (RevokeKey_Execute P workspaceID actorUserID apiKeyID now) (\<lambda>key. ret (Inr (apiKeyToResult key)))"

end
