(* ===== verification/Identity_Auth.thy ===== *)
theory Identity_Auth
  imports Identity_Store
begin

text \<open>
  The commands of the identity module that sign users up and in and out: \<open>app/shared\<close>, \<open>app/auth\<close>, \<open>app/session\<close>, \<open>app/mfa\<close>,
  \<open>app/verification\<close> and \<open>app/oauth\<close> of \<open>internal/modules/identity\<close>. What they use of other code is the record
  \<open>identity_ports\<close>. Logging is left out; the text of a mail is represented by the link in it.
\<close>

section \<open>Ports\<close>

record oauth_provider =
  pv_Enabled :: bool
  pv_authURL :: "string \<Rightarrow> string \<Rightarrow> string \<Rightarrow> string"
  pv_exchange :: "string \<Rightarrow> string \<Rightarrow> string \<Rightarrow> (id_error, OAuthIdentity) result"

text \<open>
  \<open>i_gen\<close>, \<open>i_token\<close>, \<open>i_short\<close>, \<open>i_secret\<close>: the n-th UUID, random token of 32 and of 12 bytes, and secret for one-time codes that the
  process draws; \<open>i_parse\<close>: the address \<open>mail.ParseAddress\<close> finds; \<open>i_url\<close>: \<open>url.Parse\<close> of its first argument with the query
  parameter \<open>token\<close> set to the second; \<open>i_escape\<close>: \<open>url.QueryEscape\<close>; \<open>i_render\<close>: whether
  the templates of a mail can be filled in with a link. The Booleans say whether an optional part is configured.
\<close>

record identity_ports =
  i_crypto :: crypto
  i_jwt :: jwt_config
  i_gen :: "nat \<Rightarrow> string"
  i_token :: "nat \<Rightarrow> string"
  i_short :: "nat \<Rightarrow> string"
  i_secret :: "nat \<Rightarrow> string"
  i_parse :: "string \<Rightarrow> string option"
  i_url :: "string \<Rightarrow> string \<Rightarrow> string option"
  i_escape :: "string \<Rightarrow> string"
  i_render :: "string \<Rightarrow> string \<Rightarrow> bool"
  i_rfc3339 :: "gotime \<Rightarrow> string"
  i_provider :: "string \<rightharpoonup> oauth_provider"
  i_frontend :: string
  i_hasTokens :: bool
  i_hasOutbox :: bool
  i_hasMailer :: bool
  i_hasCache :: bool
  i_hasAudit :: bool
  i_verificationTTL :: int
  i_resetTTL :: int
  i_challengeTTL :: int

definition NewEmailAddress :: "identity_ports \<Rightarrow> string \<Rightarrow> id_error + string" where
  "NewEmailAddress P raw =
     (let cleaned = TrimSpace raw in
      if cleaned = [] then Inl IdInvalidEmail
      else case i_parse P cleaned of None \<Rightarrow> Inl IdInvalidEmail | Some addr \<Rightarrow> Inr (ToLower addr))"

section \<open>Shared services\<close>

definition unauthorized :: "'a iprog" where "unauthorized = ret (Inl (Err IdUnauthorized))"

definition CreateToken :: "identity_ports \<Rightarrow> string \<Rightarrow> string \<Rightarrow> int \<Rightarrow> gotime \<Rightarrow> string iprog" where
  "CreateToken P userID purpose ttl now =
     (if \<not> i_hasTokens P then ret (Inr [])
      else thenE (AuthToken_DeleteByUserAndPurpose userID purpose)
        (bindE (idGen (i_token P)) (\<lambda>raw.
         bindE (idGen (i_gen P)) (\<lambda>i.
           let token = \<lparr>tk_ID = i, tk_UserID = userID, tk_Purpose = purpose, tk_TokenHash = HashToken (i_crypto P) raw,
                 tk_ExpiresAt = now + ttl, tk_ConsumedAt = None, tk_CreatedAt = now\<rparr>
           in thenE (AuthToken_Create token) (ret (Inr raw))))))"

definition ConsumeToken :: "identity_ports \<Rightarrow> string \<Rightarrow> string \<Rightarrow> gotime \<Rightarrow> AuthToken iprog" where
  "ConsumeToken P raw purpose now =
     (if \<not> i_hasTokens P \<or> TrimSpace raw = [] then unauthorized
      else bindE (AuthToken_FindByHash purpose (HashToken (i_crypto P) raw)) (\<lambda>token.
        if \<not> IsUsable token now then unauthorized
        else thenE (AuthToken_Consume (tk_ID token) now) (ret (Inr token))))"

definition EmitEvent ::
  "identity_ports \<Rightarrow> string \<Rightarrow> string \<Rightarrow> string \<Rightarrow> string \<Rightarrow> json \<Rightarrow> gotime \<Rightarrow> unit iprog" where
  "EmitEvent P eventType aggregateType aggregateID workspaceID payload now =
     (if \<not> i_hasOutbox P then ret (Inr ())
      else bindE (idGen (i_gen P)) (\<lambda>eventID.
        case NewEnvelope now \<lparr>opt_EventID = eventID, opt_EventType = eventType, opt_EventVersion = 1,
            opt_AggregateType = aggregateType, opt_AggregateID = aggregateID, opt_WorkspaceID = workspaceID,
            opt_OccurredAt = now, opt_Metadata = None\<rparr> payload of
          Inl _ \<Rightarrow> ret (Inl ErrEnvelope)
        | Inr env \<Rightarrow> (case Marshal env of
            Inl _ \<Rightarrow> ret (Inl ErrEnvelope)
          | Inr bytes \<Rightarrow> Identity_Outbox_Save \<lparr>o_ID = eventID, o_AggregateType = aggregateType,
              o_AggregateID = aggregateID, o_EventType = eventType, o_Payload = bytes, o_WorkspaceID = workspaceID,
              o_OccurredAt = now\<rparr>)))"

text \<open>\<open>NotificationService\<close>: links and mails.\<close>

definition trim_slashes :: "string \<Rightarrow> string" where
  "trim_slashes s = rev (dropWhile (\<lambda>c. c = CHR ''/'') (rev s))"

definition BuildURL :: "identity_ports \<Rightarrow> string \<Rightarrow> string \<Rightarrow> string" where
  "BuildURL P path token =
     (let baseURL = trim_slashes (TrimSpace (i_frontend P)) in
      if baseURL = [] then token
      else case i_url P (baseURL @ path) token of None \<Rightarrow> token | Some u \<Rightarrow> u)"

definition SendEmail :: "identity_ports \<Rightarrow> string \<Rightarrow> string \<Rightarrow> unit iprog" where
  "SendEmail P to link =
     (if \<not> i_hasMailer P then ret (Inr ())
      else State (\<lambda>w. case run_state next_outcome w of (x, w1) \<Rightarrow>
        if x = Fail then (Inl (ErrSender ''send''), w1)
        else (if x = OK then Inr () else Inl (ErrSender ''send''), w1\<lparr>mails := mails w1 @ [(to, link)]\<rparr>)))"

definition send_rendered :: "identity_ports \<Rightarrow> string \<Rightarrow> string \<Rightarrow> string \<Rightarrow> unit iprog" where
  "send_rendered P kind to link =
     (if i_render P kind link then SendEmail P to link else ret (Inl (ErrLocal ''render'')))"

definition SendVerificationEmail :: "identity_ports \<Rightarrow> string \<Rightarrow> string \<Rightarrow> unit iprog" where
  "SendVerificationEmail P to token = send_rendered P ''verification'' to (BuildURL P ''/verify-email'' token)"

definition SendPasswordResetEmail :: "identity_ports \<Rightarrow> string \<Rightarrow> string \<Rightarrow> unit iprog" where
  "SendPasswordResetEmail P to token = send_rendered P ''password_reset'' to (BuildURL P ''/reset-password'' token)"

record SessionContext =
  sc_Session :: Session
  sc_User :: User
  sc_Tokens :: TokenPair

definition NewSession ::
  "identity_ports \<Rightarrow> User \<Rightarrow> string \<Rightarrow> string \<Rightarrow> string \<Rightarrow> gotime \<Rightarrow> SessionContext iprog" where
  "NewSession P user meth ip ua now =
     bindE (idGen (i_gen P)) (\<lambda>sessionID.
     bindE (Issue (i_crypto P) (i_jwt P) (i_gen P) (us_ID user) sessionID now) (\<lambda>(tokens, accessJTI, refreshJTI).
       let sess = domain_NewSession sessionID (us_ID user) meth accessJTI refreshJTI (RefreshExpiresAt tokens) ip ua now
       in thenE (Session_Create sess)
         (thenE (Refresh_Save refreshJTI sessionID)
           (ret (Inr \<lparr>sc_Session = sess, sc_User = user, sc_Tokens = tokens\<rparr>)))))"

text \<open>\<open>hasher.Hash\<close> draws its salt.\<close>

definition hash_password :: "identity_ports \<Rightarrow> string \<Rightarrow> string iprog" where
  "hash_password P password = do {
     w \<leftarrow> State_Monad.get;
     bindE (idGen (i_gen P)) (\<lambda>_.
       ret (case Hasher_Hash (i_crypto P) (id_ctr w) password of
              None \<Rightarrow> Inl (ErrLocal ''hash password'') | Some h \<Rightarrow> Inr h))
   }"

section \<open>Sign-up, login, refresh\<close>

record credentials =
  cr_Email :: string
  cr_Password :: string
  cr_IP :: string
  cr_UA :: string
  cr_Now :: gotime

definition store_user :: "identity_ports \<Rightarrow> User \<Rightarrow> gotime \<Rightarrow> unit iprog" where
  "store_user P user now =
     WithinTx (thenE (User_Create user)
       (EmitEvent P ''identity.user.registered.v1'' ''user'' (us_ID user) []
         (JObj [(''user_id'', JStr (us_ID user)), (''email'', JStr (us_Email user)),
           (''auth_method'', JStr (us_PrimaryAuthMethod user)), (''at'', JStr (i_rfc3339 P now))]) now))"

definition Signup_Execute :: "identity_ports \<Rightarrow> credentials \<Rightarrow> SessionContext iprog" where
  "Signup_Execute P cmd =
     (case NewEmailAddress P (cr_Email cmd) of
        Inl _ \<Rightarrow> ret (Inl (Err IdInvalidCredentials))
      | Inr email \<Rightarrow>
          if cr_Password cmd = [] then ret (Inl (Err IdInvalidCredentials))
          else if ValidatePasswordPolicy (cr_Password cmd) \<noteq> None then ret (Inl (Err IdPasswordPolicy))
          else do {
            existing \<leftarrow> User_FindByEmail email;
            (case existing of
               Inr _ \<Rightarrow> ret (Inl (Err IdEmailAlreadyExists))
             | Inl e \<Rightarrow>
                 if e \<noteq> Err IdNotFound then ret (Inl e)
                 else bindE (hash_password P (cr_Password cmd)) (\<lambda>hash.
                   bindE (idGen (i_gen P)) (\<lambda>userID.
                     let user = NewUser userID email hash ''password'' (cr_Now cmd) in
                     thenE (store_user P user (cr_Now cmd))
                       (bindE (CreateToken P (us_ID user) ''email_verification'' (i_verificationTTL P) (cr_Now cmd)) (\<lambda>token.
                         thenE (if token \<noteq> [] then SendVerificationEmail P (us_Email user) token else ret (Inr ()))
                           (NewSession P user ''password'' (cr_IP cmd) (cr_UA cmd) (cr_Now cmd)))))))
          })"

record LoginResult =
  lr_SessionContext :: "SessionContext option"
  lr_User :: User
  lr_MFARequired :: bool
  lr_MFAChallengeToken :: string

definition Login_Execute :: "identity_ports \<Rightarrow> credentials \<Rightarrow> LoginResult iprog" where
  "Login_Execute P cmd =
     (case NewEmailAddress P (cr_Email cmd) of
        Inl _ \<Rightarrow> ret (Inl (Err IdInvalidCredentials))
      | Inr email \<Rightarrow> do {
          r \<leftarrow> User_FindByEmail email;
          (case r of
             Inl _ \<Rightarrow> ret (Inl (Err IdInvalidCredentials))
           | Inr user \<Rightarrow>
               if \<not> Hasher_Compare (i_crypto P) (us_HashedPassword user) (cr_Password cmd)
               then ret (Inl (Err IdInvalidCredentials))
               else if MFAEnabled user then
                 bindE (CreateToken P (us_ID user) ''mfa_challenge'' (i_challengeTTL P) (cr_Now cmd)) (\<lambda>challenge.
                   ret (Inr \<lparr>lr_SessionContext = None, lr_User = user, lr_MFARequired = True,
                     lr_MFAChallengeToken = challenge\<rparr>))
               else bindE (NewSession P user ''password'' (cr_IP cmd) (cr_UA cmd) (cr_Now cmd)) (\<lambda>sctx.
                   ret (Inr \<lparr>lr_SessionContext = Some sctx, lr_User = user, lr_MFARequired = False,
                     lr_MFAChallengeToken = []\<rparr>)))
        })"

text \<open>The part of \<open>RefreshHandler.Execute\<close> after all checks.\<close>

definition rotate :: "identity_ports \<Rightarrow> Session \<Rightarrow> User \<Rightarrow> gotime \<Rightarrow> SessionContext iprog" where
  "rotate P sess user now =
     bindE (Issue (i_crypto P) (i_jwt P) (i_gen P) (us_ID user) (se_ID sess) now) (\<lambda>(tokens, accessJTI, refreshJTI).
       thenE (Session_RotateTokens (se_ID sess) accessJTI refreshJTI (RefreshExpiresAt tokens))
         (thenE (Refresh_Replace (se_RefreshJTI sess) refreshJTI (se_ID sess))
           (ret (Inr \<lparr>sc_Session = sess\<lparr>se_AccessJTI := accessJTI, se_RefreshJTI := refreshJTI,
              se_ExpiresAt := RefreshExpiresAt tokens\<rparr>, sc_User = user, sc_Tokens = tokens\<rparr>))))"

definition Refresh_Execute :: "identity_ports \<Rightarrow> string \<Rightarrow> gotime \<Rightarrow> SessionContext iprog" where
  "Refresh_Execute P token now =
     (case (ParseRefresh (i_crypto P) (i_jwt P) token now :: (id_error, AccessClaims) result) of
        Inl _ \<Rightarrow> unauthorized
      | Inr claims \<Rightarrow>
          bindE (Refresh_Find (JWTID claims)) (\<lambda>r.
            case r of
              None \<Rightarrow> unauthorized
            | Some sessionID \<Rightarrow>
                if sessionID \<noteq> SessionID claims then unauthorized
                else do {
                  s \<leftarrow> Session_FindByID (SessionID claims);
                  (case s of
                     Inl _ \<Rightarrow> unauthorized
                   | Inr sess \<Rightarrow>
                       if \<not> IsActive sess now \<or> se_RefreshJTI sess \<noteq> JWTID claims then unauthorized
                       else do {
                         u \<leftarrow> User_FindByID (se_UserID sess);
                         (case u of Inl _ \<Rightarrow> unauthorized | Inr user \<Rightarrow> rotate P sess user now)
                       })
                }))"

text \<open>The user it returns has no field but the id, which stands for it here.\<close>

definition Authenticate_Execute :: "identity_ports \<Rightarrow> string \<Rightarrow> gotime \<Rightarrow> (Session \<times> string) iprog" where
  "Authenticate_Execute P token now =
     (case (ParseAccess (i_crypto P) (i_jwt P) token now :: (id_error, AccessClaims) result) of
        Inl _ \<Rightarrow> unauthorized
      | Inr claims \<Rightarrow>
          if SessionID claims = [] \<or> Subject claims = [] then unauthorized
          else do {
            s \<leftarrow> Session_FindByID (SessionID claims);
            (case s of
               Inl _ \<Rightarrow> unauthorized
             | Inr sess \<Rightarrow> if \<not> IsActive sess now then unauthorized else ret (Inr (sess, Subject claims)))
          })"

definition GetMe_Execute :: "string \<Rightarrow> User iprog" where
  "GetMe_Execute userID = User_FindByID userID"

definition ListSessions_Execute :: "string \<Rightarrow> gotime \<Rightarrow> Session list iprog" where
  "ListSessions_Execute userID now = Session_ListByUser userID now"

definition RevokeSession_Execute :: "string \<Rightarrow> string \<Rightarrow> gotime \<Rightarrow> unit iprog" where
  "RevokeSession_Execute sessionID userID now =
     bindE (Session_FindByID sessionID) (\<lambda>sess.
       if se_UserID sess \<noteq> userID then ret (Inl (Err IdSessionNotOwned))
       else if IsRevoked sess then ret (Inr ())
       else thenE (Session_RevokeByID sessionID now) (Refresh_Delete (se_RefreshJTI sess)))"

section \<open>Second factors\<close>

record MFALoginCommand =
  ml_ChallengeToken :: string
  ml_Code :: string
  ml_RecoveryCode :: string
  ml_IP :: string
  ml_UA :: string
  ml_Now :: gotime

definition mfa_session :: "identity_ports \<Rightarrow> MFALoginCommand \<Rightarrow> User \<Rightarrow> SessionContext iprog" where
  "mfa_session P cmd user = NewSession P user ''password_mfa'' (ml_IP cmd) (ml_UA cmd) (ml_Now cmd)"

definition mfa_invalid :: "'a iprog" where "mfa_invalid = ret (Inl (Err IdMFAInvalidCode))"

definition MFALogin_Execute :: "identity_ports \<Rightarrow> MFALoginCommand \<Rightarrow> SessionContext iprog" where
  "MFALogin_Execute P cmd = do {
     r \<leftarrow> ConsumeToken P (ml_ChallengeToken cmd) ''mfa_challenge'' (ml_Now cmd);
     (case r of
        Inl e \<Rightarrow> if e = Err IdUnauthorized \<or> e = Err IdNotFound then mfa_invalid else ret (Inl e)
      | Inr challenge \<Rightarrow>
          bindE (User_FindByID (tk_UserID challenge)) (\<lambda>user.
            if ml_RecoveryCode cmd \<noteq> [] then
              bindE (TOTP_ListRecoveryCodes (us_ID user)) (\<lambda>codes.
                case find (\<lambda>c. rv_ConsumedAt c = None \<and>
                    rv_CodeHash c = HashToken (i_crypto P) (ml_RecoveryCode cmd)) codes of
                  None \<Rightarrow> mfa_invalid
                | Some c \<Rightarrow> thenE (TOTP_ConsumeRecoveryCode (rv_ID c) (ml_Now cmd)) (mfa_session P cmd user))
            else do {
              s \<leftarrow> TOTP_FindSecretByUser (us_ID user);
              (case s of
                 Inl _ \<Rightarrow> mfa_invalid
               | Inr secret \<Rightarrow>
                   if \<not> VerifyTOTPCode (i_crypto P) (ts_Secret secret) (ml_Code cmd) (ml_Now cmd) then mfa_invalid
                   else mfa_session P cmd user)
            }))
   }"

definition TOTPSetup_Execute :: "identity_ports \<Rightarrow> string \<Rightarrow> gotime \<Rightarrow> (string \<times> string) iprog" where
  "TOTPSetup_Execute P userID now =
     bindE (User_FindByID userID) (\<lambda>user.
     bindE (idGen (i_secret P)) (\<lambda>secret.
       thenE (TOTP_UpsertSecret \<lparr>ts_UserID = userID, ts_Secret = secret, ts_CreatedAt = now, ts_UpdatedAt = now\<rparr>)
         (ret (Inr (secret, ''otpauth://totp/SendFlow:'' @ i_escape P (TrimSpace (us_Email user)) @ ''?secret='' @ secret @
            ''&issuer=SendFlow'')))))"

fun draw_codes :: "identity_ports \<Rightarrow> string \<Rightarrow> gotime \<Rightarrow> nat \<Rightarrow> (string \<times> RecoveryCode) list iprog" where
  "draw_codes P userID now 0 = ret (Inr [])"
| "draw_codes P userID now (Suc n) =
     bindE (idGen (\<lambda>k. recovery_code (i_short P k))) (\<lambda>raw.
     bindE (idGen (i_gen P)) (\<lambda>codeID.
     bindE (draw_codes P userID now n) (\<lambda>rest.
       ret (Inr ((raw, \<lparr>rv_ID = codeID, rv_UserID = userID, rv_CodeHash = HashToken (i_crypto P) raw,
         rv_ConsumedAt = None, rv_CreatedAt = now\<rparr>) # rest)))))"

definition TOTPEnable_Execute :: "identity_ports \<Rightarrow> string \<Rightarrow> string \<Rightarrow> gotime \<Rightarrow> string list iprog" where
  "TOTPEnable_Execute P userID code now = do {
     s \<leftarrow> TOTP_FindSecretByUser userID;
     (case s of
        Inl _ \<Rightarrow> mfa_invalid
      | Inr secret \<Rightarrow>
          if \<not> VerifyTOTPCode (i_crypto P) (ts_Secret secret) code now then mfa_invalid
          else bindE (draw_codes P userID now 8) (\<lambda>codes.
            thenE (WithinTx (thenE (TOTP_ReplaceRecoveryCodes userID (map snd codes))
                (User_SetMFAEnabledAt userID (Some now) now)))
              (ret (Inr (map fst codes)))))
   }"

definition Regenerate_Execute :: "identity_ports \<Rightarrow> string \<Rightarrow> string \<Rightarrow> gotime \<Rightarrow> string list iprog" where
  "Regenerate_Execute P userID code now = TOTPEnable_Execute P userID code now"

definition TOTPDisable_Execute :: "identity_ports \<Rightarrow> string \<Rightarrow> string \<Rightarrow> gotime \<Rightarrow> unit iprog" where
  "TOTPDisable_Execute P userID code now =
     (if code = [] then mfa_invalid
      else do {
        s \<leftarrow> TOTP_FindSecretByUser userID;
        (case s of
           Inl _ \<Rightarrow> mfa_invalid
         | Inr secret \<Rightarrow>
             if \<not> VerifyTOTPCode (i_crypto P) (ts_Secret secret) code now then mfa_invalid
             else WithinTx (thenE (User_SetMFAEnabledAt userID None now)
               (thenE (TOTP_DeleteSecret userID) (TOTP_ReplaceRecoveryCodes userID []))))
      })"

section \<open>Verification of addresses and password reset\<close>

definition ForgotPassword_Execute :: "identity_ports \<Rightarrow> string \<Rightarrow> gotime \<Rightarrow> unit iprog" where
  "ForgotPassword_Execute P email now =
     (case NewEmailAddress P email of
        Inl _ \<Rightarrow> ret (Inr ())
      | Inr parsed \<Rightarrow> do {
          r \<leftarrow> User_FindByEmail parsed;
          (case r of
             Inl e \<Rightarrow> ret (if e = Err IdNotFound then Inr () else Inl e)
           | Inr user \<Rightarrow>
               bindE (CreateToken P (us_ID user) ''password_reset'' (i_resetTTL P) now) (\<lambda>token.
                 if token = [] then ret (Inr ()) else SendPasswordResetEmail P (us_Email user) token))
        })"

definition RequestEmail_Execute :: "identity_ports \<Rightarrow> string \<Rightarrow> gotime \<Rightarrow> unit iprog" where
  "RequestEmail_Execute P userID now =
     bindE (User_FindByID userID) (\<lambda>user.
       if EmailVerified user then ret (Inr ())
       else bindE (CreateToken P (us_ID user) ''email_verification'' (i_verificationTTL P) now) (\<lambda>token.
         if token = [] then ret (Inr ()) else SendVerificationEmail P (us_Email user) token))"

definition ResetPassword_Execute :: "identity_ports \<Rightarrow> string \<Rightarrow> string \<Rightarrow> gotime \<Rightarrow> unit iprog" where
  "ResetPassword_Execute P token newPassword now =
     (if ValidatePasswordPolicy newPassword \<noteq> None then ret (Inl (Err IdPasswordPolicy))
      else do {
        r \<leftarrow> ConsumeToken P token ''password_reset'' now;
        (case r of
           Inl e \<Rightarrow> ret (Inl (if e = Err IdUnauthorized \<or> e = Err IdNotFound then Err IdResetToken else e))
         | Inr t \<Rightarrow>
             bindE (hash_password P newPassword) (\<lambda>hash.
               WithinTx (thenE (User_UpdatePassword (tk_UserID t) hash now)
                 (thenE (Session_RevokeByUser (tk_UserID t) now)
                   (AuthToken_DeleteByUserAndPurpose (tk_UserID t) ''mfa_challenge'')))))
      })"

definition VerifyEmail_Execute :: "identity_ports \<Rightarrow> string \<Rightarrow> gotime \<Rightarrow> unit iprog" where
  "VerifyEmail_Execute P token now = do {
     r \<leftarrow> ConsumeToken P token ''email_verification'' now;
     (case r of
        Inl e \<Rightarrow> ret (Inl (if e = Err IdUnauthorized \<or> e = Err IdNotFound then Err IdVerificationToken else e))
      | Inr t \<Rightarrow> User_MarkEmailVerified (tk_UserID t) now)
   }"

section \<open>OAuth\<close>

record OAuthStartCommand =
  oa_Provider :: string
  oa_RedirectURI :: string
  oa_Intent :: string
  oa_CodeChallenge :: string
  oa_CodeVerifier :: string
  oa_Now :: gotime

text \<open>The result is the state and the URL to go to.\<close>

definition OAuthStart_Execute :: "identity_ports \<Rightarrow> OAuthStartCommand \<Rightarrow> (string \<times> string) iprog" where
  "OAuthStart_Execute P cmd =
     (case i_provider P (oa_Provider cmd) of
        None \<Rightarrow> ret (Inl (Err IdNotFound))
      | Some p \<Rightarrow>
          if \<not> pv_Enabled p then ret (Inl (Err IdProviderDisabled))
          else bindE (idGen (i_gen P)) (\<lambda>state.
            thenE (OAuth_Save state \<lparr>os_Provider = oa_Provider cmd, os_RedirectURI = oa_RedirectURI cmd,
                os_Intent = oa_Intent cmd, os_CodeVerifier = oa_CodeVerifier cmd, os_CreatedAt = oa_Now cmd\<rparr>)
              (ret (Inr (state, pv_authURL p state (oa_RedirectURI cmd) (oa_CodeChallenge cmd))))))"

record ExchangeCommand =
  xc_Provider :: string
  xc_Code :: string
  xc_State :: string
  xc_RedirectURI :: string
  xc_CodeVerifier :: string
  xc_IP :: string
  xc_UA :: string
  xc_Now :: gotime

text \<open>\<open>linkAccount\<close>: the user with the address, or a new one, gets the external account.\<close>

definition linkAccount :: "identity_ports \<Rightarrow> ExchangeCommand \<Rightarrow> OAuthIdentity \<Rightarrow> string \<Rightarrow> User iprog" where
  "linkAccount P cmd ident email = do {
     r \<leftarrow> User_FindByEmail email;
     bindE (case r of
         Inr user \<Rightarrow> ret (Inr user)
       | Inl e \<Rightarrow>
           if e \<noteq> Err IdNotFound then ret (Inl e)
           else bindE (idGen (i_gen P)) (\<lambda>uID.
             let u = NewOAuthUser uID email (''oauth_'' @ xc_Provider cmd) (xc_Now cmd)
             in thenE (User_Create u) (ret (Inr u))))
       (\<lambda>user. bindE (idGen (i_gen P)) (\<lambda>accID.
         thenE (External_Create (NewExternalAuthAccount accID (us_ID user) (xc_Provider cmd)
             (oi_ProviderUserID ident) (oi_Email ident) (oi_EmailVerified ident) (xc_Now cmd)))
           (ret (Inr user))))
   }"

definition exchange_user :: "identity_ports \<Rightarrow> ExchangeCommand \<Rightarrow> OAuthIdentity \<Rightarrow> User iprog" where
  "exchange_user P cmd ident = do {
     a \<leftarrow> External_FindByProviderIdentity (xc_Provider cmd) (oi_ProviderUserID ident);
     (case a of
        Inr account \<Rightarrow>
          bindE (User_FindByID (ex_UserID account)) (\<lambda>user. do {
            _ \<leftarrow> External_TouchLogin (ex_ID account) (xc_Now cmd);
            ret (Inr user)
          })
      | Inl e \<Rightarrow>
          if e \<noteq> Err IdNotFound then ret (Inl e)
          else (case NewEmailAddress P (oi_Email ident) of
              Inl _ \<Rightarrow> unauthorized
            | Inr email \<Rightarrow> WithinTx (linkAccount P cmd ident email)))
   }"

definition OAuthExchange_Execute :: "identity_ports \<Rightarrow> ExchangeCommand \<Rightarrow> (SessionContext \<times> OAuthIdentity) iprog" where
  "OAuthExchange_Execute P cmd =
     (case i_provider P (xc_Provider cmd) of
        None \<Rightarrow> ret (Inl (Err IdNotFound))
      | Some p \<Rightarrow> do {
          s \<leftarrow> OAuth_GetAndDelete (xc_State cmd);
          (case s of
             Inl _ \<Rightarrow> ret (Inl (Err IdInvalidOAuthState))
           | Inr stored \<Rightarrow>
               if os_Provider stored \<noteq> xc_Provider cmd \<or> os_RedirectURI stored \<noteq> xc_RedirectURI cmd
               then ret (Inl (Err IdInvalidOAuthState))
               else if os_CodeVerifier stored \<noteq> [] \<and> xc_CodeVerifier cmd \<noteq> [] \<and>
                 os_CodeVerifier stored \<noteq> xc_CodeVerifier cmd
               then ret (Inl (Err IdInvalidOAuthState))
               else bindE (remote (pv_exchange p (xc_Code cmd) (xc_RedirectURI cmd) (xc_CodeVerifier cmd))) (\<lambda>ident.
                 bindE (exchange_user P cmd ident) (\<lambda>user.
                 bindE (NewSession P user (''oauth_'' @ xc_Provider cmd) (xc_IP cmd) (xc_UA cmd) (xc_Now cmd)) (\<lambda>sctx.
                   ret (Inr (sctx, ident))))))
        })"

end
