(* ===== verification/Identity_Runs.thy ===== *)
theory Identity_Runs
  imports Identity_Auth
begin

text \<open>
  Runs of the commands of \<open>Identity_Auth\<close>, and the interface \<open>auth_rel\<close>: a relation between worlds that every repository
  operation and every composite step respects is respected by all commands, whatever fails on the way.
\<close>

section \<open>Commands\<close>

datatype auth_command =
    Signup credentials
  | Login credentials
  | Refresh string gotime
  | RevokeSession string string gotime
  | MFALogin MFALoginCommand
  | TOTPSetup string gotime
  | TOTPEnable string string gotime
  | Regenerate string string gotime
  | TOTPDisable string string gotime
  | ForgotPassword string gotime
  | RequestEmail string gotime
  | ResetPassword string string gotime
  | VerifyEmail string gotime
  | OAuthStart OAuthStartCommand
  | OAuthExchange ExchangeCommand
  | Expire string

definition succeeds :: "('s, ('e, 'a) result) state \<Rightarrow> ('s, bool) state" where
  "succeeds f = do { r \<leftarrow> f; ret (case r of Inl _ \<Rightarrow> False | Inr _ \<Rightarrow> True) }"

text \<open>The time to live of an entry has passed: Redis drops a refresh token.\<close>

definition expire :: "string \<Rightarrow> (id_world, bool) state" where
  "expire jti = State (\<lambda>w. (True, w\<lparr>refresh_store := (refresh_store w)(jti := None)\<rparr>))"

fun run_auth :: "identity_ports \<Rightarrow> auth_command \<Rightarrow> (id_world, bool) state" where
  "run_auth P (Signup cmd) = succeeds (Signup_Execute P cmd)"
| "run_auth P (Login cmd) = succeeds (Login_Execute P cmd)"
| "run_auth P (Refresh token now) = succeeds (Refresh_Execute P token now)"
| "run_auth P (RevokeSession sid uid now) = succeeds (RevokeSession_Execute sid uid now)"
| "run_auth P (MFALogin cmd) = succeeds (MFALogin_Execute P cmd)"
| "run_auth P (TOTPSetup uid now) = succeeds (TOTPSetup_Execute P uid now)"
| "run_auth P (TOTPEnable uid code now) = succeeds (TOTPEnable_Execute P uid code now)"
| "run_auth P (Regenerate uid code now) = succeeds (Regenerate_Execute P uid code now)"
| "run_auth P (TOTPDisable uid code now) = succeeds (TOTPDisable_Execute P uid code now)"
| "run_auth P (ForgotPassword email now) = succeeds (ForgotPassword_Execute P email now)"
| "run_auth P (RequestEmail uid now) = succeeds (RequestEmail_Execute P uid now)"
| "run_auth P (ResetPassword token pw now) = succeeds (ResetPassword_Execute P token pw now)"
| "run_auth P (VerifyEmail token now) = succeeds (VerifyEmail_Execute P token now)"
| "run_auth P (OAuthStart cmd) = succeeds (OAuthStart_Execute P cmd)"
| "run_auth P (OAuthExchange cmd) = succeeds (OAuthExchange_Execute P cmd)"
| "run_auth P (Expire jti) = expire jti"

fun auth_run :: "identity_ports \<Rightarrow> auth_command list \<Rightarrow> id_world \<Rightarrow> id_world" where
  "auth_run P [] w = w"
| "auth_run P (cmd # cmds) w = auth_run P cmds (snd (run_state (run_auth P cmd) w))"

section \<open>Relations all commands respect\<close>

lemma bindE_assoc: "bindE (bindE f g) h = bindE f (\<lambda>a. bindE (g a) h)"
  by (rule state.expand, rule ext) (simp add: run_bindE split: prod.splits sum.splits)

lemma bindE_ret [simp]: "bindE (ret (Inr a)) h = h a"
  by (rule state.expand, rule ext) (simp add: run_bindE)

lemma bindE_ret_Inl [simp]: "bindE (ret (Inl e)) h = ret (Inl e)"
  by (rule state.expand, rule ext) (simp add: run_bindE)

text \<open>
  \<open>R_new_session\<close>, \<open>R_rotate\<close>, \<open>R_create\<close> and \<open>R_codes\<close> are the steps that bring new secrets into the world: they are asked for as a whole,
  because what they write is fresh only together with the drawing of it.
\<close>

locale auth_rel = world_rel R for R :: "id_world \<Rightarrow> id_world \<Rightarrow> bool" +
  fixes P :: identity_ports
  assumes R_users: "state_io_rel R (User_Create u)" "state_io_rel R (User_UpdatePassword uid h now)"
      "state_io_rel R (User_MarkEmailVerified uid now)" "state_io_rel R (User_SetMFAEnabledAt uid t now)"
      "state_io_rel R (User_FindByID uid)" "state_io_rel R (User_FindByEmail email)"
    and R_externals: "state_io_rel R (External_FindByProviderIdentity p pu)" "state_io_rel R (External_Create a)"
      "state_io_rel R (External_TouchLogin aid now)"
    and R_sessions: "state_io_rel R (Session_FindByID sid)" "state_io_rel R (Session_RevokeByID sid now)"
      "state_io_rel R (Session_RevokeByUser uid now)"
    and R_tokens: "state_io_rel R (AuthToken_FindByHash purpose hash)" "state_io_rel R (AuthToken_Consume tid now)"
      "state_io_rel R (AuthToken_DeleteByUserAndPurpose uid purpose)"
    and R_totp: "state_io_rel R (TOTP_UpsertSecret secret)" "state_io_rel R (TOTP_FindSecretByUser uid)"
      "state_io_rel R (TOTP_DeleteSecret uid)" "state_io_rel R (delete_recovery_codes uid)"
      "state_io_rel R (TOTP_ListRecoveryCodes uid)" "state_io_rel R (TOTP_ConsumeRecoveryCode cid now)"
    and R_outbox: "state_io_rel R (Identity_Outbox_Save ev)"
    and R_redis: "state_io_rel R (Refresh_Find jti)" "state_io_rel R (Refresh_Delete jti)"
      "state_io_rel R (OAuth_Save state v)" "state_io_rel R (OAuth_GetAndDelete state)" "state_io_rel R (expire jti)"
    and R_mail: "state_io_rel R (SendEmail P to link)"
    and R_new_session: "state_io_rel R (NewSession P user meth ip ua now)"
    and R_rotate: "state_io_rel R (rotate P sess user now)"
    and R_create: "state_io_rel R (CreateToken P uid purpose ttl now)"
    and R_codes: "state_io_rel R (bindE (draw_codes P uid now n) (\<lambda>codes.
        thenE (WithinTx (thenE (TOTP_ReplaceRecoveryCodes uid (map snd codes)) (User_SetMFAEnabledAt uid t now)))
          (ret (Inr (map fst codes)))))"
begin

lemmas primitives = R_users R_externals R_sessions R_tokens R_totp R_outbox R_redis R_mail R_new_session R_rotate
  R_create

lemma keeps_get: "state_io_rel R State_Monad.get"
  by (simp add: state_io_rel_def R_refl)

lemma keeps_remote: "state_io_rel R (remote answer)"
proof -
  have "state_io_rel R next_outcome" by (rule state_io_relI) (rule R_next_outcome)
  then show ?thesis unfolding remote_def by (intro keeps_bind keeps_return)
qed

lemma keeps_succeeds: "state_io_rel R f \<Longrightarrow> state_io_rel R (succeeds f)"
  unfolding succeeds_def by (intro keeps_bind keeps_return)

lemma keeps_hash_password: "state_io_rel R (hash_password P pw)"
  unfolding hash_password_def by (intro keeps_bind keeps_get keeps_prog)

lemma keeps_ConsumeToken: "state_io_rel R (ConsumeToken P raw purpose now)"
  unfolding ConsumeToken_def unauthorized_def by (intro keeps_prog primitives)

lemma keeps_EmitEvent: "state_io_rel R (EmitEvent P et at aid ws payload now)"
  unfolding EmitEvent_def by (intro keeps_prog primitives)

lemma keeps_mails: "state_io_rel R (SendVerificationEmail P to token)" "state_io_rel R (SendPasswordResetEmail P to token)"
  unfolding SendVerificationEmail_def SendPasswordResetEmail_def send_rendered_def by (intro io_rel_if keeps_prog R_mail)+

lemma keeps_store_user: "state_io_rel R (store_user P user now)"
  unfolding store_user_def by (intro keeps_prog primitives keeps_EmitEvent)

lemma keeps_no_codes: "state_io_rel R (TOTP_ReplaceRecoveryCodes uid [])"
  unfolding TOTP_ReplaceRecoveryCodes_def by (simp add: keeps_thenE primitives keeps_return)

lemmas services = keeps_remote keeps_hash_password keeps_ConsumeToken keeps_EmitEvent keeps_mails keeps_store_user
  keeps_no_codes

lemma keeps_Signup: "state_io_rel R (Signup_Execute P cmd)"
  unfolding Signup_Execute_def by (intro keeps_prog primitives services)

lemma keeps_Login: "state_io_rel R (Login_Execute P cmd)"
  unfolding Login_Execute_def by (intro keeps_prog primitives services)

lemma keeps_Refresh: "state_io_rel R (Refresh_Execute P token now)"
  unfolding Refresh_Execute_def unauthorized_def by (intro keeps_prog primitives services)

lemma keeps_RevokeSession: "state_io_rel R (RevokeSession_Execute sid uid now)"
  unfolding RevokeSession_Execute_def by (intro keeps_prog primitives services)

lemma keeps_MFALogin: "state_io_rel R (MFALogin_Execute P cmd)"
  unfolding MFALogin_Execute_def mfa_invalid_def mfa_session_def by (intro keeps_prog primitives services)

lemma keeps_TOTPSetup: "state_io_rel R (TOTPSetup_Execute P uid now)"
  unfolding TOTPSetup_Execute_def by (intro keeps_prog primitives services)

lemma keeps_TOTPEnable: "state_io_rel R (TOTPEnable_Execute P uid code now)"
  unfolding TOTPEnable_Execute_def mfa_invalid_def by (intro R_codes keeps_bind primitives io_rel_split keeps_return)

lemma keeps_TOTPDisable: "state_io_rel R (TOTPDisable_Execute P uid code now)"
  unfolding TOTPDisable_Execute_def mfa_invalid_def by (intro keeps_prog primitives services)

lemma keeps_ForgotPassword: "state_io_rel R (ForgotPassword_Execute P email now)"
  unfolding ForgotPassword_Execute_def by (intro keeps_prog primitives services)

lemma keeps_RequestEmail: "state_io_rel R (RequestEmail_Execute P uid now)"
  unfolding RequestEmail_Execute_def by (intro keeps_prog primitives services)

lemma keeps_ResetPassword: "state_io_rel R (ResetPassword_Execute P token pw now)"
  unfolding ResetPassword_Execute_def by (intro keeps_prog primitives services)

lemma keeps_VerifyEmail: "state_io_rel R (VerifyEmail_Execute P token now)"
  unfolding VerifyEmail_Execute_def by (intro keeps_prog primitives services)

lemma keeps_OAuthStart: "state_io_rel R (OAuthStart_Execute P cmd)"
  unfolding OAuthStart_Execute_def by (intro keeps_prog primitives services)

lemma keeps_exchange_user: "state_io_rel R (exchange_user P cmd ident)"
  unfolding exchange_user_def linkAccount_def unauthorized_def by (intro keeps_prog primitives services)

lemma keeps_OAuthExchange: "state_io_rel R (OAuthExchange_Execute P cmd)"
  unfolding OAuthExchange_Execute_def by (intro keeps_prog primitives services keeps_exchange_user)

lemmas handlers = keeps_Signup keeps_Login keeps_Refresh keeps_RevokeSession keeps_MFALogin keeps_TOTPSetup
  keeps_TOTPEnable keeps_TOTPDisable keeps_ForgotPassword keeps_RequestEmail keeps_ResetPassword keeps_VerifyEmail
  keeps_OAuthStart keeps_OAuthExchange

lemma keeps_command: "state_io_rel R (run_auth P cmd)"
  by (cases cmd) (simp_all add: Regenerate_Execute_def keeps_succeeds handlers R_redis)

lemma run_keeps: "R w (auth_run P cmds w)"
proof (induction cmds arbitrary: w)
  case (Cons cmd cmds)
  have "R w (snd (run_state (run_auth P cmd) w))" by (rule state_io_relE [OF keeps_command])
  with Cons show ?case by simp (blast intro: R_trans)
qed (simp add: R_refl)

end

end
