(* ===== verification/Identity_Secrets.thy ===== *)
theory Identity_Secrets
  imports Identity_Runs
begin

text \<open>
  Secrets that can be used once: refresh tokens, the tokens sent by mail or handed out as challenges, and recovery codes. All
  three are the same story, told by the locale \<open>one_time\<close>: the world holds a set of live secrets, commands take secrets
  out of it, and what they put in has just been drawn.
\<close>

section \<open>Fresh secrets\<close>

text \<open>
  \<open>source n\<close> is the secret made of the n-th random draw, \<open>live w\<close> are the secrets the world would accept. From one world to a
  later one only \<open>K\<close> and secrets drawn in between come alive.
\<close>

definition spends :: "(nat \<Rightarrow> string) \<Rightarrow> (id_world \<Rightarrow> string set) \<Rightarrow> string set \<Rightarrow> id_world \<Rightarrow> id_world \<Rightarrow> bool" where
  "spends source live K w w' \<longleftrightarrow>
     id_ctr w \<le> id_ctr w' \<and> live w' \<subseteq> live w \<union> K \<union> source ` {id_ctr w..<id_ctr w'}"

lemma spends_mono: "spends source live K w w' \<Longrightarrow> K \<subseteq> K' \<Longrightarrow> spends source live K' w w'"
  by (auto simp: spends_def)

lemma spends_trans: "spends source live K u v \<Longrightarrow> spends source live K v w \<Longrightarrow> spends source live K u w"
proof -
  assume uv: "spends source live K u v" and vw: "spends source live K v w"
  then have "{id_ctr u..<id_ctr w} = {id_ctr u..<id_ctr v} \<union> {id_ctr v..<id_ctr w}"
    by (auto simp: spends_def)
  with uv vw show ?thesis unfolding spends_def by (simp only: image_Un) (blast intro: order_trans)
qed

text \<open>A secret that has been drawn before and is not alive stays dead.\<close>

lemma spent_forever:
  assumes "inj_on source {..<id_ctr w'}" "spends source live {} w w'" "k \<in> source ` {..<id_ctr w}" "k \<notin> live w"
  shows "k \<notin> live w'"
proof
  assume "k \<in> live w'"
  with assms(2,4) have "k \<in> source ` {id_ctr w..<id_ctr w'}" unfolding spends_def by blast
  with assms(3) obtain m n where "k = source m" "m < id_ctr w" "k = source n" "id_ctr w \<le> n" "n < id_ctr w'"
    unfolding image_iff Bex_def lessThan_iff atLeastLessThan_iff by blast
  with assms(1) show False by (auto dest: inj_onD)
qed

locale one_time =
  fixes source :: "nat \<Rightarrow> string" and live :: "id_world \<Rightarrow> string set"
  assumes live_frame: "live (w\<lparr>outcomes := xs\<rparr>) = live w" "live (w\<lparr>id_ctr := n\<rparr>) = live w"
      "live (w\<lparr>in_tx := b\<rparr>) = live w" "live (w\<lparr>aborted := b\<rparr>) = live w"
    and live_rollback: "live (w'\<lparr>store := store w\<rparr>) \<subseteq> live w \<union> live w'"

sublocale one_time \<subseteq> rel: world_rel "spends source live K" for K
proof
  fix w w' :: id_world assume "spends source live K w w'"
  with live_rollback [of w' w] live_rollback [of w w'] show "spends source live K w (w'\<lparr>store := store w\<rparr>)"
    unfolding spends_def by (simp, blast)
next
  fix u v w :: id_world assume "spends source live K u v" "spends source live K v w"
  then show "spends source live K u w" by (rule spends_trans)
qed (auto simp: spends_def live_frame)

context one_time
begin

lemma keeps_if_live: "(\<And>w. live (snd (run_state f w)) \<subseteq> live w \<and> id_ctr w \<le> id_ctr (snd (run_state f w))) \<Longrightarrow>
    state_io_rel (spends source live K) f"
  by (auto simp: state_io_rel_def spends_def)

lemma keeps_statement:
  "(\<And>w r d. q (store w) = SqlOk r d \<Longrightarrow> live (w\<lparr>store := d\<rparr>) \<subseteq> live w) \<Longrightarrow> state_io_rel (spends source live K) (exec q)"
  by (rule rel.keeps_exec) (auto simp: spends_def)

text \<open>Drawing a secret allows the rest of the program to bring it to life.\<close>

lemma keeps_drawn:
  fixes g :: "string \<Rightarrow> 'a iprog"
  assumes "\<And>n. state_io_rel (spends source live (insert (source n) K)) (g (f n))"
  shows "state_io_rel (spends source live K) (bindE (idGen f) g)"
proof (rule state_io_relI)
  fix r w w' assume run: "run_state (bindE (idGen f) g) w = (r, w')"
  obtain x v where f: "run_state (idGen f :: string iprog) w = (x, v)" by fastforce
  then have v: "spends source live K w v" by (rule state_io_relD [OF rel.keeps_idGen])
  show "spends source live K w w'"
  proof (cases x)
    case (Inl e)
    with run f v show ?thesis by (simp add: run_bindE)
  next
    case (Inr i)
    with f have i: "i = f (id_ctr w)" and ctr: "id_ctr v = Suc (id_ctr w)" by (auto dest: idGen_InrD)
    with run f Inr have "run_state (g (f (id_ctr w))) v = (r, w')" by (simp add: run_bindE)
    then have "spends source live (insert (source (id_ctr w)) K) v w'" by (rule state_io_relD [OF assms])
    with v ctr show ?thesis by (force simp: spends_def)
  qed
qed

end


section \<open>The three kinds of secret\<close>

definition live_refresh :: "id_world \<Rightarrow> string set" where
  "live_refresh w = dom (refresh_store w)"

definition live_tokens :: "id_world \<Rightarrow> string set" where
  "live_tokens w = tk_TokenHash ` {t \<in> set (auth_tokens (store w)). tk_ConsumedAt t = None}"

definition live_codes :: "id_world \<Rightarrow> string set" where
  "live_codes w = rv_CodeHash ` {c \<in> set (recovery_codes (store w)). rv_ConsumedAt c = None}"

definition token_source :: "identity_ports \<Rightarrow> nat \<Rightarrow> string" where
  "token_source P n = HashToken (i_crypto P) (i_token P n)"

definition code_source :: "identity_ports \<Rightarrow> nat \<Rightarrow> string" where
  "code_source P n = HashToken (i_crypto P) (recovery_code (i_short P n))"

lemma live_tokens_iff: "h \<in> live_tokens w \<longleftrightarrow> (\<exists>t\<in>set (auth_tokens (store w)). tk_TokenHash t = h \<and> tk_ConsumedAt t = None)"
  by (auto simp: live_tokens_def)

lemma live_codes_iff: "h \<in> live_codes w \<longleftrightarrow> (\<exists>c\<in>set (recovery_codes (store w)). rv_CodeHash c = h \<and> rv_ConsumedAt c = None)"
  by (auto simp: live_codes_def)

interpretation refresh: one_time "i_gen P" live_refresh for P
  by unfold_locales (auto simp: live_refresh_def)

interpretation token: one_time "token_source P" live_tokens for P
  by unfold_locales (auto simp: live_tokens_def)

interpretation code: one_time "code_source P" live_codes for P
  by unfold_locales (auto simp: live_codes_def)

lemmas store_ops = User_Create_def User_UpdatePassword_def User_MarkEmailVerified_def User_SetMFAEnabledAt_def User_FindByID_def
  User_FindByEmail_def External_FindByProviderIdentity_def External_Create_def External_TouchLogin_def Session_Create_def
  Session_FindByID_def Session_RevokeByID_def Session_RevokeByUser_def Session_RotateTokens_def AuthToken_Create_def
  AuthToken_FindByHash_def AuthToken_Consume_def AuthToken_DeleteByUserAndPurpose_def TOTP_UpsertSecret_def
  TOTP_FindSecretByUser_def TOTP_DeleteSecret_def delete_recovery_codes_def insert_recovery_code_def
  TOTP_ListRecoveryCodes_def TOTP_ConsumeRecoveryCode_def Identity_Outbox_Save_def

lemmas redis_ops = Refresh_Find_def Refresh_Delete_def OAuth_Save_def

text \<open>The steps that no kind of secret but its own notices.\<close>

context one_time
begin

lemma keeps_redis:
  assumes "\<And>w. live (effect w) \<subseteq> live w \<union> K" "\<And>w. id_ctr (effect w) = id_ctr w"
  shows "state_io_rel (spends source live K) (redis answer effect)"
proof (rule state_io_relI)
  fix r w w' assume run: "run_state (redis answer effect) w = (r, w')"
  obtain x w1 where 1: "run_state next_outcome w = (x, w1)" by fastforce
  then have w1: "spends source live K w w1" by (rule rel.R_next_outcome)
  have "spends source live K w1 (effect w1)" using assms [of w1] by (auto simp: spends_def)
  with w1 have "spends source live K w (effect w1)" by (rule spends_trans)
  with run 1 w1 show "spends source live K w w'" by (auto simp: redis_def split: if_splits)
qed

lemma keeps_weaker: "state_io_rel (spends source live {}) f \<Longrightarrow> state_io_rel (spends source live K) f"
  unfolding state_io_rel_def by (blast intro: spends_mono)

lemma keeps_mail:
  assumes "\<And>w ms. live (w\<lparr>mails := ms\<rparr>) = live w"
  shows "state_io_rel (spends source live K) (SendEmail P to link)"
proof -
  have "spends source live K w (w1\<lparr>mails := ms\<rparr>)" if "run_state next_outcome w = (x, w1)" for w x w1 ms
    using rel.R_next_outcome [OF that] by (simp add: spends_def assms)
  then show ?thesis
    by (auto simp: SendEmail_def state_io_rel_def rel.R_refl split: prod.splits dest: rel.R_next_outcome)
qed

lemma keeps_GetAndDelete:
  assumes "\<And>w f. live (w\<lparr>oauth_states := f\<rparr>) = live w"
  shows "state_io_rel (spends source live K) (OAuth_GetAndDelete state)"
  unfolding OAuth_GetAndDelete_def
  by (intro rel.keeps_prog keeps_redis) (simp_all add: assms)

end

section \<open>Refresh tokens\<close>

lemma refresh_same: "live_refresh (w\<lparr>store := d\<rparr>) = live_refresh w" "live_refresh (w\<lparr>mails := ms\<rparr>) = live_refresh w"
  "live_refresh (w\<lparr>oauth_states := f\<rparr>) = live_refresh w"
  by (simp_all add: live_refresh_def)

lemma refresh_exec: "state_io_rel (spends (i_gen P) live_refresh K) (exec q)"
  by (rule refresh.keeps_statement) (simp add: refresh_same)

lemma refresh_new_session: "state_io_rel (spends (i_gen P) live_refresh {}) (NewSession P user meth ip ua now)"
  unfolding NewSession_def Issue_def bindE_assoc bindE_ret case_prod_conv Let_def Session_Create_def Refresh_Save_def
  by (intro refresh.rel.keeps_bindE refresh.rel.keeps_idGen refresh.keeps_drawn refresh.rel.keeps_thenE refresh_exec
      refresh.keeps_redis refresh.rel.keeps_return) (auto simp: live_refresh_def)

lemma refresh_rotate: "state_io_rel (spends (i_gen P) live_refresh {}) (rotate P sess user now)"
  unfolding rotate_def Issue_def bindE_assoc bindE_ret case_prod_conv Session_RotateTokens_def Refresh_Replace_def
  by (intro refresh.rel.keeps_bindE refresh.rel.keeps_idGen refresh.keeps_drawn refresh.rel.keeps_thenE refresh_exec
      refresh.keeps_redis refresh.rel.keeps_return) (auto simp: live_refresh_def)


lemma draw_codes_keeps: "world_rel R \<Longrightarrow> state_io_rel R (draw_codes P uid now n)"
  by (induction n) (auto intro!: world_rel.keeps_bindE world_rel.keeps_return world_rel.keeps_idGen)

lemma insert_codes_keeps:
  "world_rel R \<Longrightarrow> (\<And>c. c \<in> set codes \<Longrightarrow> state_io_rel R (insert_recovery_code c)) \<Longrightarrow>
   state_io_rel R (insert_recovery_codes codes)"
  by (induction codes) (auto intro!: world_rel.keeps_thenE world_rel.keeps_return)

lemma refresh_codes: "state_io_rel (spends (i_gen P) live_refresh {}) (bindE (draw_codes P uid now n) (\<lambda>codes.
    thenE (WithinTx (thenE (TOTP_ReplaceRecoveryCodes uid (map snd codes)) (User_SetMFAEnabledAt uid t now)))
      (ret (Inr (map fst codes)))))"
  unfolding TOTP_ReplaceRecoveryCodes_def User_SetMFAEnabledAt_def delete_recovery_codes_def
  by (intro refresh.rel.keeps_prog draw_codes_keeps insert_codes_keeps refresh.rel.world_rel_axioms refresh_exec)
    (simp add: insert_recovery_code_def refresh_exec)

lemma refresh_expire: "state_io_rel (spends (i_gen P) live_refresh K) (expire jti)"
  by (auto simp: expire_def state_io_rel_def spends_def live_refresh_def)

interpretation refresh_auth: auth_rel "spends (i_gen P) live_refresh {}" P for P
  by unfold_locales
    (rule refresh_new_session refresh_rotate refresh_codes refresh_expire refresh.keeps_mail refresh.keeps_GetAndDelete;
      simp add: refresh_same
    | unfold store_ops redis_ops CreateToken_def Let_def;
      intro refresh.rel.keeps_prog refresh_exec refresh.keeps_redis; auto simp: live_refresh_def)+


section \<open>Tokens\<close>

lemma tokens_same: "live_tokens (w\<lparr>mails := ms\<rparr>) = live_tokens w" "live_tokens (w\<lparr>oauth_states := f\<rparr>) = live_tokens w"
  "live_tokens (w\<lparr>refresh_store := g\<rparr>) = live_tokens w"
  by (simp_all add: live_tokens_def)

lemma tokens_table: "auth_tokens d = auth_tokens (store w) \<Longrightarrow> live_tokens (w\<lparr>store := d\<rparr>) = live_tokens w"
  by (simp add: live_tokens_def)

lemma token_other:
  "(\<And>d r d'. q d = SqlOk r d' \<Longrightarrow> auth_tokens d' = auth_tokens d) \<Longrightarrow>
   state_io_rel (spends (token_source P) live_tokens K) (exec q)"
  by (rule token.keeps_statement) (metis tokens_table order_refl)

lemma token_redis: "state_io_rel (spends (token_source P) live_tokens K) (redis answer (\<lambda>w. w\<lparr>refresh_store := g w\<rparr>))"
  by (rule token.keeps_redis) (simp_all add: tokens_same)

lemma token_new_session: "state_io_rel (spends (token_source P) live_tokens {}) (NewSession P user meth ip ua now)"
  unfolding NewSession_def Issue_def bindE_assoc bindE_ret case_prod_conv Let_def Session_Create_def Refresh_Save_def
  by (intro token.rel.keeps_prog token_other token_redis) (auto split: if_splits)

lemma token_rotate: "state_io_rel (spends (token_source P) live_tokens {}) (rotate P sess user now)"
  unfolding rotate_def Issue_def bindE_assoc bindE_ret case_prod_conv Session_RotateTokens_def Refresh_Replace_def
  by (intro token.rel.keeps_prog token_other token_redis) (auto split: if_splits)

lemma token_created:
  assumes "tk_TokenHash t \<in> K"
  shows "state_io_rel (spends (token_source P) live_tokens K) (AuthToken_Create t)"
  unfolding AuthToken_Create_def
  by (rule token.rel.keeps_exec) (use assms in \<open>auto simp: spends_def live_tokens_def split: if_splits\<close>)

lemma token_delete: "state_io_rel (spends (token_source P) live_tokens K) (AuthToken_DeleteByUserAndPurpose uid purpose)"
  unfolding AuthToken_DeleteByUserAndPurpose_def by (rule token.keeps_statement) (auto simp: live_tokens_def)

lemma token_consume: "state_io_rel (spends (token_source P) live_tokens K) (AuthToken_Consume tid now)"
  unfolding AuthToken_Consume_def update_where_def
  by (rule token.keeps_statement) (force simp: live_tokens_def split: if_splits)

lemma token_CreateToken: "state_io_rel (spends (token_source P) live_tokens {}) (CreateToken P uid purpose ttl now)"
  unfolding CreateToken_def Let_def
  by (intro token.rel.keeps_return token.rel.keeps_thenE token_delete io_rel_if token.keeps_drawn token.rel.keeps_bindE
      token.rel.keeps_idGen token_created) (simp_all add: token_source_def)

lemma token_codes: "state_io_rel (spends (token_source P) live_tokens {}) (bindE (draw_codes P uid now n) (\<lambda>codes.
    thenE (WithinTx (thenE (TOTP_ReplaceRecoveryCodes uid (map snd codes)) (User_SetMFAEnabledAt uid t now)))
      (ret (Inr (map fst codes)))))"
  unfolding TOTP_ReplaceRecoveryCodes_def User_SetMFAEnabledAt_def delete_recovery_codes_def
  by (intro token.rel.keeps_prog draw_codes_keeps insert_codes_keeps token.rel.world_rel_axioms;
      (unfold insert_recovery_code_def)?; rule token_other; auto split: if_splits)

lemma token_expire: "state_io_rel (spends (token_source P) live_tokens K) (expire jti)"
  by (auto simp: expire_def state_io_rel_def spends_def tokens_same)

interpretation token_auth: auth_rel "spends (token_source P) live_tokens {}" P for P
  by unfold_locales
    (rule token_new_session token_rotate token_codes token_expire token_CreateToken token_delete token_consume
      token.keeps_mail token.keeps_GetAndDelete; simp add: tokens_same
    | unfold store_ops; rule token_other; auto split: if_splits
    | unfold redis_ops; rule token_redis token.keeps_redis; simp add: tokens_same)+

section \<open>Recovery codes\<close>

lemma codes_same: "live_codes (w\<lparr>mails := ms\<rparr>) = live_codes w" "live_codes (w\<lparr>oauth_states := f\<rparr>) = live_codes w"
  "live_codes (w\<lparr>refresh_store := g\<rparr>) = live_codes w"
  by (simp_all add: live_codes_def)

lemma codes_table: "recovery_codes d = recovery_codes (store w) \<Longrightarrow> live_codes (w\<lparr>store := d\<rparr>) = live_codes w"
  by (simp add: live_codes_def)

lemma code_other:
  "(\<And>d r d'. q d = SqlOk r d' \<Longrightarrow> recovery_codes d' = recovery_codes d) \<Longrightarrow>
   state_io_rel (spends (code_source P) live_codes K) (exec q)"
  by (rule code.keeps_statement) (metis codes_table order_refl)

lemma code_redis: "state_io_rel (spends (code_source P) live_codes K) (redis answer (\<lambda>w. w\<lparr>refresh_store := g w\<rparr>))"
  by (rule code.keeps_redis) (simp_all add: codes_same)

lemma code_new_session: "state_io_rel (spends (code_source P) live_codes {}) (NewSession P user meth ip ua now)"
  unfolding NewSession_def Issue_def bindE_assoc bindE_ret case_prod_conv Let_def Session_Create_def Refresh_Save_def
  by (intro code.rel.keeps_prog code_other code_redis) (auto split: if_splits)

lemma code_rotate: "state_io_rel (spends (code_source P) live_codes {}) (rotate P sess user now)"
  unfolding rotate_def Issue_def bindE_assoc bindE_ret case_prod_conv Session_RotateTokens_def Refresh_Replace_def
  by (intro code.rel.keeps_prog code_other code_redis) (auto split: if_splits)

lemma code_CreateToken: "state_io_rel (spends (code_source P) live_codes {}) (CreateToken P uid purpose ttl now)"
  unfolding CreateToken_def Let_def AuthToken_DeleteByUserAndPurpose_def AuthToken_Create_def
  by (intro code.rel.keeps_prog code_other) (auto split: if_splits)

lemma code_delete: "state_io_rel (spends (code_source P) live_codes K) (delete_recovery_codes uid)"
  unfolding delete_recovery_codes_def by (rule code.keeps_statement) (auto simp: live_codes_def)

lemma code_consume: "state_io_rel (spends (code_source P) live_codes K) (TOTP_ConsumeRecoveryCode cid now)"
  unfolding TOTP_ConsumeRecoveryCode_def update_where_def
  by (rule code.keeps_statement) (force simp: live_codes_def split: if_splits)

lemma code_inserted:
  assumes "rv_CodeHash c \<in> K"
  shows "state_io_rel (spends (code_source P) live_codes K) (insert_recovery_code c)"
  unfolding insert_recovery_code_def
  by (rule code.rel.keeps_exec) (use assms in \<open>auto simp: spends_def live_codes_def split: if_splits\<close>)

text \<open>A program that may bring the drawn codes to life, after they have been drawn.\<close>

lemma code_drawn:
  assumes "\<And>codes K'. K \<subseteq> K' \<Longrightarrow> \<forall>c\<in>set codes. rv_CodeHash (snd c) \<in> K' \<Longrightarrow>
    state_io_rel (spends (code_source P) live_codes K') (g codes)"
  shows "state_io_rel (spends (code_source P) live_codes K) (bindE (draw_codes P uid now n) g)"
  using assms
proof (induction n arbitrary: g K)
  case (Suc n)
  show ?case unfolding draw_codes.simps bindE_assoc bindE_ret
  proof (rule code.keeps_drawn, rule code.rel.keeps_bindE, rule code.rel.keeps_idGen, rule Suc.IH, rule Suc.prems)
    fix m codeID K' and codes :: "(string \<times> RecoveryCode) list"
    assume "insert (code_source P m) K \<subseteq> K'" "\<forall>c\<in>set codes. rv_CodeHash (snd c) \<in> K'"
    then show "K \<subseteq> K'" "\<forall>c\<in>set ((recovery_code (i_short P m), \<lparr>rv_ID = codeID, rv_UserID = uid,
        rv_CodeHash = HashToken (i_crypto P) (recovery_code (i_short P m)), rv_ConsumedAt = None, rv_CreatedAt = now\<rparr>) # codes).
        rv_CodeHash (snd c) \<in> K'"
      by (auto simp: code_source_def)
  qed
qed simp

lemma code_codes: "state_io_rel (spends (code_source P) live_codes {}) (bindE (draw_codes P uid now n) (\<lambda>codes.
    thenE (WithinTx (thenE (TOTP_ReplaceRecoveryCodes uid (map snd codes)) (User_SetMFAEnabledAt uid t now)))
      (ret (Inr (map fst codes)))))"
  unfolding TOTP_ReplaceRecoveryCodes_def User_SetMFAEnabledAt_def
  by (intro code_drawn code.rel.keeps_prog insert_codes_keeps code_inserted code_delete code.rel.world_rel_axioms code_other)
    auto

lemma code_expire: "state_io_rel (spends (code_source P) live_codes K) (expire jti)"
  by (auto simp: expire_def state_io_rel_def spends_def codes_same)

interpretation code_auth: auth_rel "spends (code_source P) live_codes {}" P for P
  by unfold_locales
    (rule code_new_session code_rotate code_codes code_expire code_CreateToken code_delete code_consume
      code.keeps_mail code.keeps_GetAndDelete; simp add: codes_same
    | unfold store_ops; rule code_other; auto split: if_splits
    | unfold redis_ops; rule code_redis code.keeps_redis; simp add: codes_same)+

end
