(* ===== verification/Identity_Safety.thy ===== *)
theory Identity_Safety
  imports Identity_Secrets
begin

text \<open>
  What the commands of \<open>Identity_Auth\<close> guarantee over any run and under any faults: sessions that were revoked stay dead, secrets work
  once, and sessions are opened only after all factors have been checked.
\<close>

section \<open>Keys\<close>

definition keys_ok :: "identity_db \<Rightarrow> bool" where
  "keys_ok d \<longleftrightarrow> distinct (map se_ID (sessions d)) \<and> distinct (map tk_ID (auth_tokens d)) \<and>
     distinct (map tk_TokenHash (auth_tokens d)) \<and> distinct (map rv_ID (recovery_codes d)) \<and>
     distinct (map rv_CodeHash (recovery_codes d)) \<and> distinct (map us_ID (users d)) \<and> distinct (map us_Email (users d))"

definition keeps_keys :: "id_world \<Rightarrow> id_world \<Rightarrow> bool" where
  "keeps_keys w w' \<longleftrightarrow> (keys_ok (store w) \<longrightarrow> keys_ok (store w'))"

interpretation keys: world_rel keeps_keys
  by unfold_locales (auto simp: keeps_keys_def)

lemma map_update_where: "(\<And>r. key (f r) = key r) \<Longrightarrow> map key (update_where Q f rows) = map key rows"
  by (simp add: update_where_def)

lemma distinct_filtered: "distinct (map key rows) \<Longrightarrow> distinct (map key (filter Q rows))"
  by (rule distinct_map_filter)

lemma keys_exec:
  "(\<And>d r d'. q d = SqlOk r d' \<Longrightarrow> keys_ok d \<Longrightarrow> keys_ok d') \<Longrightarrow> state_io_rel keeps_keys (exec q)"
  by (rule keys.keeps_exec) (auto simp: keeps_keys_def)

lemma keys_redis: "(\<And>w. store (effect w) = store w) \<Longrightarrow> state_io_rel keeps_keys (redis answer effect)"
  by (auto simp: redis_def state_io_rel_def keeps_keys_def next_outcome_def split: list.splits)

lemma keys_store_ops:
  "state_io_rel keeps_keys (User_Create u)" "state_io_rel keeps_keys (User_UpdatePassword uid h now)"
  "state_io_rel keeps_keys (User_MarkEmailVerified uid now)" "state_io_rel keeps_keys (User_SetMFAEnabledAt uid t now)"
  "state_io_rel keeps_keys (Session_Create s)" "state_io_rel keeps_keys (Session_RevokeByID sid now)"
  "state_io_rel keeps_keys (Session_RevokeByUser uid now)" "state_io_rel keeps_keys (Session_RotateTokens sid aj rj now)"
  "state_io_rel keeps_keys (AuthToken_Create tok)" "state_io_rel keeps_keys (AuthToken_Consume tid now)"
  "state_io_rel keeps_keys (AuthToken_DeleteByUserAndPurpose uid purpose)"
  "state_io_rel keeps_keys (delete_recovery_codes uid)" "state_io_rel keeps_keys (insert_recovery_code c)"
  "state_io_rel keeps_keys (TOTP_ConsumeRecoveryCode cid now)"
  by (unfold store_ops; rule keys_exec;
      auto simp: keys_ok_def map_update_where distinct_filtered list_ex_iff split: if_splits)+


text \<open>A relation on the tables only: redis, mail and the steps built from statements keep it once the statements do.\<close>

locale table_rel = world_rel R for R :: "id_world \<Rightarrow> id_world \<Rightarrow> bool" +
  assumes R_tables: "store w' = store w \<Longrightarrow> R w w'"
    and R_inserts: "state_io_rel R (Session_Create s)" "state_io_rel R (Session_RotateTokens sid aj rj now)"
      "state_io_rel R (AuthToken_Create tok)" "state_io_rel R (AuthToken_DeleteByUserAndPurpose uid purpose)"
      "state_io_rel R (delete_recovery_codes uid)" "state_io_rel R (insert_recovery_code c)"
      "state_io_rel R (User_SetMFAEnabledAt uid t now)"
begin

lemma table_redis: "(\<And>w. store (effect w) = store w) \<Longrightarrow> state_io_rel R (redis answer effect)"
  by (rule state_io_relI, rule R_tables)
    (auto simp: redis_def next_outcome_def split: list.splits if_splits)

lemma table_outside:
  "state_io_rel R (Refresh_Find jti)" "state_io_rel R (Refresh_Delete jti)" "state_io_rel R (Refresh_Save jti sid)"
  "state_io_rel R (Refresh_Replace oj nj sid)" "state_io_rel R (OAuth_Save st v)"
  "state_io_rel R (OAuth_GetAndDelete st)" "state_io_rel R (expire jti)" "state_io_rel R (SendEmail P to link)"
proof -
  show "state_io_rel R (expire jti)"
    by (auto simp: expire_def state_io_rel_def intro: R_tables)
  have "store (snd (run_state (SendEmail P to link) w)) = store w" for w
    by (auto simp: SendEmail_def next_outcome_def split: list.splits)
  then show "state_io_rel R (SendEmail P to link)" by (auto simp: state_io_rel_def intro: R_tables)
qed (unfold redis_ops Refresh_Save_def Refresh_Replace_def OAuth_GetAndDelete_def;
  intro keeps_prog table_redis; simp)+

lemma table_steps:
  "state_io_rel R (NewSession P user meth ip ua now)" "state_io_rel R (rotate P sess user now)"
  "state_io_rel R (CreateToken P uid purpose ttl now)"
  "state_io_rel R (bindE (draw_codes P uid now n) (\<lambda>codes.
     thenE (WithinTx (thenE (TOTP_ReplaceRecoveryCodes uid (map snd codes)) (User_SetMFAEnabledAt uid t now)))
       (ret (Inr (map fst codes)))))"
  unfolding NewSession_def rotate_def CreateToken_def TOTP_ReplaceRecoveryCodes_def Issue_def Let_def
  by (intro keeps_prog R_inserts table_outside draw_codes_keeps insert_codes_keeps world_rel_axioms)+

end

interpretation keys_tables: table_rel keeps_keys
  by unfold_locales (simp_all add: keeps_keys_def keys_store_ops)

interpretation keys_auth: auth_rel keeps_keys P for P
  by unfold_locales
    (rule keys_store_ops keys_tables.table_outside keys_tables.table_steps
    | unfold store_ops; rule keys_exec; auto simp: keys_ok_def split: if_splits)+

section \<open>Revoked sessions\<close>

definition revoked :: "id_world \<Rightarrow> string set" where
  "revoked w = se_ID ` {s \<in> set (sessions (store w)). IsRevoked s}"

definition keeps_revoked :: "id_world \<Rightarrow> id_world \<Rightarrow> bool" where
  "keeps_revoked w w' \<longleftrightarrow> revoked w \<subseteq> revoked w'"

interpretation gone: world_rel keeps_revoked
  by unfold_locales (auto simp: keeps_revoked_def revoked_def)

lemma gone_exec:
  assumes "\<And>d r d'. q d = SqlOk r d' \<Longrightarrow> \<exists>f extra. sessions d' = map f (sessions d) @ extra \<and>
    (\<forall>s. se_ID (f s) = se_ID s \<and> (IsRevoked s \<longrightarrow> IsRevoked (f s)))"
  shows "state_io_rel keeps_revoked (exec q)"
proof (rule gone.keeps_exec)
  fix w :: id_world and r d assume "q (store w) = SqlOk r d"
  from assms [OF this] obtain f extra where rows: "sessions d = map f (sessions (store w)) @ extra"
    and f: "\<And>s. se_ID (f s) = se_ID s" "\<And>s. IsRevoked s \<Longrightarrow> IsRevoked (f s)" by blast
  have "se_ID s \<in> revoked (w\<lparr>store := d\<rparr>)" if "s \<in> set (sessions (store w))" "IsRevoked s" for s
    unfolding revoked_def using that f [of s] by (intro image_eqI [of _ _ "f s"]) (auto simp: rows)
  then show "keeps_revoked w (w\<lparr>store := d\<rparr>)" by (auto simp: keeps_revoked_def revoked_def [of w])
qed

lemma gone_same:
  "(\<And>d r d'. q d = SqlOk r d' \<Longrightarrow> sessions d' = sessions d) \<Longrightarrow> state_io_rel keeps_revoked (exec q)"
  by (rule gone_exec) (rule exI [of _ id], auto)

lemma gone_updated:
  "(\<And>s. se_ID (f s) = se_ID s \<and> (IsRevoked s \<longrightarrow> IsRevoked (f s))) \<Longrightarrow>
   (\<And>d r d'. q d = SqlOk r d' \<Longrightarrow> sessions d' = update_where Q f (sessions d)) \<Longrightarrow> state_io_rel keeps_revoked (exec q)"
  by (rule gone_exec) (rule exI [of _ "\<lambda>s. if Q s then f s else s"], auto simp: update_where_def)

lemma gone_sessions:
  "state_io_rel keeps_revoked (Session_RevokeByID sid now)" "state_io_rel keeps_revoked (Session_RevokeByUser uid now)"
  "state_io_rel keeps_revoked (Session_RotateTokens sid aj rj now)"
  unfolding Session_RevokeByID_def Session_RevokeByUser_def Session_RotateTokens_def
  by (rule gone_updated [rotated], auto simp: IsRevoked_def split: if_splits)+

lemma gone_create: "state_io_rel keeps_revoked (Session_Create s)"
  unfolding Session_Create_def by (rule gone_exec) (rule exI [of _ id], auto split: if_splits)

interpretation gone_tables: table_rel keeps_revoked
  by unfold_locales
    (simp add: keeps_revoked_def revoked_def
    | rule gone_sessions gone_create
    | unfold store_ops; rule gone_same; auto split: if_splits)+

interpretation gone_auth: auth_rel keeps_revoked P for P
  by unfold_locales
    (rule gone_sessions gone_create gone_tables.table_outside gone_tables.table_steps
    | unfold store_ops; rule gone_same; auto split: if_splits)+

text \<open>What it means for a session to be dead: no token that names it is accepted.\<close>

definition rejected :: "identity_ports \<Rightarrow> string \<Rightarrow> id_world \<Rightarrow> bool" where
  "rejected P sid w \<longleftrightarrow> (\<forall>token now claims.
     (ParseAccess (i_crypto P) (i_jwt P) token now = (Inr claims :: (id_error, _) result) \<and> SessionID claims = sid \<longrightarrow>
        (\<forall>x. fst (run_state (Authenticate_Execute P token now) w) \<noteq> Inr x)) \<and>
     (ParseRefresh (i_crypto P) (i_jwt P) token now = (Inr claims :: (id_error, _) result) \<and> SessionID claims = sid \<longrightarrow>
        (\<forall>x. fst (run_state (Refresh_Execute P token now) w) \<noteq> Inr x)))"

lemma exec_read_Inr: "run_state (exec (\<lambda>d. SqlOk (q d) d)) w = (Inr a, v) \<Longrightarrow> q (store w) = Inr a \<and> store v = store w"
  by (drule exec_InrD) auto

lemma found_Inr: "found e r = Inr x \<longleftrightarrow> r = Some x"
  by (auto simp: found_def split: option.splits)

lemma session_found:
  "run_state (Session_FindByID sid) w = (Inr s, v) \<Longrightarrow> s \<in> set (sessions (store w)) \<and> se_ID s = sid \<and> store v = store w"
  unfolding Session_FindByID_def by (drule exec_read_Inr) (auto simp: found_Inr dest: find_SomeD)

lemma revoked_inactive:
  assumes "keys_ok (store w)" "sid \<in> revoked w" "s \<in> set (sessions (store w))" "se_ID s = sid"
  shows "\<not> IsActive s now"
  using assms by (auto simp: revoked_def keys_ok_def distinct_map inj_on_def IsActive_def IsRevoked_def)

lemma revoked_authenticate:
  assumes "keys_ok (store w)" "sid \<in> revoked w"
    and "ParseAccess (i_crypto P) (i_jwt P) token now = (Inr claims :: (id_error, _) result)" "SessionID claims = sid"
  shows "fst (run_state (Authenticate_Execute P token now) w) \<noteq> Inr x"
proof -
  obtain r v where f: "run_state (Session_FindByID sid) w = (r, v)" by fastforce
  have "\<not> IsActive s now" if "r = Inr s" for s
    using session_found [of sid w s v] f that revoked_inactive [OF assms(1,2)] by auto
  then show ?thesis using assms(3,4) f
    by (cases r) (auto simp: Authenticate_Execute_def unauthorized_def)
qed


text \<open>What a successful refresh has found on its way.\<close>

lemma next_outcome_frame:
  "run_state next_outcome w = (x, v) \<Longrightarrow> store v = store w \<and> refresh_store v = refresh_store w \<and> id_ctr v = id_ctr w"
  by (auto simp: next_outcome_def split: list.splits)

lemma exec_frame:
  "run_state (exec q) w = (r, v) \<Longrightarrow> refresh_store v = refresh_store w \<and> id_ctr v = id_ctr w"
  by (auto simp: exec_def next_outcome_def split: list.splits if_splits sql.splits)

lemma redis_InrD:
  "run_state (redis answer effect) w = (Inr a, v) \<Longrightarrow> \<exists>w1. store w1 = store w \<and> refresh_store w1 = refresh_store w \<and>
     id_ctr w1 = id_ctr w \<and> a = answer w1 \<and> v = effect w1"
  by (auto simp: redis_def split: prod.splits if_splits dest!: next_outcome_frame)

lemma Refresh_InrD:
  assumes "run_state (Refresh_Execute P token now) w = (Inr ctx, w')"
  obtains claims sess user w1 where
    "ParseRefresh (i_crypto P) (i_jwt P) token now = (Inr claims :: (id_error, _) result)"
    "refresh_store w (JWTID claims) = Some (SessionID claims)"
    "sess \<in> set (sessions (store w))" "se_ID sess = SessionID claims" "IsActive sess now" "se_RefreshJTI sess = JWTID claims"
    "store w1 = store w" "refresh_store w1 = refresh_store w" "id_ctr w1 = id_ctr w"
    "run_state (rotate P sess user now) w1 = (Inr ctx, w')"
proof -
  from assms obtain claims where claims: "ParseRefresh (i_crypto P) (i_jwt P) token now = (Inr claims :: (id_error, _) result)"
    by (cases "ParseRefresh (i_crypto P) (i_jwt P) token now :: (id_error, AccessClaims) result")
      (auto simp: Refresh_Execute_def unauthorized_def)
  from assms obtain r v where f: "run_state (Refresh_Find (JWTID claims)) w = (Inr r, v)"
    and run: "run_state (case r of None \<Rightarrow> unauthorized | Some sessionID \<Rightarrow>
        if sessionID \<noteq> SessionID claims then unauthorized
        else do {
          s \<leftarrow> Session_FindByID (SessionID claims);
          (case s of Inl _ \<Rightarrow> unauthorized
           | Inr sess \<Rightarrow>
               if \<not> IsActive sess now \<or> se_RefreshJTI sess \<noteq> JWTID claims then unauthorized
               else do {
                 u \<leftarrow> User_FindByID (se_UserID sess);
                 (case u of Inl _ \<Rightarrow> unauthorized | Inr user \<Rightarrow> rotate P sess user now)
               })
        }) v = (Inr ctx, w')"
    by (auto simp: Refresh_Execute_def claims elim!: bindE_InrD)
  from f have r: "r = refresh_store w (JWTID claims)" and v: "store v = store w" "refresh_store v = refresh_store w" "id_ctr v = id_ctr w"
    unfolding Refresh_Find_def by (auto dest!: redis_InrD)
  from run have sid: "r = Some (SessionID claims)" by (auto simp: unauthorized_def split: option.splits if_splits)
  obtain s v2 where s: "run_state (Session_FindByID (SessionID claims)) v = (s, v2)" by fastforce
  from run sid s obtain sess where sess: "s = Inr sess" "IsActive sess now" "se_RefreshJTI sess = JWTID claims"
    by (auto simp: unauthorized_def split: sum.splits if_splits)
  obtain u v3 where u: "run_state (User_FindByID (se_UserID sess)) v2 = (u, v3)" by fastforce
  from run sid s sess u obtain user where user: "u = Inr user" "run_state (rotate P sess user now) v3 = (Inr ctx, w')"
    by (auto simp: unauthorized_def split: sum.splits if_splits)
  have v2: "refresh_store v2 = refresh_store v" "id_ctr v2 = id_ctr v"
    using exec_frame [OF s [unfolded Session_FindByID_def]] by auto
  have row: "store v2 = store v" "sess \<in> set (sessions (store v))" "se_ID sess = SessionID claims"
    using session_found [OF s [unfolded sess(1)]] by auto
  have v3: "refresh_store v3 = refresh_store v2" "id_ctr v3 = id_ctr v2" "store v3 = store v2"
    using exec_frame [OF u [unfolded User_FindByID_def]] exec_read_Inr [OF u [unfolded User_FindByID_def user(1)]] by auto
  show thesis
    by (rule that [OF claims]) (use r sid v v2 v3 row sess user in auto)
qed

lemma revoked_refresh:
  assumes "keys_ok (store w)" "sid \<in> revoked w"
    and "ParseRefresh (i_crypto P) (i_jwt P) token now = (Inr claims :: (id_error, _) result)" "SessionID claims = sid"
  shows "fst (run_state (Refresh_Execute P token now) w) \<noteq> Inr x"
proof
  assume "fst (run_state (Refresh_Execute P token now) w) = Inr x"
  then obtain w' where "run_state (Refresh_Execute P token now) w = (Inr x, w')" by (metis prod.collapse)
  with assms show False by (rule_tac Refresh_InrD) (auto dest: revoked_inactive)
qed

lemma revoked_rejected: "keys_ok (store w) \<Longrightarrow> sid \<in> revoked w \<Longrightarrow> rejected P sid w"
  using revoked_authenticate revoked_refresh unfolding rejected_def by blast

lemma rejected_forever: "keys_ok (store w) \<Longrightarrow> sid \<in> revoked w \<Longrightarrow> rejected P sid (auth_run P cmds w)"
  using keys_auth.run_keeps [of w P cmds] gone_auth.run_keeps [of w P cmds]
  by (intro revoked_rejected) (auto simp: keeps_keys_def keeps_revoked_def)


section \<open>The beginning\<close>

definition no_accounts :: "id_world \<Rightarrow> bool" where
  "no_accounts w \<longleftrightarrow> users (store w) = [] \<and> sessions (store w) = [] \<and> auth_tokens (store w) = [] \<and>
     recovery_codes (store w) = [] \<and> refresh_store w = Map.empty"

lemma start_keys: "no_accounts w \<Longrightarrow> keys_ok (store (auth_run P cmds w))"
  using keys_auth.run_keeps [of w P cmds] by (simp add: keeps_keys_def no_accounts_def keys_ok_def)

text \<open>Every secret that is alive has been drawn.\<close>

lemma drawn_from:
  assumes "spends source live {} w w'" "live w = {}"
  shows "live w' \<subseteq> source ` {..<id_ctr w'}"
  using assms by (auto simp: spends_def)

definition sound :: "identity_ports \<Rightarrow> id_world \<Rightarrow> bool" where
  "sound P w \<longleftrightarrow> keys_ok (store w) \<and> live_refresh w \<subseteq> i_gen P ` {..<id_ctr w} \<and>
     live_tokens w \<subseteq> token_source P ` {..<id_ctr w} \<and> live_codes w \<subseteq> code_source P ` {..<id_ctr w}"

lemma start_sound:
  assumes "no_accounts w"
  shows "sound P (auth_run P cmds w)"
  unfolding sound_def using assms
  by (intro conjI start_keys drawn_from [OF refresh_auth.run_keeps] drawn_from [OF token_auth.run_keeps]
      drawn_from [OF code_auth.run_keeps]; simp add: no_accounts_def live_refresh_def live_tokens_def live_codes_def)

section \<open>Ending sessions\<close>

lemma update_where_mem: "r \<in> set rows \<Longrightarrow> Q r \<Longrightarrow> f r \<in> set (update_where Q f rows)"
  by (auto simp: update_where_def)

lemma RevokeSession_done:
  assumes "run_state (RevokeSession_Execute sid uid now) w = (Inr u, w')"
  shows "sid \<in> revoked w'"
proof -
  from assms obtain sess v where f: "run_state (Session_FindByID sid) w = (Inr sess, v)"
    and g: "run_state (if se_UserID sess \<noteq> uid then ret (Inl (Err IdSessionNotOwned))
       else if IsRevoked sess then ret (Inr ())
       else thenE (Session_RevokeByID sid now) (Refresh_Delete (se_RefreshJTI sess))) v = (Inr u, w')"
    unfolding RevokeSession_Execute_def by (rule bindE_InrD)
  from session_found [OF f] have row: "sess \<in> set (sessions (store v))" "se_ID sess = sid" by auto
  show ?thesis
  proof (cases "IsRevoked sess")
    case True
    with g row show ?thesis by (auto simp: revoked_def split: if_splits)
  next
    case False
    with g obtain v2 where r: "run_state (Session_RevokeByID sid now) v = (Inr (), v2)"
      and d: "run_state (Refresh_Delete (se_RefreshJTI sess)) v2 = (Inr u, w')"
      by (auto split: if_splits elim!: thenE_InrD)
    have "store v2 = (store v)\<lparr>sessions := update_where (\<lambda>s. se_ID s = sid \<and> se_RevokedAt s = None)
        (\<lambda>s. s\<lparr>se_RevokedAt := Some now\<rparr>) (sessions (store v))\<rparr>"
      using exec_InrD [OF r [unfolded Session_RevokeByID_def]] by simp
    moreover have "store w' = store v2" using d unfolding Refresh_Delete_def by (auto dest!: redis_InrD)
    ultimately have "sess\<lparr>se_RevokedAt := Some now\<rparr> \<in> set (sessions (store w'))"
      using row False update_where_mem [of sess "sessions (store v)"] by (simp add: IsRevoked_def)
    with row show ?thesis unfolding revoked_def
      by (intro image_eqI [of _ _ "sess\<lparr>se_RevokedAt := Some now\<rparr>"]) (auto simp: IsRevoked_def)
  qed
qed

lemma ConsumeToken_InrD:
  assumes "run_state (ConsumeToken P raw purpose now) w = (Inr t, w')"
  shows "t \<in> set (auth_tokens (store w)) \<and> tk_Purpose t = purpose \<and> tk_TokenHash t = HashToken (i_crypto P) raw \<and>
    IsUsable t now \<and> id_ctr w' = id_ctr w \<and> refresh_store w' = refresh_store w \<and>
    store w' = (store w)\<lparr>auth_tokens := update_where (\<lambda>r. tk_ID r = tk_ID t \<and> tk_ConsumedAt r = None)
      (\<lambda>r. r\<lparr>tk_ConsumedAt := Some now\<rparr>) (auth_tokens (store w))\<rparr>"
proof -
  have "i_hasTokens P" "TrimSpace raw \<noteq> []" using assms by (auto simp: ConsumeToken_def unauthorized_def split: if_splits)
  with assms obtain t' v where f: "run_state (AuthToken_FindByHash purpose (HashToken (i_crypto P) raw)) w = (Inr t', v)"
    and g: "run_state (if \<not> IsUsable t' now then unauthorized
        else thenE (AuthToken_Consume (tk_ID t') now) (ret (Inr t'))) v = (Inr t, w')"
    unfolding ConsumeToken_def by (auto elim!: bindE_InrD)
  have t': "t' \<in> set (auth_tokens (store w))" "tk_Purpose t' = purpose" "tk_TokenHash t' = HashToken (i_crypto P) raw"
      and v: "store v = store w"
    using exec_read_Inr [OF f [unfolded AuthToken_FindByHash_def]] by (auto simp: found_Inr dest: find_SomeD)
  from g have us: "IsUsable t' now" by (auto simp: unauthorized_def split: if_splits)
  with g have t: "t = t'" and c: "run_state (AuthToken_Consume (tk_ID t') now) v = (Inr (), w')"
    by (auto elim!: thenE_InrD)
  show ?thesis
    using t' us v t exec_InrD [OF c [unfolded AuthToken_Consume_def]] exec_frame [OF c [unfolded AuthToken_Consume_def]]
      exec_frame [OF f [unfolded AuthToken_FindByHash_def]]
    by simp
qed


section \<open>Using a secret\<close>

lemma unique_row: "distinct (map key rows) \<Longrightarrow> r \<in> set rows \<Longrightarrow> r' \<in> set rows \<Longrightarrow> key r = key r' \<Longrightarrow> r = r'"
  by (auto simp: distinct_map inj_on_def)

lemma consumed_token_dead:
  assumes "keys_ok (store w)" "run_state (ConsumeToken P raw purpose now) w = (Inr t, w')"
  shows "HashToken (i_crypto P) raw \<notin> live_tokens w'" "HashToken (i_crypto P) raw \<in> live_tokens w"
proof -
  from ConsumeToken_InrD [OF assms(2)] have t: "t \<in> set (auth_tokens (store w))" "tk_TokenHash t = HashToken (i_crypto P) raw"
      "tk_ConsumedAt t = None"
    and w': "auth_tokens (store w') = update_where (\<lambda>r. tk_ID r = tk_ID t \<and> tk_ConsumedAt r = None)
      (\<lambda>r. r\<lparr>tk_ConsumedAt := Some now\<rparr>) (auth_tokens (store w))"
    by (auto simp: IsUsable_def)
  then show "HashToken (i_crypto P) raw \<in> live_tokens w" unfolding live_tokens_iff by blast
  have "r = t" if "r \<in> set (auth_tokens (store w))" "tk_TokenHash r = HashToken (i_crypto P) raw" for r
    using unique_row [of tk_TokenHash "auth_tokens (store w)" r t] assms(1) that t by (auto simp: keys_ok_def)
  then show "HashToken (i_crypto P) raw \<notin> live_tokens w'"
    unfolding live_tokens_iff w' update_where_def by (auto split: if_splits)
qed

lemma ConsumeToken_dead:
  assumes "HashToken (i_crypto P) raw \<notin> live_tokens w"
  shows "fst (run_state (ConsumeToken P raw purpose now) w) \<noteq> Inr t"
proof
  assume "fst (run_state (ConsumeToken P raw purpose now) w) = Inr t"
  then obtain w' where "run_state (ConsumeToken P raw purpose now) w = (Inr t, w')" by (metis prod.collapse)
  from ConsumeToken_InrD [OF this] assms show False unfolding live_tokens_iff IsUsable_def by blast
qed

text \<open>A successful login with a second factor.\<close>

lemma MFALogin_InrD:
  assumes "run_state (MFALogin_Execute P cmd) w = (Inr ctx, w')"
  obtains t user w1 v w2 where
    "run_state (ConsumeToken P (ml_ChallengeToken cmd) ''mfa_challenge'' (ml_Now cmd)) w = (Inr t, w1)"
    "run_state (User_FindByID (tk_UserID t)) w1 = (Inr user, v)"
    "run_state (mfa_session P cmd user) w2 = (Inr ctx, w')"
    "ml_RecoveryCode cmd \<noteq> [] \<Longrightarrow> \<exists>c codes v'. run_state (TOTP_ListRecoveryCodes (us_ID user)) v = (Inr codes, v') \<and>
       find (\<lambda>c. rv_ConsumedAt c = None \<and> rv_CodeHash c = HashToken (i_crypto P) (ml_RecoveryCode cmd)) codes = Some c \<and>
       run_state (TOTP_ConsumeRecoveryCode (rv_ID c) (ml_Now cmd)) v' = (Inr (), w2)"
    "ml_RecoveryCode cmd = [] \<Longrightarrow> \<exists>secret. run_state (TOTP_FindSecretByUser (us_ID user)) v = (Inr secret, w2) \<and>
       VerifyTOTPCode (i_crypto P) (ts_Secret secret) (ml_Code cmd) (ml_Now cmd)"
proof -
  obtain r w1 where c: "run_state (ConsumeToken P (ml_ChallengeToken cmd) ''mfa_challenge'' (ml_Now cmd)) w = (r, w1)" by fastforce
  with assms obtain t where t: "r = Inr t" by (cases r) (auto simp: MFALogin_Execute_def mfa_invalid_def split: if_splits)
  from assms c t obtain user v where u: "run_state (User_FindByID (tk_UserID t)) w1 = (Inr user, v)"
    and g: "run_state (if ml_RecoveryCode cmd \<noteq> [] then
              bindE (TOTP_ListRecoveryCodes (us_ID user)) (\<lambda>codes.
                case find (\<lambda>c. rv_ConsumedAt c = None \<and>
                    rv_CodeHash c = HashToken (i_crypto P) (ml_RecoveryCode cmd)) codes of
                  None \<Rightarrow> mfa_invalid
                | Some c \<Rightarrow> thenE (TOTP_ConsumeRecoveryCode (rv_ID c) (ml_Now cmd)) (mfa_session P cmd user))
            else do {
              s \<leftarrow> TOTP_FindSecretByUser (us_ID user);
              (case s of
                 Inl _ \<Rightarrow> mfa_invalid
               | Inr secret \<Rightarrow>
                   if \<not> VerifyTOTPCode (i_crypto P) (ts_Secret secret) (ml_Code cmd) (ml_Now cmd) then mfa_invalid
                   else mfa_session P cmd user)
            }) v = (Inr ctx, w')"
    by (auto simp: MFALogin_Execute_def elim!: bindE_InrD)
  show thesis
  proof (cases "ml_RecoveryCode cmd = []")
    case True
    obtain s w2 where s: "run_state (TOTP_FindSecretByUser (us_ID user)) v = (s, w2)" by fastforce
    from g True s obtain secret where "s = Inr secret"
        "VerifyTOTPCode (i_crypto P) (ts_Secret secret) (ml_Code cmd) (ml_Now cmd)" "run_state (mfa_session P cmd user) w2 = (Inr ctx, w')"
      by (cases s) (auto simp: mfa_invalid_def split: if_splits)
    with c t u s True show ?thesis by (intro that) auto
  next
    case False
    with g obtain codes v' where l: "run_state (TOTP_ListRecoveryCodes (us_ID user)) v = (Inr codes, v')"
      and h: "run_state (case find (\<lambda>c. rv_ConsumedAt c = None \<and>
                    rv_CodeHash c = HashToken (i_crypto P) (ml_RecoveryCode cmd)) codes of
                  None \<Rightarrow> mfa_invalid
                | Some c \<Rightarrow> thenE (TOTP_ConsumeRecoveryCode (rv_ID c) (ml_Now cmd)) (mfa_session P cmd user)) v' = (Inr ctx, w')"
      by (auto elim!: bindE_InrD)
    from h obtain code where code: "find (\<lambda>c. rv_ConsumedAt c = None \<and>
          rv_CodeHash c = HashToken (i_crypto P) (ml_RecoveryCode cmd)) codes = Some code"
      by (auto simp: mfa_invalid_def split: option.splits)
    with h obtain w2 where "run_state (TOTP_ConsumeRecoveryCode (rv_ID code) (ml_Now cmd)) v' = (Inr (), w2)"
        "run_state (mfa_session P cmd user) w2 = (Inr ctx, w')"
      by (auto elim!: thenE_InrD)
    with c t u l code False show ?thesis by (intro that) auto
  qed
qed

end
