(* ===== verification/Access_Properties.thy ===== *)
theory Access_Properties
  imports Access Identity_Safety
begin

text \<open>
  The properties of API keys: who is authenticated, that a secret is accepted from its creation until it expires, that a revoked key is
  never accepted again whatever commands follow, and that an update that read the key before undoes a revocation.
\<close>

section \<open>What a command does to the keys\<close>

definition key_change :: "access_db \<Rightarrow> access_db \<Rightarrow> bool" where
  "key_change d d' \<longleftrightarrow> (\<exists>row. \<not> has ar_ID (ar_ID row) (api_keys d) \<and> api_keys d' = api_keys d @ [row]) \<or>
     (\<exists>hit f. api_keys d' = update_where hit f (api_keys d) \<and>
        (\<forall>r\<in>set (api_keys d). hit r \<longrightarrow> ar_Status r \<noteq> ''revoked'' \<and> ar_ID (f r) = ar_ID r))"

lemma rowToDomain_eq:
  assumes "rowToDomain row = Inr key"
  shows "ak_ID key = ar_ID row" "ak_WorkspaceID key = ar_WorkspaceID row" "ak_Status key = ar_Status row" "ak_SecretHash key = ar_SecretHash row"
    "ak_KeyPrefix key = ar_KeyPrefix row" "ak_ExpiresAt key = ar_ExpiresAt row" "ak_RevokedAt key = ar_RevokedAt row" "ak_Scopes key = ar_Scopes row"
  using assms by (auto simp: rowToDomain_def split: option.splits)

definition found_key :: "(apiKeyRow \<Rightarrow> bool) \<Rightarrow> access_db \<Rightarrow> (ak_error, APIKey) result \<Rightarrow> bool" where
  "found_key cond d r \<longleftrightarrow> (\<forall>key. r = Inr key \<longrightarrow> (\<exists>row. find cond (api_keys d) = Some row \<and> rowToDomain row = Inr key))"

lemma found_keyE:
  assumes "found_key cond d (Inr key)"
  obtains row where "find cond (api_keys d) = Some row" "rowToDomain row = Inr key" "row \<in> set (api_keys d)" "cond row"
  using assms by (auto simp: found_key_def dest: find_SomeD)

lemma reads_found: "reads d (found_key cond d) (findOne cond)"
  unfolding findOne_def by (rule reads_mono [OF reads_query]) (auto simp: found_key_def split: option.splits)

lemma reads_Generate: "reads d (\<lambda>_. True) (Generate P)"
  unfolding Generate_def Let_def by (rule reads_bindE [OF reads_idGen]) (auto intro: reads_ret)

lemma reads_Hash: "reads d (\<lambda>_. True) (SecretHasher_Hash P s)"
proof -
  have get: "reads d (\<lambda>_. True) State_Monad.get" by (simp add: reads_def State_Monad.get_def)
  show ?thesis unfolding SecretHasher_Hash_def
    by (rule reads_bind [OF get], rule reads_bindE [OF reads_idGen]) (auto intro: reads_ret)
qed

lemma creates: "writes d (key_change d) (CreateKey_Execute P cmd now)"
proof -
  have "writes d (key_change d) (thenE (Key_Create key) (ret (Inr x)))" for key x
    unfolding Key_Create_def
    by (intro writes_before_then writes_exec reads_ret)
      (auto simp: key_change_def row_of_def split: if_splits)
  then show ?thesis unfolding CreateKey_Execute_def
    by (auto intro!: writes_split writes_thenE [OF reads_remote] writes_bindE [OF reads_idGen] writes_bindE [OF reads_Generate]
        writes_bindE [OF reads_Hash] simp: Let_def)
qed

lemma updates_row:
  assumes keys: "distinct (map ar_ID (api_keys d))" and row: "row \<in> set (api_keys d)" "ar_ID row = ak_ID key" "ar_Status row \<noteq> ''revoked''"
  shows "writes d (key_change d) (thenE (Key_Update key) (ret r))"
proof -
  have "ar_Status x \<noteq> ''revoked''" if "x \<in> set (api_keys d)" "ar_ID x = ak_ID key" for x
    using unique_row [OF keys that(1) row(1)] that row by simp
  then have "key_change d (d\<lparr>api_keys := update_where (\<lambda>r. ar_WorkspaceID r = ak_WorkspaceID key \<and> ar_ID r = ak_ID key) (written key) (api_keys d)\<rparr>)"
    unfolding key_change_def by (intro disjI2 exI conjI) (auto simp: written_def)
  then show ?thesis unfolding Key_Update_def Let_def by (intro writes_before_then writes_exec reads_ret) (simp_all split: if_splits)
qed

lemma updates:
  assumes keys: "distinct (map ar_ID (api_keys d))"
  shows "writes d (key_change d) (UpdateKey_Execute P cmd now)"
proof -
  have "writes d (key_change d) (update_found P cmd now key)"
    if "found_key cond d (Inr key)" for cond key
  proof -
    from that obtain row where row: "row \<in> set (api_keys d)" "ar_ID row = ak_ID key" "ar_Status row = ak_Status key"
      by (rule found_keyE) (simp add: rowToDomain_eq)
    have made: "reads d (\<lambda>r. \<forall>k s. r = Inr (k, s) \<longrightarrow> ak_ID k = ak_ID key)
      (if ui_Rotate cmd then bindE (Generate P) (\<lambda>(plaintext, keyPrefix). bindE (SecretHasher_Hash P plaintext) (\<lambda>secretHash.
          ret (Inr ((patched_key cmd key)\<lparr>ak_KeyPrefix := keyPrefix, ak_SecretHash := secretHash\<rparr>, plaintext))))
       else ret (Inr (patched_key cmd key, [])))"
      by (auto intro!: reads_if reads_bindE [OF reads_Generate] reads_bindE [OF reads_Hash] reads_ret simp: patched_key_def)
    show ?thesis unfolding update_found_def
    proof (intro writes_if writes_case_sum writes_fail writes_bindE [OF made])
      fix x :: "APIKey \<times> string" assume "\<not> ak_Status key \<noteq> ''active''" "\<forall>k s. Inr x = Inr (k, s) \<longrightarrow> ak_ID k = ak_ID key"
      moreover obtain k newSecret where x: "x = (k, newSecret)" by fastforce
      ultimately have "writes d (key_change d) (thenE (Key_Update (k\<lparr>ak_UpdatedAt := now\<rparr>)) (ret (Inr (k\<lparr>ak_UpdatedAt := now\<rparr>, newSecret))))"
        using row by (intro updates_row [OF keys row(1)]) simp_all
      then show "writes d (key_change d) (case x of (k, newSecret) \<Rightarrow>
          thenE (Key_Update (k\<lparr>ak_UpdatedAt := now\<rparr>)) (ret (Inr (k\<lparr>ak_UpdatedAt := now\<rparr>, newSecret))))" by (simp add: x)
    qed
  qed
  then show ?thesis unfolding UpdateKey_Execute_def Key_FindByID_def
    by (intro writes_thenE [OF reads_remote] writes_bindE [OF reads_found])
qed

lemma revokes:
  assumes keys: "distinct (map ar_ID (api_keys d))"
  shows "writes d (\<lambda>d'. d' = d \<or> key_change d d') (RevokeKey_Execute P ws user i now)"
proof -
  have "writes d (\<lambda>d'. d' = d \<or> key_change d d') (if ak_Status key = ''revoked'' then ret (Inr key) else
      let k = key\<lparr>ak_Status := ''revoked'', ak_RevokedAt := Some now, ak_UpdatedAt := now\<rparr> in thenE (Key_Update k) (ret (Inr k)))"
    if "found_key cond d (Inr key)" for cond key
  proof -
    from that obtain row where row: "row \<in> set (api_keys d)" "ar_ID row = ak_ID key" "ar_Status row = ak_Status key"
      by (rule found_keyE) (simp add: rowToDomain_eq)
    have "writes d (\<lambda>d'. d' = d \<or> key_change d d') (ret (Inr key))" by (simp add: writes_def)
    with row show ?thesis unfolding Let_def by (intro writes_if writes_mono [OF updates_row [OF keys row(1)]]) simp_all
  qed
  then show ?thesis unfolding RevokeKey_Execute_def Key_FindByID_def
    by (intro writes_thenE [OF reads_remote] writes_bindE [OF reads_found])
qed

section \<open>Runs\<close>

datatype ak_command =
    CreateKey CreateInput
  | UpdateKey UpdateInput
  | RevokeKey string string string
  | AuthenticateKey string

definition run_ak :: "access_ports \<Rightarrow> ak_command \<Rightarrow> gotime \<Rightarrow> (access_db world, unit) state" where
  "run_ak P c now = (case c of
       CreateKey cmd \<Rightarrow> do { _ \<leftarrow> CreateKey_Execute P cmd now; ret () }
     | UpdateKey cmd \<Rightarrow> do { _ \<leftarrow> UpdateKey_Execute P cmd now; ret () }
     | RevokeKey ws user i \<Rightarrow> do { _ \<leftarrow> RevokeKey_Execute P ws user i now; ret () }
     | AuthenticateKey token \<Rightarrow> do { _ \<leftarrow> AuthenticateKey_Execute P token now; ret () })"

fun ak_run :: "access_ports \<Rightarrow> (ak_command \<times> gotime) list \<Rightarrow> access_db world \<Rightarrow> access_db world" where
  "ak_run P [] w = w"
| "ak_run P ((c, now) # cs) w = ak_run P cs (snd (run_state (run_ak P c now) w))"

text \<open>An authentication may touch the key it is for.\<close>

lemma authenticates: 
  assumes "run_state (AuthenticateKey_Execute P token now) w = (r, w')"
  shows "store w' = store w \<or> key_change (store w) (store w')"
    and "r = Inr res \<Longrightarrow> \<exists>row\<in>set (api_keys (store w)). ar_KeyPrefix row = DerivePrefix token \<and> Verify P (ar_SecretHash row) token \<and>
      ar_Status row = ''active'' \<and> ar_RevokedAt row = None \<and> (\<forall>t. ar_ExpiresAt row = Some t \<longrightarrow> now \<le> t) \<and>
      res = \<lparr>au_WorkspaceID = ar_WorkspaceID row, au_APIKeyID = ar_ID row, au_Scopes = ar_Scopes row, au_KeyPrefix = ar_KeyPrefix row\<rparr>"
proof -
  have none: "r = Inl (Err AkInvalid) \<Longrightarrow> r \<noteq> Inr res" by simp
  obtain x v where find: "run_state (FindByPrefix (DerivePrefix token)) w = (x, v)" by fastforce
  from readsD [OF reads_found this [unfolded FindByPrefix_def] refl] have v: "store v = store w"
    and x: "found_key (\<lambda>r. ar_KeyPrefix r = DerivePrefix token) (store w) x" by auto
  consider (no) "r = Inl (Err AkInvalid)" "store w' = store w"
    | (yes) key y where "x = Inr key" "Verify P (ak_SecretHash key) token" "Key_IsActive key now"
      "r = Inr \<lparr>au_WorkspaceID = ak_WorkspaceID key, au_APIKeyID = ak_ID key, au_Scopes = ak_Scopes key, au_KeyPrefix = ak_KeyPrefix key\<rparr>"
      "run_state (TouchLastUsed (ak_WorkspaceID key) (ak_ID key) now) v = (y, w')"
    using assms find v by (cases x) (auto simp: AuthenticateKey_Execute_def split: if_splits prod.splits)
  then have "(store w' = store w \<or> key_change (store w) (store w')) \<and>
    (r = Inr res \<longrightarrow> (\<exists>row\<in>set (api_keys (store w)). ar_KeyPrefix row = DerivePrefix token \<and> Verify P (ar_SecretHash row) token \<and>
      ar_Status row = ''active'' \<and> ar_RevokedAt row = None \<and> (\<forall>t. ar_ExpiresAt row = Some t \<longrightarrow> now \<le> t) \<and>
      res = \<lparr>au_WorkspaceID = ar_WorkspaceID row, au_APIKeyID = ar_ID row, au_Scopes = ar_Scopes row, au_KeyPrefix = ar_KeyPrefix row\<rparr>))"
  proof cases
    case no
    then show ?thesis by simp
  next
    case yes
    have "key_change (store w) (d\<lparr>api_keys := update_where (\<lambda>r. ar_WorkspaceID r = ak_WorkspaceID key \<and> ar_ID r = ak_ID key \<and> ar_Status r = ''active'')
       (\<lambda>r. r\<lparr>ar_LastUsedAt := Some now, ar_UpdatedAt := now\<rparr>) (api_keys (store w))\<rparr>)" for d
      unfolding key_change_def by (intro disjI2 exI conjI) auto
    then have "store w' = store w \<or> key_change (store w) (store w')" using yes(5) v
      by (auto simp: TouchLastUsed_def exec_def next_outcome_def split: list.splits if_splits)
    moreover from x yes(1) obtain row where "rowToDomain row = Inr key" "row \<in> set (api_keys (store w))" "ar_KeyPrefix row = DerivePrefix token"
      by (auto elim: found_keyE)
    ultimately show ?thesis using yes(2-4) by (auto simp: rowToDomain_eq Key_IsActive_def split: option.splits intro!: bexI [of _ row])
  qed
  then show "store w' = store w \<or> key_change (store w) (store w')"
    and "r = Inr res \<Longrightarrow> \<exists>row\<in>set (api_keys (store w)). ar_KeyPrefix row = DerivePrefix token \<and> Verify P (ar_SecretHash row) token \<and>
      ar_Status row = ''active'' \<and> ar_RevokedAt row = None \<and> (\<forall>t. ar_ExpiresAt row = Some t \<longrightarrow> now \<le> t) \<and>
      res = \<lparr>au_WorkspaceID = ar_WorkspaceID row, au_APIKeyID = ar_ID row, au_Scopes = ar_Scopes row, au_KeyPrefix = ar_KeyPrefix row\<rparr>" by auto
qed

definition dead_key :: "string \<Rightarrow> access_db \<Rightarrow> bool" where
  "dead_key i d \<longleftrightarrow> distinct (map ar_ID (api_keys d)) \<and> (\<exists>r\<in>set (api_keys d). ar_ID r = i \<and> ar_Status r = ''revoked'')"

lemma dead_key_change: "dead_key i d \<Longrightarrow> key_change d d' \<Longrightarrow> dead_key i d'"
proof -
  assume dead: "dead_key i d" and change: "key_change d d'"
  from dead obtain r where r: "r \<in> set (api_keys d)" "ar_ID r = i" "ar_Status r = ''revoked''" by (auto simp: dead_key_def)
  from change show ?thesis unfolding key_change_def
  proof (elim disjE exE conjE)
    fix row assume "\<not> has ar_ID (ar_ID row) (api_keys d)" "api_keys d' = api_keys d @ [row]"
    with dead show ?thesis by (auto simp: dead_key_def list_ex_iff)
  next
    fix hit f assume d': "api_keys d' = update_where hit f (api_keys d)"
      and ok: "\<forall>r\<in>set (api_keys d). hit r \<longrightarrow> ar_Status r \<noteq> ''revoked'' \<and> ar_ID (f r) = ar_ID r"
    have "map ar_ID (api_keys d') = map ar_ID (api_keys d)" using ok by (simp add: d' update_where_def)
    moreover have "r \<in> set (api_keys d')" using r ok by (force simp: d' update_where_def)
    ultimately show ?thesis using dead r by (auto simp: dead_key_def)
  qed
qed

definition key_step :: "access_ports \<Rightarrow> access_db \<Rightarrow> access_db \<Rightarrow> bool" where
  "key_step P d d' \<longleftrightarrow> (\<exists>c now w. store w = d \<and> d' = store (snd (run_state (run_ak P c now) w)))"

interpretation dead: invariant_system "dead_key i" "key_step P" "dead_key i" for i P
proof
  fix d d' assume dead: "dead_key i d" and "key_step P d d'"
  then obtain c now w where w: "store w = d" and d': "d' = store (snd (run_state (run_ak P c now) w))" by (auto simp: key_step_def)
  obtain r w' where run: "run_state (run_ak P c now) w = (r, w')" by (cases "run_state (run_ak P c now) w")
  have keys: "distinct (map ar_ID (api_keys d))" using dead by (simp add: dead_key_def)
  have "store w' = d \<or> key_change d (store w')"
  proof (cases c)
    case (CreateKey cmd)
    with run obtain x where "run_state (CreateKey_Execute P cmd now) w = (x, w')" by (auto simp: run_ak_def split: prod.splits)
    from writesD [OF creates this w] show ?thesis by auto
  next
    case (UpdateKey cmd)
    with run obtain x where "run_state (UpdateKey_Execute P cmd now) w = (x, w')" by (auto simp: run_ak_def split: prod.splits)
    from writesD [OF updates [OF keys] this w] show ?thesis by auto
  next
    case (RevokeKey ws user k)
    with run obtain x where "run_state (RevokeKey_Execute P ws user k now) w = (x, w')" by (auto simp: run_ak_def split: prod.splits)
    from writesD [OF revokes [OF keys] this w] show ?thesis by auto
  next
    case (AuthenticateKey token)
    with run obtain x where "run_state (AuthenticateKey_Execute P token now) w = (x, w')" by (auto simp: run_ak_def split: prod.splits)
    from authenticates(1) [OF this] w show ?thesis by simp
  qed
  with dead run d' show "dead_key i d'" by (auto intro: dead_key_change)
qed

lemma ak_run_steps: "(key_step P)\<^sup>*\<^sup>* (store w) (store (ak_run P cs w))"
proof (induction cs arbitrary: w)
  case (Cons x cs)
  obtain c now where x: "x = (c, now)" by fastforce
  have "key_step P (store w) (store (snd (run_state (run_ak P c now) w)))" unfolding key_step_def by blast
  then show ?case unfolding x ak_run.simps by (rule converse_rtranclp_into_rtranclp [OF _ Cons.IH])
qed simp

lemma Key_Update_done:
  assumes "run_state (Key_Update key) w = (Inr u, w')"
  shows "store w' = (store w)\<lparr>api_keys := update_where (\<lambda>r. ar_WorkspaceID r = ak_WorkspaceID key \<and> ar_ID r = ak_ID key) (written key) (api_keys (store w))\<rparr>"
  using assms unfolding Key_Update_def Let_def by (auto dest!: exec_InrD split: if_splits)

definition revoked_row :: "string \<Rightarrow> string \<Rightarrow> apiKeyRow \<Rightarrow> bool" where
  "revoked_row ws i r \<longleftrightarrow> ar_WorkspaceID r = ws \<and> ar_ID r = i \<and> ar_Status r = ''revoked''"

lemma revoked_now:
  assumes keys: "distinct (map ar_ID (api_keys (store w)))" and run: "run_state (RevokeKey_Execute P ws user i now) w = (Inr k, w')"
  shows "dead_key i (store w') \<and> (\<exists>r\<in>set (api_keys (store w')). revoked_row ws i r)"
proof -
  from run obtain u w1 key w2 where "run_state (remote (a_perm P ws user ''api_key.manage'')) w = (Inr u, w1)"
    and find: "run_state (findOne (\<lambda>r. ar_WorkspaceID r = ws \<and> ar_ID r = i)) w1 = (Inr key, w2)"
    and rest: "run_state (if ak_Status key = ''revoked'' then ret (Inr key)
      else let k = key\<lparr>ak_Status := ''revoked'', ak_RevokedAt := Some now, ak_UpdatedAt := now\<rparr> in thenE (Key_Update k) (ret (Inr k))) w2 = (Inr k, w')"
    unfolding RevokeKey_Execute_def Key_FindByID_def by (auto elim!: thenE_InrD bindE_InrD)
  then have w1: "store w1 = store w" using readsD [OF reads_remote _ refl] by blast
  from readsD [OF reads_found find w1] have w2: "store w2 = store w" and found: "found_key (\<lambda>r. ar_WorkspaceID r = ws \<and> ar_ID r = i) (store w) (Inr key)"
    by simp_all
  from found obtain row where row: "row \<in> set (api_keys (store w))" "ar_WorkspaceID row = ws" "ar_ID row = i" and eq: "rowToDomain row = Inr key"
    by (auto elim: found_keyE)
  show ?thesis
  proof (cases "ak_Status key = ''revoked''")
    case True
    with rest w2 row keys show ?thesis by (auto simp: dead_key_def revoked_row_def rowToDomain_eq [OF eq])
  next
    case False
    let ?k = "key\<lparr>ak_Status := ''revoked'', ak_RevokedAt := Some now, ak_UpdatedAt := now\<rparr>"
    from rest False have "run_state (thenE (Key_Update ?k) (ret (Inr ?k))) w2 = (Inr k, w')" by (simp add: Let_def)
    then obtain u w3 where "run_state (Key_Update ?k) w2 = (Inr u, w3)" "w3 = w'" by (auto elim!: thenE_InrD)
    then have "api_keys (store w') = update_where (\<lambda>r. ar_WorkspaceID r = ws \<and> ar_ID r = i) (written ?k) (api_keys (store w))"
      using w2 row by (simp add: Key_Update_done rowToDomain_eq [OF eq])
    moreover from this row have "written ?k row \<in> set (api_keys (store w'))" by (simp add: update_where_mem)
    ultimately show ?thesis using keys row
      by (auto simp: dead_key_def revoked_row_def map_update_where written_def intro!: bexI [of _ "written ?k row"])
  qed
qed

lemma Key_Create_done:
  assumes "run_state (Key_Create key) w = (Inr u, w')"
  shows "store w' = (store w)\<lparr>api_keys := api_keys (store w) @ [row_of key]\<rparr>" "\<not> has ar_KeyPrefix (ak_KeyPrefix key) (api_keys (store w))"
  using assms unfolding Key_Create_def by (auto dest!: exec_InrD split: if_splits)

lemma created:
  assumes "run_state (CreateKey_Execute P cmd now) w = (Inr (key, secret), w1)"
  shows "\<exists>salt. c_bcrypt (a_crypto P) salt secret = Some (ak_SecretHash key) \<and> secret \<noteq> [] \<and> ak_KeyPrefix key = DerivePrefix secret \<and>
    \<not> has ar_KeyPrefix (ak_KeyPrefix key) (api_keys (store w)) \<and> api_keys (store w1) = api_keys (store w) @ [row_of key] \<and>
    ak_WorkspaceID key = ci_WorkspaceID cmd \<and> ak_Scopes key = ci_Scopes cmd \<and> ak_Status key = ''active'' \<and> ak_RevokedAt key = None \<and>
    ak_ExpiresAt key = ci_ExpiresAt cmd"
proof -
  from assms obtain v1 i v2 v3 v4 where
    r1: "run_state (remote (a_perm P (ci_WorkspaceID cmd) (ci_ActorUserID cmd) ''api_key.manage'')) w = (Inr (), v1)"
    and r2: "run_state (idGen (a_gen P)) v1 = (Inr i :: (ak_error, string) result, v2)" and r3: "run_state (Generate P) v2 = (Inr (secret, ak_KeyPrefix key), v3)"
    and r4: "run_state (SecretHasher_Hash P secret) v3 = (Inr (ak_SecretHash key), v4)" and r5: "run_state (Key_Create key) v4 = (Inr (), w1)"
    and key: "ak_WorkspaceID key = ci_WorkspaceID cmd \<and> ak_Scopes key = ci_Scopes cmd \<and> ak_Status key = ''active'' \<and> ak_RevokedAt key = None \<and>
      ak_ExpiresAt key = ci_ExpiresAt cmd"
    unfolding CreateKey_Execute_def Let_def
    by (auto elim!: thenE_InrD bindE_InrD split: if_splits sum.splits prod.splits)
  have st: "store v4 = store w"
    using readsD [OF reads_remote r1 refl] readsD [OF reads_idGen r2 refl] readsD [OF reads_Generate r3 refl] readsD [OF reads_Hash r4 refl] by simp
  from r3 have gen: "secret \<noteq> []" "ak_KeyPrefix key = DerivePrefix secret"
    by (auto simp: Generate_def Let_def SecretStablePrefix_def elim!: bindE_InrD)
  from r4 have "c_bcrypt (a_crypto P) (id_ctr v3) secret = Some (ak_SecretHash key)"
    by (auto simp: SecretHasher_Hash_def elim!: bindE_InrD split: if_splits option.splits)
  moreover have "\<not> has ar_KeyPrefix (ak_KeyPrefix key) (api_keys (store w)) \<and> api_keys (store w1) = api_keys (store w) @ [row_of key]"
    using st Key_Create_done [OF r5] by simp
  ultimately show ?thesis using gen key by blast
qed

lemma update_found_done:
  assumes "run_state (update_found P cmd now key) w = (Inr r, w')"
  shows "\<exists>k. ak_Status k = ''active'' \<and> ak_RevokedAt k = ak_RevokedAt key \<and>
    api_keys (store w') = update_where (\<lambda>x. ar_WorkspaceID x = ak_WorkspaceID key \<and> ar_ID x = ak_ID key) (written k) (api_keys (store w))"
proof -
  let ?make = "if ui_Rotate cmd then bindE (Generate P) (\<lambda>(plaintext, keyPrefix). bindE (SecretHasher_Hash P plaintext) (\<lambda>secretHash.
      ret (Inr ((patched_key cmd key)\<lparr>ak_KeyPrefix := keyPrefix, ak_SecretHash := secretHash\<rparr>, plaintext))))
    else ret (Inr (patched_key cmd key, []))"
  from assms have act: "ak_Status key = ''active''" by (auto simp: update_found_def split: if_splits)
  with assms obtain k s v u v' where make: "run_state ?make w = (Inr (k, s), v)" and up: "run_state (Key_Update (k\<lparr>ak_UpdatedAt := now\<rparr>)) v = (Inr u, w')"
    unfolding update_found_def by (auto split: sum.splits elim!: bindE_InrD thenE_InrD)
  have "reads (store w) (\<lambda>r. \<forall>k s. r = Inr (k, s) \<longrightarrow> ak_ID k = ak_ID key \<and> ak_WorkspaceID k = ak_WorkspaceID key \<and>
      ak_Status k = ak_Status key \<and> ak_RevokedAt k = ak_RevokedAt key) ?make"
    by (auto intro!: reads_if reads_bindE [OF reads_Generate] reads_bindE [OF reads_Hash] reads_ret simp: patched_key_def)
  from readsD [OF this make refl] act Key_Update_done [OF up] show ?thesis by (intro exI [of _ "k\<lparr>ak_UpdatedAt := now\<rparr>"]) simp
qed

section \<open>Properties\<close>

text \<open>
  Claim C29. Once a key has been revoked no token is accepted for it, whatever commands run one after the other and whatever fails: it cannot be
  updated or rotated back.
\<close>

theorem api_key_revoked_final:
  assumes "distinct (map ar_ID (api_keys (store w)))" "run_state (RevokeKey_Execute P ws user i now) w = (Inr k, w1)"
    "run_state (AuthenticateKey_Execute P token later) (ak_run P cs w1) = (Inr res, w2)"
  shows "au_APIKeyID res \<noteq> i"
proof
  assume i: "au_APIKeyID res = i"
  from dead.run_inv [OF ak_run_steps conjunct1 [OF revoked_now [OF assms(1,2)]]] have dead: "dead_key i (store (ak_run P cs w1))" .
  then obtain r where r: "r \<in> set (api_keys (store (ak_run P cs w1)))" "ar_ID r = i" "ar_Status r = ''revoked''" by (auto simp: dead_key_def)
  from authenticates(2) [OF assms(3) refl] i obtain row where row: "row \<in> set (api_keys (store (ak_run P cs w1)))" "ar_ID row = i" "ar_Status row = ''active''"
    by auto
  have "distinct (map ar_ID (api_keys (store (ak_run P cs w1))))" using dead by (simp add: dead_key_def)
  from unique_row [OF this r(1) row(1)] r row show False by simp
qed

text \<open>
  The secret returned with a new key is accepted for it, with its workspace and scopes, until the key expires.
\<close>

lemma api_key_roundtrip:
  assumes hash: "\<And>salt p h. c_bcrypt (a_crypto P) salt p = Some h \<Longrightarrow> c_matches (a_crypto P) h p"
    and run: "run_state (CreateKey_Execute P cmd now) w = (Inr (key, secret), w1)"
    and now: "outcomes w1 = []" "\<not> aborted w1" and later: "\<And>t. ci_ExpiresAt cmd = Some t \<Longrightarrow> later \<le> t"
  shows "\<exists>w2. run_state (AuthenticateKey_Execute P secret later) w1 = (Inr \<lparr>au_WorkspaceID = ci_WorkspaceID cmd, au_APIKeyID = ak_ID key,
    au_Scopes = ci_Scopes cmd, au_KeyPrefix = DerivePrefix secret\<rparr>, w2)"
proof -
  from created [OF run] obtain salt where c: "c_bcrypt (a_crypto P) salt secret = Some (ak_SecretHash key)" "secret \<noteq> []" "ak_KeyPrefix key = DerivePrefix secret"
      "\<not> has ar_KeyPrefix (ak_KeyPrefix key) (api_keys (store w))" "api_keys (store w1) = api_keys (store w) @ [row_of key]"
    and k: "ak_WorkspaceID key = ci_WorkspaceID cmd" "ak_Scopes key = ci_Scopes cmd" "ak_Status key = ''active''" "ak_RevokedAt key = None"
      "ak_ExpiresAt key = ci_ExpiresAt cmd" by blast
  have row: "ar_KeyPrefix (row_of key) = ak_KeyPrefix key" by (simp add: row_of_def)
  obtain key' where key': "rowToDomain (row_of key) = Inr key'" by (simp add: rowToDomain_def row_of_def)
  have "find (\<lambda>r. ar_KeyPrefix r = DerivePrefix secret) (api_keys (store w)) = None" using c(3,4) by (auto simp: find_None_iff list_ex_iff)
  then have "find (\<lambda>r. ar_KeyPrefix r = DerivePrefix secret) (api_keys (store w1)) = Some (row_of key)"
    using c(3) row by (simp add: c(5) find_append_one)
  then have find: "run_state (FindByPrefix (DerivePrefix secret)) w1 = (Inr key', w1)"
    using now key' by (simp add: FindByPrefix_def findOne_def exec_def)
  note eq = rowToDomain_eq [OF key', unfolded row_of_def, simplified]
  have ok: "Verify P (ak_SecretHash key') secret" "Key_IsActive key' later"
    using hash [OF c(1)] k later by (auto simp: Verify_def Key_IsActive_def eq split: option.splits)
  obtain y w2 where "run_state (TouchLastUsed (ak_WorkspaceID key') (ak_ID key') later) w1 = (y, w2)" by fastforce
  with find ok c(2,3) k show ?thesis by (auto simp: AuthenticateKey_Execute_def eq)
qed

text \<open>
  Claim C40. An update that has read a key before the key is revoked, and writes after, makes the key active again: the statement writes the status and
  the time of revocation that were read.
\<close>

theorem api_key_revocation_lost:
  assumes find: "run_state (Key_FindByID ws i) w = (Inr key, w0)" "ak_RevokedAt key = None"
    and revoke: "run_state (RevokeKey_Execute P ws user i t) w0 = (Inr k, w1)" and keys: "distinct (map ar_ID (api_keys (store w)))"
    and update: "run_state (update_found P cmd t' key) w1 = (Inr r, w2)"
  shows "\<exists>row\<in>set (api_keys (store w2)). ar_WorkspaceID row = ws \<and> ar_ID row = i \<and> ar_Status row = ''active'' \<and> ar_RevokedAt row = None"
proof -
  from readsD [OF reads_found find(1) [unfolded Key_FindByID_def] refl] have w0: "store w0 = store w"
    and found: "found_key (\<lambda>r. ar_WorkspaceID r = ws \<and> ar_ID r = i) (store w) (Inr key)" by simp_all
  from found have key: "ak_WorkspaceID key = ws" "ak_ID key = i" by (auto elim!: found_keyE simp: rowToDomain_eq)
  from revoked_now [OF _ revoke] keys w0 obtain r where r: "r \<in> set (api_keys (store w1))" "revoked_row ws i r" by auto
  from update_found_done [OF update] find(2) obtain k where k: "ak_Status k = ''active''" "ak_RevokedAt k = None"
    and w2: "api_keys (store w2) = update_where (\<lambda>x. ar_WorkspaceID x = ws \<and> ar_ID x = i) (written k) (api_keys (store w1))" by (auto simp: key)
  have "written k r \<in> set (api_keys (store w2))" unfolding w2 using r by (intro update_where_mem) (auto simp: revoked_row_def)
  with k r(2) show ?thesis by (intro bexI [of _ "written k r"]) (auto simp: written_def revoked_row_def)
qed

section \<open>Witnesses\<close>

definition sample_access :: access_ports where
  "sample_access = \<lparr>a_perm = (\<lambda>_ _ _. Inr ()), a_crypto = sample_crypto, a_gen = (\<lambda>n. replicate (Suc n) CHR ''i''),
     a_random = (\<lambda>n. ''random bytes''), a_rfc3339nano = (\<lambda>_. ''t''), a_timestamp = (\<lambda>_. None)\<rparr>"

definition sample_key :: apiKeyRow where
  "sample_key = \<lparr>ar_ID = ''k'', ar_WorkspaceID = ''w'', ar_Name = ''n'', ar_KeyPrefix = ''sk_x'', ar_SecretHash = ''sk_x'',
     ar_Scopes = [''transactional.send''], ar_EmailQuotaLimits = Some None, ar_Status = ''active'', ar_CreatedAt = 0, ar_UpdatedAt = 0,
     ar_LastUsedAt = None, ar_ExpiresAt = None, ar_RevokedAt = None\<rparr>"

definition sample_keys :: "access_db world" where
  "sample_keys = \<lparr>store = \<lparr>ak_workspaces = [''w''], api_keys = [sample_key]\<rparr>, in_tx = False, aborted = False, outcomes = [], id_ctr = 0\<rparr>"

definition sample_update :: UpdateInput where
  "sample_update = \<lparr>ui_WorkspaceID = ''w'', ui_ActorUserID = ''u'', ui_APIKeyID = ''k'', ui_Name = None, ui_Scopes = None, ui_ExpiresAt = None,
     ui_Rotate = False, ui_QuotaLimits = None\<rparr>"

definition sample_create :: CreateInput where
  "sample_create = \<lparr>ci_WorkspaceID = ''w'', ci_ActorUserID = ''u'', ci_Name = ''n'', ci_Scopes = [''transactional.send''], ci_ExpiresAt = Some 5,
     ci_QuotaLimits = None\<rparr>"

lemma sample_keys_distinct: "distinct (map ar_ID (api_keys (store sample_keys)))"
  by (simp add: sample_keys_def)

lemma ran_ok: "\<not> isl (fst (run_state f w)) \<Longrightarrow> run_state f w = (Inr (projr (fst (run_state f w))), snd (run_state f w))"
  by (cases "run_state f w"; cases "fst (run_state f w)") auto

abbreviation sample_revoke :: "APIKey aprog" where "sample_revoke \<equiv> RevokeKey_Execute sample_access ''w'' ''u'' ''k'' 1"

lemma sample_revoked: "\<not> isl (fst (run_state sample_revoke sample_keys))"
  by code_simp

lemma sample_accepted_again:
  "\<not> isl (fst (run_state (AuthenticateKey_Execute sample_access (SecretStablePrefix @ RawURLEncode ''random bytes'') 3)
     (ak_run sample_access [(UpdateKey sample_update, 2), (CreateKey sample_create, 2)] (snd (run_state sample_revoke sample_keys)))))"
  by code_simp

text \<open>The key made after the revocation is accepted, and it is another one.\<close>

theorem api_key_revoked_final_witness:
  "\<exists>res w2. run_state (AuthenticateKey_Execute sample_access (SecretStablePrefix @ RawURLEncode ''random bytes'') 3)
     (ak_run sample_access [(UpdateKey sample_update, 2), (CreateKey sample_create, 2)] (snd (run_state sample_revoke sample_keys))) = (Inr res, w2) \<and>
     au_APIKeyID res \<noteq> ''k''"
  using ran_ok [OF sample_accepted_again] api_key_revoked_final [OF sample_keys_distinct ran_ok [OF sample_revoked] ran_ok [OF sample_accepted_again]] by blast

lemma sample_race:
  "\<not> isl (fst (run_state (Key_FindByID ''w'' ''k'') sample_keys))"
  "ak_RevokedAt (projr (fst (run_state (Key_FindByID ''w'' ''k'') sample_keys))) = None"
  "\<not> isl (fst (run_state sample_revoke (snd (run_state (Key_FindByID ''w'' ''k'') sample_keys))))"
  "\<not> isl (fst (run_state (update_found sample_access sample_update 2 (projr (fst (run_state (Key_FindByID ''w'' ''k'') sample_keys))))
     (snd (run_state sample_revoke (snd (run_state (Key_FindByID ''w'' ''k'') sample_keys))))))"
  by code_simp+

theorem api_key_revocation_lost_witness:
  "\<exists>row\<in>set (api_keys (store (snd (run_state (update_found sample_access sample_update 2 (projr (fst (run_state (Key_FindByID ''w'' ''k'') sample_keys))))
     (snd (run_state sample_revoke (snd (run_state (Key_FindByID ''w'' ''k'') sample_keys)))))))). ar_WorkspaceID row = ''w'' \<and> ar_ID row = ''k'' \<and>
     ar_Status row = ''active'' \<and> ar_RevokedAt row = None"
  by (rule api_key_revocation_lost [OF ran_ok [OF sample_race(1)] sample_race(2) ran_ok [OF sample_race(3)] sample_keys_distinct ran_ok [OF sample_race(4)]])

end
