(* ===== verification/Webhook_Store.thy ===== *)
theory Webhook_Store
  imports Identity_Store Security Ids
begin

text \<open>
  The module \<open>webhooks\<close>: its domain (\<open>internal/modules/webhooks/domain\<close>), its HTTP client (\<open>infrastructure/http/deliverer.go\<close>) and its
  repositories (\<open>infrastructure/postgres/repository.go\<close>, with the keys and references of \<open>migrations/000022_customer_webhooks.sql\<close>). Fields carry a prefix: \<open>wc_\<close>
  \<open>WebhookConfig\<close>, \<open>wd_\<close> \<open>WebhookDelivery\<close>, \<open>wa_\<close> \<open>WebhookDeliveryAttempt\<close>, \<open>dr_\<close> \<open>DeliveryResult\<close>, \<open>rq_\<close> and \<open>rs_\<close> requests and
  responses. Headers are partial functions.
\<close>

section \<open>Domain\<close>

datatype wh_error =
    WhConfigNotFound | WhDeliveryNotFound | WhManageDenied | WhDeliveryReadDenied | WhDeliveryRetryDenied | WhTargetURLInvalid
  | WhSubscriptionInvalid | WhRotateConflict | WhRetryConflict | WhConfigInvalid | WhDeliveryInvalid | WhConfigNameConflict
  | WhConfigDisabled | WhUnsupportedEventType | WhMalformedPayload | WhPermissionDenied

definition AllowedSubscriptionEvents :: "string list" where
  "AllowedSubscriptionEvents = [''delivery.message.queued.v1'', ''delivery.message.accepted.v1'', ''delivery.message.delivered.v1'',
     ''delivery.message.bounced.v1'', ''delivery.message.complained.v1'', ''delivery.message.retry_scheduled.v1'',
     ''tracking.email_opened.v1'', ''tracking.link_clicked.v1'', ''tracking.recipient_unsubscribed.v1'',
     ''suppression.recipient_suppressed.v1'']"

record WebhookConfig =
  wc_ID :: string
  wc_WorkspaceID :: string
  wc_Name :: string
  wc_TargetURL :: string
  wc_Status :: string
  wc_Subscriptions :: "string list"
  wc_SecretHash :: string
  wc_SecretHint :: string
  wc_Version :: int
  wc_CreatedByUserID :: string
  wc_CreatedAt :: gotime
  wc_UpdatedAt :: gotime
  wc_DisabledAt :: "gotime option"

type_synonym headers = "string \<rightharpoonup> string"

record WebhookDeliveryAttempt =
  wa_ID :: string
  wa_DeliveryID :: string
  wa_AttemptNumber :: int
  wa_Status :: string
  wa_StatusCode :: "int option"
  wa_Error :: string
  wa_DurationMs :: int
  wa_RequestHeaders :: headers
  wa_ResponseHeaders :: headers
  wa_AttemptedAt :: gotime

record WebhookDelivery =
  wd_ID :: string
  wd_WorkspaceID :: string
  wd_WebhookID :: string
  wd_SourceEventID :: string
  wd_SourceEventType :: string
  wd_Status :: string
  wd_TargetURL :: string
  wd_AttemptCount :: int
  wd_NextAttemptAt :: "gotime option"
  wd_LastAttemptAt :: "gotime option"
  wd_LastStatusCode :: "int option"
  wd_LastError :: string
  wd_RequestHeaders :: headers
  wd_ResponseHeaders :: headers
  wd_EventPayloadJSON :: json
  wd_CreatedAt :: gotime
  wd_UpdatedAt :: gotime
  wd_Attempts :: "WebhookDeliveryAttempt list"

record DeliveryResult =
  dr_StatusCode :: int
  dr_DurationMs :: int
  dr_Error :: string
  dr_RequestHeaders :: headers
  dr_ResponseHeaders :: headers

text \<open>
  What the module uses of other modules, the network and the libraries: the permission check of the identity module; \<open>url.Parse\<close>
  (\<open>None\<close> for an error) with scheme, presence of user information and host, and whether \<open>url.ParseRequestURI\<close> accepts a text; \<open>net.ParseIP\<close> with the bytes of the address and the resolver; the
  text of a JSON value, of an instant and of an integer; \<open>PostgreSQL\<close>'s reading of a \<open>uuid\<close>; random bytes; the answers of the endpoints, by the
  number of the request.
\<close>

record parsed_url =
  url_Scheme :: string
  url_HasUser :: bool
  url_Host :: string
  url_Hostname :: string

type_synonym ip = "nat list"

record DeliveryHTTPRequest =
  rq_URL :: string
  rq_Body :: string
  rq_SignatureValue :: string
  rq_TimestampValue :: string
  rq_EventIDValue :: string

record DeliveryHTTPResponse =
  rs_StatusCode :: int
  rs_Headers :: headers
  rs_DurationMs :: int
  rs_Error :: string

record webhook_ports =
  h_perm :: "string \<Rightarrow> string \<Rightarrow> string \<Rightarrow> (wh_error, unit) result"
  h_url :: "string \<Rightarrow> parsed_url option"
  h_requestURI :: "string \<Rightarrow> bool"
  h_ParseIP :: "string \<Rightarrow> ip option"
  h_lookup :: "string \<Rightarrow> ip list option"
  h_json :: "json \<Rightarrow> string"
  h_rfc3339 :: "gotime \<Rightarrow> string"
  h_parse_time :: "string \<Rightarrow> gotime option"
  h_itoa :: "int \<Rightarrow> string"
  h_uuid :: "string \<Rightarrow> string option"
  h_gen :: "nat \<Rightarrow> string"
  h_random :: "nat \<Rightarrow> string"
  h_reply :: "nat \<Rightarrow> DeliveryHTTPRequest \<Rightarrow> DeliveryHTTPResponse"
  h_dbnow :: gotime
  h_crypto :: crypto
  h_hasOutbox :: bool

section \<open>Addresses\<close>

text \<open>
  \<open>net.IP\<close> is four or sixteen bytes; \<open>To4\<close> recognizes an IPv4 address in both forms. \<open>IsLoopback\<close>, \<open>IsLinkLocalUnicast\<close>, \<open>IsPrivate\<close> and
  \<open>IsUnspecified\<close> of the package \<open>net\<close>.
\<close>

definition To4 :: "ip \<Rightarrow> ip option" where
  "To4 a = (if length a = 4 then Some a
     else if length a = 16 \<and> take 12 a = replicate 10 0 @ [255, 255] then Some (drop 12 a) else None)"

definition IsLoopback :: "ip \<Rightarrow> bool" where
  "IsLoopback a = (case To4 a of Some b \<Rightarrow> b ! 0 = 127 | None \<Rightarrow> a = replicate 15 0 @ [1])"

definition IsLinkLocalUnicast :: "ip \<Rightarrow> bool" where
  "IsLinkLocalUnicast a = (case To4 a of Some b \<Rightarrow> b ! 0 = 169 \<and> b ! 1 = 254
     | None \<Rightarrow> length a = 16 \<and> a ! 0 = 254 \<and> a ! 1 div 64 = 2)"

definition IsPrivate :: "ip \<Rightarrow> bool" where
  "IsPrivate a = (case To4 a of Some b \<Rightarrow> b ! 0 = 10 \<or> b ! 0 = 172 \<and> b ! 1 div 16 = 1 \<or> b ! 0 = 192 \<and> b ! 1 = 168
     | None \<Rightarrow> length a = 16 \<and> a ! 0 div 2 = 126)"

definition IsUnspecified :: "ip \<Rightarrow> bool" where
  "IsUnspecified a \<longleftrightarrow> To4 a = Some [0, 0, 0, 0] \<or> a = replicate 16 0"

definition IsPrivateIP :: "ip \<Rightarrow> bool" where
  "IsPrivateIP a \<longleftrightarrow> IsLoopback a \<or> IsLinkLocalUnicast a \<or> IsPrivate a \<or> IsUnspecified a"

definition isPrivateHost :: "webhook_ports \<Rightarrow> string \<Rightarrow> bool" where
  "isPrivateHost P hostname \<longleftrightarrow> hostname = ''localhost'' \<or> hostname = ''::1'' \<or>
     (case h_ParseIP P hostname of Some a \<Rightarrow> IsPrivateIP a | None \<Rightarrow> False)"

definition ValidateTargetURL :: "webhook_ports \<Rightarrow> string \<Rightarrow> (wh_error, unit) result" where
  "ValidateTargetURL P rawURL =
     (if rawURL = [] then Inl (Err WhTargetURLInvalid)
      else case h_url P rawURL of
          None \<Rightarrow> Inl (Err WhTargetURLInvalid)
        | Some u \<Rightarrow>
            if url_Scheme u \<noteq> ''https'' \<and> url_Scheme u \<noteq> ''http'' \<or> url_HasUser u \<or> url_Host u = []
            then Inl (Err WhTargetURLInvalid)
            else let hostname = ToLower (url_Hostname u) in
              if isPrivateHost P hostname then Inl (Err WhTargetURLInvalid)
              else if h_ParseIP P hostname = None \<and>
                  (case h_lookup P hostname of Some ips \<Rightarrow> list_ex IsPrivateIP ips | None \<Rightarrow> False)
                then Inl (Err WhTargetURLInvalid)
              else Inr ())"

definition ValidateSubscriptions :: "string list \<Rightarrow> (wh_error, unit) result" where
  "ValidateSubscriptions subscriptions =
     (if subscriptions = [] \<or> \<not> list_all (\<lambda>s. s \<in> set AllowedSubscriptionEvents) subscriptions
      then Inl (Err WhSubscriptionInvalid) else Inr ())"

definition NewWebhookConfig ::
  "webhook_ports \<Rightarrow> string \<Rightarrow> string \<Rightarrow> string \<Rightarrow> string \<Rightarrow> string list \<Rightarrow> string \<Rightarrow> gotime \<Rightarrow> string + WebhookConfig" where
  "NewWebhookConfig P i workspaceID name targetURL subscriptions createdByUserID now =
     (if i = [] then Inl ''webhook config id is required''
      else if workspaceID = [] then Inl ''workspace id is required''
      else if TrimSpace name = [] then Inl ''webhook name is required''
      else if \<not> h_requestURI P targetURL then Inl ''valid target URL is required''
      else if subscriptions = [] then Inl ''at least one subscription is required''
      else Inr \<lparr>wc_ID = i, wc_WorkspaceID = workspaceID, wc_Name = TrimSpace name, wc_TargetURL = targetURL, wc_Status = ''active'',
        wc_Subscriptions = subscriptions, wc_SecretHash = [], wc_SecretHint = [], wc_Version = 1, wc_CreatedByUserID = createdByUserID,
        wc_CreatedAt = now, wc_UpdatedAt = now, wc_DisabledAt = None\<rparr>)"

definition ValidateWebhookConfig :: "webhook_ports \<Rightarrow> WebhookConfig \<Rightarrow> (wh_error, unit) result" where
  "ValidateWebhookConfig P cfg =
     (if wc_WorkspaceID cfg = [] \<or> wc_Name cfg = [] \<or> 255 < length (wc_Name cfg) then Inl (Err WhConfigInvalid)
      else case ValidateTargetURL P (wc_TargetURL cfg) of
          Inl e \<Rightarrow> Inl e
        | Inr _ \<Rightarrow> ValidateSubscriptions (wc_Subscriptions cfg))"

definition CanDeliveryBeRetried :: "string \<Rightarrow> bool" where
  "CanDeliveryBeRetried status \<longleftrightarrow> status = ''failed'' \<or> status = ''retry_scheduled''"

definition IsTerminalDeliveryStatus :: "string \<Rightarrow> bool" where
  "IsTerminalDeliveryStatus status \<longleftrightarrow> status = ''succeeded'' \<or> status = ''failed''"

definition IsRetryableHTTPStatus :: "int \<Rightarrow> bool" where
  "IsRetryableHTTPStatus code \<longleftrightarrow> code = 0 \<or> code = 429 \<or> 500 \<le> code \<and> code < 600"

definition SanitizeError :: "string \<Rightarrow> string" where
  "SanitizeError err = take 500 err"

definition sensitiveHeaders :: "string list" where
  "sensitiveHeaders = [''authorization'', ''cookie'', ''set-cookie'', ''x-api-key'', ''x-auth-token'', ''proxy-authorization'']"

definition SanitizeHeaders :: "headers \<Rightarrow> headers" where
  "SanitizeHeaders h = (\<lambda>k. if ToLower k \<in> set sensitiveHeaders then None else map_option (take 1000) (h k))"

section \<open>The world\<close>

text \<open>
  The tables of the module with the ids of the workspaces and users they refer to; an outbox row holds the plain payload. The requests
  that reached an endpoint are logged with the address they went to.
\<close>

record wh_outbox_row =
  wo_ID :: string
  wo_AggregateType :: string
  wo_AggregateID :: string
  wo_EventType :: string
  wo_Payload :: json
  wo_WorkspaceID :: string
  wo_OccurredAt :: gotime

record webhook_db =
  wh_workspaces :: "string list"
  wh_users :: "string list"
  configs :: "WebhookConfig list"
  deliveries :: "WebhookDelivery list"
  attempts :: "WebhookDeliveryAttempt list"
  wh_outbox :: "wh_outbox_row list"

record post =
  po_DeliveryID :: string
  po_Request :: DeliveryHTTPRequest
  po_IP :: ip

record wh_world = "webhook_db world" +
  posts :: "post list"

type_synonym 'a wprog = "(wh_world, (wh_error, 'a) result) state"

section \<open>Configurations\<close>

abbreviation same_active_name :: "WebhookConfig \<Rightarrow> WebhookConfig \<Rightarrow> bool" where
  "same_active_name c r \<equiv> wc_Status c = ''active'' \<and> wc_Status r = ''active'' \<and> wc_WorkspaceID r = wc_WorkspaceID c \<and> wc_Name r = wc_Name c"

definition Config_Create :: "WebhookConfig \<Rightarrow> unit wprog" where
  "Config_Create config = exec (\<lambda>d.
     if has wc_ID (wc_ID config) (configs d) \<or> list_ex (same_active_name config) (configs d) then SqlErr (Err WhConfigNameConflict)
     else if wc_WorkspaceID config \<notin> set (wh_workspaces d) \<or> wc_CreatedByUserID config \<notin> set (wh_users d) then SqlErr ErrDriver
     else SqlOk (Inr ()) (d\<lparr>configs := configs d @ [config\<lparr>wc_DisabledAt := None\<rparr>]\<rparr>))"

definition Config_Update :: "WebhookConfig \<Rightarrow> unit wprog" where
  "Config_Update config = exec (\<lambda>d.
     let hit = (\<lambda>r. wc_ID r = wc_ID config \<and> wc_WorkspaceID r = wc_WorkspaceID config \<and> wc_Version r = wc_Version config - 1);
         new = (\<lambda>r. r\<lparr>wc_Name := wc_Name config, wc_TargetURL := wc_TargetURL config, wc_Status := wc_Status config,
           wc_Subscriptions := wc_Subscriptions config, wc_SecretHash := wc_SecretHash config, wc_SecretHint := wc_SecretHint config,
           wc_Version := wc_Version config, wc_UpdatedAt := wc_UpdatedAt config, wc_DisabledAt := wc_DisabledAt config\<rparr>)
     in if \<not> list_ex hit (configs d) then SqlOk (Inl (Err WhRotateConflict)) d
        else if list_ex (\<lambda>r. wc_ID r \<noteq> wc_ID config \<and> same_active_name config r) (configs d)
          then SqlErr (Err WhConfigNameConflict)
        else SqlOk (Inr ()) (d\<lparr>configs := update_where hit new (configs d)\<rparr>))"

definition Config_Disable :: "string \<Rightarrow> string \<Rightarrow> gotime \<Rightarrow> unit wprog" where
  "Config_Disable workspaceID webhookID disabledAt = exec (\<lambda>d.
     let hit = (\<lambda>r. wc_ID r = webhookID \<and> wc_WorkspaceID r = workspaceID \<and> wc_Status r = ''active'') in
     if \<not> list_ex hit (configs d) then SqlOk (Inl (Err WhConfigNotFound)) d
     else SqlOk (Inr ()) (d\<lparr>configs := update_where hit (\<lambda>r. r\<lparr>wc_Status := ''disabled'', wc_DisabledAt := Some disabledAt,
       wc_UpdatedAt := disabledAt, wc_Version := wc_Version r + 1\<rparr>) (configs d)\<rparr>))"

definition wh_found :: "wh_error \<Rightarrow> 'r option \<Rightarrow> (wh_error, 'r) result" where
  "wh_found e x = (case x of None \<Rightarrow> Inl (Err e) | Some r \<Rightarrow> Inr r)"

definition Config_FindByID :: "string \<Rightarrow> string \<Rightarrow> WebhookConfig wprog" where
  "Config_FindByID workspaceID webhookID = exec (\<lambda>d. SqlOk (wh_found WhConfigNotFound
     (find (\<lambda>r. wc_ID r = webhookID \<and> wc_WorkspaceID r = workspaceID) (configs d))) d)"

definition Config_ListByWorkspace :: "string \<Rightarrow> WebhookConfig list wprog" where
  "Config_ListByWorkspace workspaceID = exec (\<lambda>d.
     SqlOk (Inr (rev (sort_key wc_CreatedAt (filter (\<lambda>r. wc_WorkspaceID r = workspaceID) (configs d))))) d)"

definition Config_ListSubscribed :: "string \<Rightarrow> string \<Rightarrow> WebhookConfig list wprog" where
  "Config_ListSubscribed workspaceID eventType = exec (\<lambda>d.
     SqlOk (Inr (sort_key wc_CreatedAt (filter (\<lambda>r. wc_WorkspaceID r = workspaceID \<and> wc_Status r = ''active'' \<and>
       eventType \<in> set (wc_Subscriptions r)) (configs d)))) d)"

section \<open>Deliveries\<close>

text \<open>The id of the source event is read as a \<open>uuid\<close>.\<close>

definition WhDelivery_Create :: "webhook_ports \<Rightarrow> WebhookDelivery \<Rightarrow> unit wprog" where
  "WhDelivery_Create P delivery = exec (\<lambda>d.
     case h_uuid P (wd_SourceEventID delivery) of
       None \<Rightarrow> SqlErr ErrDriver
     | Some u \<Rightarrow>
         if list_ex (\<lambda>r. wd_WebhookID r = wd_WebhookID delivery \<and> wd_SourceEventID r = u) (deliveries d) then SqlOk (Inr ()) d
         else if has wd_ID (wd_ID delivery) (deliveries d) \<or> \<not> has wc_ID (wd_WebhookID delivery) (configs d) \<or>
           wd_WorkspaceID delivery \<notin> set (wh_workspaces d) then SqlErr ErrDriver
         else SqlOk (Inr ()) (d\<lparr>deliveries := deliveries d @ [delivery\<lparr>wd_SourceEventID := u, wd_Attempts := []\<rparr>]\<rparr>))"

definition update_delivery :: "wh_error \<Rightarrow> (WebhookDelivery \<Rightarrow> bool) \<Rightarrow> (WebhookDelivery \<Rightarrow> WebhookDelivery) \<Rightarrow> unit wprog" where
  "update_delivery e hit new = exec (\<lambda>d. SqlOk (if list_ex hit (deliveries d) then Inr () else Inl (Err e))
     (d\<lparr>deliveries := update_where hit new (deliveries d)\<rparr>))"

definition attempted :: "gotime \<Rightarrow> WebhookDelivery \<Rightarrow> WebhookDelivery" where
  "attempted now r = r\<lparr>wd_Status := ''delivering'', wd_AttemptCount := wd_AttemptCount r + 1, wd_LastAttemptAt := Some now,
     wd_UpdatedAt := now\<rparr>"

definition MarkDelivering :: "string \<Rightarrow> gotime \<Rightarrow> unit wprog" where
  "MarkDelivering deliveryID now = update_delivery WhDeliveryNotFound (\<lambda>r. wd_ID r = deliveryID) (attempted now)"

definition MarkSucceeded :: "webhook_ports \<Rightarrow> string \<Rightarrow> DeliveryResult \<Rightarrow> unit wprog" where
  "MarkSucceeded P deliveryID result = update_delivery WhDeliveryNotFound (\<lambda>r. wd_ID r = deliveryID)
     (\<lambda>r. r\<lparr>wd_Status := ''succeeded'', wd_LastStatusCode := Some (dr_StatusCode result), wd_LastError := [],
        wd_RequestHeaders := Map.empty, wd_ResponseHeaders := SanitizeHeaders (dr_ResponseHeaders result), wd_UpdatedAt := h_dbnow P\<rparr>)"

definition WhMarkFailed :: "webhook_ports \<Rightarrow> string \<Rightarrow> DeliveryResult \<Rightarrow> unit wprog" where
  "WhMarkFailed P deliveryID result = update_delivery WhDeliveryNotFound (\<lambda>r. wd_ID r = deliveryID)
     (\<lambda>r. r\<lparr>wd_Status := ''failed'', wd_LastStatusCode := Some (dr_StatusCode result), wd_LastError := SanitizeError (dr_Error result),
        wd_RequestHeaders := Map.empty, wd_ResponseHeaders := SanitizeHeaders (dr_ResponseHeaders result), wd_UpdatedAt := h_dbnow P\<rparr>)"

definition ScheduleRetry :: "webhook_ports \<Rightarrow> string \<Rightarrow> gotime \<Rightarrow> unit wprog" where
  "ScheduleRetry P deliveryID nextAttemptAt = update_delivery WhRetryConflict
     (\<lambda>r. wd_ID r = deliveryID \<and> (wd_Status r = ''failed'' \<or> wd_Status r = ''delivering''))
     (\<lambda>r. r\<lparr>wd_Status := ''retry_scheduled'', wd_NextAttemptAt := Some nextAttemptAt, wd_UpdatedAt := h_dbnow P\<rparr>)"

definition is_due :: "gotime \<Rightarrow> WebhookDelivery \<Rightarrow> bool" where
  "is_due now r \<longleftrightarrow> (wd_Status r = ''pending'' \<or> wd_Status r = ''retry_scheduled'') \<and>
     (case wd_NextAttemptAt r of None \<Rightarrow> True | Some t \<Rightarrow> t \<le> now)"

definition due_deliveries :: "nat \<Rightarrow> gotime \<Rightarrow> webhook_db \<Rightarrow> string list" where
  "due_deliveries limit now d = map wd_ID (take limit (sort_key wd_CreatedAt (filter (is_due now) (deliveries d))))"

definition ClaimPendingDeliveries :: "int \<Rightarrow> gotime \<Rightarrow> WebhookDelivery list wprog" where
  "ClaimPendingDeliveries limit now = exec (\<lambda>d.
     if limit < 0 then SqlErr ErrDriver
     else let ids = due_deliveries (nat limit) now d; rows = update_where (\<lambda>r. wd_ID r \<in> set ids) (attempted now) (deliveries d) in
       SqlOk (Inr (filter (\<lambda>r. wd_ID r \<in> set ids) rows)) (d\<lparr>deliveries := rows\<rparr>))"

definition WhDelivery_FindByID :: "string \<Rightarrow> string \<Rightarrow> WebhookDelivery wprog" where
  "WhDelivery_FindByID workspaceID deliveryID = exec (\<lambda>d. SqlOk (wh_found WhDeliveryNotFound
     (find (\<lambda>r. wd_ID r = deliveryID \<and> wd_WorkspaceID r = workspaceID) (deliveries d))) d)"

definition FindByWebhookAndEvent :: "webhook_ports \<Rightarrow> string \<Rightarrow> string \<Rightarrow> WebhookDelivery wprog" where
  "FindByWebhookAndEvent P webhookID sourceEventID = exec (\<lambda>d.
     case h_uuid P sourceEventID of
       None \<Rightarrow> SqlErr ErrDriver
     | Some u \<Rightarrow> SqlOk (wh_found WhDeliveryNotFound
         (find (\<lambda>r. wd_WebhookID r = webhookID \<and> wd_SourceEventID r = u) (deliveries d))) d)"

record DeliveryFilter =
  df_WebhookID :: string
  df_Status :: string
  df_EventType :: string
  df_From :: "gotime option"
  df_To :: "gotime option"
  df_Limit :: int
  df_Cursor :: string

definition matches :: "DeliveryFilter \<Rightarrow> WebhookDelivery \<Rightarrow> bool" where
  "matches f r \<longleftrightarrow> (df_WebhookID f \<noteq> [] \<longrightarrow> wd_WebhookID r = df_WebhookID f) \<and> (df_Status f \<noteq> [] \<longrightarrow> wd_Status r = df_Status f) \<and>
     (df_EventType f \<noteq> [] \<longrightarrow> wd_SourceEventType r = df_EventType f) \<and>
     (case df_From f of None \<Rightarrow> True | Some t \<Rightarrow> t \<le> wd_CreatedAt r) \<and> (case df_To f of None \<Rightarrow> True | Some t \<Rightarrow> wd_CreatedAt r \<le> t)"

definition page_limit :: "int \<Rightarrow> nat" where
  "page_limit limit = (if 0 < limit \<and> limit \<le> 100 then nat limit else 50)"

definition page_of :: "string \<Rightarrow> DeliveryFilter \<Rightarrow> webhook_db \<Rightarrow> WebhookDelivery list \<times> string" where
  "page_of workspaceID f d =
     (let rows = take (page_limit (df_Limit f) + 1) (rev (sort_key wd_CreatedAt
            (filter (\<lambda>r. wd_WorkspaceID r = workspaceID \<and> matches f r \<and>
               after_cursor (\<lambda>r. (wd_CreatedAt r, wd_ID r)) wd_ID (df_Cursor f) (deliveries d) r) (deliveries d))))
      in if page_limit (df_Limit f) < length rows
         then (take (page_limit (df_Limit f)) rows, wd_ID (rows ! page_limit (df_Limit f))) else (rows, []))"

definition WhDelivery_ListByWorkspace :: "string \<Rightarrow> DeliveryFilter \<Rightarrow> (WebhookDelivery list \<times> string) wprog" where
  "WhDelivery_ListByWorkspace workspaceID f = exec (\<lambda>d. SqlOk (Inr (page_of workspaceID f d)) d)"

section \<open>Attempts and events\<close>

definition Attempt_Create :: "WebhookDeliveryAttempt \<Rightarrow> unit wprog" where
  "Attempt_Create a = exec (\<lambda>d.
     if has wa_ID (wa_ID a) (attempts d) \<or>
        list_ex (\<lambda>r. wa_DeliveryID r = wa_DeliveryID a \<and> wa_AttemptNumber r = wa_AttemptNumber a) (attempts d) \<or>
        \<not> has wd_ID (wa_DeliveryID a) (deliveries d) then SqlErr ErrDriver
     else SqlOk (Inr ()) (d\<lparr>attempts := attempts d @ [a]\<rparr>))"

definition Attempt_ListByDelivery :: "string \<Rightarrow> WebhookDeliveryAttempt list wprog" where
  "Attempt_ListByDelivery deliveryID = exec (\<lambda>d.
     SqlOk (Inr (sort_key wa_AttemptNumber (filter (\<lambda>a. wa_DeliveryID a = deliveryID) (attempts d)))) d)"

definition Webhook_Outbox_Save :: "wh_outbox_row \<Rightarrow> unit wprog" where
  "Webhook_Outbox_Save event = exec (\<lambda>d.
     if has wo_ID (wo_ID event) (wh_outbox d) then SqlErr ErrDriver
     else SqlOk (Inr ()) (d\<lparr>wh_outbox := wh_outbox d @ [event]\<rparr>))"

section \<open>HTTP\<close>

text \<open>\<open>dialContext\<close>: the address the connection goes to.\<close>

definition dialContext :: "webhook_ports \<Rightarrow> string \<Rightarrow> string + ip" where
  "dialContext P host =
     (case h_ParseIP P host of
        Some a \<Rightarrow> if IsPrivateIP a then Inl ''dial to private IP address blocked'' else Inr a
      | None \<Rightarrow> (case h_lookup P host of
            None \<Rightarrow> Inl ''DNS resolution failed''
          | Some [] \<Rightarrow> Inl ''DNS returned no addresses''
          | Some (a # as) \<Rightarrow> if list_ex IsPrivateIP (a # as) then Inl ''resolved to private IP, blocked'' else Inr a))"

definition failed_response :: "string \<Rightarrow> DeliveryHTTPResponse" where
  "failed_response err = \<lparr>rs_StatusCode = 0, rs_Headers = Map.empty, rs_DurationMs = 0, rs_Error = err\<rparr>"

text \<open>
  \<open>Deliverer.Deliver\<close>: redirects are not followed, and every failure is a response with code 0 (the error, here a text, is always nil). A lost answer means that the endpoint
  has seen the request. The duration of a failed request is not modelled.
\<close>

definition Deliver :: "webhook_ports \<Rightarrow> string \<Rightarrow> DeliveryHTTPRequest \<Rightarrow> (wh_world, string + DeliveryHTTPResponse) state" where
  "Deliver P deliveryID req = State (\<lambda>w.
     case h_url P (rq_URL req) of
       None \<Rightarrow> (Inr (failed_response ''failed to create request''), w)
     | Some u \<Rightarrow> (case dialContext P (url_Hostname u) of
           Inl e \<Rightarrow> (Inr (failed_response (''request failed: '' @ e)), w)
         | Inr a \<Rightarrow> (case run_state next_outcome w of (x, w1) \<Rightarrow>
             if x = Fail then (Inr (failed_response ''request failed''), w1)
             else let w2 = w1\<lparr>posts := posts w1 @ [\<lparr>po_DeliveryID = deliveryID, po_Request = req, po_IP = a\<rparr>]\<rparr>
               in (Inr (if x = OK then h_reply P (length (posts w1)) req else failed_response ''request failed''), w2))))"

end
