(* ===== verification/Webhooks.thy ===== *)
theory Webhooks
  imports Webhook_Store
begin

text \<open>
  The handlers of the module \<open>webhooks\<close> (\<open>app/config\<close>, \<open>app/delivery\<close>, \<open>app/source\<close>) and the parts of the worker that drive them
  (\<open>apps/worker/webhook_event_consumer.go\<close>, \<open>due_webhook_delivery_processor.go\<close>, \<open>due_webhook_consumer.go\<close>). A handler reads the clock once;
  logging and the recorder of operations are left out.
\<close>

section \<open>Configurations\<close>

definition GenerateSecret :: "webhook_ports \<Rightarrow> (string \<times> string \<times> string) wprog" where
  "GenerateSecret P = bindE (idGen (h_random P)) (\<lambda>rawBytes.
     let hex = (\<lambda>s. hex_encode (map of_char s)); raw = hex rawBytes in
     ret (Inr (raw, hex (c_sha256 (h_crypto P) rawBytes), take 8 raw @ ''...'')))"

definition save_event ::
  "webhook_ports \<Rightarrow> string \<Rightarrow> string \<Rightarrow> string \<Rightarrow> json \<Rightarrow> string \<Rightarrow> gotime \<Rightarrow> unit wprog" where
  "save_event P aggregateType aggregateID eventType payload workspaceID now =
     (if \<not> h_hasOutbox P then ret (Inr ())
      else bindE (idGen (h_gen P)) (\<lambda>eventID. Webhook_Outbox_Save \<lparr>wo_ID = eventID, wo_AggregateType = aggregateType,
        wo_AggregateID = aggregateID, wo_EventType = eventType, wo_Payload = payload, wo_WorkspaceID = workspaceID, wo_OccurredAt = now\<rparr>))"

record CreateCommand =
  cc_WorkspaceID :: string
  cc_UserID :: string
  cc_Name :: string
  cc_TargetURL :: string
  cc_Subscriptions :: "string list"

definition CreateConfig_Execute :: "webhook_ports \<Rightarrow> CreateCommand \<Rightarrow> gotime \<Rightarrow> (WebhookConfig \<times> string) wprog" where
  "CreateConfig_Execute P cmd now =
     thenE (remote (h_perm P (cc_WorkspaceID cmd) (cc_UserID cmd) ''webhook.manage''))
       (let cfg = \<lparr>wc_ID = [], wc_WorkspaceID = cc_WorkspaceID cmd, wc_Name = cc_Name cmd, wc_TargetURL = cc_TargetURL cmd,
              wc_Status = ''active'', wc_Subscriptions = cc_Subscriptions cmd, wc_SecretHash = [], wc_SecretHint = [], wc_Version = 0,
              wc_CreatedByUserID = [], wc_CreatedAt = 0, wc_UpdatedAt = 0, wc_DisabledAt = None\<rparr>
        in case ValidateWebhookConfig P cfg of
             Inl e \<Rightarrow> ret (Inl e)
           | Inr _ \<Rightarrow> bindE (idGen (h_gen P)) (\<lambda>i. bindE (GenerateSecret P) (\<lambda>(rawSecret, hash, hint).
               let new = cfg\<lparr>wc_ID := i, wc_SecretHash := hash, wc_SecretHint := hint, wc_Version := 1,
                     wc_CreatedByUserID := cc_UserID cmd, wc_CreatedAt := now, wc_UpdatedAt := now\<rparr>
               in thenE (WithinTx (thenE (Config_Create new)
                    (save_event P ''webhook_config'' i ''webhooks.config.created.v1''
                      (JObj [(''config_id'', JStr i), (''workspace_id'', JStr (cc_WorkspaceID cmd)), (''name'', JStr (cc_Name cmd)),
                        (''target_url'', JStr (cc_TargetURL cmd)), (''status'', JStr (wc_Status new)),
                        (''subscribed'', JArr (map JStr (cc_Subscriptions cmd)))]) (cc_WorkspaceID cmd) now)))
                    (ret (Inr (new, rawSecret))))))"

record UpdateCommand =
  uc_WorkspaceID :: string
  uc_UserID :: string
  uc_WebhookID :: string
  uc_Name :: "string option"
  uc_TargetURL :: "string option"
  uc_Subscriptions :: "string list option"
  uc_Status :: "string option"

definition patched_config :: "UpdateCommand \<Rightarrow> WebhookConfig \<Rightarrow> WebhookConfig" where
  "patched_config cmd cfg = cfg\<lparr>
     wc_Name := (case uc_Name cmd of None \<Rightarrow> wc_Name cfg | Some x \<Rightarrow> x),
     wc_TargetURL := (case uc_TargetURL cmd of None \<Rightarrow> wc_TargetURL cfg | Some x \<Rightarrow> x),
     wc_Subscriptions := (case uc_Subscriptions cmd of None \<Rightarrow> wc_Subscriptions cfg | Some x \<Rightarrow> x),
     wc_Status := (case uc_Status cmd of None \<Rightarrow> wc_Status cfg | Some x \<Rightarrow> x)\<rparr>"

definition UpdateConfig_Execute :: "webhook_ports \<Rightarrow> UpdateCommand \<Rightarrow> gotime \<Rightarrow> WebhookConfig wprog" where
  "UpdateConfig_Execute P cmd now =
     thenE (remote (h_perm P (uc_WorkspaceID cmd) (uc_UserID cmd) ''webhook.manage''))
       (bindE (Config_FindByID (uc_WorkspaceID cmd) (uc_WebhookID cmd)) (\<lambda>found.
          let cfg = patched_config cmd found in
          case ValidateWebhookConfig P cfg of
            Inl e \<Rightarrow> ret (Inl e)
          | Inr _ \<Rightarrow>
              let new = cfg\<lparr>wc_Version := wc_Version cfg + 1, wc_UpdatedAt := now\<rparr> in
              thenE (WithinTx (thenE (Config_Update new)
                (save_event P ''webhook_config'' (wc_ID new) ''webhooks.config.updated.v1''
                  (JObj [(''config_id'', JStr (wc_ID new)), (''workspace_id'', JStr (wc_WorkspaceID new)),
                    (''version'', JNum (wc_Version new)), (''status'', JStr (wc_Status new)),
                    (''subscribed'', JArr (map JStr (wc_Subscriptions new)))]) (wc_WorkspaceID new) now)))
                (ret (Inr new))))"

definition DisableConfig_Execute :: "webhook_ports \<Rightarrow> string \<Rightarrow> string \<Rightarrow> string \<Rightarrow> gotime \<Rightarrow> unit wprog" where
  "DisableConfig_Execute P workspaceID userID webhookID now =
     thenE (remote (h_perm P workspaceID userID ''webhook.manage''))
       (WithinTx (thenE (Config_Disable workspaceID webhookID now)
          (save_event P ''webhook_config'' webhookID ''webhooks.config.disabled.v1''
            (JObj [(''config_id'', JStr webhookID), (''workspace_id'', JStr workspaceID), (''disabled_at'', JStr (h_rfc3339 P now))])
            workspaceID now)))"

definition RotateSecret_Execute :: "webhook_ports \<Rightarrow> string \<Rightarrow> string \<Rightarrow> string \<Rightarrow> gotime \<Rightarrow> (WebhookConfig \<times> string) wprog" where
  "RotateSecret_Execute P workspaceID userID webhookID now =
     thenE (remote (h_perm P workspaceID userID ''webhook.manage''))
       (bindE (Config_FindByID workspaceID webhookID) (\<lambda>cfg.
        bindE (GenerateSecret P) (\<lambda>(rawSecret, hash, hint).
          let new = cfg\<lparr>wc_SecretHash := hash, wc_SecretHint := hint, wc_Version := wc_Version cfg + 1, wc_UpdatedAt := now\<rparr> in
          thenE (WithinTx (thenE (Config_Update new)
            (save_event P ''webhook_config'' (wc_ID new) ''webhooks.secret.rotated.v1''
              (JObj [(''config_id'', JStr (wc_ID new)), (''workspace_id'', JStr (wc_WorkspaceID new)),
                (''version'', JNum (wc_Version new)), (''secret_hint'', JStr hint)]) (wc_WorkspaceID new) now)))
            (ret (Inr (new, rawSecret))))))"

definition ListConfigs_Execute :: "webhook_ports \<Rightarrow> string \<Rightarrow> string \<Rightarrow> WebhookConfig list wprog" where
  "ListConfigs_Execute P workspaceID userID =
     thenE (remote (h_perm P workspaceID userID ''webhook.manage'')) (Config_ListByWorkspace workspaceID)"

text \<open>What the service returns of a configuration: the signing key stays inside.\<close>

record ConfigResult =
  cr_ID :: string
  cr_WorkspaceID :: string
  cr_Name :: string
  cr_TargetURL :: string
  cr_Status :: string
  cr_Subscriptions :: "string list"
  cr_SecretHint :: string
  cr_RawSecret :: string
  cr_Version :: int
  cr_CreatedByUserID :: string
  cr_CreatedAt :: gotime
  cr_UpdatedAt :: gotime
  cr_DisabledAt :: "gotime option"

definition configToResult :: "WebhookConfig \<Rightarrow> string \<Rightarrow> ConfigResult" where
  "configToResult cfg rawSecret = \<lparr>cr_ID = wc_ID cfg, cr_WorkspaceID = wc_WorkspaceID cfg, cr_Name = wc_Name cfg,
     cr_TargetURL = wc_TargetURL cfg, cr_Status = wc_Status cfg, cr_Subscriptions = wc_Subscriptions cfg, cr_SecretHint = wc_SecretHint cfg,
     cr_RawSecret = rawSecret, cr_Version = wc_Version cfg, cr_CreatedByUserID = wc_CreatedByUserID cfg, cr_CreatedAt = wc_CreatedAt cfg,
     cr_UpdatedAt = wc_UpdatedAt cfg, cr_DisabledAt = wc_DisabledAt cfg\<rparr>"

definition CreateWebhookConfig :: "webhook_ports \<Rightarrow> CreateCommand \<Rightarrow> gotime \<Rightarrow> ConfigResult wprog" where
  "CreateWebhookConfig P cmd now = bindE (CreateConfig_Execute P cmd now) (\<lambda>(cfg, rawSecret). ret (Inr (configToResult cfg rawSecret)))"

definition ListWebhookConfigs :: "webhook_ports \<Rightarrow> string \<Rightarrow> string \<Rightarrow> ConfigResult list wprog" where
  "ListWebhookConfigs P workspaceID userID =
     bindE (ListConfigs_Execute P workspaceID userID) (\<lambda>cfgs. ret (Inr (map (\<lambda>cfg. configToResult cfg []) cfgs)))"

definition UpdateWebhookConfig :: "webhook_ports \<Rightarrow> UpdateCommand \<Rightarrow> gotime \<Rightarrow> ConfigResult wprog" where
  "UpdateWebhookConfig P cmd now = bindE (UpdateConfig_Execute P cmd now) (\<lambda>cfg. ret (Inr (configToResult cfg [])))"

record RotateSecretResult =
  rr_RawSecret :: string
  rr_Hint :: string
  rr_Version :: int

definition RotateWebhookSecret :: "webhook_ports \<Rightarrow> string \<Rightarrow> string \<Rightarrow> string \<Rightarrow> gotime \<Rightarrow> RotateSecretResult wprog" where
  "RotateWebhookSecret P workspaceID userID webhookID now =
     bindE (RotateSecret_Execute P workspaceID userID webhookID now) (\<lambda>(cfg, rawSecret).
       ret (Inr \<lparr>rr_RawSecret = rawSecret, rr_Hint = wc_SecretHint cfg, rr_Version = wc_Version cfg\<rparr>))"

section \<open>Delivering\<close>

definition SignPayloadRaw :: "crypto \<Rightarrow> string \<Rightarrow> string \<Rightarrow> string \<Rightarrow> string" where
  "SignPayloadRaw C payload timestamp signingKey = hex_encode (map of_char (c_hmac256 C signingKey (timestamp @ payload)))"

record DeliverResult =
  de_Success :: bool
  de_StatusCode :: int
  de_Error :: string
  de_DurationMs :: int
  de_Attempt :: WebhookDeliveryAttempt
  de_DeliveryResult :: DeliveryResult

definition signed_request :: "webhook_ports \<Rightarrow> WebhookConfig \<Rightarrow> WebhookDelivery \<Rightarrow> gotime \<Rightarrow> DeliveryHTTPRequest" where
  "signed_request P cfg d now =
     (let timestamp = h_itoa P (Unix now); payload = h_json P (wd_EventPayloadJSON d) in
      \<lparr>rq_URL = wc_TargetURL cfg, rq_Body = payload, rq_SignatureValue = SignPayloadRaw (h_crypto P) payload timestamp (wc_SecretHash cfg),
       rq_TimestampValue = timestamp, rq_EventIDValue = wd_SourceEventID d\<rparr>)"

definition Deliver_Execute :: "webhook_ports \<Rightarrow> WebhookConfig \<Rightarrow> WebhookDelivery \<Rightarrow> int \<Rightarrow> gotime \<Rightarrow> DeliverResult wprog" where
  "Deliver_Execute P cfg d attemptNumber now = do {
     resp \<leftarrow> Deliver P (wd_ID d) (signed_request P cfg d now);
     bindE (idGen (h_gen P)) (\<lambda>attemptID. ret (Inr (case resp of
         Inl err \<Rightarrow> \<lparr>de_Success = False, de_StatusCode = 0, de_Error = SanitizeError err, de_DurationMs = 0,
           de_Attempt = \<lparr>wa_ID = attemptID, wa_DeliveryID = wd_ID d, wa_AttemptNumber = attemptNumber, wa_Status = ''failed'',
             wa_StatusCode = None, wa_Error = SanitizeError err, wa_DurationMs = 0, wa_RequestHeaders = Map.empty,
             wa_ResponseHeaders = Map.empty, wa_AttemptedAt = now\<rparr>,
           de_DeliveryResult = \<lparr>dr_StatusCode = 0, dr_DurationMs = 0, dr_Error = SanitizeError err,
             dr_RequestHeaders = Map.empty, dr_ResponseHeaders = Map.empty\<rparr>\<rparr>
       | Inr r \<Rightarrow>
           let isSuccess = (200 \<le> rs_StatusCode r \<and> rs_StatusCode r < 300) in
           \<lparr>de_Success = isSuccess, de_StatusCode = rs_StatusCode r, de_Error = SanitizeError (rs_Error r), de_DurationMs = rs_DurationMs r,
            de_Attempt = \<lparr>wa_ID = attemptID, wa_DeliveryID = wd_ID d, wa_AttemptNumber = attemptNumber,
              wa_Status = (if isSuccess then ''succeeded'' else ''failed''),
              wa_StatusCode = (if rs_StatusCode r = 0 then None else Some (rs_StatusCode r)), wa_Error = SanitizeError (rs_Error r),
              wa_DurationMs = rs_DurationMs r, wa_RequestHeaders = Map.empty, wa_ResponseHeaders = SanitizeHeaders (rs_Headers r),
              wa_AttemptedAt = now\<rparr>,
            de_DeliveryResult = \<lparr>dr_StatusCode = rs_StatusCode r, dr_DurationMs = rs_DurationMs r, dr_Error = SanitizeError (rs_Error r),
              dr_RequestHeaders = Map.empty, dr_ResponseHeaders = SanitizeHeaders (rs_Headers r)\<rparr>\<rparr>)))
   }"

definition maxWebhookRetries :: int where "maxWebhookRetries = 5"

datatype wh_outcome = Succeeded | RetryAt gotime | Failed

definition outcome_payload :: "webhook_ports \<Rightarrow> WebhookDelivery \<Rightarrow> WebhookConfig \<Rightarrow> DeliverResult \<Rightarrow> wh_outcome \<Rightarrow> json" where
  "outcome_payload P d cfg result out =
     JObj ([(''delivery_id'', JStr (wd_ID d)), (''workspace_id'', JStr (wd_WorkspaceID d)), (''webhook_id'', JStr (wc_ID cfg)),
       (''source_event_id'', JStr (wd_SourceEventID d)), (''source_event_type'', JStr (wd_SourceEventType d))] @
      (case out of
         Succeeded \<Rightarrow> [(''status_code'', JNum (de_StatusCode result)), (''duration_ms'', JNum (de_DurationMs result))]
       | RetryAt t \<Rightarrow> [(''next_attempt_at'', JStr (h_rfc3339 P t)), (''attempt_number'', JNum (wd_AttemptCount d))] @
           (if 0 < de_StatusCode result then [(''status_code'', JNum (de_StatusCode result))] else []) @ [(''error'', JStr (de_Error result))]
       | Failed \<Rightarrow> (case wa_StatusCode (de_Attempt result) of None \<Rightarrow> [] | Some c \<Rightarrow> [(''status_code'', JNum c)]) @
           [(''error'', JStr (de_Error result)), (''duration_ms'', JNum (de_DurationMs result))]))"

definition outcome_event :: "wh_outcome \<Rightarrow> string" where
  "outcome_event out = (case out of Succeeded \<Rightarrow> ''webhooks.delivery.succeeded.v1''
     | RetryAt t \<Rightarrow> ''webhooks.delivery.retry_scheduled.v1'' | Failed \<Rightarrow> ''webhooks.delivery.failed.v1'')"

definition mark_outcome :: "webhook_ports \<Rightarrow> string \<Rightarrow> DeliverResult \<Rightarrow> wh_outcome \<Rightarrow> unit wprog" where
  "mark_outcome P deliveryID result out = (case out of
       Succeeded \<Rightarrow> MarkSucceeded P deliveryID (de_DeliveryResult result)
     | RetryAt t \<Rightarrow> ScheduleRetry P deliveryID t
     | Failed \<Rightarrow> WhMarkFailed P deliveryID (de_DeliveryResult result))"

definition emitDeliveryOutcome ::
  "webhook_ports \<Rightarrow> WebhookDelivery \<Rightarrow> WebhookConfig \<Rightarrow> DeliverResult \<Rightarrow> wh_outcome \<Rightarrow> gotime \<Rightarrow> unit wprog" where
  "emitDeliveryOutcome P d cfg result out now = WithinTx
     (thenE (mark_outcome P (wd_ID d) result out)
       (thenE (Attempt_Create (de_Attempt result))
         (save_event P ''webhook_delivery'' (wd_ID d) (outcome_event out) (outcome_payload P d cfg result out) (wd_WorkspaceID d) now)))"

definition recordDeliveryOutcome ::
  "webhook_ports \<Rightarrow> WebhookDelivery \<Rightarrow> WebhookConfig \<Rightarrow> int \<Rightarrow> DeliverResult \<Rightarrow> gotime \<Rightarrow> wh_outcome wprog" where
  "recordDeliveryOutcome P d cfg attemptNumber result now =
     (let out = (if de_Success result then Succeeded
        else if IsRetryableHTTPStatus (de_StatusCode result) \<and> attemptNumber < maxWebhookRetries
          then RetryAt (now + attemptNumber * attemptNumber * 30 * second)
        else Failed)
      in thenE (emitDeliveryOutcome P d cfg result out now) (ret (Inr out)))"

definition ProcessDelivery_Execute :: "webhook_ports \<Rightarrow> string \<Rightarrow> string \<Rightarrow> gotime \<Rightarrow> wh_outcome wprog" where
  "ProcessDelivery_Execute P workspaceID deliveryID now =
     bindE (WhDelivery_FindByID workspaceID deliveryID) (\<lambda>d.
     bindE (Config_FindByID (wd_WorkspaceID d) (wd_WebhookID d)) (\<lambda>cfg.
       if wc_Status cfg \<noteq> ''active'' then
         thenE (WhMarkFailed P deliveryID \<lparr>dr_StatusCode = 0, dr_DurationMs = 0, dr_Error = ''webhook config disabled'',
             dr_RequestHeaders = Map.empty, dr_ResponseHeaders = Map.empty\<rparr>)
           (ret (Inr Failed))
       else bindE (Deliver_Execute P cfg d (wd_AttemptCount d) now) (\<lambda>result.
         recordDeliveryOutcome P d cfg (wd_AttemptCount d) result now)))"

definition RetryDelivery_Execute :: "webhook_ports \<Rightarrow> string \<Rightarrow> string \<Rightarrow> string \<Rightarrow> gotime \<Rightarrow> unit wprog" where
  "RetryDelivery_Execute P workspaceID userID deliveryID now =
     thenE (remote (h_perm P workspaceID userID ''webhook.delivery.retry''))
       (bindE (WhDelivery_FindByID workspaceID deliveryID) (\<lambda>d.
          if \<not> CanDeliveryBeRetried (wd_Status d) then ret (Inl (Err WhRetryConflict))
          else bindE (Config_FindByID workspaceID (wd_WebhookID d)) (\<lambda>cfg.
            if wc_Status cfg \<noteq> ''active'' then ret (Inl (Err WhConfigDisabled))
            else thenE (MarkDelivering deliveryID now)
              (bindE (Deliver_Execute P cfg d (wd_AttemptCount d + 1) now) (\<lambda>result.
                 emitDeliveryOutcome P d cfg result (if de_Success result then Succeeded else Failed) now)))))"

definition ListDeliveries_Execute :: "webhook_ports \<Rightarrow> string \<Rightarrow> string \<Rightarrow> DeliveryFilter \<Rightarrow> (WebhookDelivery list \<times> string) wprog" where
  "ListDeliveries_Execute P workspaceID userID f =
     thenE (remote (h_perm P workspaceID userID ''webhook.delivery.read'')) (WhDelivery_ListByWorkspace workspaceID f)"

definition GetDelivery_Execute :: "webhook_ports \<Rightarrow> string \<Rightarrow> string \<Rightarrow> string \<Rightarrow> WebhookDelivery wprog" where
  "GetDelivery_Execute P workspaceID userID deliveryID =
     thenE (remote (h_perm P workspaceID userID ''webhook.delivery.read''))
       (bindE (WhDelivery_FindByID workspaceID deliveryID) (\<lambda>d. do {
          r \<leftarrow> Attempt_ListByDelivery deliveryID;
          ret (Inr (d\<lparr>wd_Attempts := (case r of Inl _ \<Rightarrow> [] | Inr as \<Rightarrow> as)\<rparr>))
        }))"

section \<open>Source events\<close>

text \<open>A message of the broker: no bytes, bytes that are no JSON object, or the fields of the envelope.\<close>

datatype raw_event = RawEmpty | RawMalformed | RawEnvelope Envelope

definition event_payload :: "webhook_ports \<Rightarrow> Envelope \<Rightarrow> json" where
  "event_payload P e = JObj [(''id'', JStr (EventID e)), (''type'', JStr (EventType e)), (''workspace_id'', JStr (WorkspaceID e)),
     (''occurred_at'', JStr (h_rfc3339 P (OccurredAt e))), (''data'', case Payload e of None \<Rightarrow> JNull | Some p \<Rightarrow> p)]"

definition new_delivery :: "webhook_ports \<Rightarrow> Envelope \<Rightarrow> WebhookConfig \<Rightarrow> string \<Rightarrow> gotime \<Rightarrow> WebhookDelivery" where
  "new_delivery P e cfg deliveryID now = \<lparr>wd_ID = deliveryID, wd_WorkspaceID = WorkspaceID e, wd_WebhookID = wc_ID cfg,
     wd_SourceEventID = EventID e, wd_SourceEventType = EventType e, wd_Status = ''pending'', wd_TargetURL = wc_TargetURL cfg,
     wd_AttemptCount = 0, wd_NextAttemptAt = None, wd_LastAttemptAt = None, wd_LastStatusCode = None, wd_LastError = [],
     wd_RequestHeaders = Map.empty, wd_ResponseHeaders = Map.empty, wd_EventPayloadJSON = event_payload P e,
     wd_CreatedAt = now, wd_UpdatedAt = now, wd_Attempts = []\<rparr>"

text \<open>A delivery that cannot be stored is skipped.\<close>

fun create_deliveries :: "webhook_ports \<Rightarrow> Envelope \<Rightarrow> gotime \<Rightarrow> WebhookConfig list \<Rightarrow> unit wprog" where
  "create_deliveries P e now [] = ret (Inr ())"
| "create_deliveries P e now (cfg # cfgs) =
     bindE (idGen (h_gen P)) (\<lambda>deliveryID. do {
       _ \<leftarrow> WhDelivery_Create P (new_delivery P e cfg deliveryID now);
       create_deliveries P e now cfgs
     })"

definition SourceEvent_Execute :: "webhook_ports \<Rightarrow> raw_event \<Rightarrow> gotime \<Rightarrow> unit wprog" where
  "SourceEvent_Execute P raw now = (case raw of
       RawEmpty \<Rightarrow> ret (Inr ())
     | RawMalformed \<Rightarrow> ret (Inl (NonRetryable (ErrLocal ''malformed envelope'')))
     | RawEnvelope e \<Rightarrow>
         if EventType e = [] \<or> WorkspaceID e = [] then ret (Inl (NonRetryable (ErrLocal ''event missing event_type or workspace_id'')))
         else if EventType e \<notin> set AllowedSubscriptionEvents then ret (Inr ())
         else bindE (Config_ListSubscribed (WorkspaceID e) (EventType e)) (create_deliveries P e now))"

section \<open>The worker\<close>

definition MapEnvelopeToSourceEvent :: "Envelope \<Rightarrow> (wh_error, Envelope) result" where
  "MapEnvelopeToSourceEvent e =
     (if EventType e \<notin> set AllowedSubscriptionEvents then Inl (Err WhUnsupportedEventType)
      else if WorkspaceID e = [] then Inl (NonRetryable (Err WhMalformedPayload))
      else Inr e)"

text \<open>\<open>events.Unmarshal\<close> also validates the envelope.\<close>

definition WebhookConsumer_HandleEvent :: "webhook_ports \<Rightarrow> raw_event \<Rightarrow> gotime \<Rightarrow> unit wprog" where
  "WebhookConsumer_HandleEvent P raw now = (case raw of
       RawEnvelope e \<Rightarrow>
         if Validate e \<noteq> None then ret (Inl (NonRetryable ErrEnvelope))
         else (case MapEnvelopeToSourceEvent e of
             Inl err \<Rightarrow> ret (if err = Err WhUnsupportedEventType then Inr () else Inl (NonRetryable err))
           | Inr mapped \<Rightarrow> if WorkspaceID mapped = [] then ret (Inr ()) else SourceEvent_Execute P raw now)
     | _ \<Rightarrow> ret (Inl (NonRetryable ErrEnvelope)))"

text \<open>The deliveries of a batch are processed one after the other, and an error only ends its delivery.\<close>

fun process_claimed :: "webhook_ports \<Rightarrow> gotime \<Rightarrow> WebhookDelivery list \<Rightarrow> (wh_world, unit) state" where
  "process_claimed P now [] = ret ()"
| "process_claimed P now (d # ds) = do {
     _ \<leftarrow> ProcessDelivery_Execute P (wd_WorkspaceID d) (wd_ID d) now;
     process_claimed P now ds
   }"

definition claim_and_process :: "webhook_ports \<Rightarrow> int \<Rightarrow> gotime \<Rightarrow> gotime \<Rightarrow> bool wprog" where
  "claim_and_process P limit due now = bindE (ClaimPendingDeliveries limit due) (\<lambda>ds. do {
     _ \<leftarrow> process_claimed P now ds;
     ret (Inr (ds \<noteq> []))
   })"

definition Poll :: "webhook_ports \<Rightarrow> int \<Rightarrow> gotime \<Rightarrow> bool wprog" where
  "Poll P batchSize now = claim_and_process P batchSize now now"

text \<open>
  The consumer of the scheduler's events does the same with the limit and the instant of its payload; an instant it cannot parse is
  replaced by its clock.
\<close>

record DueDeliveriesProcessPayload =
  dp_Limit :: int
  dp_Now :: string

definition decode_due :: "json \<Rightarrow> DueDeliveriesProcessPayload option" where
  "decode_due j = (case (num_field ''limit'' j, str_field ''now'' j) of
       (Some n, Some t) \<Rightarrow> Some \<lparr>dp_Limit = n, dp_Now = t\<rparr> | _ \<Rightarrow> None)"

definition DueWebhookConsumer_HandleEvent :: "webhook_ports \<Rightarrow> raw_event \<Rightarrow> gotime \<Rightarrow> unit wprog" where
  "DueWebhookConsumer_HandleEvent P raw clock = (case raw of
       RawEnvelope e \<Rightarrow>
         if Validate e \<noteq> None then ret (Inl (NonRetryable ErrEnvelope))
         else (case Option.bind (Payload e) decode_due of
             None \<Rightarrow> ret (Inl (NonRetryable (ErrLocal ''payload'')))
           | Some p \<Rightarrow> thenE (claim_and_process P (dp_Limit p) (case h_parse_time P (dp_Now p) of None \<Rightarrow> clock | Some t \<Rightarrow> t) clock)
               (ret (Inr ())))
     | _ \<Rightarrow> ret (Inl (NonRetryable ErrEnvelope)))"

end
