(* ===== verification/Webhook_Effects.thy ===== *)
theory Webhook_Effects
  imports Webhooks Atomic
begin

text \<open>
  What the handlers of the module \<open>webhooks\<close> do to the tables and to the log of requests. \<open>does d ps C f\<close>: started on the tables \<open>d\<close>
  with the requests \<open>ps\<close>, whatever result, tables and requests \<open>f\<close> leaves satisfy \<open>C\<close>. The rules are weakest preconditions: they go through
  a program backwards.
\<close>

section \<open>Weakest preconditions\<close>

definition does :: "webhook_db \<Rightarrow> post list \<Rightarrow> ('r \<Rightarrow> webhook_db \<Rightarrow> post list \<Rightarrow> bool) \<Rightarrow> (wh_world, 'r) state \<Rightarrow> bool" where
  "does d ps C f \<longleftrightarrow> (\<forall>w r w'. store w = d \<longrightarrow> posts w = ps \<longrightarrow> run_state f w = (r, w') \<longrightarrow> C r (store w') (posts w'))"

lemma doesI:
  "(\<And>w r w'. store w = d \<Longrightarrow> posts w = ps \<Longrightarrow> run_state f w = (r, w') \<Longrightarrow> C r (store w') (posts w')) \<Longrightarrow> does d ps C f"
  unfolding does_def by blast

lemma doesD: "does (store w) (posts w) C f \<Longrightarrow> run_state f w = (r, w') \<Longrightarrow> C r (store w') (posts w')"
  unfolding does_def by blast

lemma does_mono: "does d ps C f \<Longrightarrow> (\<And>r d' ps'. C r d' ps' \<Longrightarrow> C' r d' ps') \<Longrightarrow> does d ps C' f"
  unfolding does_def by blast

lemma does_ret: "C a d ps \<Longrightarrow> does d ps C (ret a)"
  by (simp add: does_def)

lemma does_bind:
  assumes "does d ps (\<lambda>a d1 ps1. does d1 ps1 C (g a)) f"
  shows "does d ps C (State_Monad.bind f g)"
proof (rule doesI)
  fix w r w' assume st: "store w = d" "posts w = ps" and run: "run_state (State_Monad.bind f g) w = (r, w')"
  obtain a v where f: "run_state f w = (a, v)" by fastforce
  with assms st have "does (store v) (posts v) C (g a)" by (auto dest: doesD)
  moreover from run f have "run_state (g a) v = (r, w')" by simp
  ultimately show "C r (store w') (posts w')" by (rule doesD)
qed

lemma does_bindE:
  assumes "does d ps (\<lambda>r d1 ps1. case r of Inl e \<Rightarrow> C (Inl e) d1 ps1 | Inr a \<Rightarrow> does d1 ps1 C (g a)) f"
  shows "does d ps C (bindE f g)"
  unfolding bindE_def
  by (rule does_bind) (rule does_mono [OF assms], auto split: sum.splits intro: does_ret)

lemma does_thenE:
  "does d ps (\<lambda>r d1 ps1. case r of Inl e \<Rightarrow> C (Inl e) d1 ps1 | Inr a \<Rightarrow> does d1 ps1 C g) f \<Longrightarrow> does d ps C (thenE f g)"
  unfolding thenE_def by (rule does_bindE)

lemma does_query: "(\<And>r. answers (q d) r \<Longrightarrow> C r d ps) \<Longrightarrow> does d ps C (exec (\<lambda>d. SqlOk (q d) d))"
  by (rule doesI) (auto simp: answers_def exec_def next_outcome_def split: list.splits if_splits)

lemma does_lookup:
  assumes "\<And>a. q d = Inr a \<Longrightarrow> does d ps C (g a)" and "\<And>e. C (Inl e) d ps"
  shows "does d ps C (bindE (exec (\<lambda>d. SqlOk (q d) d)) g)"
  using assms by (intro does_bindE does_query) (auto split: sum.splits)

lemma does_exec:
  assumes "\<And>e. C (Inl e) d ps" and "\<And>r d1. q d = SqlOk r d1 \<Longrightarrow> C r d1 ps \<and> (\<forall>e. C (Inl e) d1 ps)"
  shows "does d ps C (exec q)"
  by (rule doesI) (use assms in \<open>auto simp: exec_def next_outcome_def split: list.splits if_splits sql.splits\<close>)

lemma does_idGen: "(\<And>e. C (Inl e) d ps) \<Longrightarrow> (\<And>i. C (Inr i) d ps) \<Longrightarrow> does d ps C (idGen gen)"
  by (rule doesI) (auto simp: idGen_def next_outcome_def split: list.splits if_splits)

lemma does_remote: "C answer d ps \<Longrightarrow> C (Inl ErrDriver) d ps \<Longrightarrow> does d ps C (remote answer)"
  by (rule doesI) (auto simp: remote_def next_outcome_def split: list.splits if_splits)

lemma does_WithinTx:
  assumes "\<And>e. C (Inl e) d ps"
    and "does d ps (\<lambda>r d1 ps1. case r of Inl e \<Rightarrow> C (Inl e) d ps1
      | Inr a \<Rightarrow> C (Inr a) d1 ps1 \<and> (\<forall>e. C (Inl e) d1 ps1) \<and> (\<forall>e. C (Inl e) d ps1)) body"
  shows "does d ps C (WithinTx body)"
proof (rule doesI)
  fix w r w' assume st: "store w = d" "posts w = ps" and run: "run_state (WithinTx body) w = (r, w')"
  obtain x w1 where 1: "run_state next_outcome w = (x, w1)" by fastforce
  obtain s w2 where 2: "run_state body (w1\<lparr>in_tx := True, aborted := False\<rparr>) = (s, w2)" by fastforce
  obtain y w3 where 3: "run_state next_outcome w2 = (y, w3)" by fastforce
  have w1: "store w1 = d" "posts w1 = ps" and w3: "store w3 = store w2" "posts w3 = posts w2"
    using 1 3 st by (auto simp: next_outcome_def split: list.splits)
  have "case s of Inl e \<Rightarrow> C (Inl e) d (posts w2)
      | Inr a \<Rightarrow> C (Inr a) (store w2) (posts w2) \<and> (\<forall>e. C (Inl e) (store w2) (posts w2)) \<and> (\<forall>e. C (Inl e) d (posts w2))"
    by (rule doesD [OF _ 2]) (use assms(2) w1 in simp)
  with run 1 2 3 st w1 w3 assms(1) show "C r (store w') (posts w')"
    by (cases "x = OK"; cases s; cases "aborted w2"; cases y) (auto simp: WithinTx_def rollback_def)
qed

lemma does_if: "(b \<Longrightarrow> does d ps C f) \<Longrightarrow> (\<not> b \<Longrightarrow> does d ps C g) \<Longrightarrow> does d ps C (if b then f else g)"
  by simp

lemma does_case_sum:
  "(\<And>e. x = Inl e \<Longrightarrow> does d ps C (f e)) \<Longrightarrow> (\<And>a. x = Inr a \<Longrightarrow> does d ps C (g a)) \<Longrightarrow>
   does d ps C (case x of Inl e \<Rightarrow> f e | Inr a \<Rightarrow> g a)"
  by (cases x) simp_all

lemma does_case_prod: "(\<And>a b. x = (a, b) \<Longrightarrow> does d ps C (f a b)) \<Longrightarrow> does d ps C (case x of (a, b) \<Rightarrow> f a b)"
  by (cases x) simp

lemma does_Let: "(\<And>x. x = a \<Longrightarrow> does d ps C (f x)) \<Longrightarrow> does d ps C (Let a f)"
  by simp

lemma wh_found_eq [simp]: "wh_found e x = Inr y \<longleftrightarrow> x = Some y" "wh_found e x = Inl e' \<longleftrightarrow> x = None \<and> e' = Err e"
  by (auto simp: wh_found_def split: option.splits)

text \<open>Programs that make no request: what is said of the tables is independent of the result.\<close>

lemma silent_thenE:
  assumes "does d ps (\<lambda>_ d' ps'. ps' = ps \<and> R d') f" and "\<And>d1. R d1 \<Longrightarrow> does d1 ps (\<lambda>_ d' ps'. ps' = ps \<and> R d') g"
  shows "does d ps (\<lambda>_ d' ps'. ps' = ps \<and> R d') (thenE f g)"
  by (rule does_thenE) (rule does_mono [OF assms(1)], auto split: sum.splits intro: assms(2))

lemma silent_tx:
  assumes "R d" and "does d ps (\<lambda>_ d' ps'. ps' = ps \<and> R d') body"
  shows "does d ps (\<lambda>_ d' ps'. ps' = ps \<and> R d') (WithinTx body)"
  using assms(1) by (intro does_WithinTx does_mono [OF assms(2)]) (auto split: sum.splits)

section \<open>Requests\<close>

lemma dial_public: "dialContext P host = Inr a \<Longrightarrow> \<not> IsPrivateIP a"
  by (auto simp: dialContext_def split: option.splits list.splits if_splits)

lemma does_Deliver:
  assumes "\<And>r. C r d ps"
    and "\<And>r a. \<not> IsPrivateIP a \<Longrightarrow> C r d (ps @ [\<lparr>po_DeliveryID = i, po_Request = req, po_IP = a\<rparr>])"
  shows "does d ps C (Deliver P i req)"
  by (rule doesI)
    (use assms in \<open>auto simp: Deliver_def Let_def next_outcome_def dest!: dial_public split: option.splits sum.splits prod.splits list.splits if_splits\<close>)

text \<open>
  The request a receiver can check: to the URL of the webhook, with the payload of the delivery, the id of its event and the time, and
  with the HMAC of time and payload under the key of the webhook, in hexadecimal.
\<close>

definition due_request :: "webhook_ports \<Rightarrow> WebhookConfig \<Rightarrow> WebhookDelivery \<Rightarrow> gotime \<Rightarrow> DeliveryHTTPRequest" where
  "due_request P cfg r now = \<lparr>rq_URL = wc_TargetURL cfg, rq_Body = h_json P (wd_EventPayloadJSON r),
     rq_SignatureValue = hex_encode (map of_char
       (c_hmac256 (h_crypto P) (wc_SecretHash cfg) (h_itoa P (Unix now) @ h_json P (wd_EventPayloadJSON r)))),
     rq_TimestampValue = h_itoa P (Unix now), rq_EventIDValue = wd_SourceEventID r\<rparr>"

lemma signed_request_due: "signed_request P cfg r now = due_request P cfg r now"
  by (simp add: signed_request_def due_request_def SignPayloadRaw_def Let_def)

text \<open>A request for the delivery \<open>r\<close> of an active webhook of its workspace, to the URL of the webhook, signed with its key.\<close>

definition authorized :: "webhook_ports \<Rightarrow> webhook_db \<Rightarrow> string \<Rightarrow> string \<Rightarrow> gotime \<Rightarrow> post \<Rightarrow> bool" where
  "authorized P d ws i now p \<longleftrightarrow> (\<exists>r\<in>set (deliveries d). \<exists>cfg\<in>set (configs d). wd_ID r = i \<and> wd_WorkspaceID r = ws \<and>
     wc_ID cfg = wd_WebhookID r \<and> wc_WorkspaceID cfg = ws \<and> wc_Status cfg = ''active'' \<and>
     p = \<lparr>po_DeliveryID = i, po_Request = due_request P cfg r now, po_IP = po_IP p\<rparr> \<and> \<not> IsPrivateIP (po_IP p))"

text \<open>The end of an attempt: the row of the delivery gets a final status, or is due again while it has fewer than five attempts.\<close>

definition core :: "WebhookDelivery \<Rightarrow> string \<times> string \<times> string \<times> string \<times> json" where
  "core r = (wd_ID r, wd_WorkspaceID r, wd_WebhookID r, wd_SourceEventID r, wd_EventPayloadJSON r)"

definition outcome_of :: "WebhookDelivery \<Rightarrow> WebhookDelivery \<Rightarrow> bool" where
  "outcome_of r r' \<longleftrightarrow> core r' = core r \<and> wd_AttemptCount r' = wd_AttemptCount r \<and>
     (wd_Status r' = ''succeeded'' \<or> wd_Status r' = ''failed'' \<or> wd_Status r' = ''retry_scheduled'' \<and> wd_AttemptCount r < 5)"

definition settles :: "string \<Rightarrow> webhook_db \<Rightarrow> webhook_db \<Rightarrow> bool" where
  "settles i d d' \<longleftrightarrow> configs d' = configs d \<and> (deliveries d' = deliveries d \<or>
     (\<exists>f. deliveries d' = update_where (\<lambda>r. wd_ID r = i) f (deliveries d) \<and>
       (\<forall>r\<in>set (deliveries d). wd_ID r = i \<longrightarrow> f r = r \<or> outcome_of r (f r))))"

lemma settles_refl [simp]: "settles i d d"
  by (simp add: settles_def)

lemma settles_update:
  assumes "\<And>r. r \<in> set (deliveries d) \<Longrightarrow> wd_ID r = i \<Longrightarrow> hit r \<Longrightarrow> outcome_of r (f r)"
  shows "settles i d (d\<lparr>deliveries := update_where (\<lambda>r. wd_ID r = i \<and> hit r) f (deliveries d)\<rparr>)"
  unfolding settles_def using assms
  by (auto simp: update_where_def intro!: exI [of _ "\<lambda>r. if hit r then f r else r"])

lemma does_update_delivery:
  assumes "\<And>r. r \<in> set (deliveries d) \<Longrightarrow> wd_ID r = i \<Longrightarrow> hit r \<Longrightarrow> outcome_of r (f r)"
  shows "does d ps (\<lambda>r d' ps'. ps' = ps \<and> settles i d d') (update_delivery e (\<lambda>r. wd_ID r = i \<and> hit r) f)"
  unfolding update_delivery_def by (rule does_exec) (auto intro!: settles_update assms)

lemma does_failed: "does d ps (\<lambda>r d' ps'. ps' = ps \<and> settles i d d') (WhMarkFailed P i result)"
  unfolding WhMarkFailed_def using does_update_delivery [of d i "\<lambda>_. True"] by (simp add: outcome_of_def core_def)

lemma does_mark:
  assumes "\<And>t r. out = RetryAt t \<Longrightarrow> r \<in> set (deliveries d) \<Longrightarrow> wd_ID r = i \<Longrightarrow> wd_AttemptCount r < 5"
  shows "does d ps (\<lambda>r d' ps'. ps' = ps \<and> settles i d d') (mark_outcome P i result out)"
proof (cases out)
  case Succeeded
  then show ?thesis unfolding mark_outcome_def MarkSucceeded_def
    using does_update_delivery [of d i "\<lambda>_. True"] by (simp add: outcome_of_def core_def)
next
  case (RetryAt t)
  with assms show ?thesis unfolding mark_outcome_def ScheduleRetry_def
    by (simp, intro does_update_delivery) (simp add: outcome_of_def core_def)
next
  case Failed
  then show ?thesis by (simp add: mark_outcome_def does_failed)
qed

text \<open>Attempts and events are written beside the deliveries.\<close>

lemma does_aside:
  "does d1 ps (\<lambda>r d' ps'. ps' = ps \<and> configs d' = configs d1 \<and> deliveries d' = deliveries d1) (Attempt_Create a)"
  "does d1 ps (\<lambda>r d' ps'. ps' = ps \<and> configs d' = configs d1 \<and> deliveries d' = deliveries d1) (save_event P at ai et pl ws now)"
  unfolding Attempt_Create_def save_event_def Webhook_Outbox_Save_def
  by (auto intro!: does_exec does_if does_ret does_bindE does_idGen split: if_splits)

lemma settles_aside: "settles i d d1 \<Longrightarrow> configs d2 = configs d1 \<Longrightarrow> deliveries d2 = deliveries d1 \<Longrightarrow> settles i d d2"
  by (simp add: settles_def)

lemma does_emit:
  assumes "\<And>t r. out = RetryAt t \<Longrightarrow> r \<in> set (deliveries d) \<Longrightarrow> wd_ID r = wd_ID row \<Longrightarrow> wd_AttemptCount r < 5"
  shows "does d ps (\<lambda>r d' ps'. ps' = ps \<and> settles (wd_ID row) d d') (emitDeliveryOutcome P row cfg result out now)"
proof -
  have rest: "does d1 ps (\<lambda>r d' ps'. ps' = ps \<and> settles (wd_ID row) d d') (thenE (Attempt_Create a) (save_event P at ai et pl ws t))"
    if "settles (wd_ID row) d d1" for d1 a at ai et pl ws t
    using that by (intro silent_thenE does_mono [OF does_aside(1)] does_mono [OF does_aside(2)]) (auto intro: settles_aside)
  show ?thesis unfolding emitDeliveryOutcome_def
    by (intro silent_tx silent_thenE [OF does_mark] rest assms) simp_all
qed

definition attempt_logged :: "webhook_ports \<Rightarrow> webhook_db \<Rightarrow> string \<Rightarrow> string \<Rightarrow> gotime \<Rightarrow> post list \<Rightarrow> post list \<Rightarrow> bool" where
  "attempt_logged P d ws i now ps ps' \<longleftrightarrow> ps' = ps \<or> (\<exists>p. authorized P d ws i now p \<and> ps' = ps @ [p])"

lemma attempt_logged_refl [simp]: "attempt_logged P d ws i now ps ps"
  by (simp add: attempt_logged_def)

lemma does_attempt:
  assumes row: "row \<in> set (deliveries d)" "wd_ID row = i" "wd_WorkspaceID row = ws"
    and cfg: "cfg \<in> set (configs d)" "wc_ID cfg = wd_WebhookID row" "wc_WorkspaceID cfg = ws" "wc_Status cfg = ''active''"
    and C: "\<And>r ps'. attempt_logged P d ws i now ps ps' \<Longrightarrow> C r d1 ps'"
  shows "does d1 ps C (Deliver_Execute P cfg row n now)"
proof -
  have log: "attempt_logged P d ws i now ps (ps @ [\<lparr>po_DeliveryID = wd_ID row, po_Request = due_request P cfg row now, po_IP = a\<rparr>])"
    if "\<not> IsPrivateIP a" for a
    using that row cfg unfolding attempt_logged_def authorized_def
    by (intro disjI2 exI [of _ "\<lparr>po_DeliveryID = wd_ID row, po_Request = due_request P cfg row now, po_IP = a\<rparr>"]) auto
  show ?thesis unfolding Deliver_Execute_def signed_request_due
    by (intro does_bind does_Deliver does_bindE does_idGen) (auto intro!: does_ret C log)
qed

lemma processes:
  assumes keys: "distinct (map wd_ID (deliveries d))"
  shows "does d ps (\<lambda>_ d' ps'. settles i d d' \<and> attempt_logged P d ws i now ps ps') (ProcessDelivery_Execute P ws i now)"
    (is "does d ps ?C _")
  unfolding ProcessDelivery_Execute_def WhDelivery_FindByID_def Config_FindByID_def
proof (intro does_lookup)
  fix row cfg
  assume "wh_found WhDeliveryNotFound (find (\<lambda>r. wd_ID r = i \<and> wd_WorkspaceID r = ws) (deliveries d)) = Inr row"
    "wh_found WhConfigNotFound (find (\<lambda>r. wc_ID r = wd_WebhookID row \<and> wc_WorkspaceID r = wd_WorkspaceID row) (configs d)) = Inr cfg"
  then have row: "row \<in> set (deliveries d)" "wd_ID row = i" "wd_WorkspaceID row = ws"
    and cfg: "cfg \<in> set (configs d)" "wc_ID cfg = wd_WebhookID row" "wc_WorkspaceID cfg = ws" by (auto dest: find_SomeD)
  have one: "r = row" if "r \<in> set (deliveries d)" "wd_ID r = wd_ID row" for r
    using keys row that by (auto simp: distinct_map inj_on_def)
  have rec: "does d ps' ?C (recordDeliveryOutcome P row cfg (wd_AttemptCount row) result now)"
    if "attempt_logged P d ws i now ps ps'" for ps' result
    unfolding recordDeliveryOutcome_def Let_def using that row
    by (intro does_thenE does_mono [OF does_emit]) (auto dest: one simp: maxWebhookRetries_def split: sum.splits if_splits intro!: does_ret)
  show "does d ps ?C (if wc_Status cfg \<noteq> ''active'' then thenE (WhMarkFailed P i \<lparr>dr_StatusCode = 0, dr_DurationMs = 0,
      dr_Error = ''webhook config disabled'', dr_RequestHeaders = Map.empty, dr_ResponseHeaders = Map.empty\<rparr>) (ret (Inr Failed))
    else bindE (Deliver_Execute P cfg row (wd_AttemptCount row) now) (\<lambda>result.
        recordDeliveryOutcome P row cfg (wd_AttemptCount row) result now))"
    by (intro does_if does_thenE does_mono [OF does_failed] does_bindE does_attempt [OF row cfg])
      (auto split: sum.splits intro!: does_ret rec)
qed simp_all

text \<open>A retry on demand first counts the attempt.\<close>

definition marked :: "string set \<Rightarrow> gotime \<Rightarrow> webhook_db \<Rightarrow> webhook_db" where
  "marked I now d = d\<lparr>deliveries := update_where (\<lambda>r. wd_ID r \<in> I) (attempted now) (deliveries d)\<rparr>"

definition retry_ok :: "webhook_ports \<Rightarrow> webhook_db \<Rightarrow> string \<Rightarrow> string \<Rightarrow> string \<Rightarrow> bool" where
  "retry_ok P d ws user i \<longleftrightarrow> h_perm P ws user ''webhook.delivery.retry'' = Inr () \<and>
     (\<exists>r\<in>set (deliveries d). wd_ID r = i \<and> wd_WorkspaceID r = ws \<and> CanDeliveryBeRetried (wd_Status r))"

lemma retries:
  "does d ps (\<lambda>_ d' ps'. d' = d \<and> ps' = ps \<or>
      retry_ok P d ws user i \<and> settles i (marked {i} now d) d' \<and> attempt_logged P d ws i now ps ps') (RetryDelivery_Execute P ws user i now)"
    (is "does d ps ?C _")
proof (cases "h_perm P ws user ''webhook.delivery.retry''")
  case (Inl e)
  then show ?thesis unfolding RetryDelivery_Execute_def Inl by (intro does_thenE does_remote) simp_all
next
  case (Inr u)
  then have perm: "h_perm P ws user ''webhook.delivery.retry'' = Inr ()" by simp
  have body: "does d ps ?C (if \<not> CanDeliveryBeRetried (wd_Status row) then ret (Inl (Err WhRetryConflict)) else
      bindE (exec (\<lambda>d. SqlOk (wh_found WhConfigNotFound (find (\<lambda>r. wc_ID r = wd_WebhookID row \<and> wc_WorkspaceID r = ws) (configs d))) d)) (\<lambda>cfg.
        if wc_Status cfg \<noteq> ''active'' then ret (Inl (Err WhConfigDisabled))
        else thenE (MarkDelivering i now) (bindE (Deliver_Execute P cfg row (wd_AttemptCount row + 1) now) (\<lambda>result.
          emitDeliveryOutcome P row cfg result (if de_Success result then Succeeded else Failed) now))))"
    if row: "row \<in> set (deliveries d)" "wd_ID row = i" "wd_WorkspaceID row = ws" for row
  proof (intro does_if does_lookup)
    fix cfg assume st: "\<not> \<not> CanDeliveryBeRetried (wd_Status row)" "\<not> wc_Status cfg \<noteq> ''active''"
      and "wh_found WhConfigNotFound (find (\<lambda>r. wc_ID r = wd_WebhookID row \<and> wc_WorkspaceID r = ws) (configs d)) = Inr cfg"
    then have cfg: "cfg \<in> set (configs d)" "wc_ID cfg = wd_WebhookID row" "wc_WorkspaceID cfg = ws" "wc_Status cfg = ''active''"
      by (auto dest: find_SomeD)
    have ok: "retry_ok P d ws user i" using row st perm by (auto simp: retry_ok_def)
    have rec: "does (marked {i} now d) ps' ?C (emitDeliveryOutcome P row cfg result out now)"
      if "attempt_logged P d ws i now ps ps'" "\<And>t. out \<noteq> RetryAt t" for ps' result out
      using that row ok by (intro does_mono [OF does_emit]) auto
    have "does (marked {i} now d) ps ?C (bindE (Deliver_Execute P cfg row (wd_AttemptCount row + 1) now) (\<lambda>result.
          emitDeliveryOutcome P row cfg result (if de_Success result then Succeeded else Failed) now))"
    proof (intro does_bindE does_attempt [OF row cfg])
      fix r ps' assume "attempt_logged P d ws i now ps ps'"
      with ok rec [OF this] show "case r of Inl e \<Rightarrow> ?C (Inl e) (marked {i} now d) ps' | Inr result \<Rightarrow> does (marked {i} now d) ps' ?C
          (emitDeliveryOutcome P row cfg result (if de_Success result then Succeeded else Failed) now)"
        by (cases r) simp_all
    qed
    moreover have "MarkDelivering i now = exec (\<lambda>d. SqlOk (if has wd_ID i (deliveries d) then Inr () else Inl (Err WhDeliveryNotFound))
        (marked {i} now d))"
      by (simp add: MarkDelivering_def update_delivery_def marked_def)
    ultimately show "does d ps ?C (thenE (MarkDelivering i now) (bindE (Deliver_Execute P cfg row (wd_AttemptCount row + 1) now) (\<lambda>result.
          emitDeliveryOutcome P row cfg result (if de_Success result then Succeeded else Failed) now)))"
      using ok by (simp, intro does_thenE does_exec) (auto split: sum.splits if_splits)
  qed (auto intro: does_ret)
  show ?thesis unfolding RetryDelivery_Execute_def WhDelivery_FindByID_def Config_FindByID_def perm
    by (intro does_thenE does_remote, simp_all, intro does_lookup body) (auto dest: find_SomeD)
qed

text \<open>New deliveries are pending and have keys of their own.\<close>

definition adds :: "webhook_db \<Rightarrow> webhook_db \<Rightarrow> bool" where
  "adds d d' \<longleftrightarrow> configs d' = configs d \<and> (\<exists>rs. deliveries d' = deliveries d @ rs \<and>
     list_all (\<lambda>r. wd_Status r = ''pending'' \<and> wd_AttemptCount r = 0) rs \<and>
     (distinct (map wd_ID (deliveries d)) \<longrightarrow> distinct (map wd_ID (deliveries d'))) \<and>
     (distinct (map (\<lambda>r. (wd_WebhookID r, wd_SourceEventID r)) (deliveries d)) \<longrightarrow>
        distinct (map (\<lambda>r. (wd_WebhookID r, wd_SourceEventID r)) (deliveries d'))))"

lemma adds_refl [simp]: "adds d d"
  by (auto simp: adds_def intro!: exI [of _ "[]"])

lemma adds_trans: "adds d d1 \<Longrightarrow> adds d1 d2 \<Longrightarrow> adds d d2"
  unfolding adds_def by auto

lemma does_create_delivery:
  assumes "wd_Status r = ''pending''" "wd_AttemptCount r = 0"
  shows "does d ps (\<lambda>_ d' ps'. ps' = ps \<and> adds d d') (WhDelivery_Create P r)"
proof -
  have "adds d (d\<lparr>deliveries := deliveries d @ [r\<lparr>wd_SourceEventID := u, wd_Attempts := []\<rparr>]\<rparr>)"
    if "\<not> list_ex (\<lambda>x. wd_WebhookID x = wd_WebhookID r \<and> wd_SourceEventID x = u) (deliveries d)" "\<not> has wd_ID (wd_ID r) (deliveries d)" for u
    using that assms by (auto simp: adds_def list_ex_iff)
  then show ?thesis unfolding WhDelivery_Create_def by (intro does_exec) (auto split: option.splits if_splits)
qed

lemma does_create_deliveries: "does d ps (\<lambda>_ d' ps'. ps' = ps \<and> adds d d') (create_deliveries P e now cfgs)"
proof (induction cfgs arbitrary: d)
  case (Cons cfg cfgs)
  have new: "wd_Status (new_delivery P e cfg i now) = ''pending''" "wd_AttemptCount (new_delivery P e cfg i now) = 0" for i
    by (simp_all add: new_delivery_def)
  show ?case
    by (simp, intro does_bindE does_idGen)
      (auto intro!: does_bind does_mono [OF does_create_delivery [OF new]] does_mono [OF Cons.IH] intro: adds_trans)
qed (simp add: does_ret)

lemma handles_event: "does d ps (\<lambda>_ d' ps'. ps' = ps \<and> adds d d') (WebhookConsumer_HandleEvent P raw now)"
proof -
  have "does d ps (\<lambda>_ d' ps'. ps' = ps \<and> adds d d') (SourceEvent_Execute P (RawEnvelope e) now)" for e
    unfolding SourceEvent_Execute_def Config_ListSubscribed_def
    by (auto intro!: does_ret does_if does_lookup does_create_deliveries)
  then show ?thesis unfolding WebhookConsumer_HandleEvent_def
    by (auto intro!: does_ret does_if does_case_sum split: raw_event.splits)
qed

text \<open>The batch of the worker is claimed in one statement; the commands on webhooks leave the deliveries alone.\<close>

lemma does_claim:
  assumes "C (Inl ErrDriver) d ps" "C (Inl ErrTxAborted) d ps"
    and "\<And>ids r. ids = set (due_deliveries (nat limit) now d) \<Longrightarrow>
      r = Inl ErrDriver \<or> r = Inr (filter (\<lambda>x. wd_ID x \<in> ids) (deliveries (marked ids now d))) \<Longrightarrow> C r (marked ids now d) ps"
  shows "does d ps C (ClaimPendingDeliveries limit now)"
  by (rule doesI) (use assms in \<open>auto simp: ClaimPendingDeliveries_def marked_def exec_def next_outcome_def Let_def
    split: list.splits if_splits sql.splits\<close>)

abbreviation quiet :: "webhook_db \<Rightarrow> post list \<Rightarrow> 'r \<Rightarrow> webhook_db \<Rightarrow> post list \<Rightarrow> bool" where
  "quiet d ps \<equiv> \<lambda>_ d' ps'. ps' = ps \<and> deliveries d' = deliveries d"

lemma does_configuring:
  assumes "\<And>r d1. q d = SqlOk r d1 \<Longrightarrow> deliveries d1 = deliveries d"
  shows "does d ps (quiet d ps) (WithinTx (thenE (exec q) (save_event P at i et pl ws now)))"
  using assms by (intro silent_tx silent_thenE does_exec does_mono [OF does_aside(2)]) auto

lemma does_checked:
  "does d ps (quiet d ps) f \<Longrightarrow> does d ps (quiet d ps) (thenE (remote answer) f)"
  by (intro does_thenE does_remote) (auto split: sum.splits)

lemma does_reported: "does d ps (quiet d ps) f \<Longrightarrow> does d ps (quiet d ps) (thenE f (ret r))"
  by (intro does_thenE) (erule does_mono, auto split: sum.splits intro: does_ret)

lemma does_secret:
  "(\<And>raw hash hint. does d ps (quiet d ps) (f (raw, hash, hint))) \<Longrightarrow> does d ps (quiet d ps) (bindE (GenerateSecret P) f)"
  unfolding GenerateSecret_def Let_def by (intro does_bindE does_idGen) (auto intro: does_ret)

lemma configures:
  "does d ps (quiet d ps) (CreateConfig_Execute P create now)"
  "does d ps (quiet d ps) (UpdateConfig_Execute P update now)"
  "does d ps (quiet d ps) (DisableConfig_Execute P ws user i now)"
  "does d ps (quiet d ps) (RotateSecret_Execute P ws user i now)"
proof -
  have ups: "does d ps (quiet d ps) (WithinTx (thenE (Config_Create c) (save_event P at j et pl w t)))"
    "does d ps (quiet d ps) (WithinTx (thenE (Config_Update c) (save_event P at j et pl w t)))"
    "does d ps (quiet d ps) (WithinTx (thenE (Config_Disable v k u) (save_event P at j et pl w t)))" for c at j et pl w t v k u
    unfolding Config_Create_def Config_Update_def Config_Disable_def
    by (intro does_configuring; auto simp: Let_def split: if_splits)+
  show "does d ps (quiet d ps) (CreateConfig_Execute P create now)"
    unfolding CreateConfig_Execute_def
    by (intro does_checked does_Let does_case_sum does_ret does_bindE [OF does_idGen])
      (auto intro!: does_secret does_reported ups simp: Let_def)
  show "does d ps (quiet d ps) (UpdateConfig_Execute P update now)"
    unfolding UpdateConfig_Execute_def Config_FindByID_def
    by (intro does_checked does_lookup does_Let does_case_sum does_ret does_reported ups) simp_all
  show "does d ps (quiet d ps) (DisableConfig_Execute P ws user i now)"
    unfolding DisableConfig_Execute_def by (intro does_checked ups)
  show "does d ps (quiet d ps) (RotateSecret_Execute P ws user i now)"
    unfolding RotateSecret_Execute_def Config_FindByID_def
    by (intro does_checked does_lookup) (auto intro!: does_secret does_reported ups simp: Let_def)
qed

end
