(* ===== verification/Webhook_Safety.thy ===== *)
theory Webhook_Safety
  imports Webhook_Effects Identity_Safety
begin

text \<open>
  Sequences of the commands of the module \<open>webhooks\<close>, and the interface of a statement that every command keeps: the laws follow the
  ways a command changes a delivery (\<open>Webhook_Effects\<close>). Two instances are of interest: the bound on attempts and a delivery that nobody touches.
\<close>

section \<open>Commands\<close>

datatype wh_command =
    CreateWebhook CreateCommand
  | UpdateWebhook UpdateCommand
  | DisableWebhook string string string
  | RotateSecret string string string
  | SourceEvent raw_event
  | PollDeliveries int
  | DueEvent raw_event
  | RetryDelivery string string string

definition run_wh :: "webhook_ports \<Rightarrow> wh_command \<Rightarrow> gotime \<Rightarrow> (wh_world, unit) state" where
  "run_wh P c now = (case c of
       CreateWebhook cmd \<Rightarrow> do { _ \<leftarrow> CreateConfig_Execute P cmd now; ret () }
     | UpdateWebhook cmd \<Rightarrow> do { _ \<leftarrow> UpdateConfig_Execute P cmd now; ret () }
     | DisableWebhook ws user i \<Rightarrow> do { _ \<leftarrow> DisableConfig_Execute P ws user i now; ret () }
     | RotateSecret ws user i \<Rightarrow> do { _ \<leftarrow> RotateSecret_Execute P ws user i now; ret () }
     | SourceEvent raw \<Rightarrow> do { _ \<leftarrow> WebhookConsumer_HandleEvent P raw now; ret () }
     | PollDeliveries batchSize \<Rightarrow> do { _ \<leftarrow> Poll P batchSize now; ret () }
     | DueEvent raw \<Rightarrow> do { _ \<leftarrow> DueWebhookConsumer_HandleEvent P raw now; ret () }
     | RetryDelivery ws user i \<Rightarrow> do { _ \<leftarrow> RetryDelivery_Execute P ws user i now; ret () })"

fun wh_run :: "webhook_ports \<Rightarrow> (wh_command \<times> gotime) list \<Rightarrow> wh_world \<Rightarrow> wh_world" where
  "wh_run P [] w = w"
| "wh_run P ((c, now) # cs) w = wh_run P cs (snd (run_state (run_wh P c now) w))"

definition is_retry :: "string \<Rightarrow> wh_command \<Rightarrow> bool" where
  "is_retry i c = (case c of RetryDelivery ws user j \<Rightarrow> j = i | _ \<Rightarrow> False)"

definition retry_commands :: "string \<Rightarrow> (wh_command \<times> gotime) list \<Rightarrow> nat" where
  "retry_commands i cs = length (filter (\<lambda>(c, now). is_retry i c) cs)"

definition posts_of :: "string \<Rightarrow> post list \<Rightarrow> post list" where
  "posts_of i ps = filter (\<lambda>p. po_DeliveryID p = i) ps"

section \<open>What every command keeps\<close>

definition logged :: "string \<Rightarrow> post list \<Rightarrow> post list \<Rightarrow> bool" where
  "logged i ps ps' \<longleftrightarrow> ps' = ps \<or> (\<exists>p. po_DeliveryID p = i \<and> ps' = ps @ [p])"

lemma logged_attempt: "attempt_logged P d ws i now ps ps' \<Longrightarrow> logged i ps ps'"
  unfolding attempt_logged_def logged_def authorized_def by (metis post.select_convs(1))

lemma does_drop: "does d ps (\<lambda>_ d' ps'. C () d' ps') f \<Longrightarrow> does d ps C (do { _ \<leftarrow> f; ret () })"
  by (rule does_bind) (erule does_mono, rule does_ret)

lemma does_due_event:
  assumes "\<And>e. C (Inl e) d ps" and "\<And>n t. does d ps (\<lambda>r d' ps'. C (Inr ()) d' ps' \<and> (\<forall>e. C (Inl e) d' ps')) (claim_and_process P n t clock)"
  shows "does d ps C (DueWebhookConsumer_HandleEvent P raw clock)"
proof -
  have "does d ps C (thenE (claim_and_process P n t clock) (ret (Inr ())))" for n t
    by (rule does_thenE) (rule does_mono [OF assms(2)], auto split: sum.splits intro: does_ret)
  with assms(1) show ?thesis unfolding DueWebhookConsumer_HandleEvent_def
    by (cases raw) (auto split: option.splits intro: does_ret)
qed

text \<open>
  \<open>I K S d ps\<close>: \<open>K i\<close> counts the retry commands for the delivery \<open>i\<close>, and \<open>S\<close> holds the deliveries that are claimed and still
  to be processed.
\<close>

locale wh_kept =
  fixes I :: "(string \<Rightarrow> nat) \<Rightarrow> string set \<Rightarrow> webhook_db \<Rightarrow> post list \<Rightarrow> bool"
  assumes keys: "I K S d ps \<Longrightarrow> distinct (map wd_ID (deliveries d))"
    and fewer: "I K S d ps \<Longrightarrow> T \<subseteq> S \<Longrightarrow> I K T d ps"
    and more: "I K S d ps \<Longrightarrow> (\<And>i. K i \<le> L i) \<Longrightarrow> I L S d ps"
    and settled: "I K S d ps \<Longrightarrow> i \<in> S \<Longrightarrow> settles i d d' \<Longrightarrow> logged i ps ps' \<Longrightarrow> I K (S - {i}) d' ps'"
    and claimed: "I K {} d ps \<Longrightarrow> I K (set (due_deliveries limit now d)) (marked (set (due_deliveries limit now d)) now d) ps"
    and retried: "I K {} d ps \<Longrightarrow> retry_ok P d ws user i \<Longrightarrow> I (K(i := Suc (K i))) {i} (marked {i} now d) ps"
    and added: "I K {} d ps \<Longrightarrow> adds d d' \<Longrightarrow> I K {} d' ps"
    and reconfigured: "I K {} d ps \<Longrightarrow> deliveries d' = deliveries d \<Longrightarrow> I K {} d' ps"
begin

lemma kept_processing:
  "I K (set (map wd_ID ds)) d ps \<Longrightarrow> distinct (map wd_ID ds) \<Longrightarrow> does d ps (\<lambda>_ d' ps'. I K {} d' ps') (process_claimed P now ds)"
proof (induction ds arbitrary: d ps)
  case Nil
  then show ?case by (simp add: does_ret)
next
  case (Cons x ds)
  have rest: "does d1 ps1 (\<lambda>_ d' ps'. I K {} d' ps') (process_claimed P now ds)"
    if "settles (wd_ID x) d d1 \<and> attempt_logged P d (wd_WorkspaceID x) (wd_ID x) now ps ps1" for d1 ps1
    using settled [OF Cons.prems(1), of "wd_ID x" d1 ps1] that Cons.prems(2) by (intro Cons.IH) (auto dest: logged_attempt)
  show ?case unfolding process_claimed.simps by (rule does_bind) (rule does_mono [OF processes [OF keys [OF Cons.prems(1)]] rest])
qed

lemma kept_polling:
  assumes I: "I K {} d ps"
  shows "does d ps (\<lambda>_ d' ps'. I K {} d' ps') (claim_and_process P batchSize due now)"
  unfolding claim_and_process_def
proof (intro does_bindE does_claim)
  fix ids r assume ids: "ids = set (due_deliveries (nat batchSize) due d)"
    and r: "r = Inl ErrDriver \<or> r = Inr (filter (\<lambda>x. wd_ID x \<in> ids) (deliveries (marked ids due d)))"
  let ?ds = "filter (\<lambda>x. wd_ID x \<in> ids) (deliveries (marked ids due d))"
  have now: "I K ids (marked ids due d) ps" using claimed [OF I] ids by simp
  then have "I K (set (map wd_ID ?ds)) (marked ids due d) ps" by (rule fewer) auto
  moreover have "distinct (map wd_ID ?ds)" using keys [OF now] by (rule distinct_map_filter)
  ultimately have "does (marked ids due d) ps (\<lambda>_ d' ps'. I K {} d' ps') (process_claimed P now ?ds)" by (rule kept_processing)
  then have "does (marked ids due d) ps (\<lambda>_ d' ps'. I K {} d' ps') (do { _ \<leftarrow> process_claimed P now ?ds; ret (Inr (?ds \<noteq> [])) })"
    by (rule does_bind [OF does_mono]) (rule does_ret)
  with r fewer [OF now] show "case r of Inl e \<Rightarrow> I K {} (marked ids due d) ps
      | Inr ds \<Rightarrow> does (marked ids due d) ps (\<lambda>_ d' ps'. I K {} d' ps') (do { _ \<leftarrow> process_claimed P now ds; ret (Inr (ds \<noteq> [])) })"
    by auto
qed (simp_all add: I)

lemma kept_due_event:
  assumes I: "I K {} d ps"
  shows "does d ps (\<lambda>_ d' ps'. I K {} d' ps') (DueWebhookConsumer_HandleEvent P raw clock)"
  by (rule does_due_event) (auto intro: I kept_polling [OF I])

lemma kept_retrying:
  assumes I: "I K {} d ps"
  shows "does d ps (\<lambda>_ d' ps'. I (K(i := Suc (K i))) {} d' ps') (RetryDelivery_Execute P ws user i now)"
proof (rule does_mono [OF retries], elim disjE conjE)
  fix d' ps' assume "retry_ok P d ws user i" "settles i (marked {i} now d) d'" "attempt_logged P d ws i now ps ps'"
  with settled [OF retried [OF I] singletonI] show "I (K(i := Suc (K i))) {} d' ps'" by (auto dest: logged_attempt)
qed (auto intro: more [OF I])

lemma kept_step:
  assumes I: "I K {} d ps"
  shows "does d ps (\<lambda>_ d' ps'. I (\<lambda>i. K i + (if is_retry i c then 1 else 0)) {} d' ps') (run_wh P c now)"
proof (cases c)
  case (PollDeliveries n)
  with kept_polling [OF I] show ?thesis by (simp add: run_wh_def is_retry_def does_drop Poll_def)
next
  case (DueEvent raw)
  with kept_due_event [OF I] show ?thesis by (simp add: run_wh_def is_retry_def does_drop)
next
  case (RetryDelivery ws user i)
  then have "(\<lambda>j. K j + (if is_retry j c then 1 else 0)) = K(i := Suc (K i))" by (auto simp: is_retry_def)
  with kept_retrying [OF I] RetryDelivery show ?thesis by (simp add: run_wh_def does_drop)
qed (auto simp: run_wh_def is_retry_def intro!: does_drop intro: does_mono [OF handles_event] does_mono [OF configures(1)]
    does_mono [OF configures(2)] does_mono [OF configures(3)] does_mono [OF configures(4)] added [OF I] reconfigured [OF I])

lemma kept_run: "I K {} (store w) (posts w) \<Longrightarrow> I (\<lambda>i. K i + retry_commands i cs) {} (store (wh_run P cs w)) (posts (wh_run P cs w))"
proof (induction cs arbitrary: w K)
  case Nil
  then show ?case by (simp add: retry_commands_def)
next
  case (Cons x cs)
  obtain c now where x: "x = (c, now)" by fastforce
  obtain r v where run: "run_state (run_wh P c now) w = (r, v)" by (cases "run_state (run_wh P c now) w")
  have "(\<lambda>i. K i + (if is_retry i c then 1 else 0) + retry_commands i cs) = (\<lambda>i. K i + retry_commands i (x # cs))"
    by (auto simp: x retry_commands_def)
  with Cons.IH [OF doesD [OF kept_step [OF Cons.prems] run]] show ?case using run by (simp add: x)
qed

end

section \<open>Attempts are bounded\<close>

abbreviation waiting :: "WebhookDelivery \<Rightarrow> bool" where
  "waiting r \<equiv> wd_Status r = ''pending'' \<or> wd_Status r = ''retry_scheduled''"

definition attempts_ok :: "(string \<Rightarrow> nat) \<Rightarrow> string set \<Rightarrow> webhook_db \<Rightarrow> post list \<Rightarrow> bool" where
  "attempts_ok K S d ps \<longleftrightarrow> distinct (map wd_ID (deliveries d)) \<and>
     distinct (map (\<lambda>r. (wd_WebhookID r, wd_SourceEventID r)) (deliveries d)) \<and>
     S \<subseteq> wd_ID ` set (deliveries d) \<and> po_DeliveryID ` set ps \<subseteq> wd_ID ` set (deliveries d) \<and>
     (\<forall>r\<in>set (deliveries d). int (length (posts_of (wd_ID r) ps)) + (if wd_ID r \<in> S then 1 else 0) \<le> wd_AttemptCount r \<and>
        wd_AttemptCount r \<le> 5 + int (K (wd_ID r)) \<and> (waiting r \<longrightarrow> wd_AttemptCount r < 5))"

lemma posts_of_other: "logged i ps ps' \<Longrightarrow> j \<noteq> i \<Longrightarrow> posts_of j ps' = posts_of j ps"
  by (auto simp: logged_def posts_of_def)

lemma posts_of_same: "logged i ps ps' \<Longrightarrow> length (posts_of i ps') \<le> length (posts_of i ps) + 1"
  by (auto simp: logged_def posts_of_def)

lemma posts_of_none: "i \<notin> po_DeliveryID ` set ps \<Longrightarrow> posts_of i ps = []"
  by (auto simp: posts_of_def filter_empty_conv)

lemma due_row: "i \<in> set (due_deliveries limit now d) \<Longrightarrow> \<exists>r\<in>set (deliveries d). wd_ID r = i \<and> waiting r"
  unfolding due_deliveries_def by (auto dest!: in_set_takeD simp: is_due_def)

lemma due_waiting:
  assumes "distinct (map wd_ID (deliveries d))" "r \<in> set (deliveries d)" "wd_ID r \<in> set (due_deliveries limit now d)"
  shows "waiting r"
proof -
  from due_row [OF assms(3)] obtain x where "x \<in> set (deliveries d)" "wd_ID x = wd_ID r" "waiting x" by blast
  with unique_row [OF assms(1), of x r] assms(2) show ?thesis by simp
qed

text \<open>How the rows of a changed table come about.\<close>

lemma settles_row:
  assumes "settles i d d'" "r' \<in> set (deliveries d')"
  shows "\<exists>r\<in>set (deliveries d). core r' = core r \<and> (r' = r \<or> wd_ID r = i \<and> outcome_of r r')"
  using assms by (fastforce simp: settles_def update_where_def outcome_of_def)

lemma settles_cores: "settles i d d' \<Longrightarrow> map core (deliveries d') = map core (deliveries d)"
proof -
  assume s: "settles i d d'"
  have "core (f r) = core r" if "f r = r \<or> outcome_of r (f r)" for f r using that by (auto simp: outcome_of_def)
  with s show ?thesis unfolding settles_def update_where_def by (elim conjE disjE exE) auto
qed

lemma marked_cores: "map core (deliveries (marked J now d)) = map core (deliveries d)"
  by (simp add: marked_def update_where_def attempted_def core_def)

lemma marked_row:
  "r' \<in> set (deliveries (marked J now d)) \<Longrightarrow>
   \<exists>r\<in>set (deliveries d). r' = (if wd_ID r \<in> J then attempted now r else r)"
  by (auto simp: marked_def update_where_def)

lemma cores_keys:
  assumes "map core xs = map core ys"
  shows "map wd_ID xs = map wd_ID ys" "map (\<lambda>r. (wd_WebhookID r, wd_SourceEventID r)) xs = map (\<lambda>r. (wd_WebhookID r, wd_SourceEventID r)) ys"
    "wd_ID ` set xs = wd_ID ` set ys"
proof -
  have "map (f \<circ> core) xs = map (f \<circ> core) ys" for f :: "_ \<Rightarrow> 'a" using assms by (metis map_map)
  from this [of fst] this [of "\<lambda>(i, ws, h, e, p). (h, e)"] show "map wd_ID xs = map wd_ID ys"
    "map (\<lambda>r. (wd_WebhookID r, wd_SourceEventID r)) xs = map (\<lambda>r. (wd_WebhookID r, wd_SourceEventID r)) ys"
    by (simp_all add: core_def comp_def)
  then show "wd_ID ` set xs = wd_ID ` set ys" by (metis list.set_map)
qed

lemma attempts_marked:
  assumes ok: "attempts_ok K {} d ps" and J: "J \<subseteq> wd_ID ` set (deliveries d)" and K: "\<And>i. K i \<le> K' i"
    and room: "\<And>r. r \<in> set (deliveries d) \<Longrightarrow> wd_ID r \<in> J \<Longrightarrow> wd_AttemptCount r < 5 + int (K' (wd_ID r))"
  shows "attempts_ok K' J (marked J now d) ps"
proof -
  have "int (length (posts_of (wd_ID r') ps)) + (if wd_ID r' \<in> J then 1 else 0) \<le> wd_AttemptCount r' \<and>
        wd_AttemptCount r' \<le> 5 + int (K' (wd_ID r')) \<and> (waiting r' \<longrightarrow> wd_AttemptCount r' < 5)"
    if mem: "r' \<in> set (deliveries (marked J now d))" for r'
  proof -
    from marked_row [OF mem] obtain r where r: "r \<in> set (deliveries d)" "r' = (if wd_ID r \<in> J then attempted now r else r)" by blast
    moreover have "int (length (posts_of (wd_ID r) ps)) \<le> wd_AttemptCount r" "wd_AttemptCount r \<le> 5 + int (K (wd_ID r))"
      "waiting r \<longrightarrow> wd_AttemptCount r < 5" using ok r(1) by (auto simp: attempts_ok_def)
    ultimately show ?thesis using room [of r] K [of "wd_ID r"] by (auto simp: attempted_def)
  qed
  with ok J show ?thesis by (simp add: attempts_ok_def cores_keys [OF marked_cores])
qed

lemma attempts_weaken:
  assumes "attempts_ok K S d ps" "T \<subseteq> S" "\<And>i. K i \<le> L i"
  shows "attempts_ok L T d ps"
proof -
  have "int (length (posts_of (wd_ID r) ps)) + (if wd_ID r \<in> T then 1 else 0) \<le> wd_AttemptCount r \<and>
      wd_AttemptCount r \<le> 5 + int (L (wd_ID r)) \<and> (waiting r \<longrightarrow> wd_AttemptCount r < 5)" if "r \<in> set (deliveries d)" for r
  proof -
    have "int (length (posts_of (wd_ID r) ps)) + (if wd_ID r \<in> S then 1 else 0) \<le> wd_AttemptCount r \<and>
      wd_AttemptCount r \<le> 5 + int (K (wd_ID r)) \<and> (waiting r \<longrightarrow> wd_AttemptCount r < 5)" using assms(1) that by (simp add: attempts_ok_def)
    with assms(2) assms(3) [of "wd_ID r"] show ?thesis by (auto split: if_splits)
  qed
  moreover have "T \<subseteq> wd_ID ` set (deliveries d)" using assms(1,2) unfolding attempts_ok_def by blast
  ultimately show ?thesis using assms(1) by (simp add: attempts_ok_def)
qed

interpretation wa: wh_kept attempts_ok
proof
  fix K S d ps T assume "attempts_ok K S d ps" "T \<subseteq> S"
  then show "attempts_ok K T d ps" by (rule attempts_weaken) simp
next
  fix K S d ps and L :: "string \<Rightarrow> nat" assume "attempts_ok K S d ps" "\<And>i. K i \<le> L i"
  then show "attempts_ok L S d ps" by (rule attempts_weaken [OF _ order_refl])
next
  fix K S d ps i d' ps' assume ok: "attempts_ok K S d ps" and i: "i \<in> S" and s: "settles i d d'" and log: "logged i ps ps'"
  note k = cores_keys [OF settles_cores [OF s]]
  have rows: "int (length (posts_of (wd_ID r') ps')) + (if wd_ID r' \<in> S - {i} then 1 else 0) \<le> wd_AttemptCount r' \<and>
        wd_AttemptCount r' \<le> 5 + int (K (wd_ID r')) \<and> (waiting r' \<longrightarrow> wd_AttemptCount r' < 5)" if "r' \<in> set (deliveries d')" for r'
  proof -
    from settles_row [OF s that] obtain r where r: "r \<in> set (deliveries d)" and eq: "core r' = core r" and "r' = r \<or> wd_ID r = i \<and> outcome_of r r'"
      by blast
    then have r': "wd_ID r' = wd_ID r" "wd_AttemptCount r' = wd_AttemptCount r" "waiting r' \<longrightarrow> waiting r \<or> wd_AttemptCount r < 5"
      by (auto simp: outcome_of_def core_def)
    from ok r have old: "int (length (posts_of (wd_ID r) ps)) + (if wd_ID r \<in> S then 1 else 0) \<le> wd_AttemptCount r"
      "wd_AttemptCount r \<le> 5 + int (K (wd_ID r))" "waiting r \<longrightarrow> wd_AttemptCount r < 5" by (auto simp: attempts_ok_def)
    show ?thesis
    proof (cases "wd_ID r = i")
      case True
      with old r' i posts_of_same [OF log] show ?thesis by auto
    next
      case False
      with old r' posts_of_other [OF log] show ?thesis by auto
    qed
  qed
  have "po_DeliveryID ` set ps' \<subseteq> insert i (po_DeliveryID ` set ps)" using log by (auto simp: logged_def)
  then have "po_DeliveryID ` set ps' \<subseteq> wd_ID ` set (deliveries d')" "S - {i} \<subseteq> wd_ID ` set (deliveries d')"
    using ok i unfolding attempts_ok_def k(3) by (blast intro: subset_trans)+
  with rows ok show "attempts_ok K (S - {i}) d' ps'" by (simp add: attempts_ok_def k(1,2))
next
  fix K d ps limit now assume ok: "attempts_ok K {} d ps"
  let ?J = "set (due_deliveries limit now d)"
  show "attempts_ok K ?J (marked ?J now d) ps"
  proof (rule attempts_marked [OF ok])
    show "?J \<subseteq> wd_ID ` set (deliveries d)" using due_row by (metis image_eqI subsetI)
    fix r assume r: "r \<in> set (deliveries d)" "wd_ID r \<in> ?J"
    moreover from ok due_waiting [OF _ r] have "waiting r" by (simp add: attempts_ok_def)
    ultimately show "wd_AttemptCount r < 5 + int (K (wd_ID r))" using ok by (force simp: attempts_ok_def)
  qed simp
next
  fix K d ps P ws user i now assume ok: "attempts_ok K {} d ps" and "retry_ok P d ws user i"
  then show "attempts_ok (K(i := Suc (K i))) {i} (marked {i} now d) ps"
    by (intro attempts_marked [OF ok]) (auto simp: retry_ok_def attempts_ok_def)
next
  fix K d ps d' assume ok: "attempts_ok K {} d ps" and "adds d d'"
  then obtain rs where rs: "deliveries d' = deliveries d @ rs" "list_all (\<lambda>r. wd_Status r = ''pending'' \<and> wd_AttemptCount r = 0) rs"
    and k: "distinct (map wd_ID (deliveries d'))" "distinct (map (\<lambda>r. (wd_WebhookID r, wd_SourceEventID r)) (deliveries d'))"
    by (auto simp: adds_def attempts_ok_def)
  moreover have "wd_ID ` set (deliveries d) \<inter> wd_ID ` set rs = {}" "po_DeliveryID ` set ps \<subseteq> wd_ID ` set (deliveries d)"
    using ok k(1) rs(1) by (simp_all add: attempts_ok_def)
  then have "posts_of (wd_ID r) ps = []" if "r \<in> set rs" for r using that by (intro posts_of_none) blast
  ultimately show "attempts_ok K {} d' ps" using ok by (simp add: attempts_ok_def list_all_iff ball_Un image_Un le_supI1)
qed (auto simp: attempts_ok_def)

section \<open>Deliveries nobody touches\<close>

text \<open>
  \<open>untouched r L\<close>: the row \<open>r\<close>, neither waiting nor open to a retry, stands in the table, is not about to be processed, and the requests
  made for it are \<open>L\<close>.
\<close>

definition untouched :: "WebhookDelivery \<Rightarrow> post list \<Rightarrow> (string \<Rightarrow> nat) \<Rightarrow> string set \<Rightarrow> webhook_db \<Rightarrow> post list \<Rightarrow> bool" where
  "untouched r L K S d ps \<longleftrightarrow> distinct (map wd_ID (deliveries d)) \<and> r \<in> set (deliveries d) \<and> \<not> waiting r \<and>
     \<not> CanDeliveryBeRetried (wd_Status r) \<and> wd_ID r \<notin> S \<and> posts_of (wd_ID r) ps = L"

lemma settles_others: "settles i d d' \<Longrightarrow> r \<in> set (deliveries d) \<Longrightarrow> wd_ID r \<noteq> i \<Longrightarrow> r \<in> set (deliveries d')"
  by (force simp: settles_def update_where_def)

lemma marked_others: "r \<in> set (deliveries d) \<Longrightarrow> wd_ID r \<notin> J \<Longrightarrow> r \<in> set (deliveries (marked J now d))"
  by (force simp: marked_def update_where_def)

lemma untouched_marked:
  assumes u: "untouched r L K {} d ps" and J: "wd_ID r \<notin> J"
  shows "untouched r L K' J (marked J now d) ps"
  using u J marked_others [of r d J now] by (simp add: untouched_def cores_keys(1) [OF marked_cores])

interpretation wu: wh_kept "untouched r L" for r L
proof
  fix K S d ps i d' ps' assume u: "untouched r L K S d ps" and i: "i \<in> S" and s: "settles i d d'" and log: "logged i ps ps'"
  then have "wd_ID r \<noteq> i" by (auto simp: untouched_def)
  with u settles_others [OF s] posts_of_other [OF log] cores_keys(1) [OF settles_cores [OF s]] show "untouched r L K (S - {i}) d' ps'"
    by (simp add: untouched_def)
next
  fix K d ps limit now assume u: "untouched r L K {} d ps"
  then have "wd_ID r \<notin> set (due_deliveries limit now d)" using due_waiting by (auto simp: untouched_def)
  with u show "untouched r L K (set (due_deliveries limit now d)) (marked (set (due_deliveries limit now d)) now d) ps"
    by (rule untouched_marked)
next
  fix K d ps P ws user i now assume u: "untouched r L K {} d ps" and ok: "retry_ok P d ws user i"
  then have "wd_ID r \<notin> {i}" by (auto simp: untouched_def retry_ok_def dest: unique_row)
  with u show "untouched r L (K(i := Suc (K i))) {i} (marked {i} now d) ps" by (rule untouched_marked)
next
  fix K d ps d' assume "untouched r L K {} d ps" "adds d d'"
  then show "untouched r L K {} d' ps" by (auto simp: untouched_def adds_def)
qed (auto simp: untouched_def)

end
