(* ===== verification/Webhook_Properties.thy ===== *)
theory Webhook_Properties
  imports Webhook_Safety
begin

text \<open>
  The properties of the module \<open>webhooks\<close>: how often an endpoint is asked, what a request carries, that a success is final (and that a
  delivery left behind in the status delivering is never picked up), which deliveries an event creates, and the rows a listing leaves out.
\<close>

section \<open>Requests of a command\<close>

abbreviation authorized_posts :: "webhook_ports \<Rightarrow> webhook_db \<Rightarrow> gotime \<Rightarrow> post list \<Rightarrow> bool" where
  "authorized_posts P d now new \<equiv> list_all (\<lambda>p. \<exists>ws. authorized P d ws (po_DeliveryID p) now p) new"

definition vouched :: "webhook_ports \<Rightarrow> webhook_db \<Rightarrow> gotime \<Rightarrow> post list \<Rightarrow> webhook_db \<Rightarrow> post list \<Rightarrow> bool" where
  "vouched P d now ps d' ps' \<longleftrightarrow> configs d' = configs d \<and> map core (deliveries d') = map core (deliveries d) \<and>
     (\<exists>new. ps' = ps @ new \<and> authorized_posts P d now new)"

lemma same_request: "core r = core r' \<Longrightarrow> due_request P cfg r now = due_request P cfg r' now"
  by (simp add: due_request_def core_def)

lemma authorized_earlier:
  assumes a: "authorized P d' ws i now p" and c: "configs d' = configs d" and k: "map core (deliveries d') = map core (deliveries d)"
  shows "authorized P d ws i now p"
proof -
  from a obtain r cfg where r: "r \<in> set (deliveries d')" "wd_ID r = i" "wd_WorkspaceID r = ws" and cfg: "cfg \<in> set (configs d)"
      "wc_ID cfg = wd_WebhookID r" "wc_WorkspaceID cfg = ws" "wc_Status cfg = ''active''"
    and p: "p = \<lparr>po_DeliveryID = i, po_Request = due_request P cfg r now, po_IP = po_IP p\<rparr>" "\<not> IsPrivateIP (po_IP p)"
    unfolding authorized_def c by blast
  from r(1) have "core r \<in> set (map core (deliveries d'))" by simp
  then obtain r0 where r0: "r0 \<in> set (deliveries d)" "core r0 = core r" unfolding k by auto
  then have "wd_ID r0 = i \<and> wd_WorkspaceID r0 = ws \<and> wc_ID cfg = wd_WebhookID r0" using r cfg by (auto simp: core_def)
  with cfg p r0 same_request [OF r0(2)] show ?thesis unfolding authorized_def by (intro bexI [OF _ r0(1)] bexI [OF _ cfg(1)]) simp
qed

lemma attempt_posts:
  assumes "attempt_logged P d ws i now ps ps'"
  shows "\<exists>new. ps' = ps @ new \<and> authorized_posts P d now new"
  using assms unfolding attempt_logged_def
proof
  assume "\<exists>p. authorized P d ws i now p \<and> ps' = ps @ [p]"
  then obtain p where p: "authorized P d ws i now p" "ps' = ps @ [p]" by blast
  then have "po_DeliveryID p = i" unfolding authorized_def by (metis post.select_convs(1))
  with p show ?thesis by (intro exI [of _ "[p]"]) auto
qed simp

lemma vouched_attempt:
  assumes v: "vouched P d now ps d1 ps1" and s: "settles i d1 d2" and l: "attempt_logged P d1 ws i now ps1 ps2"
  shows "vouched P d now ps d2 ps2"
proof -
  from v obtain new where new: "configs d1 = configs d" "map core (deliveries d1) = map core (deliveries d)" "ps1 = ps @ new"
    "authorized_posts P d now new" by (auto simp: vouched_def)
  from attempt_posts [OF l] obtain more where "ps2 = ps1 @ more" "authorized_posts P d1 now more" by blast
  with authorized_earlier [OF _ new(1,2)] have "ps2 = ps1 @ more" "authorized_posts P d now more" by (simp_all add: list_all_iff) blast
  moreover have "configs d2 = configs d1" using s by (auto simp: settles_def)
  ultimately show ?thesis using new settles_cores [OF s] by (auto simp: vouched_def)
qed

lemma vouched_processing:
  "vouched P d now ps d1 ps1 \<Longrightarrow> distinct (map wd_ID (deliveries d)) \<Longrightarrow>
   does d1 ps1 (\<lambda>_ d' ps'. vouched P d now ps d' ps') (process_claimed P now ds)"
proof (induction ds arbitrary: d1 ps1)
  case Nil
  then show ?case by (simp add: does_ret)
next
  case (Cons x ds)
  then have "distinct (map wd_ID (deliveries d1))" by (auto simp: vouched_def dest: cores_keys(1))
  note step = processes [OF this]
  show ?case unfolding process_claimed.simps
    by (rule does_bind) (rule does_mono [OF step], auto intro: Cons.IH vouched_attempt Cons.prems)
qed

lemma vouched_polling:
  assumes k: "distinct (map wd_ID (deliveries d))"
  shows "does d ps (\<lambda>_ d' ps'. vouched P d now ps d' ps') (claim_and_process P n due now)"
  unfolding claim_and_process_def
proof (intro does_bindE does_claim)
  fix ids r
  have v: "vouched P d now ps (marked ids due d) ps" by (simp add: vouched_def marked_cores) (simp add: marked_def)
  have "does (marked ids due d) ps (\<lambda>_ d' ps'. vouched P d now ps d' ps') (do { _ \<leftarrow> process_claimed P now ds; ret (Inr (ds \<noteq> [])) })" for ds
    by (rule does_bind [OF does_mono [OF vouched_processing [OF v k]]]) (rule does_ret)
  with v show "case r of Inl e \<Rightarrow> vouched P d now ps (marked ids due d) ps
      | Inr ds \<Rightarrow> does (marked ids due d) ps (\<lambda>_ d' ps'. vouched P d now ps d' ps') (do { _ \<leftarrow> process_claimed P now ds; ret (Inr (ds \<noteq> [])) })"
    by (cases r) simp_all
qed (simp_all add: vouched_def)

lemma vouched_step:
  assumes k: "distinct (map wd_ID (deliveries d))"
  shows "does d ps (\<lambda>_ _ ps'. \<exists>new. ps' = ps @ new \<and> authorized_posts P d now new) (run_wh P c now)"
proof (cases c)
  case (PollDeliveries n)
  have "does d ps (\<lambda>_ _ ps'. \<exists>new. ps' = ps @ new \<and> authorized_posts P d now new) (Poll P n now)"
    unfolding Poll_def using vouched_polling [OF k] by (rule does_mono) (auto simp: vouched_def)
  then show ?thesis by (simp add: PollDeliveries run_wh_def does_drop)
next
  case (DueEvent raw)
  have "does d ps (\<lambda>_ _ ps'. \<exists>new. ps' = ps @ new \<and> authorized_posts P d now new) (DueWebhookConsumer_HandleEvent P raw now)"
    by (rule does_due_event) (auto intro: does_mono [OF vouched_polling [OF k]] simp: vouched_def)
  then show ?thesis by (simp add: DueEvent run_wh_def does_drop)
next
  case (RetryDelivery ws user i)
  have "does d ps (\<lambda>_ _ ps'. \<exists>new. ps' = ps @ new \<and> authorized_posts P d now new)
    (RetryDelivery_Execute P ws user i now)"
    by (rule does_mono [OF retries]) (auto dest: attempt_posts)
  then show ?thesis by (simp add: RetryDelivery run_wh_def does_drop)
qed (auto simp: run_wh_def intro!: does_drop intro: does_mono [OF handles_event] does_mono [OF configures(1)]
    does_mono [OF configures(2)] does_mono [OF configures(3)] does_mono [OF configures(4)])

lemma find_by_key: "distinct (map key rows) \<Longrightarrow> r \<in> set rows \<Longrightarrow> find (\<lambda>x. key x = key r) rows = Some r"
  by (induction rows) (auto simp: rev_image_eqI)

section \<open>Events\<close>

definition reached :: "webhook_ports \<Rightarrow> Envelope \<Rightarrow> string \<Rightarrow> webhook_db \<Rightarrow> webhook_db \<Rightarrow> WebhookConfig \<Rightarrow> bool" where
  "reached P e u d d' cfg \<longleftrightarrow> (\<exists>r\<in>set (deliveries d'). wd_WebhookID r = wc_ID cfg \<and> wd_SourceEventID r = u \<and>
     (r \<in> set (deliveries d) \<or> wd_WorkspaceID r = WorkspaceID e \<and> wd_Status r = ''pending'' \<and> wd_NextAttemptAt r = None \<and>
       wd_EventPayloadJSON r = event_payload P e))"

definition fresh_ids :: "webhook_ports \<Rightarrow> wh_world \<Rightarrow> bool" where
  "fresh_ids P w \<longleftrightarrow> inj (h_gen P) \<and> (\<forall>n\<ge>id_ctr w. h_gen P n \<notin> wd_ID ` set (deliveries (store w)))"

lemma create_one:
  assumes "outcomes w = []" "\<not> aborted w" "fresh_ids P w" "h_uuid P (EventID e) = Some u" "cfg \<in> set (configs (store w))"
    "WorkspaceID e \<in> set (wh_workspaces (store w))"
  shows "\<exists>v. run_state (WhDelivery_Create P (new_delivery P e cfg (h_gen P (id_ctr w)) now)) (w\<lparr>id_ctr := Suc (id_ctr w)\<rparr>) = (Inr (), v) \<and>
    outcomes v = [] \<and> \<not> aborted v \<and> fresh_ids P v \<and> configs (store v) = configs (store w) \<and> wh_workspaces (store v) = wh_workspaces (store w) \<and>
    set (deliveries (store w)) \<subseteq> set (deliveries (store v)) \<and> reached P e u (store w) (store v) cfg \<and>
    (\<forall>r\<in>set (deliveries (store v)). r \<in> set (deliveries (store w)) \<or> wd_WorkspaceID r = WorkspaceID e \<and> wd_Status r = ''pending'' \<and>
       wd_NextAttemptAt r = None \<and> wd_EventPayloadJSON r = event_payload P e)"
proof -
  let ?r = "new_delivery P e cfg (h_gen P (id_ctr w)) now" and ?w = "w\<lparr>id_ctr := Suc (id_ctr w)\<rparr>"
  have "h_gen P (id_ctr w) \<notin> wd_ID ` set (deliveries (store w))" using assms(3) by (simp add: fresh_ids_def)
  then have new: "\<not> has wd_ID (wd_ID ?r) (deliveries (store w))" "has wc_ID (wd_WebhookID ?r) (configs (store w))"
    using assms(5) by (force simp: new_delivery_def list_ex_iff)+
  have inj: "h_gen P n \<noteq> h_gen P (id_ctr w)" if "Suc (id_ctr w) \<le> n" for n
    using assms(3) that by (auto simp: fresh_ids_def dest: injD)
  show ?thesis
  proof (cases "list_ex (\<lambda>x. wd_WebhookID x = wc_ID cfg \<and> wd_SourceEventID x = u) (deliveries (store w))")
    case True
    with assms have "run_state (WhDelivery_Create P ?r) ?w = (Inr (), ?w)"
      by (simp add: WhDelivery_Create_def exec_def new_delivery_def)
    with True assms show ?thesis by (auto simp: list_ex_iff reached_def fresh_ids_def)
  next
    case False
    let ?d = "(store w)\<lparr>deliveries := deliveries (store w) @ [?r\<lparr>wd_SourceEventID := u, wd_Attempts := []\<rparr>]\<rparr>"
    from False assms new have "run_state (WhDelivery_Create P ?r) ?w = (Inr (), ?w\<lparr>store := ?d\<rparr>)"
      by (simp add: WhDelivery_Create_def exec_def) (simp add: new_delivery_def)
    with assms inj show ?thesis by (simp add: fresh_ids_def reached_def) (auto simp: new_delivery_def)
  qed
qed

lemma create_all:
  assumes "outcomes w = []" "\<not> aborted w" "fresh_ids P w" "h_uuid P (EventID e) = Some u" "set cfgs \<subseteq> set (configs (store w))"
    "WorkspaceID e \<in> set (wh_workspaces (store w))"
  shows "\<exists>v. run_state (create_deliveries P e now cfgs) w = (Inr (), v) \<and> set (deliveries (store w)) \<subseteq> set (deliveries (store v)) \<and>
    (\<forall>cfg\<in>set cfgs. reached P e u (store w) (store v) cfg)"
  using assms
proof (induction cfgs arbitrary: w)
  case (Cons cfg cfgs)
  have "cfg \<in> set (configs (store w))" using Cons.prems(5) by simp
  from create_one [OF Cons.prems(1-4) this Cons.prems(6), of now]
  obtain v where run: "run_state (WhDelivery_Create P (new_delivery P e cfg (h_gen P (id_ctr w)) now)) (w\<lparr>id_ctr := Suc (id_ctr w)\<rparr>) = (Inr (), v)"
    and v: "outcomes v = []" "\<not> aborted v" "fresh_ids P v" "configs (store v) = configs (store w)"
      "wh_workspaces (store v) = wh_workspaces (store w)" "set (deliveries (store w)) \<subseteq> set (deliveries (store v))"
    and here: "reached P e u (store w) (store v) cfg"
    and rows: "\<forall>r\<in>set (deliveries (store v)). r \<in> set (deliveries (store w)) \<or> wd_WorkspaceID r = WorkspaceID e \<and>
      wd_Status r = ''pending'' \<and> wd_NextAttemptAt r = None \<and> wd_EventPayloadJSON r = event_payload P e" by blast
  from Cons.IH [OF v(1-3) Cons.prems(4)] Cons.prems(5,6) v obtain v' where run': "run_state (create_deliveries P e now cfgs) v = (Inr (), v')"
    and v': "set (deliveries (store v)) \<subseteq> set (deliveries (store v'))" "\<forall>cfg\<in>set cfgs. reached P e u (store v) (store v') cfg" by auto
  have "reached P e u (store w) (store v') c" if "reached P e u (store v) (store v') c" for c
    using that rows unfolding reached_def by blast
  moreover have "reached P e u (store w) (store v') cfg" using here v'(1) unfolding reached_def by blast
  ultimately show ?case using run run' v(6) v' Cons.prems(1) by (auto simp: run_bindE)
qed simp

section \<open>Properties\<close>

text \<open>
  Claim C24. Whatever fails and whatever commands run: from tables without deliveries, delivery ids stay unique, a webhook has at most one delivery for an
  event however often the broker delivers it, and the endpoint is asked for a delivery at most five times plus once for every
  retry command on it.
\<close>

theorem webhook_attempts_bounded:
  assumes "deliveries (store w) = []" "posts w = []"
  shows "distinct (map wd_ID (deliveries (store (wh_run P cs w)))) \<and>
    distinct (map (\<lambda>r. (wd_WebhookID r, wd_SourceEventID r)) (deliveries (store (wh_run P cs w)))) \<and>
    length (posts_of i (posts (wh_run P cs w))) \<le> 5 + retry_commands i cs"
proof -
  have "attempts_ok (\<lambda>_. 0) {} (store w) (posts w)" using assms by (simp add: attempts_ok_def)
  from wa.kept_run [OF this, of cs P] have ok: "attempts_ok (\<lambda>i. retry_commands i cs) {} (store (wh_run P cs w)) (posts (wh_run P cs w))" by simp
  have "length (posts_of i (posts (wh_run P cs w))) \<le> 5 + retry_commands i cs"
  proof (cases "i \<in> po_DeliveryID ` set (posts (wh_run P cs w))")
    case True
    with ok obtain r where "r \<in> set (deliveries (store (wh_run P cs w)))" "wd_ID r = i" by (auto simp: attempts_ok_def)
    with ok show ?thesis by (force simp: attempts_ok_def)
  qed (simp add: posts_of_none)
  with ok show ?thesis by (simp add: attempts_ok_def)
qed

text \<open>
  Claim C26. A delivery that has succeeded keeps its row and is never sent again, whatever commands run and whatever fails. The same holds of a
  delivery in the status delivering, in which a fault after the claim leaves it: it is never picked up again.
\<close>

theorem webhook_success_final:
  assumes "distinct (map wd_ID (deliveries (store w)))" "r \<in> set (deliveries (store w))" "wd_Status r = ''succeeded'' \<or> wd_Status r = ''delivering''"
  shows "r \<in> set (deliveries (store (wh_run P cs w))) \<and> posts_of (wd_ID r) (posts (wh_run P cs w)) = posts_of (wd_ID r) (posts w)"
proof -
  have "untouched r (posts_of (wd_ID r) (posts w)) (\<lambda>_. 0) {} (store w) (posts w)"
    using assms by (auto simp: untouched_def CanDeliveryBeRetried_def)
  from wu.kept_run [OF this, of cs P] show ?thesis by (simp add: untouched_def)
qed

text \<open>
  Claim C25. The requests a command makes are for deliveries of an active webhook of their workspace, go to the URL of the webhook with the payload of
  the delivery, the time and the HMAC of both under the key of the webhook, and to an address that is neither private nor local.
\<close>

theorem webhook_post_authorized:
  assumes "distinct (map wd_ID (deliveries (store w)))" "run_state (run_wh P c now) w = (u, w')"
  shows "\<exists>new. posts w' = posts w @ new \<and> list_all (\<lambda>p. \<exists>ws. authorized P (store w) ws (po_DeliveryID p) now p) new"
  using doesD [OF vouched_step [OF assms(1)] assms(2)] .

text \<open>
  Claim C39. A page of the listing that is not the last names as its cursor the first delivery it leaves out, and the next page starts after it: a delivery
  of the workspace that the filter asks for is on neither page.
\<close>

theorem webhook_page_skips:
  assumes k: "distinct (map wd_ID (deliveries d))" and p: "page_of ws f d = (rows, c)" and c: "c \<noteq> []"
  shows "\<exists>r\<in>set (deliveries d). wd_ID r = c \<and> wd_WorkspaceID r = ws \<and> matches f r \<and> r \<notin> set rows \<and>
    r \<notin> set (fst (page_of ws (f\<lparr>df_Cursor := c\<rparr>) d))"
proof -
  let ?n = "page_limit (df_Limit f)"
  let ?all = "rev (sort_key wd_CreatedAt (filter (\<lambda>r. wd_WorkspaceID r = ws \<and> matches f r \<and>
    after_cursor (\<lambda>r. (wd_CreatedAt r, wd_ID r)) wd_ID (df_Cursor f) (deliveries d) r) (deliveries d)))"
  from p c have long: "?n < length ?all" and rows: "rows = take ?n ?all" and cur: "c = wd_ID (?all ! ?n)"
    by (auto simp: page_of_def Let_def min_def split: if_splits)
  let ?r = "?all ! ?n"
  have mem: "?r \<in> set ?all" using long by (rule nth_mem)
  have "distinct (deliveries d)" using k by (simp add: distinct_map)
  then have "distinct ?all" by simp
  then have out: "?r \<notin> set rows" unfolding rows using long by (auto simp: in_set_conv_nth nth_eq_iff_index_eq)
  have "find (\<lambda>x. wd_ID x = c) (deliveries d) = Some ?r"
    using k mem cur by (auto intro: find_by_key)
  then have "\<not> after_cursor (\<lambda>r. (wd_CreatedAt r, wd_ID r)) wd_ID c (deliveries d) ?r" using c by (simp add: after_cursor_def)
  then have "?r \<notin> set (fst (page_of ws (f\<lparr>df_Cursor := c\<rparr>) d))"
    by (auto simp: page_of_def Let_def dest!: in_set_takeD)
  with mem out cur show ?thesis by (intro bexI [of _ ?r]) auto
qed

text \<open>
  Claim C27. Without faults the consumer accepts a valid event that webhooks can subscribe to and every active webhook of the
  workspace that subscribes to it has a delivery for it: an older one, or a new pending one that is due at once and holds the event.
\<close>

theorem webhook_event_reaches:
  assumes "outcomes w = []" "\<not> aborted w" "fresh_ids P w" "h_uuid P (EventID e) = Some u" "Validate e = None"
    "EventType e \<in> set AllowedSubscriptionEvents" "WorkspaceID e \<noteq> []" "WorkspaceID e \<in> set (wh_workspaces (store w))"
  shows "\<exists>v. run_state (WebhookConsumer_HandleEvent P (RawEnvelope e) now) w = (Inr (), v) \<and>
    set (deliveries (store w)) \<subseteq> set (deliveries (store v)) \<and>
    (\<forall>cfg\<in>set (configs (store w)). wc_WorkspaceID cfg = WorkspaceID e \<longrightarrow> wc_Status cfg = ''active'' \<longrightarrow>
       EventType e \<in> set (wc_Subscriptions cfg) \<longrightarrow> reached P e u (store w) (store v) cfg)"
proof -
  let ?cfgs = "sort_key wc_CreatedAt (filter (\<lambda>r. wc_WorkspaceID r = WorkspaceID e \<and> wc_Status r = ''active'' \<and>
    EventType e \<in> set (wc_Subscriptions r)) (configs (store w)))"
  have some: "EventType e \<noteq> []" using assms(6) by (auto simp: AllowedSubscriptionEvents_def)
  have "run_state (WebhookConsumer_HandleEvent P (RawEnvelope e) now) w = run_state (create_deliveries P e now ?cfgs) w"
    using assms some by (simp add: WebhookConsumer_HandleEvent_def MapEnvelopeToSourceEvent_def SourceEvent_Execute_def
        Config_ListSubscribed_def run_bindE exec_def)
  with create_all [of w P e u ?cfgs now] assms show ?thesis by auto
qed

section \<open>Witnesses\<close>

definition sample_wh :: webhook_ports where
  "sample_wh = \<lparr>h_perm = (\<lambda>_ _ _. Inr ()),
     h_url = (\<lambda>s. Some \<lparr>url_Scheme = ''https'', url_HasUser = False, url_Host = ''h'', url_Hostname = ''h''\<rparr>),
     h_requestURI = (\<lambda>_. True), h_ParseIP = (\<lambda>_. None), h_lookup = (\<lambda>_. Some [[8, 8, 8, 8]]), h_json = (\<lambda>_. ''{}''), h_rfc3339 = (\<lambda>_. ''t''), h_parse_time = (\<lambda>_. None), h_itoa = (\<lambda>_. ''0''),
     h_uuid = Some, h_gen = (\<lambda>n. replicate (Suc n) CHR ''i''), h_random = (\<lambda>n. ''r''),
     h_reply = (\<lambda>n req. \<lparr>rs_StatusCode = (if n = 0 then 500 else 200), rs_Headers = Map.empty, rs_DurationMs = 1, rs_Error = []\<rparr>),
     h_dbnow = 0, h_crypto = sample_crypto, h_hasOutbox = True\<rparr>"

definition sample_config :: WebhookConfig where
  "sample_config = \<lparr>wc_ID = ''h'', wc_WorkspaceID = ''w'', wc_Name = ''n'', wc_TargetURL = ''https://h'', wc_Status = ''active'',
     wc_Subscriptions = [''tracking.email_opened.v1''], wc_SecretHash = ''s'', wc_SecretHint = [], wc_Version = 1, wc_CreatedByUserID = ''u'',
     wc_CreatedAt = 0, wc_UpdatedAt = 0, wc_DisabledAt = None\<rparr>"

definition sample_envelope :: Envelope where
  "sample_envelope = \<lparr>EventID = ''e'', EventType = ''tracking.email_opened.v1'', EventVersion = 1, AggregateType = ''a'', AggregateID = ''a'',
     WorkspaceID = ''w'', OccurredAt = 0, Payload = Some JNull, Metadata = Map.empty\<rparr>"

definition sample_delivery :: "string \<Rightarrow> string \<Rightarrow> WebhookDelivery" where
  "sample_delivery i s = (new_delivery sample_wh sample_envelope sample_config i 0)\<lparr>wd_SourceEventID := i, wd_Status := s\<rparr>"

definition sample_webhooks :: "WebhookDelivery list \<Rightarrow> wh_world" where
  "sample_webhooks ds = \<lparr>store = \<lparr>wh_workspaces = [''w''], wh_users = [''u''], configs = [sample_config], deliveries = ds, attempts = [], wh_outbox = []\<rparr>,
     in_tx = False, aborted = False, outcomes = [], id_ctr = 0, posts = []\<rparr>"

text \<open>An event, an attempt that the endpoint answers with 500, a second one after the delay: two requests for the delivery.\<close>

abbreviation sample_commands :: "(wh_command \<times> gotime) list" where
  "sample_commands \<equiv> [(SourceEvent (RawEnvelope sample_envelope), 0), (PollDeliveries 10, 0), (PollDeliveries 10, 30 * second)]"

theorem webhook_attempts_bounded_witness:
  "length (posts_of ''i'' (posts (wh_run sample_wh sample_commands (sample_webhooks [])))) = 2 \<and>
   length (posts_of ''i'' (posts (wh_run sample_wh sample_commands (sample_webhooks [])))) \<le> 5 + retry_commands ''i'' sample_commands"
proof
  show "length (posts_of ''i'' (posts (wh_run sample_wh sample_commands (sample_webhooks [])))) = 2" by code_simp
  have "deliveries (store (sample_webhooks [])) = []" "posts (sample_webhooks []) = []" by (simp_all add: sample_webhooks_def)
  from webhook_attempts_bounded [OF this]
  show "length (posts_of ''i'' (posts (wh_run sample_wh sample_commands (sample_webhooks [])))) \<le> 5 + retry_commands ''i'' sample_commands"
    by blast
qed

theorem webhook_success_final_witness:
  "sample_delivery ''x'' ''delivering'' \<in> set (deliveries (store (wh_run sample_wh [(PollDeliveries 10, 0), (RetryDelivery ''w'' ''u'' ''x'', 0)]
     (sample_webhooks [sample_delivery ''x'' ''delivering'']))))"
  by (rule conjunct1 [OF webhook_success_final]) (simp_all add: sample_webhooks_def sample_delivery_def)

theorem webhook_post_authorized_witness:
  "\<exists>new. new \<noteq> [] \<and> posts (snd (run_state (run_wh sample_wh (PollDeliveries 10) 0) (sample_webhooks [sample_delivery ''x'' ''pending'']))) = new \<and>
     authorized_posts sample_wh (store (sample_webhooks [sample_delivery ''x'' ''pending''])) 0 new"
proof -
  let ?w = "sample_webhooks [sample_delivery ''x'' ''pending'']"
  obtain u v where run: "run_state (run_wh sample_wh (PollDeliveries 10) 0) ?w = (u, v)" by (meson surj_pair)
  have "posts (snd (run_state (run_wh sample_wh (PollDeliveries 10) 0) ?w)) \<noteq> []" by code_simp
  moreover have "distinct (map wd_ID (deliveries (store ?w)))" "posts ?w = []" by (simp_all add: sample_webhooks_def)
  ultimately show ?thesis using webhook_post_authorized [OF _ run] run by auto
qed

abbreviation sample_filter :: DeliveryFilter where
  "sample_filter \<equiv> \<lparr>df_WebhookID = [], df_Status = [], df_EventType = [], df_From = None, df_To = None, df_Limit = 1, df_Cursor = []\<rparr>"

theorem webhook_page_skips_witness:
  "\<exists>rows c. page_of ''w'' sample_filter (store (sample_webhooks [sample_delivery ''x'' ''failed'', sample_delivery ''y'' ''failed''])) = (rows, c) \<and>
     (\<exists>r\<in>set (deliveries (store (sample_webhooks [sample_delivery ''x'' ''failed'', sample_delivery ''y'' ''failed'']))). wd_ID r = c \<and> r \<notin> set rows)"
proof -
  let ?d = "store (sample_webhooks [sample_delivery ''x'' ''failed'', sample_delivery ''y'' ''failed''])"
  obtain rows c where p: "page_of ''w'' sample_filter ?d = (rows, c)" by fastforce
  have "snd (page_of ''w'' sample_filter ?d) \<noteq> []" by code_simp
  moreover have "distinct (map wd_ID (deliveries ?d))" by (simp add: sample_webhooks_def sample_delivery_def new_delivery_def)
  ultimately show ?thesis using p webhook_page_skips [OF _ p] by fastforce
qed

theorem webhook_event_reaches_witness:
  "\<exists>v. run_state (WebhookConsumer_HandleEvent sample_wh (RawEnvelope sample_envelope) 0) (sample_webhooks []) = (Inr (), v) \<and>
     reached sample_wh sample_envelope ''e'' (store (sample_webhooks [])) (store v) sample_config"
proof -
  have "Validate sample_envelope = None" by code_simp
  moreover have "inj (h_gen sample_wh)" by (auto simp: inj_def sample_wh_def)
  ultimately show ?thesis
    using webhook_event_reaches [of "sample_webhooks []" sample_wh sample_envelope "''e''" 0]
    by (simp add: sample_webhooks_def fresh_ids_def sample_envelope_def sample_wh_def sample_config_def AllowedSubscriptionEvents_def)
qed

end
