(* ===== verification/Workspace_Store.thy ===== *)
theory Workspace_Store
  imports Identity_Auth
begin

text \<open>
  The repositories for workspaces, roles, memberships, invitations and settings (\<open>identity/infrastructure/postgres\<close>), with the
  keys, references and cascades of the migrations, and the cache-aside reads of \<open>platform/redis/cache.go\<close> with the entries of
  \<open>identity/infrastructure/redis/cache.go\<close>. Read and write repositories run the same queries and are one definition.
\<close>

section \<open>Workspaces\<close>

definition Workspace_Create :: "Workspace \<Rightarrow> unit iprog" where
  "Workspace_Create w = exec (\<lambda>d.
     if has wk_ID (wk_ID w) (workspaces d) then SqlErr (Err IdWorkspaceNameConflict)
     else SqlOk (Inr ()) (d\<lparr>workspaces := workspaces d @ [w\<lparr>wk_MembershipID := [], wk_RoleNames := []\<rparr>]\<rparr>))"

definition Workspace_FindByID :: "string \<Rightarrow> Workspace iprog" where
  "Workspace_FindByID workspaceID = exec (\<lambda>d. SqlOk (found IdWorkspaceNotFound
     (find (\<lambda>w. wk_ID w = workspaceID) (workspaces d))) d)"

definition Workspace_ListByUser :: "string \<Rightarrow> Workspace list iprog" where
  "Workspace_ListByUser userID = exec (\<lambda>d. SqlOk (Inr (order_desc wk_CreatedAt
     (concat (map (\<lambda>w. map (\<lambda>_. w) (filter (\<lambda>m. mb_WorkspaceID m = wk_ID w \<and> mb_UserID m = userID \<and>
        mb_Status m = ''active'') (memberships d))) (workspaces d))))) d)"

section \<open>Roles\<close>

definition Role_Create :: "Role \<Rightarrow> unit iprog" where
  "Role_Create role = exec (\<lambda>d.
     if has rl_ID (rl_ID role) (roles d) \<or>
       list_ex (\<lambda>r. rl_WorkspaceID r = rl_WorkspaceID role \<and> rl_Name r = rl_Name role) (roles d)
     then SqlErr (Err IdRoleNameConflict)
     else if \<not> has wk_ID (rl_WorkspaceID role) (workspaces d) then SqlErr ErrDriver
     else SqlOk (Inr ()) (d\<lparr>roles := roles d @ [role]\<rparr>))"

definition Role_Update :: "Role \<Rightarrow> unit iprog" where
  "Role_Update role = exec (\<lambda>d.
     let own = (\<lambda>r. rl_ID r = rl_ID role \<and> rl_WorkspaceID r = rl_WorkspaceID role) in
     if list_ex own (roles d) \<and>
       list_ex (\<lambda>r. \<not> own r \<and> rl_WorkspaceID r = rl_WorkspaceID role \<and> rl_Name r = rl_Name role) (roles d)
     then SqlErr (Err IdRoleNameConflict)
     else SqlOk (Inr ()) (d\<lparr>roles := update_where own (\<lambda>r. r\<lparr>rl_Name := rl_Name role,
         rl_PermissionsMask := rl_PermissionsMask role, rl_Builtin := rl_Builtin role, rl_Type := rl_Type role,
         rl_Status := rl_Status role, rl_Version := rl_Version role, rl_UpdatedAt := rl_UpdatedAt role\<rparr>) (roles d)\<rparr>))"

text \<open>The two join tables of roles are written alike: all pairs of the left id are deleted, then the new ones inserted.\<close>

definition delete_membership_roles :: "string \<Rightarrow> unit iprog" where
  "delete_membership_roles membershipID = exec (\<lambda>d. SqlOk (Inr ())
     (d\<lparr>membership_roles := filter (\<lambda>(m, r). m \<noteq> membershipID) (membership_roles d)\<rparr>))"

definition insert_membership_role :: "string \<Rightarrow> string \<Rightarrow> unit iprog" where
  "insert_membership_role membershipID roleID = exec (\<lambda>d.
     if (membershipID, roleID) \<in> set (membership_roles d) \<or> \<not> has mb_ID membershipID (memberships d) \<or>
       \<not> has rl_ID roleID (roles d)
     then SqlErr ErrDriver
     else SqlOk (Inr ()) (d\<lparr>membership_roles := membership_roles d @ [(membershipID, roleID)]\<rparr>))"

fun insert_membership_roles :: "string \<Rightarrow> string list \<Rightarrow> unit iprog" where
  "insert_membership_roles membershipID [] = ret (Inr ())"
| "insert_membership_roles membershipID (r # rs) =
     thenE (insert_membership_role membershipID r) (insert_membership_roles membershipID rs)"

definition Role_ReplaceMembershipRoles :: "string \<Rightarrow> string list \<Rightarrow> unit iprog" where
  "Role_ReplaceMembershipRoles membershipID roleIDs =
     thenE (delete_membership_roles membershipID) (insert_membership_roles membershipID roleIDs)"

definition delete_invitation_roles :: "string \<Rightarrow> unit iprog" where
  "delete_invitation_roles invitationID = exec (\<lambda>d. SqlOk (Inr ())
     (d\<lparr>invitation_roles := filter (\<lambda>(i, r). i \<noteq> invitationID) (invitation_roles d)\<rparr>))"

definition insert_invitation_role :: "string \<Rightarrow> string \<Rightarrow> unit iprog" where
  "insert_invitation_role invitationID roleID = exec (\<lambda>d.
     if (invitationID, roleID) \<in> set (invitation_roles d) \<or> \<not> has iv_ID invitationID (invitations d) \<or>
       \<not> has rl_ID roleID (roles d)
     then SqlErr ErrDriver
     else SqlOk (Inr ()) (d\<lparr>invitation_roles := invitation_roles d @ [(invitationID, roleID)]\<rparr>))"

fun insert_invitation_roles :: "string \<Rightarrow> string list \<Rightarrow> unit iprog" where
  "insert_invitation_roles invitationID [] = ret (Inr ())"
| "insert_invitation_roles invitationID (r # rs) =
     thenE (insert_invitation_role invitationID r) (insert_invitation_roles invitationID rs)"

definition Role_ReplaceInvitationRoles :: "string \<Rightarrow> string list \<Rightarrow> unit iprog" where
  "Role_ReplaceInvitationRoles invitationID roleIDs =
     thenE (delete_invitation_roles invitationID) (insert_invitation_roles invitationID roleIDs)"

definition Role_FindByID :: "string \<Rightarrow> string \<Rightarrow> Role iprog" where
  "Role_FindByID workspaceID roleID = exec (\<lambda>d. SqlOk (found IdRoleNotFound
     (find (\<lambda>r. rl_WorkspaceID r = workspaceID \<and> rl_ID r = roleID) (roles d))) d)"

definition Role_FindByType :: "string \<Rightarrow> string \<Rightarrow> Role iprog" where
  "Role_FindByType workspaceID roleType = exec (\<lambda>d. SqlOk (found IdRoleNotFound
     (find (\<lambda>r. rl_WorkspaceID r = workspaceID \<and> rl_Type r = roleType) (roles d))) d)"

definition Role_FindByIDs :: "string \<Rightarrow> string list \<Rightarrow> Role list iprog" where
  "Role_FindByIDs workspaceID roleIDs =
     (if roleIDs = [] then ret (Inr [])
      else exec (\<lambda>d. SqlOk (Inr (sort_key rl_CreatedAt
        (filter (\<lambda>r. rl_WorkspaceID r = workspaceID \<and> rl_ID r \<in> set roleIDs) (roles d)))) d))"

definition Role_ListByWorkspace :: "string \<Rightarrow> Role list iprog" where
  "Role_ListByWorkspace workspaceID = exec (\<lambda>d. SqlOk (Inr (sort_key rl_CreatedAt
     (filter (\<lambda>r. rl_WorkspaceID r = workspaceID) (roles d)))) d)"

text \<open>A pair occurs once in a join table (it is the primary key), so the join has each role once.\<close>

definition Role_ListByMembership :: "string \<Rightarrow> Role list iprog" where
  "Role_ListByMembership membershipID = exec (\<lambda>d. SqlOk (Inr (sort_key rl_CreatedAt
     (filter (\<lambda>r. (membershipID, rl_ID r) \<in> set (membership_roles d)) (roles d)))) d)"

definition Role_ListByInvitation :: "string \<Rightarrow> Role list iprog" where
  "Role_ListByInvitation invitationID = exec (\<lambda>d. SqlOk (Inr (sort_key rl_CreatedAt
     (filter (\<lambda>r. (invitationID, rl_ID r) \<in> set (invitation_roles d)) (roles d)))) d)"

definition role_members :: "identity_db \<Rightarrow> string \<Rightarrow> string \<Rightarrow> (string \<times> string) list" where
  "role_members d workspaceID roleID = filter (\<lambda>(m, r). r = roleID \<and>
     list_ex (\<lambda>x. rl_ID x = r \<and> rl_WorkspaceID x = workspaceID) (roles d) \<and>
     list_ex (\<lambda>x. mb_ID x = m \<and> mb_Status x = ''active'') (memberships d)) (membership_roles d)"

definition Role_CountMembershipsByRole :: "string \<Rightarrow> string \<Rightarrow> nat iprog" where
  "Role_CountMembershipsByRole workspaceID roleID = exec (\<lambda>d. SqlOk (Inr (length (role_members d workspaceID roleID))) d)"

section \<open>Memberships\<close>

definition membership_row :: "Membership \<Rightarrow> Membership" where
  "membership_row m = m\<lparr>mb_UserEmail := None, mb_RoleIDs := [], mb_RoleNames := [], mb_EffectivePermissions := []\<rparr>"

definition Membership_Create :: "Membership \<Rightarrow> unit iprog" where
  "Membership_Create m = exec (\<lambda>d.
     if has mb_ID (mb_ID m) (memberships d) \<or> \<not> has wk_ID (mb_WorkspaceID m) (workspaces d) \<or>
       \<not> has us_ID (mb_UserID m) (users d) \<or>
       list_ex (\<lambda>r. mb_WorkspaceID r = mb_WorkspaceID m \<and> mb_UserID r = mb_UserID m) (memberships d)
     then SqlErr ErrDriver
     else SqlOk (Inr ()) (d\<lparr>memberships := memberships d @ [membership_row m]\<rparr>))"

definition Membership_DeleteByID :: "string \<Rightarrow> unit iprog" where
  "Membership_DeleteByID membershipID = exec (\<lambda>d. SqlOk (Inr ())
     (d\<lparr>memberships := filter (\<lambda>m. mb_ID m \<noteq> membershipID) (memberships d),
        membership_roles := (if has mb_ID membershipID (memberships d)
          then filter (\<lambda>(m, r). m \<noteq> membershipID) (membership_roles d) else membership_roles d)\<rparr>))"

definition Membership_UpdateRole :: "string \<Rightarrow> string \<Rightarrow> gotime \<Rightarrow> unit iprog" where
  "Membership_UpdateRole membershipID role updatedAt = exec (\<lambda>d. SqlOk
     (if has mb_ID membershipID (memberships d) then Inr () else Inl (Err IdMembershipNotFound))
     (d\<lparr>memberships := update_where (\<lambda>m. mb_ID m = membershipID)
        (\<lambda>m. m\<lparr>mb_Role := role, mb_UpdatedAt := updatedAt\<rparr>) (memberships d)\<rparr>))"

definition Membership_UpdateStatus :: "string \<Rightarrow> string \<Rightarrow> gotime \<Rightarrow> unit iprog" where
  "Membership_UpdateStatus membershipID status updatedAt = exec (\<lambda>d.
     if \<not> has mb_ID membershipID (memberships d) then SqlOk (Inl (Err IdMembershipNotFound)) d
     else SqlOk (Inr ()) (d\<lparr>memberships := update_where (\<lambda>m. mb_ID m = membershipID)
       (\<lambda>m. m\<lparr>mb_Status := status, mb_UpdatedAt := updatedAt\<rparr>) (memberships d)\<rparr>))"

definition Membership_CountByWorkspaceAndRole :: "string \<Rightarrow> string \<Rightarrow> nat iprog" where
  "Membership_CountByWorkspaceAndRole workspaceID role = exec (\<lambda>d.
     SqlOk (Inr (length (filter (\<lambda>m. mb_WorkspaceID m = workspaceID \<and> mb_Role m = role) (memberships d)))) d)"

definition Membership_FindByID :: "string \<Rightarrow> Membership iprog" where
  "Membership_FindByID membershipID = exec (\<lambda>d. SqlOk (found IdMembershipNotFound
     (find (\<lambda>m. mb_ID m = membershipID) (memberships d))) d)"

definition Membership_FindByWorkspaceAndUser :: "string \<Rightarrow> string \<Rightarrow> Membership iprog" where
  "Membership_FindByWorkspaceAndUser workspaceID userID = exec (\<lambda>d. SqlOk (found IdMembershipNotFound
     (find (\<lambda>m. mb_WorkspaceID m = workspaceID \<and> mb_UserID m = userID) (memberships d))) d)"

definition Membership_ListByWorkspace :: "string \<Rightarrow> Membership list iprog" where
  "Membership_ListByWorkspace workspaceID = exec (\<lambda>d. SqlOk (Inr (map
     (\<lambda>m. m\<lparr>mb_UserEmail := map_option us_Email (find (\<lambda>u. us_ID u = mb_UserID m) (users d))\<rparr>)
     (sort_key mb_CreatedAt (filter (\<lambda>m. mb_WorkspaceID m = workspaceID) (memberships d))))) d)"

section \<open>Invitations\<close>

definition Invitation_Create :: "Invitation \<Rightarrow> unit iprog" where
  "Invitation_Create invitation = exec (\<lambda>d.
     if has iv_ID (iv_ID invitation) (invitations d) \<or> has iv_Token (iv_Token invitation) (invitations d) \<or>
       \<not> has wk_ID (iv_WorkspaceID invitation) (workspaces d)
     then SqlErr ErrDriver
     else SqlOk (Inr ()) (d\<lparr>invitations := invitations d @ [invitation\<lparr>iv_RoleIDs := []\<rparr>]\<rparr>))"

definition Invitation_UpdateStatus :: "string \<Rightarrow> string \<Rightarrow> gotime \<Rightarrow> unit iprog" where
  "Invitation_UpdateStatus invitationID status updatedAt = exec (\<lambda>d. SqlOk
     (if has iv_ID invitationID (invitations d) then Inr () else Inl (Err IdInvitationNotFound))
     (d\<lparr>invitations := update_where (\<lambda>i. iv_ID i = invitationID)
        (\<lambda>i. i\<lparr>iv_Status := status, iv_UpdatedAt := updatedAt\<rparr>) (invitations d)\<rparr>))"

definition Invitation_FindByToken :: "string \<Rightarrow> Invitation iprog" where
  "Invitation_FindByToken token = exec (\<lambda>d. SqlOk (found IdInvitationNotFound
     (find (\<lambda>i. iv_Token i = token) (invitations d))) d)"

definition Invitation_ListByWorkspace :: "string \<Rightarrow> Invitation list iprog" where
  "Invitation_ListByWorkspace workspaceID = exec (\<lambda>d. SqlOk (Inr (order_desc iv_CreatedAt
     (filter (\<lambda>i. iv_WorkspaceID i = workspaceID) (invitations d)))) d)"

section \<open>Settings\<close>

definition marshalSettingsData :: "WorkspaceSettings \<Rightarrow> (string \<times> json) list" where
  "marshalSettingsData s =
     (if sg_DefaultSenderDomainID s \<noteq> []
      then [(''email_defaults'', JObj [(''default_sender_domain_id'', JStr (sg_DefaultSenderDomainID s))])] else []) @
     (if sg_FeatureControls s \<noteq> [] then [(''feature_controls'', JObj (sg_FeatureControls s))] else []) @
     filter (\<lambda>(k, v). k \<noteq> ''email_defaults'' \<and> k \<noteq> ''feature_controls'') (sg_SettingsJSON s)"

definition mapToSettings :: "settings_row \<Rightarrow> WorkspaceSettings" where
  "mapToSettings row =
     \<lparr>sg_WorkspaceID = st_WorkspaceID row, sg_SettingsJSON = st_Data row,
      sg_DefaultSenderDomainID = (case map_of (st_Data row) ''email_defaults'' of
          Some (JObj ed) \<Rightarrow> (case map_of ed ''default_sender_domain_id'' of Some (JStr sid) \<Rightarrow> sid | _ \<Rightarrow> [])
        | _ \<Rightarrow> []),
      sg_FeatureControls = (case map_of (st_Data row) ''feature_controls'' of Some (JObj fc) \<Rightarrow> fc | _ \<Rightarrow> []),
      sg_Version = st_Version row, sg_UpdatedByUserID = st_UpdatedBy row,
      sg_CreatedAt = st_CreatedAt row, sg_UpdatedAt = st_UpdatedAt row\<rparr>"

definition Settings_GetByWorkspace :: "string \<Rightarrow> WorkspaceSettings iprog" where
  "Settings_GetByWorkspace workspaceID = exec (\<lambda>d. SqlOk (map_sum id mapToSettings (found IdSettingsNotFound
     (find (\<lambda>s. st_WorkspaceID s = workspaceID) (settings_rows d)))) d)"

text \<open>\<open>updated_by_user_id\<close> is null for the empty string and refers to a user otherwise.\<close>

definition bad_settings_row :: "settings_row \<Rightarrow> identity_db \<Rightarrow> bool" where
  "bad_settings_row row d \<longleftrightarrow> \<not> has wk_ID (st_WorkspaceID row) (workspaces d) \<or>
     (st_UpdatedBy row \<noteq> [] \<and> \<not> has us_ID (st_UpdatedBy row) (users d)) \<or> st_Version row < 1"

definition settings_to_row :: "WorkspaceSettings \<Rightarrow> int \<Rightarrow> settings_row" where
  "settings_to_row s version = \<lparr>st_WorkspaceID = sg_WorkspaceID s, st_Data = marshalSettingsData s, st_Version = version,
     st_UpdatedBy = sg_UpdatedByUserID s, st_CreatedAt = sg_CreatedAt s, st_UpdatedAt = sg_UpdatedAt s\<rparr>"

definition Settings_CreateDefault :: "WorkspaceSettings \<Rightarrow> unit iprog" where
  "Settings_CreateDefault s = exec (\<lambda>d.
     if has st_WorkspaceID (sg_WorkspaceID s) (settings_rows d) then SqlOk (Inr ()) d
     else if bad_settings_row (settings_to_row s (sg_Version s)) d then SqlErr ErrDriver
     else SqlOk (Inr ()) (d\<lparr>settings_rows := settings_rows d @ [settings_to_row s (sg_Version s)]\<rparr>))"

definition Settings_Upsert :: "WorkspaceSettings \<Rightarrow> int option \<Rightarrow> unit iprog" where
  "Settings_Upsert s expectedVersion = exec (\<lambda>d.
     case expectedVersion of
       Some v \<Rightarrow>
         let own = (\<lambda>r. st_WorkspaceID r = sg_WorkspaceID s \<and> st_Version r = v) in
         if list_ex own (settings_rows d) then
           (if sg_UpdatedByUserID s \<noteq> [] \<and> \<not> has us_ID (sg_UpdatedByUserID s) (users d) then SqlErr ErrDriver
            else SqlOk (Inr ()) (d\<lparr>settings_rows := update_where own
              (\<lambda>r. r\<lparr>st_Data := marshalSettingsData s, st_Version := st_Version r + 1,
                 st_UpdatedBy := sg_UpdatedByUserID s, st_UpdatedAt := sg_UpdatedAt s\<rparr>) (settings_rows d)\<rparr>))
         else SqlOk (Inl (Err IdSettingsVersionConflict)) d
     | None \<Rightarrow>
         if has st_WorkspaceID (sg_WorkspaceID s) (settings_rows d) then SqlOk (Inl (Err IdSettingsVersionConflict)) d
         else if bad_settings_row (settings_to_row s 1) d then SqlErr ErrDriver
         else SqlOk (Inr ()) (d\<lparr>settings_rows := settings_rows d @ [settings_to_row s 1]\<rparr>))"

section \<open>Cache-aside\<close>

text \<open>
  \<open>GetOrLoadJSON\<close> for the entry that \<open>read\<close> and \<open>write\<close> access. What another process does with the entry meanwhile is left out, as
  are the waiting itself and the metrics; a lock that is held (by a process that died) is a member of \<open>load_locks\<close>.
\<close>

definition loadAndCache :: "('v \<Rightarrow> id_world \<Rightarrow> id_world) \<Rightarrow> 'v iprog \<Rightarrow> 'v iprog" where
  "loadAndCache write loadFn = bindE loadFn (\<lambda>v. do { _ \<leftarrow> redis (\<lambda>_. ()) (write v); ret (Inr v) })"

fun waitForCachedValue :: "(id_world \<Rightarrow> 'v option) \<Rightarrow> nat \<Rightarrow> 'v option iprog" where
  "waitForCachedValue read 0 = ret (Inr None)"
| "waitForCachedValue read (Suc n) =
     bindE (redis read id) (\<lambda>r. case r of Some v \<Rightarrow> ret (Inr (Some v)) | None \<Rightarrow> waitForCachedValue read n)"

definition AcquireLock :: "cache_key \<Rightarrow> bool iprog" where
  "AcquireLock k = redis (\<lambda>w. k \<notin> load_locks w) (\<lambda>w. w\<lparr>load_locks := insert k (load_locks w)\<rparr>)"

definition ReleaseLock :: "cache_key \<Rightarrow> unit iprog" where
  "ReleaseLock k = redis (\<lambda>_. ()) (\<lambda>w. w\<lparr>load_locks := load_locks w - {k}\<rparr>)"

definition GetOrLoadJSON ::
  "cache_key \<Rightarrow> (id_world \<Rightarrow> 'v option) \<Rightarrow> ('v \<Rightarrow> id_world \<Rightarrow> id_world) \<Rightarrow> 'v iprog \<Rightarrow> 'v iprog" where
  "GetOrLoadJSON k read write loadFn =
     bindE (redis read id) (\<lambda>r. case r of
         Some v \<Rightarrow> ret (Inr v)
       | None \<Rightarrow> bindE (redis read id) (\<lambda>r. case r of
           Some v \<Rightarrow> ret (Inr v)
         | None \<Rightarrow> do {
             l \<leftarrow> AcquireLock k;
             (case l of
                Inl _ \<Rightarrow> loadAndCache write loadFn
              | Inr False \<Rightarrow> bindE (waitForCachedValue read 4) (\<lambda>r. case r of
                    Some v \<Rightarrow> ret (Inr v) | None \<Rightarrow> loadAndCache write loadFn)
              | Inr True \<Rightarrow> do {
                  out \<leftarrow> bindE (redis read id) (\<lambda>r. case r of
                      Some v \<Rightarrow> ret (Inr v) | None \<Rightarrow> loadAndCache write loadFn);
                  _ \<leftarrow> ReleaseLock k;
                  ret out
                })
           }))"

definition GetOrLoadWorkspaceAccess :: "string \<Rightarrow> string \<Rightarrow> Membership iprog \<Rightarrow> Membership iprog" where
  "GetOrLoadWorkspaceAccess workspaceID userID loadFn =
     GetOrLoadJSON (AccessKey workspaceID userID) (\<lambda>w. access_cache w (workspaceID, userID))
       (\<lambda>m w. w\<lparr>access_cache := (access_cache w)((workspaceID, userID) \<mapsto> m)\<rparr>) loadFn"

definition InvalidateWorkspaceAccess :: "string \<Rightarrow> string \<Rightarrow> unit iprog" where
  "InvalidateWorkspaceAccess workspaceID userID = redis (\<lambda>_. ())
     (\<lambda>w. w\<lparr>access_cache := (access_cache w)((workspaceID, userID) := None)\<rparr>)"

definition InvalidateWorkspaceAccessByPrefix :: "string \<Rightarrow> unit iprog" where
  "InvalidateWorkspaceAccessByPrefix workspaceID = redis (\<lambda>_. ())
     (\<lambda>w. w\<lparr>access_cache := (\<lambda>(ws, u). if ws = workspaceID then None else access_cache w (ws, u))\<rparr>)"

definition GetOrLoadWorkspaceSettings :: "string \<Rightarrow> WorkspaceSettings iprog \<Rightarrow> WorkspaceSettings iprog" where
  "GetOrLoadWorkspaceSettings workspaceID loadFn =
     GetOrLoadJSON (SettingsKey workspaceID) (\<lambda>w. settings_cache w workspaceID)
       (\<lambda>s w. w\<lparr>settings_cache := (settings_cache w)(workspaceID \<mapsto> s)\<rparr>) loadFn"

definition InvalidateWorkspaceSettings :: "string \<Rightarrow> unit iprog" where
  "InvalidateWorkspaceSettings workspaceID = redis (\<lambda>_. ())
     (\<lambda>w. w\<lparr>settings_cache := (settings_cache w)(workspaceID := None)\<rparr>)"

end
