(* ===== verification/Workspaces.thy ===== *)
theory Workspaces
  imports Workspace_Store
begin

text \<open>
  The commands and queries on workspaces, members, invitations, roles and settings: \<open>identity/app/workspace\<close>,
  \<open>identity/app/membership\<close>, \<open>identity/app/workspace_access.go\<close> and \<open>identity/app/settings.go\<close>. The audit recorder is a call to another
  module. The command and query buses only delegate and are passed over.
\<close>

section \<open>Creating a workspace\<close>

fun assign_role_ids :: "identity_ports \<Rightarrow> string \<Rightarrow> Role list \<Rightarrow> Role list iprog" where
  "assign_role_ids P workspaceID [] = ret (Inr [])"
| "assign_role_ids P workspaceID (r # rs) =
     bindE (idGen (i_gen P)) (\<lambda>i.
     bindE (assign_role_ids P workspaceID rs) (\<lambda>rest.
       ret (Inr (r\<lparr>rl_ID := i, rl_WorkspaceID := workspaceID\<rparr> # rest))))"

definition owner_role_id :: "Role list \<Rightarrow> string" where
  "owner_role_id rs = foldl (\<lambda>found r. if rl_Type r = ''owner'' then rl_ID r else found) [] rs"

fun create_roles :: "Role list \<Rightarrow> unit iprog" where
  "create_roles [] = ret (Inr ())"
| "create_roles (r # rs) = thenE (Role_Create r) (create_roles rs)"

definition DefaultSettingsJSON :: "(string \<times> json) list" where
  "DefaultSettingsJSON = [(''email_defaults'', JObj [(''default_sender_domain_id'', JStr [])]), (''feature_controls'', JObj [])]"

definition default_settings :: "string \<Rightarrow> gotime \<Rightarrow> WorkspaceSettings" where
  "default_settings workspaceID now = \<lparr>sg_WorkspaceID = workspaceID, sg_SettingsJSON = DefaultSettingsJSON,
     sg_DefaultSenderDomainID = [], sg_FeatureControls = [], sg_Version = 1, sg_UpdatedByUserID = [],
     sg_CreatedAt = now, sg_UpdatedAt = now\<rparr>"

definition create_all :: "Workspace \<Rightarrow> Membership \<Rightarrow> Role list \<Rightarrow> string \<Rightarrow> gotime \<Rightarrow> unit iprog" where
  "create_all ws membership defaultRoles ownerRoleID now =
     thenE (Workspace_Create ws) (thenE (Membership_Create membership) (thenE (create_roles defaultRoles)
       (thenE (Role_ReplaceMembershipRoles (mb_ID membership) [ownerRoleID])
         (Settings_CreateDefault (default_settings (wk_ID ws) now)))))"

definition CreateWorkspace_Execute :: "identity_ports \<Rightarrow> string \<Rightarrow> string \<Rightarrow> gotime \<Rightarrow> Workspace iprog" where
  "CreateWorkspace_Execute P rawName userID now =
     (let name = TrimSpace rawName in
      if name = [] then ret (Inl (Err IdInvalidWorkspaceName))
      else bindE (idGen (i_gen P)) (\<lambda>wsID.
        case NewWorkspace wsID name now of
          Inl e \<Rightarrow> ret (Inl e)
        | Inr ws \<Rightarrow>
            bindE (idGen (i_gen P)) (\<lambda>membershipID.
            bindE (assign_role_ids P (wk_ID ws) (DefaultRoleDefinitions now)) (\<lambda>defaultRoles.
              let membership = NewMembership membershipID (wk_ID ws) userID ''Owner'' now;
                  ownerRoleID = owner_role_id defaultRoles
              in if ownerRoleID = [] then ret (Inl (Err IdRoleNotFound))
                 else thenE (WithinTx (create_all ws membership defaultRoles ownerRoleID now))
                   (ret (Inr (ws\<lparr>wk_MembershipID := mb_ID membership, wk_RoleNames := [''Owner'']\<rparr>)))))))"

section \<open>Members\<close>

text \<open>A user who is no member is denied access.\<close>

definition denied_unless_member :: "Membership iprog \<Rightarrow> Membership iprog" where
  "denied_unless_member f = do {
     r \<leftarrow> f;
     ret (case r of
       Inl e \<Rightarrow> Inl (if e = Err IdMembershipNotFound then Err IdWorkspaceAccessDenied else e) | Inr m \<Rightarrow> Inr m)
   }"

text \<open>The check that opens all commands on members.\<close>

definition acting_member :: "string \<Rightarrow> string \<Rightarrow> string \<Rightarrow> Membership iprog" where
  "acting_member workspaceID userID permission =
     bindE (denied_unless_member (Membership_FindByWorkspaceAndUser workspaceID userID)) (\<lambda>m.
     bindE (Role_ListByMembership (mb_ID m)) (\<lambda>rs.
       if \<not> HasPermission (EffectivePermissions rs) permission then ret (Inl (Err IdMembershipManageDenied))
       else ret (Inr m)))"

definition assigned_roles :: "string \<Rightarrow> string list \<Rightarrow> Role list iprog" where
  "assigned_roles workspaceID roleIDs =
     bindE (Role_FindByIDs workspaceID roleIDs) (\<lambda>rs.
       if length rs \<noteq> length roleIDs \<or> \<not> list_all (\<lambda>r. rl_Status r = ''active'') rs
       then ret (Inl (Err IdInvalidRole)) else ret (Inr rs))"

record InviteCommand =
  in_WorkspaceID :: string
  in_Email :: string
  in_RoleIDs :: "string list"
  in_InviterID :: string
  in_Now :: gotime

definition already_member :: "string \<Rightarrow> string \<Rightarrow> id_error \<Rightarrow> unit iprog" where
  "already_member workspaceID userID refusal = do {
     r \<leftarrow> Membership_FindByWorkspaceAndUser workspaceID userID;
     ret (case r of Inr _ \<Rightarrow> Inl (Err refusal) | Inl e \<Rightarrow> if e = Err IdMembershipNotFound then Inr () else Inl e)
   }"

definition check_invited :: "string \<Rightarrow> string \<Rightarrow> unit iprog" where
  "check_invited workspaceID email = do {
     r \<leftarrow> User_FindByEmail email;
     (case r of
        Inl e \<Rightarrow> ret (if e = Err IdNotFound then Inr () else Inl e)
      | Inr u \<Rightarrow> already_member workspaceID (us_ID u) IdInvitationPayloadInvalid)
   }"

definition persist_invitation :: "identity_ports \<Rightarrow> InviteCommand \<Rightarrow> User \<Rightarrow> Invitation \<Rightarrow> string list \<Rightarrow> unit iprog" where
  "persist_invitation P cmd inviter invitation roleIDs =
     thenE (Invitation_Create invitation) (thenE (Role_ReplaceInvitationRoles (iv_ID invitation) roleIDs)
       (EmitEvent P ''identity.workspace.member_invited.v1'' ''invitation'' (iv_ID invitation) (in_WorkspaceID cmd)
         (JObj [(''workspace_id'', JStr (in_WorkspaceID cmd)), (''email'', JStr (iv_Email invitation)), (''role'', JStr (iv_Role invitation)),
           (''invited_by'', JStr (in_InviterID cmd)), (''invited_by_email'', JStr (us_Email inviter)),
           (''at'', JStr (i_rfc3339 P (in_Now cmd)))]) (in_Now cmd)))"

definition Invite_Execute :: "identity_ports \<Rightarrow> InviteCommand \<Rightarrow> Invitation iprog" where
  "Invite_Execute P cmd =
     bindE (acting_member (in_WorkspaceID cmd) (in_InviterID cmd) ''workspace.manage_members'') (\<lambda>_.
       if in_RoleIDs cmd = [] then ret (Inl (Err IdInvitationPayloadInvalid))
       else bindE (assigned_roles (in_WorkspaceID cmd) (in_RoleIDs cmd)) (\<lambda>rs.
         let email = TrimSpace (ToLower (in_Email cmd)) in
         if email = [] then ret (Inl (Err IdInvitationPayloadInvalid))
         else bindE (User_FindByID (in_InviterID cmd)) (\<lambda>inviter.
           thenE (check_invited (in_WorkspaceID cmd) email)
             (bindE (idGen (i_gen P)) (\<lambda>token.
              bindE (idGen (i_gen P)) (\<lambda>invitationID.
                let invitation = (NewInvitation invitationID (in_WorkspaceID cmd) email token (LegacyMembershipRole rs)
                      (in_Now cmd + 7 * 24 * 3600 * second) (in_Now cmd))\<lparr>iv_RoleIDs := RoleIDs rs\<rparr>
                in thenE (WithinTx (persist_invitation P cmd inviter invitation (RoleIDs rs))) (ret (Inr invitation))))))))"

definition matchEmail :: "string \<Rightarrow> string \<Rightarrow> bool" where
  "matchEmail a b \<longleftrightarrow> ToLower a = ToLower b"

definition persist_acceptance :: "Membership \<Rightarrow> string list \<Rightarrow> string \<Rightarrow> gotime \<Rightarrow> unit iprog" where
  "persist_acceptance membership roleIDs invitationID now =
     thenE (Membership_Create membership) (thenE (Role_ReplaceMembershipRoles (mb_ID membership) roleIDs)
       (Invitation_UpdateStatus invitationID ''accepted'' now))"

definition AcceptInvitation_Execute :: "identity_ports \<Rightarrow> string \<Rightarrow> string \<Rightarrow> gotime \<Rightarrow> Membership iprog" where
  "AcceptInvitation_Execute P token userID now =
     bindE (Invitation_FindByToken token) (\<lambda>invitation.
       if Invitation_IsExpired invitation now then ret (Inl (Err IdInvitationExpired))
       else if Invitation_IsAccepted invitation then ret (Inl (Err IdInvitationAccepted))
       else bindE (User_FindByID userID) (\<lambda>user.
         if \<not> matchEmail (us_Email user) (iv_Email invitation) then ret (Inl (Err IdWorkspaceAccessDenied))
         else thenE (already_member (iv_WorkspaceID invitation) userID IdInvitationAccepted)
           (bindE (Role_ListByInvitation (iv_ID invitation)) (\<lambda>rs.
             if rs = [] then ret (Inl (Err IdInvalidRole))
             else bindE (idGen (i_gen P)) (\<lambda>membershipID.
               let m = NewMembership membershipID (iv_WorkspaceID invitation) userID (LegacyMembershipRole rs) now in
               thenE (WithinTx (persist_acceptance m (RoleIDs rs) (iv_ID invitation) now))
                 (ret (Inr (m\<lparr>mb_RoleIDs := RoleIDs rs, mb_RoleNames := RoleNames rs,
                   mb_EffectivePermissions := EffectivePermissions rs\<rparr>))))))))"

definition target_member :: "string \<Rightarrow> string \<Rightarrow> Membership iprog" where
  "target_member workspaceID membershipID =
     bindE (Membership_FindByID membershipID) (\<lambda>t.
       if mb_WorkspaceID t \<noteq> workspaceID then ret (Inl (Err IdMembershipNotFound)) else ret (Inr t))"

definition last_owner_guard :: "string \<Rightarrow> unit iprog" where
  "last_owner_guard workspaceID =
     bindE (Role_FindByType workspaceID ''owner'') (\<lambda>ownerRole.
     bindE (Role_CountMembershipsByRole workspaceID (rl_ID ownerRole)) (\<lambda>n.
       if n \<le> 1 then ret (Inl (Err IdLastOwnerCannotBeRemoved)) else ret (Inr ())))"

definition RemoveMember_Execute :: "string \<Rightarrow> string \<Rightarrow> string \<Rightarrow> unit iprog" where
  "RemoveMember_Execute workspaceID membershipID removerID =
     bindE (acting_member workspaceID removerID ''workspace.manage_members'') (\<lambda>remover.
     bindE (target_member workspaceID membershipID) (\<lambda>target.
       if mb_ID target = mb_ID remover then ret (Inl (Err IdMembershipManageDenied))
       else bindE (Role_ListByMembership (mb_ID target)) (\<lambda>rs.
         thenE (if LegacyMembershipRole rs = ''Owner'' then last_owner_guard workspaceID else ret (Inr ()))
           (Membership_DeleteByID membershipID))))"

definition update_all :: "string \<Rightarrow> Role list \<Rightarrow> gotime \<Rightarrow> unit iprog" where
  "update_all membershipID rs now =
     thenE (Role_ReplaceMembershipRoles membershipID (RoleIDs rs)) (Membership_UpdateRole membershipID (LegacyMembershipRole rs) now)"

definition UpdateRole_Execute :: "string \<Rightarrow> string \<Rightarrow> string list \<Rightarrow> string \<Rightarrow> gotime \<Rightarrow> unit iprog" where
  "UpdateRole_Execute workspaceID membershipID roleIDs updaterID now =
     bindE (acting_member workspaceID updaterID ''workspace.manage_roles'') (\<lambda>_.
     bindE (target_member workspaceID membershipID) (\<lambda>target.
       if roleIDs = [] then ret (Inl (Err IdInvalidRole))
       else bindE (assigned_roles workspaceID roleIDs) (\<lambda>rs.
         bindE (Role_ListByMembership (mb_ID target)) (\<lambda>old.
           thenE (if LegacyMembershipRole old = ''Owner'' \<and> LegacyMembershipRole rs \<noteq> ''Owner''
                  then last_owner_guard workspaceID else ret (Inr ()))
             (WithinTx (update_all membershipID rs now))))))"

text \<open>The queries, behind the membership of the user.\<close>

definition GetWorkspace_Execute :: "string \<Rightarrow> string \<Rightarrow> Workspace iprog" where
  "GetWorkspace_Execute workspaceID userID =
     thenE (denied_unless_member (Membership_FindByWorkspaceAndUser workspaceID userID)) (Workspace_FindByID workspaceID)"

definition ListMembers_Execute :: "string \<Rightarrow> string \<Rightarrow> Membership list iprog" where
  "ListMembers_Execute workspaceID userID =
     thenE (denied_unless_member (Membership_FindByWorkspaceAndUser workspaceID userID)) (Membership_ListByWorkspace workspaceID)"

definition ListInvitations_Execute :: "string \<Rightarrow> string \<Rightarrow> Invitation list iprog" where
  "ListInvitations_Execute workspaceID userID =
     thenE (denied_unless_member (Membership_FindByWorkspaceAndUser workspaceID userID)) (Invitation_ListByWorkspace workspaceID)"

section \<open>Access\<close>

definition enrichMembership :: "Membership \<Rightarrow> Membership iprog" where
  "enrichMembership m = bindE (Role_ListByMembership (mb_ID m)) (\<lambda>rs.
     ret (Inr (m\<lparr>mb_RoleIDs := RoleIDs rs, mb_RoleNames := RoleNames rs, mb_EffectivePermissions := EffectivePermissions rs,
       mb_Role := (if mb_Role m = [] then LegacyMembershipRole rs else mb_Role m)\<rparr>)))"

definition enrichInvitation :: "Invitation \<Rightarrow> Invitation iprog" where
  "enrichInvitation i = bindE (Role_ListByInvitation (iv_ID i)) (\<lambda>rs.
     ret (Inr (i\<lparr>iv_RoleIDs := RoleIDs rs, iv_Role := (if iv_Role i = [] then LegacyMembershipRole rs else iv_Role i)\<rparr>)))"

fun mapE :: "('a \<Rightarrow> 'b iprog) \<Rightarrow> 'a list \<Rightarrow> 'b list iprog" where
  "mapE f [] = ret (Inr [])"
| "mapE f (x # xs) = bindE (f x) (\<lambda>y. bindE (mapE f xs) (\<lambda>ys. ret (Inr (y # ys))))"

definition loadAndEnrichMembership :: "string \<Rightarrow> string \<Rightarrow> Membership iprog" where
  "loadAndEnrichMembership workspaceID userID =
     bindE (Membership_FindByWorkspaceAndUser workspaceID userID) (\<lambda>m.
       if mb_Status m \<noteq> ''active'' then ret (Inl (Err IdWorkspaceAccessDenied)) else enrichMembership m)"

definition enrichedMembershipForUser :: "identity_ports \<Rightarrow> string \<Rightarrow> string \<Rightarrow> Membership iprog" where
  "enrichedMembershipForUser P workspaceID userID =
     (if i_hasCache P then GetOrLoadWorkspaceAccess workspaceID userID (loadAndEnrichMembership workspaceID userID)
      else loadAndEnrichMembership workspaceID userID)"

definition requireWorkspacePermission :: "identity_ports \<Rightarrow> string \<Rightarrow> string \<Rightarrow> string \<Rightarrow> Membership iprog" where
  "requireWorkspacePermission P workspaceID userID permission =
     bindE (denied_unless_member (enrichedMembershipForUser P workspaceID userID)) (\<lambda>m.
       if \<not> HasPermission (mb_EffectivePermissions m) permission then
         ret (Inl (Err (if permission = ''workspace.manage_roles'' then IdRoleManageDenied
           else if permission = ''workspace.manage_members'' then IdMembershipManageDenied else IdWorkspaceAccessDenied)))
       else ret (Inr m))"

definition GetWorkspaceAccess :: "identity_ports \<Rightarrow> string \<Rightarrow> string \<Rightarrow> Membership iprog" where
  "GetWorkspaceAccess P workspaceID userID = enrichedMembershipForUser P workspaceID userID"

definition invalidate_workspace :: "identity_ports \<Rightarrow> string \<Rightarrow> (id_world, unit) state" where
  "invalidate_workspace P workspaceID =
     (if i_hasCache P then do { _ \<leftarrow> InvalidateWorkspaceAccessByPrefix workspaceID; ret () } else ret ())"

definition ListWorkspaces :: "identity_ports \<Rightarrow> string \<Rightarrow> Workspace list iprog" where
  "ListWorkspaces P userID =
     bindE (Workspace_ListByUser userID) (mapE (\<lambda>w.
       bindE (enrichedMembershipForUser P (wk_ID w) userID) (\<lambda>m.
         ret (Inr (w\<lparr>wk_MembershipID := mb_ID m, wk_RoleNames := mb_RoleNames m\<rparr>)))))"

definition GetWorkspace :: "identity_ports \<Rightarrow> string \<Rightarrow> string \<Rightarrow> Workspace iprog" where
  "GetWorkspace P workspaceID userID =
     bindE (GetWorkspace_Execute workspaceID userID) (\<lambda>w.
     bindE (enrichedMembershipForUser P workspaceID userID) (\<lambda>m.
       ret (Inr (w\<lparr>wk_MembershipID := mb_ID m, wk_RoleNames := mb_RoleNames m\<rparr>))))"

definition ListWorkspaceMembers :: "identity_ports \<Rightarrow> string \<Rightarrow> string \<Rightarrow> Membership list iprog" where
  "ListWorkspaceMembers P workspaceID userID =
     thenE (requireWorkspacePermission P workspaceID userID ''workspace.read'')
       (bindE (ListMembers_Execute workspaceID userID) (mapE enrichMembership))"

definition ListWorkspaceInvitations :: "identity_ports \<Rightarrow> string \<Rightarrow> string \<Rightarrow> Invitation list iprog" where
  "ListWorkspaceInvitations P workspaceID userID =
     thenE (requireWorkspacePermission P workspaceID userID ''workspace.manage_members'')
       (bindE (ListInvitations_Execute workspaceID userID) (mapE enrichInvitation))"

definition UpdateWorkspaceMemberRole ::
  "identity_ports \<Rightarrow> string \<Rightarrow> string \<Rightarrow> string list \<Rightarrow> string \<Rightarrow> gotime \<Rightarrow> unit iprog" where
  "UpdateWorkspaceMemberRole P workspaceID membershipID roleIDs updaterID now =
     thenE (UpdateRole_Execute workspaceID membershipID roleIDs updaterID now)
       (do { _ \<leftarrow> invalidate_workspace P workspaceID; ret (Inr ()) })"

definition AssignWorkspaceMemberRoles ::
  "identity_ports \<Rightarrow> string \<Rightarrow> string \<Rightarrow> string list \<Rightarrow> string \<Rightarrow> gotime \<Rightarrow> Membership iprog" where
  "AssignWorkspaceMemberRoles P workspaceID membershipID roleIDs updaterID now =
     thenE (UpdateWorkspaceMemberRole P workspaceID membershipID roleIDs updaterID now)
       (bindE (Membership_FindByID membershipID) (\<lambda>row.
        bindE (enrichMembership row) (\<lambda>m. do {
          _ \<leftarrow> (if i_hasCache P then InvalidateWorkspaceAccess workspaceID (mb_UserID m) else ret (Inr ()));
          ret (Inr m)
        })))"

definition ListWorkspaceRoles :: "identity_ports \<Rightarrow> string \<Rightarrow> string \<Rightarrow> Role list iprog" where
  "ListWorkspaceRoles P workspaceID userID =
     thenE (requireWorkspacePermission P workspaceID userID ''workspace.manage_roles'') (Role_ListByWorkspace workspaceID)"

definition ListPermissions :: "string \<Rightarrow> (id_error, Permission list) result" where
  "ListPermissions userID = (if TrimSpace userID = [] then Inl (Err IdUnauthorized) else Inr permissionRegistry)"

definition CreateWorkspaceRole ::
  "identity_ports \<Rightarrow> string \<Rightarrow> string \<Rightarrow> string \<Rightarrow> string list \<Rightarrow> int64 option \<Rightarrow> gotime \<Rightarrow> Role iprog" where
  "CreateWorkspaceRole P workspaceID actorID name permissionNames permissionMask now =
     thenE (requireWorkspacePermission P workspaceID actorID ''workspace.manage_roles'')
       (let roleName = TrimSpace name in
        if roleName = [] then ret (Inl (Err IdPermissionSetInvalid))
        else case resolvePermissionMask permissionNames permissionMask of
            Inl e \<Rightarrow> ret (Inl (Err e))
          | Inr m \<Rightarrow> bindE (idGen (i_gen P)) (\<lambda>roleID.
              let role = \<lparr>rl_ID = roleID, rl_WorkspaceID = workspaceID, rl_Name = roleName, rl_Type = ''custom'',
                    rl_PermissionsMask = m, rl_Builtin = False, rl_Status = ''active'', rl_Version = 1,
                    rl_CreatedAt = now, rl_UpdatedAt = now\<rparr>
              in thenE (Role_Create role) (do { _ \<leftarrow> invalidate_workspace P workspaceID; ret (Inr role) })))"

text \<open>The changes \<open>UpdateWorkspaceRole\<close> makes to the role it has read: name, permissions, status; then the version.\<close>

definition patched_role ::
  "Role \<Rightarrow> string option \<Rightarrow> string list option \<Rightarrow> int64 option \<Rightarrow> string option \<Rightarrow> gotime \<Rightarrow> (id_error, Role) result" where
  "patched_role role name permissionNames permissionMask status now =
     (if name \<noteq> None \<and> rl_Builtin role then Inl (Err IdRoleAssignmentConflict)
      else
        let named = (case name of None \<Rightarrow> role | Some n \<Rightarrow> role\<lparr>rl_Name := TrimSpace n\<rparr>);
            masked = (if permissionNames \<noteq> None \<or> permissionMask \<noteq> None
              then map_sum Err (\<lambda>m. named\<lparr>rl_PermissionsMask := m\<rparr>)
                (resolvePermissionMask (case permissionNames of None \<Rightarrow> [] | Some ns \<Rightarrow> ns) permissionMask)
              else Inr named)
        in case masked of
             Inl e \<Rightarrow> Inl e
           | Inr r \<Rightarrow>
               let done = (\<lambda>r. Inr (r\<lparr>rl_Version := rl_Version r + 1, rl_UpdatedAt := now\<rparr>)) in
               (case status of
                  None \<Rightarrow> done r
                | Some s \<Rightarrow>
                    let normalized = TrimSpace (ToLower s) in
                    if normalized = ''active'' \<or> normalized = ''archived'' then done (r\<lparr>rl_Status := normalized\<rparr>)
                    else Inl (Err IdPermissionSetInvalid)))"

definition UpdateWorkspaceRole ::
  "identity_ports \<Rightarrow> string \<Rightarrow> string \<Rightarrow> string \<Rightarrow> string option \<Rightarrow> string list option \<Rightarrow> int64 option \<Rightarrow>
   string option \<Rightarrow> gotime \<Rightarrow> Role iprog" where
  "UpdateWorkspaceRole P workspaceID roleID actorID name permissionNames permissionMask status now =
     thenE (requireWorkspacePermission P workspaceID actorID ''workspace.manage_roles'')
       (bindE (Role_FindByID workspaceID roleID) (\<lambda>role.
          case patched_role role name permissionNames permissionMask status now of
            Inl e \<Rightarrow> ret (Inl e)
          | Inr role' \<Rightarrow> thenE (Role_Update role') (do { _ \<leftarrow> invalidate_workspace P workspaceID; ret (Inr role') })))"

section \<open>Settings\<close>

definition settings_denied :: "id_error list \<Rightarrow> Membership iprog \<Rightarrow> Membership iprog" where
  "settings_denied errs f = do {
     r \<leftarrow> f;
     ret (case r of Inl e \<Rightarrow> Inl (if list_ex (\<lambda>x. e = Err x) errs then Err IdSettingsManageDenied else e) | Inr m \<Rightarrow> Inr m)
   }"

definition loadWorkspaceSettings :: "string \<Rightarrow> gotime \<Rightarrow> WorkspaceSettings iprog" where
  "loadWorkspaceSettings workspaceID now = do {
     r \<leftarrow> Settings_GetByWorkspace workspaceID;
     ret (case r of
       Inl e \<Rightarrow> if e = Err IdSettingsNotFound then Inr (default_settings workspaceID now) else Inl e
     | Inr s \<Rightarrow> Inr s)
   }"

definition GetWorkspaceSettings :: "identity_ports \<Rightarrow> string \<Rightarrow> string \<Rightarrow> gotime \<Rightarrow> WorkspaceSettings iprog" where
  "GetWorkspaceSettings P workspaceID userID now =
     thenE (settings_denied [IdWorkspaceAccessDenied, IdMembershipNotFound]
         (requireWorkspacePermission P workspaceID userID ''workspace.read''))
       (if i_hasCache P then GetOrLoadWorkspaceSettings workspaceID (loadWorkspaceSettings workspaceID now)
        else loadWorkspaceSettings workspaceID now)"

record settings_patch =
  pt_EmailDefaults :: "string option"
  pt_FeatureControls :: "(string \<times> json) list option"
  pt_Version :: "int option"

definition patched_settings :: "WorkspaceSettings \<Rightarrow> settings_patch \<Rightarrow> string \<Rightarrow> gotime \<Rightarrow> WorkspaceSettings" where
  "patched_settings s patch userID now = s\<lparr>
     sg_DefaultSenderDomainID := (case pt_EmailDefaults patch of None \<Rightarrow> sg_DefaultSenderDomainID s | Some d \<Rightarrow> d),
     sg_FeatureControls := (case pt_FeatureControls patch of None \<Rightarrow> sg_FeatureControls s | Some f \<Rightarrow> f),
     sg_UpdatedByUserID := userID, sg_UpdatedAt := now\<rparr>"

definition UpdateWorkspaceSettings ::
  "identity_ports \<Rightarrow> string \<Rightarrow> string \<Rightarrow> settings_patch \<Rightarrow> gotime \<Rightarrow> WorkspaceSettings iprog" where
  "UpdateWorkspaceSettings P workspaceID userID patch now =
     thenE (settings_denied [IdWorkspaceAccessDenied, IdMembershipNotFound, IdRoleManageDenied, IdMembershipManageDenied]
         (requireWorkspacePermission P workspaceID userID ''workspace.manage_settings''))
       (if pt_EmailDefaults patch = None \<and> pt_FeatureControls patch = None then ret (Inl (Err IdSettingsPayloadInvalid))
        else if (case pt_Version patch of None \<Rightarrow> False | Some v \<Rightarrow> v < 1) then ret (Inl (Err IdSettingsPayloadInvalid))
        else do {
          r \<leftarrow> Settings_GetByWorkspace workspaceID;
          (let write = (\<lambda>current expected stored.
               thenE (Settings_Upsert current expected)
                 (thenE (if i_hasAudit P then remote (Inr ()) else ret (Inr ()))
                   (do { _ \<leftarrow> (if i_hasCache P then InvalidateWorkspaceSettings workspaceID else ret (Inr ()));
                        ret (Inr stored) })))
           in case r of
                Inl e \<Rightarrow>
                  if e \<noteq> Err IdSettingsNotFound then ret (Inl e)
                  else let s = patched_settings (default_settings workspaceID now) patch userID now in write s None s
              | Inr current \<Rightarrow>
                  let s = patched_settings current patch userID now in
                  write s (Some (case pt_Version patch of None \<Rightarrow> sg_Version current | Some v \<Rightarrow> v))
                    (s\<lparr>sg_Version := sg_Version s + 1\<rparr>))
        })"

end
