(* ===== verification/Workspace_Effects.thy ===== *)
theory Workspace_Effects
  imports Workspaces Atomic
begin

text \<open>
  What each command on workspaces does to the tables: nothing, or one change, made under conditions that hold in the tables before. The
  changes are functions on the tables (\<open>add_workspace\<close>, \<open>remove_member\<close>, ...); everything else about the commands follows from these
  lemmas.
\<close>

section \<open>Reading\<close>

definition member_roles :: "identity_db \<Rightarrow> string \<Rightarrow> Role list" where
  "member_roles d membershipID = sort_key rl_CreatedAt (filter (\<lambda>r. (membershipID, rl_ID r) \<in> set (membership_roles d)) (roles d))"

definition offered_roles :: "identity_db \<Rightarrow> string \<Rightarrow> Role list" where
  "offered_roles d invitationID = sort_key rl_CreatedAt (filter (\<lambda>r. (invitationID, rl_ID r) \<in> set (invitation_roles d)) (roles d))"

text \<open>\<open>m\<close> is the membership of the user in the workspace, and its roles have the permission.\<close>

definition permitted :: "identity_db \<Rightarrow> string \<Rightarrow> string \<Rightarrow> string \<Rightarrow> Membership \<Rightarrow> bool" where
  "permitted d ws user permission m \<longleftrightarrow> m \<in> set (memberships d) \<and> mb_WorkspaceID m = ws \<and> mb_UserID m = user \<and>
     HasPermission (EffectivePermissions (member_roles d (mb_ID m))) permission"

definition active_roles_of :: "identity_db \<Rightarrow> string \<Rightarrow> string list \<Rightarrow> Role list \<Rightarrow> bool" where
  "active_roles_of d ws ids rs \<longleftrightarrow> ids \<noteq> [] \<and> length rs = length ids \<and>
     rs = sort_key rl_CreatedAt (filter (\<lambda>r. rl_WorkspaceID r = ws \<and> rl_ID r \<in> set ids) (roles d)) \<and>
     list_all (\<lambda>r. rl_Status r = ''active'') rs"

lemma found_eq_Inr [simp]: "found e x = Inr y \<longleftrightarrow> x = Some y"
  by (simp add: found_def split: option.splits)

lemma found_eq_Err [simp]: "found e x = Inl (Err e') \<longleftrightarrow> x = None \<and> e' = e"
  by (auto simp: found_def split: option.splits)

lemma reads_member_roles: "reads d (\<lambda>r. \<forall>rs. r = Inr rs \<longrightarrow> rs = member_roles d mid) (Role_ListByMembership mid)"
  unfolding Role_ListByMembership_def by (rule reads_mono [OF reads_query]) (auto simp: member_roles_def)

lemma reads_offered_roles: "reads d (\<lambda>r. \<forall>rs. r = Inr rs \<longrightarrow> rs = offered_roles d iid) (Role_ListByInvitation iid)"
  unfolding Role_ListByInvitation_def by (rule reads_mono [OF reads_query]) (auto simp: offered_roles_def)

lemma reads_acting_member:
  "reads d (\<lambda>r. \<forall>m. r = Inr m \<longrightarrow> permitted d ws user permission m) (acting_member ws user permission)"
proof -
  have "reads d (\<lambda>r. \<forall>m. r = Inr m \<longrightarrow> find (\<lambda>m. mb_WorkspaceID m = ws \<and> mb_UserID m = user) (memberships d) = Some m)
      (denied_unless_member (Membership_FindByWorkspaceAndUser ws user))"
    unfolding denied_unless_member_def Membership_FindByWorkspaceAndUser_def
    by (rule reads_bind [OF reads_query]) (auto intro!: reads_ret split: sum.splits)
  then show ?thesis unfolding acting_member_def
    by (rule reads_bindE)
      (auto intro!: reads_bindE [OF reads_query] reads_ret reads_if simp: Role_ListByMembership_def permitted_def member_roles_def
        dest: find_SomeD)
qed

lemma reads_assigned_roles:
  assumes "ids \<noteq> []"
  shows "reads d (\<lambda>r. \<forall>rs. r = Inr rs \<longrightarrow> active_roles_of d ws ids rs) (assigned_roles ws ids)"
  unfolding assigned_roles_def Role_FindByIDs_def using assms
  by (auto intro!: reads_bindE [OF reads_query] reads_ret reads_if simp: active_roles_of_def)

lemma reads_target:
  "reads d (\<lambda>r. \<forall>t. r = Inr t \<longrightarrow> t \<in> set (memberships d) \<and> mb_ID t = mid \<and> mb_WorkspaceID t = ws) (target_member ws mid)"
  unfolding target_member_def Membership_FindByID_def
  by (auto intro!: reads_bindE [OF reads_query] reads_ret reads_if dest: find_SomeD)

text \<open>The guard lets pass only if two memberships have the owner role.\<close>

lemma reads_guard:
  "reads d (\<lambda>r. \<forall>u. r = Inr u \<longrightarrow> (\<exists>ow. find (\<lambda>r. rl_WorkspaceID r = ws \<and> rl_Type r = ''owner'') (roles d) = Some ow \<and>
     2 \<le> length (role_members d ws (rl_ID ow)))) (last_owner_guard ws)"
  unfolding last_owner_guard_def Role_FindByType_def Role_CountMembershipsByRole_def
  by (auto intro!: reads_bindE [OF reads_query] reads_ret reads_if)

lemma reads_already_member:
  "reads d (\<lambda>r. \<forall>u. r = Inr u \<longrightarrow> find (\<lambda>m. mb_WorkspaceID m = ws \<and> mb_UserID m = user) (memberships d) = None)
     (already_member ws user refusal)"
  unfolding already_member_def Membership_FindByWorkspaceAndUser_def
  by (rule reads_bind [OF reads_query]) (auto intro!: reads_ret split: sum.splits)

section \<open>Changing the roles of a member\<close>

definition set_member_roles :: "string \<Rightarrow> string list \<Rightarrow> identity_db \<Rightarrow> identity_db" where
  "set_member_roles mid ids d = d\<lparr>membership_roles := filter (\<lambda>(m, r). m \<noteq> mid) (membership_roles d) @ map (Pair mid) ids\<rparr>"

definition set_offered_roles :: "string \<Rightarrow> string list \<Rightarrow> identity_db \<Rightarrow> identity_db" where
  "set_offered_roles iid ids d = d\<lparr>invitation_roles := filter (\<lambda>(i, r). i \<noteq> iid) (invitation_roles d) @ map (Pair iid) ids\<rparr>"

lemma insert_membership_roles_Inr:
  assumes "run_state (insert_membership_roles mid ids) w = (Inr u, w')"
  shows "store w' = (store w)\<lparr>membership_roles := membership_roles (store w) @ map (Pair mid) ids\<rparr> \<and> distinct ids \<and>
    (\<forall>r\<in>set ids. (mid, r) \<notin> set (membership_roles (store w)) \<and> has rl_ID r (roles (store w)))"
  using assms
proof (induction ids arbitrary: w)
  case (Cons r rs)
  from Cons.prems obtain v where 1: "run_state (insert_membership_role mid r) w = (Inr (), v)"
    and 2: "run_state (insert_membership_roles mid rs) v = (Inr u, w')" by (auto elim!: thenE_InrD)
  from exec_InrD [OF 1 [unfolded insert_membership_role_def]]
  have "store v = (store w)\<lparr>membership_roles := membership_roles (store w) @ [(mid, r)]\<rparr>"
    "(mid, r) \<notin> set (membership_roles (store w))" "has rl_ID r (roles (store w))"
    by (auto split: if_splits)
  with Cons.IH [OF 2] show ?case by auto
qed simp

lemma insert_invitation_roles_Inr:
  assumes "run_state (insert_invitation_roles iid ids) w = (Inr u, w')"
  shows "store w' = (store w)\<lparr>invitation_roles := invitation_roles (store w) @ map (Pair iid) ids\<rparr> \<and> distinct ids \<and>
    (\<forall>r\<in>set ids. (iid, r) \<notin> set (invitation_roles (store w)) \<and> has rl_ID r (roles (store w)))"
  using assms
proof (induction ids arbitrary: w)
  case (Cons r rs)
  from Cons.prems obtain v where 1: "run_state (insert_invitation_role iid r) w = (Inr (), v)"
    and 2: "run_state (insert_invitation_roles iid rs) v = (Inr u, w')" by (auto elim!: thenE_InrD)
  from exec_InrD [OF 1 [unfolded insert_invitation_role_def]]
  have "store v = (store w)\<lparr>invitation_roles := invitation_roles (store w) @ [(iid, r)]\<rparr>"
    "(iid, r) \<notin> set (invitation_roles (store w))" "has rl_ID r (roles (store w))"
    by (auto split: if_splits)
  with Cons.IH [OF 2] show ?case by auto
qed simp

lemma ReplaceMembershipRoles_Inr:
  assumes "run_state (Role_ReplaceMembershipRoles mid ids) w = (Inr u, w')"
  shows "store w' = set_member_roles mid ids (store w) \<and> distinct ids \<and> (\<forall>r\<in>set ids. has rl_ID r (roles (store w)))"
proof -
  from assms obtain v where 1: "run_state (delete_membership_roles mid) w = (Inr (), v)"
    and 2: "run_state (insert_membership_roles mid ids) v = (Inr u, w')"
    unfolding Role_ReplaceMembershipRoles_def by (auto elim!: thenE_InrD)
  from exec_done [OF 1 [unfolded delete_membership_roles_def]] insert_membership_roles_Inr [OF 2]
  show ?thesis by (auto simp: set_member_roles_def)
qed

lemma ReplaceInvitationRoles_Inr:
  assumes "run_state (Role_ReplaceInvitationRoles iid ids) w = (Inr u, w')"
  shows "store w' = set_offered_roles iid ids (store w) \<and> distinct ids \<and> (\<forall>r\<in>set ids. has rl_ID r (roles (store w)))"
proof -
  from assms obtain v where 1: "run_state (delete_invitation_roles iid) w = (Inr (), v)"
    and 2: "run_state (insert_invitation_roles iid ids) v = (Inr u, w')"
    unfolding Role_ReplaceInvitationRoles_def by (auto elim!: thenE_InrD)
  from exec_done [OF 1 [unfolded delete_invitation_roles_def]] insert_invitation_roles_Inr [OF 2]
  show ?thesis by (auto simp: set_offered_roles_def)
qed

section \<open>Commands on members\<close>

definition remove_member :: "string \<Rightarrow> identity_db \<Rightarrow> identity_db" where
  "remove_member mid d = d\<lparr>memberships := filter (\<lambda>m. mb_ID m \<noteq> mid) (memberships d),
     membership_roles := filter (\<lambda>(m, r). m \<noteq> mid) (membership_roles d)\<rparr>"

definition owner_spare :: "identity_db \<Rightarrow> string \<Rightarrow> bool" where
  "owner_spare d ws \<longleftrightarrow> (\<exists>ow. find (\<lambda>r. rl_WorkspaceID r = ws \<and> rl_Type r = ''owner'') (roles d) = Some ow \<and>
     2 \<le> length (role_members d ws (rl_ID ow)))"

definition removal_ok :: "identity_db \<Rightarrow> string \<Rightarrow> string \<Rightarrow> string \<Rightarrow> bool" where
  "removal_ok d ws mid user \<longleftrightarrow> (\<exists>m t. permitted d ws user ''workspace.manage_members'' m \<and> t \<in> set (memberships d) \<and> mb_ID t = mid \<and>
     mb_WorkspaceID t = ws \<and> mid \<noteq> mb_ID m \<and> (LegacyMembershipRole (member_roles d mid) = ''Owner'' \<longrightarrow> owner_spare d ws))"

lemma reads_guard_if:
  "reads d (\<lambda>r. \<forall>u. r = Inr u \<longrightarrow> b \<longrightarrow> owner_spare d ws) (if b then last_owner_guard ws else ret (Inr ()))"
  by (cases b) (auto intro!: reads_mono [OF reads_guard] reads_ret simp: owner_spare_def)

lemma removes:
  "writes d (\<lambda>d'. removal_ok d ws mid user \<and> d' = remove_member mid d) (RemoveMember_Execute ws mid user)"
proof -
  have "writes d (\<lambda>d'. removal_ok d ws mid user \<and> d' = remove_member mid d) (Membership_DeleteByID mid)"
    if "permitted d ws user ''workspace.manage_members'' m" "t \<in> set (memberships d)" "mb_ID t = mid" "mb_WorkspaceID t = ws"
      "mb_ID t \<noteq> mb_ID m" "LegacyMembershipRole (member_roles d mid) = ''Owner'' \<longrightarrow> owner_spare d ws" for m t
    unfolding Membership_DeleteByID_def using that
    by (intro writes_exec) (auto simp: removal_ok_def remove_member_def list_ex_iff)
  then show ?thesis unfolding RemoveMember_Execute_def
    by (intro writes_bindE [OF reads_acting_member] writes_bindE [OF reads_target] writes_if writes_fail
        writes_bindE [OF reads_member_roles] writes_thenE [OF reads_guard_if]) auto
qed

definition role_change :: "string \<Rightarrow> string \<Rightarrow> string list \<Rightarrow> gotime \<Rightarrow> identity_db \<Rightarrow> identity_db" where
  "role_change mid legacy ids now d = (set_member_roles mid ids d)\<lparr>memberships := update_where (\<lambda>m. mb_ID m = mid)
     (\<lambda>m. m\<lparr>mb_Role := legacy, mb_UpdatedAt := now\<rparr>) (memberships d)\<rparr>"

definition role_change_ok :: "identity_db \<Rightarrow> string \<Rightarrow> string \<Rightarrow> string list \<Rightarrow> string \<Rightarrow> Role list \<Rightarrow> bool" where
  "role_change_ok d ws mid ids user rs \<longleftrightarrow> (\<exists>m t. permitted d ws user ''workspace.manage_roles'' m \<and> t \<in> set (memberships d) \<and>
     mb_ID t = mid \<and> mb_WorkspaceID t = ws \<and> active_roles_of d ws ids rs \<and> distinct (RoleIDs rs) \<and>
     (LegacyMembershipRole (member_roles d mid) = ''Owner'' \<and> LegacyMembershipRole rs \<noteq> ''Owner'' \<longrightarrow> owner_spare d ws))"

lemma updates_role:
  "writes d (\<lambda>d'. \<exists>rs. role_change_ok d ws mid ids user rs \<and> d' = role_change mid (LegacyMembershipRole rs) (RoleIDs rs) now d)
     (UpdateRole_Execute ws mid ids user now)"
    (is "writes d ?Q _")
proof -
  have "writes d ?Q (WithinTx (update_all mid rs now))"
    if "permitted d ws user ''workspace.manage_roles'' m" "t \<in> set (memberships d)" "mb_ID t = mid" "mb_WorkspaceID t = ws"
      "active_roles_of d ws ids rs" "LegacyMembershipRole (member_roles d mid) = ''Owner'' \<and> LegacyMembershipRole rs \<noteq> ''Owner'' \<longrightarrow>
        owner_spare d ws" for m t rs
  proof (rule writes_WithinTx)
    fix w a w' assume st: "store w = d" and "run_state (update_all mid rs now) w = (Inr a, w')"
    then obtain v where 1: "run_state (Role_ReplaceMembershipRoles mid (RoleIDs rs)) w = (Inr (), v)"
      and 2: "run_state (Membership_UpdateRole mid (LegacyMembershipRole rs) now) v = (Inr a, w')"
      unfolding update_all_def by (auto elim!: thenE_InrD)
    note first = ReplaceMembershipRoles_Inr [OF 1]
    have "store w' = role_change mid (LegacyMembershipRole rs) (RoleIDs rs) now d"
      using exec_InrD [OF 2 [unfolded Membership_UpdateRole_def]] first st by (auto simp: role_change_def set_member_roles_def)
    with that first show "?Q (store w')" unfolding role_change_ok_def by blast
  qed
  then show ?thesis unfolding UpdateRole_Execute_def
    by (intro writes_bindE [OF reads_acting_member] writes_bindE [OF reads_target] writes_if writes_fail
        writes_bindE [OF reads_assigned_roles] writes_bindE [OF reads_member_roles] writes_thenE [OF reads_guard_if]) auto
qed

section \<open>Invitations\<close>

definition add_invitation :: "Invitation \<Rightarrow> string list \<Rightarrow> OutboxEvent list \<Rightarrow> identity_db \<Rightarrow> identity_db" where
  "add_invitation i ids evs d = (set_offered_roles (iv_ID i) ids d)\<lparr>invitations := invitations d @ [i\<lparr>iv_RoleIDs := []\<rparr>],
     id_outbox := id_outbox d @ evs\<rparr>"

definition invitation_ok :: "identity_db \<Rightarrow> InviteCommand \<Rightarrow> Invitation \<Rightarrow> Role list \<Rightarrow> bool" where
  "invitation_ok d cmd i rs \<longleftrightarrow> (\<exists>m. permitted d (in_WorkspaceID cmd) (in_InviterID cmd) ''workspace.manage_members'' m) \<and>
     active_roles_of d (in_WorkspaceID cmd) (in_RoleIDs cmd) rs \<and> distinct (RoleIDs rs) \<and>
     iv_WorkspaceID i = in_WorkspaceID cmd \<and> iv_Email i = TrimSpace (ToLower (in_Email cmd)) \<and> iv_Email i \<noteq> [] \<and>
     iv_Status i = ''pending'' \<and> iv_ExpiresAt i = in_Now cmd + 7 * 24 * 3600 * second \<and>
     \<not> has iv_ID (iv_ID i) (invitations d) \<and> \<not> has iv_Token (iv_Token i) (invitations d)"

lemma EmitEvent_Inr:
  assumes "run_state (EmitEvent P t at ai ws payload now) w = (Inr u, w')"
  shows "\<exists>evs. store w' = (store w)\<lparr>id_outbox := id_outbox (store w) @ evs\<rparr>"
proof (cases "i_hasOutbox P")
  case False
  with assms show ?thesis by (auto simp: EmitEvent_def intro!: exI [of _ "[]"])
next
  case True
  with assms obtain eid v ev where 1: "run_state (idGen (i_gen P) :: string iprog) w = (Inr eid, v)"
    and 2: "run_state (Identity_Outbox_Save ev) v = (Inr u, w')"
    by (auto simp: EmitEvent_def split: sum.splits elim!: bindE_InrD)
  from exec_InrD [OF 2 [unfolded Identity_Outbox_Save_def]] idGen_InrD [OF 1] show ?thesis
    by (intro exI [of _ "[ev]"]) (auto split: if_splits)
qed

lemma persist_invitation_Inr:
  assumes "run_state (persist_invitation P cmd inviter i ids) w = (Inr u, w')"
  shows "(\<exists>evs. store w' = add_invitation i ids evs (store w)) \<and> distinct ids \<and>
    \<not> has iv_ID (iv_ID i) (invitations (store w)) \<and> \<not> has iv_Token (iv_Token i) (invitations (store w))"
proof -
  from assms obtain v1 v2 payload where 1: "run_state (Invitation_Create i) w = (Inr (), v1)"
    and 2: "run_state (Role_ReplaceInvitationRoles (iv_ID i) ids) v1 = (Inr (), v2)"
    and 3: "run_state (EmitEvent P ''identity.workspace.member_invited.v1'' ''invitation'' (iv_ID i) (in_WorkspaceID cmd)
      payload (in_Now cmd)) v2 = (Inr u, w')"
    unfolding persist_invitation_def by (auto elim!: thenE_InrD)
  from exec_InrD [OF 1 [unfolded Invitation_Create_def]]
  have "store v1 = (store w)\<lparr>invitations := invitations (store w) @ [i\<lparr>iv_RoleIDs := []\<rparr>]\<rparr>"
    "\<not> has iv_ID (iv_ID i) (invitations (store w))" "\<not> has iv_Token (iv_Token i) (invitations (store w))"
    by (auto split: if_splits)
  moreover obtain evs where "store w' = (store v2)\<lparr>id_outbox := id_outbox (store v2) @ evs\<rparr>" using EmitEvent_Inr [OF 3] by blast
  ultimately show ?thesis using ReplaceInvitationRoles_Inr [OF 2]
    by (intro conjI exI [of _ evs]) (simp_all add: add_invitation_def set_offered_roles_def)
qed

lemma reads_check_invited: "reads d (\<lambda>_. True) (check_invited ws email)"
  unfolding check_invited_def User_FindByEmail_def
  by (rule reads_bind [OF reads_query]) (auto intro!: reads_case_sum reads_ret reads_mono [OF reads_already_member])

lemma invites:
  "writes d (\<lambda>d'. \<exists>i rs. invitation_ok d cmd i rs \<and> (\<exists>evs. d' = add_invitation i (RoleIDs rs) evs d)) (Invite_Execute P cmd)"
    (is "writes d ?Q _")
proof -
  have tx: "writes d ?Q (WithinTx (persist_invitation P cmd inviter i (RoleIDs rs)))"
    if "permitted d (in_WorkspaceID cmd) (in_InviterID cmd) ''workspace.manage_members'' m"
      "active_roles_of d (in_WorkspaceID cmd) (in_RoleIDs cmd) rs"
      "i = NewInvitation iid (in_WorkspaceID cmd) (TrimSpace (ToLower (in_Email cmd))) token (LegacyMembershipRole rs)
        (in_Now cmd + 7 * 24 * 3600 * second) (in_Now cmd)\<lparr>iv_RoleIDs := RoleIDs rs\<rparr>"
      "TrimSpace (ToLower (in_Email cmd)) \<noteq> []" for m rs inviter i iid token
  proof (rule writes_WithinTx)
    fix w a w' assume "store w = d" and "run_state (persist_invitation P cmd inviter i (RoleIDs rs)) w = (Inr a, w')"
    with persist_invitation_Inr [OF this(2)] have new: "\<exists>evs. store w' = add_invitation i (RoleIDs rs) evs d" "distinct (RoleIDs rs)"
      "\<not> has iv_ID (iv_ID i) (invitations d)" "\<not> has iv_Token (iv_Token i) (invitations d)" by auto
    with that(1,2,4) have "invitation_ok d cmd i rs" unfolding invitation_ok_def by (auto simp: that(3) NewInvitation_def)
    with new(1) show "?Q (store w')" by blast
  qed
  show ?thesis unfolding Invite_Execute_def User_FindByID_def
    by (intro writes_bindE [OF reads_acting_member] writes_if writes_fail writes_bindE [OF reads_assigned_roles] writes_Let
        writes_bindE [OF reads_query] writes_thenE [OF reads_check_invited] writes_bindE [OF reads_idGen] writes_before_then)
      (auto intro!: tx reads_ret)
qed

definition add_member :: "Membership \<Rightarrow> string list \<Rightarrow> identity_db \<Rightarrow> identity_db" where
  "add_member m ids d = (set_member_roles (mb_ID m) ids d)\<lparr>memberships := memberships d @ [membership_row m]\<rparr>"

definition mark_accepted :: "string \<Rightarrow> gotime \<Rightarrow> identity_db \<Rightarrow> identity_db" where
  "mark_accepted iid now d = d\<lparr>invitations := update_where (\<lambda>i. iv_ID i = iid)
     (\<lambda>i. i\<lparr>iv_Status := ''accepted'', iv_UpdatedAt := now\<rparr>) (invitations d)\<rparr>"

definition acceptance_ok :: "identity_db \<Rightarrow> string \<Rightarrow> string \<Rightarrow> gotime \<Rightarrow> Invitation \<Rightarrow> Membership \<Rightarrow> bool" where
  "acceptance_ok d token user now i m \<longleftrightarrow> i \<in> set (invitations d) \<and> iv_Token i = token \<and> \<not> Invitation_IsExpired i now \<and>
     \<not> Invitation_IsAccepted i \<and> (\<exists>u\<in>set (users d). us_ID u = user \<and> matchEmail (us_Email u) (iv_Email i)) \<and>
     \<not> has mb_ID (mb_ID m) (memberships d) \<and> has wk_ID (mb_WorkspaceID m) (workspaces d) \<and>
     \<not> list_ex (\<lambda>r. mb_WorkspaceID r = mb_WorkspaceID m \<and> mb_UserID r = mb_UserID m) (memberships d) \<and>
     offered_roles d (iv_ID i) \<noteq> [] \<and> distinct (RoleIDs (offered_roles d (iv_ID i))) \<and>
     m = NewMembership (mb_ID m) (iv_WorkspaceID i) user (LegacyMembershipRole (offered_roles d (iv_ID i))) now"

lemma persist_acceptance_Inr:
  assumes "run_state (persist_acceptance m ids iid now) w = (Inr u, w')"
  shows "store w' = mark_accepted iid now (add_member m ids (store w)) \<and> distinct ids \<and>
    \<not> has mb_ID (mb_ID m) (memberships (store w)) \<and> has wk_ID (mb_WorkspaceID m) (workspaces (store w)) \<and>
    \<not> list_ex (\<lambda>r. mb_WorkspaceID r = mb_WorkspaceID m \<and> mb_UserID r = mb_UserID m) (memberships (store w))"
proof -
  from assms obtain v1 v2 where 1: "run_state (Membership_Create m) w = (Inr (), v1)"
    and 2: "run_state (Role_ReplaceMembershipRoles (mb_ID m) ids) v1 = (Inr (), v2)"
    and 3: "run_state (Invitation_UpdateStatus iid ''accepted'' now) v2 = (Inr u, w')"
    unfolding persist_acceptance_def by (auto elim!: thenE_InrD)
  from exec_InrD [OF 1 [unfolded Membership_Create_def]]
  have "store v1 = (store w)\<lparr>memberships := memberships (store w) @ [membership_row m]\<rparr>"
    "\<not> has mb_ID (mb_ID m) (memberships (store w))" "has wk_ID (mb_WorkspaceID m) (workspaces (store w))"
    "\<not> list_ex (\<lambda>r. mb_WorkspaceID r = mb_WorkspaceID m \<and> mb_UserID r = mb_UserID m) (memberships (store w))"
    by (auto split: if_splits)
  with ReplaceMembershipRoles_Inr [OF 2] exec_done [OF 3 [unfolded Invitation_UpdateStatus_def]] show ?thesis
    by (auto simp: add_member_def set_member_roles_def mark_accepted_def)
qed

lemma accepts:
  "writes d (\<lambda>d'. \<exists>i m. acceptance_ok d token user now i m \<and>
      d' = mark_accepted (iv_ID i) now (add_member m (RoleIDs (offered_roles d (iv_ID i))) d))
     (AcceptInvitation_Execute P token user now)"
    (is "writes d ?Q _")
proof -
  have tx: "writes d ?Q (WithinTx (persist_acceptance m (RoleIDs rs) (iv_ID i) now))"
    if "find (\<lambda>i. iv_Token i = token) (invitations d) = Some i" "\<not> Invitation_IsExpired i now" "\<not> Invitation_IsAccepted i"
      "find (\<lambda>u. us_ID u = user) (users d) = Some u" "matchEmail (us_Email u) (iv_Email i)"
      "rs = offered_roles d (iv_ID i)" "rs \<noteq> []" "m = NewMembership mid (iv_WorkspaceID i) user (LegacyMembershipRole rs) now"
    for i u rs m mid
  proof (rule writes_WithinTx)
    fix w a w' assume "store w = d" and "run_state (persist_acceptance m (RoleIDs rs) (iv_ID i) now) w = (Inr a, w')"
    with persist_acceptance_Inr [OF this(2)] that find_SomeD [OF that(1)] find_SomeD [OF that(4)]
    have "acceptance_ok d token user now i m \<and> store w' = mark_accepted (iv_ID i) now (add_member m (RoleIDs rs) d)"
      unfolding acceptance_ok_def by (auto simp: NewMembership_def)
    with that(6) show "?Q (store w')" by blast
  qed
  show ?thesis unfolding AcceptInvitation_Execute_def User_FindByID_def Invitation_FindByToken_def
    by (intro writes_if writes_fail writes_Let writes_bindE [OF reads_query] writes_thenE [OF reads_already_member]
        writes_bindE [OF reads_offered_roles] writes_bindE [OF reads_idGen] writes_before_then)
      (auto intro!: tx reads_ret)
qed

section \<open>Creating a workspace\<close>

definition add_workspace :: "Workspace \<Rightarrow> Membership \<Rightarrow> Role list \<Rightarrow> string \<Rightarrow> settings_row list \<Rightarrow> identity_db \<Rightarrow> identity_db" where
  "add_workspace ws m rs ow st d = (add_member m [ow] d)\<lparr>workspaces := workspaces d @ [ws], roles := roles d @ rs,
     settings_rows := settings_rows d @ st\<rparr>"

definition settings_fit :: "identity_db \<Rightarrow> settings_row list \<Rightarrow> bool" where
  "settings_fit d st \<longleftrightarrow> (distinct (map st_WorkspaceID (settings_rows d)) \<longrightarrow> distinct (map st_WorkspaceID (settings_rows d @ st)))"

definition workspace_ok :: "identity_db \<Rightarrow> string \<Rightarrow> Workspace \<Rightarrow> Membership \<Rightarrow> Role list \<Rightarrow> string \<Rightarrow> gotime \<Rightarrow> bool" where
  "workspace_ok d user ws m rs ow now \<longleftrightarrow> \<not> has wk_ID (wk_ID ws) (workspaces d) \<and> \<not> has mb_ID (mb_ID m) (memberships d) \<and>
     m = NewMembership (mb_ID m) (wk_ID ws) user ''Owner'' now \<and>
     (\<exists>i j. rs = map2 (\<lambda>r k. r\<lparr>rl_ID := k, rl_WorkspaceID := wk_ID ws\<rparr>) (DefaultRoleDefinitions now) [i, j] \<and> ow = i \<and> i \<noteq> j \<and>
        \<not> has rl_ID i (roles d) \<and> \<not> has rl_ID j (roles d))"

lemma create_roles_Inr:
  assumes "run_state (create_roles rs) w = (Inr u, w')"
  shows "store w' = (store w)\<lparr>roles := roles (store w) @ rs\<rparr> \<and> distinct (RoleIDs rs) \<and> list_all (\<lambda>r. \<not> has rl_ID (rl_ID r) (roles (store w))) rs"
  using assms
proof (induction rs arbitrary: w)
  case (Cons r rs)
  from Cons.prems obtain v where 1: "run_state (Role_Create r) w = (Inr (), v)" and 2: "run_state (create_roles rs) v = (Inr u, w')"
    by (auto elim!: thenE_InrD)
  from exec_InrD [OF 1 [unfolded Role_Create_def]]
  have "store v = (store w)\<lparr>roles := roles (store w) @ [r]\<rparr>" "\<not> has rl_ID (rl_ID r) (roles (store w))" by (auto split: if_splits)
  with Cons.IH [OF 2] show ?case by (auto simp: RoleIDs_def list_all_iff)
qed (simp add: RoleIDs_def)

lemma create_all_Inr:
  assumes "run_state (create_all ws m rs ow now) w = (Inr u, w')"
  shows "\<exists>st. store w' = add_workspace (ws\<lparr>wk_MembershipID := [], wk_RoleNames := []\<rparr>) m rs ow st (store w) \<and>
    settings_fit (store w) st \<and> distinct (RoleIDs rs) \<and>
    list_all (\<lambda>r. \<not> has rl_ID (rl_ID r) (roles (store w))) rs \<and> \<not> has wk_ID (wk_ID ws) (workspaces (store w)) \<and>
    \<not> has mb_ID (mb_ID m) (memberships (store w))"
proof -
  from assms obtain v1 v2 v3 v4 where 1: "run_state (Workspace_Create ws) w = (Inr (), v1)"
    and 2: "run_state (Membership_Create m) v1 = (Inr (), v2)" and 3: "run_state (create_roles rs) v2 = (Inr (), v3)"
    and 4: "run_state (Role_ReplaceMembershipRoles (mb_ID m) [ow]) v3 = (Inr (), v4)"
    and 5: "run_state (Settings_CreateDefault (default_settings (wk_ID ws) now)) v4 = (Inr u, w')"
    unfolding create_all_def by (auto elim!: thenE_InrD)
  have s1: "store v1 = (store w)\<lparr>workspaces := workspaces (store w) @ [ws\<lparr>wk_MembershipID := [], wk_RoleNames := []\<rparr>]\<rparr>"
      "\<not> has wk_ID (wk_ID ws) (workspaces (store w))"
    using exec_InrD [OF 1 [unfolded Workspace_Create_def]] by (auto split: if_splits)
  have s2: "store v2 = (store v1)\<lparr>memberships := memberships (store v1) @ [membership_row m]\<rparr>"
      "\<not> has mb_ID (mb_ID m) (memberships (store v1))"
    using exec_InrD [OF 2 [unfolded Membership_Create_def]] by (auto split: if_splits)
  have "\<exists>st. store w' = (store v4)\<lparr>settings_rows := settings_rows (store v4) @ st\<rparr> \<and> settings_fit (store v4) st"
  proof (cases "has st_WorkspaceID (wk_ID ws) (settings_rows (store v4))")
    case True
    with exec_InrD [OF 5 [unfolded Settings_CreateDefault_def]] show ?thesis
      by (intro exI [of _ "[]"]) (simp add: settings_fit_def default_settings_def)
  next
    case False
    let ?s = "default_settings (wk_ID ws) now"
    have "store w' = (store v4)\<lparr>settings_rows := settings_rows (store v4) @ [settings_to_row ?s (sg_Version ?s)]\<rparr>"
      using False exec_InrD [OF 5 [unfolded Settings_CreateDefault_def]] by (auto simp: default_settings_def split: if_splits)
    with False show ?thesis
      by (intro exI [of _ "[settings_to_row ?s (sg_Version ?s)]"])
        (auto simp: settings_fit_def settings_to_row_def default_settings_def list_ex_iff)
  qed
  then obtain st where s5: "store w' = (store v4)\<lparr>settings_rows := settings_rows (store v4) @ st\<rparr>" "settings_fit (store v4) st" by blast
  from create_roles_Inr [OF 3] ReplaceMembershipRoles_Inr [OF 4] s1 s2 s5 show ?thesis
    by (intro exI [of _ st]) (simp add: add_workspace_def add_member_def set_member_roles_def settings_fit_def)
qed

lemma reads_role_ids:
  "reads d (\<lambda>r. \<forall>rs. r = Inr rs \<longrightarrow> (\<exists>ids. length ids = length defs \<and> rs = map2 (\<lambda>r k. r\<lparr>rl_ID := k, rl_WorkspaceID := ws\<rparr>) defs ids))
     (assign_role_ids P ws defs)"
proof (induction defs)
  case (Cons r rs)
  have "\<exists>ids. length ids = Suc (length rs) \<and>
      r\<lparr>rl_ID := i, rl_WorkspaceID := ws\<rparr> # map2 (\<lambda>r k. r\<lparr>rl_ID := k, rl_WorkspaceID := ws\<rparr>) rs ids' =
      map2 (\<lambda>r k. r\<lparr>rl_ID := k, rl_WorkspaceID := ws\<rparr>) (r # rs) ids" if "length ids' = length rs" for i ids'
    using that by (intro exI [of _ "i # ids'"]) simp
  then show ?case by (auto intro!: reads_bindE [OF reads_idGen] reads_bindE [OF Cons.IH] reads_ret)
qed (simp add: reads_ret)

lemma creates_workspace:
  "writes d (\<lambda>d'. \<exists>ws m rs ow. workspace_ok d user ws m rs ow now \<and>
      (\<exists>st. settings_fit d st \<and> d' = add_workspace ws m rs ow st d))
     (CreateWorkspace_Execute P name user now)"
    (is "writes d ?Q _")
proof -
  have tx: "writes d ?Q (WithinTx (create_all ws (NewMembership mid (wk_ID ws) user ''Owner'' now) rs (owner_role_id rs) now))"
    if "length ids = length (DefaultRoleDefinitions now)"
      "rs = map2 (\<lambda>r k. r\<lparr>rl_ID := k, rl_WorkspaceID := wk_ID ws\<rparr>) (DefaultRoleDefinitions now) ids" for ws mid rs ids
  proof (rule writes_WithinTx)
    let ?m = "NewMembership mid (wk_ID ws) user ''Owner'' now"
    fix w a w' assume "store w = d" and run: "run_state (create_all ws ?m rs (owner_role_id rs) now) w = (Inr a, w')"
    with create_all_Inr [OF run] obtain st where new: "store w' = add_workspace (ws\<lparr>wk_MembershipID := [], wk_RoleNames := []\<rparr>) ?m rs (owner_role_id rs) st d"
      "settings_fit d st" "distinct (RoleIDs rs)" "list_all (\<lambda>r. \<not> has rl_ID (rl_ID r) (roles d)) rs" "\<not> has wk_ID (wk_ID ws) (workspaces d)"
      "\<not> has mb_ID mid (memberships d)" by (auto simp: NewMembership_def)
    from that(1) obtain i j where "ids = [i, j]" by (auto simp: DefaultRoleDefinitions_def length_Suc_conv)
    with that(2) new have "workspace_ok d user (ws\<lparr>wk_MembershipID := [], wk_RoleNames := []\<rparr>) ?m rs (owner_role_id rs) now"
      unfolding workspace_ok_def by (simp add: NewMembership_def DefaultRoleDefinitions_def owner_role_id_def RoleIDs_def)
    with new(1,2) show "?Q (store w')" by blast
  qed
  show ?thesis unfolding CreateWorkspace_Execute_def
    by (intro writes_Let writes_if writes_fail writes_bindE [OF reads_idGen] writes_case_sum writes_bindE [OF reads_role_ids]
        writes_before_then) (auto intro!: tx reads_ret)
qed

section \<open>Roles, settings and the cache\<close>

lemma reads_redis: "(\<And>w. store (effect w) = store w) \<Longrightarrow> reads d (\<lambda>_. True) (redis answer effect)"
  by (auto simp: reads_def redis_def next_outcome_def split: list.splits if_splits)

lemma reads_wait: "reads d (\<lambda>_. True) (waitForCachedValue get n)"
  by (induction n) (auto intro!: reads_ret reads_bindE [OF reads_redis] reads_case_option)

lemma reads_loadAndCache:
  assumes "reads d (\<lambda>_. True) loadFn" and "\<And>v w. store (put v w) = store w"
  shows "reads d (\<lambda>_. True) (loadAndCache put loadFn)"
  unfolding loadAndCache_def using assms by (intro reads_bindE [OF assms(1)] reads_bind [OF reads_redis] reads_ret) auto

lemma reads_GetOrLoad:
  assumes "reads d (\<lambda>_. True) loadFn" and "\<And>v w. store (put v w) = store w"
  shows "reads d (\<lambda>_. True) (GetOrLoadJSON k get put loadFn)"
  unfolding GetOrLoadJSON_def AcquireLock_def ReleaseLock_def
  by (auto intro!: reads_bindE [OF reads_redis] reads_bind [OF reads_redis] reads_bindE [OF reads_wait] reads_case_option reads_case_sum
      reads_ret reads_loadAndCache [OF assms] reads_bind [where A = "\<lambda>_. True"] reads_redis split: sum.splits bool.splits)

lemma reads_enrich: "reads d (\<lambda>_. True) (enrichMembership m)"
  unfolding enrichMembership_def by (intro reads_bindE [OF reads_member_roles] reads_ret) auto

lemma reads_enriched: "reads d (\<lambda>_. True) (enrichedMembershipForUser P ws user)"
proof -
  have "reads d (\<lambda>_. True) (loadAndEnrichMembership ws user)"
    unfolding loadAndEnrichMembership_def Membership_FindByWorkspaceAndUser_def
    by (intro reads_bindE [OF reads_query] reads_if reads_ret reads_enrich) auto
  then show ?thesis unfolding enrichedMembershipForUser_def GetOrLoadWorkspaceAccess_def
    by (auto intro!: reads_GetOrLoad)
qed

lemma reads_require: "reads d (\<lambda>_. True) (requireWorkspacePermission P ws user permission)"
  unfolding requireWorkspacePermission_def denied_unless_member_def
  by (auto intro!: reads_bindE [where A = "\<lambda>_. True"] reads_bind [OF reads_enriched] reads_if reads_ret)

lemma reads_invalidate: "reads d (\<lambda>_. True) (invalidate_workspace P ws)"
  unfolding invalidate_workspace_def InvalidateWorkspaceAccessByPrefix_def
  by (auto intro!: reads_if reads_bind [OF reads_redis] reads_ret)

definition role_ok :: "identity_db \<Rightarrow> string \<Rightarrow> Role \<Rightarrow> bool" where
  "role_ok d ws r \<longleftrightarrow> rl_WorkspaceID r = ws \<and> rl_Type r = ''custom'' \<and> \<not> has rl_ID (rl_ID r) (roles d) \<and> has wk_ID ws (workspaces d) \<and>
     \<not> list_ex (\<lambda>x. rl_WorkspaceID x = ws \<and> rl_Name x = rl_Name r) (roles d)"

lemma creates_role:
  "writes d (\<lambda>d'. \<exists>r. role_ok d ws r \<and> d' = d\<lparr>roles := roles d @ [r]\<rparr>) (CreateWorkspaceRole P ws actor name names pm now)"
    (is "writes d ?Q _")
proof -
  have "writes d ?Q (Role_Create r)" if "rl_WorkspaceID r = ws" "rl_Type r = ''custom''" for r
    unfolding Role_Create_def using that
    by (intro writes_exec disjI2 exI [of _ r]) (auto simp: role_ok_def split: if_splits)
  then show ?thesis unfolding CreateWorkspaceRole_def
    by (intro writes_thenE [OF reads_require] writes_Let writes_if writes_fail writes_case_sum writes_bindE [OF reads_idGen]
        writes_before_then reads_bind [OF reads_invalidate] reads_ret) auto
qed

definition same_role :: "Role \<Rightarrow> Role \<Rightarrow> bool" where
  "same_role r r' \<longleftrightarrow> rl_ID r' = rl_ID r \<and> rl_WorkspaceID r' = rl_WorkspaceID r \<and> rl_Type r' = rl_Type r \<and> rl_Builtin r' = rl_Builtin r \<and>
     rl_CreatedAt r' = rl_CreatedAt r"

lemma patched_same: "patched_role r name names pm status now = Inr r' \<Longrightarrow> same_role r r'"
  by (auto simp: patched_role_def same_role_def Let_def map_sum_def split: if_splits option.splits sum.splits)

definition roles_patched :: "identity_db \<Rightarrow> string \<Rightarrow> (Role \<Rightarrow> Role) \<Rightarrow> bool" where
  "roles_patched d ws f \<longleftrightarrow> list_all (\<lambda>r. same_role r (f r) \<and> (rl_WorkspaceID r \<noteq> ws \<longrightarrow> f r = r)) (roles d)"

lemma updates_workspace_role:
  assumes keys: "distinct (map rl_ID (roles d))"
  shows "writes d (\<lambda>d'. \<exists>f. roles_patched d ws f \<and> d' = d\<lparr>roles := map f (roles d)\<rparr>)
     (UpdateWorkspaceRole P ws rid actor name names pm status now)"
    (is "writes d ?Q _")
proof -
  have "writes d ?Q (Role_Update r')"
    if "find (\<lambda>r. rl_WorkspaceID r = ws \<and> rl_ID r = rid) (roles d) = Some r" "patched_role r name names pm status now = Inr r'" for r r'
  proof -
    let ?f = "\<lambda>x. if rl_ID x = rl_ID r' \<and> rl_WorkspaceID x = rl_WorkspaceID r' then x\<lparr>rl_Name := rl_Name r',
         rl_PermissionsMask := rl_PermissionsMask r', rl_Builtin := rl_Builtin r', rl_Type := rl_Type r',
         rl_Status := rl_Status r', rl_Version := rl_Version r', rl_UpdatedAt := rl_UpdatedAt r'\<rparr> else x"
    have "x = r" if "x \<in> set (roles d)" "rl_ID x = rl_ID r" for x
      using keys that find_SomeD [OF \<open>find _ _ = Some r\<close>] by (auto simp: distinct_map inj_on_def)
    with patched_same [OF that(2)] find_SomeD [OF that(1)] have "roles_patched d ws ?f"
      by (auto simp: roles_patched_def same_role_def list_all_iff)
    then show ?thesis unfolding Role_Update_def
      by (intro writes_exec disjI2 exI [of _ ?f]) (auto simp: update_where_def Let_def split: if_splits)
  qed
  then show ?thesis unfolding UpdateWorkspaceRole_def Role_FindByID_def
    by (intro writes_thenE [OF reads_require] writes_bindE [OF reads_query] writes_case_sum writes_fail writes_before_then
        reads_bind [OF reads_invalidate] reads_ret) auto
qed

lemma updates_member_role:
  "writes d (\<lambda>d'. \<exists>rs. role_change_ok d ws mid ids user rs \<and> d' = role_change mid (LegacyMembershipRole rs) (RoleIDs rs) now d)
     (UpdateWorkspaceMemberRole P ws mid ids user now)"
  unfolding UpdateWorkspaceMemberRole_def
  by (intro writes_before_then updates_role reads_bind [OF reads_invalidate] reads_ret) simp

lemma assigns_member_roles:
  "writes d (\<lambda>d'. \<exists>rs. role_change_ok d ws mid ids user rs \<and> d' = role_change mid (LegacyMembershipRole rs) (RoleIDs rs) now d)
     (AssignWorkspaceMemberRoles P ws mid ids user now)"
  unfolding AssignWorkspaceMemberRoles_def Membership_FindByID_def InvalidateWorkspaceAccess_def
  by (intro writes_before_then updates_member_role reads_bindE [OF reads_query] reads_bindE [OF reads_enrich]
      reads_bind [where A = "\<lambda>_. True"] reads_if reads_redis reads_ret) simp_all

text \<open>An update of the settings needs the version that is in the table, and counts it up.\<close>

definition settings_step :: "identity_db \<Rightarrow> string \<Rightarrow> settings_patch \<Rightarrow> identity_db \<Rightarrow> bool" where
  "settings_step d ws patch d' \<longleftrightarrow> (\<exists>rows. d' = d\<lparr>settings_rows := rows\<rparr> \<and>
     (case find (\<lambda>s. st_WorkspaceID s = ws) (settings_rows d) of
        None \<Rightarrow> \<exists>s. rows = settings_rows d @ [s] \<and> st_WorkspaceID s = ws \<and> st_Version s = 1
      | Some s \<Rightarrow> (pt_Version patch = None \<or> pt_Version patch = Some (st_Version s)) \<and>
          (\<exists>s'. rows = update_where (\<lambda>r. st_WorkspaceID r = ws) (\<lambda>_. s') (settings_rows d) \<and>
            st_WorkspaceID s' = ws \<and> st_Version s' = st_Version s + 1)))"

lemma settings_stepE:
  assumes "settings_step d ws patch d'"
  obtains (first) s where "find (\<lambda>s. st_WorkspaceID s = ws) (settings_rows d) = None" "d' = d\<lparr>settings_rows := settings_rows d @ [s]\<rparr>"
      "st_WorkspaceID s = ws" "st_Version s = 1"
  | (later) s s' where "find (\<lambda>s. st_WorkspaceID s = ws) (settings_rows d) = Some s"
      "pt_Version patch = None \<or> pt_Version patch = Some (st_Version s)"
      "d' = d\<lparr>settings_rows := update_where (\<lambda>r. st_WorkspaceID r = ws) (\<lambda>_. s') (settings_rows d)\<rparr>"
      "st_WorkspaceID s' = ws" "st_Version s' = st_Version s + 1"
proof (cases "find (\<lambda>s. st_WorkspaceID s = ws) (settings_rows d)")
  case None
  with assms show thesis by (auto simp: settings_step_def intro: first)
next
  case (Some s)
  with assms show thesis by (auto simp: settings_step_def intro: later)
qed

lemma unique_settings:
  assumes "distinct (map st_WorkspaceID (settings_rows d))" "find (\<lambda>s. st_WorkspaceID s = ws) (settings_rows d) = Some s"
    "r \<in> set (settings_rows d)" "st_WorkspaceID r = ws"
  shows "r = s"
  using assms find_SomeD [OF assms(2)] by (auto simp: distinct_map inj_on_def)

lemma upserts_version:
  assumes keys: "distinct (map st_WorkspaceID (settings_rows d))"
    and s: "find (\<lambda>s. st_WorkspaceID s = ws) (settings_rows d) = Some s" and ws: "sg_WorkspaceID t = ws"
    and v: "v = (case pt_Version patch of None \<Rightarrow> st_Version s | Some v \<Rightarrow> v)"
  shows "writes d (settings_step d ws patch) (Settings_Upsert t (Some v))"
proof -
  let ?own = "\<lambda>r. st_WorkspaceID r = ws \<and> st_Version r = v"
  let ?new = "\<lambda>r. r\<lparr>st_Data := marshalSettingsData t, st_Version := st_Version r + 1, st_UpdatedBy := sg_UpdatedByUserID t,
    st_UpdatedAt := sg_UpdatedAt t\<rparr>"
  have "settings_step d ws patch (d\<lparr>settings_rows := update_where ?own ?new (settings_rows d)\<rparr>)"
    if "list_ex ?own (settings_rows d)"
  proof -
    from that unique_settings [OF keys s] find_SomeD [OF s] have "st_Version s = v" "st_WorkspaceID s = ws" by (auto simp: list_ex_iff)
    moreover from this unique_settings [OF keys s]
    have "update_where ?own ?new (settings_rows d) = update_where (\<lambda>r. st_WorkspaceID r = ws) (\<lambda>_. ?new s) (settings_rows d)"
      by (auto simp: update_where_def)
    ultimately show ?thesis unfolding settings_step_def using s v
      by (auto split: option.splits intro!: exI [of _ "?new s"])
  qed
  with ws show ?thesis unfolding Settings_Upsert_def by (intro writes_exec) (auto simp: Let_def split: if_splits)
qed

lemma upserts_first:
  assumes "find (\<lambda>s. st_WorkspaceID s = ws) (settings_rows d) = None" and "sg_WorkspaceID t = ws"
  shows "writes d (settings_step d ws patch) (Settings_Upsert t None)"
  unfolding Settings_Upsert_def using assms
  by (intro writes_exec) (auto simp: settings_step_def settings_to_row_def split: if_splits)

lemma updates_settings:
  assumes keys: "distinct (map st_WorkspaceID (settings_rows d))"
  shows "writes d (settings_step d ws patch) (UpdateWorkspaceSettings P ws user patch now)"
proof -
  have after: "reads d' (\<lambda>_. True) (thenE (if i_hasAudit P then remote (Inr ()) else ret (Inr ())) (do {
      _ \<leftarrow> (if i_hasCache P then InvalidateWorkspaceSettings ws else ret (Inr ())); ret (Inr x) }))" for d' x
    unfolding InvalidateWorkspaceSettings_def thenE_def
    by (intro reads_bindE [where A = "\<lambda>_. True"] reads_bind [where A = "\<lambda>_. True"] reads_if reads_remote reads_ret reads_redis) simp_all
  have req: "reads d (\<lambda>_. True) (settings_denied errs (requireWorkspacePermission P ws user perm))" for errs perm
    unfolding settings_denied_def by (rule reads_bind [OF reads_require]) (rule reads_ret, simp)
  show ?thesis unfolding UpdateWorkspaceSettings_def Settings_GetByWorkspace_def Let_def
  proof (intro writes_thenE [OF req] writes_if writes_fail writes_bind [OF reads_query] writes_case_sum writes_before_then after)
    fix a r e assume "answers (map_sum id mapToSettings (found IdSettingsNotFound (find (\<lambda>s. st_WorkspaceID s = ws) (settings_rows d)))) r"
      "r = Inl e" "\<not> e \<noteq> Err IdSettingsNotFound"
    then have none: "find (\<lambda>s. st_WorkspaceID s = ws) (settings_rows d) = None"
      by (cases "find (\<lambda>s. st_WorkspaceID s = ws) (settings_rows d)") (auto simp: found_def)
    show "writes d (settings_step d ws patch) (Settings_Upsert (patched_settings (default_settings ws now) patch user now) None)"
      by (rule upserts_first [OF none]) (simp add: patched_settings_def default_settings_def)
  next
    fix a r cur assume "answers (map_sum id mapToSettings (found IdSettingsNotFound (find (\<lambda>s. st_WorkspaceID s = ws) (settings_rows d)))) r"
      "r = Inr cur"
    then obtain s where s: "find (\<lambda>s. st_WorkspaceID s = ws) (settings_rows d) = Some s" and cur: "cur = mapToSettings s"
      by (cases "find (\<lambda>s. st_WorkspaceID s = ws) (settings_rows d)") (auto simp: found_def)
    show "writes d (settings_step d ws patch) (Settings_Upsert (patched_settings cur patch user now)
        (Some (case pt_Version patch of None \<Rightarrow> sg_Version cur | Some v \<Rightarrow> v)))"
      by (rule upserts_version [OF keys s]) (use find_SomeD [OF s] in \<open>simp_all add: cur patched_settings_def mapToSettings_def split: option.splits\<close>)
  qed
qed

end
