(* ===== verification/Workspace_Safety.thy ===== *)
theory Workspace_Safety
  imports Workspace_Effects Identity_Safety
begin

text \<open>
  The invariant of the tables for workspaces: keys and references, members only have roles of their own workspace, and every
  workspace has an active member with its owner role. It is kept by every command of the identity module, whatever fails.
\<close>

section \<open>The invariant\<close>

definition owned :: "identity_db \<Rightarrow> string \<Rightarrow> bool" where
  "owned d ws \<longleftrightarrow> (\<exists>m\<in>set (memberships d). \<exists>r\<in>set (roles d). mb_WorkspaceID m = ws \<and> mb_Status m = ''active'' \<and>
     rl_WorkspaceID r = ws \<and> rl_Type r = ''owner'' \<and> (mb_ID m, rl_ID r) \<in> set (membership_roles d))"

definition ws_keys :: "identity_db \<Rightarrow> bool" where
  "ws_keys d \<longleftrightarrow> distinct (map mb_ID (memberships d)) \<and> distinct (map (\<lambda>m. (mb_WorkspaceID m, mb_UserID m)) (memberships d)) \<and>
     distinct (map rl_ID (roles d)) \<and> distinct (membership_roles d) \<and> distinct (map iv_ID (invitations d)) \<and>
     distinct (map iv_Token (invitations d))"

definition ws_refs :: "identity_db \<Rightarrow> bool" where
  "ws_refs d \<longleftrightarrow>
     (\<forall>m\<in>set (memberships d). has wk_ID (mb_WorkspaceID m) (workspaces d)) \<and>
     (\<forall>r\<in>set (roles d). has wk_ID (rl_WorkspaceID r) (workspaces d)) \<and>
     (\<forall>(a, b)\<in>set (membership_roles d). \<exists>m\<in>set (memberships d). \<exists>r\<in>set (roles d).
        mb_ID m = a \<and> rl_ID r = b \<and> rl_WorkspaceID r = mb_WorkspaceID m) \<and>
     (\<forall>(a, b)\<in>set (invitation_roles d). \<exists>i\<in>set (invitations d). \<exists>r\<in>set (roles d).
        iv_ID i = a \<and> rl_ID r = b \<and> rl_WorkspaceID r = iv_WorkspaceID i)"

definition one_owner_role :: "identity_db \<Rightarrow> bool" where
  "one_owner_role d \<longleftrightarrow> (\<forall>r\<in>set (roles d). \<forall>s\<in>set (roles d). rl_Type r = ''owner'' \<and> rl_Type s = ''owner'' \<and>
     rl_WorkspaceID r = rl_WorkspaceID s \<longrightarrow> r = s)"

definition ws_ok :: "identity_db \<Rightarrow> bool" where
  "ws_ok d \<longleftrightarrow> ws_keys d \<and> ws_refs d \<and> one_owner_role d \<and> distinct (map st_WorkspaceID (settings_rows d)) \<and>
     (\<forall>w\<in>set (workspaces d). owned d (wk_ID w))"

lemma member_roles_set [simp]: "r \<in> set (member_roles d mid) \<longleftrightarrow> r \<in> set (roles d) \<and> (mid, rl_ID r) \<in> set (membership_roles d)"
  by (auto simp: member_roles_def)

lemma offered_roles_set [simp]: "r \<in> set (offered_roles d iid) \<longleftrightarrow> r \<in> set (roles d) \<and> (iid, rl_ID r) \<in> set (invitation_roles d)"
  by (auto simp: offered_roles_def)

lemma legacy_owner [simp]: "LegacyMembershipRole rs = ''Owner'' \<longleftrightarrow> (\<exists>r\<in>set rs. rl_Type r = ''owner'')"
  by (simp add: LegacyMembershipRole_def list_ex_iff)

lemma two_left:
  assumes "distinct xs" "2 \<le> length xs"
  obtains y where "y \<in> set xs" "y \<noteq> x"
proof -
  have "\<not> set xs \<subseteq> {x}"
  proof
    assume "set xs \<subseteq> {x}"
    then have "card (set xs) \<le> 1" by (metis card.empty card.insert card_mono empty_iff finite.emptyI finite.insertI One_nat_def)
    with assms show False by (simp add: distinct_card)
  qed
  with that show thesis by auto
qed

text \<open>If two memberships have the owner role, one is left without the member \<open>mid\<close>.\<close>

lemma other_owner:
  assumes ok: "ws_ok d" and spare: "owner_spare d ws"
  shows "\<exists>m\<in>set (memberships d). \<exists>r\<in>set (roles d). mb_WorkspaceID m = ws \<and> mb_Status m = ''active'' \<and> rl_WorkspaceID r = ws \<and>
    rl_Type r = ''owner'' \<and> (mb_ID m, rl_ID r) \<in> set (membership_roles d) \<and> mb_ID m \<noteq> mid"
proof -
  from spare obtain r where find: "find (\<lambda>r. rl_WorkspaceID r = ws \<and> rl_Type r = ''owner'') (roles d) = Some r"
    and two: "2 \<le> length (role_members d ws (rl_ID r))" by (auto simp: owner_spare_def)
  from find_SomeD [OF find] have r: "r \<in> set (roles d)" "rl_WorkspaceID r = ws" "rl_Type r = ''owner''" by auto
  have "distinct (role_members d ws (rl_ID r))" using ok by (simp add: role_members_def ws_ok_def ws_keys_def)
  then obtain p where p: "p \<in> set (role_members d ws (rl_ID r))" "p \<noteq> (mid, rl_ID r)" using two by (rule two_left)
  then obtain a m where a: "p = (a, rl_ID r)" "a \<noteq> mid" "(a, rl_ID r) \<in> set (membership_roles d)"
    and m: "m \<in> set (memberships d)" "mb_ID m = a" "mb_Status m = ''active''"
    by (auto simp: role_members_def list_ex_iff)
  from ok a(3) obtain m' r' where "m' \<in> set (memberships d)" "r' \<in> set (roles d)" "mb_ID m' = a" "rl_ID r' = rl_ID r"
      "rl_WorkspaceID r' = mb_WorkspaceID m'"
    by (fastforce simp: ws_ok_def ws_refs_def)
  moreover from this m r ok have "m' = m" "r' = r"
    using unique_row [of mb_ID "memberships d" m' m] unique_row [of rl_ID "roles d" r' r] by (auto simp: ws_ok_def ws_keys_def)
  ultimately show ?thesis using m r a by (intro bexI [of _ m] bexI [of _ r]) auto
qed

section \<open>Commands on members keep it\<close>

lemma owned_without:
  assumes ok: "ws_ok d" and w: "w \<in> set (workspaces d)" and t: "t \<in> set (memberships d)" "mb_ID t = mid" "mb_WorkspaceID t = ws"
    and guard: "LegacyMembershipRole (member_roles d mid) = ''Owner'' \<Longrightarrow> owner_spare d ws"
  shows "\<exists>m\<in>set (memberships d). \<exists>r\<in>set (roles d). mb_WorkspaceID m = wk_ID w \<and> mb_Status m = ''active'' \<and>
    rl_WorkspaceID r = wk_ID w \<and> rl_Type r = ''owner'' \<and> (mb_ID m, rl_ID r) \<in> set (membership_roles d) \<and> mb_ID m \<noteq> mid"
proof -
  from ok w obtain m r where m: "m \<in> set (memberships d)" "r \<in> set (roles d)" "mb_WorkspaceID m = wk_ID w" "mb_Status m = ''active''"
      "rl_WorkspaceID r = wk_ID w" "rl_Type r = ''owner''" "(mb_ID m, rl_ID r) \<in> set (membership_roles d)"
    by (auto simp: ws_ok_def owned_def)
  show ?thesis
  proof (cases "mb_ID m = mid")
    case True
    with m t ok have "m = t" using unique_row [of mb_ID "memberships d" m t] by (auto simp: ws_ok_def ws_keys_def)
    with m t have "LegacyMembershipRole (member_roles d mid) = ''Owner''" "wk_ID w = ws" by auto
    with guard have "owner_spare d (wk_ID w)" by simp
    then show ?thesis by (rule other_owner [OF ok])
  next
    case False
    with m show ?thesis by blast
  qed
qed

lemma ok_remove:
  assumes ok: "ws_ok d" and rem: "removal_ok d ws mid user"
  shows "ws_ok (remove_member mid d)"
proof -
  from rem obtain t where t: "t \<in> set (memberships d)" "mb_ID t = mid" "mb_WorkspaceID t = ws"
    "LegacyMembershipRole (member_roles d mid) = ''Owner'' \<Longrightarrow> owner_spare d ws" by (auto simp: removal_ok_def)
  have "owned (remove_member mid d) (wk_ID w)" if "w \<in> set (workspaces d)" for w
    using owned_without [OF ok that t] by (fastforce simp: owned_def remove_member_def)
  moreover have "ws_keys (remove_member mid d)" using ok by (simp add: ws_ok_def ws_keys_def remove_member_def distinct_filtered)
  moreover have "ws_refs (remove_member mid d)" using ok by (fastforce simp: ws_ok_def ws_refs_def remove_member_def)
  ultimately show ?thesis using ok by (simp add: ws_ok_def one_owner_role_def remove_member_def)
qed

lemma roles_given:
  assumes "active_roles_of d ws ids rs" "r \<in> set (RoleIDs rs)"
  shows "\<exists>x\<in>set (roles d). rl_ID x = r \<and> rl_WorkspaceID x = ws"
  using assms by (auto simp: active_roles_of_def RoleIDs_def)

lemma ok_role_change:
  assumes ok: "ws_ok d" and ch: "role_change_ok d ws mid ids user rs"
  shows "ws_ok (role_change mid (LegacyMembershipRole rs) (RoleIDs rs) now d)" (is "ws_ok ?d")
proof -
  let ?f = "\<lambda>m. if mb_ID m = mid then m\<lparr>mb_Role := LegacyMembershipRole rs, mb_UpdatedAt := now\<rparr> else m"
  have mem: "memberships ?d = map ?f (memberships d)" "roles ?d = roles d" "workspaces ?d = workspaces d"
      "invitations ?d = invitations d" "invitation_roles ?d = invitation_roles d" "settings_rows ?d = settings_rows d"
      "membership_roles ?d = filter (\<lambda>(m, r). m \<noteq> mid) (membership_roles d) @ map (Pair mid) (RoleIDs rs)"
    by (simp_all add: role_change_def set_member_roles_def update_where_def)
  from ch obtain t where t: "t \<in> set (memberships d)" "mb_ID t = mid" "mb_WorkspaceID t = ws" and rs: "active_roles_of d ws ids rs"
      "distinct (RoleIDs rs)"
    and guard: "LegacyMembershipRole (member_roles d mid) = ''Owner'' \<and> LegacyMembershipRole rs \<noteq> ''Owner'' \<longrightarrow> owner_spare d ws"
    by (auto simp: role_change_ok_def)
  have "ws_keys ?d" using ok rs(2) unfolding ws_ok_def ws_keys_def mem
    by (auto simp: distinct_map_filter map_update_where comp_def distinct_map inj_on_def if_distrib [of mb_ID])
  moreover have "ws_refs ?d"
  proof -
    have ft: "?f t \<in> set (memberships ?d)" "mb_ID (?f t) = mid" "mb_WorkspaceID (?f t) = ws" using t by (auto simp: mem)
    have old: "\<exists>m\<in>set (memberships ?d). \<exists>r\<in>set (roles d). mb_ID m = a \<and> rl_ID r = b \<and> rl_WorkspaceID r = mb_WorkspaceID m"
      if "(a, b) \<in> set (membership_roles d)" for a b
    proof -
      from ok that obtain m r where "m \<in> set (memberships d)" "r \<in> set (roles d)" "mb_ID m = a" "rl_ID r = b"
        "rl_WorkspaceID r = mb_WorkspaceID m" by (fastforce simp: ws_ok_def ws_refs_def)
      then show ?thesis by (intro bexI [of _ "?f m"] bexI [of _ r]) (auto simp: mem)
    qed
    have new: "\<exists>m\<in>set (memberships ?d). \<exists>r\<in>set (roles d). mb_ID m = mid \<and> rl_ID r = b \<and> rl_WorkspaceID r = mb_WorkspaceID m"
      if "b \<in> set (RoleIDs rs)" for b
      using roles_given [OF rs(1) that] ft by metis
    have "has wk_ID (mb_WorkspaceID m) (workspaces d)" if "m \<in> set (memberships ?d)" for m
      using that ok by (auto simp: mem ws_ok_def ws_refs_def)
    with ok old new show ?thesis unfolding ws_refs_def ws_ok_def mem(2-) by auto
  qed
  moreover have "owned ?d (wk_ID w)" if "w \<in> set (workspaces d)" for w
  proof (cases "LegacyMembershipRole rs = ''Owner''")
    case True
    then obtain x where x: "x \<in> set rs" "rl_Type x = ''owner''" by auto
    with rs(1) have x': "x \<in> set (roles d)" "rl_WorkspaceID x = ws" "rl_ID x \<in> set (RoleIDs rs)"
      by (auto simp: active_roles_of_def RoleIDs_def)
    from ok that obtain m r where m: "m \<in> set (memberships d)" "r \<in> set (roles d)" "mb_WorkspaceID m = wk_ID w" "mb_Status m = ''active''"
      "rl_WorkspaceID r = wk_ID w" "rl_Type r = ''owner''" "(mb_ID m, rl_ID r) \<in> set (membership_roles d)"
      by (auto simp: ws_ok_def owned_def)
    show ?thesis
    proof (cases "mb_ID m = mid")
      case True
      with m t ok have "m = t" using unique_row [of mb_ID "memberships d" m t] by (auto simp: ws_ok_def ws_keys_def)
      with m x x' t show ?thesis unfolding owned_def by (intro bexI [of _ "?f m"] bexI [of _ x]) (auto simp: mem)
    next
      case False
      with m show ?thesis unfolding owned_def by (intro bexI [of _ "?f m"] bexI [of _ r]) (auto simp: mem)
    qed
  next
    case False
    with guard owned_without [OF ok that t] obtain m r where "m \<in> set (memberships d)" "r \<in> set (roles d)" "mb_WorkspaceID m = wk_ID w" "mb_Status m = ''active''"
      "rl_WorkspaceID r = wk_ID w" "rl_Type r = ''owner''" "(mb_ID m, rl_ID r) \<in> set (membership_roles d)" "mb_ID m \<noteq> mid"
      by blast
    then show ?thesis unfolding owned_def by (intro bexI [of _ "?f m"] bexI [of _ r]) (auto simp: mem)
  qed
  ultimately show ?thesis using ok by (simp add: ws_ok_def one_owner_role_def mem)
qed

section \<open>Invitations keep it\<close>

lemma owned_more:
  assumes "owned d ws" "set (memberships d) \<subseteq> set (memberships d')" "set (roles d) \<subseteq> set (roles d')"
    "set (membership_roles d) \<subseteq> set (membership_roles d')"
  shows "owned d' ws"
  using assms unfolding owned_def by blast

lemma ok_invitation:
  assumes ok: "ws_ok d" and inv: "invitation_ok d cmd i rs"
  shows "ws_ok (add_invitation i (RoleIDs rs) evs d)" (is "ws_ok ?d")
proof -
  have tab: "memberships ?d = memberships d" "roles ?d = roles d" "workspaces ?d = workspaces d" "membership_roles ?d = membership_roles d"
      "settings_rows ?d = settings_rows d" "invitations ?d = invitations d @ [i\<lparr>iv_RoleIDs := []\<rparr>]"
      "invitation_roles ?d = filter (\<lambda>(m, r). m \<noteq> iv_ID i) (invitation_roles d) @ map (Pair (iv_ID i)) (RoleIDs rs)"
    by (simp_all add: add_invitation_def set_offered_roles_def)
  have "\<exists>j\<in>set (invitations ?d). \<exists>r\<in>set (roles d). iv_ID j = iv_ID i \<and> rl_ID r = b \<and> rl_WorkspaceID r = iv_WorkspaceID j"
    if "b \<in> set (RoleIDs rs)" for b
  proof -
    from inv have "active_roles_of d (in_WorkspaceID cmd) (in_RoleIDs cmd) rs" "iv_WorkspaceID i = in_WorkspaceID cmd"
      by (auto simp: invitation_ok_def)
    with roles_given [OF this(1) that] show ?thesis unfolding tab by force
  qed
  then have "ws_refs ?d" using ok unfolding ws_ok_def ws_refs_def tab by fastforce
  moreover have "ws_keys ?d" using ok inv unfolding ws_ok_def ws_keys_def invitation_ok_def tab
    by (auto simp: list_ex_iff image_iff)
  ultimately show ?thesis using ok by (simp add: ws_ok_def one_owner_role_def owned_def tab)
qed

text \<open>A new member with roles of its own workspace.\<close>

lemma refs_add_member:
  assumes refs: "ws_refs d" and ws: "has wk_ID (mb_WorkspaceID m) (workspaces d)"
    and given: "\<And>b. b \<in> set ids \<Longrightarrow> \<exists>r\<in>set (roles d). rl_ID r = b \<and> rl_WorkspaceID r = mb_WorkspaceID m"
  shows "ws_refs (add_member m ids d)" (is "ws_refs ?d")
proof -
  have tab: "memberships ?d = memberships d @ [membership_row m]" "roles ?d = roles d" "workspaces ?d = workspaces d"
      "membership_roles ?d = filter (\<lambda>(a, r). a \<noteq> mb_ID m) (membership_roles d) @ map (Pair (mb_ID m)) ids"
      "invitations ?d = invitations d" "invitation_roles ?d = invitation_roles d"
      "mb_ID (membership_row m) = mb_ID m" "mb_WorkspaceID (membership_row m) = mb_WorkspaceID m"
    by (simp_all add: add_member_def set_member_roles_def membership_row_def)
  have "\<exists>x\<in>set (memberships ?d). \<exists>r\<in>set (roles d). mb_ID x = mb_ID m \<and> rl_ID r = b \<and> rl_WorkspaceID r = mb_WorkspaceID x"
    if "b \<in> set ids" for b using given [OF that] tab by force
  with refs ws show ?thesis unfolding ws_refs_def tab(2-) by (fastforce simp: tab)
qed

lemma keys_add_member:
  assumes "ws_keys d" "distinct ids" "\<not> has mb_ID (mb_ID m) (memberships d)"
    "\<not> list_ex (\<lambda>r. mb_WorkspaceID r = mb_WorkspaceID m \<and> mb_UserID r = mb_UserID m) (memberships d)"
  shows "ws_keys (add_member m ids d)"
  using assms unfolding ws_keys_def add_member_def set_member_roles_def membership_row_def
  by (auto simp: distinct_map inj_on_def list_ex_iff)

lemma owned_add_member:
  assumes "ws_refs d" "\<not> has mb_ID (mb_ID m) (memberships d)" "owned d ws"
  shows "owned (add_member m ids d) ws"
proof (rule owned_more [OF assms(3)])
  have "a \<noteq> mb_ID m" if "(a, b) \<in> set (membership_roles d)" for a b
    using assms(1,2) that by (fastforce simp: ws_refs_def list_ex_iff)
  then show "set (membership_roles d) \<subseteq> set (membership_roles (add_member m ids d))"
    by (auto simp: add_member_def set_member_roles_def)
qed (auto simp: add_member_def set_member_roles_def)

lemma ok_mark_accepted: "ws_ok d \<Longrightarrow> ws_ok (mark_accepted iid now d)"
proof -
  assume ok: "ws_ok d"
  let ?f = "\<lambda>i. if iv_ID i = iid then i\<lparr>iv_Status := ''accepted'', iv_UpdatedAt := now\<rparr> else i"
  have "\<exists>j\<in>?f ` set (invitations d). \<exists>r\<in>set (roles d). iv_ID j = a \<and> rl_ID r = b \<and> rl_WorkspaceID r = iv_WorkspaceID j"
    if "(a, b) \<in> set (invitation_roles d)" for a b
  proof -
    from ok that obtain j r where "j \<in> set (invitations d)" "r \<in> set (roles d)" "iv_ID j = a" "rl_ID r = b"
      "rl_WorkspaceID r = iv_WorkspaceID j" by (fastforce simp: ws_ok_def ws_refs_def)
    then show ?thesis by (intro bexI [of _ "?f j"] bexI [of _ r]) auto
  qed
  then have "ws_refs (mark_accepted iid now d)" using ok
    unfolding ws_ok_def ws_refs_def mark_accepted_def update_where_def by (auto simp: image_image)
  with ok show ?thesis unfolding ws_ok_def ws_keys_def owned_def one_owner_role_def
    by (simp add: mark_accepted_def map_update_where)
qed

lemma ok_accept:
  assumes ok: "ws_ok d" and acc: "acceptance_ok d token user now i m"
  shows "ws_ok (mark_accepted (iv_ID i) now (add_member m (RoleIDs (offered_roles d (iv_ID i))) d))"
proof (rule ok_mark_accepted)
  let ?ids = "RoleIDs (offered_roles d (iv_ID i))"
  have i: "i \<in> set (invitations d)" "mb_WorkspaceID m = iv_WorkspaceID i" "has wk_ID (mb_WorkspaceID m) (workspaces d)" "distinct ?ids"
      "\<not> has mb_ID (mb_ID m) (memberships d)"
      "\<not> list_ex (\<lambda>r. mb_WorkspaceID r = mb_WorkspaceID m \<and> mb_UserID r = mb_UserID m) (memberships d)"
    using acc unfolding acceptance_ok_def by (auto simp: NewMembership_def dest!: arg_cong [of m _ mb_WorkspaceID])
  have "\<exists>r\<in>set (roles d). rl_ID r = b \<and> rl_WorkspaceID r = mb_WorkspaceID m" if "b \<in> set ?ids" for b
  proof -
    from that obtain r where r: "r \<in> set (roles d)" "rl_ID r = b" "(iv_ID i, rl_ID r) \<in> set (invitation_roles d)" by (auto simp: RoleIDs_def)
    with ok obtain j r' where "j \<in> set (invitations d)" "r' \<in> set (roles d)" "iv_ID j = iv_ID i" "rl_ID r' = b"
      "rl_WorkspaceID r' = iv_WorkspaceID j" by (fastforce simp: ws_ok_def ws_refs_def)
    moreover from this i ok have "j = i" using unique_row [of iv_ID "invitations d" j i] by (auto simp: ws_ok_def ws_keys_def)
    ultimately show ?thesis using i by auto
  qed
  then have "ws_refs (add_member m ?ids d)" using ok i by (intro refs_add_member) (auto simp: ws_ok_def)
  moreover have "ws_keys (add_member m ?ids d)" using ok i by (intro keys_add_member) (auto simp: ws_ok_def)
  moreover have "owned (add_member m ?ids d) (wk_ID w)" if "w \<in> set (workspaces d)" for w
    using ok that i by (intro owned_add_member) (auto simp: ws_ok_def)
  moreover have "roles (add_member m ?ids d) = roles d" "workspaces (add_member m ?ids d) = workspaces d"
    "settings_rows (add_member m ?ids d) = settings_rows d" by (simp_all add: add_member_def set_member_roles_def)
  ultimately show "ws_ok (add_member m ?ids d)" using ok by (simp add: ws_ok_def one_owner_role_def)
qed

section \<open>Workspaces, roles and settings keep it\<close>

lemma ok_workspace:
  assumes ok: "ws_ok d" and new: "workspace_ok d user ws m rs ow now" and fit: "settings_fit d st"
  shows "ws_ok (add_workspace ws m rs ow st d)" (is "ws_ok ?d")
proof -
  from new obtain i j where rs: "rs = map2 (\<lambda>r k. r\<lparr>rl_ID := k, rl_WorkspaceID := wk_ID ws\<rparr>) (DefaultRoleDefinitions now) [i, j]"
    and ij: "ow = i" "i \<noteq> j" "\<not> has rl_ID i (roles d)" "\<not> has rl_ID j (roles d)"
    and fresh: "\<not> has wk_ID (wk_ID ws) (workspaces d)" "\<not> has mb_ID (mb_ID m) (memberships d)"
    and m: "mb_WorkspaceID m = wk_ID ws" "mb_Status m = ''active''"
    unfolding workspace_ok_def by (auto simp: NewMembership_def dest!: arg_cong [of m _ "\<lambda>m. (mb_WorkspaceID m, mb_Status m)"])
  let ?e = "d\<lparr>workspaces := workspaces d @ [ws], roles := roles d @ rs\<rparr>"
  have d: "?d = (add_member m [ow] ?e)\<lparr>settings_rows := settings_rows d @ st\<rparr>"
    by (simp add: add_workspace_def add_member_def set_member_roles_def)
  have own: "r \<in> set rs \<Longrightarrow> rl_WorkspaceID r = wk_ID ws" for r using rs by (auto simp: DefaultRoleDefinitions_def)
  have ids: "map rl_ID rs = [i, j]" "map rl_Type rs = [''owner'', ''member'']" using rs by (simp_all add: DefaultRoleDefinitions_def)
  obtain r1 r2 where r: "rs = [r1, r2]" "rl_ID r1 = i" "rl_ID r2 = j" "rl_Type r1 = ''owner''" "rl_Type r2 = ''member''"
    using ids by (cases rs; cases "tl rs") auto
  have old: "rl_WorkspaceID x \<noteq> wk_ID ws" if "x \<in> set (roles d)" for x
    using ok fresh(1) that by (fastforce simp: ws_ok_def ws_refs_def list_ex_iff)
  have oldm: "mb_WorkspaceID x \<noteq> wk_ID ws" if "x \<in> set (memberships d)" for x
    using ok fresh(1) that by (fastforce simp: ws_ok_def ws_refs_def list_ex_iff)
  have refs: "ws_refs ?e" using ok own unfolding ws_ok_def ws_refs_def by (fastforce simp: r)
  have "ws_refs (add_member m [ow] ?e)"
    by (rule refs_add_member [OF refs]) (use m own r ij in \<open>auto simp: list_ex_iff\<close>)
  moreover have "ws_keys ?e" using ok ij r unfolding ws_ok_def ws_keys_def by (auto simp: list_ex_iff)
  then have "ws_keys (add_member m [ow] ?e)"
    by (rule keys_add_member) (use fresh oldm m in \<open>auto simp: list_ex_iff\<close>)
  moreover have "owned (add_member m [ow] ?e) (wk_ID w)" if "w \<in> set (workspaces d)" for w
  proof (rule owned_add_member [OF refs])
    have "owned d (wk_ID w)" using ok that by (simp add: ws_ok_def)
    then show "owned ?e (wk_ID w)" by (rule owned_more) simp_all
  qed (use fresh in simp)
  moreover have "owned (add_member m [ow] ?e) (wk_ID ws)" unfolding owned_def
    by (intro bexI [of _ "membership_row m"] bexI [of _ r1])
      (use m r own ij in \<open>auto simp: add_member_def set_member_roles_def membership_row_def\<close>)
  moreover have "\<forall>x\<in>set (roles d). rl_WorkspaceID x \<noteq> wk_ID ws" using old by blast
  then have "one_owner_role (add_member m [ow] ?e)" using ok own [of r1] own [of r2] r unfolding ws_ok_def one_owner_role_def
    by (auto simp: add_member_def set_member_roles_def)
  moreover have "distinct (map st_WorkspaceID (settings_rows d @ st))" using ok fit by (simp add: ws_ok_def settings_fit_def)
  ultimately show ?thesis unfolding d ws_ok_def
    by (auto simp: ws_refs_def ws_keys_def owned_def one_owner_role_def add_member_def set_member_roles_def)
qed

lemma ok_role:
  assumes ok: "ws_ok d" and new: "role_ok d ws r"
  shows "ws_ok (d\<lparr>roles := roles d @ [r]\<rparr>)"
proof -
  have "ws_refs (d\<lparr>roles := roles d @ [r]\<rparr>)" using ok new unfolding ws_ok_def ws_refs_def role_ok_def by fastforce
  moreover have "ws_keys (d\<lparr>roles := roles d @ [r]\<rparr>)" using ok new unfolding ws_ok_def ws_keys_def role_ok_def
    by (auto simp: list_ex_iff)
  moreover have "owned (d\<lparr>roles := roles d @ [r]\<rparr>) (wk_ID w)" if "w \<in> set (workspaces d)" for w
  proof -
    have "owned d (wk_ID w)" using ok that by (simp add: ws_ok_def)
    then show ?thesis by (rule owned_more) auto
  qed
  ultimately show ?thesis using ok new by (auto simp: ws_ok_def one_owner_role_def role_ok_def)
qed

lemma ok_patch:
  assumes ok: "ws_ok d" and f: "roles_patched d ws f"
  shows "ws_ok (d\<lparr>roles := map f (roles d)\<rparr>)" (is "ws_ok ?d")
proof -
  have same: "rl_ID (f r) = rl_ID r" "rl_WorkspaceID (f r) = rl_WorkspaceID r" "rl_Type (f r) = rl_Type r" if "r \<in> set (roles d)" for r
    using f that by (auto simp: roles_patched_def same_role_def list_all_iff)
  have eq: "map rl_ID (map f (roles d)) = map rl_ID (roles d)" using same by simp
  have "distinct (map rl_ID (map f (roles d)))" unfolding eq using ok by (simp add: ws_ok_def ws_keys_def)
  then have "ws_keys ?d" using ok unfolding ws_ok_def ws_keys_def by simp
  moreover have "ws_refs ?d" using ok same unfolding ws_ok_def ws_refs_def by (fastforce simp: Bex_def)
  moreover have "owned ?d (wk_ID w)" if "w \<in> set (workspaces d)" for w
    using ok that same unfolding ws_ok_def owned_def by (fastforce simp: Bex_def)
  moreover have "one_owner_role ?d" using ok same unfolding ws_ok_def one_owner_role_def by (auto 4 4)
  ultimately show ?thesis using ok by (simp add: ws_ok_def)
qed

lemma ok_settings:
  assumes ok: "ws_ok d" and step: "settings_step d ws patch d'"
  shows "ws_ok d'"
  using step
proof (cases rule: settings_stepE)
  case (first s)
  with ok show ?thesis unfolding ws_ok_def ws_keys_def ws_refs_def one_owner_role_def owned_def by (auto simp: find_None_iff)
next
  case (later s s')
  then have "map st_WorkspaceID (settings_rows d') = map st_WorkspaceID (settings_rows d)" by (simp add: update_where_def)
  with ok have "distinct (map st_WorkspaceID (settings_rows d'))" by (simp add: ws_ok_def)
  with ok later show ?thesis unfolding ws_ok_def ws_keys_def ws_refs_def one_owner_role_def owned_def by simp
qed

section \<open>Commands\<close>

datatype ws_command =
    CreateWorkspace string string gotime
  | InviteMember InviteCommand
  | AcceptInvitation string string gotime
  | RemoveMember string string string
  | UpdateMemberRole string string "string list" string gotime
  | AssignMemberRoles string string "string list" string gotime
  | CreateRole string string string "string list" "int64 option" gotime
  | UpdateRole string string string "string option" "string list option" "int64 option" "string option" gotime
  | UpdateSettings string string settings_patch gotime
  | Account auth_command

fun run_ws :: "identity_ports \<Rightarrow> ws_command \<Rightarrow> (id_world, bool) state" where
  "run_ws P (CreateWorkspace name user now) = succeeds (CreateWorkspace_Execute P name user now)"
| "run_ws P (InviteMember cmd) = succeeds (Invite_Execute P cmd)"
| "run_ws P (AcceptInvitation token user now) = succeeds (AcceptInvitation_Execute P token user now)"
| "run_ws P (RemoveMember ws mid user) = succeeds (RemoveMember_Execute ws mid user)"
| "run_ws P (UpdateMemberRole ws mid ids user now) = succeeds (UpdateWorkspaceMemberRole P ws mid ids user now)"
| "run_ws P (AssignMemberRoles ws mid ids user now) = succeeds (AssignWorkspaceMemberRoles P ws mid ids user now)"
| "run_ws P (CreateRole ws actor name names pm now) = succeeds (CreateWorkspaceRole P ws actor name names pm now)"
| "run_ws P (UpdateRole ws rid actor name names pm status now) = succeeds (UpdateWorkspaceRole P ws rid actor name names pm status now)"
| "run_ws P (UpdateSettings ws user patch now) = succeeds (UpdateWorkspaceSettings P ws user patch now)"
| "run_ws P (Account cmd) = run_auth P cmd"

fun ws_run :: "identity_ports \<Rightarrow> ws_command list \<Rightarrow> id_world \<Rightarrow> id_world" where
  "ws_run P [] w = w"
| "ws_run P (cmd # cmds) w = ws_run P cmds (snd (run_state (run_ws P cmd) w))"

text \<open>The commands on accounts leave the tables for workspaces alone.\<close>

definition same_workspaces :: "identity_db \<Rightarrow> identity_db \<Rightarrow> bool" where
  "same_workspaces d d' \<longleftrightarrow> workspaces d' = workspaces d \<and> roles d' = roles d \<and> memberships d' = memberships d \<and>
     membership_roles d' = membership_roles d \<and> invitations d' = invitations d \<and> invitation_roles d' = invitation_roles d \<and>
     settings_rows d' = settings_rows d"

definition apart :: "id_world \<Rightarrow> id_world \<Rightarrow> bool" where
  "apart w w' \<longleftrightarrow> same_workspaces (store w) (store w')"

interpretation apart: world_rel apart
  by unfold_locales (auto simp: apart_def same_workspaces_def)

lemma apart_exec: "(\<And>d r d'. q d = SqlOk r d' \<Longrightarrow> same_workspaces d d') \<Longrightarrow> state_io_rel apart (exec q)"
  by (rule apart.keeps_exec) (auto simp: apart_def)

interpretation apart_tables: table_rel apart
  by unfold_locales
    (simp add: apart_def same_workspaces_def
    | unfold store_ops Session_Create_def Session_RotateTokens_def AuthToken_Create_def insert_recovery_code_def;
      rule apart_exec; auto simp: same_workspaces_def split: if_splits)+

interpretation apart_auth: auth_rel apart P for P
  by unfold_locales
    (rule apart_tables.table_outside apart_tables.table_steps
    | unfold store_ops; rule apart_exec; auto simp: same_workspaces_def split: if_splits)+

lemma ok_same: "same_workspaces d d' \<Longrightarrow> ws_ok d \<Longrightarrow> ws_ok d'"
  by (simp add: same_workspaces_def ws_ok_def ws_keys_def ws_refs_def one_owner_role_def owned_def)

text \<open>
  A predicate on the tables that survives each of the changes survives every command. This is the interface through which facts
  about runs are proved: a client shows one fact for each change.
\<close>

locale ws_kept =
  fixes I :: "identity_db \<Rightarrow> bool"
  assumes I_same: "ws_ok d \<Longrightarrow> I d \<Longrightarrow> same_workspaces d d' \<Longrightarrow> I d'"
    and I_workspace: "ws_ok d \<Longrightarrow> I d \<Longrightarrow> workspace_ok d user ws m rs ow now \<Longrightarrow>
      settings_fit d st \<Longrightarrow> I (add_workspace ws m rs ow st d)"
    and I_invitation: "ws_ok d \<Longrightarrow> I d \<Longrightarrow> invitation_ok d cmd i rs \<Longrightarrow> I (add_invitation i (RoleIDs rs) evs d)"
    and I_accept: "ws_ok d \<Longrightarrow> I d \<Longrightarrow> acceptance_ok d token user now i m \<Longrightarrow>
      I (mark_accepted (iv_ID i) now (add_member m (RoleIDs (offered_roles d (iv_ID i))) d))"
    and I_remove: "ws_ok d \<Longrightarrow> I d \<Longrightarrow> removal_ok d ws' mid user \<Longrightarrow> I (remove_member mid d)"
    and I_roles: "ws_ok d \<Longrightarrow> I d \<Longrightarrow> role_change_ok d ws' mid ids user rs \<Longrightarrow>
      I (role_change mid (LegacyMembershipRole rs) (RoleIDs rs) now d)"
    and I_role: "ws_ok d \<Longrightarrow> I d \<Longrightarrow> role_ok d ws' r \<Longrightarrow> I (d\<lparr>roles := roles d @ [r]\<rparr>)"
    and I_patch: "ws_ok d \<Longrightarrow> I d \<Longrightarrow> roles_patched d ws' f \<Longrightarrow> I (d\<lparr>roles := map f (roles d)\<rparr>)"
    and I_settings: "ws_ok d \<Longrightarrow> I d \<Longrightarrow> settings_step d ws' patch d' \<Longrightarrow> I d'"
begin

lemma keeps_writes:
  assumes "writes (store w) Q f" "ws_ok (store w)" "I (store w)" "\<And>d'. Q d' \<Longrightarrow> I d'"
  shows "I (store (snd (run_state (succeeds f) w)))"
proof -
  obtain r w' where run: "run_state f w = (r, w')" by fastforce
  with writes_keeps [of w Q f r w' I, OF assms(1) _ assms(3,4)] show ?thesis by (simp add: succeeds_def)
qed

lemma keeps_command:
  assumes ok: "ws_ok (store w)" and i: "I (store w)"
  shows "I (store (snd (run_state (run_ws P cmd) w)))"
proof (cases cmd)
  case (CreateWorkspace name user now)
  then show ?thesis using I_workspace [OF ok i] by (simp, intro keeps_writes [OF creates_workspace ok i]) auto
next
  case (InviteMember c)
  then show ?thesis using I_invitation [OF ok i] by (simp, intro keeps_writes [OF invites ok i]) auto
next
  case (AcceptInvitation token user now)
  then show ?thesis using I_accept [OF ok i] by (simp, intro keeps_writes [OF accepts ok i]) auto
next
  case (RemoveMember ws mid user)
  then show ?thesis using I_remove [OF ok i] by (simp, intro keeps_writes [OF removes ok i]) auto
next
  case (UpdateMemberRole ws mid ids user now)
  then show ?thesis using I_roles [OF ok i] by (simp, intro keeps_writes [OF updates_member_role ok i]) auto
next
  case (AssignMemberRoles ws mid ids user now)
  then show ?thesis using I_roles [OF ok i] by (simp, intro keeps_writes [OF assigns_member_roles ok i]) auto
next
  case (CreateRole ws actor name names pm now)
  then show ?thesis using I_role [OF ok i] by (simp, intro keeps_writes [OF creates_role ok i]) auto
next
  case (UpdateRole ws rid actor name names pm status now)
  have "distinct (map rl_ID (roles (store w)))" using ok by (simp add: ws_ok_def ws_keys_def)
  with UpdateRole show ?thesis using I_patch [OF ok i] by (simp, intro keeps_writes [OF updates_workspace_role ok i]) auto
next
  case (UpdateSettings ws user patch now)
  have "distinct (map st_WorkspaceID (settings_rows (store w)))" using ok by (simp add: ws_ok_def)
  with UpdateSettings show ?thesis using I_settings [OF ok i] by (simp, intro keeps_writes [OF updates_settings ok i]) auto
next
  case (Account c)
  have "apart w (snd (run_state (run_auth P c) w))" by (rule state_io_relE [OF apart_auth.keeps_command])
  with Account show ?thesis by (auto simp: apart_def intro: I_same [OF ok i])
qed

end

interpretation kept_ok: ws_kept ws_ok
  by unfold_locales (blast intro: ok_same ok_workspace ok_invitation ok_accept ok_remove ok_role_change ok_role ok_patch ok_settings)+

lemma run_ok: "ws_ok (store w) \<Longrightarrow> ws_ok (store (ws_run P cmds w))"
  by (induction cmds arbitrary: w) (simp_all add: kept_ok.keeps_command)

context ws_kept
begin

lemma run_keeps: "ws_ok (store w) \<Longrightarrow> I (store w) \<Longrightarrow> I (store (ws_run P cmds w))"
  by (induction cmds arbitrary: w) (simp_all add: kept_ok.keeps_command keeps_command)

end

end
