(* ===== verification/Identity_Properties.thy ===== *)
theory Identity_Properties
  imports Identity_Safety
begin

text \<open>The properties of the sign-in commands of the identity module, over any run of commands and any faults.\<close>

section \<open>Single use\<close>

lemma exec_write_Inr: "run_state (exec (\<lambda>d. SqlOk (Inr b) (f d))) w = (Inr a, v) \<Longrightarrow> store v = f (store w)"
  by (drule exec_InrD) simp

lemma rotate_dead:
  assumes run: "run_state (rotate P sess user now) w = (Inr ctx, w')"
    and inj: "inj_on (i_gen P) {..<id_ctr w'}" and drawn: "se_RefreshJTI sess \<in> i_gen P ` {..<id_ctr w}"
  shows "se_RefreshJTI sess \<notin> live_refresh w'"
proof -
  from run obtain ajti v1 where a: "run_state (idGen (i_gen P) :: string iprog) w = (Inr ajti, v1)"
    and run1: "run_state (bindE (idGen (i_gen P)) (\<lambda>rjti.
        thenE (Session_RotateTokens (se_ID sess) ajti rjti (now + j_refreshTTL (i_jwt P)))
         (thenE (Refresh_Replace (se_RefreshJTI sess) rjti (se_ID sess)) (ret (Inr (
            \<lparr>sc_Session = sess\<lparr>se_AccessJTI := ajti, se_RefreshJTI := rjti, se_ExpiresAt := now + j_refreshTTL (i_jwt P)\<rparr>, sc_User = user,
             sc_Tokens = token_pair (i_crypto P) (i_jwt P) (us_ID user) (se_ID sess) ajti rjti now\<rparr>)))))) v1 = (Inr ctx, w')"
    unfolding rotate_def Issue_def bindE_assoc bindE_ret case_prod_conv
    by (rule bindE_InrD) (simp add: token_pair_def)
  from run1 obtain rjti v2 where r: "run_state (idGen (i_gen P) :: string iprog) v1 = (Inr rjti, v2)"
    and run2: "run_state (thenE (Session_RotateTokens (se_ID sess) ajti rjti (now + j_refreshTTL (i_jwt P)))
         (thenE (Refresh_Replace (se_RefreshJTI sess) rjti (se_ID sess)) (ret (Inr (
            \<lparr>sc_Session = sess\<lparr>se_AccessJTI := ajti, se_RefreshJTI := rjti, se_ExpiresAt := now + j_refreshTTL (i_jwt P)\<rparr>, sc_User = user,
             sc_Tokens = token_pair (i_crypto P) (i_jwt P) (us_ID user) (se_ID sess) ajti rjti now\<rparr>))))) v2 = (Inr ctx, w')"
    by (rule bindE_InrD)
  from run2 obtain v3 where s: "run_state (Session_RotateTokens (se_ID sess) ajti rjti (now + j_refreshTTL (i_jwt P))) v2 = (Inr (), v3)"
    and p: "run_state (Refresh_Replace (se_RefreshJTI sess) rjti (se_ID sess)) v3 = (Inr (), w')"
    by (auto elim!: thenE_InrD)
  have ctr: "id_ctr v1 = Suc (id_ctr w)" "id_ctr v3 = Suc (Suc (id_ctr w))" and rj: "rjti = i_gen P (Suc (id_ctr w))"
    using idGen_InrD [OF a] idGen_InrD [OF r] exec_frame [OF s [unfolded Session_RotateTokens_def]] by auto
  obtain w1 where w1: "id_ctr w1 = id_ctr v3" "w' = w1\<lparr>refresh_store := (refresh_store w1)(se_RefreshJTI sess := None, rjti \<mapsto> se_ID sess)\<rparr>"
    using redis_InrD [OF p [unfolded Refresh_Replace_def]] by auto
  with inj ctr have "inj_on (i_gen P) {..<Suc (Suc (id_ctr w))}" by simp
  then have "i_gen P x \<noteq> rjti" if "x < id_ctr w" for x using that rj by (auto simp: inj_on_eq_iff)
  with drawn have "se_RefreshJTI sess \<noteq> rjti" by (metis imageE lessThan_iff)
  with w1 show ?thesis by (simp add: live_refresh_def)
qed

lemma spends_ctr: "spends source live K w w' \<Longrightarrow> id_ctr w \<le> id_ctr w'"
  by (simp add: spends_def)

lemma inj_on_less: "inj_on f {..<n} \<Longrightarrow> m \<le> n \<Longrightarrow> inj_on f {..<(m :: nat)}"
  by (rule inj_on_subset) auto

lemma used_code_dead:
  assumes keys: "keys_ok (store w)" and run: "run_state (MFALogin_Execute P cmd) w = (Inr ctx, w')"
    and rc: "ml_RecoveryCode cmd \<noteq> []" and h: "h = HashToken (i_crypto P) (ml_RecoveryCode cmd)"
    and drawn: "live_codes w \<subseteq> code_source P ` {..<id_ctr w}" and inj: "inj_on (code_source P) {..<id_ctr w'}"
  shows "h \<notin> live_codes w' \<and> h \<in> code_source P ` {..<id_ctr w'}"
proof -
  from run obtain t user w1 v w2 c codes v' where
    c: "run_state (ConsumeToken P (ml_ChallengeToken cmd) ''mfa_challenge'' (ml_Now cmd)) w = (Inr t, w1)"
    and u: "run_state (User_FindByID (tk_UserID t)) w1 = (Inr user, v)"
    and n: "run_state (mfa_session P cmd user) w2 = (Inr ctx, w')"
    and l: "run_state (TOTP_ListRecoveryCodes (us_ID user)) v = (Inr codes, v')"
    and f: "find (\<lambda>c. rv_ConsumedAt c = None \<and> rv_CodeHash c = HashToken (i_crypto P) (ml_RecoveryCode cmd)) codes = Some c"
    and d: "run_state (TOTP_ConsumeRecoveryCode (rv_ID c) (ml_Now cmd)) v' = (Inr (), w2)"
    by (rule MFALogin_InrD) (use rc in blast)
  have st: "recovery_codes (store v') = recovery_codes (store w)" "id_ctr v' = id_ctr w"
    using ConsumeToken_InrD [OF c] exec_read_Inr [OF u [unfolded User_FindByID_def]] exec_frame [OF u [unfolded User_FindByID_def]]
      exec_read_Inr [OF l [unfolded TOTP_ListRecoveryCodes_def]] exec_frame [OF l [unfolded TOTP_ListRecoveryCodes_def]]
    by auto
  have codes: "codes = filter (\<lambda>c. rv_UserID c = us_ID user) (recovery_codes (store v))"
      "recovery_codes (store v) = recovery_codes (store w)"
    using exec_read_Inr [OF l [unfolded TOTP_ListRecoveryCodes_def]] st by auto
  with find_SomeD [OF f] have row: "c \<in> set (recovery_codes (store w))" "rv_CodeHash c = h" "rv_ConsumedAt c = None"
    by (auto simp: h)
  have w2: "recovery_codes (store w2) = update_where (\<lambda>r. rv_ID r = rv_ID c \<and> rv_ConsumedAt r = None)
      (\<lambda>r. r\<lparr>rv_ConsumedAt := Some (ml_Now cmd)\<rparr>) (recovery_codes (store w))" "id_ctr w2 = id_ctr w"
    using exec_write_Inr [OF d [unfolded TOTP_ConsumeRecoveryCode_def]] exec_frame [OF d [unfolded TOTP_ConsumeRecoveryCode_def]] st
    by auto
  have "r = c" if "r \<in> set (recovery_codes (store w))" "rv_CodeHash r = h" for r
    using unique_row [of rv_CodeHash "recovery_codes (store w)" r c] keys that row by (auto simp: keys_ok_def)
  then have dead: "h \<notin> live_codes w2" unfolding live_codes_iff w2(1) update_where_def by (auto split: if_splits)
  have "h \<in> live_codes w" unfolding live_codes_iff using row by blast
  with drawn w2(2) have h2: "h \<in> code_source P ` {..<id_ctr w2}" by auto
  have sp: "spends (code_source P) live_codes {} w2 w'"
    using code_auth.R_new_session n unfolding mfa_session_def by (rule state_io_relD)
  from spent_forever [OF inj sp h2 dead] h2 spends_ctr [OF sp] show ?thesis by auto
qed

lemma spent_code_rejected:
  assumes "HashToken (i_crypto P) (ml_RecoveryCode cmd) \<notin> live_codes w" "ml_RecoveryCode cmd \<noteq> []"
  shows "fst (run_state (MFALogin_Execute P cmd) w) \<noteq> Inr x"
proof
  assume "fst (run_state (MFALogin_Execute P cmd) w) = Inr x"
  then obtain w' where "run_state (MFALogin_Execute P cmd) w = (Inr x, w')" by (metis prod.collapse)
  then obtain t user w1 v w2 c codes v' where
    c: "run_state (ConsumeToken P (ml_ChallengeToken cmd) ''mfa_challenge'' (ml_Now cmd)) w = (Inr t, w1)"
    and u: "run_state (User_FindByID (tk_UserID t)) w1 = (Inr user, v)"
    and l: "run_state (TOTP_ListRecoveryCodes (us_ID user)) v = (Inr codes, v')"
    and f: "find (\<lambda>c. rv_ConsumedAt c = None \<and> rv_CodeHash c = HashToken (i_crypto P) (ml_RecoveryCode cmd)) codes = Some c"
    by (rule MFALogin_InrD) (use assms(2) in blast)
  have "c \<in> set (recovery_codes (store w))"
    using find_SomeD [OF f] exec_read_Inr [OF l [unfolded TOTP_ListRecoveryCodes_def]]
      exec_read_Inr [OF u [unfolded User_FindByID_def]] ConsumeToken_InrD [OF c] by auto
  with find_SomeD [OF f] assms(1) show False unfolding live_codes_iff by blast
qed

section \<open>Resetting a password\<close>

lemma WithinTx_store:
  assumes "run_state (WithinTx body) w = (Inr a, w')"
  obtains v v' where "store v = store w" "run_state body v = (Inr a, v')" "store w' = store v'"
  by (rule WithinTx_InrD [OF assms], rule that) simp_all

lemma ResetPassword_InrD:
  assumes "run_state (ResetPassword_Execute P token pw now) w = (Inr u, w')"
  obtains t hash salt where "t \<in> set (auth_tokens (store w))" "tk_Purpose t = ''password_reset''"
    "tk_TokenHash t = HashToken (i_crypto P) token" "IsUsable t now" "Hasher_Hash (i_crypto P) salt pw = Some hash"
    "users (store w') = update_where (\<lambda>u. us_ID u = tk_UserID t) (\<lambda>u. u\<lparr>us_HashedPassword := hash, us_UpdatedAt := now\<rparr>) (users (store w))"
    "sessions (store w') = update_where (\<lambda>s. se_UserID s = tk_UserID t \<and> se_RevokedAt s = None)
       (\<lambda>s. s\<lparr>se_RevokedAt := Some now\<rparr>) (sessions (store w))"
    "\<forall>r\<in>set (auth_tokens (store w')). tk_UserID r = tk_UserID t \<longrightarrow> tk_Purpose r \<noteq> ''mfa_challenge''"
proof -
  have pol: "ValidatePasswordPolicy pw = None" using assms by (auto simp: ResetPassword_Execute_def split: if_splits)
  obtain r w1 where c: "run_state (ConsumeToken P token ''password_reset'' now) w = (r, w1)" by fastforce
  with assms pol obtain t where t: "r = Inr t" by (cases r) (auto simp: ResetPassword_Execute_def)
  from assms pol c t obtain hash v where h: "run_state (hash_password P pw) w1 = (Inr hash, v)"
    and tx: "run_state (WithinTx (thenE (User_UpdatePassword (tk_UserID t) hash now)
                 (thenE (Session_RevokeByUser (tk_UserID t) now)
                   (AuthToken_DeleteByUserAndPurpose (tk_UserID t) ''mfa_challenge'')))) v = (Inr u, w')"
    by (auto simp: ResetPassword_Execute_def elim!: bindE_InrD)
  have hh: "store v = store w1" "Hasher_Hash (i_crypto P) (id_ctr w1) pw = Some hash"
    using h by (auto simp: hash_password_def split: option.splits elim!: bindE_InrD dest!: idGen_InrD)
  from tx obtain a b where ab: "store a = store v" "store w' = store b"
    "run_state (thenE (User_UpdatePassword (tk_UserID t) hash now)
                 (thenE (Session_RevokeByUser (tk_UserID t) now)
                   (AuthToken_DeleteByUserAndPurpose (tk_UserID t) ''mfa_challenge''))) a = (Inr u, b)"
    by (rule WithinTx_store)
  then obtain a1 a2 where s1: "run_state (User_UpdatePassword (tk_UserID t) hash now) a = (Inr (), a1)"
    and s2: "run_state (Session_RevokeByUser (tk_UserID t) now) a1 = (Inr (), a2)"
    and s3: "run_state (AuthToken_DeleteByUserAndPurpose (tk_UserID t) ''mfa_challenge'') a2 = (Inr u, b)"
    by (auto elim!: thenE_InrD)
  note eff = exec_write_Inr [OF s1 [unfolded User_UpdatePassword_def]] exec_write_Inr [OF s2 [unfolded Session_RevokeByUser_def]]
    exec_write_Inr [OF s3 [unfolded AuthToken_DeleteByUserAndPurpose_def]]
  show thesis
    by (rule that [OF _ _ _ _ hh(2)])
      (use ConsumeToken_InrD [OF c [unfolded t]] hh(1) ab(1,2) eff in \<open>auto simp: update_where_def\<close>)
qed

lemma reset_revokes:
  assumes "sessions (store w') = update_where (\<lambda>s. se_UserID s = uid \<and> se_RevokedAt s = None)
       (\<lambda>s. s\<lparr>se_RevokedAt := Some now\<rparr>) (sessions (store w))" and "s \<in> set (sessions (store w))" "se_UserID s = uid"
  shows "se_ID s \<in> revoked w'"
proof (cases "se_RevokedAt s = None")
  case True
  with assms show ?thesis unfolding revoked_def assms(1)
    by (intro image_eqI [of _ _ "s\<lparr>se_RevokedAt := Some now\<rparr>"])
      (auto simp: IsRevoked_def update_where_def intro!: image_eqI [of _ _ s])
next
  case False
  with assms show ?thesis unfolding revoked_def assms(1)
    by (intro image_eqI [of _ _ s]) (auto simp: IsRevoked_def update_where_def intro!: image_eqI [of _ _ s])
qed

section \<open>Opening sessions\<close>

text \<open>The part of a program before it opens a session leaves the sessions alone.\<close>

definition same_sessions :: "id_world \<Rightarrow> id_world \<Rightarrow> bool" where
  "same_sessions w w' \<longleftrightarrow> sessions (store w') = sessions (store w)"

interpretation still: world_rel same_sessions
  by unfold_locales (auto simp: same_sessions_def)

lemma still_exec: "(\<And>d r d'. q d = SqlOk r d' \<Longrightarrow> sessions d' = sessions d) \<Longrightarrow> state_io_rel same_sessions (exec q)"
  by (rule still.keeps_exec) (auto simp: same_sessions_def)

lemma still_tokens:
  "state_io_rel same_sessions (CreateToken P uid purpose ttl now)"
  "state_io_rel same_sessions (ConsumeToken P raw purpose now)"
  unfolding CreateToken_def ConsumeToken_def Let_def unauthorized_def AuthToken_DeleteByUserAndPurpose_def AuthToken_Create_def
    AuthToken_FindByHash_def AuthToken_Consume_def
  by (intro still.keeps_prog still_exec; auto split: if_splits)+

lemma still_finds:
  "state_io_rel same_sessions (User_FindByEmail email)" "state_io_rel same_sessions (User_FindByID uid)"
  "state_io_rel same_sessions (TOTP_ListRecoveryCodes uid)" "state_io_rel same_sessions (TOTP_FindSecretByUser uid)"
  "state_io_rel same_sessions (TOTP_ConsumeRecoveryCode cid now)"
  by (unfold store_ops; rule still_exec; auto)+

text \<open>\<open>opens w w' u\<close>: nothing happened to the sessions, or \<open>u\<close> got a new one.\<close>

definition opens :: "(User \<Rightarrow> bool) \<Rightarrow> id_world \<Rightarrow> id_world \<Rightarrow> bool" where
  "opens Q w w' \<longleftrightarrow> sessions (store w') = sessions (store w) \<or>
     (\<exists>u s. Q u \<and> sessions (store w') = sessions (store w) @ [s] \<and> se_UserID s = us_ID u \<and> se_RevokedAt s = None)"

lemma opens_same: "same_sessions w v \<Longrightarrow> opens Q v w' \<Longrightarrow> opens Q w w'"
  by (simp add: opens_def same_sessions_def)

lemma opens_still: "same_sessions w w' \<Longrightarrow> opens Q w w'"
  by (simp add: opens_def same_sessions_def)

lemma opening_bindE:
  assumes "state_io_rel same_sessions f" and "\<And>a. state_io_rel (opens Q) (g a)"
  shows "state_io_rel (opens Q) (bindE f g)"
proof (rule state_io_relI)
  fix r w w' assume run: "run_state (bindE f g) w = (r, w')"
  obtain x v where f: "run_state f w = (x, v)" by fastforce
  with assms(1) have "same_sessions w v" by (rule state_io_relD)
  with run f show "opens Q w w'"
    by (cases x) (auto simp: run_bindE intro: opens_same opens_still state_io_relD [OF assms(2)])
qed

lemma opening_then:
  assumes "state_io_rel (opens Q) f" and "\<And>a. state_io_rel same_sessions (g a)"
  shows "state_io_rel (opens Q) (bindE f g)"
proof (rule state_io_relI)
  fix r w w' assume run: "run_state (bindE f g) w = (r, w')"
  obtain x v where f: "run_state f w = (x, v)" by fastforce
  with assms(1) have "opens Q w v" by (rule state_io_relD)
  moreover from run f have "w' = v \<or> (\<exists>a. run_state (g a) v = (r, w'))" by (cases x) (auto simp: run_bindE)
  then have "sessions (store w') = sessions (store v)" using state_io_relD [OF assms(2)] by (auto simp: same_sessions_def)
  ultimately show "opens Q w w'" by (simp add: opens_def)
qed

lemma opening_still: "state_io_rel same_sessions f \<Longrightarrow> state_io_rel (opens Q) f"
  by (auto simp: state_io_rel_def opens_still)

lemma opens_bind:
  assumes "state_io_rel same_sessions f" and "run_state (State_Monad.bind f g) w = (r, w')"
    and "\<And>a v. run_state f w = (a, v) \<Longrightarrow> run_state (g a) v = (r, w') \<Longrightarrow> opens Q v w'"
  shows "opens Q w w'"
proof -
  obtain x v where f: "run_state f w = (x, v)" by fastforce
  with assms(1) have "same_sessions w v" by (rule state_io_relD)
  with f assms(2,3) show ?thesis by (auto intro: opens_same)
qed

lemma opening_create:
  assumes "state_io_rel same_sessions g" and "se_UserID s = us_ID user" and "Q user"
  shows "state_io_rel (opens Q) (thenE (Session_Create s) g)"
proof -
  have "state_io_rel (opens Q) (Session_Create s)"
    using assms(2,3) by (auto simp: state_io_rel_def opens_def Session_Create_def exec_def next_outcome_def
        split: list.splits if_splits sql.splits)
  then show ?thesis unfolding thenE_def by (rule opening_then) (rule assms(1))
qed

lemma still_save: "state_io_rel same_sessions (thenE (Refresh_Save jti sid) (ret x))"
proof -
  have "state_io_rel same_sessions (Refresh_Save jti sid)"
    by (auto simp: Refresh_Save_def redis_def state_io_rel_def same_sessions_def next_outcome_def split: list.splits)
  then show ?thesis by (intro still.keeps_prog)
qed

lemma opening_session: "Q user \<Longrightarrow> state_io_rel (opens Q) (NewSession P user meth ip ua now)"
  unfolding NewSession_def Let_def Issue_def bindE_assoc bindE_ret case_prod_conv
  by (intro opening_bindE still.keeps_idGen opening_create still_save) (simp_all add: domain_NewSession_def)

text \<open>Who may be signed in with these credentials, and with this second factor.\<close>

definition password_ok :: "identity_ports \<Rightarrow> identity_db \<Rightarrow> credentials \<Rightarrow> User \<Rightarrow> bool" where
  "password_ok P d cmd u \<longleftrightarrow> u \<in> set (users d) \<and> NewEmailAddress P (cr_Email cmd) = Inr (us_Email u) \<and>
     Hasher_Compare (i_crypto P) (us_HashedPassword u) (cr_Password cmd) \<and> \<not> MFAEnabled u"

definition second_factor_ok :: "identity_ports \<Rightarrow> identity_db \<Rightarrow> MFALoginCommand \<Rightarrow> User \<Rightarrow> bool" where
  "second_factor_ok P d cmd u \<longleftrightarrow> u \<in> set (users d) \<and>
     list_ex (\<lambda>t. tk_UserID t = us_ID u \<and> tk_Purpose t = ''mfa_challenge'' \<and>
       tk_TokenHash t = HashToken (i_crypto P) (ml_ChallengeToken cmd) \<and> IsUsable t (ml_Now cmd)) (auth_tokens d) \<and>
     (if ml_RecoveryCode cmd \<noteq> [] then
        list_ex (\<lambda>c. rv_UserID c = us_ID u \<and> rv_ConsumedAt c = None \<and>
          rv_CodeHash c = HashToken (i_crypto P) (ml_RecoveryCode cmd)) (recovery_codes d)
      else list_ex (\<lambda>t. ts_UserID t = us_ID u \<and>
          VerifyTOTPCode (i_crypto P) (ts_Secret t) (ml_Code cmd) (ml_Now cmd)) (totp_secrets d))"

lemma user_found:
  "run_state (User_FindByEmail email) w = (Inr u, v) \<Longrightarrow> u \<in> set (users (store w)) \<and> us_Email u = email \<and> store v = store w"
  "run_state (User_FindByID uid) w = (Inr u, v) \<Longrightarrow> u \<in> set (users (store w)) \<and> us_ID u = uid \<and> store v = store w"
  unfolding User_FindByEmail_def User_FindByID_def
  by (drule exec_read_Inr; auto simp: found_Inr dest: find_SomeD)+

lemma Login_opens:
  assumes run: "run_state (Login_Execute P cmd) w = (r, w')"
  shows "opens (password_ok P (store w) cmd) w w'"
proof (cases "NewEmailAddress P (cr_Email cmd)")
  case (Inl e)
  with run show ?thesis by (simp add: Login_Execute_def opens_still same_sessions_def)
next
  case (Inr email)
  obtain a v where f: "run_state (User_FindByEmail email) w = (a, v)" by fastforce
  then have same: "same_sessions w v" by (rule state_io_relD [OF still_finds(1)])
  show ?thesis
  proof (cases "\<exists>u. a = Inr u \<and> Hasher_Compare (i_crypto P) (us_HashedPassword u) (cr_Password cmd)")
    case False
    with run f Inr have "w' = v" by (auto simp: Login_Execute_def split: sum.splits)
    with same show ?thesis by (simp add: opens_still)
  next
    case True
    then obtain u where a: "a = Inr u" and pw: "Hasher_Compare (i_crypto P) (us_HashedPassword u) (cr_Password cmd)" by blast
    from user_found(1) [OF f [unfolded a]] Inr pw have ok: "\<not> MFAEnabled u \<Longrightarrow> password_ok P (store w) cmd u"
      by (auto simp: password_ok_def)
    have "opens (password_ok P (store w) cmd) v w'"
    proof (cases "MFAEnabled u")
      case True
      from run f Inr a pw True have "run_state (bindE (CreateToken P (us_ID u) ''mfa_challenge'' (i_challengeTTL P) (cr_Now cmd)) (\<lambda>challenge.
          ret (Inr \<lparr>lr_SessionContext = None, lr_User = u, lr_MFARequired = True, lr_MFAChallengeToken = challenge\<rparr>))) v = (r, w')"
        by (simp add: Login_Execute_def)
      then show ?thesis by (rule state_io_relD [rotated]) (intro opening_still still.keeps_prog still_tokens)
    next
      case False
      from run f Inr a pw False have "run_state (bindE (NewSession P u ''password'' (cr_IP cmd) (cr_UA cmd) (cr_Now cmd)) (\<lambda>sctx.
          ret (Inr \<lparr>lr_SessionContext = Some sctx, lr_User = u, lr_MFARequired = False, lr_MFAChallengeToken = []\<rparr>))) v = (r, w')"
        by (simp add: Login_Execute_def)
      then show ?thesis
        by (rule state_io_relD [rotated]) (rule opening_then, rule opening_session, rule ok [OF False], intro still.keeps_prog)
    qed
    with same show ?thesis by (rule opens_same)
  qed
qed

lemma opens_bindE:
  assumes "run_state (bindE f g) w = (r, w')" and "state_io_rel same_sessions f"
    and "\<And>a v. run_state f w = (Inr a, v) \<Longrightarrow> run_state (g a) v = (r, w') \<Longrightarrow> opens Q v w'"
  shows "opens Q w w'"
  by (rule opens_bind [OF assms(2) assms(1) [unfolded bindE_def]])
    (auto split: sum.splits intro: assms(3) opens_still simp: same_sessions_def)

lemma opens_mfa_session: "run_state (mfa_session P cmd user) w = (r, w') \<Longrightarrow> Q user \<Longrightarrow> opens Q w w'"
  unfolding mfa_session_def by (rule state_io_relD [OF opening_session])

lemma opens_mfa_invalid: "run_state mfa_invalid w = (r, w') \<Longrightarrow> opens Q w w'"
  by (simp add: mfa_invalid_def opens_still same_sessions_def)

lemma codes_found:
  "run_state (TOTP_ListRecoveryCodes uid) w = (Inr codes, v) \<Longrightarrow> codes = filter (\<lambda>c. rv_UserID c = uid) (recovery_codes (store w))"
  unfolding TOTP_ListRecoveryCodes_def by (drule exec_read_Inr) auto

lemma secret_found:
  "run_state (TOTP_FindSecretByUser uid) w = (Inr secret, v) \<Longrightarrow> secret \<in> set (totp_secrets (store w)) \<and> ts_UserID secret = uid"
  unfolding TOTP_FindSecretByUser_def by (drule exec_read_Inr) (auto simp: found_Inr dest: find_SomeD)

lemma recovery_opens:
  assumes "run_state (bindE (TOTP_ListRecoveryCodes (us_ID user)) (\<lambda>codes. case find (\<lambda>c. rv_ConsumedAt c = None \<and> rv_CodeHash c = h) codes of
      None \<Rightarrow> mfa_invalid
    | Some c \<Rightarrow> thenE (TOTP_ConsumeRecoveryCode (rv_ID c) now) (mfa_session P cmd user))) w = (r, w')"
    and ok: "list_ex (\<lambda>c. rv_UserID c = us_ID user \<and> rv_ConsumedAt c = None \<and> rv_CodeHash c = h) (recovery_codes (store w)) \<Longrightarrow> Q user"
  shows "opens Q w w'"
proof (rule opens_bindE [OF assms(1) still_finds(3)])
  fix codes v assume l: "run_state (TOTP_ListRecoveryCodes (us_ID user)) w = (Inr codes, v)"
    and g: "run_state (case find (\<lambda>c. rv_ConsumedAt c = None \<and> rv_CodeHash c = h) codes of None \<Rightarrow> mfa_invalid
      | Some c \<Rightarrow> thenE (TOTP_ConsumeRecoveryCode (rv_ID c) now) (mfa_session P cmd user)) v = (r, w')"
  show "opens Q v w'"
  proof (cases "find (\<lambda>c. rv_ConsumedAt c = None \<and> rv_CodeHash c = h) codes")
    case None
    with g show ?thesis by (auto intro: opens_mfa_invalid)
  next
    case (Some c)
    with codes_found [OF l] have "Q user" by (auto dest!: find_SomeD intro!: ok simp: list_ex_iff)
    with g Some show ?thesis
      by (auto simp: thenE_def elim!: opens_bindE [OF _ still_finds(5)] intro: opens_mfa_session)
  qed
qed

lemma totp_opens:
  assumes "run_state (do { s \<leftarrow> TOTP_FindSecretByUser (us_ID user);
      (case s of Inl _ \<Rightarrow> mfa_invalid
       | Inr secret \<Rightarrow> if \<not> VerifyTOTPCode C (ts_Secret secret) code now then mfa_invalid else mfa_session P cmd user) }) w = (r, w')"
    and ok: "list_ex (\<lambda>t. ts_UserID t = us_ID user \<and> VerifyTOTPCode C (ts_Secret t) code now) (totp_secrets (store w)) \<Longrightarrow> Q user"
  shows "opens Q w w'"
proof (rule opens_bind [OF still_finds(4) assms(1)])
  fix s v assume l: "run_state (TOTP_FindSecretByUser (us_ID user)) w = (s, v)"
    and g: "run_state (case s of Inl _ \<Rightarrow> mfa_invalid
       | Inr secret \<Rightarrow> if \<not> VerifyTOTPCode C (ts_Secret secret) code now then mfa_invalid else mfa_session P cmd user) v = (r, w')"
  show "opens Q v w'"
  proof (cases "\<exists>secret. s = Inr secret \<and> VerifyTOTPCode C (ts_Secret secret) code now")
    case False
    with g show ?thesis by (auto split: sum.splits intro: opens_mfa_invalid)
  next
    case True
    with l have "Q user" by (auto dest!: secret_found intro!: ok simp: list_ex_iff)
    with g True show ?thesis by (auto intro: opens_mfa_session)
  qed
qed

lemma MFALogin_opens:
  assumes run: "run_state (MFALogin_Execute P cmd) w = (r, w')"
  shows "opens (second_factor_ok P (store w) cmd) w w'"
proof -
  obtain a v where c: "run_state (ConsumeToken P (ml_ChallengeToken cmd) ''mfa_challenge'' (ml_Now cmd)) w = (a, v)" by fastforce
  then have same: "same_sessions w v" by (rule state_io_relD [OF still_tokens(2)])
  have "opens (second_factor_ok P (store w) cmd) v w'"
  proof (cases a)
    case (Inl e)
    with run c show ?thesis
      by (auto simp: MFALogin_Execute_def split: if_splits intro: opens_mfa_invalid opens_still simp: same_sessions_def)
  next
    case (Inr t)
    note st = ConsumeToken_InrD [OF c [unfolded Inr]]
    show ?thesis
    proof (rule opens_bindE [OF _ still_finds(2) [of "tk_UserID t"]])
      show "run_state (bindE (User_FindByID (tk_UserID t)) (\<lambda>user.
            if ml_RecoveryCode cmd \<noteq> [] then
              bindE (TOTP_ListRecoveryCodes (us_ID user)) (\<lambda>codes.
                case find (\<lambda>c. rv_ConsumedAt c = None \<and>
                    rv_CodeHash c = HashToken (i_crypto P) (ml_RecoveryCode cmd)) codes of
                  None \<Rightarrow> mfa_invalid
                | Some c \<Rightarrow> thenE (TOTP_ConsumeRecoveryCode (rv_ID c) (ml_Now cmd)) (mfa_session P cmd user))
            else do {
              s \<leftarrow> TOTP_FindSecretByUser (us_ID user);
              (case s of
                 Inl _ \<Rightarrow> mfa_invalid
               | Inr secret \<Rightarrow>
                   if \<not> VerifyTOTPCode (i_crypto P) (ts_Secret secret) (ml_Code cmd) (ml_Now cmd) then mfa_invalid
                   else mfa_session P cmd user)
            })) v = (r, w')"
        using run c Inr by (simp add: MFALogin_Execute_def)
    next
      fix user v1
      assume "run_state (User_FindByID (tk_UserID t)) v = (Inr user, v1)"
      with user_found(2) [OF this] st
      have u: "user \<in> set (users (store w))" "us_ID user = tk_UserID t" "recovery_codes (store v1) = recovery_codes (store w)"
        "totp_secrets (store v1) = totp_secrets (store w)" by auto
      assume h: "run_state (if ml_RecoveryCode cmd \<noteq> [] then
              bindE (TOTP_ListRecoveryCodes (us_ID user)) (\<lambda>codes.
                case find (\<lambda>c. rv_ConsumedAt c = None \<and>
                    rv_CodeHash c = HashToken (i_crypto P) (ml_RecoveryCode cmd)) codes of
                  None \<Rightarrow> mfa_invalid
                | Some c \<Rightarrow> thenE (TOTP_ConsumeRecoveryCode (rv_ID c) (ml_Now cmd)) (mfa_session P cmd user))
            else do {
              s \<leftarrow> TOTP_FindSecretByUser (us_ID user);
              (case s of
                 Inl _ \<Rightarrow> mfa_invalid
               | Inr secret \<Rightarrow>
                   if \<not> VerifyTOTPCode (i_crypto P) (ts_Secret secret) (ml_Code cmd) (ml_Now cmd) then mfa_invalid
                   else mfa_session P cmd user)
            }) v1 = (r, w')"
      show "opens (second_factor_ok P (store w) cmd) v1 w'"
      proof (cases "ml_RecoveryCode cmd = []")
        case True
        show ?thesis by (rule totp_opens, use h True in simp)
            (use u st True in \<open>auto simp: second_factor_ok_def list_ex_iff\<close>)
      next
        case False
        show ?thesis by (rule recovery_opens, use h False in simp)
            (use u st False in \<open>auto simp: second_factor_ok_def list_ex_iff\<close>)
      qed
    qed
  qed
  with same show ?thesis by (rule opens_same)
qed

section \<open>Properties\<close>

text \<open>
  Claim C35. In every world reached from one without accounts, by any commands and under any faults, ids, addresses and the hashes
  of tokens and recovery codes are unique, and every secret the world would accept (refresh tokens, tokens, recovery codes) is one the
  process has drawn.
\<close>

theorem identity_invariant:
  assumes "no_accounts w"
  shows "sound P (auth_run P cmds w)"
  using assms by (rule start_sound)

text \<open>
  Claim C31. A refresh token works once: after a refresh has succeeded, no refresh token with the same id is accepted again, whatever
  commands run in between and whatever fails, as long as the ids the process draws do not repeat.
\<close>

theorem refresh_single_use:
  assumes "sound P w" and "inj_on (i_gen P) {..<id_ctr (auth_run P cmds w1)}"
    and "run_state (Refresh_Execute P token now) w = (Inr ctx, w1)"
    and "ParseRefresh (i_crypto P) (i_jwt P) token now = (Inr c :: (id_error, _) result)"
    and "ParseRefresh (i_crypto P) (i_jwt P) token' now' = (Inr c' :: (id_error, _) result)" and "JWTID c' = JWTID c"
  shows "fst (run_state (Refresh_Execute P token' now') (auth_run P cmds w1)) \<noteq> Inr x"
proof
  let ?w2 = "auth_run P cmds w1"
  assume "fst (run_state (Refresh_Execute P token' now') ?w2) = Inr x"
  then obtain w' where again: "run_state (Refresh_Execute P token' now') ?w2 = (Inr x, w')" by (metis prod.collapse)
  from assms(3) obtain sess user v where r: "refresh_store w (JWTID c) = Some (SessionID c)" "se_RefreshJTI sess = JWTID c"
      "id_ctr v = id_ctr w" "run_state (rotate P sess user now) v = (Inr ctx, w1)"
    by (rule Refresh_InrD) (use assms(4) in auto)
  have later: "spends (i_gen P) live_refresh {} w1 ?w2" by (rule refresh_auth.run_keeps)
  have step: "spends (i_gen P) live_refresh {} w w1" by (rule state_io_relD [OF refresh_auth.keeps_Refresh assms(3)])
  have drawn: "JWTID c \<in> i_gen P ` {..<id_ctr w}"
    using r(1) assms(1) by (auto simp: sound_def live_refresh_def)
  have inj: "inj_on (i_gen P) {..<id_ctr w1}" by (rule inj_on_less [OF assms(2) spends_ctr [OF later]])
  have "JWTID c \<notin> live_refresh w1" using rotate_dead [OF r(4) inj] drawn r(2,3) by simp
  moreover have "JWTID c \<in> i_gen P ` {..<id_ctr w1}" using drawn spends_ctr [OF step] by auto
  ultimately have "JWTID c \<notin> live_refresh ?w2" using spent_forever [OF assms(2) later] by blast
  moreover from again have "JWTID c' \<in> live_refresh ?w2"
    by (rule Refresh_InrD) (use assms(5) in \<open>auto simp: live_refresh_def\<close>)
  ultimately show False using assms(6) by simp
qed

text \<open>
  Claim C32. The tokens sent by mail for verification and password reset and the challenges of a login work once: after one has been
  consumed, the same token is not accepted again for any purpose, whatever commands run in between and whatever fails, as long as the
  hashes of the tokens drawn do not repeat.
\<close>

theorem token_single_use:
  assumes "sound P w" and "inj_on (token_source P) {..<id_ctr (auth_run P cmds w1)}"
    and "run_state (ConsumeToken P raw purpose now) w = (Inr t, w1)"
  shows "fst (run_state (ConsumeToken P raw purpose' now') (auth_run P cmds w1)) \<noteq> Inr t'"
proof (rule ConsumeToken_dead, rule spent_forever [OF assms(2) token_auth.run_keeps])
  have keys: "keys_ok (store w)" using assms(1) by (simp add: sound_def)
  show "HashToken (i_crypto P) raw \<notin> live_tokens w1" by (rule consumed_token_dead(1) [OF keys assms(3)])
  show "HashToken (i_crypto P) raw \<in> token_source P ` {..<id_ctr w1}"
    using consumed_token_dead(2) [OF keys assms(3)] assms(1) ConsumeToken_InrD [OF assms(3)] by (auto simp: sound_def)
qed


text \<open>
  A recovery code works once: after a login with it has succeeded, no login with the same code succeeds again, whatever
  commands run in between and whatever fails, as long as the hashes of the codes drawn do not repeat.
\<close>

lemma recovery_code_single_use:
  assumes "sound P w" and "inj_on (code_source P) {..<id_ctr (auth_run P cmds w1)}"
    and "ml_RecoveryCode cmd \<noteq> []" and "run_state (MFALogin_Execute P cmd) w = (Inr ctx, w1)"
    and "ml_RecoveryCode cmd' = ml_RecoveryCode cmd"
  shows "fst (run_state (MFALogin_Execute P cmd') (auth_run P cmds w1)) \<noteq> Inr x"
proof (rule spent_code_rejected)
  let ?h = "HashToken (i_crypto P) (ml_RecoveryCode cmd)"
  have later: "spends (code_source P) live_codes {} w1 (auth_run P cmds w1)" by (rule code_auth.run_keeps)
  have "?h \<notin> live_codes w1 \<and> ?h \<in> code_source P ` {..<id_ctr w1}"
    using assms(1) inj_on_less [OF assms(2) spends_ctr [OF later]]
    by (intro used_code_dead [OF _ assms(4,3) refl]) (auto simp: sound_def)
  with spent_forever [OF assms(2) later] show "HashToken (i_crypto P) (ml_RecoveryCode cmd') \<notin> live_codes (auth_run P cmds w1)"
    using assms(5) by auto
qed (use assms in simp)

text \<open>
  Claim C33. A session that its user has revoked is dead for good: after the command has reported success, no access token and no
  refresh token that names the session is ever accepted again, whatever commands run and whatever fails.
\<close>

theorem revoke_is_final:
  assumes "sound P w" and "run_state (RevokeSession_Execute sid uid now) w = (Inr u, w1)"
  shows "rejected P sid (auth_run P cmds w1)"
proof (rule rejected_forever)
  have "keeps_keys w w1" by (rule state_io_relD [OF keys_auth.keeps_RevokeSession assms(2)])
  with assms(1) show "keys_ok (store w1)" by (simp add: keeps_keys_def sound_def)
  show "sid \<in> revoked w1" by (rule RevokeSession_done [OF assms(2)])
qed

text \<open>
  Claim C34. A password reset that reports success was asked for with an unused and unexpired reset token; the user of the token
  has a hash of the new password, all other users have the password they had; every session the user had is dead for good; and no
  challenge of a login with the old password is left.
\<close>

theorem reset_signs_out:
  assumes "sound P w" and "run_state (ResetPassword_Execute P token pw now) w = (Inr u, w1)"
  shows "\<exists>t hash salt. t \<in> set (auth_tokens (store w)) \<and> tk_Purpose t = ''password_reset'' \<and>
    tk_TokenHash t = HashToken (i_crypto P) token \<and> IsUsable t now \<and> Hasher_Hash (i_crypto P) salt pw = Some hash \<and>
    map us_HashedPassword (users (store w1)) =
      map (\<lambda>u. if us_ID u = tk_UserID t then hash else us_HashedPassword u) (users (store w)) \<and>
    list_all (\<lambda>s. se_UserID s = tk_UserID t \<longrightarrow> rejected P (se_ID s) (auth_run P cmds w1)) (sessions (store w)) \<and>
    list_all (\<lambda>r. tk_UserID r = tk_UserID t \<longrightarrow> tk_Purpose r \<noteq> ''mfa_challenge'') (auth_tokens (store w1))"
proof -
  have keys: "keys_ok (store w1)"
    using assms(1) state_io_relD [OF keys_auth.keeps_ResetPassword assms(2)] by (simp add: keeps_keys_def sound_def)
  from assms(2) obtain t hash salt where t: "t \<in> set (auth_tokens (store w))" "tk_Purpose t = ''password_reset''"
    "tk_TokenHash t = HashToken (i_crypto P) token" "IsUsable t now" "Hasher_Hash (i_crypto P) salt pw = Some hash"
    and us: "users (store w1) = update_where (\<lambda>u. us_ID u = tk_UserID t) (\<lambda>u. u\<lparr>us_HashedPassword := hash, us_UpdatedAt := now\<rparr>) (users (store w))"
    and se: "sessions (store w1) = update_where (\<lambda>s. se_UserID s = tk_UserID t \<and> se_RevokedAt s = None)
       (\<lambda>s. s\<lparr>se_RevokedAt := Some now\<rparr>) (sessions (store w))"
    and tk: "\<forall>r\<in>set (auth_tokens (store w1)). tk_UserID r = tk_UserID t \<longrightarrow> tk_Purpose r \<noteq> ''mfa_challenge''"
    by (rule ResetPassword_InrD)
  have "rejected P (se_ID s) (auth_run P cmds w1)" if "s \<in> set (sessions (store w))" "se_UserID s = tk_UserID t" for s
    using that by (intro rejected_forever keys reset_revokes [OF se])
  moreover have "map us_HashedPassword (users (store w1)) =
      map (\<lambda>u. if us_ID u = tk_UserID t then hash else us_HashedPassword u) (users (store w))"
    by (simp add: us update_where_def)
  ultimately show ?thesis using t tk by (intro exI [of _ t] exI [of _ hash] exI [of _ salt]) (simp add: list_all_iff)
qed

text \<open>
  Claim C28. A login and a login with a second factor, under any faults and whatever they report, leave the sessions as they are or
  open one: after a login for a user with the given address whose password hash the password matches and who has no second factor
  enabled; after a login with a second factor for the user of an unused, unexpired challenge who has an unused recovery code with the
  given value, or, where none is given, a secret for which the given code is correct at that time.
\<close>

theorem sign_in_factors:
  "opens (password_ok P (store w) cred) w (snd (run_state (Login_Execute P cred) w)) \<and>
   opens (second_factor_ok P (store w) cmd) w (snd (run_state (MFALogin_Execute P cmd) w))"
  using Login_opens [of P cred w] MFALogin_opens [of P cmd w] by (simp add: prod_eq_iff)

section \<open>Examples\<close>

definition sample_id :: identity_ports where
  "sample_id = \<lparr>i_crypto = sample_crypto,
     i_jwt = \<lparr>j_issuer = ''s'', j_accessSecret = ''a'', j_refreshSecret = ''r'', j_accessTTL = 5 * second,
       j_refreshTTL = 50 * second, j_header = ''h'', j_enc = JWTID,
       j_dec = (\<lambda>s. Some \<lparr>Subject = ''u'', SessionID = ''i'', JWTID = s, Issuer = ''s'', Audience = ''s'',
         ExpiresAt = 51, IssuedAt = 1, Type = ''refresh''\<rparr>)\<rparr>,
     i_gen = (\<lambda>n. replicate (Suc n) (CHR ''i'')), i_token = (\<lambda>n. replicate (Suc n) (CHR ''t'')),
     i_short = (\<lambda>n. replicate n (CHR ''c'')), i_secret = (\<lambda>n. ''s''), i_parse = Some, i_url = (\<lambda>u t. Some (u @ t)),
     i_escape = id, i_render = (\<lambda>kind link. True), i_rfc3339 = (\<lambda>t. ''now''), i_provider = Map.empty, i_frontend = ''f'', i_hasTokens = True,
     i_hasOutbox = True, i_hasMailer = True, i_hasCache = True, i_hasAudit = True, i_verificationTTL = 60 * second, i_resetTTL = 60 * second,
     i_challengeTTL = 60 * second\<rparr>"

definition sample_user :: User where
  "sample_user = NewUser ''u'' ''u@x'' ''Password-0001'' ''password'' 0"

definition sample_token :: "string \<Rightarrow> AuthToken" where
  "sample_token purpose = \<lparr>tk_ID = ''k'', tk_UserID = ''u'', tk_Purpose = purpose,
     tk_TokenHash = HashToken sample_crypto ''t'', tk_ExpiresAt = 60 * second, tk_ConsumedAt = None, tk_CreatedAt = 0\<rparr>"

text \<open>A user with a session, a token for the given purpose and a recovery code.\<close>

definition sample_accounts :: "string \<Rightarrow> id_world" where
  "sample_accounts purpose = \<lparr>store = \<lparr>users = [sample_user], externals = [],
       sessions = [domain_NewSession ''i'' ''u'' ''password'' ''ii'' ''iii'' (50 * second) [] [] 0],
       auth_tokens = [sample_token purpose], totp_secrets = [],
       recovery_codes = [\<lparr>rv_ID = ''c'', rv_UserID = ''u'', rv_CodeHash = HashToken sample_crypto ''--'',
         rv_ConsumedAt = None, rv_CreatedAt = 0\<rparr>],
       workspaces = [], roles = [], memberships = [], membership_roles = [], invitations = [], invitation_roles = [],
       settings_rows = [], id_outbox = []\<rparr>,
     in_tx = False, aborted = False, outcomes = [], id_ctr = 3, refresh_store = [''iii'' \<mapsto> ''i''], oauth_states = Map.empty, access_cache = Map.empty, settings_cache = Map.empty, load_locks = {},
     mails = []\<rparr>"

definition sample_refresh :: AccessClaims where
  "sample_refresh = \<lparr>Subject = ''u'', SessionID = ''i'', JWTID = ''iii'', Issuer = ''s'', Audience = ''s'',
     ExpiresAt = 51, IssuedAt = 1, Type = ''refresh''\<rparr>"

abbreviation sample_refresh_token :: string where
  "sample_refresh_token \<equiv> sign sample_crypto (i_jwt sample_id) sample_refresh ''r''"

lemma HashToken_eq [simp]: "HashToken sample_crypto a = HashToken sample_crypto b \<longleftrightarrow> a = b"
proof
  assume "HashToken sample_crypto a = HashToken sample_crypto b"
  then have "RawURLDecode (RawURLEncode a) = RawURLDecode (RawURLEncode b)" by (simp add: HashToken_def sample_crypto_def)
  then show "a = b" by simp
qed simp

lemma sample_sources:
  "inj_on (i_gen sample_id) A" "inj_on (token_source sample_id) A" "n \<le> 12 \<Longrightarrow> inj_on (code_source sample_id) {..<n}"
proof -
  have len: "length (recovery_code (replicate k c)) = k + 2" if "k < 12" for k c
    using that by (simp add: recovery_code_def ToUpper_def)
  show "inj_on (i_gen sample_id) A" by (auto simp: inj_on_def sample_id_def replicate_eq_replicate)
  show "inj_on (token_source sample_id) A" by (auto simp: inj_on_def token_source_def sample_id_def replicate_eq_replicate)
  show "inj_on (code_source sample_id) {..<n}" if "n \<le> 12"
  proof (rule inj_onI)
    fix x y assume xy: "x \<in> {..<n}" "y \<in> {..<n}" "code_source sample_id x = code_source sample_id y"
    then have "length (recovery_code (replicate x CHR ''c'')) = length (recovery_code (replicate y CHR ''c''))"
      by (simp add: code_source_def sample_id_def)
    with xy(1,2) that show "x = y" by (simp add: len)
  qed
qed

lemma sample_sound: "sound sample_id (sample_accounts purpose)"
proof -
  have "code_source sample_id 0 = HashToken sample_crypto ''--''"
    by (simp add: code_source_def sample_id_def recovery_code_def ToUpper_def) code_simp
  moreover have "token_source sample_id 0 = HashToken sample_crypto ''t''" by (simp add: token_source_def sample_id_def)
  moreover have "i_gen sample_id 2 = ''iii''" by (simp add: sample_id_def numeral_2_eq_2)
  moreover have "keys_ok (store (sample_accounts purpose))" by (simp add: keys_ok_def sample_accounts_def)
  ultimately have "''iii'' \<in> i_gen sample_id ` {..<3}" "HashToken sample_crypto ''t'' \<in> token_source sample_id ` {..<3}"
      "HashToken sample_crypto ''--'' \<in> code_source sample_id ` {..<3}" "keys_ok (store (sample_accounts purpose))"
    by (metis imageI lessThan_iff numeral_2_eq_2 numeral_3_eq_3 lessI zero_less_Suc)+
  then show ?thesis
    unfolding sound_def live_refresh_def live_tokens_def live_codes_def
    by (auto simp: sample_accounts_def sample_token_def simp del: lessThan_iff image_iff)
qed

lemma sample_parse:
  "ParseRefresh (i_crypto sample_id) (i_jwt sample_id) sample_refresh_token (1 * second) = (Inr sample_refresh :: (id_error, _) result)"
proof -
  have "parse_typed sample_crypto (i_jwt sample_id) ''r'' ''refresh'' sample_refresh_token (1 * second) = (Inr sample_refresh :: (id_error, _) result)"
    by (rule parse_typed_own) (simp_all add: json_faithful_def sample_id_def sample_refresh_def Unix_def)
  then show ?thesis by (simp add: ParseRefresh_def sample_id_def)
qed

lemmas sample_runs = run_bindE thenE_def redis_def next_outcome_def found_def update_where_def IsActive_def IsUsable_def
  Refresh_Find_def Refresh_Replace_def Refresh_Save_def Refresh_Delete_def Session_FindByID_def Session_RotateTokens_def Session_Create_def
  Session_RevokeByID_def User_FindByID_def AuthToken_FindByHash_def AuthToken_Consume_def TOTP_ListRecoveryCodes_def TOTP_ConsumeRecoveryCode_def

lemmas sample_sizes = sample_accounts_def sample_token_def sample_user_def sample_id_def domain_NewSession_def NewUser_def sample_refresh_def

lemma sample_trim: "TrimSpace ''t'' = ''t''"
  by code_simp

lemma sample_refreshes:
  "\<exists>ctx w1. run_state (Refresh_Execute sample_id sample_refresh_token (1 * second)) (sample_accounts []) = (Inr ctx, w1)"
  unfolding Refresh_Execute_def sample_parse by (simp add: rotate_def Issue_def sample_runs sample_sizes)

theorem identity_invariant_witness:
  "sound sample_id (auth_run sample_id [Signup \<lparr>cr_Email = ''u@x'', cr_Password = ''Password-0001'', cr_IP = [], cr_UA = [], cr_Now = 0\<rparr>,
     Expire ''i''] ((sample_accounts [])\<lparr>store := (store (sample_accounts []))\<lparr>users := [], sessions := [], auth_tokens := [], recovery_codes := []\<rparr>,
     refresh_store := Map.empty\<rparr>))"
  by (rule identity_invariant) (simp add: no_accounts_def)

theorem refresh_single_use_witness:
  "\<exists>ctx w1. run_state (Refresh_Execute sample_id sample_refresh_token (1 * second)) (sample_accounts []) = (Inr ctx, w1) \<and>
     fst (run_state (Refresh_Execute sample_id sample_refresh_token (1 * second)) (auth_run sample_id [Expire ''i''] w1)) \<noteq> Inr ctx"
  using sample_refreshes
    refresh_single_use [OF sample_sound sample_sources(1) _ sample_parse sample_parse refl] by blast

theorem token_single_use_witness:
  "\<exists>t w1. run_state (ConsumeToken sample_id ''t'' ''password_reset'' 0) (sample_accounts ''password_reset'') = (Inr t, w1) \<and>
     fst (run_state (ConsumeToken sample_id ''t'' ''password_reset'' 0) (auth_run sample_id [Expire ''i''] w1)) \<noteq> Inr t"
proof -
  have "\<exists>t w1. run_state (ConsumeToken sample_id ''t'' ''password_reset'' 0) (sample_accounts ''password_reset'') = (Inr t, w1)"
    using sample_trim by (simp add: ConsumeToken_def sample_runs sample_sizes)
  with token_single_use [OF sample_sound sample_sources(2)] show ?thesis by blast
qed

theorem revoke_is_final_witness:
  "\<exists>w1. run_state (RevokeSession_Execute ''i'' ''u'' 5) (sample_accounts []) = (Inr (), w1) \<and>
     rejected sample_id ''i'' (auth_run sample_id [Refresh sample_refresh_token (1 * second)] w1)"
proof -
  have "\<exists>w1. run_state (RevokeSession_Execute ''i'' ''u'' 5) (sample_accounts []) = (Inr (), w1)"
    by (simp add: RevokeSession_Execute_def IsRevoked_def sample_runs sample_sizes)
  with revoke_is_final [OF sample_sound] show ?thesis by blast
qed

theorem reset_signs_out_witness:
  "\<exists>w1. run_state (ResetPassword_Execute sample_id ''t'' ''Password-0002'' 0) (sample_accounts ''password_reset'') = (Inr (), w1) \<and>
     rejected sample_id ''i'' (auth_run sample_id [Refresh sample_refresh_token (1 * second)] w1)"
proof -
  have policy: "ValidatePasswordPolicy ''Password-0002'' = None" by code_simp
  have "\<exists>w1. run_state (ResetPassword_Execute sample_id ''t'' ''Password-0002'' 0) (sample_accounts ''password_reset'') = (Inr (), w1)"
    using sample_trim
    by (simp add: ResetPassword_Execute_def policy ConsumeToken_def hash_password_def Hasher_Hash_def WithinTx_def
        Session_RevokeByUser_def User_UpdatePassword_def AuthToken_DeleteByUserAndPurpose_def sample_crypto_def sample_runs sample_sizes)
  then obtain w1 where w1: "run_state (ResetPassword_Execute sample_id ''t'' ''Password-0002'' 0) (sample_accounts ''password_reset'') = (Inr (), w1)" by blast
  from reset_signs_out [OF sample_sound w1, of "[Refresh sample_refresh_token (1 * second)]"] w1 show ?thesis
    by (auto simp: sample_accounts_def sample_token_def domain_NewSession_def)
qed

end
