(* ===== verification/Workspace_Properties.thy ===== *)
theory Workspace_Properties
  imports Workspace_Safety Identity_Properties
begin

text \<open>The properties of the commands on workspaces, over any run of commands of the identity module and any faults.\<close>

section \<open>Facts that last\<close>

definition accepted :: "identity_db \<Rightarrow> string set" where
  "accepted d = iv_Token ` {i \<in> set (invitations d). Invitation_IsAccepted i}"

lemma accepted_iff: "token \<in> accepted d \<longleftrightarrow> (\<exists>i\<in>set (invitations d). iv_Token i = token \<and> Invitation_IsAccepted i)"
  by (auto simp: accepted_def)

interpretation stays_accepted: ws_kept "\<lambda>d. token \<in> accepted d" for token
proof unfold_locales
  fix d cmd i rs evs token assume "token \<in> accepted d"
  then show "token \<in> accepted (add_invitation i (RoleIDs rs) evs d)" by (auto simp: accepted_iff add_invitation_def set_offered_roles_def)
next
  fix d now i m token assume "token \<in> accepted d"
  then obtain j where "j \<in> set (invitations d)" "iv_Token j = token" "Invitation_IsAccepted j" by (auto simp: accepted_iff)
  then show "token \<in> accepted (mark_accepted (iv_ID i) now (add_member m (RoleIDs (offered_roles d (iv_ID i))) d))"
    unfolding accepted_iff mark_accepted_def update_where_def add_member_def set_member_roles_def
    by (intro bexI [of _ "if iv_ID j = iv_ID i then j\<lparr>iv_Status := ''accepted'', iv_UpdatedAt := now\<rparr> else j"])
      (auto simp: Invitation_IsAccepted_def intro!: image_eqI [of _ _ j])
next
  fix d d' ws' patch token assume "token \<in> accepted d" "settings_step d ws' patch d'"
  then show "token \<in> accepted d'" by (auto simp: accepted_iff settings_step_def)
qed (auto simp: accepted_iff same_workspaces_def add_workspace_def add_member_def set_member_roles_def remove_member_def role_change_def)

definition beyond :: "string \<Rightarrow> int \<Rightarrow> identity_db \<Rightarrow> bool" where
  "beyond ws v d \<longleftrightarrow> (\<exists>s\<in>set (settings_rows d). st_WorkspaceID s = ws \<and> v < st_Version s)"

interpretation stays_beyond: ws_kept "beyond ws v" for ws v
proof unfold_locales
  fix d d' ws' patch ws v assume ok: "ws_ok d" and b: "beyond ws v d" and step: "settings_step d ws' patch d'"
  from b obtain x where x: "x \<in> set (settings_rows d)" "st_WorkspaceID x = ws" "v < st_Version x" by (auto simp: beyond_def)
  from step show "beyond ws v d'"
  proof (cases rule: settings_stepE)
    case (first s)
    with x show ?thesis by (auto simp: beyond_def)
  next
    case (later s s')
    show ?thesis
    proof (cases "ws = ws'")
      case True
      have "x = s" using unique_settings [of d ws' s x] later(1) x True ok by (auto simp: ws_ok_def)
      with True later x show ?thesis by (auto simp: beyond_def update_where_def intro!: bexI [of _ s'] image_eqI [of _ _ x])
    next
      case False
      with later x show ?thesis by (auto simp: beyond_def update_where_def intro!: bexI [of _ x] image_eqI [of _ _ x])
    qed
  qed
qed (auto simp: beyond_def same_workspaces_def add_workspace_def add_member_def set_member_roles_def remove_member_def role_change_def
    add_invitation_def set_offered_roles_def mark_accepted_def)

section \<open>Rows of other workspaces\<close>

text \<open>All that belongs to workspaces other than \<open>ws\<close>.\<close>

definition outside :: "string \<Rightarrow> identity_db \<Rightarrow>
    (Membership list \<times> (string \<times> string) list) \<times> (Invitation list \<times> (string \<times> string) list) \<times> Role list \<times> settings_row list" where
  "outside ws d =
     ((filter (\<lambda>m. mb_WorkspaceID m \<noteq> ws) (memberships d),
       filter (\<lambda>(a, b). list_ex (\<lambda>m. mb_ID m = a \<and> mb_WorkspaceID m \<noteq> ws) (memberships d)) (membership_roles d)),
      (filter (\<lambda>i. iv_WorkspaceID i \<noteq> ws) (invitations d),
       filter (\<lambda>(a, b). list_ex (\<lambda>i. iv_ID i = a \<and> iv_WorkspaceID i \<noteq> ws) (invitations d)) (invitation_roles d)),
      filter (\<lambda>r. rl_WorkspaceID r \<noteq> ws) (roles d), filter (\<lambda>s. st_WorkspaceID s \<noteq> ws) (settings_rows d))"

lemma filter_unchanged:
  assumes "\<And>x. x \<in> set xs \<Longrightarrow> Q x \<Longrightarrow> f x = x" and "\<And>x. x \<in> set xs \<Longrightarrow> Q (f x) = Q x"
  shows "filter Q (map f xs) = filter Q xs"
  using assms by (induction xs) auto

lemma outside_remove:
  assumes ok: "ws_ok d" and t: "t \<in> set (memberships d)" "mb_ID t = mid" "mb_WorkspaceID t = ws"
  shows "outside ws (remove_member mid d) = outside ws d"
proof -
  have own: "mb_WorkspaceID m = ws" if "m \<in> set (memberships d)" "mb_ID m = mid" for m
    using unique_row [of mb_ID "memberships d" m t] ok that t by (auto simp: ws_ok_def ws_keys_def)
  then have "filter (\<lambda>m. mb_WorkspaceID m \<noteq> ws \<and> mb_ID m \<noteq> mid) (memberships d) = filter (\<lambda>m. mb_WorkspaceID m \<noteq> ws) (memberships d)"
    by (intro filter_cong) auto
  moreover have "filter (\<lambda>(a, b). list_ex (\<lambda>m. mb_ID m = a \<and> mb_WorkspaceID m \<noteq> ws) (filter (\<lambda>m. mb_ID m \<noteq> mid) (memberships d)))
      (filter (\<lambda>(m, r). m \<noteq> mid) (membership_roles d)) =
      filter (\<lambda>(a, b). list_ex (\<lambda>m. mb_ID m = a \<and> mb_WorkspaceID m \<noteq> ws) (memberships d)) (membership_roles d)"
    unfolding filter_filter by (intro filter_cong) (use own in \<open>auto simp: list_ex_iff\<close>)
  ultimately show ?thesis by (simp add: outside_def remove_member_def conj_commute)
qed

lemma outside_role_change:
  assumes ok: "ws_ok d" and t: "t \<in> set (memberships d)" "mb_ID t = mid" "mb_WorkspaceID t = ws"
  shows "outside ws (role_change mid legacy ids now d) = outside ws d"
proof -
  let ?f = "\<lambda>m. if mb_ID m = mid then m\<lparr>mb_Role := legacy, mb_UpdatedAt := now\<rparr> else m"
  have own: "mb_WorkspaceID m = ws" if "m \<in> set (memberships d)" "mb_ID m = mid" for m
    using unique_row [of mb_ID "memberships d" m t] ok that t by (auto simp: ws_ok_def ws_keys_def)
  then have "filter (\<lambda>m. mb_WorkspaceID m \<noteq> ws) (map ?f (memberships d)) = filter (\<lambda>m. mb_WorkspaceID m \<noteq> ws) (memberships d)"
    by (intro filter_unchanged) auto
  moreover have "list_ex (\<lambda>m. mb_ID m = a \<and> mb_WorkspaceID m \<noteq> ws) (map ?f (memberships d)) =
      list_ex (\<lambda>m. mb_ID m = a \<and> mb_WorkspaceID m \<noteq> ws) (memberships d)" for a
    unfolding list_ex_iff set_map bex_simps by (intro bex_cong) auto
  moreover have "filter (\<lambda>(a, b). list_ex (\<lambda>m. mb_ID m = a \<and> mb_WorkspaceID m \<noteq> ws) (memberships d))
      (filter (\<lambda>(m, r). m \<noteq> mid) (membership_roles d) @ map (Pair mid) ids) =
      filter (\<lambda>(a, b). list_ex (\<lambda>m. mb_ID m = a \<and> mb_WorkspaceID m \<noteq> ws) (memberships d)) (membership_roles d)"
    unfolding filter_append filter_filter using own by (auto simp: list_ex_iff filter_empty_conv intro!: filter_cong)
  ultimately show ?thesis by (simp add: outside_def role_change_def set_member_roles_def update_where_def)
qed

lemma outside_invitation:
  assumes "iv_WorkspaceID i = ws" "\<not> has iv_ID (iv_ID i) (invitations d)"
  shows "outside ws (add_invitation i ids evs d) = outside ws d"
proof -
  have "filter (\<lambda>(a, b). list_ex (\<lambda>i. iv_ID i = a \<and> iv_WorkspaceID i \<noteq> ws) (invitations d))
      (filter (\<lambda>(m, r). m \<noteq> iv_ID i) (invitation_roles d) @ map (Pair (iv_ID i)) ids) =
      filter (\<lambda>(a, b). list_ex (\<lambda>i. iv_ID i = a \<and> iv_WorkspaceID i \<noteq> ws) (invitations d)) (invitation_roles d)"
    unfolding filter_append filter_filter using assms(2) by (auto simp: list_ex_iff filter_empty_conv intro!: filter_cong)
  with assms show ?thesis by (simp add: outside_def add_invitation_def set_offered_roles_def)
qed

lemma outside_settings: "settings_step d ws patch d' \<Longrightarrow> outside ws d' = outside ws d"
  by (erule settings_stepE) (auto simp: outside_def update_where_def intro!: filter_unchanged)

lemma outside_patch: "roles_patched d ws f \<Longrightarrow> outside ws (d\<lparr>roles := map f (roles d)\<rparr>) = outside ws d"
  by (auto simp: outside_def roles_patched_def same_role_def list_all_iff intro!: filter_unchanged)

lemma outside_writes:
  assumes "writes (store w) Q f" "\<And>d'. Q d' \<Longrightarrow> outside ws d' = outside ws (store w)"
  shows "outside ws (store (snd (run_state (succeeds f) w))) = outside ws (store w)"
proof -
  obtain r w' where run: "run_state f w = (r, w')" by fastforce
  with writesD [OF assms(1) run refl] assms(2) show ?thesis by (auto simp: succeeds_def)
qed

fun about :: "ws_command \<Rightarrow> string option" where
  "about (InviteMember cmd) = Some (in_WorkspaceID cmd)"
| "about (RemoveMember ws mid user) = Some ws"
| "about (UpdateMemberRole ws mid ids user now) = Some ws"
| "about (AssignMemberRoles ws mid ids user now) = Some ws"
| "about (CreateRole ws actor name names pm now) = Some ws"
| "about (UpdateRole ws rid actor name names pm status now) = Some ws"
| "about (UpdateSettings ws user patch now) = Some ws"
| "about _ = None"

section \<open>The cache\<close>

definition same_cache :: "id_world \<Rightarrow> id_world \<Rightarrow> bool" where
  "same_cache w w' \<longleftrightarrow> access_cache w' = access_cache w"

interpretation cached: world_rel same_cache
  by unfold_locales (auto simp: same_cache_def)

lemma cached_exec: "state_io_rel same_cache (exec q)"
  by (rule cached.keeps_exec) (simp add: same_cache_def)

lemma RemoveMember_cached: "state_io_rel same_cache (RemoveMember_Execute ws mid user)"
  unfolding RemoveMember_Execute_def acting_member_def denied_unless_member_def target_member_def last_owner_guard_def
    Membership_FindByWorkspaceAndUser_def Role_ListByMembership_def Membership_FindByID_def Role_FindByType_def
    Role_CountMembershipsByRole_def Membership_DeleteByID_def
  by (intro cached.keeps_prog cached_exec)

section \<open>Properties\<close>

definition no_workspaces :: "identity_db \<Rightarrow> bool" where
  "no_workspaces d \<longleftrightarrow> workspaces d = [] \<and> roles d = [] \<and> memberships d = [] \<and> membership_roles d = [] \<and> invitations d = [] \<and>
     invitation_roles d = [] \<and> settings_rows d = []"

text \<open>
  Claim C17. In every world reached from one without workspaces, by any commands of the identity module and under any faults: ids and
  invitation tokens are unique, a user is at most once a member of a workspace, members have and invitations offer only roles of their
  own workspace, a workspace has one owner role and one row of settings, and every workspace has an active member with its owner
  role.
\<close>

theorem workspace_invariant:
  assumes "no_workspaces (store w)"
  shows "ws_ok (store (ws_run P cmds w))"
  by (rule run_ok) (use assms in \<open>simp add: no_workspaces_def ws_ok_def ws_keys_def ws_refs_def one_owner_role_def\<close>)

text \<open>
  Claim C16. Whatever fails and whatever they report, the commands on members leave the tables as they are or make exactly one
  change, and that only for an acting user who is a member with the permission: a removal, of another member of the workspace, and of an
  owner only if two members are; a change of roles, to active roles of the workspace, and away from owner only if two members are; an
  invitation, to active roles, with a fresh token, valid for seven days. An accepted invitation is pending, not expired and was sent
  to the address of the user, who is no member yet and gets the roles it offers.
\<close>

theorem member_changes_authorized:
  "writes d (\<lambda>d'. removal_ok d ws mid user \<and> d' = remove_member mid d) (RemoveMember_Execute ws mid user) \<and>
   writes d (\<lambda>d'. \<exists>rs. role_change_ok d ws mid ids user rs \<and> d' = role_change mid (LegacyMembershipRole rs) (RoleIDs rs) now d)
     (UpdateRole_Execute ws mid ids user now) \<and>
   writes d (\<lambda>d'. \<exists>i rs. invitation_ok d cmd i rs \<and> (\<exists>evs. d' = add_invitation i (RoleIDs rs) evs d)) (Invite_Execute P cmd) \<and>
   writes d (\<lambda>d'. \<exists>i m. acceptance_ok d token user now i m \<and>
       d' = mark_accepted (iv_ID i) now (add_member m (RoleIDs (offered_roles d (iv_ID i))) d))
     (AcceptInvitation_Execute P token user now)"
  using removes updates_role invites accepts by blast

text \<open>
  Claim C19. A command about a workspace changes no member, invitation, role or settings of another one, and no assignment of
  roles there, whatever fails.
\<close>

theorem workspace_isolation:
  assumes ok: "ws_ok (store w)" and "about cmd = Some ws"
  shows "outside ws (store (snd (run_state (run_ws P cmd) w))) = outside ws (store w)"
  using assms(2)
proof (cases cmd)
  case (InviteMember c)
  with assms(2) show ?thesis by (simp, intro outside_writes [OF invites]) (auto simp: invitation_ok_def intro: outside_invitation)
next
  case (RemoveMember w' mid user)
  with assms show ?thesis by (simp, intro outside_writes [OF removes]) (auto simp: removal_ok_def intro: outside_remove)
next
  case (UpdateMemberRole w' mid ids user now)
  with assms show ?thesis
    by (simp, intro outside_writes [OF updates_member_role]) (auto simp: role_change_ok_def intro: outside_role_change)
next
  case (AssignMemberRoles w' mid ids user now)
  with assms show ?thesis
    by (simp, intro outside_writes [OF assigns_member_roles]) (auto simp: role_change_ok_def intro: outside_role_change)
next
  case (CreateRole w' actor name names pm now)
  with assms show ?thesis by (simp, intro outside_writes [OF creates_role]) (auto simp: role_ok_def outside_def)
next
  case (UpdateRole w' rid actor name names pm status now)
  have "distinct (map rl_ID (roles (store w)))" using ok by (simp add: ws_ok_def ws_keys_def)
  with UpdateRole assms show ?thesis by (simp, intro outside_writes [OF updates_workspace_role]) (auto intro: outside_patch)
next
  case (UpdateSettings w' user patch now)
  have "distinct (map st_WorkspaceID (settings_rows (store w)))" using ok by (simp add: ws_ok_def)
  with UpdateSettings assms show ?thesis by (simp, intro outside_writes [OF updates_settings]) (auto intro: outside_settings)
qed simp_all

text \<open>
  Claim C21. An invitation works once: after it has been accepted, no command with the same token succeeds again, for any user,
  whatever commands run in between and whatever fails.
\<close>

theorem invitation_single_use:
  assumes "ws_ok (store w)" and "run_state (AcceptInvitation_Execute P token user now) w = (Inr m, w1)"
  shows "fst (run_state (AcceptInvitation_Execute P token user' now') (ws_run P cmds w1)) \<noteq> Inr m'"
proof
  let ?w2 = "ws_run P cmds w1"
  assume "fst (run_state (AcceptInvitation_Execute P token user' now') ?w2) = Inr m'"
  then obtain w3 where again: "run_state (AcceptInvitation_Execute P token user' now') ?w2 = (Inr m', w3)" by (metis prod.collapse)
  from writesD [OF accepts assms(2) refl] obtain i mb where acc: "acceptance_ok (store w) token user now i mb"
    and st: "store w1 = mark_accepted (iv_ID i) now (add_member mb (RoleIDs (offered_roles (store w) (iv_ID i))) (store w))" by auto
  have "token \<in> accepted (store w1)" using acc unfolding st accepted_iff acceptance_ok_def
    by (auto simp: mark_accepted_def add_member_def set_member_roles_def update_where_def Invitation_IsAccepted_def
        intro!: bexI [of _ "i\<lparr>iv_Status := ''accepted'', iv_UpdatedAt := now\<rparr>"] image_eqI [of _ _ i])
  moreover have "ws_ok (store w1)" unfolding st by (rule ok_accept [OF assms(1) acc])
  ultimately have "token \<in> accepted (store ?w2)" "ws_ok (store ?w2)" by (simp_all add: stays_accepted.run_keeps run_ok)
  then obtain j where j: "j \<in> set (invitations (store ?w2))" "iv_Token j = token" "Invitation_IsAccepted j" by (auto simp: accepted_iff)
  from writesD [OF accepts again refl] obtain i' where "i' \<in> set (invitations (store ?w2))" "iv_Token i' = token" "\<not> Invitation_IsAccepted i'"
    by (auto simp: acceptance_ok_def)
  with j \<open>ws_ok (store ?w2)\<close> show False
    using unique_row [of iv_Token "invitations (store ?w2)" i' j] by (auto simp: ws_ok_def ws_keys_def)
qed

text \<open>
  Of two updates of the settings that expect the same version one succeeds at most: after the first, the second is
  refused, whatever commands run in between and whatever fails. (Without a row of settings the version is not compared.)
\<close>

lemma settings_versioned:
  assumes "ws_ok (store w)" and "has st_WorkspaceID ws (settings_rows (store w))"
    and "pt_Version p = Some v" and "pt_Version p' = Some v"
    and "run_state (UpdateWorkspaceSettings P ws user p now) w = (Inr s, w1)"
  shows "fst (run_state (UpdateWorkspaceSettings P ws user' p' now') (ws_run P cmds w1)) \<noteq> Inr s'"
proof
  let ?w2 = "ws_run P cmds w1"
  assume "fst (run_state (UpdateWorkspaceSettings P ws user' p' now') ?w2) = Inr s'"
  then obtain w3 where again: "run_state (UpdateWorkspaceSettings P ws user' p' now') ?w2 = (Inr s', w3)" by (metis prod.collapse)
  have keys: "distinct (map st_WorkspaceID (settings_rows (store x)))" if "ws_ok (store x)" for x :: id_world
    using that by (simp add: ws_ok_def)
  from writesD [OF updates_settings [OF keys [OF assms(1)]] assms(5) refl] have step: "settings_step (store w) ws p (store w1)" by simp
  then have "beyond ws v (store w1)"
    using assms(2,3) by (cases rule: settings_stepE) (auto simp: beyond_def update_where_def find_None_iff list_ex_iff dest: find_SomeD)
  with ok_settings [OF assms(1) step] have b: "beyond ws v (store ?w2)" and ok: "ws_ok (store ?w2)"
    by (simp_all add: stays_beyond.run_keeps run_ok)
  from writesD [OF updates_settings [OF keys [OF ok]] again refl] have "settings_step (store ?w2) ws p' (store w3)" by simp
  then show False
  proof (cases rule: settings_stepE)
    case (first t)
    with b show False by (auto simp: beyond_def find_None_iff)
  next
    case (later t t')
    with b assms(4) unique_settings [OF keys [OF ok] later(1)] show False by (auto simp: beyond_def)
  qed
qed

text \<open>
  Claim C23. A member who has been removed keeps the permissions of the cached entry: the removal leaves the cache alone, and
  while the entry is there every check that reads it grants what the member could do before.
\<close>

theorem removed_keeps_access:
  assumes "i_hasCache P" and "access_cache w (ws, user) = Some m" and "HasPermission (mb_EffectivePermissions m) permission"
    and "run_state (RemoveMember_Execute ws mid remover) w = (Inr (), w1)" and "outcomes w1 = []"
  shows "run_state (requireWorkspacePermission P ws user permission) w1 = (Inr m, w1)"
proof -
  have "same_cache w w1" by (rule state_io_relD [OF RemoveMember_cached assms(4)])
  with assms show ?thesis
    by (simp add: same_cache_def requireWorkspacePermission_def denied_unless_member_def enrichedMembershipForUser_def
        GetOrLoadWorkspaceAccess_def GetOrLoadJSON_def run_bindE redis_def next_outcome_def)
qed

section \<open>Witnesses\<close>

text \<open>A workspace with an owner, a member and an invitation.\<close>

definition sample_workspace :: id_world where
  "sample_workspace = (sample_accounts [])\<lparr>store := (store (sample_accounts []))\<lparr>
     users := [sample_user, NewUser ''v'' ''v@x'' [] ''password'' 0],
     workspaces := [\<lparr>wk_ID = ''w'', wk_Name = ''W'', wk_Plan = None, wk_LogoIcon = None, wk_MembershipID = [], wk_RoleNames = [],
       wk_CreatedAt = 0, wk_UpdatedAt = 0\<rparr>],
     roles := [
       \<lparr>rl_ID = ''o'', rl_WorkspaceID = ''w'', rl_Name = ''Owner'', rl_Type = ''owner'', rl_PermissionsMask = AllPermissionsMask,
         rl_Builtin = True, rl_Status = ''active'', rl_Version = 1, rl_CreatedAt = 0, rl_UpdatedAt = 0\<rparr>,
       \<lparr>rl_ID = ''r'', rl_WorkspaceID = ''w'', rl_Name = ''Member'', rl_Type = ''member'', rl_PermissionsMask = 1,
         rl_Builtin = True, rl_Status = ''active'', rl_Version = 1, rl_CreatedAt = 0, rl_UpdatedAt = 0\<rparr>],
     memberships := [NewMembership ''m'' ''w'' ''u'' ''Owner'' 0, NewMembership ''n'' ''w'' ''x'' ''Member'' 0],
     membership_roles := [(''m'', ''o''), (''n'', ''r'')],
     invitations := [NewInvitation ''q'' ''w'' ''v@x'' ''k'' ''Member'' (60 * second) 0], invitation_roles := [(''q'', ''r'')],
     settings_rows := [settings_to_row (default_settings ''w'' 0) 1]\<rparr>,
     access_cache := [(''w'', ''x'') \<mapsto> (NewMembership ''n'' ''w'' ''x'' ''Member'' 0)\<lparr>mb_EffectivePermissions := [''workspace.read'']\<rparr>]\<rparr>"

lemma sample_ok: "ws_ok (store sample_workspace)"
  by (simp add: ws_ok_def ws_keys_def ws_refs_def one_owner_role_def owned_def sample_workspace_def sample_accounts_def NewMembership_def
      NewInvitation_def)

lemma ran: "\<not> isl (fst (run_state f w)) \<Longrightarrow> \<exists>a w'. run_state f w = (Inr a, w')"
  by (cases "run_state f w"; cases "fst (run_state f w)") auto

lemma sample_accepts: "\<not> isl (fst (run_state (AcceptInvitation_Execute sample_id ''k'' ''v'' 0) sample_workspace))"
  by code_simp

lemma sample_removes: "\<not> isl (fst (run_state (RemoveMember_Execute ''w'' ''n'' ''u'') sample_workspace))"
  by code_simp

lemma sample_faultless: "outcomes (snd (run_state (RemoveMember_Execute ''w'' ''n'' ''u'') sample_workspace)) = []"
  by code_simp

theorem workspace_invariant_witness:
  "ws_ok (store (ws_run sample_id [CreateWorkspace ''W'' ''u'' 0, RemoveMember ''iiii'' ''iiiii'' ''u''] (sample_accounts [])))"
  by (rule workspace_invariant) (simp add: no_workspaces_def sample_accounts_def)

theorem workspace_isolation_witness:
  "outside ''w'' (store (snd (run_state (run_ws sample_id (RemoveMember ''w'' ''n'' ''u'')) sample_workspace))) =
   outside ''w'' (store sample_workspace)"
  by (rule workspace_isolation [OF sample_ok]) simp

theorem invitation_single_use_witness:
  "\<exists>m w1. run_state (AcceptInvitation_Execute sample_id ''k'' ''v'' 0) sample_workspace = (Inr m, w1) \<and>
     fst (run_state (AcceptInvitation_Execute sample_id ''k'' ''v'' 0) (ws_run sample_id [RemoveMember ''w'' ''iiii'' ''u''] w1)) \<noteq> Inr m"
  using ran [OF sample_accepts] invitation_single_use [OF sample_ok] by blast

theorem removed_keeps_access_witness:
  "\<exists>m w1. run_state (RemoveMember_Execute ''w'' ''n'' ''u'') sample_workspace = (Inr (), w1) \<and>
     run_state (requireWorkspacePermission sample_id ''w'' ''x'' ''workspace.read'') w1 = (Inr m, w1)"
proof -
  obtain w1 where run: "run_state (RemoveMember_Execute ''w'' ''n'' ''u'') sample_workspace = (Inr (), w1)"
    using ran [OF sample_removes] by auto
  with sample_faultless have "outcomes w1 = []" by simp
  moreover have "i_hasCache sample_id" by (simp add: sample_id_def)
  moreover obtain m where "access_cache sample_workspace (''w'', ''x'') = Some m" "HasPermission (mb_EffectivePermissions m) ''workspace.read''"
    by (simp add: sample_workspace_def HasPermission_def)
  ultimately show ?thesis using run removed_keeps_access by blast
qed

end
