(* ===== verification/Batching.thy ===== *)
theory Batching
  imports Prelude
begin

text \<open>
  The batching pipeline of \<open>internal/platform/batching\<close>: one reader goroutine, a pool of
  processor goroutines and one writer goroutine, joined by two bounded channels and by a
  semaphore (the channel \<open>inflight\<close>) that bounds the items between the reader and the last
  flush. Each goroutine is a program counter, and every blocking point of the Go code (a channel
  send or receive, a \<open>select\<close>) is one rule of the step relation, so that the interleavings of the
  relation are those of the goroutines. The theory shows that the pipeline neither loses nor
  repeats items, that the semaphore counts exactly the items in flight, and that no run gets stuck.
\<close>

section \<open>Options\<close>

type_synonym go_error = string

record Options =
  ShardID :: int
  TotalShards :: int
  BufferedItemsSize :: int
  WriteBatchSize :: int
  ProcessorConcurrency :: int
  MaxInflight :: int

text \<open>\<open>runtime.NumCPU\<close> is a property of the machine, hence an argument.\<close>

definition withDefaults :: "int \<Rightarrow> Options \<Rightarrow> Options" where
  "withDefaults numCPU opts =
     (let o1 = (if TotalShards opts = 0 then opts\<lparr>TotalShards := 1\<rparr> else opts);
          o2 = (if BufferedItemsSize o1 = 0 then o1\<lparr>BufferedItemsSize := 5000\<rparr> else o1);
          o3 = (if WriteBatchSize o2 = 0 then o2\<lparr>WriteBatchSize := 500\<rparr> else o2);
          o4 = (if ProcessorConcurrency o3 = 0
                then o3\<lparr>ProcessorConcurrency := min numCPU 8\<rparr> else o3);
          o5 = (if MaxInflight o4 = 0 then o4\<lparr>MaxInflight := 10000\<rparr> else o4)
      in o5)"

datatype options_error =
    TotalShardsNotPositive
  | ShardIDOutOfRange int
  | BufferedItemsSizeNotPositive
  | WriteBatchSizeNotPositive
  | ProcessorConcurrencyNotPositive
  | MaxInflightTooSmall
  | ReaderRequired
  | ProcessorRequired
  | WriterRequired

definition validateOptions :: "Options \<Rightarrow> options_error option" where
  "validateOptions opts =
     (if TotalShards opts \<le> 0 then Some TotalShardsNotPositive
      else if ShardID opts < 0 \<or> ShardID opts \<ge> TotalShards opts
        then Some (ShardIDOutOfRange (TotalShards opts))
      else if BufferedItemsSize opts \<le> 0 then Some BufferedItemsSizeNotPositive
      else if WriteBatchSize opts \<le> 0 then Some WriteBatchSizeNotPositive
      else if ProcessorConcurrency opts \<le> 0 then Some ProcessorConcurrencyNotPositive
      else if MaxInflight opts < WriteBatchSize opts then Some MaxInflightTooSmall
      else None)"

text \<open>
  \<open>NewPipeline\<close>: the options the pipeline will run with, or the error. The three flags say
  whether the callbacks of the configuration are non-nil.
\<close>

definition NewPipeline :: "int \<Rightarrow> Options \<Rightarrow> bool \<Rightarrow> bool \<Rightarrow> bool \<Rightarrow> options_error + Options" where
  "NewPipeline numCPU cfg hasReader hasProcessor hasWriter =
     (let opts = withDefaults numCPU cfg in
      case validateOptions opts of
        Some e \<Rightarrow> Inl e
      | None \<Rightarrow>
          if \<not> hasReader then Inl ReaderRequired
          else if \<not> hasProcessor then Inl ProcessorRequired
          else if \<not> hasWriter then Inl WriterRequired
          else Inr opts)"

text \<open>What \<open>NewPipeline\<close> promises of the options it accepts.\<close>

definition valid_opts :: "Options \<Rightarrow> bool" where
  "valid_opts opts \<longleftrightarrow>
     0 \<le> ShardID opts \<and> ShardID opts < TotalShards opts \<and>
     0 < BufferedItemsSize opts \<and> 0 < WriteBatchSize opts \<and>
     0 < ProcessorConcurrency opts \<and> WriteBatchSize opts \<le> MaxInflight opts"

lemma validateOptions_None_iff: "validateOptions opts = None \<longleftrightarrow> valid_opts opts"
  by (auto simp: validateOptions_def valid_opts_def split: if_splits)

section \<open>State\<close>

text \<open>
  The callbacks. A call of \<open>reader.Read\<close> returns an item or an error, and no more items when the
  list of results is used up. A call of \<open>processor.Process\<close> keeps an output, drops the item or
  fails. A call of \<open>writer.Write\<close> may succeed or fail on any batch.
\<close>

datatype 'i read_result = ReadItem 'i | ReadError go_error

datatype 'o proc_result = Keep 'o | Drop | ProcError go_error

datatype 'i reader_pc =
    RIdle            \<comment> \<open>about to call \<open>reader.Read\<close>\<close>
  | RHold 'i         \<comment> \<open>in \<open>select\<close> on \<open>inflight <- struct{}{}\<close>\<close>
  | RToken 'i        \<comment> \<open>in \<open>select\<close> on \<open>inputCh <- item\<close>\<close>
  | RDone

datatype ('i, 'o) proc_pc =
    PIdle            \<comment> \<open>in \<open>select\<close> on \<open>inputCh\<close>\<close>
  | PBusy 'i         \<comment> \<open>in \<open>processor.Process\<close>\<close>
  | POut 'o          \<comment> \<open>in \<open>select\<close> on \<open>outputCh <- out\<close>\<close>
  | PDone

text \<open>
  \<open>written\<close> is the sequence of batches that \<open>writer.Write\<close> accepted; \<open>taken\<close> is the sequence of
  items received from \<open>inputCh\<close>. Both are history variables: no step reads them.
\<close>

record ('i, 'o) Pipeline =
  source :: "'i read_result list"
  rpc :: "'i reader_pc"
  inputCh :: "'i list"
  inputClosed :: bool
  procs :: "('i, 'o) proc_pc list"
  outputCh :: "'o list"
  outputClosed :: bool
  buffer :: "'o list"
  wdone :: bool
  inflight :: nat
  cancelled :: bool
  errCh :: "go_error list"
  itemsRead :: nat
  itemsProcessed :: nat
  itemsWritten :: nat
  taken :: "'i list"
  written :: "'o list list"

definition ctx_err :: go_error where
  "ctx_err = ''context canceled''"

text \<open>The state in which \<open>Run\<close> starts its goroutines.\<close>

definition Run_start :: "Options \<Rightarrow> 'i read_result list \<Rightarrow> ('i, 'o) Pipeline" where
  "Run_start opts src =
     \<lparr>source = src, rpc = RIdle, inputCh = [], inputClosed = False,
      procs = replicate (nat (ProcessorConcurrency opts)) PIdle,
      outputCh = [], outputClosed = False, buffer = [], wdone = False,
      inflight = 0, cancelled = False, errCh = [],
      itemsRead = 0, itemsProcessed = 0, itemsWritten = 0, taken = [], written = []\<rparr>"

text \<open>
  The closure \<open>fail\<close> of \<open>Run\<close>: the error is kept if the channel has room, and the context is
  cancelled in either case. \<open>releaseInflight\<close> takes at most \<open>n\<close> tokens and never blocks, which is
  truncated subtraction.
\<close>

definition fail :: "Options \<Rightarrow> go_error \<Rightarrow> ('i, 'o) Pipeline \<Rightarrow> ('i, 'o) Pipeline" where
  "fail opts e s =
     (if int (length (errCh s)) < ProcessorConcurrency opts + 2
      then s\<lparr>errCh := errCh s @ [e], cancelled := True\<rparr>
      else s\<lparr>cancelled := True\<rparr>)"

definition releaseInflight :: "nat \<Rightarrow> ('i, 'o) Pipeline \<Rightarrow> ('i, 'o) Pipeline" where
  "releaseInflight n s = s\<lparr>inflight := inflight s - n\<rparr>"

definition flush_ok :: "'o list \<Rightarrow> ('i, 'o) Pipeline \<Rightarrow> ('i, 'o) Pipeline" where
  "flush_ok batch s =
     releaseInflight (length batch)
       (s\<lparr>written := written s @ [batch], itemsWritten := itemsWritten s + length batch,
          buffer := []\<rparr>)"

definition flush_error ::
  "Options \<Rightarrow> go_error \<Rightarrow> 'o list \<Rightarrow> ('i, 'o) Pipeline \<Rightarrow> ('i, 'o) Pipeline" where
  "flush_error opts e batch s =
     fail opts e (releaseInflight (length batch) (s\<lparr>buffer := [], wdone := True\<rparr>))"

definition reader_exit :: "('i, 'o) Pipeline \<Rightarrow> ('i, 'o) Pipeline" where
  "reader_exit s = s\<lparr>rpc := RDone, inputClosed := True\<rparr>"

definition set_proc :: "nat \<Rightarrow> ('i, 'o) proc_pc \<Rightarrow> ('i, 'o) Pipeline \<Rightarrow> ('i, 'o) Pipeline" where
  "set_proc p pc s = s\<lparr>procs := (procs s)[p := pc]\<rparr>"

definition at_proc :: "('i, 'o) Pipeline \<Rightarrow> nat \<Rightarrow> ('i, 'o) proc_pc \<Rightarrow> bool" where
  "at_proc s p pc \<longleftrightarrow> p < length (procs s) \<and> procs s ! p = pc"

section \<open>Steps\<close>

text \<open>\<open>runReader\<close>\<close>

inductive reader_step ::
  "Options \<Rightarrow> ('i, 'o) Pipeline \<Rightarrow> ('i, 'o) Pipeline \<Rightarrow> bool" for opts where
  read_item: "rpc s = RIdle \<Longrightarrow> source s = ReadItem x # xs \<Longrightarrow>
    reader_step opts s (s\<lparr>source := xs, rpc := RHold x\<rparr>)"
| read_error: "rpc s = RIdle \<Longrightarrow> source s = ReadError e # xs \<Longrightarrow>
    reader_step opts s (fail opts e (reader_exit (s\<lparr>source := xs\<rparr>)))"
| read_end: "rpc s = RIdle \<Longrightarrow> source s = [] \<Longrightarrow> reader_step opts s (reader_exit s)"
| acquire: "rpc s = RHold x \<Longrightarrow> int (inflight s) < MaxInflight opts \<Longrightarrow>
    reader_step opts s (s\<lparr>rpc := RToken x, inflight := inflight s + 1\<rparr>)"
| acquire_cancelled: "rpc s = RHold x \<Longrightarrow> cancelled s \<Longrightarrow>
    reader_step opts s (fail opts ctx_err (reader_exit s))"
| send_input: "rpc s = RToken x \<Longrightarrow> int (length (inputCh s)) < BufferedItemsSize opts \<Longrightarrow>
    reader_step opts s
      (s\<lparr>rpc := RIdle, inputCh := inputCh s @ [x], itemsRead := itemsRead s + 1\<rparr>)"
| send_input_cancelled: "rpc s = RToken x \<Longrightarrow> cancelled s \<Longrightarrow>
    reader_step opts s (fail opts ctx_err (reader_exit (releaseInflight 1 s)))"

text \<open>\<open>runProcessor\<close>, for the processor goroutine number \<open>p\<close>\<close>

inductive processor_step ::
  "Options \<Rightarrow> ('i \<Rightarrow> 'o proc_result) \<Rightarrow> ('i, 'o) Pipeline \<Rightarrow> ('i, 'o) Pipeline \<Rightarrow> bool"
  for opts process where
  proc_receive: "at_proc s p PIdle \<Longrightarrow> inputCh s = x # xs \<Longrightarrow>
    processor_step opts process s
      (set_proc p (PBusy x) (s\<lparr>inputCh := xs, taken := taken s @ [x]\<rparr>))"
| proc_closed: "at_proc s p PIdle \<Longrightarrow> inputCh s = [] \<Longrightarrow> inputClosed s \<Longrightarrow>
    processor_step opts process s (set_proc p PDone s)"
| proc_cancelled: "at_proc s p PIdle \<Longrightarrow> cancelled s \<Longrightarrow>
    processor_step opts process s (fail opts ctx_err (set_proc p PDone s))"
| proc_keep: "at_proc s p (PBusy x) \<Longrightarrow> process x = Keep y \<Longrightarrow>
    processor_step opts process s (set_proc p (POut y) s)"
| proc_drop: "at_proc s p (PBusy x) \<Longrightarrow> process x = Drop \<Longrightarrow>
    processor_step opts process s (set_proc p PIdle (releaseInflight 1 s))"
| proc_error: "at_proc s p (PBusy x) \<Longrightarrow> process x = ProcError e \<Longrightarrow>
    processor_step opts process s (fail opts e (set_proc p PDone (releaseInflight 1 s)))"
| send_output: "at_proc s p (POut y) \<Longrightarrow> int (length (outputCh s)) < BufferedItemsSize opts \<Longrightarrow>
    processor_step opts process s
      (set_proc p PIdle
        (s\<lparr>outputCh := outputCh s @ [y], itemsProcessed := itemsProcessed s + 1\<rparr>))"
| send_output_cancelled: "at_proc s p (POut y) \<Longrightarrow> cancelled s \<Longrightarrow>
    processor_step opts process s (fail opts ctx_err (set_proc p PDone (releaseInflight 1 s)))"

text \<open>\<open>runWriter\<close> with \<open>flush\<close>, and the goroutine that closes \<open>outputCh\<close>\<close>

inductive writer_step ::
  "Options \<Rightarrow> ('i, 'o) Pipeline \<Rightarrow> ('i, 'o) Pipeline \<Rightarrow> bool" for opts where
  close_output: "\<forall>pc \<in> set (procs s). pc = PDone \<Longrightarrow> \<not> outputClosed s \<Longrightarrow>
    writer_step opts s (s\<lparr>outputClosed := True\<rparr>)"
| write_buffer: "\<not> wdone s \<Longrightarrow> outputCh s = y # ys \<Longrightarrow>
    int (length (buffer s @ [y])) < WriteBatchSize opts \<Longrightarrow>
    writer_step opts s (s\<lparr>outputCh := ys, buffer := buffer s @ [y]\<rparr>)"
| write_flush: "\<not> wdone s \<Longrightarrow> outputCh s = y # ys \<Longrightarrow>
    \<not> int (length (buffer s @ [y])) < WriteBatchSize opts \<Longrightarrow>
    writer_step opts s (flush_ok (buffer s @ [y]) (s\<lparr>outputCh := ys\<rparr>))"
| write_flush_error: "\<not> wdone s \<Longrightarrow> outputCh s = y # ys \<Longrightarrow>
    \<not> int (length (buffer s @ [y])) < WriteBatchSize opts \<Longrightarrow>
    writer_step opts s (flush_error opts e (buffer s @ [y]) (s\<lparr>outputCh := ys\<rparr>))"
| write_last: "\<not> wdone s \<Longrightarrow> outputCh s = [] \<Longrightarrow> outputClosed s \<Longrightarrow> buffer s \<noteq> [] \<Longrightarrow>
    writer_step opts s (flush_ok (buffer s) (s\<lparr>wdone := True\<rparr>))"
| write_last_error: "\<not> wdone s \<Longrightarrow> outputCh s = [] \<Longrightarrow> outputClosed s \<Longrightarrow> buffer s \<noteq> [] \<Longrightarrow>
    writer_step opts s (flush_error opts e (buffer s) s)"
| write_end: "\<not> wdone s \<Longrightarrow> outputCh s = [] \<Longrightarrow> outputClosed s \<Longrightarrow> buffer s = [] \<Longrightarrow>
    writer_step opts s (s\<lparr>wdone := True\<rparr>)"
| write_cancelled: "\<not> wdone s \<Longrightarrow> cancelled s \<Longrightarrow>
    writer_step opts s (fail opts ctx_err (s\<lparr>wdone := True\<rparr>))"

text \<open>The goroutines of \<open>Run\<close>, and with the caller that may cancel the parent context.\<close>

definition goroutine_step ::
  "Options \<Rightarrow> ('i \<Rightarrow> 'o proc_result) \<Rightarrow> ('i, 'o) Pipeline \<Rightarrow> ('i, 'o) Pipeline \<Rightarrow> bool" where
  "goroutine_step opts process s t \<longleftrightarrow>
     reader_step opts s t \<or> processor_step opts process s t \<or> writer_step opts s t"

definition run_step ::
  "Options \<Rightarrow> ('i \<Rightarrow> 'o proc_result) \<Rightarrow> ('i, 'o) Pipeline \<Rightarrow> ('i, 'o) Pipeline \<Rightarrow> bool" where
  "run_step opts process s t \<longleftrightarrow>
     goroutine_step opts process s t \<or> (\<not> cancelled s \<and> t = s\<lparr>cancelled := True\<rparr>)"

text \<open>All goroutines have returned; then \<open>Run\<close> returns the first error, or the context's.\<close>

definition all_done :: "('i, 'o) Pipeline \<Rightarrow> bool" where
  "all_done s \<longleftrightarrow>
     rpc s = RDone \<and> (\<forall>pc \<in> set (procs s). pc = PDone) \<and> outputClosed s \<and> wdone s"

definition Run_result :: "('i, 'o) Pipeline \<Rightarrow> go_error option" where
  "Run_result s =
     (case errCh s of e # _ \<Rightarrow> Some e | [] \<Rightarrow> if cancelled s then Some ctx_err else None)"

section \<open>Accounting\<close>

lemmas pipe_defs = fail_def releaseInflight_def flush_ok_def flush_error_def reader_exit_def
  set_proc_def

lemmas step_elims = reader_step.cases processor_step.cases writer_step.cases

fun pload :: "('i, 'o) proc_pc \<Rightarrow> nat" where
  "pload PIdle = 0"
| "pload (PBusy x) = 1"
| "pload (POut y) = 1"
| "pload PDone = 0"

fun rload :: "'i reader_pc \<Rightarrow> nat" where
  "rload (RToken x) = 1"
| "rload _ = 0"

text \<open>The items that hold a token of the semaphore.\<close>

definition items_in_flight :: "('i, 'o) Pipeline \<Rightarrow> nat" where
  "items_in_flight s =
     rload (rpc s) + length (inputCh s) + sum_list (map pload (procs s)) +
     length (outputCh s) + length (buffer s)"

text \<open>Moving one processor changes a sum over the processors in one summand.\<close>

lemma at_procE:
  fixes f :: "('i, 'o) proc_pc \<Rightarrow> 'b::comm_monoid_add"
  assumes "at_proc s p a"
  obtains rest where "sum_list (map f (procs s)) = f a + rest"
    and "\<And>b. sum_list (map f ((procs s)[p := b])) = f b + rest"
  using assms sum_list_split_at [of p "procs s" f] by (auto simp: at_proc_def)

definition bounded :: "Options \<Rightarrow> ('i, 'o) Pipeline \<Rightarrow> bool" where
  "bounded opts s \<longleftrightarrow>
     int (inflight s) \<le> MaxInflight opts \<and>
     int (length (inputCh s)) \<le> BufferedItemsSize opts \<and>
     int (length (outputCh s)) \<le> BufferedItemsSize opts \<and>
     int (length (buffer s)) < WriteBatchSize opts \<and>
     length (procs s) = nat (ProcessorConcurrency opts) \<and>
     (\<forall>b \<in> set (written s). b \<noteq> [] \<and> int (length b) \<le> WriteBatchSize opts) \<and>
     itemsWritten s = length (concat (written s))"

lemma reader_step_in_flight:
  "reader_step opts s t \<Longrightarrow> inflight s = items_in_flight s \<Longrightarrow> inflight t = items_in_flight t"
  by (erule reader_step.cases) (auto simp: pipe_defs items_in_flight_def)

lemma processor_step_in_flight:
  "processor_step opts process s t \<Longrightarrow> inflight s = items_in_flight s \<Longrightarrow>
   inflight t = items_in_flight t"
  by (erule processor_step.cases; erule at_procE [where f = pload])
    (auto simp: pipe_defs items_in_flight_def)

lemma writer_step_in_flight:
  "writer_step opts s t \<Longrightarrow> inflight s = items_in_flight s \<Longrightarrow> inflight t = items_in_flight t"
  by (erule writer_step.cases) (auto simp: pipe_defs items_in_flight_def)

lemma reader_step_bounded: "reader_step opts s t \<Longrightarrow> bounded opts s \<Longrightarrow> bounded opts t"
  by (erule reader_step.cases) (auto simp: pipe_defs bounded_def)

lemma processor_step_bounded:
  "processor_step opts process s t \<Longrightarrow> bounded opts s \<Longrightarrow> bounded opts t"
  by (erule processor_step.cases) (auto simp: pipe_defs bounded_def)

lemma writer_step_bounded:
  "writer_step opts s t \<Longrightarrow> valid_opts opts \<Longrightarrow> bounded opts s \<Longrightarrow> bounded opts t"
  by (erule writer_step.cases) (auto simp: pipe_defs bounded_def valid_opts_def)

section \<open>Shutdown order\<close>

definition orderly :: "('i, 'o) Pipeline \<Rightarrow> bool" where
  "orderly s \<longleftrightarrow>
     (inputClosed s \<longleftrightarrow> rpc s = RDone) \<and>
     (outputClosed s \<longrightarrow> (\<forall>pc \<in> set (procs s). pc = PDone)) \<and>
     (\<not> cancelled s \<longrightarrow>
        (PDone \<in> set (procs s) \<longrightarrow> inputClosed s \<and> inputCh s = []) \<and>
        (wdone s \<longrightarrow> outputClosed s \<and> outputCh s = [] \<and> buffer s = []))"

lemma reader_step_orderly: "reader_step opts s t \<Longrightarrow> orderly s \<Longrightarrow> orderly t"
  by (erule reader_step.cases) (auto simp: pipe_defs orderly_def)

lemma all_PDone_at: "at_proc s p a \<Longrightarrow> \<forall>pc \<in> set (procs s). pc = PDone \<Longrightarrow> a = PDone"
  by (auto simp: at_proc_def)

lemma PDone_in_update: "PDone \<in> set (xs[p := b]) \<Longrightarrow> b \<noteq> PDone \<Longrightarrow> PDone \<in> set xs"
  by (metis set_update_cases)

lemma processor_step_orderly:
  assumes "processor_step opts process s t" and "orderly s"
  shows "orderly t"
  using assms
proof cases
  case (proc_closed p)
  then show ?thesis
    using assms(2) all_PDone_at [of s p PIdle] by (auto simp: pipe_defs orderly_def)
qed (use assms(2) in \<open>auto simp: pipe_defs orderly_def dest: all_PDone_at PDone_in_update\<close>)

lemma writer_step_orderly: "writer_step opts s t \<Longrightarrow> orderly s \<Longrightarrow> orderly t"
  by (erule writer_step.cases) (auto simp: pipe_defs orderly_def)

section \<open>Conservation of items\<close>

text \<open>What the callbacks make of the source: the items before the first read error, and the
  outputs the processor keeps.\<close>

fun src_items :: "'i read_result list \<Rightarrow> 'i list" where
  "src_items [] = []"
| "src_items (ReadItem x # xs) = x # src_items xs"
| "src_items (ReadError e # xs) = []"

fun kept :: "'o proc_result \<Rightarrow> 'o list" where
  "kept (Keep y) = [y]"
| "kept Drop = []"
| "kept (ProcError e) = []"

definition outputs :: "('i \<Rightarrow> 'o proc_result) \<Rightarrow> 'i list \<Rightarrow> 'o list" where
  "outputs process xs = concat (map (\<lambda>x. kept (process x)) xs)"

lemma outputs_append [simp]: "outputs process (xs @ ys) = outputs process xs @ outputs process ys"
  by (simp add: outputs_def)

lemma outputs_simps [simp]:
  "outputs process [] = []" "outputs process (x # xs) = kept (process x) @ outputs process xs"
  by (simp_all add: outputs_def)

fun rheld :: "'i reader_pc \<Rightarrow> 'i list" where
  "rheld (RHold x) = [x]"
| "rheld (RToken x) = [x]"
| "rheld _ = []"

fun pouts :: "('i \<Rightarrow> 'o proc_result) \<Rightarrow> ('i, 'o) proc_pc \<Rightarrow> 'o list" where
  "pouts process (PBusy x) = kept (process x)"
| "pouts process (POut y) = [y]"
| "pouts process _ = []"

text \<open>The reader hands on the source in order, up to where it stopped.\<close>

definition read_in_order :: "'i read_result list \<Rightarrow> ('i, 'o) Pipeline \<Rightarrow> bool" where
  "read_in_order src s \<longleftrightarrow>
     (rpc s \<noteq> RDone \<longrightarrow>
        taken s @ inputCh s @ rheld (rpc s) @ src_items (source s) = src_items src) \<and>
     (rpc s = RDone \<longrightarrow> (\<exists>rest. taken s @ inputCh s @ rest = src_items src)) \<and>
     (rpc s = RDone \<and> \<not> cancelled s \<longrightarrow> taken s @ inputCh s = src_items src)"

lemma reader_step_in_order:
  "reader_step opts s t \<Longrightarrow> read_in_order src s \<Longrightarrow> read_in_order src t"
  by (erule reader_step.cases) (auto simp: pipe_defs read_in_order_def intro: exI [of _ "[]"])

lemma processor_step_in_order:
  "processor_step opts process s t \<Longrightarrow> read_in_order src s \<Longrightarrow> read_in_order src t"
  by (erule processor_step.cases) (auto simp: pipe_defs read_in_order_def)

lemma writer_step_in_order:
  "writer_step opts s t \<Longrightarrow> read_in_order src s \<Longrightarrow> read_in_order src t"
  by (erule writer_step.cases) (auto simp: pipe_defs read_in_order_def)

text \<open>Every output of a received item is written, waiting, or was dropped after a cancellation.\<close>

definition downstream ::
  "('i \<Rightarrow> 'o proc_result) \<Rightarrow> ('i, 'o) Pipeline \<Rightarrow> 'o multiset" where
  "downstream process s =
     mset (concat (written s)) + mset (buffer s) + mset (outputCh s) +
     sum_list (map (mset \<circ> pouts process) (procs s))"

definition conserved :: "('i \<Rightarrow> 'o proc_result) \<Rightarrow> ('i, 'o) Pipeline \<Rightarrow> bool" where
  "conserved process s \<longleftrightarrow>
     downstream process s \<subseteq># mset (outputs process (taken s)) \<and>
     (\<not> cancelled s \<longrightarrow> downstream process s = mset (outputs process (taken s)))"

lemma reader_step_conserved:
  "reader_step opts s t \<Longrightarrow> conserved process s \<Longrightarrow> conserved process t"
  by (erule reader_step.cases) (auto simp: pipe_defs conserved_def downstream_def)

lemma conserved_lost:
  assumes "conserved process s" and "downstream process s = downstream process t + lost"
    and "taken t = taken s" and "cancelled t"
  shows "conserved process t"
  using assms unfolding conserved_def
  by (metis mset_subset_eq_add_left subset_mset.order_trans)

lemma writer_step_conserved:
  assumes "writer_step opts s t" and "conserved process s"
  shows "conserved process t"
  using assms(1)
proof cases
  case (write_flush_error y ys e)
  show ?thesis
    by (rule conserved_lost [OF assms(2), where lost = "mset (buffer s @ [y])"])
      (auto simp: write_flush_error pipe_defs downstream_def add_ac)
next
  case (write_last_error e)
  show ?thesis
    by (rule conserved_lost [OF assms(2), where lost = "mset (buffer s)"])
      (auto simp: write_last_error pipe_defs downstream_def add_ac)
qed (use assms(2) in \<open>auto simp: pipe_defs conserved_def downstream_def add_ac\<close>)

lemma processor_step_conserved:
  assumes "processor_step opts process s t" and "conserved process s"
  shows "conserved process t"
  using assms(1)
proof cases
  case (proc_error p x e)
  from at_procE [OF proc_error(2), of "mset \<circ> pouts process"]
  show ?thesis
    by (rule conserved_lost [OF assms(2), where lost = "{#}"])
      (auto simp: proc_error pipe_defs downstream_def add_ac)
next
  case (send_output_cancelled p y)
  from at_procE [OF send_output_cancelled(2), of "mset \<circ> pouts process"]
  show ?thesis
    by (rule conserved_lost [OF assms(2), where lost = "{#y#}"])
      (auto simp: send_output_cancelled pipe_defs downstream_def add_ac)
qed (erule at_procE [where f = "mset \<circ> pouts process"],
     use assms(2) in \<open>auto simp: pipe_defs conserved_def downstream_def add_ac\<close>)+

text \<open>With a single processor the order of the source is kept as well.\<close>

definition fifo :: "('i \<Rightarrow> 'o proc_result) \<Rightarrow> ('i, 'o) Pipeline \<Rightarrow> bool" where
  "fifo process s \<longleftrightarrow>
     (\<forall>pc. procs s = [pc] \<longrightarrow> \<not> cancelled s \<longrightarrow>
        concat (written s) @ buffer s @ outputCh s @ pouts process pc = outputs process (taken s))"

lemma reader_step_fifo: "reader_step opts s t \<Longrightarrow> fifo process s \<Longrightarrow> fifo process t"
  by (erule reader_step.cases) (auto simp: pipe_defs fifo_def)

lemma writer_step_fifo: "writer_step opts s t \<Longrightarrow> fifo process s \<Longrightarrow> fifo process t"
  by (erule writer_step.cases) (auto simp: pipe_defs fifo_def)

lemma at_proc_single: "at_proc s p a \<Longrightarrow> (procs s)[p := b] = [pc] \<Longrightarrow> procs s = [a] \<and> pc = b"
  by (cases "procs s") (auto simp: at_proc_def split: nat.splits)

lemma processor_step_fifo:
  "processor_step opts process s t \<Longrightarrow> fifo process s \<Longrightarrow> fifo process t"
  by (erule processor_step.cases) (auto simp: pipe_defs fifo_def dest!: at_proc_single)

section \<open>Progress and termination\<close>

text \<open>Each item moves towards the writer and each goroutine towards its return.\<close>

fun rrank :: "'i reader_pc \<Rightarrow> nat" where
  "rrank RIdle = 1"
| "rrank (RHold x) = 8"
| "rrank (RToken x) = 7"
| "rrank RDone = 0"

fun prank :: "('i, 'o) proc_pc \<Rightarrow> nat" where
  "prank PIdle = 1"
| "prank (PBusy x) = 5"
| "prank (POut y) = 4"
| "prank PDone = 0"

definition pipeline_rank :: "('i, 'o) Pipeline \<Rightarrow> nat" where
  "pipeline_rank s =
     8 * length (source s) + rrank (rpc s) + 5 * length (inputCh s) +
     sum_list (map prank (procs s)) + 2 * length (outputCh s) + length (buffer s) +
     (if outputClosed s then 0 else 1) + (if wdone s then 0 else 1) +
     (if cancelled s then 0 else 1)"

lemma reader_step_rank: "reader_step opts s t \<Longrightarrow> pipeline_rank t < pipeline_rank s"
  by (erule reader_step.cases) (auto simp: pipe_defs pipeline_rank_def)

lemma processor_step_rank:
  "processor_step opts process s t \<Longrightarrow> pipeline_rank t < pipeline_rank s"
  by (erule processor_step.cases; erule at_procE [where f = prank])
    (auto simp: pipe_defs pipeline_rank_def)

lemma writer_step_rank: "writer_step opts s t \<Longrightarrow> pipeline_rank t < pipeline_rank s"
  by (erule writer_step.cases) (auto simp: pipe_defs pipeline_rank_def)

lemma goroutine_step_rank: "goroutine_step opts process s t \<Longrightarrow> pipeline_rank t < pipeline_rank s"
  by (auto simp: goroutine_step_def dest: reader_step_rank processor_step_rank writer_step_rank)

text \<open>A reader or a processor that cannot move waits for room, for input or for the end.\<close>

lemma reader_stuck:
  assumes stuck: "\<nexists>t. reader_step opts s t" and "valid_opts opts" and "rpc s \<noteq> RDone"
  shows "\<not> cancelled s \<and>
    ((\<exists>x. rpc s = RHold x \<and> \<not> int (inflight s) < MaxInflight opts) \<or>
     (\<exists>x. rpc s = RToken x \<and> \<not> int (length (inputCh s)) < BufferedItemsSize opts))"
proof (cases "rpc s")
  case RIdle
  then have False
    using stuck by (metis list.exhaust read_result.exhaust read_item read_error read_end)
  then show ?thesis ..
next
  case (RHold x)
  then show ?thesis using stuck by (metis acquire acquire_cancelled)
next
  case (RToken x)
  then show ?thesis using stuck by (metis send_input send_input_cancelled)
qed (use assms in auto)

lemma processor_stuck:
  assumes stuck: "\<nexists>t. processor_step opts process s t" and at: "at_proc s p pc"
    and "pc \<noteq> PDone"
  shows "\<not> cancelled s \<and>
    (pc = PIdle \<and> inputCh s = [] \<and> \<not> inputClosed s \<or>
     (\<exists>y. pc = POut y \<and> \<not> int (length (outputCh s)) < BufferedItemsSize opts))"
proof (cases pc)
  case PIdle
  then show ?thesis
    using stuck at by (metis list.exhaust proc_receive proc_closed proc_cancelled)
next
  case (PBusy x)
  then have False
    using stuck at by (metis proc_result.exhaust proc_keep proc_drop proc_error)
  then show ?thesis ..
next
  case (POut y)
  then show ?thesis using stuck at by (metis send_output send_output_cancelled)
qed (use assms in auto)

lemma writer_stuck:
  assumes stuck: "\<nexists>t. writer_step opts s t" and "\<not> wdone s"
  shows "\<not> cancelled s \<and> outputCh s = [] \<and> \<not> outputClosed s \<and>
    (\<exists>pc \<in> set (procs s). pc \<noteq> PDone)"
proof -
  have "\<not> cancelled s" using assms by (metis write_cancelled)
  moreover have "outputCh s = []"
  proof (cases "outputCh s")
    case (Cons y ys)
    then show ?thesis using assms by (metis write_buffer write_flush)
  qed simp
  moreover from this have "\<not> outputClosed s" using assms by (metis write_last write_end)
  moreover from this have "\<exists>pc \<in> set (procs s). pc \<noteq> PDone" using stuck by (metis close_output)
  ultimately show ?thesis by blast
qed

lemma not_all_done_step:
  assumes opts: "valid_opts opts" and acc: "inflight s = items_in_flight s"
    and bd: "bounded opts s" and ord: "orderly s" and nd: "\<not> all_done s"
  shows "\<exists>t. goroutine_step opts process s t"
proof (rule ccontr)
  assume none: "\<nexists>t. goroutine_step opts process s t"
  then have r: "\<nexists>t. reader_step opts s t" and p: "\<nexists>t. processor_step opts process s t"
    and w: "\<nexists>t. writer_step opts s t"
    by (auto simp: goroutine_step_def)
  have proc_at: "\<exists>i. at_proc s i pc" if "pc \<in> set (procs s)" for pc
    using that by (auto simp: in_set_conv_nth at_proc_def)
  have live: "\<not> cancelled s \<and> outputCh s = [] \<and> \<not> outputClosed s \<and>
      (\<exists>pc \<in> set (procs s). pc \<noteq> PDone)"
  proof (cases "wdone s")
    case False
    then show ?thesis using writer_stuck [OF w] by blast
  next
    case True
    show ?thesis
    proof (cases "cancelled s")
      case False
      with True ord have closed: "outputClosed s" "\<forall>pc \<in> set (procs s). pc = PDone"
        by (auto simp: orderly_def)
      have "procs s \<noteq> []" using bd opts by (auto simp: bounded_def valid_opts_def)
      then have "PDone \<in> set (procs s)" using closed by (cases "procs s") auto
      with False ord have "rpc s = RDone" by (auto simp: orderly_def)
      with True closed nd show ?thesis by (auto simp: all_done_def)
    next
      case c: True
      then have "rpc s = RDone" using reader_stuck [OF r opts] by blast
      moreover have alld: "\<forall>pc \<in> set (procs s). pc = PDone"
        using processor_stuck [OF p] proc_at c by blast
      moreover have "outputClosed s" using alld w by (metis close_output)
      ultimately show ?thesis using True nd by (auto simp: all_done_def)
    qed
  qed
  have room: "int (length (outputCh s)) < BufferedItemsSize opts"
    using live opts by (simp add: valid_opts_def)
  have wait: "pc = PDone \<or> pc = PIdle \<and> inputCh s = [] \<and> \<not> inputClosed s"
    if "pc \<in> set (procs s)" for pc
    using processor_stuck [OF p] proc_at [OF that] room by blast
  have inp: "inputCh s = []" "\<not> inputClosed s" using live wait by blast+
  then have "rpc s \<noteq> RDone" using ord by (auto simp: orderly_def)
  from reader_stuck [OF r opts this] obtain x
    where hold: "rpc s = RHold x" "\<not> int (inflight s) < MaxInflight opts"
    using inp opts by (auto simp: valid_opts_def)
  have "sum_list (map pload (procs s)) = 0" using wait by (fastforce simp: sum_list_eq_0_iff)
  then have "inflight s = length (buffer s)"
    using acc hold inp live by (simp add: items_in_flight_def)
  then show False using hold bd opts by (simp add: bounded_def valid_opts_def)
qed

section \<open>The invariant of \<open>Run\<close>\<close>

definition pipeline_inv ::
  "Options \<Rightarrow> ('i \<Rightarrow> 'o proc_result) \<Rightarrow> 'i read_result list \<Rightarrow> ('i, 'o) Pipeline \<Rightarrow> bool" where
  "pipeline_inv opts process src s \<longleftrightarrow>
     valid_opts opts \<and> inflight s = items_in_flight s \<and> bounded opts s \<and> orderly s \<and>
     read_in_order src s \<and> conserved process s \<and> fifo process s"

lemmas step_inv_lemmas =
  reader_step_in_flight processor_step_in_flight writer_step_in_flight
  reader_step_bounded processor_step_bounded writer_step_bounded
  reader_step_orderly processor_step_orderly writer_step_orderly
  reader_step_in_order processor_step_in_order writer_step_in_order
  reader_step_conserved processor_step_conserved writer_step_conserved
  reader_step_fifo processor_step_fifo writer_step_fifo

lemma goroutine_step_inv:
  "pipeline_inv opts process src s \<Longrightarrow> goroutine_step opts process s t \<Longrightarrow>
   pipeline_inv opts process src t"
  unfolding goroutine_step_def pipeline_inv_def by (elim disjE) (blast intro: step_inv_lemmas)+

lemma cancel_inv:
  "pipeline_inv opts process src s \<Longrightarrow> pipeline_inv opts process src (s\<lparr>cancelled := True\<rparr>)"
  by (simp add: pipeline_inv_def items_in_flight_def bounded_def orderly_def read_in_order_def
      conserved_def downstream_def fifo_def)

lemma Run_start_inv: "valid_opts opts \<Longrightarrow> pipeline_inv opts process src (Run_start opts src)"
  by (auto simp: pipeline_inv_def Run_start_def items_in_flight_def bounded_def orderly_def
      read_in_order_def conserved_def downstream_def fifo_def valid_opts_def sum_list_replicate
      dest!: replicate_eq_singleton)

definition Run_init :: "Options \<Rightarrow> 'i read_result list \<Rightarrow> ('i, 'o) Pipeline \<Rightarrow> bool" where
  "Run_init opts src s \<longleftrightarrow> valid_opts opts \<and> s = Run_start opts src"

interpretation pipe: invariant_system
  "Run_init opts src" "run_step opts process" "pipeline_inv opts process src"
  for opts process src
  by unfold_locales
    (auto simp: Run_init_def run_step_def intro: Run_start_inv goroutine_step_inv cancel_inv)

interpretation pipe_run: terminating_system
  "Run_init opts src" "goroutine_step opts process" "pipeline_inv opts process src"
  all_done pipeline_rank
  for opts process src
proof unfold_locales
  fix s t :: "('a, 'b) Pipeline"
  assume inv: "pipeline_inv opts process src s"
  show "pipeline_rank t < pipeline_rank s" if "goroutine_step opts process s t"
    using that by (rule goroutine_step_rank)
  show "\<exists>t. goroutine_step opts process s t" if "\<not> all_done s"
    using inv that by (auto simp: pipeline_inv_def intro: not_all_done_step)
  show "pipeline_inv opts process src t" if "goroutine_step opts process s t"
    using inv that by (rule goroutine_step_inv)
qed (auto simp: Run_init_def intro: Run_start_inv)

lemma NewPipeline_valid: "NewPipeline n cfg r p w = Inr opts \<Longrightarrow> valid_opts opts"
  by (auto simp: NewPipeline_def Let_def validateOptions_None_iff split: option.splits if_splits)

lemma NewPipeline_reach:
  fixes s :: "('i, 'o) Pipeline"
  assumes "NewPipeline n cfg True True True = Inr opts"
    and r: "reach (\<lambda>s. s = Run_start opts src) (run_step opts process) s"
  shows "pipeline_inv opts process src s"
proof -
  have "(Run_init opts src :: ('i, 'o) Pipeline \<Rightarrow> bool) = (\<lambda>s. s = Run_start opts src)"
    using NewPipeline_valid [OF assms(1)] by (simp add: Run_init_def fun_eq_iff)
  with r show ?thesis using pipe.reach_inv [of opts src process s] by simp
qed

section \<open>Properties\<close>

definition demo_opts :: Options where
  "demo_opts = \<lparr>ShardID = 0, TotalShards = 1, BufferedItemsSize = 1, WriteBatchSize = 2,
     ProcessorConcurrency = 1, MaxInflight = 2\<rparr>"

definition demo_process :: "int \<Rightarrow> int proc_result" where
  "demo_process x = (if x < 0 then Drop else Keep (x + 1))"

lemma demo_opts_ok: "NewPipeline 4 demo_opts True True True = Inr demo_opts"
  by (simp add: NewPipeline_def withDefaults_def validateOptions_def demo_opts_def)

lemmas demo_reach =
  reach_init [where init = "\<lambda>s. s = Run_start demo_opts [ReadItem (1::int)]"
    and step = "run_step demo_opts demo_process", OF refl]

text \<open>
  Claim C9. Whatever the interleaving of the goroutines, the results of the callbacks and the
  moment the context is cancelled, the semaphore counts exactly the items between the reader and
  the last flush, and never exceeds \<open>MaxInflight\<close>; the channels and the write buffer stay within
  their capacities, and the batches handed to the writer hold only outputs of items the reader
  produced, none of them more often than the processor kept it.
\<close>

theorem pipeline_safe:
  assumes "NewPipeline numCPU cfg True True True = Inr opts"
    and "reach (\<lambda>s. s = Run_start opts src) (run_step opts process) s"
  shows "inflight s = items_in_flight s \<and> int (inflight s) \<le> MaxInflight opts \<and>
    int (length (inputCh s)) \<le> BufferedItemsSize opts \<and>
    int (length (outputCh s)) \<le> BufferedItemsSize opts \<and>
    (\<forall>b \<in> set (written s). b \<noteq> [] \<and> int (length b) \<le> WriteBatchSize opts) \<and>
    mset (concat (written s)) \<subseteq># mset (outputs process (src_items src))"
proof -
  have inv: "pipeline_inv opts process src s" using NewPipeline_reach assms by blast
  then obtain rest where "taken s @ rest = src_items src"
    by (cases "rpc s = RDone") (fastforce simp: pipeline_inv_def read_in_order_def)+
  then have "mset (outputs process (taken s)) \<subseteq># mset (outputs process (src_items src))"
    by (metis mset_append mset_subset_eq_add_left outputs_append)
  moreover have "mset (concat (written s)) \<subseteq># downstream process s"
    by (simp add: downstream_def add.assoc)
  ultimately show ?thesis
    using inv unfolding pipeline_inv_def bounded_def conserved_def
    by (meson subset_mset.order_trans)
qed

theorem pipeline_safe_witness:
  "inflight (Run_start demo_opts [ReadItem (1::int)] :: (int, int) Pipeline) = 0 \<and>
   int (inflight (Run_start demo_opts [ReadItem (1::int)] :: (int, int) Pipeline)) \<le> 2"
  using pipeline_safe [OF demo_opts_ok demo_reach]
  by (simp add: demo_opts_def Run_start_def)

text \<open>
  Claim C11. The pipeline cannot deadlock: from every state of a run some goroutine can move until
  all have returned, and a run makes at most \<open>pipeline_rank\<close> moves, so \<open>Run\<close> returns. This rests
  on the last check of \<open>validateOptions\<close>, \<open>MaxInflight >= WriteBatchSize\<close>.
\<close>

theorem pipeline_returns:
  assumes "NewPipeline numCPU cfg True True True = Inr opts"
    and "reach (\<lambda>s. s = Run_start opts src) (run_step opts process) s"
  shows "(\<not> all_done s \<longrightarrow> (\<exists>t. goroutine_step opts process s t)) \<and>
    (\<exists>t. (goroutine_step opts process)\<^sup>*\<^sup>* s t \<and> all_done t) \<and>
    (\<forall>n t. (goroutine_step opts process ^^ n) s t \<longrightarrow> n \<le> pipeline_rank s)"
proof -
  have inv: "pipeline_inv opts process src s" using NewPipeline_reach assms by blast
  then show ?thesis
    using pipe_run.progress [OF inv] pipe_run.run_ends [OF inv]
      pipe_run.run_bounded [where process = process, OF _ inv] by fastforce
qed

theorem pipeline_returns_witness:
  "\<exists>t. (goroutine_step demo_opts demo_process)\<^sup>*\<^sup>* (Run_start demo_opts [ReadItem 1]) t \<and> all_done t"
  using pipeline_returns [OF demo_opts_ok demo_reach] by blast

text \<open>
  Claim C13. When all goroutines have returned and \<open>Run\<close> returns nil, every output was written
  exactly once: the written batches are the outputs of the whole source. With one processor they
  are in the order of the source.
\<close>

theorem pipeline_complete:
  assumes "NewPipeline numCPU cfg True True True = Inr opts"
    and "reach (\<lambda>s. s = Run_start opts src) (run_step opts process) s"
    and "all_done s" and "Run_result s = None"
  shows "mset (concat (written s)) = mset (outputs process (src_items src)) \<and>
    itemsWritten s = length (outputs process (src_items src)) \<and>
    (ProcessorConcurrency opts = 1 \<longrightarrow> concat (written s) = outputs process (src_items src))"
proof -
  have inv: "pipeline_inv opts process src s" using NewPipeline_reach assms by blast
  have live: "\<not> cancelled s" using assms(4) by (auto simp: Run_result_def split: list.splits if_splits)
  have len: "length (procs s) = nat (ProcessorConcurrency opts)" "0 < ProcessorConcurrency opts"
    using inv by (auto simp: pipeline_inv_def bounded_def valid_opts_def)
  then obtain pc where "pc \<in> set (procs s)" by (cases "procs s") auto
  then have "PDone \<in> set (procs s)" using assms(3) by (auto simp: all_done_def)
  then have drained: "inputCh s = []" "outputCh s = []" "buffer s = []" "rpc s = RDone"
    using inv live assms(3) by (auto simp: pipeline_inv_def orderly_def all_done_def)
  have taken: "taken s = src_items src"
    using inv live drained by (auto simp: pipeline_inv_def read_in_order_def)
  have "sum_list (map (mset \<circ> pouts process) (procs s)) = {#}"
    using assms(3) by (intro sum_list_all_zero) (auto simp: all_done_def)
  then have "mset (concat (written s)) = mset (outputs process (src_items src))"
    using inv live drained taken by (simp add: pipeline_inv_def conserved_def downstream_def)
  moreover from this have "length (concat (written s)) = length (outputs process (src_items src))"
    by (metis size_mset)
  moreover have "concat (written s) = outputs process (src_items src)" if "ProcessorConcurrency opts = 1"
  proof -
    from that len obtain pc where "procs s = [pc]" by (cases "procs s") auto
    then show ?thesis using inv live drained taken assms(3)
      by (auto simp: pipeline_inv_def fifo_def all_done_def)
  qed
  ultimately show ?thesis using inv by (simp add: pipeline_inv_def bounded_def)
qed

lemma reach_goroutine:
  assumes "reach I (run_step opts process) s"
  shows "reader_step opts s t \<Longrightarrow> reach I (run_step opts process) t"
    and "processor_step opts process s t \<Longrightarrow> reach I (run_step opts process) t"
    and "writer_step opts s t \<Longrightarrow> reach I (run_step opts process) t"
  using assms by (auto intro: reach_step simp: run_step_def goroutine_step_def)

text \<open>A run over one item, goroutine by goroutine.\<close>

lemma demo_run:
  "\<exists>s. reach (\<lambda>s. s = Run_start demo_opts [ReadItem (1::int)]) (run_step demo_opts demo_process) s \<and>
       all_done s \<and> Run_result s = None \<and> written s = [[2]]"
proof -
  let ?R = "reach (\<lambda>s. s = Run_start demo_opts [ReadItem (1::int)]) (run_step demo_opts demo_process)"
  note simps = pipe_defs at_proc_def demo_opts_def demo_process_def Run_start_def
  let ?s0 = "Run_start demo_opts [ReadItem (1::int)] :: (int, int) Pipeline"
  let ?s1 = "?s0\<lparr>source := [], rpc := RHold 1\<rparr>"
  let ?s2 = "?s1\<lparr>rpc := RToken 1, inflight := inflight ?s1 + 1\<rparr>"
  let ?s3 = "?s2\<lparr>rpc := RIdle, inputCh := inputCh ?s2 @ [1], itemsRead := itemsRead ?s2 + 1\<rparr>"
  let ?s4 = "set_proc 0 (PBusy 1) (?s3\<lparr>inputCh := [], taken := taken ?s3 @ [1]\<rparr>)"
  let ?s5 = "set_proc 0 (POut 2) ?s4"
  let ?s6 = "set_proc 0 PIdle
      (?s5\<lparr>outputCh := outputCh ?s5 @ [2], itemsProcessed := itemsProcessed ?s5 + 1\<rparr>)"
  let ?s7 = "reader_exit ?s6"
  let ?s8 = "set_proc 0 PDone ?s7"
  let ?s9 = "?s8\<lparr>outputCh := [], buffer := buffer ?s8 @ [2]\<rparr>"
  let ?s10 = "?s9\<lparr>outputClosed := True\<rparr>"
  let ?s11 = "flush_ok (buffer ?s10) (?s10\<lparr>wdone := True\<rparr>)"
  have "?R ?s1" by (rule reach_goroutine(1) [OF demo_reach read_item]) (auto simp: simps)
  then have "?R ?s2" by (rule reach_goroutine(1) [OF _ acquire]) (auto simp: simps)
  then have "?R ?s3" by (rule reach_goroutine(1) [OF _ send_input]) (auto simp: simps)
  then have "?R ?s4" by (rule reach_goroutine(2) [OF _ proc_receive]) (auto simp: simps)
  then have "?R ?s5" by (rule reach_goroutine(2) [OF _ proc_keep]) (auto simp: simps)
  then have "?R ?s6" by (rule reach_goroutine(2) [OF _ send_output]) (auto simp: simps)
  then have "?R ?s7" by (rule reach_goroutine(1) [OF _ read_end]) (auto simp: simps)
  then have "?R ?s8" by (rule reach_goroutine(2) [OF _ proc_closed]) (auto simp: simps)
  then have "?R ?s9" by (rule reach_goroutine(3) [OF _ write_buffer]) (auto simp: simps)
  then have "?R ?s10" by (rule reach_goroutine(3) [OF _ close_output]) (auto simp: simps)
  then have "?R ?s11" by (rule reach_goroutine(3) [OF _ write_last]) (auto simp: simps)
  moreover have "all_done ?s11" "Run_result ?s11 = None" "written ?s11 = [[2]]"
    by (auto simp: simps all_done_def Run_result_def)
  ultimately show ?thesis by blast
qed

theorem pipeline_complete_witness:
  "\<exists>s. reach (\<lambda>s. s = Run_start demo_opts [ReadItem (1::int)]) (run_step demo_opts demo_process) s \<and>
       written s = [[2]] \<and> concat (written s) = outputs demo_process (src_items [ReadItem 1]) \<and>
       itemsWritten s = 1"
  using demo_run pipeline_complete [OF demo_opts_ok]
  by (fastforce simp: demo_opts_def demo_process_def)

end
