(* ===== verification/Delivery_Domain.thy ===== *)
theory Delivery_Domain
  imports Events
begin

text \<open>
  The delivery module's domain package, \<open>internal/modules/delivery/domain\<close>: the status constants
  and their predicates, the structs, and the rules for the states of a message. Statuses are
  strings in the code and in the database, so they are strings here and every \<open>switch\<close> keeps its
  default branch. A struct becomes a record whose fields carry a prefix (\<open>m_\<close> for \<open>Message\<close>,
  \<open>a_\<close> for \<open>DeliveryAttempt\<close>, \<open>r_\<close> for \<open>RetryState\<close>, \<open>q_\<close> for \<open>TransactionalSendRequest\<close>,
  \<open>e_\<close> for \<open>MessageEvent\<close>, \<open>f_\<close> for \<open>AttachmentManifest\<close>).
\<close>

section \<open>Errors\<close>

datatype error =
    ErrPayloadInvalid
  | ErrMessageNotFound
  | ErrAttemptNotFound
  | ErrTransactionalRequestNotFound
  | ErrInvalidStateTransition
  | ErrDuplicateMessage
  | ErrCampaignScheduleInvalid
  | ErrCampaignCandidatesNotFound
  | ErrSuppressedRecipient
  | ErrSenderNotReady
  | ErrSenderDomainNotFound
  | ErrSenderDomainNotVerified
  | ErrTemplateNotFound
  | ErrTemplateRenderPayloadInvalid
  | ErrTemplateRenderFailed
  | ErrProviderTemporaryFailure
  | ErrProviderPermanentFailure
  | ErrReadDenied
  | ErrRequestBodyInvalid
  | ErrIdempotencyKeyConflict
  | ErrRecipientInvalid
  | ErrTemporarilyUnavailable
  | ErrModeInvalid
  | ErrRawBodyRequired
  | ErrAttachmentTooLarge
  | ErrDuplicateRecipient
  | ErrSubjectRequired
  | ErrAttachmentNotSupported
  | ErrAttachmentStorageFailed
  | ErrObjectStorageDisabled
  | ErrAPIKeyQuotaExceeded

section \<open>Constants\<close>

definition MessageStatusQueued :: string where [simp]: "MessageStatusQueued = ''queued''"
definition MessageStatusProcessing :: string where [simp]: "MessageStatusProcessing = ''processing''"
definition MessageStatusAccepted :: string where [simp]: "MessageStatusAccepted = ''accepted''"
definition MessageStatusDelivered :: string where [simp]: "MessageStatusDelivered = ''delivered''"
definition MessageStatusDelayed :: string where [simp]: "MessageStatusDelayed = ''delayed''"
definition MessageStatusBounced :: string where [simp]: "MessageStatusBounced = ''bounced''"
definition MessageStatusComplained :: string where [simp]: "MessageStatusComplained = ''complained''"
definition MessageStatusFailed :: string where [simp]: "MessageStatusFailed = ''failed''"
definition MessageStatusCancelled :: string where [simp]: "MessageStatusCancelled = ''cancelled''"
definition MessageStatusDLQ :: string where [simp]: "MessageStatusDLQ = ''dlq''"

definition MessageSourceCampaign :: string where [simp]: "MessageSourceCampaign = ''campaign''"
definition MessageSourceTransactional :: string where
  [simp]: "MessageSourceTransactional = ''transactional''"
definition MessageTypeMarketing :: string where [simp]: "MessageTypeMarketing = ''marketing''"
definition MessageTypeTransactional :: string where
  [simp]: "MessageTypeTransactional = ''transactional''"

definition AttemptStatusStarted :: string where [simp]: "AttemptStatusStarted = ''started''"
definition AttemptStatusAccepted :: string where [simp]: "AttemptStatusAccepted = ''accepted''"
definition AttemptStatusTemporaryFailed :: string where
  [simp]: "AttemptStatusTemporaryFailed = ''temporary_failed''"
definition AttemptStatusPermanentFailed :: string where
  [simp]: "AttemptStatusPermanentFailed = ''permanent_failed''"

definition RetryStatusPending :: string where [simp]: "RetryStatusPending = ''pending''"
definition RetryStatusScheduled :: string where [simp]: "RetryStatusScheduled = ''scheduled''"
definition RetryStatusExhausted :: string where [simp]: "RetryStatusExhausted = ''exhausted''"
definition RetryStatusCancelled :: string where [simp]: "RetryStatusCancelled = ''cancelled''"

definition TxRequestStatusAccepted :: string where [simp]: "TxRequestStatusAccepted = ''accepted''"
definition TxRequestStatusProcessing :: string where [simp]: "TxRequestStatusProcessing = ''processing''"
definition TxRequestStatusFailed :: string where [simp]: "TxRequestStatusFailed = ''failed''"
definition TxRequestStatusCompleted :: string where [simp]: "TxRequestStatusCompleted = ''completed''"

definition MessageModeTemplate :: string where [simp]: "MessageModeTemplate = ''template''"
definition MessageModeRaw :: string where [simp]: "MessageModeRaw = ''raw''"
definition RecipientRoleTo :: string where [simp]: "RecipientRoleTo = ''to''"
definition RecipientRoleCC :: string where [simp]: "RecipientRoleCC = ''cc''"
definition RecipientRoleBCC :: string where [simp]: "RecipientRoleBCC = ''bcc''"

definition MessageEventRequestAccepted :: string where
  [simp]: "MessageEventRequestAccepted = ''request_accepted''"
definition MessageEventSuppressed :: string where [simp]: "MessageEventSuppressed = ''suppressed''"
definition MessageEventRequestCompleted :: string where
  [simp]: "MessageEventRequestCompleted = ''request_completed''"
definition MessageEventQueued :: string where [simp]: "MessageEventQueued = ''queued''"
definition MessageEventProcessingStarted :: string where
  [simp]: "MessageEventProcessingStarted = ''processing_started''"
definition MessageEventProviderAccepted :: string where
  [simp]: "MessageEventProviderAccepted = ''provider_accepted''"
definition MessageEventDelivered :: string where [simp]: "MessageEventDelivered = ''delivered''"
definition MessageEventBounced :: string where [simp]: "MessageEventBounced = ''bounced''"
definition MessageEventComplained :: string where [simp]: "MessageEventComplained = ''complained''"
definition MessageEventRetryScheduled :: string where
  [simp]: "MessageEventRetryScheduled = ''retry_scheduled''"
definition MessageEventFailed :: string where [simp]: "MessageEventFailed = ''failed''"

definition AttachmentDispositionAttachment :: string where
  [simp]: "AttachmentDispositionAttachment = ''attachment''"
definition AttachmentDispositionInline :: string where
  [simp]: "AttachmentDispositionInline = ''inline''"

section \<open>Structs\<close>

record RecipientSnapshot =
  rs_ContactID :: string
  rs_Email :: string
  rs_EmailNormalized :: string
  rs_FirstName :: string
  rs_LastName :: string
  rs_Tags :: "string list"
  rs_Attributes :: "jsonmap option"
  rs_TemplateData :: "jsonmap option"

record RecipientTarget =
  rt_Email :: string
  rt_Name :: string

record FilePart =
  fp_Filename :: string
  fp_ContentType :: string
  fp_Size :: int
  fp_SHA256 :: string
  fp_Disposition :: string
  fp_ContentID :: string

record CanonicalSendRequest =
  c_Mode :: string
  c_WorkspaceID :: string
  c_APIKeyID :: string
  c_IdempotencyKey :: string
  c_SenderDomainID :: string
  c_SenderName :: string
  c_Subject :: string
  c_TemplateID :: string
  c_TemplateVersionID :: string
  c_TemplateData :: "jsonmap option"
  c_TextBody :: string
  c_HTMLBody :: string
  c_ReplyTo :: string
  c_To :: "RecipientTarget list"
  c_CC :: "RecipientTarget list"
  c_BCC :: "RecipientTarget list"
  c_Metadata :: "jsonmap option"
  c_Tags :: "string list"
  c_Headers :: "(string \<rightharpoonup> string) option"
  c_Attachments :: "FilePart list"
  c_Now :: gotime

record MessageEvent =
  e_ID :: string
  e_WorkspaceID :: string
  e_MessageID :: string
  e_TransactionalRequestID :: string
  e_EventType :: string
  e_Status :: string
  e_ReasonCode :: string
  e_ReasonMessage :: string
  e_OccurredAt :: gotime
  e_CreatedAt :: gotime

record AttachmentManifest =
  f_ID :: string
  f_WorkspaceID :: string
  f_TransactionalRequestID :: string
  f_StorageKey :: string
  f_OriginalFilename :: string
  f_ContentType :: string
  f_ByteSize :: int
  f_SHA256Digest :: string
  f_Disposition :: string
  f_ContentID :: string
  f_CreatedAt :: gotime

record Message =
  m_ID :: string
  m_WorkspaceID :: string
  m_CampaignID :: string
  m_CampaignCandidateID :: string
  m_TransactionalRequestID :: string
  m_ContactID :: string
  m_RecipientEmailNormalized :: string
  m_RecipientSnapshot :: RecipientSnapshot
  m_TemplateID :: string
  m_TemplateVersionID :: string
  m_SenderDomainID :: string
  m_Subject :: string
  m_SenderName :: string
  m_TextBody :: string
  m_HTMLBody :: string
  m_ReplyTo :: string
  m_Headers :: "(string \<rightharpoonup> string) option"
  m_RecipientRole :: string
  m_SourceAPIKeyID :: string
  m_MessageType :: string
  m_SourceType :: string
  m_Status :: string
  m_ScheduledAt :: "gotime option"
  m_QueuedAt :: "gotime option"
  m_ProcessingStartedAt :: "gotime option"
  m_AcceptedAt :: "gotime option"
  m_DeliveredAt :: "gotime option"
  m_BouncedAt :: "gotime option"
  m_ComplainedAt :: "gotime option"
  m_FailedAt :: "gotime option"
  m_LastErrorClass :: string
  m_LastErrorMessage :: string
  m_Provider :: string
  m_ProviderMessageID :: string
  m_CreatedAt :: gotime
  m_UpdatedAt :: gotime

text \<open>The value of a struct literal that names no field.\<close>

definition zero_RecipientSnapshot :: RecipientSnapshot where
  "zero_RecipientSnapshot =
     \<lparr>rs_ContactID = [], rs_Email = [], rs_EmailNormalized = [], rs_FirstName = [],
      rs_LastName = [], rs_Tags = [], rs_Attributes = None, rs_TemplateData = None\<rparr>"

definition zero_Message :: Message where
  "zero_Message =
     \<lparr>m_ID = [], m_WorkspaceID = [], m_CampaignID = [], m_CampaignCandidateID = [],
      m_TransactionalRequestID = [], m_ContactID = [], m_RecipientEmailNormalized = [],
      m_RecipientSnapshot = zero_RecipientSnapshot,
      m_TemplateID = [], m_TemplateVersionID = [], m_SenderDomainID = [], m_Subject = [],
      m_SenderName = [], m_TextBody = [], m_HTMLBody = [], m_ReplyTo = [],
      m_Headers = None, m_RecipientRole = [], m_SourceAPIKeyID = [], m_MessageType = [],
      m_SourceType = [], m_Status = [], m_ScheduledAt = None, m_QueuedAt = None,
      m_ProcessingStartedAt = None, m_AcceptedAt = None, m_DeliveredAt = None,
      m_BouncedAt = None, m_ComplainedAt = None, m_FailedAt = None, m_LastErrorClass = [],
      m_LastErrorMessage = [], m_Provider = [], m_ProviderMessageID = [],
      m_CreatedAt = 0, m_UpdatedAt = 0\<rparr>"

record DeliveryAttempt =
  a_ID :: string
  a_WorkspaceID :: string
  a_MessageID :: string
  a_AttemptNo :: int
  a_Provider :: string
  a_Status :: string
  a_RequestSnapshot :: json
  a_ResponseSnapshot :: json
  a_ErrorClass :: string
  a_ErrorMessage :: string
  a_StartedAt :: gotime
  a_FinishedAt :: "gotime option"

record RetryState =
  r_ID :: string
  r_WorkspaceID :: string
  r_MessageID :: string
  r_RetryCount :: int
  r_MaxRetries :: int
  r_NextAttemptAt :: "gotime option"
  r_LastErrorClass :: string
  r_LastErrorMessage :: string
  r_Status :: string
  r_CreatedAt :: gotime
  r_UpdatedAt :: gotime

record TransactionalSendRequest =
  q_ID :: string
  q_WorkspaceID :: string
  q_IdempotencyKey :: "string option"
  q_Status :: string
  q_RequestPayload :: CanonicalSendRequest
  q_Mode :: string
  q_Subject :: string
  q_SenderName :: string
  q_SourceAPIKeyID :: string
  q_RequestHash :: string
  q_TotalRecipients :: int
  q_CreatedAt :: gotime
  q_UpdatedAt :: gotime
  q_CompletedAt :: "gotime option"
  q_FailedAt :: "gotime option"

definition zero_CanonicalSendRequest :: CanonicalSendRequest where
  "zero_CanonicalSendRequest =
     \<lparr>c_Mode = [], c_WorkspaceID = [], c_APIKeyID = [], c_IdempotencyKey = [], c_SenderDomainID = [], c_SenderName = [],
      c_Subject = [], c_TemplateID = [], c_TemplateVersionID = [], c_TemplateData = None, c_TextBody = [],
      c_HTMLBody = [], c_ReplyTo = [], c_To = [], c_CC = [], c_BCC = [], c_Metadata = None, c_Tags = [],
      c_Headers = None, c_Attachments = [], c_Now = 0\<rparr>"

section \<open>Predicates\<close>

definition ValidMessageStatus :: "string \<Rightarrow> bool" where
  "ValidMessageStatus s \<longleftrightarrow>
     s \<in> set [MessageStatusQueued, MessageStatusProcessing, MessageStatusAccepted,
       MessageStatusDelivered, MessageStatusDelayed, MessageStatusBounced,
       MessageStatusComplained, MessageStatusFailed, MessageStatusCancelled, MessageStatusDLQ]"

definition ValidMessageSourceType :: "string \<Rightarrow> bool" where
  "ValidMessageSourceType s \<longleftrightarrow> s \<in> set [MessageSourceCampaign, MessageSourceTransactional]"

definition ValidMessageType :: "string \<Rightarrow> bool" where
  "ValidMessageType s \<longleftrightarrow> s \<in> set [MessageTypeMarketing, MessageTypeTransactional]"

definition ValidMessageMode :: "string \<Rightarrow> bool" where
  "ValidMessageMode s \<longleftrightarrow> s = MessageModeTemplate \<or> s = MessageModeRaw"

definition ValidMessageEventType :: "string \<Rightarrow> bool" where
  "ValidMessageEventType s \<longleftrightarrow>
     s \<in> set [MessageEventRequestAccepted, MessageEventQueued, MessageEventProcessingStarted,
       MessageEventProviderAccepted, MessageEventDelivered, MessageEventBounced, MessageEventComplained,
       MessageEventRetryScheduled, MessageEventFailed, MessageEventSuppressed, MessageEventRequestCompleted]"

definition ValidAttachmentDisposition :: "string \<Rightarrow> bool" where
  "ValidAttachmentDisposition s \<longleftrightarrow> s = AttachmentDispositionAttachment \<or> s = AttachmentDispositionInline"

definition ValidAttemptStatus :: "string \<Rightarrow> bool" where
  "ValidAttemptStatus s \<longleftrightarrow>
     s \<in> set [AttemptStatusStarted, AttemptStatusAccepted, AttemptStatusTemporaryFailed, AttemptStatusPermanentFailed]"

definition ValidRetryStatus :: "string \<Rightarrow> bool" where
  "ValidRetryStatus s \<longleftrightarrow>
     s \<in> set [RetryStatusPending, RetryStatusScheduled, RetryStatusExhausted, RetryStatusCancelled]"

definition ValidRecipientRole :: "string \<Rightarrow> bool" where
  "ValidRecipientRole s \<longleftrightarrow> s = RecipientRoleTo \<or> s = RecipientRoleCC \<or> s = RecipientRoleBCC"

definition ValidateRecipientSnapshot :: "RecipientSnapshot \<Rightarrow> error option" where
  "ValidateRecipientSnapshot rs =
     (if rs_EmailNormalized rs = [] then Some ErrPayloadInvalid else None)"

definition ValidateQueuedMessage :: "Message \<Rightarrow> error option" where
  "ValidateQueuedMessage msg =
     (if m_WorkspaceID msg = [] then Some ErrPayloadInvalid
      else if m_RecipientEmailNormalized msg = [] then Some ErrPayloadInvalid
      else case ValidateRecipientSnapshot (m_RecipientSnapshot msg) of
        Some e \<Rightarrow> Some e
      | None \<Rightarrow>
          if m_SenderDomainID msg = [] then Some ErrPayloadInvalid
          else if \<not> ValidMessageType (m_MessageType msg) then Some ErrPayloadInvalid
          else if \<not> ValidMessageSourceType (m_SourceType msg) then Some ErrPayloadInvalid
          else if m_RecipientRole msg \<noteq> [] \<and> \<not> ValidRecipientRole (m_RecipientRole msg)
            then Some ErrPayloadInvalid
          else None)"

datatype new_message_error =
    MessageIDRequired | WorkspaceIDRequired | RecipientEmailRequired
  | ValidMessageTypeRequired | ValidSourceTypeRequired

definition NewMessage ::
  "string \<Rightarrow> string \<Rightarrow> string \<Rightarrow> string \<Rightarrow> string \<Rightarrow> gotime \<Rightarrow> new_message_error + Message" where
  "NewMessage msgID workspaceID recipientEmailNormalized messageType sourceType now =
     (if msgID = [] then Inl MessageIDRequired
      else if workspaceID = [] then Inl WorkspaceIDRequired
      else if recipientEmailNormalized = [] then Inl RecipientEmailRequired
      else if \<not> ValidMessageType messageType then Inl ValidMessageTypeRequired
      else if \<not> ValidMessageSourceType sourceType then Inl ValidSourceTypeRequired
      else Inr (zero_Message\<lparr>
        m_ID := msgID, m_WorkspaceID := workspaceID,
        m_RecipientEmailNormalized := recipientEmailNormalized,
        m_MessageType := messageType, m_SourceType := sourceType,
        m_Status := MessageStatusQueued, m_CreatedAt := now, m_UpdatedAt := now\<rparr>))"

section \<open>The states of a message\<close>

text \<open>The status a provider event asks for; \<open>None\<close> where the Go function returns \<open>false\<close>.\<close>

definition ClassifyProviderEvent :: "string \<Rightarrow> string option" where
  "ClassifyProviderEvent providerEventType =
     (if providerEventType = MessageEventDelivered then Some MessageStatusDelivered
      else if providerEventType = MessageEventBounced then Some MessageStatusBounced
      else if providerEventType = MessageEventComplained then Some MessageStatusComplained
      else if providerEventType = ''delayed'' then Some MessageStatusDelayed
      else if providerEventType = ''rejected'' then Some MessageStatusFailed
      else None)"

definition CanTransitionToStatus :: "string \<Rightarrow> string \<Rightarrow> bool" where
  "CanTransitionToStatus currentStatus newStatus =
     (if currentStatus = newStatus then True
      else if currentStatus \<in> set [MessageStatusBounced, MessageStatusFailed,
          MessageStatusCancelled, MessageStatusDLQ] then False
      else if currentStatus = MessageStatusComplained then newStatus = MessageStatusComplained
      else if currentStatus = MessageStatusDelivered
        then newStatus = MessageStatusDelivered \<or> newStatus = MessageStatusComplained
      else if currentStatus = MessageStatusDelayed then newStatus \<noteq> MessageStatusAccepted
      else if currentStatus = MessageStatusAccepted then True
      else if currentStatus = MessageStatusProcessing then newStatus \<noteq> MessageStatusAccepted
      else if currentStatus = MessageStatusQueued
        then newStatus \<noteq> MessageStatusDelivered \<and> newStatus \<noteq> MessageStatusComplained
      else False)"

definition IsTerminal :: "Message \<Rightarrow> bool" where
  "IsTerminal m \<longleftrightarrow>
     m_Status m \<in> set [MessageStatusDelivered, MessageStatusBounced, MessageStatusComplained,
       MessageStatusFailed, MessageStatusCancelled, MessageStatusDLQ]"

definition CanStartProcessing :: "Message \<Rightarrow> bool" where
  "CanStartProcessing m \<longleftrightarrow> m_Status m = MessageStatusQueued"

definition CanMarkAccepted :: "Message \<Rightarrow> bool" where
  "CanMarkAccepted m \<longleftrightarrow> m_Status m = MessageStatusProcessing"

definition CanMarkDelivered :: "Message \<Rightarrow> bool" where
  "CanMarkDelivered m \<longleftrightarrow>
     m_Status m = MessageStatusAccepted \<or> m_Status m = MessageStatusDelayed"

definition CanMarkBounced :: "Message \<Rightarrow> bool" where
  "CanMarkBounced m \<longleftrightarrow>
     m_Status m = MessageStatusQueued \<or> m_Status m = MessageStatusProcessing \<or>
     m_Status m = MessageStatusAccepted \<or> m_Status m = MessageStatusDelayed"

definition CanMarkComplained :: "Message \<Rightarrow> bool" where
  "CanMarkComplained m \<longleftrightarrow>
     m_Status m = MessageStatusAccepted \<or> m_Status m = MessageStatusDelivered \<or>
     m_Status m = MessageStatusDelayed"

definition CanFail :: "Message \<Rightarrow> bool" where
  "CanFail m \<longleftrightarrow> \<not> IsTerminal m"

section \<open>Facts\<close>

lemmas status_defs = CanTransitionToStatus_def ClassifyProviderEvent_def IsTerminal_def

lemma ClassifyProviderEvent_range:
  "ClassifyProviderEvent t = Some st \<Longrightarrow>
   st \<in> {''delivered'', ''bounced'', ''complained'', ''delayed'', ''failed''}"
  by (auto simp: ClassifyProviderEvent_def split: if_splits)

lemma ClassifyProviderEvent_not_queued:
  "ClassifyProviderEvent t = Some st \<Longrightarrow> st \<noteq> ''queued'' \<and> st \<noteq> ''processing'' \<and> st \<noteq> ''accepted''"
  by (auto dest: ClassifyProviderEvent_range)

text \<open>Once a message is in a terminal state, the only way on is from delivered to complained.\<close>

lemma terminal_transition:
  "IsTerminal m \<Longrightarrow> CanTransitionToStatus (m_Status m) st \<Longrightarrow>
   st = m_Status m \<or> m_Status m = ''delivered'' \<and> st = ''complained''"
  by (auto simp: status_defs split: if_splits)

lemma NewMessage_queued:
  "NewMessage i w r t s now = Inr m \<Longrightarrow> CanStartProcessing m \<and> \<not> IsTerminal m \<and> ValidMessageType (m_MessageType m)"
  by (auto simp: NewMessage_def CanStartProcessing_def IsTerminal_def split: if_splits)

end
