(* ===== verification/Suppression.thy ===== *)
theory Suppression
  imports World Pagination Events
begin

text \<open>
  The suppression module (\<open>internal/modules/suppression\<close>): the list of addresses a workspace must
  not write to. Domain rules, the PostgreSQL repository, and the handlers that create, remove,
  list and check entries. The repository talks to the pool and never to the transaction of the
  context, so the table is not part of the store that a rollback restores: it is a field of its
  own, and its statements take effect at once.
\<close>

section \<open>Domain\<close>

datatype supp_error =
    SuppReadDenied
  | ErrManageDenied
  | ErrEntryNotFound
  | ErrUnsuppressConflict
  | ErrScopeInvalid
  | ErrReasonInvalid
  | ErrEmailInvalid

definition SuppressionStatusActive :: string where [simp]: "SuppressionStatusActive = ''active''"
definition SuppressionStatusRemoved :: string where [simp]: "SuppressionStatusRemoved = ''removed''"
definition SuppressionScopeWorkspace :: string where [simp]: "SuppressionScopeWorkspace = ''workspace''"
definition SuppressionScopeList :: string where [simp]: "SuppressionScopeList = ''list''"
definition SuppressionScopeGlobal :: string where [simp]: "SuppressionScopeGlobal = ''global''"
definition SuppressionReasonManualBlock :: string where
  [simp]: "SuppressionReasonManualBlock = ''manual_block''"
definition SuppressionReasonBounce :: string where [simp]: "SuppressionReasonBounce = ''bounce''"
definition SuppressionReasonComplaint :: string where
  [simp]: "SuppressionReasonComplaint = ''complaint''"
definition SuppressionReasonUnsubscribe :: string where
  [simp]: "SuppressionReasonUnsubscribe = ''unsubscribe''"

record SuppressionEntry =
  s_ID :: string
  s_WorkspaceID :: string
  s_Email :: string
  s_EmailNormalized :: string
  s_Scope :: string
  s_Reason :: string
  s_Status :: string
  s_Note :: string
  s_CreatedAt :: gotime
  s_UpdatedAt :: gotime
  s_RemovedAt :: "gotime option"

definition ValidSuppressionScope :: "string \<Rightarrow> bool" where
  "ValidSuppressionScope s \<longleftrightarrow>
     s \<in> set [SuppressionScopeWorkspace, SuppressionScopeList, SuppressionScopeGlobal]"

definition ValidSuppressionReason :: "string \<Rightarrow> bool" where
  "ValidSuppressionReason s \<longleftrightarrow>
     s \<in> set [SuppressionReasonManualBlock, SuppressionReasonBounce, SuppressionReasonComplaint,
       SuppressionReasonUnsubscribe]"

definition NormalizeEmail :: "string \<Rightarrow> string" where
  "NormalizeEmail email = ToLower (TrimSpace email)"

datatype new_entry_error =
    EntryIDRequired | EntryWorkspaceRequired | EntryEmailRequired | EntryScopeRequired | EntryReasonRequired

definition NewSuppressionEntry ::
  "string \<Rightarrow> string \<Rightarrow> string \<Rightarrow> string \<Rightarrow> string \<Rightarrow> gotime \<Rightarrow> new_entry_error + SuppressionEntry" where
  "NewSuppressionEntry eid workspaceID email scope reason now =
     (if eid = [] then Inl EntryIDRequired
      else if workspaceID = [] then Inl EntryWorkspaceRequired
      else if TrimSpace email = [] then Inl EntryEmailRequired
      else if \<not> ValidSuppressionScope scope then Inl EntryScopeRequired
      else if \<not> ValidSuppressionReason reason then Inl EntryReasonRequired
      else Inr \<lparr>s_ID = eid, s_WorkspaceID = workspaceID, s_Email = TrimSpace email,
             s_EmailNormalized = NormalizeEmail email, s_Scope = scope, s_Reason = reason,
             s_Status = SuppressionStatusActive, s_Note = [], s_CreatedAt = now,
             s_UpdatedAt = now, s_RemovedAt = None\<rparr>)"

section \<open>Repository\<close>

record 'db sworld = "'db world" +
  suppressions :: "SuppressionEntry list"

text \<open>
  A statement on the pool: it does not see the transaction and a rollback does not undo it.
\<close>

definition exec_pool ::
  "(SuppressionEntry list \<Rightarrow> (SuppressionEntry list, 'e, 'a) sql) \<Rightarrow>
   (('db, 'm) sworld_scheme, ('e, 'a) result) state" where
  "exec_pool q = State (\<lambda>w.
     case run_state next_outcome w of (x, w1) \<Rightarrow>
       if x = Fail then (Inl ErrDriver, w1)
       else case q (suppressions w1) of
         SqlErr e \<Rightarrow> (Inl e, w1)
       | SqlOk r d \<Rightarrow> (if x = OK then r else Inl ErrDriver, w1\<lparr>suppressions := d\<rparr>))"

record SuppressionCheckQuery =
  cq_WorkspaceID :: string
  cq_EmailNormalized :: string
  cq_Scopes :: "string list"
  cq_Reasons :: "string list"

definition matches_check :: "SuppressionCheckQuery \<Rightarrow> SuppressionEntry \<Rightarrow> bool" where
  "matches_check query e \<longleftrightarrow>
     s_WorkspaceID e = cq_WorkspaceID query \<and> s_EmailNormalized e = cq_EmailNormalized query \<and>
     s_Status e = SuppressionStatusActive \<and>
     (cq_Scopes query \<noteq> [] \<longrightarrow> s_Scope e \<in> set (cq_Scopes query)) \<and>
     (cq_Reasons query \<noteq> [] \<longrightarrow> s_Reason e \<in> set (cq_Reasons query))"

text \<open>The \<open>ORDER BY\<close> of the check: complaints first, then bounces, unsubscribes, manual blocks, newest first.\<close>

definition reason_order :: "SuppressionEntry \<Rightarrow> bool \<times> bool \<times> bool \<times> bool \<times> gotime" where
  "reason_order e =
     (s_Reason e = ''complaint'', s_Reason e = ''bounce'', s_Reason e = ''unsubscribe'',
      s_Reason e = ''manual_block'', s_CreatedAt e)"

definition FindActiveByEmail ::
  "SuppressionCheckQuery \<Rightarrow> (('db, 'm) sworld_scheme, (supp_error, SuppressionEntry option) result) state" where
  "FindActiveByEmail query = exec_pool (\<lambda>rows.
     SqlOk (Inr (case order_desc reason_order (filter (matches_check query) rows) of
                   [] \<Rightarrow> None | e # _ \<Rightarrow> Some e)) rows)"

definition Supp_FindByID ::
  "string \<Rightarrow> string \<Rightarrow> (('db, 'm) sworld_scheme, (supp_error, SuppressionEntry) result) state" where
  "Supp_FindByID workspaceID entryID = exec_pool (\<lambda>rows.
     SqlOk (case find (\<lambda>e. s_ID e = entryID \<and> s_WorkspaceID e = workspaceID) rows of
              None \<Rightarrow> Inl (Err ErrEntryNotFound) | Some e \<Rightarrow> Inr e) rows)"

text \<open>The partial unique index \<open>idx_suppression_active_entry\<close> and the primary key.\<close>

definition entry_conflict :: "SuppressionEntry \<Rightarrow> SuppressionEntry \<Rightarrow> bool" where
  "entry_conflict e f \<longleftrightarrow>
     s_ID e = s_ID f \<or>
     s_Status e = SuppressionStatusActive \<and> s_Status f = SuppressionStatusActive \<and>
     s_WorkspaceID e = s_WorkspaceID f \<and> s_EmailNormalized e = s_EmailNormalized f \<and>
     s_Scope e = s_Scope f \<and> s_Reason e = s_Reason f"

definition Supp_Create ::
  "SuppressionEntry \<Rightarrow> (('db, 'm) sworld_scheme, (supp_error, unit) result) state" where
  "Supp_Create e = exec_pool (\<lambda>rows.
     if list_ex (entry_conflict e) rows then SqlErr ErrDriver else SqlOk (Inr ()) (rows @ [e]))"

definition Supp_Remove ::
  "string \<Rightarrow> string \<Rightarrow> gotime \<Rightarrow> (('db, 'm) sworld_scheme, (supp_error, unit) result) state" where
  "Supp_Remove workspaceID entryID removedAt = exec_pool (\<lambda>rows.
     let hit = (\<lambda>e. s_ID e = entryID \<and> s_WorkspaceID e = workspaceID) in
     SqlOk (if list_ex hit rows then Inr () else Inl (Err ErrEntryNotFound))
       (map (\<lambda>e. if hit e
          then e\<lparr>s_Status := SuppressionStatusRemoved, s_RemovedAt := Some removedAt, s_UpdatedAt := removedAt\<rparr>
          else e) rows))"

record SuppressionListQuery =
  lq_WorkspaceID :: string
  lq_Email :: string
  lq_Scope :: string
  lq_Reason :: string
  lq_From :: "gotime option"
  lq_To :: "gotime option"
  lq_Limit :: int
  lq_Cursor :: string

definition list_where :: "SuppressionListQuery \<Rightarrow> SuppressionEntry \<Rightarrow> bool" where
  "list_where query e \<longleftrightarrow>
     s_WorkspaceID e = lq_WorkspaceID query \<and>
     (lq_Email query \<noteq> [] \<longrightarrow> s_EmailNormalized e = lq_Email query) \<and>
     (lq_Scope query \<noteq> [] \<longrightarrow> s_Scope e = lq_Scope query) \<and>
     (lq_Reason query \<noteq> [] \<longrightarrow> s_Reason e = lq_Reason query) \<and>
     (case lq_From query of None \<Rightarrow> True | Some t \<Rightarrow> t \<le> s_CreatedAt e) \<and>
     (case lq_To query of None \<Rightarrow> True | Some t \<Rightarrow> s_CreatedAt e \<le> t)"

definition entry_key :: "SuppressionEntry \<Rightarrow> gotime \<times> string" where
  "entry_key e = (s_CreatedAt e, s_ID e)"

definition Supp_List ::
  "SuppressionListQuery \<Rightarrow>
   (('db, 'm) sworld_scheme, (supp_error, SuppressionEntry list \<times> string) result) state" where
  "Supp_List query = exec_pool (\<lambda>rows.
     let limit = (if lq_Limit query \<le> 0 then DefaultPageSize else lq_Limit query) in
     SqlOk (Inr (list_page entry_key s_ID (list_where query) (nat limit) (lq_Cursor query) rows)) rows)"

section \<open>Handlers\<close>

record CreateInput =
  ci_WorkspaceID :: string
  ci_UserID :: string
  ci_Email :: string
  ci_Scope :: string
  ci_Reason :: string
  ci_Note :: string
  ci_Now :: gotime

text \<open>\<open>access workspaceID userID permission\<close> is the answer of the workspace access checker.\<close>

definition CreateHandler ::
  "(nat \<Rightarrow> string) \<Rightarrow> (string \<Rightarrow> string \<Rightarrow> string \<Rightarrow> (supp_error, unit) result) \<Rightarrow> CreateInput \<Rightarrow>
   (('db, 'm) sworld_scheme, (supp_error, SuppressionEntry) result) state" where
  "CreateHandler gen access cmd =
     (case access (ci_WorkspaceID cmd) (ci_UserID cmd) ''suppression.manage'' of
        Inl e \<Rightarrow> ret (Inl e)
      | Inr _ \<Rightarrow>
          if \<not> ValidSuppressionScope (ci_Scope cmd) then ret (Inl (Err ErrScopeInvalid))
          else if \<not> ValidSuppressionReason (ci_Reason cmd) then ret (Inl (Err ErrReasonInvalid))
          else if ci_Email cmd = [] then ret (Inl (Err ErrEmailInvalid))
          else bindE (idGen gen) (\<lambda>i.
            let entry = \<lparr>s_ID = i, s_WorkspaceID = ci_WorkspaceID cmd, s_Email = ci_Email cmd,
                  s_EmailNormalized = NormalizeEmail (ci_Email cmd), s_Scope = ci_Scope cmd,
                  s_Reason = ci_Reason cmd, s_Status = SuppressionStatusActive,
                  s_Note = ci_Note cmd, s_CreatedAt = ci_Now cmd, s_UpdatedAt = ci_Now cmd,
                  s_RemovedAt = None\<rparr>
            in thenE (Supp_Create entry) (ret (Inr entry))))"

record CreateSystemInput =
  cs_WorkspaceID :: string
  cs_Email :: string
  cs_EmailNormalized :: string
  cs_Scope :: string
  cs_Reason :: string
  cs_Source :: string
  cs_SourceEventID :: string
  cs_Note :: string
  cs_Now :: gotime

definition CreateSystemHandler ::
  "(nat \<Rightarrow> string) \<Rightarrow> CreateSystemInput \<Rightarrow>
   (('db, 'm) sworld_scheme, (supp_error, SuppressionEntry \<times> bool) result) state" where
  "CreateSystemHandler gen cmd =
     (if \<not> ValidSuppressionScope (cs_Scope cmd) then ret (Inl (Err ErrScopeInvalid))
      else if \<not> ValidSuppressionReason (cs_Reason cmd) then ret (Inl (Err ErrReasonInvalid))
      else
        let emailNormalized =
              (if cs_EmailNormalized cmd = [] \<and> cs_Email cmd \<noteq> [] then NormalizeEmail (cs_Email cmd)
               else cs_EmailNormalized cmd)
        in if emailNormalized = [] then ret (Inl (Err ErrScopeInvalid))
           else bindE (FindActiveByEmail \<lparr>cq_WorkspaceID = cs_WorkspaceID cmd,
                  cq_EmailNormalized = emailNormalized, cq_Scopes = [cs_Scope cmd],
                  cq_Reasons = [cs_Reason cmd]\<rparr>) (\<lambda>existing.
             case existing of
               Some e \<Rightarrow> ret (Inr (e, False))
             | None \<Rightarrow> bindE (idGen gen) (\<lambda>i.
                 let entry = \<lparr>s_ID = i, s_WorkspaceID = cs_WorkspaceID cmd, s_Email = cs_Email cmd,
                       s_EmailNormalized = emailNormalized, s_Scope = cs_Scope cmd,
                       s_Reason = cs_Reason cmd, s_Status = SuppressionStatusActive,
                       s_Note = cs_Note cmd, s_CreatedAt = cs_Now cmd, s_UpdatedAt = cs_Now cmd,
                       s_RemovedAt = None\<rparr>
                 in thenE (Supp_Create entry) (ret (Inr (entry, True))))))"

definition RemoveHandler ::
  "(string \<Rightarrow> string \<Rightarrow> string \<Rightarrow> (supp_error, unit) result) \<Rightarrow> string \<Rightarrow> string \<Rightarrow> string \<Rightarrow> gotime \<Rightarrow>
   (('db, 'm) sworld_scheme, (supp_error, unit) result) state" where
  "RemoveHandler access workspaceID entryID userID now =
     (case access workspaceID userID ''suppression.manage'' of
        Inl e \<Rightarrow> ret (Inl (if e = Err SuppReadDenied then Err ErrManageDenied else e))
      | Inr _ \<Rightarrow>
          bindE (Supp_FindByID workspaceID entryID) (\<lambda>entry.
            if s_Status entry = SuppressionStatusRemoved then ret (Inl (Err ErrUnsuppressConflict))
            else Supp_Remove workspaceID entryID now))"

definition ListHandler ::
  "(string \<Rightarrow> string \<Rightarrow> string \<Rightarrow> (supp_error, unit) result) \<Rightarrow> string \<Rightarrow> SuppressionListQuery \<Rightarrow>
   (('db, 'm) sworld_scheme, (supp_error, SuppressionEntry list \<times> string) result) state" where
  "ListHandler access userID query =
     (case access (lq_WorkspaceID query) userID ''suppression.read'' of
        Inl e \<Rightarrow> ret (Inl e)
      | Inr _ \<Rightarrow>
          Supp_List (if lq_Limit query \<le> 0 \<or> 100 < lq_Limit query then query\<lparr>lq_Limit := 50\<rparr> else query))"

record CheckResult =
  cr_Suppressed :: bool
  cr_Reason :: string
  cr_Scope :: string
  cr_EntryID :: string

definition zero_CheckResult :: CheckResult where
  "zero_CheckResult = \<lparr>cr_Suppressed = False, cr_Reason = [], cr_Scope = [], cr_EntryID = []\<rparr>"

definition CheckHandler ::
  "string \<Rightarrow> string \<Rightarrow> string \<Rightarrow> (('db, 'm) sworld_scheme, (supp_error, CheckResult) result) state" where
  "CheckHandler workspaceID emailNormalized scope0 =
     (if workspaceID = [] \<or> emailNormalized = [] then ret (Inr zero_CheckResult)
      else
        let scope = (if scope0 = [] then ''workspace'' else scope0) in
        bindE (FindActiveByEmail \<lparr>cq_WorkspaceID = workspaceID, cq_EmailNormalized = emailNormalized,
                 cq_Scopes = [scope, ''global''], cq_Reasons = []\<rparr>) (\<lambda>entry.
          case entry of
            None \<Rightarrow> ret (Inr zero_CheckResult)
          | Some e \<Rightarrow> ret (Inr \<lparr>cr_Suppressed = True, cr_Reason = s_Reason e, cr_Scope = s_Scope e,
                             cr_EntryID = s_ID e\<rparr>)))"

section \<open>Statements on the pool\<close>

lemma exec_pool_store:
  "run_state (exec_pool q) w = (r, w') \<Longrightarrow> store w' = store w \<and> in_tx w' = in_tx w \<and> aborted w' = aborted w"
  by (auto simp: exec_pool_def next_outcome_def split: list.splits if_splits sql.splits)

lemma exec_pool_Inr:
  assumes "run_state (exec_pool q) w = (Inr a, w')"
  shows "q (suppressions w) = SqlOk (Inr a) (suppressions w')"
  using assms
  by (auto simp: exec_pool_def next_outcome_def split: list.splits if_splits sql.splits)

lemma exec_pool_ok [simp]:
  "outcomes w = [] \<Longrightarrow> q (suppressions w) = SqlOk r d \<Longrightarrow>
   run_state (exec_pool q) w = (r, w\<lparr>suppressions := d\<rparr>)"
  by (simp add: exec_pool_def)

text \<open>
  A relation between the rows before and after is kept by a program if its statements keep it:
  transactions do not matter, for the table is outside of them.
\<close>

locale rows_rel =
  fixes T :: "SuppressionEntry list \<Rightarrow> SuppressionEntry list \<Rightarrow> bool"
  assumes T_refl: "T d d"
    and T_trans: "T d e \<Longrightarrow> T e f \<Longrightarrow> T d f"

sublocale rows_rel \<subseteq> world_rel "\<lambda>w w'. T (suppressions w) (suppressions w')"
  by unfold_locales (auto intro: T_refl T_trans)

context rows_rel
begin

lemma keeps_exec_pool:
  assumes "\<And>rows r d. q rows = SqlOk r d \<Longrightarrow> T rows d"
  shows "state_io_rel (\<lambda>w w'. T (suppressions w) (suppressions w'))
    (exec_pool q :: (('db, 'm) sworld_scheme, ('e, 'a) result) state)"
proof (rule state_io_relI)
  fix a and w w' :: "('db, 'm) sworld_scheme"
  assume "run_state (exec_pool q) w = (a, w')"
  then show "T (suppressions w) (suppressions w')"
    using assms by (auto simp: exec_pool_def next_outcome_def T_refl split: list.splits if_splits sql.splits)
qed

lemma keeps_FindActiveByEmail:
  "state_io_rel (\<lambda>w w'. T (suppressions w) (suppressions w')) (FindActiveByEmail query)"
  unfolding FindActiveByEmail_def by (rule keeps_exec_pool) (simp add: T_refl)

lemma keeps_Supp_FindByID:
  "state_io_rel (\<lambda>w w'. T (suppressions w) (suppressions w')) (Supp_FindByID ws i)"
  unfolding Supp_FindByID_def by (rule keeps_exec_pool) (simp add: T_refl)

lemma keeps_CheckHandler:
  "state_io_rel (\<lambda>w w'. T (suppressions w) (suppressions w')) (CheckHandler ws email scope)"
  unfolding CheckHandler_def by (intro keeps_prog keeps_FindActiveByEmail)

lemma keeps_ListHandler:
  "state_io_rel (\<lambda>w w'. T (suppressions w) (suppressions w')) (ListHandler access userID query)"
  unfolding ListHandler_def Supp_List_def
  by (intro keeps_prog keeps_exec_pool) (auto simp: Let_def T_refl)

end

text \<open>The two relations used below: rows never come to clash, and active entries stay.\<close>

definition no_clash :: "SuppressionEntry list \<Rightarrow> bool" where
  "no_clash rows \<longleftrightarrow> sorted_wrt (\<lambda>e f. \<not> entry_conflict e f) rows"

definition actives :: "SuppressionEntry list \<Rightarrow> SuppressionEntry set" where
  "actives rows = {e \<in> set rows. s_Status e = ''active''}"

interpretation clash: rows_rel "\<lambda>rows rows'. no_clash rows \<longrightarrow> no_clash rows'"
  by unfold_locales auto

interpretation stay: rows_rel "\<lambda>rows rows'. actives rows \<subseteq> actives rows'"
  by unfold_locales auto

lemma entry_conflict_sym: "entry_conflict e f = entry_conflict f e"
  by (auto simp: entry_conflict_def)

lemma clash_Create: "state_io_rel (\<lambda>w w'. no_clash (suppressions w) \<longrightarrow> no_clash (suppressions w')) (Supp_Create e)"
  unfolding Supp_Create_def
  by (rule clash.keeps_exec_pool)
    (auto simp: no_clash_def sorted_wrt_append list_ex_iff entry_conflict_sym split: if_splits)

lemma no_clash_deactivate:
  assumes "no_clash rows"
    and "\<And>e. s_ID (f e) = s_ID e" and "\<And>e. s_Status (f e) = ''active'' \<Longrightarrow> f e = e"
  shows "no_clash (map f rows)"
proof -
  have "\<not> entry_conflict e e' \<Longrightarrow> \<not> entry_conflict (f e) (f e')" for e e'
    unfolding entry_conflict_def SuppressionStatusActive_def by (metis assms(2,3))
  with assms(1) show ?thesis
    unfolding no_clash_def by (auto simp: sorted_wrt_map intro: sorted_wrt_mono_rel [rotated])
qed

lemma clash_Remove:
  "state_io_rel (\<lambda>w w'. no_clash (suppressions w) \<longrightarrow> no_clash (suppressions w')) (Supp_Remove ws i now)"
  unfolding Supp_Remove_def
  by (rule clash.keeps_exec_pool) (auto simp: Let_def intro!: no_clash_deactivate split: if_splits)

lemma stay_Create: "state_io_rel (\<lambda>w w'. actives (suppressions w) \<subseteq> actives (suppressions w')) (Supp_Create e)"
  unfolding Supp_Create_def
  by (rule stay.keeps_exec_pool) (auto simp: actives_def split: if_splits)

section \<open>The handlers as a system\<close>

text \<open>
  Requests arrive in any order, from any user, and anything may go wrong with any call. Reads are
  left out: they change no row.
\<close>

inductive supp_step :: "(nat \<Rightarrow> string) \<Rightarrow> (string \<Rightarrow> string \<Rightarrow> string \<Rightarrow> (supp_error, unit) result) \<Rightarrow>
    unit sworld \<Rightarrow> unit sworld \<Rightarrow> bool"
  for gen access where
  step_create: "snd (run_state (CreateHandler gen access cmd) (w\<lparr>outcomes := xs\<rparr>)) = w' \<Longrightarrow>
    supp_step gen access w w'"
| step_create_system: "snd (run_state (CreateSystemHandler gen sys) (w\<lparr>outcomes := xs\<rparr>)) = w' \<Longrightarrow>
    supp_step gen access w w'"
| step_remove: "snd (run_state (RemoveHandler access ws i u now) (w\<lparr>outcomes := xs\<rparr>)) = w' \<Longrightarrow>
    supp_step gen access w w'"

inductive_cases supp_stepE: "supp_step gen access w w'"

lemma clash_CreateHandler:
  "state_io_rel (\<lambda>w w'. no_clash (suppressions w) \<longrightarrow> no_clash (suppressions w')) (CreateHandler gen access cmd)"
  unfolding CreateHandler_def by (intro clash.keeps_prog clash_Create)

lemma clash_CreateSystemHandler:
  "state_io_rel (\<lambda>w w'. no_clash (suppressions w) \<longrightarrow> no_clash (suppressions w')) (CreateSystemHandler gen sys)"
  unfolding CreateSystemHandler_def
  by (intro clash.keeps_prog clash_Create clash.keeps_FindActiveByEmail)

lemma clash_RemoveHandler:
  "state_io_rel (\<lambda>w w'. no_clash (suppressions w) \<longrightarrow> no_clash (suppressions w')) (RemoveHandler access ws i u now)"
  unfolding RemoveHandler_def
  by (intro clash.keeps_prog clash_Remove clash.keeps_Supp_FindByID)

lemma supp_step_no_clash:
  assumes "supp_step gen access w w'" and "no_clash (suppressions w)"
  shows "no_clash (suppressions w')"
  using assms(1)
proof cases
  case (step_create cmd xs)
  with assms(2) state_io_relE [OF clash_CreateHandler, of "w\<lparr>outcomes := xs\<rparr>" gen access cmd]
  show ?thesis by simp
next
  case (step_create_system sys xs)
  with assms(2) state_io_relE [OF clash_CreateSystemHandler, of "w\<lparr>outcomes := xs\<rparr>" gen sys]
  show ?thesis by simp
next
  case (step_remove ws i u now xs)
  with assms(2) state_io_relE [OF clash_RemoveHandler, of "w\<lparr>outcomes := xs\<rparr>" access ws i u now]
  show ?thesis by simp
qed

interpretation supp: invariant_system
  "\<lambda>w. suppressions w = []" "supp_step gen access" "\<lambda>w. no_clash (suppressions w)" for gen access
  by unfold_locales (simp_all add: no_clash_def [of "[]"] supp_step_no_clash)

section \<open>Lookups\<close>

lemma order_desc_hd_max:
  assumes "order_desc key rs = e # es" and "r \<in> set rs"
  shows "key r \<le> key e"
proof -
  have "r \<in> set (e # es)" using assms by (metis order_desc_set)
  then show ?thesis using order_desc_sorted [of key rs] assms(1) by auto
qed

lemma order_desc_Nil [simp]: "order_desc key rs = [] \<longleftrightarrow> rs = []"
  by (metis length_0_conv order_desc_length)

lemma FindActiveByEmail_Inr:
  assumes "run_state (FindActiveByEmail query) w = (Inr x, w')"
  shows "suppressions w' = suppressions w"
    and "x = None \<Longrightarrow> \<forall>e \<in> set (suppressions w). \<not> matches_check query e"
    and "x = Some e \<Longrightarrow> e \<in> set (suppressions w) \<and> matches_check query e"
    and "x = Some e \<Longrightarrow> f \<in> set (suppressions w) \<Longrightarrow> matches_check query f \<Longrightarrow> reason_order f \<le> reason_order e"
proof -
  let ?o = "order_desc reason_order (filter (matches_check query) (suppressions w))"
  from exec_pool_Inr [OF assms [unfolded FindActiveByEmail_def]]
  have x: "x = (case ?o of [] \<Rightarrow> None | e # _ \<Rightarrow> Some e)" and w': "suppressions w' = suppressions w"
    by auto
  show "suppressions w' = suppressions w" by (fact w')
  show "\<forall>e \<in> set (suppressions w). \<not> matches_check query e" if "x = None"
    using that x by (auto simp: filter_empty_conv split: list.splits)
  assume "x = Some e"
  with x obtain es where o: "?o = e # es" by (auto split: list.splits)
  from arg_cong [OF o, of set] show "e \<in> set (suppressions w) \<and> matches_check query e" by auto
  show "reason_order f \<le> reason_order e" if "f \<in> set (suppressions w)" "matches_check query f"
    using order_desc_hd_max [OF o, of f] that by simp
qed

lemma FindActiveByEmail_ok:
  "outcomes w = [] \<Longrightarrow> \<exists>x. run_state (FindActiveByEmail query) w = (Inr x, w)"
  by (simp add: FindActiveByEmail_def)

lemma CheckHandler_Inr:
  assumes run: "run_state (CheckHandler ws email scope) w = (Inr r, w')"
    and ne: "ws \<noteq> []" "email \<noteq> []" "scope \<noteq> []"
  shows "suppressions w' = suppressions w"
    and "cr_Suppressed r \<longleftrightarrow>
       (\<exists>e \<in> set (suppressions w). s_WorkspaceID e = ws \<and> s_EmailNormalized e = email \<and>
          s_Status e = ''active'' \<and> s_Scope e \<in> {scope, ''global''})"
    and "f \<in> set (suppressions w) \<Longrightarrow> s_WorkspaceID f = ws \<Longrightarrow> s_EmailNormalized f = email \<Longrightarrow>
       s_Status f = ''active'' \<Longrightarrow> s_Scope f \<in> {scope, ''global''} \<Longrightarrow> s_Reason f = ''complaint'' \<Longrightarrow>
       cr_Reason r = ''complaint''"
proof -
  let ?q = "\<lparr>cq_WorkspaceID = ws, cq_EmailNormalized = email, cq_Scopes = [scope, ''global''], cq_Reasons = []\<rparr>"
  from run ne obtain x v where find: "run_state (FindActiveByEmail ?q) w = (Inr x, v)"
    and r: "(case x of None \<Rightarrow> ret (Inr zero_CheckResult)
          | Some e \<Rightarrow> ret (Inr \<lparr>cr_Suppressed = True, cr_Reason = s_Reason e, cr_Scope = s_Scope e,
                             cr_EntryID = s_ID e\<rparr>)) = (ret (Inr r) :: (('a, 'b) sworld_scheme, (supp_error, CheckResult) result) state)"
      "v = w'"
    by (auto simp: CheckHandler_def Let_def elim!: bindE_InrD split: option.splits)
  note found = FindActiveByEmail_Inr [OF find]
  show "suppressions w' = suppressions w" using found(1) r(2) by simp
  have match: "matches_check ?q e \<longleftrightarrow> s_WorkspaceID e = ws \<and> s_EmailNormalized e = email \<and>
      s_Status e = ''active'' \<and> s_Scope e \<in> {scope, ''global''}" for e
    by (auto simp: matches_check_def)
  have sup: "cr_Suppressed r = (x \<noteq> None)" and reason: "x = Some e \<Longrightarrow> cr_Reason r = s_Reason e" for e
    using r(1) by (auto simp: zero_CheckResult_def State_Monad.return_def fun_eq_iff split: option.splits)
  show "cr_Suppressed r \<longleftrightarrow> (\<exists>e \<in> set (suppressions w). s_WorkspaceID e = ws \<and>
      s_EmailNormalized e = email \<and> s_Status e = ''active'' \<and> s_Scope e \<in> {scope, ''global''})"
    unfolding sup match [symmetric] using found(2,3) by auto
  assume f: "f \<in> set (suppressions w)" "s_WorkspaceID f = ws" "s_EmailNormalized f = email"
    "s_Status f = ''active''" "s_Scope f \<in> {scope, ''global''}" "s_Reason f = ''complaint''"
  then have "matches_check ?q f" by (simp add: match)
  with f(1) found(2) obtain e where "x = Some e" by fastforce
  with found(4) [OF this f(1) \<open>matches_check ?q f\<close>] f(6) reason show "cr_Reason r = ''complaint''"
    by (auto simp: reason_order_def less_eq_prod_def)
qed

lemma CreateSystemHandler_Inr:
  assumes run: "run_state (CreateSystemHandler gen cmd) w = (Inr (e, created), w')"
  shows "e \<in> set (suppressions w')" and "s_Status e = ''active''"
    and "s_WorkspaceID e = cs_WorkspaceID cmd" and "s_Scope e = cs_Scope cmd"
    and "s_Reason e = cs_Reason cmd"
    and "s_EmailNormalized e =
      (if cs_EmailNormalized cmd = [] then NormalizeEmail (cs_Email cmd) else cs_EmailNormalized cmd)"
    and "suppressions w' = (if created then suppressions w @ [e] else suppressions w)"
    and "created \<Longrightarrow> f \<in> set (suppressions w) \<Longrightarrow> \<not> entry_conflict e f"
proof -
  define n where "n = (if cs_EmailNormalized cmd = [] \<and> cs_Email cmd \<noteq> []
    then NormalizeEmail (cs_Email cmd) else cs_EmailNormalized cmd)"
  let ?q = "\<lparr>cq_WorkspaceID = cs_WorkspaceID cmd, cq_EmailNormalized = n, cq_Scopes = [cs_Scope cmd],
    cq_Reasons = [cs_Reason cmd]\<rparr>"
  let ?e = "\<lambda>i. \<lparr>s_ID = i, s_WorkspaceID = cs_WorkspaceID cmd, s_Email = cs_Email cmd,
    s_EmailNormalized = n, s_Scope = cs_Scope cmd, s_Reason = cs_Reason cmd,
    s_Status = ''active'', s_Note = cs_Note cmd, s_CreatedAt = cs_Now cmd,
    s_UpdatedAt = cs_Now cmd, s_RemovedAt = None\<rparr>"
  have n: "n \<noteq> []" using run
    by (auto simp: CreateSystemHandler_def Let_def n_def [symmetric] split: if_split_asm)
  then have n': "n = (if cs_EmailNormalized cmd = [] then NormalizeEmail (cs_Email cmd) else cs_EmailNormalized cmd)"
    by (auto simp: NormalizeEmail_def n_def)
  let ?rest = "\<lambda>x. case x of Some e \<Rightarrow> ret (Inr (e, False))
    | None \<Rightarrow> bindE (idGen gen) (\<lambda>i. thenE (Supp_Create (?e i)) (ret (Inr (?e i, True))))"
  have "run_state (bindE (FindActiveByEmail ?q) ?rest) w = (Inr (e, created), w')"
    using run n unfolding CreateSystemHandler_def Let_def n_def [symmetric] SuppressionStatusActive_def
    by (auto split: if_split_asm)
  then obtain x v where find: "run_state (FindActiveByEmail ?q) w = (Inr x, v)"
    and rest: "run_state (?rest x) v = (Inr (e, created), w')"
    by (rule bindE_InrD)
  note found = FindActiveByEmail_Inr [OF find]
  have "e \<in> set (suppressions w') \<and> matches_check ?q e \<and>
      suppressions w' = (if created then suppressions w @ [e] else suppressions w) \<and>
      (created \<longrightarrow> \<not> list_ex (entry_conflict e) (suppressions w))"
  proof (cases x)
    case (Some f)
    with rest have "f = e" "\<not> created" "w' = v" by auto
    with found Some show ?thesis by simp
  next
    case None
    with rest obtain i u where idg: "run_state (idGen gen) v = (Inr i :: (supp_error, string) result, u)"
      and cr: "run_state (Supp_Create (?e i)) u = (Inr (), w')" and e: "e = ?e i" "created"
      unfolding thenE_def by (auto elim!: bindE_InrD)
    have "suppressions u = suppressions v"
      using idg by (auto simp: idGen_def next_outcome_def split: list.splits if_splits)
    with exec_pool_Inr [OF cr [unfolded Supp_Create_def]] e found(1)
    have "suppressions w' = suppressions w @ [e] \<and> \<not> list_ex (entry_conflict e) (suppressions w)"
      by (auto split: if_split_asm)
    then show ?thesis using e by (simp add: matches_check_def)
  qed
  then show "e \<in> set (suppressions w')" and "s_Status e = ''active''"
    and "s_WorkspaceID e = cs_WorkspaceID cmd" and "s_Scope e = cs_Scope cmd"
    and "s_Reason e = cs_Reason cmd"
    and "s_EmailNormalized e =
      (if cs_EmailNormalized cmd = [] then NormalizeEmail (cs_Email cmd) else cs_EmailNormalized cmd)"
    and "suppressions w' = (if created then suppressions w @ [e] else suppressions w)"
    and "created \<Longrightarrow> f \<in> set (suppressions w) \<Longrightarrow> \<not> entry_conflict e f"
    unfolding n' [symmetric] by (auto simp: matches_check_def list_ex_iff)
qed

section \<open>Properties\<close>

lemma no_clash_distinct:
  "no_clash rows \<Longrightarrow>
   distinct (map s_ID rows) \<and>
   distinct (map (\<lambda>e. (s_WorkspaceID e, s_EmailNormalized e, s_Scope e, s_Reason e))
     (filter (\<lambda>e. s_Status e = ''active'') rows))"
  unfolding no_clash_def by (induction rows) (auto simp: entry_conflict_def)

text \<open>
  Whatever requests arrive and whatever fails, ids stay unique and a workspace never has
  two active entries for the same address, scope and reason.
\<close>

lemma suppression_unique:
  assumes "reach (\<lambda>w. suppressions w = []) (supp_step gen access) w"
  shows "distinct (map s_ID (suppressions w)) \<and>
    distinct (map (\<lambda>e. (s_WorkspaceID e, s_EmailNormalized e, s_Scope e, s_Reason e))
      (filter (\<lambda>e. s_Status e = ''active'') (suppressions w)))"
  using supp.reach_inv [OF assms] by (rule no_clash_distinct)

abbreviation sample_world :: "SuppressionEntry list \<Rightarrow> unit sworld" where
  "sample_world rows \<equiv> \<lparr>store = (), in_tx = False, aborted = False, outcomes = [], id_ctr = 0, suppressions = rows\<rparr>"

abbreviation sample_signal :: CreateSystemInput where
  "sample_signal \<equiv> \<lparr>cs_WorkspaceID = ''w1'', cs_Email = ''A@x.io'', cs_EmailNormalized = ''a@x.io'',
     cs_Scope = ''workspace'', cs_Reason = ''bounce'', cs_Source = ''provider_event'',
     cs_SourceEventID = ''n1'', cs_Note = [], cs_Now = 7\<rparr>"

text \<open>
  When the check returns an answer at all, the answer is the truth about the table:
  suppressed exactly if the workspace has an active entry for the address in the scope asked for or
  in the global scope, and a complaint takes precedence over every other reason. Without faults the
  check does return an answer.
\<close>

lemma check_truthful:
  assumes "ws \<noteq> []" and "email \<noteq> []" and "scope \<noteq> []"
  defines "hit \<equiv> \<lambda>e. s_WorkspaceID e = ws \<and> s_EmailNormalized e = email \<and> s_Status e = ''active'' \<and>
    s_Scope e \<in> {scope, ''global''}"
  shows "(\<forall>r w'. run_state (CheckHandler ws email scope) w = (Inr r, w') \<longrightarrow>
      (cr_Suppressed r \<longleftrightarrow> (\<exists>e \<in> set (suppressions w). hit e)) \<and>
      ((\<exists>e \<in> set (suppressions w). hit e \<and> s_Reason e = ''complaint'') \<longrightarrow> cr_Reason r = ''complaint'') \<and>
      suppressions w' = suppressions w) \<and>
    (outcomes w = [] \<longrightarrow> (\<exists>r. run_state (CheckHandler ws email scope) w = (Inr r, w)))"
proof -
  have "\<exists>r. run_state (CheckHandler ws email scope) w = (Inr r, w)" if "outcomes w = []"
    using FindActiveByEmail_ok [OF that, of "\<lparr>cq_WorkspaceID = ws, cq_EmailNormalized = email,
      cq_Scopes = [scope, ''global''], cq_Reasons = []\<rparr>"] assms(1-3)
    by (auto simp: CheckHandler_def run_bindE Let_def split: option.split)
  with CheckHandler_Inr [OF _ assms(1-3)] show ?thesis unfolding hit_def by blast
qed

lemma CreateSystemHandler_valid:
  assumes "run_state (CreateSystemHandler gen cmd) w = (Inr r, w')"
  shows "ValidSuppressionScope (cs_Scope cmd)" and "ValidSuppressionReason (cs_Reason cmd)"
  using assms by (auto simp: CreateSystemHandler_def split: if_split_asm)

lemma scope_not_empty: "ValidSuppressionScope s \<Longrightarrow> s \<noteq> []"
  by (auto simp: ValidSuppressionScope_def)

text \<open>An active entry for the same address, scope and reason answers the signal.\<close>

lemma CreateSystemHandler_again:
  assumes "ValidSuppressionScope (cs_Scope cmd)" "ValidSuppressionReason (cs_Reason cmd)" "cs_EmailNormalized cmd \<noteq> []"
    and e: "e \<in> set (suppressions w)" "s_Status e = ''active''" "s_WorkspaceID e = cs_WorkspaceID cmd" "s_Scope e = cs_Scope cmd"
      "s_Reason e = cs_Reason cmd" "s_EmailNormalized e = cs_EmailNormalized cmd"
    and ok: "outcomes w = []"
  shows "\<exists>f. run_state (CreateSystemHandler gen cmd) w = (Inr (f, False), w)"
proof -
  let ?q = "\<lparr>cq_WorkspaceID = cs_WorkspaceID cmd, cq_EmailNormalized = cs_EmailNormalized cmd, cq_Scopes = [cs_Scope cmd],
    cq_Reasons = [cs_Reason cmd]\<rparr>"
  from FindActiveByEmail_ok [OF ok] obtain x where x: "run_state (FindActiveByEmail ?q) w = (Inr x, w)" by blast
  have "matches_check ?q e" using e by (simp add: matches_check_def)
  with FindActiveByEmail_Inr(2) [OF x] e(1) obtain f where "x = Some f" by (cases x) auto
  with x assms(1-3) show ?thesis by (simp add: CreateSystemHandler_def run_bindE Let_def)
qed

text \<open>
  Claim C38. A bounce, complaint or unsubscribe signal that was recorded suppresses the address. The entry reported back is an active row for
  the workspace, address, scope and reason of the signal, and the table has grown by it exactly if the handler says that it was created. As
  long as this entry stays in the table as it is, every check of the address in the scope of the signal that answers says suppressed, whatever
  else the table holds and whatever fails; without faults the check does answer, and recording the signal again succeeds, reports that nothing was created
  and changes nothing.
\<close>

theorem signal_suppresses:
  assumes run: "run_state (CreateSystemHandler gen cmd) w = (Inr (e, created), w')"
    and ne: "cs_WorkspaceID cmd \<noteq> []" "cs_EmailNormalized cmd \<noteq> []"
    and later: "e \<in> set (suppressions w2)"
  shows "s_Status e = ''active'' \<and> s_WorkspaceID e = cs_WorkspaceID cmd \<and> s_EmailNormalized e = cs_EmailNormalized cmd \<and>
    s_Scope e = cs_Scope cmd \<and> s_Reason e = cs_Reason cmd \<and> e \<in> set (suppressions w') \<and>
    suppressions w' = (if created then suppressions w @ [e] else suppressions w) \<and>
    (\<forall>r w3. run_state (CheckHandler (cs_WorkspaceID cmd) (cs_EmailNormalized cmd) (cs_Scope cmd)) w2 = (Inr r, w3) \<longrightarrow> cr_Suppressed r) \<and>
    (outcomes w2 = [] \<longrightarrow>
       (\<exists>r. run_state (CheckHandler (cs_WorkspaceID cmd) (cs_EmailNormalized cmd) (cs_Scope cmd)) w2 = (Inr r, w2)) \<and>
       (\<exists>f. run_state (CreateSystemHandler gen2 cmd) w2 = (Inr (f, False), w2)))"
proof -
  note e = CreateSystemHandler_Inr [OF run] and valid = CreateSystemHandler_valid [OF run]
  have "cr_Suppressed r"
    if "run_state (CheckHandler (cs_WorkspaceID cmd) (cs_EmailNormalized cmd) (cs_Scope cmd)) w2 = (Inr r, w3)" for r w3
    using CheckHandler_Inr(2) [OF that ne scope_not_empty [OF valid(1)]] e(2-6) later ne by auto
  moreover have "\<exists>r. run_state (CheckHandler (cs_WorkspaceID cmd) (cs_EmailNormalized cmd) (cs_Scope cmd)) w2 = (Inr r, w2)"
    if "outcomes w2 = []"
    using check_truthful [OF ne scope_not_empty [OF valid(1)], of w2] that by blast
  moreover have "\<exists>f. run_state (CreateSystemHandler gen2 cmd) w2 = (Inr (f, False), w2)" if "outcomes w2 = []"
    by (rule CreateSystemHandler_again [OF valid ne(2) later]) (use e that ne in simp_all)
  ultimately show ?thesis using e ne by simp
qed

text \<open>A second entry of the workspace, for another reason, is in the table by the time the address is checked.\<close>

theorem signal_suppresses_witness:
  "\<exists>e w' r f. run_state (CreateSystemHandler (\<lambda>n. ''s'') sample_signal) (sample_world []) = (Inr (e, True), w') \<and>
     run_state (CheckHandler ''w1'' ''a@x.io'' ''workspace'') (sample_world [e\<lparr>s_ID := ''t'', s_Reason := ''complaint''\<rparr>, e]) =
       (Inr r, sample_world [e\<lparr>s_ID := ''t'', s_Reason := ''complaint''\<rparr>, e]) \<and> cr_Suppressed r \<and>
     run_state (CreateSystemHandler (\<lambda>n. ''u'') sample_signal) (sample_world [e\<lparr>s_ID := ''t'', s_Reason := ''complaint''\<rparr>, e]) =
       (Inr (f, False), sample_world [e\<lparr>s_ID := ''t'', s_Reason := ''complaint''\<rparr>, e])"
proof -
  obtain e w' where run: "run_state (CreateSystemHandler (\<lambda>n. ''s'') sample_signal) (sample_world []) = (Inr (e, True), w')"
    by (simp add: CreateSystemHandler_def ValidSuppressionScope_def ValidSuppressionReason_def FindActiveByEmail_def
        run_bindE run_thenE Supp_Create_def Let_def order_desc_def)
  from signal_suppresses [OF run, of "sample_world [e\<lparr>s_ID := ''t'', s_Reason := ''complaint''\<rparr>, e]" "\<lambda>n. ''u''"] run
  show ?thesis by simp blast
qed

text \<open>
  Removing an entry needs the permission to manage suppressions; without it nothing
  changes. When it succeeds the entry existed in the workspace and had not been removed before,
  afterwards it is removed, and every other row is as it was.
\<close>

lemma remove_unsuppresses:
  assumes run: "run_state (RemoveHandler access ws i u now) w = (r, w')"
  defines "hit \<equiv> \<lambda>e. s_ID e = i \<and> s_WorkspaceID e = ws"
  shows "(access ws u ''suppression.manage'' \<noteq> Inr () \<longrightarrow> w' = w \<and> r \<noteq> Inr ()) \<and>
    (r = Inr () \<longrightarrow>
      (\<exists>e \<in> set (suppressions w). hit e \<and> s_Status e \<noteq> ''removed'') \<and>
      (\<forall>e \<in> set (suppressions w'). hit e \<longrightarrow> s_Status e = ''removed'' \<and> s_RemovedAt e = Some now) \<and>
      filter (\<lambda>e. \<not> hit e) (suppressions w') = filter (\<lambda>e. \<not> hit e) (suppressions w))"
proof (cases "access ws u ''suppression.manage''")
  case (Inl e)
  with run show ?thesis by (auto simp: RemoveHandler_def)
next
  case (Inr a)
  have "(\<exists>e \<in> set (suppressions w). hit e \<and> s_Status e \<noteq> ''removed'') \<and>
      (\<forall>e \<in> set (suppressions w'). hit e \<longrightarrow> s_Status e = ''removed'' \<and> s_RemovedAt e = Some now) \<and>
      filter (\<lambda>e. \<not> hit e) (suppressions w') = filter (\<lambda>e. \<not> hit e) (suppressions w)"
    if "r = Inr ()"
  proof -
    from run Inr that obtain e v where find: "run_state (Supp_FindByID ws i) w = (Inr e, v)"
      and "s_Status e \<noteq> ''removed''" and rem: "run_state (Supp_Remove ws i now) v = (Inr (), w')"
      by (auto simp: RemoveHandler_def elim!: bindE_InrD split: if_split_asm)
    from exec_pool_Inr [OF find [unfolded Supp_FindByID_def]]
    have v: "suppressions v = suppressions w" and "find hit (suppressions w) = Some e"
      by (auto simp: hit_def split: option.split_asm)
    then have "e \<in> set (suppressions w)" "hit e" by (auto simp: find_Some_iff hit_def)
    moreover from exec_pool_Inr [OF rem [unfolded Supp_Remove_def SuppressionStatusRemoved_def]] v
    have w': "suppressions w' = map (\<lambda>e. if hit e then e\<lparr>s_Status := ''removed'', s_RemovedAt := Some now, s_UpdatedAt := now\<rparr> else e)
        (suppressions w)"
      by (auto simp: Let_def hit_def)
    moreover have "filter (\<lambda>e. \<not> hit e) (suppressions w') = filter (\<lambda>e. \<not> hit e) (suppressions w)"
      unfolding w' by (rule filter_update_others) (simp add: hit_def)
    ultimately show ?thesis using \<open>s_Status e \<noteq> ''removed''\<close> by (auto simp: hit_def)
  qed
  with Inr show ?thesis by auto
qed

text \<open>
  Listing with a limit: a client that follows the cursor through an unchanged table sees
  every entry its filter selects exactly once, newest first, and the handler never returns more
  than a hundred entries at once.
\<close>

lemma suppression_list_complete:
  assumes "distinct (map s_ID rows)" and "\<forall>e \<in> set rows. s_ID e \<noteq> []"
    and "suppressions w = rows" and "outcomes w = []"
    and "access (lq_WorkspaceID q) u ''suppression.read'' = Inr ()"
    and "0 < lq_Limit q" and "lq_Limit q \<le> 100"
  shows "run_state (ListHandler access u (q\<lparr>lq_Cursor := c\<rparr>)) w =
      (Inr (list_page entry_key s_ID (list_where q) (nat (lq_Limit q)) c rows), w) \<and>
    length (fst (list_page entry_key s_ID (list_where q) (nat (lq_Limit q)) c rows)) \<le> 100 \<and>
    follow entry_key s_ID (list_where q) (nat (lq_Limit q)) rows (Suc (length rows)) [] =
      Some (order_desc entry_key (filter (list_where q) rows))"
proof -
  have inj: "inj_on s_ID (set rows)" "distinct rows" using assms(1) by (auto simp: distinct_map)
  then have "inj_on entry_key (set rows)" by (auto simp: inj_on_def entry_key_def)
  with inj assms(2,6) have "follow entry_key s_ID (list_where q) (nat (lq_Limit q)) rows (Suc (length rows)) [] =
      Some (order_desc entry_key (filter (list_where q) rows))"
    by (intro follow_complete) auto
  moreover have "list_where (q\<lparr>lq_Cursor := c\<rparr>) = list_where q" by (auto simp: list_where_def fun_eq_iff)
  moreover have "length (fst (list_page entry_key s_ID (list_where q) (nat (lq_Limit q)) c rows)) \<le> 100"
    using assms(7) by (auto simp: list_page_def Let_def)
  ultimately show ?thesis using assms(3-7) by (simp add: ListHandler_def Supp_List_def Let_def)
qed

end
