(* ===== verification/Delivery_Store.thy ===== *)
theory Delivery_Store
  imports Delivery_Domain Suppression Quota
begin

text \<open>
  The tables of the delivery module and its PostgreSQL repositories
  (\<open>internal/modules/delivery/infrastructure/postgres\<close>). A table is the list of its rows. A row of
  \<open>messages\<close> is the \<open>Message\<close> that \<open>scanMessageRow\<close> reads back: the repository stores an empty
  optional string as NULL and reads NULL as the empty string, and snapshots and headers are read
  back as they were written. Primary keys and unique indexes of the schema are enforced where a
  statement writes key columns; a violation is an error of the server, except that
  \<open>ON CONFLICT DO NOTHING\<close> leaves the clashing row out. The other constraints (foreign keys, sizes)
  are covered by the fault \<open>Fail\<close>.
\<close>

section \<open>Tables and world\<close>

record request_row = TransactionalSendRequest +
  q_recipient_terminal_total :: int
  q_recipient_success_total :: int
  q_recipient_failure_total :: int

record delivery_db =
  messages :: "Message list"
  attempts :: "DeliveryAttempt list"
  retries :: "RetryState list"
  requests :: "request_row list"
  message_events :: "MessageEvent list"
  attachments :: "AttachmentManifest list"
  outbox :: "OutboxEvent list"

record AttachmentPart =
  ap_Filename :: string
  ap_ContentType :: string
  ap_ContentID :: string
  ap_Disposition :: string
  ap_Data :: string

record ProviderSendRequest =
  ps_To :: "string list"
  ps_CC :: "string list"
  ps_BCC :: "string list"
  ps_ReplyTo :: "string list"
  ps_Subject :: string
  ps_HTMLBody :: string
  ps_TextBody :: string
  ps_SenderName :: string
  ps_Headers :: "(string \<rightharpoonup> string) option"
  ps_Attachments :: "AttachmentPart list"

text \<open>
  What the world keeps beside the tables: the suppression list (\<open>sworld\<close>), the Redis locks and
  idempotency entries and quota buckets, rows locked by other sessions, stored objects, and as a history variable
  the mails handed to the mail server so far, each with the message it was sent for, whether the
  server took it (\<open>h_Taken\<close>) and whether the caller learned that it did (\<open>h_Reported\<close>).
\<close>

record handover =
  h_MessageID :: string
  h_To :: "string list"
  h_Taken :: bool
  h_Reported :: bool

record IdempotencyEntry =
  ie_PayloadHash :: string
  ie_RequestID :: string
  ie_MessageID :: string
  ie_Status :: string
  ie_AcceptedAt :: string

record delivery_world = "delivery_db sworld" +
  locks :: "string \<rightharpoonup> string"
  idem :: "string \<rightharpoonup> IdempotencyEntry"
  row_locks :: "string list"
  objects :: "string \<rightharpoonup> string"
  handed :: "handover list"
  quota :: buckets

type_synonym 'a dprog = "(delivery_world, (error, 'a) result) state"

section \<open>Messages\<close>

abbreviation has_key :: "string \<Rightarrow> string \<Rightarrow> Message \<Rightarrow> bool" where
  "has_key ws mid m \<equiv> m_ID m = mid \<and> m_WorkspaceID m = ws"

definition find_row :: "(Message \<Rightarrow> bool) \<Rightarrow> Message dprog" where
  "find_row P = exec (\<lambda>d. SqlOk
     (case find P (messages d) of None \<Rightarrow> Inl (Err ErrMessageNotFound) | Some m \<Rightarrow> Inr m) d)"

definition FindByID :: "string \<Rightarrow> string \<Rightarrow> Message dprog" where
  "FindByID workspaceID messageID = find_row (has_key workspaceID messageID)"

definition FindByIDForUpdate :: "string \<Rightarrow> string \<Rightarrow> Message dprog" where
  "FindByIDForUpdate workspaceID messageID = find_row (has_key workspaceID messageID)"

definition FindByTransactionalRequestID :: "string \<Rightarrow> string \<Rightarrow> Message dprog" where
  "FindByTransactionalRequestID workspaceID requestID =
     find_row (\<lambda>m. m_WorkspaceID m = workspaceID \<and> requestID \<noteq> [] \<and> m_TransactionalRequestID m = requestID)"

definition FindByProviderMessageID :: "string \<Rightarrow> string \<Rightarrow> Message dprog" where
  "FindByProviderMessageID provider providerMessageID =
     find_row (\<lambda>m. m_Provider m = provider \<and> m_ProviderMessageID m = providerMessageID)"

record MessageListQuery =
  ml_WorkspaceID :: string
  ml_CampaignID :: string
  ml_TransactionalRequestID :: string
  ml_Status :: string
  ml_MessageType :: string
  ml_Mode :: string
  ml_Provider :: string
  ml_RecipientEmailNormalized :: string
  ml_ProviderMessageID :: string
  ml_From :: "gotime option"
  ml_To :: "gotime option"
  ml_Limit :: int
  ml_Cursor :: string

definition message_where :: "MessageListQuery \<Rightarrow> Message \<Rightarrow> bool" where
  "message_where query m \<longleftrightarrow>
     m_WorkspaceID m = ml_WorkspaceID query \<and>
     (ml_CampaignID query \<noteq> [] \<longrightarrow> m_CampaignID m = ml_CampaignID query) \<and>
     (ml_TransactionalRequestID query \<noteq> [] \<longrightarrow>
        m_TransactionalRequestID m = ml_TransactionalRequestID query) \<and>
     (ml_Status query \<noteq> [] \<longrightarrow> m_Status m = ml_Status query) \<and>
     (ml_MessageType query \<noteq> [] \<longrightarrow> m_MessageType m = ml_MessageType query) \<and>
     (ml_Mode query = ''template'' \<longrightarrow> m_TemplateID m \<noteq> []) \<and>
     (ml_Mode query = ''raw'' \<longrightarrow> m_TemplateID m = []) \<and>
     (ml_Provider query \<noteq> [] \<longrightarrow> m_Provider m = ml_Provider query) \<and>
     (ml_RecipientEmailNormalized query \<noteq> [] \<longrightarrow>
        m_RecipientEmailNormalized m = ml_RecipientEmailNormalized query) \<and>
     (ml_ProviderMessageID query \<noteq> [] \<longrightarrow> m_ProviderMessageID m = ml_ProviderMessageID query) \<and>
     (case ml_From query of None \<Rightarrow> True | Some t \<Rightarrow> t \<le> m_CreatedAt m) \<and>
     (case ml_To query of None \<Rightarrow> True | Some t \<Rightarrow> m_CreatedAt m \<le> t)"

definition message_key :: "Message \<Rightarrow> gotime \<times> string" where
  "message_key m = (m_CreatedAt m, m_ID m)"

definition page_limit :: "int \<Rightarrow> nat" where
  "page_limit l = nat (if l \<le> 0 then DefaultPageSize else if 100 < l then 100 else l)"

definition Message_List :: "MessageListQuery \<Rightarrow> (Message list \<times> string) dprog" where
  "Message_List query = exec (\<lambda>d. SqlOk (Inr
     (list_page message_key m_ID (message_where query) (page_limit (ml_Limit query)) (ml_Cursor query)
        (messages d))) d)"

record DueMessageQuery =
  dq_Now :: gotime
  dq_Limit :: int
  dq_MessageType :: string
  dq_WorkspaceID :: string

definition is_due :: "string \<Rightarrow> gotime \<Rightarrow> Message \<Rightarrow> bool" where
  "is_due messageType now m \<longleftrightarrow>
     m_Status m = ''queued'' \<and> m_MessageType m = messageType \<and>
     (case m_ScheduledAt m of None \<Rightarrow> True | Some t \<Rightarrow> t \<le> now)"

text \<open>\<open>ORDER BY scheduled_at ASC, created_at ASC\<close>; NULL sorts last.\<close>

definition due_key :: "Message \<Rightarrow> bool \<times> gotime \<times> gotime" where
  "due_key m = (m_ScheduledAt m = None, case m_ScheduledAt m of None \<Rightarrow> 0 | Some t \<Rightarrow> t, m_CreatedAt m)"

definition due_rows :: "DueMessageQuery \<Rightarrow> Message list \<Rightarrow> Message list" where
  "due_rows query rows =
     take (nat (dq_Limit query)) (sort_key due_key
       (filter (\<lambda>m. m_WorkspaceID m = dq_WorkspaceID query \<and> is_due (dq_MessageType query) (dq_Now query) m) rows))"

definition ListDueQueued :: "DueMessageQuery \<Rightarrow> (Message list) dprog" where
  "ListDueQueued query = exec (\<lambda>d. SqlOk (Inr (due_rows query (messages d))) d)"

definition ListDistinctWorkspacesWithDue :: "string \<Rightarrow> gotime \<Rightarrow> (string list) dprog" where
  "ListDistinctWorkspacesWithDue messageType now = exec (\<lambda>d. SqlOk (Inr
     (remdups (map m_WorkspaceID (filter (is_due messageType now) (messages d))))) d)"

definition CountByCampaign :: "string \<Rightarrow> string \<Rightarrow> int dprog" where
  "CountByCampaign workspaceID campaignID = exec (\<lambda>d. SqlOk (Inr
     (int (length (filter (\<lambda>m. m_WorkspaceID m = workspaceID \<and> campaignID \<noteq> [] \<and> m_CampaignID m = campaignID)
        (messages d))))) d)"

text \<open>
  The unique indexes of \<open>messages\<close>: the primary key, \<open>uq_messages_campaign_candidate\<close> (rows with both
  columns), and \<open>uq_messages_provider_ref\<close>. The repository writes provider columns as plain
  strings, never as NULL, so the last index covers every row.
\<close>

definition row_conflict :: "Message \<Rightarrow> Message \<Rightarrow> bool" where
  "row_conflict m n \<longleftrightarrow>
     m_ID m = m_ID n \<or>
     m_CampaignID m \<noteq> [] \<and> m_CampaignCandidateID m \<noteq> [] \<and> m_CampaignID m = m_CampaignID n \<and>
       m_CampaignCandidateID m = m_CampaignCandidateID n \<or>
     m_Provider m = m_Provider n \<and> m_ProviderMessageID m = m_ProviderMessageID n"

text \<open>
  \<open>UPDATE messages SET ... WHERE id = $ AND workspace_id = $\<close>; \<open>RowsAffected() == 0\<close> is
  \<open>ErrMessageNotFound\<close>. The first form is for statements that write no key column.
\<close>

definition set_message :: "string \<Rightarrow> string \<Rightarrow> (Message \<Rightarrow> Message) \<Rightarrow> delivery_db \<Rightarrow> delivery_db" where
  "set_message ws mid f d = d\<lparr>messages := map (\<lambda>m. if has_key ws mid m then f m else m) (messages d)\<rparr>"

definition affected :: "string \<Rightarrow> string \<Rightarrow> delivery_db \<Rightarrow> (error, unit) result" where
  "affected ws mid d = (if list_ex (has_key ws mid) (messages d) then Inr () else Inl (Err ErrMessageNotFound))"

definition update_row :: "string \<Rightarrow> string \<Rightarrow> (Message \<Rightarrow> Message) \<Rightarrow> unit dprog" where
  "update_row ws mid f = exec (\<lambda>d. SqlOk (affected ws mid d) (set_message ws mid f d))"

definition update_row_keys :: "string \<Rightarrow> string \<Rightarrow> (Message \<Rightarrow> Message) \<Rightarrow> unit dprog" where
  "update_row_keys ws mid f = exec (\<lambda>d.
     if list_ex (\<lambda>m. has_key ws mid m \<and>
           list_ex (\<lambda>n. \<not> has_key ws mid n \<and> row_conflict (f m) n) (messages d)) (messages d)
     then SqlErr ErrDriver
     else SqlOk (affected ws mid d) (set_message ws mid f d))"

text \<open>\<open>Update\<close> writes every column but the key and \<open>created_at\<close>.\<close>

definition Message_Update :: "Message \<Rightarrow> unit dprog" where
  "Message_Update message = update_row_keys (m_WorkspaceID message) (m_ID message)
     (\<lambda>row. message\<lparr>m_CreatedAt := m_CreatedAt row\<rparr>)"

definition ClaimDueMessages :: "DueMessageQuery \<Rightarrow> gotime \<Rightarrow> (Message list) dprog" where
  "ClaimDueMessages query now = do {
     w \<leftarrow> State_Monad.get;
     exec (\<lambda>d.
       let claimed = due_rows query (filter (\<lambda>m. m_ID m \<notin> set (row_locks w)) (messages d));
           start = (\<lambda>m. m\<lparr>m_Status := ''processing'', m_ProcessingStartedAt := Some now, m_UpdatedAt := now\<rparr>)
       in SqlOk (Inr (map start claimed))
            (d\<lparr>messages := map (\<lambda>m. if m_ID m \<in> set (map m_ID claimed) then start m else m) (messages d)\<rparr>))
   }"

definition MarkProcessing :: "string \<Rightarrow> string \<Rightarrow> gotime \<Rightarrow> unit dprog" where
  "MarkProcessing workspaceID messageID now = exec (\<lambda>d.
     let hit = (\<lambda>m. has_key workspaceID messageID m \<and> m_Status m = ''queued'') in
     SqlOk (if list_ex hit (messages d) then Inr () else Inl (Err ErrMessageNotFound))
       (d\<lparr>messages := map (\<lambda>m. if hit m
          then m\<lparr>m_Status := ''processing'', m_ProcessingStartedAt := Some now, m_UpdatedAt := now\<rparr> else m) (messages d)\<rparr>))"

definition MarkAccepted :: "Message \<Rightarrow> unit dprog" where
  "MarkAccepted message = update_row_keys (m_WorkspaceID message) (m_ID message)
     (\<lambda>row. row\<lparr>m_Status := ''accepted'', m_AcceptedAt := m_AcceptedAt message, m_Provider := m_Provider message,
        m_ProviderMessageID := m_ProviderMessageID message, m_UpdatedAt := m_UpdatedAt message\<rparr>)"

definition MarkDelivered :: "Message \<Rightarrow> unit dprog" where
  "MarkDelivered message = update_row (m_WorkspaceID message) (m_ID message)
     (\<lambda>row. row\<lparr>m_Status := ''delivered'', m_DeliveredAt := m_DeliveredAt message, m_UpdatedAt := m_UpdatedAt message\<rparr>)"

definition MarkBounced :: "Message \<Rightarrow> unit dprog" where
  "MarkBounced message = update_row (m_WorkspaceID message) (m_ID message)
     (\<lambda>row. row\<lparr>m_Status := ''bounced'', m_BouncedAt := m_BouncedAt message,
        m_LastErrorClass := m_LastErrorClass message, m_LastErrorMessage := m_LastErrorMessage message,
        m_UpdatedAt := m_UpdatedAt message\<rparr>)"

definition MarkComplained :: "Message \<Rightarrow> unit dprog" where
  "MarkComplained message = update_row (m_WorkspaceID message) (m_ID message)
     (\<lambda>row. row\<lparr>m_Status := ''complained'', m_ComplainedAt := m_ComplainedAt message,
        m_LastErrorClass := m_LastErrorClass message, m_LastErrorMessage := m_LastErrorMessage message,
        m_UpdatedAt := m_UpdatedAt message\<rparr>)"

definition MarkDelayed :: "Message \<Rightarrow> unit dprog" where
  "MarkDelayed message = update_row (m_WorkspaceID message) (m_ID message)
     (\<lambda>row. row\<lparr>m_Status := ''delayed'',
        m_LastErrorClass := m_LastErrorClass message, m_LastErrorMessage := m_LastErrorMessage message,
        m_UpdatedAt := m_UpdatedAt message\<rparr>)"

definition MarkFailed :: "Message \<Rightarrow> unit dprog" where
  "MarkFailed message = update_row (m_WorkspaceID message) (m_ID message)
     (\<lambda>row. row\<lparr>m_Status := ''failed'', m_FailedAt := m_FailedAt message,
        m_LastErrorClass := m_LastErrorClass message, m_LastErrorMessage := m_LastErrorMessage message,
        m_UpdatedAt := m_UpdatedAt message\<rparr>)"

section \<open>Attempts and retry states\<close>

definition Attempt_ListByMessage :: "string \<Rightarrow> string \<Rightarrow> (DeliveryAttempt list) dprog" where
  "Attempt_ListByMessage workspaceID messageID = exec (\<lambda>d. SqlOk (Inr
     (sort_key a_AttemptNo (filter (\<lambda>a. a_WorkspaceID a = workspaceID \<and> a_MessageID a = messageID) (attempts d)))) d)"

definition next_no :: "string \<Rightarrow> string \<Rightarrow> DeliveryAttempt list \<Rightarrow> int" where
  "next_no ws mid as =
     (case filter (\<lambda>a. a_WorkspaceID a = ws \<and> a_MessageID a = mid) as of
        [] \<Rightarrow> 0
      | b # bs \<Rightarrow> fold max (map a_AttemptNo bs) (a_AttemptNo b)) + 1"

definition NextAttemptNumber :: "string \<Rightarrow> string \<Rightarrow> int dprog" where
  "NextAttemptNumber workspaceID messageID = exec (\<lambda>d. SqlOk (Inr (next_no workspaceID messageID (attempts d))) d)"

definition Attempt_Create :: "DeliveryAttempt \<Rightarrow> unit dprog" where
  "Attempt_Create attempt = exec (\<lambda>d.
     if list_ex (\<lambda>a. a_ID a = a_ID attempt \<or>
          a_MessageID a = a_MessageID attempt \<and> a_AttemptNo a = a_AttemptNo attempt) (attempts d)
     then SqlErr ErrDriver
     else SqlOk (Inr ()) (d\<lparr>attempts := attempts d @ [attempt]\<rparr>))"

definition Attempt_Update :: "DeliveryAttempt \<Rightarrow> unit dprog" where
  "Attempt_Update attempt = exec (\<lambda>d.
     let hit = (\<lambda>a. a_ID a = a_ID attempt \<and> a_WorkspaceID a = a_WorkspaceID attempt) in
     SqlOk (if list_ex hit (attempts d) then Inr () else Inl (Err ErrAttemptNotFound))
       (d\<lparr>attempts := map (\<lambda>a. if hit a
          then a\<lparr>a_Provider := a_Provider attempt, a_Status := a_Status attempt,
                 a_RequestSnapshot := a_RequestSnapshot attempt, a_ResponseSnapshot := a_ResponseSnapshot attempt,
                 a_ErrorClass := a_ErrorClass attempt, a_ErrorMessage := a_ErrorMessage attempt,
                 a_FinishedAt := a_FinishedAt attempt\<rparr>
          else a) (attempts d)\<rparr>))"

abbreviation retry_of :: "string \<Rightarrow> string \<Rightarrow> RetryState \<Rightarrow> bool" where
  "retry_of ws mid r \<equiv> r_WorkspaceID r = ws \<and> r_MessageID r = mid"

definition Retry_FindByMessage :: "string \<Rightarrow> string \<Rightarrow> (RetryState option) dprog" where
  "Retry_FindByMessage workspaceID messageID = exec (\<lambda>d. SqlOk (Inr (find (retry_of workspaceID messageID) (retries d))) d)"

definition Retry_Create :: "RetryState \<Rightarrow> unit dprog" where
  "Retry_Create st = exec (\<lambda>d.
     if list_ex (\<lambda>r. r_ID r = r_ID st \<or> r_MessageID r = r_MessageID st) (retries d) then SqlErr ErrDriver
     else SqlOk (Inr ()) (d\<lparr>retries := retries d @ [st]\<rparr>))"

definition Retry_Update :: "RetryState \<Rightarrow> unit dprog" where
  "Retry_Update st = exec (\<lambda>d.
     let hit = (\<lambda>r. r_ID r = r_ID st \<and> r_WorkspaceID r = r_WorkspaceID st) in
     SqlOk (if list_ex hit (retries d) then Inr () else Inl (Err ErrAttemptNotFound))
       (d\<lparr>retries := map (\<lambda>r. if hit r
          then r\<lparr>r_RetryCount := r_RetryCount st, r_MaxRetries := r_MaxRetries st, r_NextAttemptAt := r_NextAttemptAt st,
                 r_LastErrorClass := r_LastErrorClass st, r_LastErrorMessage := r_LastErrorMessage st,
                 r_Status := r_Status st, r_UpdatedAt := r_UpdatedAt st\<rparr>
          else r) (retries d)\<rparr>))"

section \<open>Transactional requests\<close>

abbreviation request_key :: "string \<Rightarrow> string \<Rightarrow> request_row \<Rightarrow> bool" where
  "request_key ws rid q \<equiv> q_ID q = rid \<and> q_WorkspaceID q = ws"

text \<open>
  The \<open>SELECT\<close> of both lookups names neither mode, subject, sender name, key, hash nor the number of
  recipients, so the struct they return has the zero values there.
\<close>

definition selected_request :: "request_row \<Rightarrow> TransactionalSendRequest" where
  "selected_request q =
     \<lparr>q_ID = q_ID q, q_WorkspaceID = q_WorkspaceID q, q_IdempotencyKey = q_IdempotencyKey q, q_Status = q_Status q,
      q_RequestPayload = q_RequestPayload q, q_Mode = [], q_Subject = [], q_SenderName = [],
      q_SourceAPIKeyID = [], q_RequestHash = [], q_TotalRecipients = 0,
      q_CreatedAt = q_CreatedAt q, q_UpdatedAt = q_UpdatedAt q, q_CompletedAt = q_CompletedAt q,
      q_FailedAt = q_FailedAt q\<rparr>"

definition find_request :: "(request_row \<Rightarrow> bool) \<Rightarrow> TransactionalSendRequest dprog" where
  "find_request P = exec (\<lambda>d. SqlOk
     (case find P (requests d) of
        None \<Rightarrow> Inl (Err ErrTransactionalRequestNotFound) | Some q \<Rightarrow> Inr (selected_request q)) d)"

definition FindByIdempotencyKey :: "string \<Rightarrow> string \<Rightarrow> TransactionalSendRequest dprog" where
  "FindByIdempotencyKey workspaceID idempotencyKey =
     find_request (\<lambda>q. q_WorkspaceID q = workspaceID \<and> q_IdempotencyKey q = Some idempotencyKey)"

definition Request_FindByID :: "string \<Rightarrow> string \<Rightarrow> TransactionalSendRequest dprog" where
  "Request_FindByID workspaceID requestID = find_request (request_key workspaceID requestID)"

text \<open>The unique index on the idempotency key; the repository maps its violation to the domain's error.\<close>

definition request_conflict :: "TransactionalSendRequest \<Rightarrow> request_row \<Rightarrow> bool" where
  "request_conflict r q \<longleftrightarrow>
     q_ID q = q_ID r \<or>
     q_WorkspaceID q = q_WorkspaceID r \<and> q_IdempotencyKey r \<noteq> None \<and> q_IdempotencyKey q = q_IdempotencyKey r"

definition Request_Create :: "TransactionalSendRequest \<Rightarrow> unit dprog" where
  "Request_Create request = exec (\<lambda>d.
     if list_ex (request_conflict request) (requests d) then SqlErr (Err ErrIdempotencyKeyConflict)
     else SqlOk (Inr ()) (d\<lparr>requests := requests d @ [TransactionalSendRequest.extend request
       (request_row.fields 0 0 0)]\<rparr>))"

definition request_affected :: "string \<Rightarrow> string \<Rightarrow> delivery_db \<Rightarrow> (error, unit) result" where
  "request_affected ws rid d =
     (if list_ex (request_key ws rid) (requests d) then Inr () else Inl (Err ErrTransactionalRequestNotFound))"

definition set_request :: "string \<Rightarrow> string \<Rightarrow> (request_row \<Rightarrow> request_row) \<Rightarrow> delivery_db \<Rightarrow> delivery_db" where
  "set_request ws rid f d = d\<lparr>requests := map (\<lambda>q. if request_key ws rid q then f q else q) (requests d)\<rparr>"

definition Request_Update :: "TransactionalSendRequest \<Rightarrow> unit dprog" where
  "Request_Update request = exec (\<lambda>d.
     if list_ex (request_key (q_WorkspaceID request) (q_ID request)) (requests d) \<and>
        list_ex (\<lambda>q. \<not> request_key (q_WorkspaceID request) (q_ID request) q \<and> request_conflict request q) (requests d)
     then SqlErr ErrDriver
     else SqlOk (request_affected (q_WorkspaceID request) (q_ID request) d)
       (set_request (q_WorkspaceID request) (q_ID request)
         (\<lambda>q. q\<lparr>q_IdempotencyKey := q_IdempotencyKey request, q_Status := q_Status request,
                q_RequestPayload := q_RequestPayload request, q_Mode := q_Mode request, q_Subject := q_Subject request,
                q_SenderName := q_SenderName request, q_SourceAPIKeyID := q_SourceAPIKeyID request,
                q_RequestHash := q_RequestHash request, q_TotalRecipients := q_TotalRecipients request,
                q_UpdatedAt := q_UpdatedAt request, q_CompletedAt := q_CompletedAt request,
                q_FailedAt := q_FailedAt request\<rparr>) d))"

definition UpdateStatus :: "string \<Rightarrow> string \<Rightarrow> string \<Rightarrow> gotime \<Rightarrow> unit dprog" where
  "UpdateStatus workspaceID requestID status now = exec (\<lambda>d. SqlOk (request_affected workspaceID requestID d)
     (set_request workspaceID requestID (\<lambda>q. q\<lparr>q_Status := status, q_UpdatedAt := now\<rparr>) d))"

text \<open>\<open>UPDATE\<close> evaluates every right-hand side on the old row.\<close>

definition count_recipient :: "bool \<Rightarrow> gotime \<Rightarrow> request_row \<Rightarrow> request_row" where
  "count_recipient isSuccess now q =
     (let full = q_TotalRecipients q \<le> q_recipient_terminal_total q + 1 in
      q\<lparr>q_Status := (if full then ''completed'' else q_Status q),
        q_UpdatedAt := now,
        q_CompletedAt := (if full then Some now else q_CompletedAt q),
        q_recipient_terminal_total := q_recipient_terminal_total q + 1,
        q_recipient_success_total := q_recipient_success_total q + (if isSuccess then 1 else 0),
        q_recipient_failure_total := q_recipient_failure_total q + (if isSuccess then 0 else 1)\<rparr>)"

definition UpdateAggregates :: "string \<Rightarrow> string \<Rightarrow> bool \<Rightarrow> bool \<Rightarrow> gotime \<Rightarrow> unit dprog" where
  "UpdateAggregates workspaceID requestID isTerminal isSuccess now =
     (if \<not> isTerminal then ret (Inr ())
      else exec (\<lambda>d. SqlOk (request_affected workspaceID requestID d)
        (set_request workspaceID requestID (count_recipient isSuccess now) d)))"

section \<open>Timeline, attachments, outbox\<close>

definition Event_Create :: "MessageEvent \<Rightarrow> unit dprog" where
  "Event_Create event = exec (\<lambda>d.
     if list_ex (\<lambda>e. e_ID e = e_ID event) (message_events d) then SqlErr ErrDriver
     else SqlOk (Inr ()) (d\<lparr>message_events := message_events d @ [event]\<rparr>))"

definition Event_CreateMany :: "MessageEvent list \<Rightarrow> unit dprog" where
  "Event_CreateMany es =
     (if es = [] then ret (Inr ())
      else exec (\<lambda>d.
        if \<not> distinct (map e_ID es) \<or> list_ex (\<lambda>e. e_ID e \<in> set (map e_ID es)) (message_events d) then SqlErr ErrDriver
        else SqlOk (Inr ()) (d\<lparr>message_events := message_events d @ es\<rparr>)))"

text \<open>
  The reason columns are stored as NULL when empty, and \<open>scanMessageEventRow\<close> scans them into
  plain strings, which the driver refuses for NULL.
\<close>

definition scannable :: "MessageEvent \<Rightarrow> bool" where
  "scannable e \<longleftrightarrow> e_ReasonCode e \<noteq> [] \<and> e_ReasonMessage e \<noteq> []"

definition event_key :: "MessageEvent \<Rightarrow> gotime \<times> string" where
  "event_key e = (e_OccurredAt e, e_ID e)"

definition scan_events :: "(MessageEvent \<Rightarrow> bool) \<Rightarrow> int \<Rightarrow> string \<Rightarrow> (MessageEvent list \<times> string) dprog" where
  "scan_events P limit cursor = exec (\<lambda>d.
     let fetched = take (page_limit limit + 1)
           (order_desc event_key (filter (\<lambda>e. P e \<and> after_cursor event_key e_ID cursor (message_events d) e)
              (message_events d)))
     in SqlOk (if list_all scannable fetched
               then Inr (list_page event_key e_ID P (page_limit limit) cursor (message_events d))
               else Inl ErrDriver) d)"

definition Event_ListByMessage :: "string \<Rightarrow> string \<Rightarrow> int \<Rightarrow> string \<Rightarrow> (MessageEvent list \<times> string) dprog" where
  "Event_ListByMessage workspaceID messageID =
     scan_events (\<lambda>e. e_WorkspaceID e = workspaceID \<and> e_MessageID e = messageID)"

definition Event_ListByRequest :: "string \<Rightarrow> string \<Rightarrow> int \<Rightarrow> string \<Rightarrow> (MessageEvent list \<times> string) dprog" where
  "Event_ListByRequest workspaceID requestID =
     scan_events (\<lambda>e. e_WorkspaceID e = workspaceID \<and> requestID \<noteq> [] \<and> e_TransactionalRequestID e = requestID)"

definition Attachment_Create :: "AttachmentManifest \<Rightarrow> unit dprog" where
  "Attachment_Create att = exec (\<lambda>d.
     if list_ex (\<lambda>f. f_ID f = f_ID att) (attachments d) then SqlErr ErrDriver
     else SqlOk (Inr ()) (d\<lparr>attachments := attachments d @ [att]\<rparr>))"

definition Attachment_CreateMany :: "AttachmentManifest list \<Rightarrow> unit dprog" where
  "Attachment_CreateMany fs =
     (if fs = [] then ret (Inr ())
      else exec (\<lambda>d.
        if \<not> distinct (map f_ID fs) \<or> list_ex (\<lambda>f. f_ID f \<in> set (map f_ID fs)) (attachments d) then SqlErr ErrDriver
        else SqlOk (Inr ()) (d\<lparr>attachments := attachments d @ fs\<rparr>)))"

definition Attachment_ListByRequest :: "string \<Rightarrow> string \<Rightarrow> (AttachmentManifest list) dprog" where
  "Attachment_ListByRequest workspaceID requestID = exec (\<lambda>d. SqlOk (Inr
     (sort_key f_CreatedAt
       (filter (\<lambda>f. f_WorkspaceID f = workspaceID \<and> f_TransactionalRequestID f = requestID) (attachments d)))) d)"

definition Outbox_Save :: "OutboxEvent \<Rightarrow> unit dprog" where
  "Outbox_Save event = exec (\<lambda>d.
     if list_ex (\<lambda>e. o_ID e = o_ID event) (outbox d) then SqlErr ErrDriver
     else SqlOk (Inr ()) (d\<lparr>outbox := outbox d @ [event]\<rparr>))"

end
