(* ===== verification/Delivery_Process.thy ===== *)
theory Delivery_Process
  imports Delivery_Store Complex_Main
begin

text \<open>
  The worker that sends due messages: \<open>internal/modules/delivery/app/process/due.go\<close>, with the
  adapters it is wired to (\<open>internal/apps/worker/delivery_provider.go\<close>, \<open>delivery_adapters.go\<close>) and the
  Redis lock it takes (\<open>delivery/infrastructure/redis/cache.go\<close>, \<open>platform/redis/redis.go\<close>).
  What the worker gets from other modules and from outside are the \<open>ports\<close>. The clock of the run is
  its argument \<open>now\<close>. Logging is left out.
\<close>

section \<open>Ports\<close>

record RenderedMessage =
  rm_Subject :: string
  rm_HTMLBody :: string
  rm_TextBody :: string

record EmailMessage =
  em_To :: "string list"
  em_CC :: "string list"
  em_BCC :: "string list"
  em_Subject :: string
  em_Text :: string
  em_HTML :: string
  em_SenderName :: string
  em_Headers :: "(string \<rightharpoonup> string) option"
  em_Attachments :: "AttachmentPart list"

record ProviderSendResult =
  pr_Provider :: string
  pr_ProviderMessageID :: string
  pr_AcceptedAt :: gotime

text \<open>
  \<open>p_gen\<close> and \<open>p_token\<close>: the n-th id and lock token the process draws; \<open>p_ready\<close>: the sender module's
  answer for a workspace and domain; \<open>p_render\<close>: the content module; \<open>p_sender\<close>: the mail server's
  answer to a mail (\<open>None\<close>: taken), which may depend on how many mails it got before;
  \<open>p_rand\<close>: \<open>rand.Float64\<close>; \<open>p_rfc3339\<close> and \<open>p_errtext\<close>: formatting of times and errors. The flags say
  which optional dependencies are not nil.
\<close>

record ports =
  p_gen :: "nat \<Rightarrow> string"
  p_token :: "nat \<Rightarrow> string"
  p_ready :: "string \<Rightarrow> string \<Rightarrow> (error, bool) result"
  p_render :: "string \<Rightarrow> string \<Rightarrow> string \<Rightarrow> jsonmap \<Rightarrow> (error, RenderedMessage) result"
  p_sender :: "nat \<Rightarrow> EmailMessage \<Rightarrow> error goerr option"
  p_providerName :: string
  p_clock :: gotime
  p_rand :: "nat \<Rightarrow> rat"
  p_rfc3339 :: "gotime \<Rightarrow> string"
  p_errtext :: "error goerr \<Rightarrow> string"
  p_hasCache :: bool
  p_hasEventRepo :: bool
  p_hasAttachmentRepo :: bool
  p_hasObjectStorage :: bool
  p_hasSuppressor :: bool

section \<open>Redis locks\<close>

definition KeyLockMessage :: "string \<Rightarrow> string" where
  "KeyLockMessage messageID = ''lock:delivery:message:v1:'' @ messageID"

definition RandomToken :: "ports \<Rightarrow> string dprog" where
  "RandomToken P = idGen (p_token P)"

definition AcquireLock :: "ports \<Rightarrow> string \<Rightarrow> int \<Rightarrow> (string \<times> bool) dprog" where
  "AcquireLock P key ttl =
     (if ttl \<le> 0 then ret (Inl ErrRedis)
      else bindE (RandomToken P) (\<lambda>token. do {
        x \<leftarrow> next_outcome;
        w \<leftarrow> State_Monad.get;
        (let free = (locks w key = None) in
         if x = Fail then ret (Inl ErrRedis)
         else do {
           State_Monad.set (if free then w\<lparr>locks := (locks w)(key \<mapsto> token)\<rparr> else w);
           ret (if x = OK then Inr (token, free) else Inl ErrRedis)
         })
      }))"

definition ReleaseLock :: "string \<Rightarrow> string \<Rightarrow> bool dprog" where
  "ReleaseLock key token = do {
     x \<leftarrow> next_outcome;
     w \<leftarrow> State_Monad.get;
     (let mine = (locks w key = Some token) in
      if x = Fail then ret (Inl ErrRedis)
      else do {
        State_Monad.set (if mine then w\<lparr>locks := (locks w)(key := None)\<rparr> else w);
        ret (if x = OK then Inr mine else Inl ErrRedis)
      })
   }"

definition AcquireMessageLock :: "ports \<Rightarrow> string \<Rightarrow> int \<Rightarrow> (string \<times> bool) dprog" where
  "AcquireMessageLock P messageID ttl = AcquireLock P (KeyLockMessage messageID) ttl"

definition ReleaseMessageLock :: "string \<Rightarrow> string \<Rightarrow> bool dprog" where
  "ReleaseMessageLock messageID token = ReleaseLock (KeyLockMessage messageID) token"

section \<open>The mail provider adapter\<close>

fun join :: "string \<Rightarrow> string list \<Rightarrow> string" where
  "join sep [] = []"
| "join sep [s] = s"
| "join sep (s # ss) = s @ sep @ join sep ss"

text \<open>
  Maps are references: when the request carries a map, the adapter writes the \<open>Reply-To\<close> entry into
  the caller's map. The headers the caller has afterwards are returned beside the result.
\<close>

definition reply_headers :: "string list \<Rightarrow> (string \<rightharpoonup> string) option \<Rightarrow> (string \<rightharpoonup> string) option" where
  "reply_headers replyTo headers =
     (if replyTo = [] then headers
      else let h = (case headers of None \<Rightarrow> Map.empty | Some h \<Rightarrow> h) in
        Some (if h ''Reply-To'' = None then h(''Reply-To'' \<mapsto> join '', '' replyTo) else h))"

definition attachment_part :: "AttachmentPart \<Rightarrow> AttachmentPart" where
  "attachment_part att = att\<lparr>ap_Disposition := (if ap_Disposition att = [] then ''attachment'' else ap_Disposition att)\<rparr>"

definition hand_over :: "string \<Rightarrow> string list \<Rightarrow> bool \<Rightarrow> bool \<Rightarrow> (delivery_world, unit) state" where
  "hand_over mid to took reported = State (\<lambda>w.
     ((), w\<lparr>handed := handed w @ [\<lparr>h_MessageID = mid, h_To = to, h_Taken = took, h_Reported = reported\<rparr>]\<rparr>))"

text \<open>
  \<open>sender.Send\<close> and then the provider's message id, which the adapter draws itself. The first
  argument is the message the mail is sent for; only the history variable uses it.
\<close>

definition SendEmail ::
  "ports \<Rightarrow> string \<Rightarrow> ProviderSendRequest \<Rightarrow>
   (delivery_world, (error, ProviderSendResult) result \<times> (string \<rightharpoonup> string) option) state" where
  "SendEmail P mid req =
     (let headers = reply_headers (ps_ReplyTo req) (ps_Headers req);
          callerHeaders = (if ps_Headers req = None then None else headers);
          mail = \<lparr>em_To = ps_To req, em_CC = ps_CC req, em_BCC = ps_BCC req, em_Subject = ps_Subject req,
            em_Text = ps_TextBody req, em_HTML = ps_HTMLBody req, em_SenderName = ps_SenderName req,
            em_Headers = headers, em_Attachments = map attachment_part (ps_Attachments req)\<rparr>
      in do {
        x \<leftarrow> next_outcome;
        w \<leftarrow> State_Monad.get;
        (let answer = p_sender P (length (handed w)) mail in
         if x = Fail then do {
           hand_over mid (ps_To req) False False;
           ret (Inl (ErrSender ''connect''), callerHeaders)
         } else if x = LostAck then do {
           hand_over mid (ps_To req) (answer = None) False;
           ret (Inl (ErrSender ''reset''), callerHeaders)
         } else case answer of
           Some e \<Rightarrow> do {
             hand_over mid (ps_To req) False False;
             ret (Inl e, callerHeaders)
           }
         | None \<Rightarrow> do {
             i \<leftarrow> idGen (p_gen P);
             case i of
               Inl e \<Rightarrow> do {
                 hand_over mid (ps_To req) True False;
                 ret (Inl e, callerHeaders)
               }
             | Inr msgID \<Rightarrow> do {
                 hand_over mid (ps_To req) True True;
                 ret (Inr \<lparr>pr_Provider = p_providerName P, pr_ProviderMessageID = msgID,
                           pr_AcceptedAt = p_clock P\<rparr>, callerHeaders)
               }
           })
      })"

section \<open>Steps of the worker\<close>

datatype messageStatus = messageStatusAccepted | messageStatusFailed | messageStatusRetryScheduled

definition DefaultMaxRetries :: int where "DefaultMaxRetries = 5"
definition baseRetryDelay :: int where "baseRetryDelay = minute"
definition maxRetryDelay :: int where "maxRetryDelay = hour"

definition due_writeEvent ::
  "ports \<Rightarrow> Message \<Rightarrow> string \<Rightarrow> string \<Rightarrow> string \<Rightarrow> string \<Rightarrow> gotime \<Rightarrow> (delivery_world, unit) state" where
  "due_writeEvent P msg eventType status reasonCode reasonMessage now =
     (if \<not> p_hasEventRepo P then ret ()
      else do {
        i \<leftarrow> idGen (p_gen P);
        case i of
          Inl (e :: error goerr) \<Rightarrow> ret ()
        | Inr eventID \<Rightarrow> do {
            _ \<leftarrow> Event_Create \<lparr>e_ID = eventID, e_WorkspaceID = m_WorkspaceID msg, e_MessageID = m_ID msg,
              e_TransactionalRequestID = m_TransactionalRequestID msg, e_EventType = eventType, e_Status = status,
              e_ReasonCode = reasonCode, e_ReasonMessage = reasonMessage, e_OccurredAt = now, e_CreatedAt = now\<rparr>;
            ret ()
          }
      })"

definition buildRenderData :: "RecipientSnapshot \<Rightarrow> jsonmap" where
  "buildRenderData snapshot =
     (let base = [''first_name'' \<mapsto> JStr (rs_FirstName snapshot), ''last_name'' \<mapsto> JStr (rs_LastName snapshot),
            ''email'' \<mapsto> JStr (rs_Email snapshot)];
          tagged = (if rs_Tags snapshot = [] then base
                    else base(''tags'' \<mapsto> JArr (map JStr (rs_Tags snapshot))));
          attributed = (case rs_Attributes snapshot of None \<Rightarrow> tagged
                        | Some a \<Rightarrow> tagged(''attributes'' \<mapsto> JMap a))
      in case rs_TemplateData snapshot of None \<Rightarrow> attributed | Some t \<Rightarrow> attributed ++ t)"

definition buildRequestSnapshot :: "Message \<Rightarrow> int \<Rightarrow> json" where
  "buildRequestSnapshot msg attemptNo =
     JObj [(''attempt_no'', JNum attemptNo), (''message_id'', JStr (m_ID msg)),
           (''sender_domain_id'', JStr (m_SenderDomainID msg)), (''template_id'', JStr (m_TemplateID msg))]"

definition failMessage ::
  "ports \<Rightarrow> Message \<Rightarrow> gotime \<Rightarrow> string \<Rightarrow> string \<Rightarrow> (delivery_world, unit) state" where
  "failMessage P msg0 now errorClass errorMessage =
     (let msg = msg0\<lparr>m_FailedAt := Some now, m_LastErrorClass := errorClass,
            m_LastErrorMessage := errorMessage, m_UpdatedAt := now\<rparr>
      in do {
        _ \<leftarrow> WithinTx (thenE (MarkFailed msg)
               (thenE (if m_TransactionalRequestID msg \<noteq> []
                       then UpdateAggregates (m_WorkspaceID msg) (m_TransactionalRequestID msg) True False now
                       else ret (Inr ()))
                 (do { due_writeEvent P msg MessageEventFailed MessageStatusFailed errorClass errorMessage now;
                       ret (Inr ()) })));
        ret ()
      })"

definition failMessageWithAttempt ::
  "ports \<Rightarrow> Message \<Rightarrow> DeliveryAttempt \<Rightarrow> gotime \<Rightarrow> string \<Rightarrow> string \<Rightarrow> (delivery_world, unit) state" where
  "failMessageWithAttempt P msg0 attempt0 now errorClass errorMessage =
     (let attempt = attempt0\<lparr>a_Status := AttemptStatusPermanentFailed, a_ErrorClass := errorClass,
            a_ErrorMessage := errorMessage, a_FinishedAt := Some now\<rparr>;
          msg = msg0\<lparr>m_FailedAt := Some now, m_LastErrorClass := errorClass,
            m_LastErrorMessage := errorMessage, m_UpdatedAt := now\<rparr>
      in do {
        _ \<leftarrow> WithinTx (thenE (Attempt_Update attempt) (thenE (MarkFailed msg)
               (thenE (if m_TransactionalRequestID msg \<noteq> []
                       then UpdateAggregates (m_WorkspaceID msg) (m_TransactionalRequestID msg) True False now
                       else ret (Inr ()))
                 (do { due_writeEvent P msg MessageEventFailed MessageStatusFailed errorClass errorMessage now;
                       ret (Inr ()) }))));
        ret ()
      })"

text \<open>
  The delay is computed with \<open>float64\<close>, exactly for the powers of two and up to less than a
  nanosecond for the jitter; here it is computed with rationals. The conversion to
  \<open>time.Duration\<close> drops the fraction.
\<close>

definition computeRetryDelay :: "rat \<Rightarrow> int \<Rightarrow> int" where
  "computeRetryDelay rand retryCount =
     (let delay = min (of_int baseRetryDelay * 2 powi retryCount) (of_int maxRetryDelay);
          jitter = rand * delay * (1 / 10)
      in \<lfloor>delay + jitter\<rfloor>)"

text \<open>An outbox event: envelope, encoding, insert. The clock is not read, the options carry the time.\<close>

definition save_event ::
  "string \<Rightarrow> string \<Rightarrow> string \<Rightarrow> string \<Rightarrow> string \<Rightarrow> gotime \<Rightarrow> json \<Rightarrow> unit dprog" where
  "save_event eventID eventType aggregateType aggregateID workspaceID now payload =
     (case NewEnvelope now \<lparr>opt_EventID = eventID, opt_EventType = eventType, opt_EventVersion = 1,
             opt_AggregateType = aggregateType, opt_AggregateID = aggregateID, opt_WorkspaceID = workspaceID,
             opt_OccurredAt = now, opt_Metadata = None\<rparr> payload of
        Inl _ \<Rightarrow> ret (Inl ErrEnvelope)
      | Inr envelope \<Rightarrow>
          (case Marshal envelope of
             Inl _ \<Rightarrow> ret (Inl ErrEnvelope)
           | Inr payloadBytes \<Rightarrow>
               Outbox_Save \<lparr>o_ID = EventID envelope, o_AggregateType = aggregateType, o_AggregateID = aggregateID,
                 o_EventType = eventType, o_Payload = payloadBytes, o_WorkspaceID = workspaceID, o_OccurredAt = now\<rparr>))"

definition MessageAcceptedPayload :: "ports \<Rightarrow> Message \<Rightarrow> ProviderSendResult \<Rightarrow> gotime \<Rightarrow> json" where
  "MessageAcceptedPayload P msg pr now =
     JObj [(''message_id'', JStr (m_ID msg)), (''workspace_id'', JStr (m_WorkspaceID msg)),
       (''campaign_id'', JStr (m_CampaignID msg)), (''campaign_candidate_id'', JStr (m_CampaignCandidateID msg)),
       (''transactional_request_id'', JStr (m_TransactionalRequestID msg)), (''template_id'', JStr (m_TemplateID msg)),
       (''template_version_id'', JStr (m_TemplateVersionID msg)), (''sender_domain_id'', JStr (m_SenderDomainID msg)),
       (''message_type'', JStr (m_MessageType msg)), (''source_type'', JStr (m_SourceType msg)),
       (''provider'', JStr (pr_Provider pr)), (''provider_message_id'', JStr (pr_ProviderMessageID pr)),
       (''accepted_at'', JStr (p_rfc3339 P now))]"

definition saveAcceptedEvent :: "ports \<Rightarrow> Message \<Rightarrow> ProviderSendResult \<Rightarrow> gotime \<Rightarrow> string \<Rightarrow> unit dprog" where
  "saveAcceptedEvent P msg pr now eventID = do {
     due_writeEvent P msg MessageEventProviderAccepted MessageStatusAccepted [] [] now;
     save_event eventID ''delivery.message.accepted.v1'' ''message'' (m_ID msg) (m_WorkspaceID msg) now
       (MessageAcceptedPayload P msg pr now)
   }"

definition saveRetryScheduledEvent :: "ports \<Rightarrow> Message \<Rightarrow> RetryState \<Rightarrow> gotime \<Rightarrow> unit dprog" where
  "saveRetryScheduledEvent P msg retryState now =
     bindE (idGen (p_gen P)) (\<lambda>eventID.
       save_event eventID ''delivery.message.retry_scheduled.v1'' ''message'' (m_ID msg) (m_WorkspaceID msg) now
         (JObj [(''max_retries'', JNum (r_MaxRetries retryState)), (''message_id'', JStr (m_ID msg)),
            (''next_attempt_at'', JStr (case r_NextAttemptAt retryState of None \<Rightarrow> [] | Some t \<Rightarrow> p_rfc3339 P t)),
            (''retry_count'', JNum (r_RetryCount retryState)), (''workspace_id'', JStr (m_WorkspaceID msg))]))"

text \<open>The three tries of \<open>persistAcceptedState\<close>; the waits between them are left out.\<close>

fun persist_tries :: "unit dprog \<Rightarrow> nat \<Rightarrow> error goerr \<Rightarrow> unit dprog" where
  "persist_tries body 0 lastErr = ret (Inl lastErr)"
| "persist_tries body (Suc n) lastErr = do {
     r \<leftarrow> WithinTx body;
     case r of Inr _ \<Rightarrow> ret (Inr ()) | Inl e \<Rightarrow> persist_tries body n e
   }"

definition persistAcceptedState ::
  "ports \<Rightarrow> Message \<Rightarrow> DeliveryAttempt \<Rightarrow> ProviderSendResult \<Rightarrow> gotime \<Rightarrow> unit dprog" where
  "persistAcceptedState P msg attempt pr now =
     bindE (idGen (p_gen P)) (\<lambda>eventID.
       persist_tries
         (thenE (Attempt_Update attempt) (thenE (MarkAccepted msg) (saveAcceptedEvent P msg pr now eventID)))
         3 ErrDriver)"

definition GetObject :: "string \<Rightarrow> string dprog" where
  "GetObject key = do {
     x \<leftarrow> next_outcome;
     w \<leftarrow> State_Monad.get;
     ret (if x \<noteq> OK then Inl ErrStorage
          else case objects w key of None \<Rightarrow> Inl ErrStorage | Some data \<Rightarrow> Inr data)
   }"

fun load_parts :: "AttachmentManifest list \<Rightarrow> AttachmentPart list dprog" where
  "load_parts [] = ret (Inr [])"
| "load_parts (m # ms) =
     bindE (GetObject (f_StorageKey m)) (\<lambda>data.
       bindE (load_parts ms) (\<lambda>parts.
         ret (Inr (\<lparr>ap_Filename = f_OriginalFilename m, ap_ContentType = f_ContentType m, ap_ContentID = f_ContentID m,
           ap_Disposition = (if f_Disposition m = [] then AttachmentDispositionAttachment else f_Disposition m),
           ap_Data = data\<rparr> # parts))))"

definition loadAttachments :: "ports \<Rightarrow> Message \<Rightarrow> AttachmentPart list dprog" where
  "loadAttachments P msg =
     (if m_TransactionalRequestID msg = [] \<or> \<not> p_hasAttachmentRepo P \<or> \<not> p_hasObjectStorage P then ret (Inr [])
      else bindE (Attachment_ListByRequest (m_WorkspaceID msg) (m_TransactionalRequestID msg)) load_parts)"

definition next_retry_state ::
  "ports \<Rightarrow> Message \<Rightarrow> RetryState option \<Rightarrow> gotime \<Rightarrow> gotime \<Rightarrow> error goerr \<Rightarrow> RetryState dprog" where
  "next_retry_state P msg retryState nextAttemptAt now providerErr =
     (case retryState of
        None \<Rightarrow> bindE (idGen (p_gen P)) (\<lambda>retryStateID. ret (Inr
          \<lparr>r_ID = retryStateID, r_WorkspaceID = m_WorkspaceID msg, r_MessageID = m_ID msg, r_RetryCount = 1,
           r_MaxRetries = DefaultMaxRetries, r_NextAttemptAt = Some nextAttemptAt,
           r_LastErrorClass = ''provider_temporary_failure'', r_LastErrorMessage = p_errtext P providerErr,
           r_Status = RetryStatusScheduled, r_CreatedAt = now, r_UpdatedAt = now\<rparr>))
      | Some r \<Rightarrow> ret (Inr (r\<lparr>r_RetryCount := r_RetryCount r + 1, r_NextAttemptAt := Some nextAttemptAt,
           r_LastErrorClass := ''provider_temporary_failure'', r_LastErrorMessage := p_errtext P providerErr,
           r_Status := RetryStatusScheduled, r_UpdatedAt := now\<rparr>)))"

definition save_retry ::
  "ports \<Rightarrow> Message \<Rightarrow> DeliveryAttempt \<Rightarrow> RetryState option \<Rightarrow> RetryState \<Rightarrow> gotime \<Rightarrow> error goerr \<Rightarrow> unit dprog" where
  "save_retry P msg attempt retryState st now providerErr =
     WithinTx (thenE (Message_Update msg) (thenE (Attempt_Update attempt)
       (thenE (if retryState = None then Retry_Create st else Retry_Update st)
         (do { due_writeEvent P msg MessageEventRetryScheduled MessageStatusQueued
                 ''provider_temporary_failure'' (p_errtext P providerErr) now;
               saveRetryScheduledEvent P msg st now }))))"

definition handleTemporaryFailure ::
  "ports \<Rightarrow> Message \<Rightarrow> DeliveryAttempt \<Rightarrow> gotime \<Rightarrow> error goerr \<Rightarrow> (delivery_world, unit) state" where
  "handleTemporaryFailure P msg0 attempt0 now providerErr =
     (let attempt = attempt0\<lparr>a_Status := AttemptStatusTemporaryFailed, a_ErrorClass := ''provider_temporary_failure'',
            a_ErrorMessage := p_errtext P providerErr, a_FinishedAt := Some now\<rparr>
      in do {
        found \<leftarrow> Retry_FindByMessage (m_WorkspaceID msg0) (m_ID msg0);
        case found of
          Inl _ \<Rightarrow> failMessageWithAttempt P msg0 attempt now ''retry_state_error'' ''failed to find retry state''
        | Inr retryState \<Rightarrow>
            (let currentRetryCount = (case retryState of None \<Rightarrow> 0 | Some r \<Rightarrow> r_RetryCount r) in
             if DefaultMaxRetries \<le> currentRetryCount
             then failMessageWithAttempt P msg0 attempt now ''retry_exhausted'' ''max retries reached''
             else do {
               w \<leftarrow> State_Monad.get;
               (let nextAttemptAt = now + computeRetryDelay (p_rand P (id_ctr w)) currentRetryCount;
                    msg = msg0\<lparr>m_Status := MessageStatusQueued, m_ScheduledAt := Some nextAttemptAt, m_UpdatedAt := now\<rparr>
                in do {
                  st \<leftarrow> next_retry_state P msg retryState nextAttemptAt now providerErr;
                  case st of
                    Inl _ \<Rightarrow> ret ()
                  | Inr st \<Rightarrow> do {
                      _ \<leftarrow> save_retry P msg attempt retryState st now providerErr;
                      ret ()
                    }
                })
             })
      })"

section \<open>One message\<close>

text \<open>The suppression adapter of the worker.\<close>

definition CheckSuppression ::
  "string \<Rightarrow> string \<Rightarrow> string \<Rightarrow> (delivery_world, (supp_error, CheckResult) result) state" where
  "CheckSuppression workspaceID emailNormalized scope = CheckHandler workspaceID emailNormalized scope"

text \<open>After the provider took the mail.\<close>

definition process_accepted ::
  "ports \<Rightarrow> Message \<Rightarrow> DeliveryAttempt \<Rightarrow> gotime \<Rightarrow> ProviderSendResult \<Rightarrow> (delivery_world, messageStatus) state" where
  "process_accepted P msg0 attempt0 now pr =
     (let attempt = attempt0\<lparr>a_Status := AttemptStatusAccepted, a_Provider := pr_Provider pr,
            a_ResponseSnapshot := JObj [(''provider'', JStr (pr_Provider pr)),
              (''provider_message_id'', JStr (pr_ProviderMessageID pr))],
            a_FinishedAt := Some now\<rparr>;
          msg = msg0\<lparr>m_UpdatedAt := now, m_Provider := pr_Provider pr,
            m_ProviderMessageID := pr_ProviderMessageID pr, m_AcceptedAt := Some now\<rparr>
      in do {
        r \<leftarrow> persistAcceptedState P msg attempt pr now;
        case r of
          Inr _ \<Rightarrow> ret messageStatusAccepted
        | Inl err \<Rightarrow> do {
            current \<leftarrow> FindByID (m_WorkspaceID msg) (m_ID msg);
            if (case current of Inr c \<Rightarrow> m_Status c = MessageStatusAccepted | Inl _ \<Rightarrow> False)
            then ret messageStatusAccepted
            else (let dlq = msg\<lparr>m_Status := MessageStatusDLQ,
                        m_LastErrorClass := ''accepted_state_persistence_failed'',
                        m_LastErrorMessage := p_errtext P err, m_UpdatedAt := now\<rparr>
                  in do {
                    due_writeEvent P dlq MessageEventFailed MessageStatusFailed
                      ''accepted_state_persistence_failed'' (p_errtext P err) now;
                    _ \<leftarrow> Message_Update dlq;
                    ret messageStatusFailed
                  })
          }
      })"

text \<open>The branches on the answer of the provider.\<close>

definition process_answer ::
  "ports \<Rightarrow> Message \<Rightarrow> DeliveryAttempt \<Rightarrow> gotime \<Rightarrow> (error, ProviderSendResult) result \<Rightarrow> (delivery_world, messageStatus) state" where
  "process_answer P msg attempt now answer =
     (case answer of
        Inl providerErr \<Rightarrow>
          if providerErr = Err ErrProviderPermanentFailure then do {
            failMessageWithAttempt P msg attempt now ''provider_permanent_failure'' (p_errtext P providerErr);
            ret messageStatusFailed
          } else do {
            handleTemporaryFailure P msg attempt now providerErr;
            ret messageStatusRetryScheduled
          }
      | Inr pr \<Rightarrow>
          if pr_ProviderMessageID pr = [] then do {
            failMessageWithAttempt P msg attempt now ''provider_invalid_response'' ''empty provider_message_id'';
            ret messageStatusFailed
          } else process_accepted P msg attempt now pr)"

text \<open>From the creation of the attempt to the answer of the provider.\<close>

definition process_send ::
  "ports \<Rightarrow> Message \<Rightarrow> gotime \<Rightarrow> RenderedMessage \<Rightarrow> (delivery_world, messageStatus) state" where
  "process_send P msg now content = do {
     no \<leftarrow> NextAttemptNumber (m_WorkspaceID msg) (m_ID msg);
     case no of
       Inl _ \<Rightarrow> do {
         failMessage P msg now ''infrastructure_error'' ''failed to get attempt number'';
         ret messageStatusFailed
       }
     | Inr attemptNo \<Rightarrow> do {
         i \<leftarrow> idGen (p_gen P);
         case i of
           Inl (e :: error goerr) \<Rightarrow> do {
             failMessage P msg now ''infrastructure_error'' ''failed to generate attempt ID'';
             ret messageStatusFailed
           }
         | Inr attemptID \<Rightarrow>
             (let attempt = \<lparr>a_ID = attemptID, a_WorkspaceID = m_WorkspaceID msg, a_MessageID = m_ID msg,
                    a_AttemptNo = attemptNo, a_Provider = [], a_Status = AttemptStatusStarted,
                    a_RequestSnapshot = buildRequestSnapshot msg attemptNo, a_ResponseSnapshot = JNull,
                    a_ErrorClass = [], a_ErrorMessage = [], a_StartedAt = now, a_FinishedAt = None\<rparr>
              in do {
                created \<leftarrow> Attempt_Create attempt;
                case created of
                  Inl _ \<Rightarrow> do {
                    failMessage P msg now ''infrastructure_error'' ''failed to create attempt'';
                    ret messageStatusFailed
                  }
                | Inr _ \<Rightarrow> do {
                    loaded \<leftarrow> loadAttachments P msg;
                    case loaded of
                      Inl attErr \<Rightarrow> do {
                        failMessage P msg now ''attachment_load_failed'' (p_errtext P attErr);
                        ret messageStatusFailed
                      }
                    | Inr atts \<Rightarrow> do {
                        sent \<leftarrow> SendEmail P (m_ID msg)
                          \<lparr>ps_To = [rs_Email (m_RecipientSnapshot msg)], ps_CC = [], ps_BCC = [],
                           ps_ReplyTo = (if m_ReplyTo msg \<noteq> [] then [m_ReplyTo msg] else []),
                           ps_Subject = rm_Subject content, ps_HTMLBody = rm_HTMLBody content,
                           ps_TextBody = rm_TextBody content, ps_SenderName = m_SenderName msg,
                           ps_Headers = m_Headers msg, ps_Attachments = atts\<rparr>;
                        case sent of (answer, headers) \<Rightarrow>
                          process_answer P (msg\<lparr>m_Headers := headers\<rparr>) attempt now answer
                      }
                  }
              })
       }
   }"

text \<open>The content of the mail: a rendered template or the message's own text.\<close>

definition process_content :: "ports \<Rightarrow> Message \<Rightarrow> gotime \<Rightarrow> (delivery_world, messageStatus) state" where
  "process_content P msg now =
     (if m_TemplateID msg \<noteq> [] then do {
        rendered \<leftarrow> remote (p_render P (m_WorkspaceID msg) (m_TemplateID msg) (m_TemplateVersionID msg)
          (buildRenderData (m_RecipientSnapshot msg)));
        case rendered of
          Inl _ \<Rightarrow> do {
            failMessage P msg now ''template_render_failed'' ''template render failed'';
            ret messageStatusFailed
          }
        | Inr content \<Rightarrow> process_send P msg now content
      } else process_send P msg now
          \<lparr>rm_Subject = m_Subject msg, rm_HTMLBody = m_HTMLBody msg, rm_TextBody = m_TextBody msg\<rparr>)"

text \<open>The suppression check.\<close>

definition process_recipient :: "ports \<Rightarrow> Message \<Rightarrow> gotime \<Rightarrow> (delivery_world, messageStatus) state" where
  "process_recipient P msg now = do {
     decision \<leftarrow> CheckSuppression (m_WorkspaceID msg) (m_RecipientEmailNormalized msg) ''workspace'';
     case decision of
       Inl _ \<Rightarrow> do {
         failMessage P msg now ''suppression_check_failed'' ''suppression check failed'';
         ret messageStatusFailed
       }
     | Inr d \<Rightarrow>
         if cr_Suppressed d then do {
           failMessage P msg now ''recipient_suppressed'' (cr_Reason d);
           ret messageStatusFailed
         } else process_content P msg now
   }"

text \<open>The sender check, first of the checks before a mail is composed.\<close>

definition process_checked :: "ports \<Rightarrow> Message \<Rightarrow> gotime \<Rightarrow> (delivery_world, messageStatus) state" where
  "process_checked P msg now = do {
     readiness \<leftarrow> remote (p_ready P (m_WorkspaceID msg) (m_SenderDomainID msg));
     case readiness of
       Inl _ \<Rightarrow> do {
         failMessage P msg now ''sender_not_ready'' ''sender readiness check failed'';
         ret messageStatusFailed
       }
     | Inr ready \<Rightarrow>
         if \<not> ready then do {
           failMessage P msg now ''sender_not_ready'' ''sender domain not ready'';
           ret messageStatusFailed
         } else process_recipient P msg now
   }"

text \<open>\<open>processMessage\<close>; the deferred release of the lock runs on every way out once it is held.\<close>

definition processMessage :: "ports \<Rightarrow> Message \<Rightarrow> gotime \<Rightarrow> messageStatus dprog" where
  "processMessage P msg now = do {
     due_writeEvent P msg MessageEventProcessingStarted MessageStatusProcessing [] [] now;
     if \<not> p_hasCache P then do {
       st \<leftarrow> process_checked P msg now;
       ret (Inr st)
     } else do {
       lock \<leftarrow> AcquireMessageLock P (m_ID msg) (30 * second);
       case lock of
         Inl err \<Rightarrow> ret (Inl err)
       | Inr (token, acquired) \<Rightarrow>
           if \<not> acquired then ret (Inr messageStatusFailed)
           else do {
             st \<leftarrow> process_checked P msg now;
             _ \<leftarrow> ReleaseMessageLock (m_ID msg) token;
             ret (Inr st)
           }
     }
   }"

section \<open>A batch\<close>

record ProcessDueMessagesInput =
  pi_WorkspaceID :: string
  pi_MessageType :: string
  pi_Limit :: int
  pi_Now :: gotime

record ProcessDueMessagesResult =
  SelectedCount :: int
  AcceptedCount :: int
  FailedCount :: int
  RetryScheduledCount :: int

definition clamp_limit :: "int \<Rightarrow> int" where
  "clamp_limit l = (let l = (if l \<le> 0 then 100 else l) in if 100 < l then 100 else l)"

text \<open>
  The pipeline runs with one processor, so it hands the messages to \<open>processMessage\<close> one after the
  other in the order of the list, and an item whose processing returns an error is dropped. The
  pipeline itself is the subject of the theory \<open>Batching\<close>.
\<close>

fun process_all :: "ports \<Rightarrow> Message list \<Rightarrow> gotime \<Rightarrow> (delivery_world, messageStatus list) state" where
  "process_all P [] now = ret []"
| "process_all P (m # ms) now = do {
     r \<leftarrow> processMessage P m now;
     sts \<leftarrow> process_all P ms now;
     ret (case r of Inl _ \<Rightarrow> sts | Inr st \<Rightarrow> st # sts)
   }"

definition tally :: "nat \<Rightarrow> messageStatus list \<Rightarrow> ProcessDueMessagesResult" where
  "tally selected sts =
     \<lparr>SelectedCount = int selected,
      AcceptedCount = int (length (filter ((=) messageStatusAccepted) sts)),
      FailedCount = int (length (filter ((=) messageStatusFailed) sts)),
      RetryScheduledCount = int (length (filter ((=) messageStatusRetryScheduled) sts))\<rparr>"

definition ProcessDueMessages :: "ports \<Rightarrow> ProcessDueMessagesInput \<Rightarrow> ProcessDueMessagesResult dprog" where
  "ProcessDueMessages P input =
     (if pi_WorkspaceID input = [] then ret (Inl (Err ErrPayloadInvalid))
      else if IsZero (pi_Now input) then ret (Inl (Err ErrPayloadInvalid))
      else if \<not> ValidMessageType (pi_MessageType input) then ret (Inl (Err ErrPayloadInvalid))
      else bindE (ClaimDueMessages \<lparr>dq_Now = pi_Now input, dq_Limit = clamp_limit (pi_Limit input),
             dq_MessageType = pi_MessageType input, dq_WorkspaceID = pi_WorkspaceID input\<rparr> (pi_Now input))
        (\<lambda>msgs. do {
           sts \<leftarrow> process_all P msgs (pi_Now input);
           ret (Inr (tally (length msgs) sts))
         }))"

fun process_workspaces ::
  "ports \<Rightarrow> string list \<Rightarrow> string \<Rightarrow> int \<Rightarrow> gotime \<Rightarrow> (delivery_world, unit) state" where
  "process_workspaces P [] messageType limit now = ret ()"
| "process_workspaces P (ws # wss) messageType limit now = do {
     _ \<leftarrow> ProcessDueMessages P \<lparr>pi_WorkspaceID = ws, pi_MessageType = messageType, pi_Limit = limit, pi_Now = now\<rparr>;
     process_workspaces P wss messageType limit now
   }"

definition ProcessDueMessagesAllWorkspaces :: "ports \<Rightarrow> string \<Rightarrow> int \<Rightarrow> gotime \<Rightarrow> int dprog" where
  "ProcessDueMessagesAllWorkspaces P messageType limit now =
     (if IsZero now then ret (Inl (Err ErrPayloadInvalid))
      else if \<not> ValidMessageType messageType then ret (Inl (Err ErrPayloadInvalid))
      else bindE (ListDistinctWorkspacesWithDue messageType now) (\<lambda>workspaces. do {
        process_workspaces P workspaces messageType (clamp_limit limit) now;
        ret (Inr (int (length workspaces)))
      }))"

end
