(* ===== verification/Delivery_Create.thy ===== *)
theory Delivery_Create
  imports Delivery_Store "HOL-Library.Sublist"
begin

text \<open>
  \<open>MessageWriteRepository.CreateMany\<close>: one \<open>INSERT\<close> with a list of columns and, for every message,
  a list of arguments that are matched to the columns by position. Both lists are as in the source; the
  types and nullability of the columns are those of the migrations
  (\<open>migrations/000015\<close>, \<open>000030\<close> and \<open>000031\<close>). The two lists of the source are not in the same order, so that its insert
  refuses every new message. The statement takes the column list as an argument: \<open>insert_columns\<close> is the one of the source, and the
  theorems are about every column list or about this one. \<open>sample_columns\<close>, in the order of the arguments, stands for no code; it
  shows that the theorems about every list also speak of inserts that succeed.
\<close>

section \<open>The statement\<close>

datatype sqlval =
    VNull
  | VText string
  | VTime gotime
  | VSnapshot RecipientSnapshot
  | VHeaders "(string \<rightharpoonup> string) option"

datatype coltype = TextCol | TimeCol | JsonCol

definition column_type :: "string \<Rightarrow> coltype" where
  "column_type c =
     (if c \<in> set [''scheduled_at'', ''queued_at'', ''processing_started_at'', ''accepted_at'', ''delivered_at'',
           ''bounced_at'', ''complained_at'', ''failed_at'', ''created_at'', ''updated_at''] then TimeCol
      else if c \<in> set [''recipient_snapshot'', ''headers''] then JsonCol
      else TextCol)"

definition not_null :: "string \<Rightarrow> bool" where
  "not_null c \<longleftrightarrow>
     c \<in> set [''id'', ''workspace_id'', ''recipient_email_normalized'', ''recipient_snapshot'', ''sender_domain_id'',
       ''message_type'', ''source_type'', ''status'', ''recipient_role'', ''headers'', ''created_at'', ''updated_at'']"

definition fits :: "string \<Rightarrow> sqlval \<Rightarrow> bool" where
  "fits c v =
     (case v of
        VNull \<Rightarrow> \<not> not_null c
      | VText _ \<Rightarrow> column_type c = TextCol
      | VTime _ \<Rightarrow> column_type c = TimeCol
      | VSnapshot _ \<Rightarrow> column_type c = JsonCol
      | VHeaders _ \<Rightarrow> column_type c = JsonCol)"

definition Nullable :: "string \<Rightarrow> sqlval" where
  "Nullable s = (if s = [] then VNull else VText s)"

definition time_arg :: "gotime option \<Rightarrow> sqlval" where
  "time_arg t = (case t of None \<Rightarrow> VNull | Some t \<Rightarrow> VTime t)"

definition insert_columns :: "string list" where
  "insert_columns =
     [''id'', ''workspace_id'', ''campaign_id'', ''campaign_candidate_id'', ''transactional_request_id'',
      ''contact_id'', ''recipient_email_normalized'', ''recipient_snapshot'',
      ''template_id'', ''template_version_id'', ''sender_domain_id'',
      ''subject'', ''sender_name'', ''recipient_role'', ''source_api_key_id'',
      ''text_body'', ''html_body'', ''reply_to'', ''headers'',
      ''message_type'', ''source_type'', ''status'',
      ''scheduled_at'', ''queued_at'', ''processing_started_at'',
      ''accepted_at'', ''delivered_at'', ''bounced_at'', ''complained_at'', ''failed_at'',
      ''last_error_class'', ''last_error_message'', ''provider'', ''provider_message_id'',
      ''created_at'', ''updated_at'']"

definition insert_args :: "Message \<Rightarrow> sqlval list" where
  "insert_args msg =
     [VText (m_ID msg), VText (m_WorkspaceID msg),
      Nullable (m_CampaignID msg), Nullable (m_CampaignCandidateID msg), Nullable (m_TransactionalRequestID msg),
      Nullable (m_ContactID msg), VText (m_RecipientEmailNormalized msg), VSnapshot (m_RecipientSnapshot msg),
      Nullable (m_TemplateID msg), Nullable (m_TemplateVersionID msg), Nullable (m_SenderDomainID msg),
      VText (m_MessageType msg), VText (m_SourceType msg), VText (m_Status msg),
      time_arg (m_ScheduledAt msg), time_arg (m_QueuedAt msg), time_arg (m_ProcessingStartedAt msg),
      time_arg (m_AcceptedAt msg), time_arg (m_DeliveredAt msg), time_arg (m_BouncedAt msg),
      time_arg (m_ComplainedAt msg), time_arg (m_FailedAt msg),
      VText (m_LastErrorClass msg), VText (m_LastErrorMessage msg), VText (m_Provider msg),
      VText (m_ProviderMessageID msg),
      VText (m_Subject msg), VText (m_SenderName msg), VText (m_RecipientRole msg), VText (m_SourceAPIKeyID msg),
      VText (m_TextBody msg), VText (m_HTMLBody msg),
      Nullable (m_ReplyTo msg), VHeaders (m_Headers msg),
      VTime (m_CreatedAt msg), VTime (m_UpdatedAt msg)]"

section \<open>Rows\<close>

text \<open>\<open>scanMessageRow\<close> on a stored row.\<close>

definition text_of :: "sqlval option \<Rightarrow> string" where
  "text_of v = (case v of Some (VText s) \<Rightarrow> s | _ \<Rightarrow> [])"

definition time_of :: "sqlval option \<Rightarrow> gotime option" where
  "time_of v = (case v of Some (VTime t) \<Rightarrow> Some t | _ \<Rightarrow> None)"

definition role_of :: "sqlval option \<Rightarrow> string" where
  "role_of v = (case v of Some (VText s) \<Rightarrow> s | _ \<Rightarrow> ''to'')"

definition scanMessageRow :: "(string \<rightharpoonup> sqlval) \<Rightarrow> Message" where
  "scanMessageRow row =
     \<lparr>m_ID = text_of (row ''id''), m_WorkspaceID = text_of (row ''workspace_id''),
      m_CampaignID = text_of (row ''campaign_id''), m_CampaignCandidateID = text_of (row ''campaign_candidate_id''),
      m_TransactionalRequestID = text_of (row ''transactional_request_id''), m_ContactID = text_of (row ''contact_id''),
      m_RecipientEmailNormalized = text_of (row ''recipient_email_normalized''),
      m_RecipientSnapshot = (case row ''recipient_snapshot'' of Some (VSnapshot s) \<Rightarrow> s | _ \<Rightarrow> zero_RecipientSnapshot),
      m_TemplateID = text_of (row ''template_id''), m_TemplateVersionID = text_of (row ''template_version_id''),
      m_SenderDomainID = text_of (row ''sender_domain_id''), m_Subject = text_of (row ''subject''),
      m_SenderName = text_of (row ''sender_name''), m_TextBody = text_of (row ''text_body''),
      m_HTMLBody = text_of (row ''html_body''), m_ReplyTo = text_of (row ''reply_to''),
      m_Headers = (case row ''headers'' of Some (VHeaders h) \<Rightarrow> h | _ \<Rightarrow> None),
      m_RecipientRole = role_of (row ''recipient_role''), m_SourceAPIKeyID = text_of (row ''source_api_key_id''),
      m_MessageType = text_of (row ''message_type''), m_SourceType = text_of (row ''source_type''),
      m_Status = text_of (row ''status''),
      m_ScheduledAt = time_of (row ''scheduled_at''), m_QueuedAt = time_of (row ''queued_at''),
      m_ProcessingStartedAt = time_of (row ''processing_started_at''), m_AcceptedAt = time_of (row ''accepted_at''),
      m_DeliveredAt = time_of (row ''delivered_at''), m_BouncedAt = time_of (row ''bounced_at''),
      m_ComplainedAt = time_of (row ''complained_at''), m_FailedAt = time_of (row ''failed_at''),
      m_LastErrorClass = text_of (row ''last_error_class''), m_LastErrorMessage = text_of (row ''last_error_message''),
      m_Provider = text_of (row ''provider''), m_ProviderMessageID = text_of (row ''provider_message_id''),
      m_CreatedAt = (case time_of (row ''created_at'') of None \<Rightarrow> 0 | Some t \<Rightarrow> t),
      m_UpdatedAt = (case time_of (row ''updated_at'') of None \<Rightarrow> 0 | Some t \<Rightarrow> t)\<rparr>"

text \<open>\<open>ON CONFLICT DO NOTHING RETURNING id\<close>: the rows of the statement are tried one after the other.\<close>

fun insert_rows :: "Message list \<Rightarrow> Message list \<Rightarrow> Message list \<times> string list" where
  "insert_rows table [] = (table, [])"
| "insert_rows table (m # ms) =
     (if list_ex (row_conflict m) table then insert_rows table ms
      else case insert_rows (table @ [m]) ms of (t, ids) \<Rightarrow> (t, m_ID m # ids))"

text \<open>The row the statement makes of a message, as it is read back.\<close>

definition inserted :: "string list \<Rightarrow> Message \<Rightarrow> Message" where
  "inserted cols m = scanMessageRow (map_of (zip cols (insert_args m)))"

definition CreateMany :: "string list \<Rightarrow> Message list \<Rightarrow> (string list) dprog" where
  "CreateMany cols msgs =
     (if msgs = [] then ret (Inr [])
      else exec (\<lambda>d.
        if list_all (\<lambda>m. list_all2 fits cols (insert_args m)) msgs
        then (case insert_rows (messages d) (map (inserted cols) msgs) of
                (table, ids) \<Rightarrow> SqlOk (Inr ids) (d\<lparr>messages := table\<rparr>))
        else SqlErr ErrDriver))"

section \<open>Facts\<close>

lemma text_of_simps [simp]:
  "text_of (Some (VText s)) = s" "text_of (Some (Nullable s)) = s" "time_of (Some (time_arg t)) = t"
  "time_of (Some (VTime u)) = Some u" "role_of (Some (VText s)) = s"
  by (simp_all add: text_of_def time_of_def role_of_def Nullable_def time_arg_def split: option.split)

text \<open>The columns in the order of the arguments: a message is read back as it was written.\<close>

definition sample_columns :: "string list" where
  "sample_columns =
     [''id'', ''workspace_id'', ''campaign_id'', ''campaign_candidate_id'', ''transactional_request_id'',
      ''contact_id'', ''recipient_email_normalized'', ''recipient_snapshot'',
      ''template_id'', ''template_version_id'', ''sender_domain_id'',
      ''message_type'', ''source_type'', ''status'',
      ''scheduled_at'', ''queued_at'', ''processing_started_at'',
      ''accepted_at'', ''delivered_at'', ''bounced_at'', ''complained_at'', ''failed_at'',
      ''last_error_class'', ''last_error_message'', ''provider'', ''provider_message_id'',
      ''subject'', ''sender_name'', ''recipient_role'', ''source_api_key_id'',
      ''text_body'', ''html_body'', ''reply_to'', ''headers'',
      ''created_at'', ''updated_at'']"

lemma inserted_sample [simp]: "inserted sample_columns m = m"
  by (cases m) (simp add: sample_columns_def insert_args_def scanMessageRow_def inserted_def)

lemma map_inserted_sample [simp]: "map (inserted sample_columns) ms = ms"
  by (simp add: map_idI)

lemma inserted_id [simp]: "m_ID (inserted (''id'' # cols) m) = m_ID m"
  by (simp add: inserted_def insert_args_def scanMessageRow_def)

lemma fits_time [simp]: "column_type c = TimeCol \<Longrightarrow> \<not> not_null c \<Longrightarrow> fits c (time_arg t)"
  by (simp add: fits_def time_arg_def split: option.split)

lemma fits_nullable [simp]: "column_type c = TextCol \<Longrightarrow> \<not> not_null c \<Longrightarrow> fits c (Nullable s)"
  by (simp add: fits_def Nullable_def)

lemma fits_simps [simp]:
  "fits c (VText s) \<longleftrightarrow> column_type c = TextCol" "fits c (VTime t) \<longleftrightarrow> column_type c = TimeCol"
  "fits c (VSnapshot sn) \<longleftrightarrow> column_type c = JsonCol" "fits c (VHeaders h) \<longleftrightarrow> column_type c = JsonCol"
  "fits c VNull \<longleftrightarrow> \<not> not_null c"
  by (simp_all add: fits_def)

lemma aligned_fits: "m_SenderDomainID m \<noteq> [] \<Longrightarrow> list_all2 fits sample_columns (insert_args m)"
  by (simp add: sample_columns_def insert_args_def column_type_def not_null_def Nullable_def [of "m_SenderDomainID m"])

lemma source_misfit: "m_BouncedAt m = None \<Longrightarrow> \<not> list_all2 fits insert_columns (insert_args m)"
  by (simp add: insert_columns_def insert_args_def not_null_def time_arg_def)

lemma insert_rows_append:
  "insert_rows t ms = (t', ids) \<Longrightarrow> \<exists>new. t' = t @ new \<and> ids = map m_ID new \<and> subseq new ms"
proof (induction ms arbitrary: t t' ids)
  case (Cons m ms)
  show ?case
  proof (cases "list_ex (row_conflict m) t")
    case True
    with Cons.prems have "insert_rows t ms = (t', ids)" by simp
    from Cons.IH [OF this] show ?thesis by (metis list_emb_Cons)
  next
    case False
    obtain u js where "insert_rows (t @ [m]) ms = (u, js)" by fastforce
    with Cons.IH [OF this] Cons.prems False show ?thesis by auto
  qed
qed simp

lemma insert_rows_distinct:
  "insert_rows t ms = (t', ids) \<Longrightarrow> distinct (map m_ID t) \<Longrightarrow> distinct (map m_ID t')"
proof (induction ms arbitrary: t t' ids)
  case (Cons m ms)
  obtain u ids' where 1: "insert_rows (t @ [m]) ms = (u, ids')" by fastforce
  have "distinct (map m_ID (t @ [m]))" if "\<not> list_ex (row_conflict m) t"
    using that Cons.prems(2) by (auto simp: list_ex_iff row_conflict_def)
  with 1 Cons show ?case by (auto split: if_splits)
qed simp

lemma insert_rows_no_conflict:
  "insert_rows t ms = (t', ids) \<Longrightarrow> sorted_wrt (\<lambda>m n. \<not> row_conflict n m) t \<Longrightarrow>
   sorted_wrt (\<lambda>m n. \<not> row_conflict n m) t'"
proof (induction ms arbitrary: t t' ids)
  case (Cons m ms)
  obtain u ids' where 1: "insert_rows (t @ [m]) ms = (u, ids')" by fastforce
  have "sorted_wrt (\<lambda>m n. \<not> row_conflict n m) (t @ [m])" if "\<not> list_ex (row_conflict m) t"
    using that Cons.prems(2) by (auto simp: list_ex_iff sorted_wrt_append)
  with 1 Cons show ?case by (auto split: if_splits)
qed simp

text \<open>Of rows that agree on the provider reference, and of the messages of a candidate, a table without conflicts has at most one.\<close>

lemma unsent_once:
  "sorted_wrt (\<lambda>m n. \<not> row_conflict n m) rows \<Longrightarrow>
   length (filter (\<lambda>m. m_Provider m = [] \<and> m_ProviderMessageID m = []) rows) \<le> 1"
  by (induction rows) (auto simp: row_conflict_def filter_empty_conv)

lemma candidate_once:
  "sorted_wrt (\<lambda>m n. \<not> row_conflict n m) rows \<Longrightarrow> cid \<noteq> [] \<Longrightarrow> i \<noteq> [] \<Longrightarrow>
   length (filter (\<lambda>m. m_CampaignID m = cid \<and> m_CampaignCandidateID m = i) rows) \<le> 1"
  by (induction rows) (auto simp: row_conflict_def filter_empty_conv)

text \<open>
  The rows after a successful insert, whatever the columns are: the table has grown by the rows made of some of the messages, in their
  order, their ids are returned, and no two rows of the table clash on a unique index.
\<close>

lemma create_many_rows:
  assumes "run_state (CreateMany cols msgs) w = (Inr ids, w')"
    and "sorted_wrt (\<lambda>m n. \<not> row_conflict n m) (messages (store w))"
  shows "\<exists>new. store w' = (store w)\<lparr>messages := messages (store w) @ map (inserted cols) new\<rparr> \<and> subseq new msgs \<and>
    ids = map m_ID (map (inserted cols) new) \<and> sorted_wrt (\<lambda>m n. \<not> row_conflict n m) (messages (store w'))"
proof (cases "msgs = []")
  case True
  with assms show ?thesis by (auto simp: CreateMany_def)
next
  case False
  obtain t js where ins: "insert_rows (messages (store w)) (map (inserted cols) msgs) = (t, js)" by fastforce
  with False assms(1) have "store w' = (store w)\<lparr>messages := t\<rparr>" "ids = js"
    by (auto simp: CreateMany_def split: if_splits dest!: exec_InrD)
  moreover from insert_rows_append [OF ins] obtain rows where "t = messages (store w) @ rows" "js = map m_ID rows"
    and "subseq rows (map (inserted cols) msgs)" by blast
  moreover from this(3) obtain new where "rows = map (inserted cols) new" "subseq new msgs"
    by (auto simp: subseq_conv_nths nths_map)
  ultimately show ?thesis using insert_rows_no_conflict [OF ins assms(2)] by auto
qed

section \<open>Properties\<close>

text \<open>
  A defect of the insert: the column list and the argument list are in different orders,
  so the column \<open>message_type\<close>, which must not be NULL, receives the bounce time. Whatever the state
  of the database, inserting messages of which one has not bounced yet, in particular any new message,
  fails and stores nothing.
\<close>

lemma create_many_misaligned:
  assumes "m \<in> set msgs" and "m_BouncedAt m = None"
    and "run_state (CreateMany insert_columns msgs) w = (r, w')"
  shows "(\<nexists>ids. r = Inr ids) \<and> store w' = store w"
proof -
  have "\<not> list_all (\<lambda>m. list_all2 fits insert_columns (insert_args m)) msgs"
    using assms(1,2) source_misfit by (auto simp: list_all_iff)
  moreover have "msgs \<noteq> []" using assms(1) by auto
  ultimately show ?thesis
    using assms(3) by (auto simp: CreateMany_def exec_def next_outcome_def split: list.splits if_splits)
qed

abbreviation empty_db :: delivery_db where
  "empty_db \<equiv> \<lparr>messages = [], attempts = [], retries = [], requests = [], message_events = [],
     attachments = [], outbox = []\<rparr>"

abbreviation plain_world :: "delivery_db \<Rightarrow> delivery_world" where
  "plain_world d \<equiv> \<lparr>store = d, in_tx = False, aborted = False, outcomes = [], id_ctr = 0, suppressions = [],
     locks = Map.empty, idem = Map.empty, row_locks = [], objects = Map.empty, handed = [], quota = Map.empty\<rparr>"

abbreviation sample_message :: "string \<Rightarrow> Message" where
  "sample_message i \<equiv> zero_Message\<lparr>m_ID := i, m_WorkspaceID := ''w1'', m_RecipientEmailNormalized := ''a@x.io'',
     m_RecipientSnapshot := zero_RecipientSnapshot\<lparr>rs_Email := ''A@x.io'', rs_EmailNormalized := ''a@x.io''\<rparr>,
     m_SenderDomainID := ''d1'', m_Subject := ''Hi'', m_TextBody := ''Hello'', m_RecipientRole := ''to'',
     m_MessageType := ''transactional'', m_SourceType := ''transactional'', m_Status := ''queued'',
     m_CreatedAt := 1, m_UpdatedAt := 1\<rparr>"

text \<open>
  A second defect: new messages are inserted with empty strings, not NULL, in the provider
  columns, so the unique index on the provider reference covers them, and of the messages that the
  provider has not taken yet at most one can be in the table. The insert leaves the others out without an error.
\<close>

lemma one_unsent_message:
  assumes "run_state (CreateMany cols msgs) w = (Inr ids, w')"
    and "sorted_wrt (\<lambda>m n. \<not> row_conflict n m) (messages (store w))"
  shows "length (filter (\<lambda>m. m_Provider m = [] \<and> m_ProviderMessageID m = []) (messages (store w'))) \<le> 1"
  using create_many_rows [OF assms] unsent_once by blast

end
