(* ===== verification/Delivery_Accept.thy ===== *)
theory Delivery_Accept
  imports Delivery_Process Delivery_Create
begin

text \<open>
  Accepting a send request: \<open>internal/modules/delivery/app/send/accept.go\<close>, with the quota enforcer of
  the API (\<open>internal/apps/api/quota_enforcer.go\<close>), the idempotency cache
  (\<open>delivery/infrastructure/redis/cache.go\<close>) and the object storage adapter. The handler works on the
  tables of \<open>Delivery_Store\<close>; the columns of the insert of messages are an argument, as for \<open>CreateMany\<close>.
  Logging and metrics are left out.
\<close>

section \<open>Input and ports\<close>

definition maxIdempotencyKeyLength :: nat where "maxIdempotencyKeyLength = 255"
definition maxMetadataSize :: nat where "maxMetadataSize = 16 * 1024"
definition maxTemplateDataSize :: nat where "maxTemplateDataSize = 64 * 1024"
definition maxTagsCount :: nat where "maxTagsCount = 20"
definition maxTagLength :: nat where "maxTagLength = 64"
definition maxRecipients :: nat where "maxRecipients = 50"
definition maxBodyLength :: nat where "maxBodyLength = 512 * 1024"

text \<open>\<open>as_Data\<close> is what the reader yields from its start, \<open>None\<close> for a nil reader.\<close>

record AttachmentStream =
  as_Filename :: string
  as_ContentType :: string
  as_Data :: "string option"
  as_Size :: int
  as_SHA256 :: string
  as_Disposition :: string
  as_ContentID :: string

record Input =
  i_WorkspaceID :: string
  i_APIKeyID :: string
  i_IdempotencyKey :: string
  i_Mode :: string
  i_SenderDomainID :: string
  i_SenderName :: string
  i_Subject :: string
  i_TemplateID :: string
  i_TemplateVersionID :: string
  i_TemplateData :: "jsonmap option"
  i_TextBody :: string
  i_HTMLBody :: string
  i_ReplyTo :: string
  i_To :: "RecipientTarget list"
  i_CC :: "RecipientTarget list"
  i_BCC :: "RecipientTarget list"
  i_Metadata :: "jsonmap option"
  i_Tags :: "string list"
  i_Headers :: "(string \<rightharpoonup> string) option"
  i_Attachments :: "AttachmentStream list"
  i_Now :: gotime

record Result =
  res_RequestID :: string
  res_MessageIDs :: "string list"
  res_Status :: string
  res_AcceptedAt :: gotime

text \<open>
  \<open>x_parse\<close>: whether \<open>mail.ParseAddress\<close> accepts a string; \<open>x_json_size\<close>: the length of the JSON of a map
  (\<open>None\<close>: \<open>json.Marshal\<close> fails); \<open>x_canonical_ok\<close>: whether the canonical request can be encoded;
  \<open>x_hash\<close>: the hexadecimal SHA-256 of the encoded canonical request followed by the digests of the attachments;
  \<open>x_time\<close>: \<open>time.Parse\<close> for RFC 3339; \<open>x_limits\<close>: the limits of an API key as the access module has
  them, through its cache; \<open>x_unix\<close>: the clock in seconds; \<open>x_hasQuota\<close>: whether a quota enforcer is wired.
\<close>

record accept_ports =
  x_ports :: ports
  x_parse :: "string \<Rightarrow> bool"
  x_json_size :: "jsonmap \<Rightarrow> nat option"
  x_canonical_ok :: "CanonicalSendRequest \<Rightarrow> bool"
  x_hash :: "CanonicalSendRequest \<Rightarrow> string list \<Rightarrow> string"
  x_time :: "string \<Rightarrow> gotime option"
  x_limits :: "string \<Rightarrow> string \<Rightarrow> (error, EmailQuotaLimits option) result"
  x_unix :: int
  x_hasQuota :: bool

section \<open>Validation\<close>

definition valid_size :: "accept_ports \<Rightarrow> nat \<Rightarrow> jsonmap option \<Rightarrow> bool" where
  "valid_size X limit data =
     (case data of None \<Rightarrow> True
      | Some d \<Rightarrow> (case x_json_size X d of None \<Rightarrow> False | Some n \<Rightarrow> n \<le> limit))"

definition validate_mode :: "accept_ports \<Rightarrow> Input \<Rightarrow> (error, Input) result" where
  "validate_mode X input =
     (if i_Mode input = MessageModeTemplate then
        let input = input\<lparr>i_TemplateID := TrimSpace (i_TemplateID input)\<rparr> in
        if i_TemplateID input = [] then Inl (Err ErrRequestBodyInvalid)
        else let input = input\<lparr>i_TemplateVersionID := TrimSpace (i_TemplateVersionID input)\<rparr> in
          if i_Attachments input \<noteq> [] then Inl (Err ErrAttachmentNotSupported) else Inr input
      else
        if i_Subject input = [] then Inl (Err ErrSubjectRequired)
        else if i_TextBody input = [] \<and> i_HTMLBody input = [] then Inl (Err ErrRawBodyRequired)
        else if maxBodyLength < length (i_HTMLBody input) \<or> maxBodyLength < length (i_TextBody input)
        then Inl (Err ErrRequestBodyInvalid)
        else if i_Attachments input \<noteq> [] \<and> \<not> p_hasObjectStorage (x_ports X) then Inl (Err ErrObjectStorageDisabled)
        else Inr input)"

definition recipients :: "Input \<Rightarrow> RecipientTarget list" where
  "recipients input = i_To input @ i_CC input @ i_BCC input"

definition validate_recipients :: "accept_ports \<Rightarrow> Input \<Rightarrow> (error, Input) result" where
  "validate_recipients X input =
     (let totalRecipients = length (recipients input) in
      if totalRecipients = 0 then Inl (Err ErrRecipientInvalid)
      else if maxRecipients < totalRecipients then Inl (Err ErrRecipientInvalid)
      else if list_ex (\<lambda>r. \<not> x_parse X (TrimSpace (rt_Email r))) (recipients input) then Inl (Err ErrRecipientInvalid)
      else Inr input)"

definition validate_rest :: "accept_ports \<Rightarrow> Input \<Rightarrow> (error, Input) result" where
  "validate_rest X input =
     (let input = input\<lparr>i_Tags := map (take maxTagLength) (take maxTagsCount (i_Tags input))\<rparr> in
      if \<not> valid_size X maxMetadataSize (i_Metadata input) then Inl (Err ErrRequestBodyInvalid)
      else if \<not> valid_size X maxTemplateDataSize (i_TemplateData input) then Inl (Err ErrRequestBodyInvalid)
      else
        let input = input\<lparr>i_Now := (if IsZero (i_Now input) then p_clock (x_ports X) else i_Now input),
              i_IdempotencyKey := TrimSpace (i_IdempotencyKey input)\<rparr> in
        if maxIdempotencyKeyLength < length (i_IdempotencyKey input) then Inl (Err ErrRequestBodyInvalid)
        else Inr input)"

text \<open>The input is changed in place; the changed input is the result.\<close>

definition validateSendInput :: "accept_ports \<Rightarrow> Input \<Rightarrow> (error, Input) result" where
  "validateSendInput X input =
     (if i_WorkspaceID input = [] then Inl (Err ErrRequestBodyInvalid)
      else
        let input = input\<lparr>i_Mode := (if i_Mode input = [] then MessageModeTemplate else i_Mode input)\<rparr> in
        if i_Mode input \<noteq> MessageModeTemplate \<and> i_Mode input \<noteq> MessageModeRaw then Inl (Err ErrModeInvalid)
        else
          let input = input\<lparr>i_SenderDomainID := TrimSpace (i_SenderDomainID input)\<rparr> in
          if i_SenderDomainID input = [] then Inl (Err ErrRequestBodyInvalid)
          else case validate_mode X input of Inl e \<Rightarrow> Inl e | Inr input \<Rightarrow>
            (case validate_recipients X input of Inl e \<Rightarrow> Inl e | Inr input \<Rightarrow> validate_rest X input))"

section \<open>Recipients and the canonical request\<close>

record recipientTarget =
  t_recipient :: RecipientTarget
  t_role :: string

definition normalizeEmail :: "string \<Rightarrow> string" where
  "normalizeEmail email = ToLower (TrimSpace email)"

text \<open>\<open>appendIfUnique\<close> over the three lists; \<open>seen\<close> maps an address to the role it has.\<close>

fun appendIfUnique :: "(string \<rightharpoonup> string) \<Rightarrow> recipientTarget list \<Rightarrow> (error, recipientTarget list) result" where
  "appendIfUnique seen [] = Inr []"
| "appendIfUnique seen (t # ts) =
     (let email = normalizeEmail (rt_Email (t_recipient t)) in
      if seen email \<noteq> None then Inl (Err ErrDuplicateRecipient)
      else case appendIfUnique (seen(email \<mapsto> t_role t)) ts of
        Inl e \<Rightarrow> Inl e
      | Inr targets \<Rightarrow> Inr (t # targets))"

definition with_role :: "string \<Rightarrow> RecipientTarget list \<Rightarrow> recipientTarget list" where
  "with_role role rs = map (\<lambda>r. \<lparr>t_recipient = r, t_role = role\<rparr>) rs"

definition explodeRecipients ::
  "RecipientTarget list \<Rightarrow> RecipientTarget list \<Rightarrow> RecipientTarget list \<Rightarrow> (error, recipientTarget list) result" where
  "explodeRecipients to cc bcc =
     appendIfUnique Map.empty
       (with_role RecipientRoleTo to @ with_role RecipientRoleCC cc @ with_role RecipientRoleBCC bcc)"

definition cleanTags :: "string list \<Rightarrow> string list" where
  "cleanTags tags = take maxTagsCount (map (take maxTagLength) (filter (\<lambda>t. t \<noteq> []) (map TrimSpace tags)))"

definition trimmed :: "RecipientTarget list \<Rightarrow> RecipientTarget list" where
  "trimmed rs = map (\<lambda>t. \<lparr>rt_Email = TrimSpace (rt_Email t), rt_Name = TrimSpace (rt_Name t)\<rparr>) rs"

definition file_part :: "AttachmentStream \<Rightarrow> FilePart" where
  "file_part att = \<lparr>fp_Filename = as_Filename att, fp_ContentType = as_ContentType att, fp_Size = as_Size att,
     fp_SHA256 = as_SHA256 att, fp_Disposition = as_Disposition att, fp_ContentID = as_ContentID att\<rparr>"

definition buildCanonical :: "Input \<Rightarrow> CanonicalSendRequest" where
  "buildCanonical input =
     zero_CanonicalSendRequest\<lparr>c_Mode := i_Mode input, c_SenderDomainID := TrimSpace (i_SenderDomainID input),
       c_SenderName := i_SenderName input, c_Subject := i_Subject input, c_TemplateID := TrimSpace (i_TemplateID input),
       c_TemplateVersionID := TrimSpace (i_TemplateVersionID input), c_TemplateData := i_TemplateData input,
       c_TextBody := i_TextBody input, c_HTMLBody := i_HTMLBody input, c_ReplyTo := i_ReplyTo input,
       c_Metadata := i_Metadata input, c_Tags := cleanTags (i_Tags input), c_Headers := i_Headers input,
       c_To := trimmed (i_To input), c_CC := trimmed (i_CC input), c_BCC := trimmed (i_BCC input),
       c_Attachments := map file_part (i_Attachments input)\<rparr>"

definition computeRequestHash :: "accept_ports \<Rightarrow> CanonicalSendRequest \<Rightarrow> AttachmentStream list \<Rightarrow> string" where
  "computeRequestHash X canonical atts = x_hash X canonical (map as_SHA256 atts)"

section \<open>Idempotency\<close>

definition KeyDeliveryIdempotency :: "string \<Rightarrow> string \<Rightarrow> string" where
  "KeyDeliveryIdempotency workspaceID idempotencyKey =
     ''idem:delivery:transactional:v1:'' @ workspaceID @ '':'' @ idempotencyKey"

definition GetIdempotency :: "string \<Rightarrow> string \<Rightarrow> IdempotencyEntry dprog" where
  "GetIdempotency workspaceID idempotencyKey = do {
     x \<leftarrow> next_outcome;
     w \<leftarrow> State_Monad.get;
     ret (if x \<noteq> OK then Inl ErrRedis
          else case idem w (KeyDeliveryIdempotency workspaceID idempotencyKey) of
            None \<Rightarrow> Inl ErrRedis | Some entry \<Rightarrow> Inr entry)
   }"

definition SetIdempotency :: "string \<Rightarrow> string \<Rightarrow> IdempotencyEntry \<Rightarrow> unit dprog" where
  "SetIdempotency workspaceID idempotencyKey entry = do {
     x \<leftarrow> next_outcome;
     w \<leftarrow> State_Monad.get;
     (if x = Fail then ret (Inl ErrRedis)
      else do {
        State_Monad.set (w\<lparr>idem := (idem w)(KeyDeliveryIdempotency workspaceID idempotencyKey \<mapsto> entry)\<rparr>);
        ret (if x = OK then Inr () else Inl ErrRedis)
      })
   }"

definition parseTimeOrZero :: "accept_ports \<Rightarrow> string \<Rightarrow> gotime" where
  "parseTimeOrZero X s = (case x_time X s of None \<Rightarrow> 0 | Some t \<Rightarrow> t)"

definition firstMessageID :: "string list \<Rightarrow> string" where
  "firstMessageID messageIDs = (case messageIDs of [] \<Rightarrow> [] | i # _ \<Rightarrow> i)"

definition request_query :: "string \<Rightarrow> string \<Rightarrow> MessageListQuery" where
  "request_query workspaceID requestID =
     \<lparr>ml_WorkspaceID = workspaceID, ml_CampaignID = [], ml_TransactionalRequestID = requestID, ml_Status = [],
      ml_MessageType = [], ml_Mode = [], ml_Provider = [], ml_RecipientEmailNormalized = [], ml_ProviderMessageID = [],
      ml_From = None, ml_To = None, ml_Limit = int maxRecipients, ml_Cursor = []\<rparr>"

definition listRequestMessageIDs :: "string \<Rightarrow> string \<Rightarrow> (string list) dprog" where
  "listRequestMessageIDs workspaceID requestID =
     bindE (Message_List (request_query workspaceID requestID)) (\<lambda>(messages, _).
       ret (if messages = [] then Inl (Err ErrMessageNotFound) else Inr (map m_ID messages)))"

definition loadExistingRequestResult :: "string \<Rightarrow> string \<Rightarrow> string \<Rightarrow> gotime \<Rightarrow> Result dprog" where
  "loadExistingRequestResult workspaceID idempotencyKey requestHash acceptedAtFallback = do {
     found \<leftarrow> FindByIdempotencyKey workspaceID idempotencyKey;
     case found of
       Inl _ \<Rightarrow> ret (Inl (Err ErrTemporarilyUnavailable))
     | Inr existingReq \<Rightarrow>
         if q_RequestHash existingReq \<noteq> requestHash then ret (Inl (Err ErrIdempotencyKeyConflict))
         else do {
           ids \<leftarrow> listRequestMessageIDs workspaceID (q_ID existingReq);
           case ids of
             Inl _ \<Rightarrow> ret (Inl (Err ErrTemporarilyUnavailable))
           | Inr messageIDs \<Rightarrow> ret (Inr
               \<lparr>res_RequestID = q_ID existingReq, res_MessageIDs = messageIDs, res_Status = q_Status existingReq,
                res_AcceptedAt = (if IsZero (q_CreatedAt existingReq) then acceptedAtFallback else q_CreatedAt existingReq)\<rparr>)
         }
   }"

definition recoverFromUniqueViolation :: "string \<Rightarrow> string \<Rightarrow> string \<Rightarrow> Result dprog" where
  "recoverFromUniqueViolation workspaceID idempotencyKey requestHash =
     loadExistingRequestResult workspaceID idempotencyKey requestHash 0"

text \<open>The lookup in the database, when the cache has no entry; \<open>None\<close> is a nil result without error.\<close>

definition idempotency_lookup :: "accept_ports \<Rightarrow> string \<Rightarrow> string \<Rightarrow> string \<Rightarrow> (Result option) dprog" where
  "idempotency_lookup X workspaceID idempotencyKey requestHash = do {
     found \<leftarrow> FindByIdempotencyKey workspaceID idempotencyKey;
     case found of
       Inl e \<Rightarrow> ret (if e = Err ErrTransactionalRequestNotFound then Inr None else Inl (Err ErrTemporarilyUnavailable))
     | Inr existingReq \<Rightarrow>
         if q_RequestHash existingReq \<noteq> requestHash then ret (Inl (Err ErrIdempotencyKeyConflict))
         else do {
           ids \<leftarrow> listRequestMessageIDs workspaceID (q_ID existingReq);
           case ids of
             Inl _ \<Rightarrow> ret (Inl (Err ErrTemporarilyUnavailable))
           | Inr messageIDs \<Rightarrow> do {
               _ \<leftarrow> (if p_hasCache (x_ports X) then SetIdempotency workspaceID idempotencyKey
                        \<lparr>ie_PayloadHash = requestHash, ie_RequestID = q_ID existingReq,
                         ie_MessageID = firstMessageID messageIDs, ie_Status = q_Status existingReq,
                         ie_AcceptedAt = p_rfc3339 (x_ports X) (q_CreatedAt existingReq)\<rparr>
                      else ret (Inr ()));
               ret (Inr (Some \<lparr>res_RequestID = q_ID existingReq, res_MessageIDs = messageIDs,
                 res_Status = q_Status existingReq, res_AcceptedAt = q_CreatedAt existingReq\<rparr>))
             }
         }
   }"

definition handleIdempotency :: "accept_ports \<Rightarrow> string \<Rightarrow> string \<Rightarrow> string \<Rightarrow> (Result option) dprog" where
  "handleIdempotency X workspaceID idempotencyKey requestHash =
     (if \<not> p_hasCache (x_ports X) then idempotency_lookup X workspaceID idempotencyKey requestHash
      else do {
        cached \<leftarrow> GetIdempotency workspaceID idempotencyKey;
        case cached of
          Inl _ \<Rightarrow> idempotency_lookup X workspaceID idempotencyKey requestHash
        | Inr entry \<Rightarrow>
            if ie_PayloadHash entry = requestHash
            then bindE (loadExistingRequestResult workspaceID idempotencyKey requestHash
                   (parseTimeOrZero X (ie_AcceptedAt entry))) (\<lambda>r. ret (Inr (Some r)))
            else ret (Inl (Err ErrIdempotencyKeyConflict))
      })"

section \<open>Checks\<close>

definition checkSenderReadiness :: "accept_ports \<Rightarrow> string \<Rightarrow> string \<Rightarrow> unit dprog" where
  "checkSenderReadiness X workspaceID senderDomainID = do {
     readiness \<leftarrow> remote (p_ready (x_ports X) workspaceID senderDomainID);
     ret (case readiness of
            Inl e \<Rightarrow> Inl (if e = Err ErrSenderDomainNotFound then e else Err ErrTemporarilyUnavailable)
          | Inr ready \<Rightarrow> if ready then Inr () else Inl (Err ErrSenderDomainNotVerified))
   }"

definition checkSuppression :: "string \<Rightarrow> string \<Rightarrow> unit dprog" where
  "checkSuppression workspaceID emailNormalized = do {
     decision \<leftarrow> CheckSuppression workspaceID emailNormalized ''workspace'';
     ret (case decision of
            Inl _ \<Rightarrow> Inl (Err ErrTemporarilyUnavailable)
          | Inr d \<Rightarrow> if cr_Suppressed d then Inl (Err ErrSuppressedRecipient) else Inr ())
   }"

fun check_suppressions :: "string \<Rightarrow> string list \<Rightarrow> unit dprog" where
  "check_suppressions workspaceID [] = ret (Inr ())"
| "check_suppressions workspaceID (email # emails) =
     thenE (checkSuppression workspaceID email) (check_suppressions workspaceID emails)"

text \<open>The subject of the request, which for a template is the rendered one.\<close>

definition accept_subject :: "accept_ports \<Rightarrow> Input \<Rightarrow> string dprog" where
  "accept_subject X input =
     (if i_Mode input = MessageModeTemplate then do {
        rendered \<leftarrow> remote (p_render (x_ports X) (i_WorkspaceID input) (i_TemplateID input) (i_TemplateVersionID input)
          (case i_TemplateData input of None \<Rightarrow> Map.empty | Some d \<Rightarrow> d));
        ret (case rendered of
               Inl e \<Rightarrow> Inl (if e = Err ErrTemplateNotFound \<or> e = Err ErrTemplateRenderPayloadInvalid then e
                             else Err ErrTemporarilyUnavailable)
             | Inr content \<Rightarrow> Inr (rm_Subject content))
      } else ret (Inr (i_Subject input)))"

section \<open>Quota\<close>

text \<open>A script on the buckets, run by Redis; \<open>f\<close> is the script with its arguments.\<close>

definition Eval :: "(buckets \<Rightarrow> 'a \<times> buckets) \<Rightarrow> 'a dprog" where
  "Eval f = do {
     x \<leftarrow> next_outcome;
     w \<leftarrow> State_Monad.get;
     (if x = Fail then ret (Inl ErrRedis)
      else case f (quota w) of (a, m) \<Rightarrow> do {
        State_Monad.set (w\<lparr>quota := m\<rparr>);
        ret (if x = OK then Inr a else Inl ErrRedis)
      })
   }"

definition unlimited :: "EmailQuotaLimits option \<Rightarrow> bool" where
  "unlimited limits = (case limits of None \<Rightarrow> True | Some l \<Rightarrow> IsEmpty l)"

definition bucket_CheckAndConsume ::
  "int \<Rightarrow> string \<Rightarrow> string \<Rightarrow> nat \<Rightarrow> EmailQuotaLimits option \<Rightarrow> unit dprog" where
  "bucket_CheckAndConsume now workspaceID apiKeyID recipientCount limits =
     (if unlimited limits then ret (Inr ())
      else do {
        r \<leftarrow> Eval (consume now workspaceID apiKeyID (int recipientCount) limits);
        ret (case r of
               Inl _ \<Rightarrow> Inl (Err ErrTemporarilyUnavailable)
             | Inr allowed \<Rightarrow> if allowed then Inr () else Inl (Err ErrAPIKeyQuotaExceeded))
      })"

definition bucket_Refund ::
  "int \<Rightarrow> string \<Rightarrow> string \<Rightarrow> nat \<Rightarrow> EmailQuotaLimits option \<Rightarrow> unit dprog" where
  "bucket_Refund now workspaceID apiKeyID recipientCount limits =
     (if unlimited limits then ret (Inr ())
      else do {
        r \<leftarrow> Eval (\<lambda>m. ((), give_back now workspaceID apiKeyID (int recipientCount) limits m));
        ret (case r of Inl _ \<Rightarrow> Inl (Err ErrTemporarilyUnavailable) | Inr _ \<Rightarrow> Inr ())
      })"

definition CheckAndConsume :: "accept_ports \<Rightarrow> string \<Rightarrow> string \<Rightarrow> nat \<Rightarrow> unit dprog" where
  "CheckAndConsume X workspaceID apiKeyID recipientCount =
     bindE (remote (x_limits X workspaceID apiKeyID))
       (bucket_CheckAndConsume (x_unix X) workspaceID apiKeyID recipientCount)"

definition Refund :: "accept_ports \<Rightarrow> string \<Rightarrow> string \<Rightarrow> nat \<Rightarrow> unit dprog" where
  "Refund X workspaceID apiKeyID recipientCount =
     bindE (remote (x_limits X workspaceID apiKeyID))
       (bucket_Refund (x_unix X) workspaceID apiKeyID recipientCount)"

text \<open>\<open>refundQuota\<close>; it runs at most once on every path, and only where the units were consumed.\<close>

definition refundQuota :: "accept_ports \<Rightarrow> Input \<Rightarrow> nat \<Rightarrow> (delivery_world, unit) state" where
  "refundQuota X input units =
     (if \<not> x_hasQuota X then ret ()
      else do { _ \<leftarrow> Refund X (i_WorkspaceID input) (i_APIKeyID input) units; ret () })"

section \<open>Attachments\<close>

definition PutObject :: "string \<Rightarrow> string option \<Rightarrow> unit dprog" where
  "PutObject key data = do {
     x \<leftarrow> next_outcome;
     w \<leftarrow> State_Monad.get;
     (if x = Fail then ret (Inl ErrStorage)
      else do {
        State_Monad.set (w\<lparr>objects := (objects w)(key \<mapsto> (case data of None \<Rightarrow> [] | Some s \<Rightarrow> s))\<rparr>);
        ret (if x = OK then Inr () else Inl ErrStorage)
      })
   }"

definition DeleteObject :: "string \<Rightarrow> unit dprog" where
  "DeleteObject key = do {
     x \<leftarrow> next_outcome;
     w \<leftarrow> State_Monad.get;
     (if x = Fail then ret (Inl ErrStorage)
      else do {
        State_Monad.set (w\<lparr>objects := (objects w)(key := None)\<rparr>);
        ret (if x = OK then Inr () else Inl ErrStorage)
      })
   }"

definition storage_key :: "string \<Rightarrow> string \<Rightarrow> AttachmentStream \<Rightarrow> string" where
  "storage_key workspaceID requestID stream =
     ''attachments/'' @ workspaceID @ ''/'' @ requestID @ ''/'' @ take 12 (as_SHA256 stream) @ ''_'' @ as_Filename stream"

definition Seek :: "AttachmentStream \<Rightarrow> unit dprog" where
  "Seek stream =
     (if as_Data stream = None then ret (Inr ())
      else do { x \<leftarrow> next_outcome; ret (if x = OK then Inr () else Inl ErrStorage) })"

text \<open>One attachment. Slicing a digest of fewer than twelve bytes panics.\<close>

definition store_attachment :: "accept_ports \<Rightarrow> string \<Rightarrow> string \<Rightarrow> AttachmentStream \<Rightarrow> AttachmentManifest dprog" where
  "store_attachment X workspaceID requestID stream =
     (if length (as_SHA256 stream) < 12 then ret (Inl ErrPanic)
      else do {
        s \<leftarrow> Seek stream;
        case s of
          Inl _ \<Rightarrow> ret (Inl (Err ErrAttachmentStorageFailed))
        | Inr _ \<Rightarrow> do {
            p \<leftarrow> PutObject (storage_key workspaceID requestID stream) (as_Data stream);
            case p of
              Inl _ \<Rightarrow> ret (Inl (Err ErrAttachmentStorageFailed))
            | Inr _ \<Rightarrow> do {
                i \<leftarrow> idGen (p_gen (x_ports X));
                case i of
                  Inl (e :: error goerr) \<Rightarrow> ret (Inl (Err ErrTemporarilyUnavailable))
                | Inr attID \<Rightarrow> ret (Inr
                    \<lparr>f_ID = attID, f_WorkspaceID = workspaceID, f_TransactionalRequestID = [],
                     f_StorageKey = storage_key workspaceID requestID stream, f_OriginalFilename = as_Filename stream,
                     f_ContentType = as_ContentType stream, f_ByteSize = as_Size stream,
                     f_SHA256Digest = as_SHA256 stream,
                     f_Disposition = (if as_Disposition stream = [] then AttachmentDispositionAttachment
                                      else as_Disposition stream),
                     f_ContentID = as_ContentID stream, f_CreatedAt = p_clock (x_ports X)\<rparr>)
              }
          }
      })"

fun storeAttachments ::
  "accept_ports \<Rightarrow> string \<Rightarrow> string \<Rightarrow> AttachmentStream list \<Rightarrow> (AttachmentManifest list) dprog" where
  "storeAttachments X workspaceID requestID [] = ret (Inr [])"
| "storeAttachments X workspaceID requestID (s # ss) =
     bindE (store_attachment X workspaceID requestID s) (\<lambda>manifest.
       bindE (storeAttachments X workspaceID requestID ss) (\<lambda>manifests. ret (Inr (manifest # manifests))))"

fun cleanup_all :: "AttachmentManifest list \<Rightarrow> (delivery_world, unit) state" where
  "cleanup_all [] = ret ()"
| "cleanup_all (f # fs) = do {
     _ \<leftarrow> (if f_StorageKey f = [] then ret (Inr ()) else DeleteObject (f_StorageKey f));
     cleanup_all fs
   }"

definition cleanupUploadedAttachments :: "accept_ports \<Rightarrow> AttachmentManifest list \<Rightarrow> (delivery_world, unit) state" where
  "cleanupUploadedAttachments X manifests =
     (if \<not> p_hasObjectStorage (x_ports X) then ret () else cleanup_all manifests)"

section \<open>The transaction\<close>

definition MessageQueuedPayload :: "Input \<Rightarrow> string \<Rightarrow> string \<Rightarrow> json" where
  "MessageQueuedPayload input requestID messageID =
     JObj ([(''message_id'', JStr messageID), (''workspace_id'', JStr (i_WorkspaceID input))] @
       omitempty ''transactional_request_id'' requestID @
       [(''template_id'', JStr (i_TemplateID input)), (''template_version_id'', JStr (i_TemplateVersionID input)),
        (''sender_domain_id'', JStr (i_SenderDomainID input)), (''message_type'', JStr MessageTypeTransactional),
        (''source_type'', JStr MessageSourceTransactional)])"

definition queued_message :: "Input \<Rightarrow> string \<Rightarrow> string \<Rightarrow> recipientTarget \<Rightarrow> string \<Rightarrow> Message" where
  "queued_message input requestID subject t messageID =
     (let recipientEmail = ToLower (TrimSpace (rt_Email (t_recipient t))) in
      zero_Message\<lparr>m_ID := messageID, m_WorkspaceID := i_WorkspaceID input, m_TransactionalRequestID := requestID,
        m_RecipientEmailNormalized := recipientEmail,
        m_RecipientSnapshot := zero_RecipientSnapshot\<lparr>rs_Email := rt_Email (t_recipient t),
          rs_EmailNormalized := recipientEmail, rs_FirstName := TrimSpace (rt_Name (t_recipient t)),
          rs_Tags := i_Tags input, rs_Attributes := i_Metadata input, rs_TemplateData := i_TemplateData input\<rparr>,
        m_TemplateID := i_TemplateID input, m_TemplateVersionID := i_TemplateVersionID input,
        m_SenderDomainID := i_SenderDomainID input, m_Subject := subject, m_SenderName := i_SenderName input,
        m_TextBody := i_TextBody input, m_HTMLBody := i_HTMLBody input, m_ReplyTo := i_ReplyTo input,
        m_Headers := i_Headers input, m_RecipientRole := t_role t, m_SourceAPIKeyID := i_APIKeyID input,
        m_MessageType := MessageTypeTransactional, m_SourceType := MessageSourceTransactional,
        m_Status := MessageStatusQueued, m_QueuedAt := Some (i_Now input), m_CreatedAt := i_Now input,
        m_UpdatedAt := i_Now input\<rparr>)"

definition queued_event :: "Input \<Rightarrow> string \<Rightarrow> string \<Rightarrow> string \<Rightarrow> MessageEvent" where
  "queued_event input requestID messageID eventID =
     \<lparr>e_ID = eventID, e_WorkspaceID = i_WorkspaceID input, e_MessageID = messageID,
      e_TransactionalRequestID = requestID, e_EventType = MessageEventQueued, e_Status = MessageStatusQueued,
      e_ReasonCode = [], e_ReasonMessage = [], e_OccurredAt = i_Now input, e_CreatedAt = i_Now input\<rparr>"

text \<open>One recipient: message, timeline entry and outbox event. The result is the id of the message.\<close>

definition accept_message ::
  "accept_ports \<Rightarrow> string list \<Rightarrow> Input \<Rightarrow> string \<Rightarrow> string \<Rightarrow> recipientTarget \<Rightarrow> string dprog" where
  "accept_message X cols input requestID subject t =
     bindE (idGen (p_gen (x_ports X))) (\<lambda>messageID.
     bindE (CreateMany cols [queued_message input requestID subject t messageID]) (\<lambda>insertedIDs.
       if insertedIDs = [] then ret (Inl (Err ErrTemporarilyUnavailable))
       else
         bindE (idGen (p_gen (x_ports X))) (\<lambda>eventID.
         thenE (Event_Create (queued_event input requestID messageID eventID))
           (bindE (idGen (p_gen (x_ports X))) (\<lambda>queuedEventID.
            thenE (save_event queuedEventID ''delivery.message.queued.v1'' ''message'' messageID
                (i_WorkspaceID input) (i_Now input) (MessageQueuedPayload input requestID messageID))
              (ret (Inr messageID)))))))"

fun accept_messages ::
  "accept_ports \<Rightarrow> string list \<Rightarrow> Input \<Rightarrow> string \<Rightarrow> string \<Rightarrow> recipientTarget list \<Rightarrow> (string list) dprog" where
  "accept_messages X cols input requestID subject [] = ret (Inr [])"
| "accept_messages X cols input requestID subject (t # ts) =
     bindE (accept_message X cols input requestID subject t) (\<lambda>messageID.
       bindE (accept_messages X cols input requestID subject ts) (\<lambda>messageIDs. ret (Inr (messageID # messageIDs))))"

definition send_request ::
  "Input \<Rightarrow> string \<Rightarrow> string \<Rightarrow> string \<Rightarrow> nat \<Rightarrow> TransactionalSendRequest" where
  "send_request input requestID subject requestHash nr =
     \<lparr>q_ID = requestID, q_WorkspaceID = i_WorkspaceID input,
      q_IdempotencyKey = (if TrimSpace (i_IdempotencyKey input) = [] then None
                          else Some (TrimSpace (i_IdempotencyKey input))),
      q_Status = TxRequestStatusAccepted, q_RequestPayload = buildCanonical input, q_Mode = i_Mode input,
      q_Subject = subject, q_SenderName = i_SenderName input, q_SourceAPIKeyID = i_APIKeyID input,
      q_RequestHash = requestHash, q_TotalRecipients = int nr, q_CreatedAt = i_Now input,
      q_UpdatedAt = i_Now input, q_CompletedAt = None, q_FailedAt = None\<rparr>"

definition errUniqueViolation :: "error goerr" where
  "errUniqueViolation = ErrLocal ''unique violation recovery needed''"

definition create_request :: "TransactionalSendRequest \<Rightarrow> unit dprog" where
  "create_request txReq = do {
     r \<leftarrow> Request_Create txReq;
     ret (case r of Inl e \<Rightarrow> Inl (if e = Err ErrIdempotencyKeyConflict then errUniqueViolation else e) | Inr u \<Rightarrow> Inr u)
   }"

text \<open>The event for the whole request; \<open>messageIDs[0]\<close> panics when there is no message.\<close>

definition accept_event :: "accept_ports \<Rightarrow> Input \<Rightarrow> string \<Rightarrow> string list \<Rightarrow> unit dprog" where
  "accept_event X input requestID messageIDs =
     bindE (idGen (p_gen (x_ports X))) (\<lambda>acceptedEventID.
       case messageIDs of
         [] \<Rightarrow> ret (Inl ErrPanic)
       | messageID # _ \<Rightarrow>
           save_event acceptedEventID ''delivery.transactional_send.accepted.v1'' ''transactional_send_request'' requestID
             (i_WorkspaceID input) (i_Now input) (MessageQueuedPayload input requestID messageID))"

definition accept_rows ::
  "accept_ports \<Rightarrow> string list \<Rightarrow> Input \<Rightarrow> string \<Rightarrow> string \<Rightarrow> recipientTarget list \<Rightarrow>
   AttachmentManifest list \<Rightarrow> string \<Rightarrow> Result dprog" where
  "accept_rows X cols input requestHash renderedSubject targets manifests requestID =
     (let subject = (if renderedSubject = [] then i_Subject input else renderedSubject) in
      thenE (create_request (send_request input requestID subject requestHash (length targets)))
        (thenE (Attachment_CreateMany (map (\<lambda>f. f\<lparr>f_TransactionalRequestID := requestID\<rparr>) manifests))
          (bindE (accept_messages X cols input requestID subject targets) (\<lambda>messageIDs.
            thenE (accept_event X input requestID messageIDs)
              (ret (Inr \<lparr>res_RequestID = requestID, res_MessageIDs = messageIDs,
                 res_Status = TxRequestStatusAccepted, res_AcceptedAt = i_Now input\<rparr>))))))"

definition accept_body ::
  "accept_ports \<Rightarrow> string list \<Rightarrow> Input \<Rightarrow> string \<Rightarrow> string \<Rightarrow> recipientTarget list \<Rightarrow>
   AttachmentManifest list \<Rightarrow> string \<Rightarrow> Result dprog" where
  "accept_body X cols input requestHash renderedSubject targets manifests requestID =
     bindE (if requestID = [] then idGen (p_gen (x_ports X)) else ret (Inr requestID))
       (accept_rows X cols input requestHash renderedSubject targets manifests)"

section \<open>The handler\<close>

text \<open>A panic ends the call where it happens; neither the quota nor the objects are given back.\<close>

definition accept_failed ::
  "accept_ports \<Rightarrow> Input \<Rightarrow> string \<Rightarrow> nat \<Rightarrow> AttachmentManifest list \<Rightarrow> error goerr \<Rightarrow> Result dprog" where
  "accept_failed X input requestHash units manifests err =
     (if err = ErrPanic then ret (Inl err)
      else do {
        (if manifests = [] then ret () else cleanupUploadedAttachments X manifests);
        refundQuota X input units;
        (if err = errUniqueViolation
         then recoverFromUniqueViolation (i_WorkspaceID input) (TrimSpace (i_IdempotencyKey input)) requestHash
         else ret (Inl err))
      })"

definition accept_remember :: "accept_ports \<Rightarrow> Input \<Rightarrow> string \<Rightarrow> Result \<Rightarrow> Result dprog" where
  "accept_remember X input requestHash result = do {
     _ \<leftarrow> (if p_hasCache (x_ports X) \<and> TrimSpace (i_IdempotencyKey input) \<noteq> []
            then SetIdempotency (i_WorkspaceID input) (TrimSpace (i_IdempotencyKey input))
              \<lparr>ie_PayloadHash = requestHash, ie_RequestID = res_RequestID result,
               ie_MessageID = firstMessageID (res_MessageIDs result), ie_Status = res_Status result,
               ie_AcceptedAt = p_rfc3339 (x_ports X) (res_AcceptedAt result)\<rparr>
            else ret (Inr ()));
     ret (Inr result)
   }"

definition accept_stored ::
  "accept_ports \<Rightarrow> string list \<Rightarrow> Input \<Rightarrow> string \<Rightarrow> string \<Rightarrow> recipientTarget list \<Rightarrow>
   AttachmentManifest list \<Rightarrow> string \<Rightarrow> Result dprog" where
  "accept_stored X cols input requestHash renderedSubject targets manifests requestID = do {
     r \<leftarrow> WithinTx (accept_body X cols input requestHash renderedSubject targets manifests requestID);
     case r of
       Inl err \<Rightarrow> accept_failed X input requestHash (length targets) manifests err
     | Inr result \<Rightarrow> accept_remember X input requestHash result
   }"

definition accept_reserved ::
  "accept_ports \<Rightarrow> string list \<Rightarrow> Input \<Rightarrow> string \<Rightarrow> string \<Rightarrow> recipientTarget list \<Rightarrow> Result dprog" where
  "accept_reserved X cols input requestHash renderedSubject targets = do {
     i \<leftarrow> (if i_Attachments input = [] then ret (Inr []) else idGen (p_gen (x_ports X)));
     case i of
       Inl (e :: error goerr) \<Rightarrow> do {
         refundQuota X input (length targets);
         ret (Inl (Err ErrTemporarilyUnavailable))
       }
     | Inr requestID \<Rightarrow> do {
         stored \<leftarrow> (if i_Attachments input = [] \<or> \<not> p_hasObjectStorage (x_ports X) then ret (Inr [])
                    else storeAttachments X (i_WorkspaceID input) requestID (i_Attachments input));
         case stored of
           Inl err \<Rightarrow>
             if err = ErrPanic then ret (Inl err)
             else do { refundQuota X input (length targets); ret (Inl err) }
         | Inr manifests \<Rightarrow> accept_stored X cols input requestHash renderedSubject targets manifests requestID
       }
   }"

definition accept_new ::
  "accept_ports \<Rightarrow> string list \<Rightarrow> Input \<Rightarrow> string \<Rightarrow> recipientTarget list \<Rightarrow> Result dprog" where
  "accept_new X cols input requestHash targets =
     thenE (checkSenderReadiness X (i_WorkspaceID input) (i_SenderDomainID input))
       (bindE (accept_subject X input) (\<lambda>renderedSubject.
         thenE (check_suppressions (i_WorkspaceID input) (map (\<lambda>t. normalizeEmail (rt_Email (t_recipient t))) targets))
           (thenE (if x_hasQuota X then CheckAndConsume X (i_WorkspaceID input) (i_APIKeyID input) (length targets)
                   else ret (Inr ()))
             (accept_reserved X cols input requestHash renderedSubject targets))))"

definition accept_Execute :: "accept_ports \<Rightarrow> string list \<Rightarrow> Input \<Rightarrow> Result dprog" where
  "accept_Execute X cols input0 =
     (case validateSendInput X input0 of
        Inl e \<Rightarrow> ret (Inl e)
      | Inr input \<Rightarrow>
          (case explodeRecipients (i_To input) (i_CC input) (i_BCC input) of
             Inl e \<Rightarrow> ret (Inl e)
           | Inr targets \<Rightarrow>
               if \<not> x_canonical_ok X (buildCanonical input) then ret (Inl (Err ErrRequestBodyInvalid))
               else
                 let requestHash = computeRequestHash X (buildCanonical input) (i_Attachments input);
                     inputKey = TrimSpace (i_IdempotencyKey input)
                 in bindE (if inputKey = [] then ret (Inr None)
                           else handleIdempotency X (i_WorkspaceID input) inputKey requestHash)
                      (\<lambda>replay. case replay of
                         Some result \<Rightarrow> ret (Inr result)
                       | None \<Rightarrow> accept_new X cols input requestHash targets)))"

end
