(* ===== verification/Delivery_Safety.thy ===== *)
theory Delivery_Safety
  imports Delivery_Process
begin

text \<open>
  What the worker can do to the tables under every fault. The relation \<open>quiet ws mid S\<close> says that
  between two worlds only the row of one message has changed, that its status, if changed, is now in
  \<open>S\<close>, and that no retry was recorded, no suppression changed and no mail was handed over. Every step of
  \<open>processMessage\<close> but the sending of the mail and the scheduling of a retry keeps it.
\<close>

section \<open>Only one row moves\<close>

definition moves :: "string \<Rightarrow> string \<Rightarrow> string set \<Rightarrow> delivery_db \<Rightarrow> delivery_db \<Rightarrow> bool" where
  "moves ws mid S d d' \<longleftrightarrow>
     list_all2 (\<lambda>m m'. m' = m \<or> has_key ws mid m \<and> has_key ws mid m' \<and> m_Status m' \<in> S) (messages d) (messages d')"

definition still :: "string \<Rightarrow> string \<Rightarrow> string set \<Rightarrow> delivery_world \<Rightarrow> delivery_world \<Rightarrow> bool" where
  "still ws mid S w w' \<longleftrightarrow>
     moves ws mid S (store w) (store w') \<and> retries (store w') = retries (store w) \<and>
     suppressions w' = suppressions w"

definition quiet :: "string \<Rightarrow> string \<Rightarrow> string set \<Rightarrow> delivery_world \<Rightarrow> delivery_world \<Rightarrow> bool" where
  "quiet ws mid S w w' \<longleftrightarrow> still ws mid S w w' \<and> handed w' = handed w"

lemma moves_refl [simp]: "moves ws mid S d d"
  by (simp add: moves_def list.rel_refl)

lemma moves_trans: "moves ws mid S d e \<Longrightarrow> moves ws mid S e f \<Longrightarrow> moves ws mid S d f"
  unfolding moves_def by (erule (1) list_all2_trans [rotated]) auto

lemma moves_mono: "moves ws mid S d e \<Longrightarrow> S \<subseteq> T \<Longrightarrow> moves ws mid T d e"
  unfolding moves_def by (erule list_all2_mono) auto

lemma moves_messages: "messages d' = messages d \<Longrightarrow> moves ws mid S d d'"
  by (simp add: moves_def list.rel_refl)

lemma still_refl [simp]: "still ws mid S w w"
  by (simp add: still_def)

lemma still_trans: "still ws mid S u v \<Longrightarrow> still ws mid S v w \<Longrightarrow> still ws mid S u w"
  by (auto simp: still_def intro: moves_trans)

lemma still_mono: "still ws mid S u v \<Longrightarrow> S \<subseteq> T \<Longrightarrow> still ws mid T u v"
  by (auto simp: still_def intro: moves_mono)

lemma quiet_still: "quiet ws mid S u v \<Longrightarrow> still ws mid S u v"
  by (simp add: quiet_def)

interpretation quiet: world_rel "quiet ws mid S" for ws mid S
  by unfold_locales (auto simp: quiet_def still_def intro: moves_trans)

lemma moves_set_message:
  assumes "\<And>m. has_key ws mid m \<Longrightarrow> has_key ws mid (f m) \<and> m_Status (f m) \<in> S"
  shows "moves ws mid S d (set_message ws mid f d)"
  unfolding moves_def set_message_def
  by (auto simp: list_all2_conv_all_nth assms)

section \<open>Repository calls\<close>

lemma quiet_exec:
  assumes "\<And>d r d'. q d = SqlOk r d' \<Longrightarrow> moves ws mid S d d' \<and> retries d' = retries d"
  shows "state_io_rel (quiet ws mid S) (exec q)"
  by (rule quiet.keeps_exec) (auto simp: quiet_def still_def dest!: assms)

lemma quiet_update_row:
  assumes "\<And>m. has_key ws mid m \<Longrightarrow> has_key ws mid (f m) \<and> m_Status (f m) \<in> S"
  shows "state_io_rel (quiet ws mid S) (update_row ws mid f)"
    and "state_io_rel (quiet ws mid S) (update_row_keys ws mid f)"
  unfolding update_row_def update_row_keys_def
  by (rule quiet_exec; auto split: if_splits intro!: moves_set_message assms; simp add: set_message_def)+

lemma quiet_other_tables:
  "state_io_rel (quiet ws mid S) (find_row Q)"
  "state_io_rel (quiet ws mid S) (NextAttemptNumber ws' mid')"
  "state_io_rel (quiet ws mid S) (Attempt_Create a)"
  "state_io_rel (quiet ws mid S) (Attempt_Update a)"
  "state_io_rel (quiet ws mid S) (Retry_FindByMessage ws' mid')"
  "state_io_rel (quiet ws mid S) (Event_Create e)"
  "state_io_rel (quiet ws mid S) (Attachment_ListByRequest ws' rid)"
  "state_io_rel (quiet ws mid S) (Outbox_Save ev)"
  unfolding find_row_def NextAttemptNumber_def Attempt_Create_def Attempt_Update_def
    Retry_FindByMessage_def Event_Create_def Attachment_ListByRequest_def Outbox_Save_def
  by (rule quiet_exec; auto simp: Let_def intro: moves_messages split: if_splits)+

lemma quiet_UpdateAggregates: "state_io_rel (quiet ws mid S) (UpdateAggregates ws' rid t s now)"
  unfolding UpdateAggregates_def set_request_def
  by (intro quiet.keeps_prog quiet_exec) (auto intro: moves_messages)

lemma quiet_MarkFailed:
  "''failed'' \<in> S \<Longrightarrow> state_io_rel (quiet (m_WorkspaceID msg) (m_ID msg) S) (MarkFailed msg)"
  unfolding MarkFailed_def by (rule quiet_update_row) simp

lemma quiet_MarkAccepted:
  "''accepted'' \<in> S \<Longrightarrow> state_io_rel (quiet (m_WorkspaceID msg) (m_ID msg) S) (MarkAccepted msg)"
  unfolding MarkAccepted_def by (rule quiet_update_row) simp

lemma quiet_Message_Update:
  "m_Status msg \<in> S \<Longrightarrow> state_io_rel (quiet (m_WorkspaceID msg) (m_ID msg) S) (Message_Update msg)"
  unfolding Message_Update_def by (rule quiet_update_row) simp

section \<open>Other calls\<close>

lemma quiet_next_outcome: "state_io_rel (quiet ws mid S) next_outcome"
  by (auto simp: state_io_rel_def next_outcome_def quiet_def still_def split: list.splits)

lemma quiet_get: "state_io_rel (quiet ws mid S) State_Monad.get"
  by (auto simp: state_io_rel_def quiet_def)

lemma quiet_remote: "state_io_rel (quiet ws mid S) (remote answer)"
  unfolding remote_def by (intro quiet.keeps_prog quiet_next_outcome)

lemma quiet_AcquireLock: "state_io_rel (quiet ws mid S) (AcquireLock P key ttl)"
  unfolding AcquireLock_def RandomToken_def
  by (intro io_rel_if quiet.keeps_return quiet.keeps_bindE quiet.keeps_idGen)
    (auto simp: state_io_rel_def next_outcome_def quiet_def still_def Let_def split: list.splits)

lemma quiet_ReleaseLock: "state_io_rel (quiet ws mid S) (ReleaseLock key token)"
  unfolding ReleaseLock_def
  by (auto simp: state_io_rel_def next_outcome_def quiet_def still_def Let_def split: list.splits)

lemma quiet_GetObject: "state_io_rel (quiet ws mid S) (GetObject key)"
  unfolding GetObject_def by (intro quiet.keeps_prog quiet_next_outcome quiet_get)

lemma quiet_CheckSuppression: "state_io_rel (quiet ws mid S) (CheckSuppression ws' email scope)"
  unfolding CheckSuppression_def CheckHandler_def FindActiveByEmail_def exec_pool_def
  by (intro quiet.keeps_prog)
    (auto simp: state_io_rel_def next_outcome_def quiet_def still_def split: list.splits)

lemmas quiet_calls = quiet.keeps_prog quiet_other_tables quiet_UpdateAggregates
  quiet_next_outcome quiet_get quiet_remote quiet_AcquireLock quiet_ReleaseLock quiet_GetObject quiet_CheckSuppression

section \<open>Steps of the worker\<close>

lemma quiet_writeEvent: "state_io_rel (quiet ws mid S) (due_writeEvent P msg t s c r now)"
  unfolding due_writeEvent_def by (intro quiet_calls)

lemma quiet_save_event: "state_io_rel (quiet ws mid S) (save_event i t agt agi ws1 now p)"
  unfolding save_event_def by (intro quiet_calls)

lemma quiet_load_parts: "state_io_rel (quiet ws mid S) (load_parts ms)"
  by (induction ms) (auto intro!: quiet_calls)

lemma quiet_loadAttachments: "state_io_rel (quiet ws mid S) (loadAttachments P msg)"
  unfolding loadAttachments_def by (intro quiet_calls quiet_load_parts)

lemma quiet_failMessage:
  assumes "''failed'' \<in> S"
  shows "state_io_rel (quiet (m_WorkspaceID msg) (m_ID msg) S) (failMessage P msg now c t)"
  unfolding failMessage_def Let_def
  using quiet_MarkFailed [OF assms, of "msg\<lparr>m_FailedAt := Some now, m_LastErrorClass := c,
    m_LastErrorMessage := t, m_UpdatedAt := now\<rparr>"]
  by (intro quiet_calls quiet_writeEvent) auto

lemma quiet_failMessageWithAttempt:
  assumes "''failed'' \<in> S"
  shows "state_io_rel (quiet (m_WorkspaceID msg) (m_ID msg) S) (failMessageWithAttempt P msg a now c t)"
  unfolding failMessageWithAttempt_def Let_def
  using quiet_MarkFailed [OF assms, of "msg\<lparr>m_FailedAt := Some now, m_LastErrorClass := c,
    m_LastErrorMessage := t, m_UpdatedAt := now\<rparr>"]
  by (intro quiet_calls quiet_writeEvent) auto

lemma quiet_persist_tries:
  "state_io_rel (quiet ws mid S) body \<Longrightarrow> state_io_rel (quiet ws mid S) (persist_tries body n e)"
  by (induction n arbitrary: e) (auto intro!: quiet_calls)

lemma quiet_persistAcceptedState:
  "''accepted'' \<in> S \<Longrightarrow>
   state_io_rel (quiet (m_WorkspaceID msg) (m_ID msg) S) (persistAcceptedState P msg a pr now)"
  unfolding persistAcceptedState_def saveAcceptedEvent_def
  by (intro quiet_calls quiet_persist_tries quiet_MarkAccepted quiet_writeEvent quiet_save_event)

lemma quiet_process_accepted:
  assumes "''accepted'' \<in> S" and "''dlq'' \<in> S"
  shows "state_io_rel (quiet (m_WorkspaceID msg) (m_ID msg) S) (process_accepted P msg a now pr)"
proof -
  let ?msg = "msg\<lparr>m_UpdatedAt := now, m_Provider := pr_Provider pr,
    m_ProviderMessageID := pr_ProviderMessageID pr, m_AcceptedAt := Some now\<rparr>"
  have 1: "state_io_rel (quiet (m_WorkspaceID msg) (m_ID msg) S) (persistAcceptedState P ?msg b pr now)" for b
    using quiet_persistAcceptedState [OF assms(1), of ?msg] by simp
  have 2: "state_io_rel (quiet (m_WorkspaceID msg) (m_ID msg) S) (Message_Update
      (?msg\<lparr>m_Status := MessageStatusDLQ, m_LastErrorClass := c, m_LastErrorMessage := t, m_UpdatedAt := now\<rparr>))" for c t
    using quiet_Message_Update [of "?msg\<lparr>m_Status := MessageStatusDLQ, m_LastErrorClass := c,
      m_LastErrorMessage := t, m_UpdatedAt := now\<rparr>" S] assms(2) by simp
  show ?thesis
    unfolding process_accepted_def Let_def FindByID_def
    by (intro quiet_calls 1 2 quiet_writeEvent)
qed

section \<open>Handing a mail over\<close>

lemma SendEmail_hands_over:
  assumes "run_state (SendEmail P mid req) w = ((answer, headers), w')"
  shows "store w' = store w \<and> suppressions w' = suppressions w \<and>
    (\<exists>h. handed w' = handed w @ [h] \<and> h_MessageID h = mid \<and> h_To h = ps_To req \<and>
       (h_Reported h \<longleftrightarrow> (\<exists>pr. answer = Inr pr)) \<and> (h_Reported h \<longrightarrow> h_Taken h))"
  using assms
  by (auto simp: SendEmail_def hand_over_def idGen_def next_outcome_def Let_def
      split: list.splits if_splits option.splits)

section \<open>Scheduling a retry\<close>

definition retry_count :: "string \<Rightarrow> string \<Rightarrow> delivery_db \<Rightarrow> int" where
  "retry_count ws mid d = (case find (retry_of ws mid) (retries d) of None \<Rightarrow> 0 | Some r \<Rightarrow> r_RetryCount r)"

definition retries_ok :: "delivery_db \<Rightarrow> bool" where
  "retries_ok d \<longleftrightarrow> distinct (map r_ID (retries d)) \<and> distinct (map r_MessageID (retries d))"

text \<open>The message is queued again and exactly its own retry count went up, from below the maximum.\<close>

definition requeues :: "string \<Rightarrow> string \<Rightarrow> delivery_world \<Rightarrow> delivery_world \<Rightarrow> bool" where
  "requeues ws mid w w' \<longleftrightarrow>
     moves ws mid {''queued''} (store w) (store w') \<and> suppressions w' = suppressions w \<and> handed w' = handed w \<and>
     retry_count ws mid (store w) < DefaultMaxRetries \<and>
     (retries_ok (store w) \<longrightarrow> retries_ok (store w') \<and>
        r_MessageID ` set (retries (store w')) \<subseteq> insert mid (r_MessageID ` set (retries (store w))) \<and>
        (\<forall>ws' mid'. retry_count ws' mid' (store w') =
           retry_count ws' mid' (store w) + (if ws' = ws \<and> mid' = mid then 1 else 0)))"

definition outside :: "delivery_world \<Rightarrow> delivery_world \<Rightarrow> bool" where
  "outside w w' \<longleftrightarrow> handed w' = handed w \<and> suppressions w' = suppressions w"

interpretation outside: world_rel outside
  by unfold_locales (auto simp: outside_def)

lemma outside_exec: "state_io_rel outside (exec q)"
  by (rule outside.keeps_exec) (simp add: outside_def)

lemma quiet_outside: "state_io_rel (quiet ws mid S) f \<Longrightarrow> state_io_rel outside f"
  unfolding state_io_rel_def quiet_def still_def outside_def by blast

lemma outside_repo:
  "state_io_rel outside (Message_Update msg)" "state_io_rel outside (Retry_Create st)"
  "state_io_rel outside (Retry_Update st)"
  unfolding Message_Update_def update_row_keys_def Retry_Create_def Retry_Update_def
  by (rule outside_exec)+

lemma moves_none: "moves ws mid {} d d' \<Longrightarrow> messages d' = messages d"
  unfolding moves_def by (auto simp: list_all2_conv_all_nth intro: nth_equalityI)

lemma retry_count_create:
  assumes "find (retry_of ws mid) (retries d) = None" and "retries d' = retries d @ [st]"
    and "r_WorkspaceID st = ws" and "r_MessageID st = mid" and "r_RetryCount st = 1"
  shows "retry_count ws' mid' d' = retry_count ws' mid' d + (if ws' = ws \<and> mid' = mid then 1 else 0)"
  using assms by (auto simp: retry_count_def find_append_one split: option.splits)

lemma retry_count_update:
  assumes ok: "retries_ok d" and found: "find (retry_of ws mid) (retries d) = Some r"
    and upd: "retries d' = map (\<lambda>x. if r_ID x = r_ID r \<and> r_WorkspaceID x = r_WorkspaceID r then f x else x) (retries d)"
    and f: "\<And>x. r_WorkspaceID (f x) = r_WorkspaceID x \<and> r_MessageID (f x) = r_MessageID x \<and>
      r_RetryCount (f x) = r_RetryCount r + 1"
  shows "retry_count ws' mid' d' = retry_count ws' mid' d + (if ws' = ws \<and> mid' = mid then 1 else 0)"
proof -
  let ?g = "\<lambda>x. if r_ID x = r_ID r \<and> r_WorkspaceID x = r_WorkspaceID r then f x else x"
  have find: "find (retry_of ws' mid') (retries d') = map_option ?g (find (retry_of ws' mid') (retries d))"
    unfolding upd by (rule find_map_keep) (simp add: f)
  have g: "?g x = (if ws' = ws \<and> mid' = mid then f r else x) \<and> (ws' = ws \<and> mid' = mid \<longrightarrow> x = r)"
    if x: "find (retry_of ws' mid') (retries d) = Some x" for x
  proof -
    have mem: "x \<in> set (retries d)" "r \<in> set (retries d)" and key: "retry_of ws' mid' x" "retry_of ws mid r"
      using find_SomeD [OF x] find_SomeD [OF found] by auto
    have "r_ID x = r_ID r \<longleftrightarrow> x = r" and "r_MessageID x = r_MessageID r \<longleftrightarrow> x = r"
      using ok mem unfolding retries_ok_def distinct_map by (metis inj_onD)+
    with key show ?thesis by (cases "x = r") auto
  qed
  show ?thesis
  proof (cases "find (retry_of ws' mid') (retries d)")
    case None
    with find found show ?thesis by (auto simp: retry_count_def)
  next
    case (Some x)
    with find g [OF Some] f [of r] show ?thesis by (simp add: retry_count_def split: if_splits)
  qed
qed

lemma retry_tx:
  assumes msg: "m_Status msg = ''queued''" "m_WorkspaceID msg = ws" "m_ID msg = mid"
    and found: "find (retry_of ws mid) (retries (store w)) = rs"
    and st: "r_WorkspaceID st = ws" "r_MessageID st = mid"
      "r_RetryCount st = (case rs of None \<Rightarrow> 0 | Some r \<Rightarrow> r_RetryCount r) + 1"
      "case rs of None \<Rightarrow> True | Some r \<Rightarrow> r_ID st = r_ID r"
    and low: "(case rs of None \<Rightarrow> 0 | Some r \<Rightarrow> r_RetryCount r) < DefaultMaxRetries"
    and rest: "state_io_rel (quiet ws mid {}) rest"
    and run: "run_state (WithinTx (thenE (Message_Update msg) (thenE (Attempt_Update a)
      (thenE (if rs = None then Retry_Create st else Retry_Update st) rest)))) w = (r, w')"
  shows "quiet ws mid S w w' \<or> requeues ws mid w w'"
proof -
  have "state_io_rel outside (WithinTx (thenE (Message_Update msg) (thenE (Attempt_Update a)
      (thenE (if rs = None then Retry_Create st else Retry_Update st) rest))))"
    by (intro outside.keeps_prog outside_repo quiet_outside [OF rest] quiet_outside [OF quiet_other_tables(4)])
  with run have out: "outside w w'" by blast
  from WithinTx_atomic [OF run] consider "store w' = store w"
    | w1 b w2 where "store w1 = store w" "store w' = store w2"
      "run_state (thenE (Message_Update msg) (thenE (Attempt_Update a)
        (thenE (if rs = None then Retry_Create st else Retry_Update st) rest))) w1 = (Inr b, w2)"
    by blast
  then show ?thesis
  proof cases
    case 1
    with out show ?thesis by (simp add: quiet_def still_def outside_def)
  next
    case 2
    then obtain v1 v2 v3 u1 u2 u3 where upd: "run_state (Message_Update msg) w1 = (Inr u1, v1)"
      and att: "run_state (Attempt_Update a) v1 = (Inr u2, v2)"
      and ret: "run_state (if rs = None then Retry_Create st else Retry_Update st) v2 = (Inr u3, v3)"
      and re: "run_state rest v3 = (Inr b, w2)"
      by (metis thenE_InrD)
    from upd have v1: "moves ws mid {''queued''} (store w) (store v1)" "retries (store v1) = retries (store w)"
      using quiet_Message_Update [of msg "{''queued''}"] msg 2(1)
      by (auto simp: quiet_def still_def dest!: state_io_relD)
    from att quiet_other_tables(4) [of ws mid "{}" a] have "quiet ws mid {} v1 v2" by blast
    then have v2: "messages (store v2) = messages (store v1)" "retries (store v2) = retries (store v1)"
      by (auto simp: quiet_def still_def dest: moves_none)
    from re rest have "quiet ws mid {} v3 w2" by blast
    then have w2: "messages (store w') = messages (store v3)" "retries (store w') = retries (store v3)"
      using 2(2) by (auto simp: quiet_def still_def dest: moves_none)
    let ?f = "\<lambda>r. r\<lparr>r_RetryCount := r_RetryCount st, r_MaxRetries := r_MaxRetries st, r_NextAttemptAt := r_NextAttemptAt st,
                 r_LastErrorClass := r_LastErrorClass st, r_LastErrorMessage := r_LastErrorMessage st,
                 r_Status := r_Status st, r_UpdatedAt := r_UpdatedAt st\<rparr>"
    have create: "store v3 = (store v2)\<lparr>retries := retries (store v2) @ [st]\<rparr>"
        "\<not> list_ex (\<lambda>r. r_ID r = r_ID st \<or> r_MessageID r = r_MessageID st) (retries (store v2))" if "rs = None"
      using exec_InrD [OF ret [unfolded that Retry_Create_def, simplified]] by (simp_all split: if_splits)
    have update: "store v3 = (store v2)\<lparr>retries := map (\<lambda>x. if r_ID x = r_ID st \<and> r_WorkspaceID x = r_WorkspaceID st
        then ?f x else x) (retries (store v2))\<rparr>" if "rs \<noteq> None"
      using exec_InrD [OF ret [unfolded if_not_P [OF that] Retry_Update_def]] by (simp add: Let_def)
    have v3: "messages (store v3) = messages (store v2)"
      using create(1) update by (cases "rs = None") auto
    have "moves ws mid {''queued''} (store w) (store w')"
      using v1(1) v2(1) v3 w2(1) by (simp add: moves_def)
    moreover have "retries_ok (store w') \<and>
        r_MessageID ` set (retries (store w')) \<subseteq> insert mid (r_MessageID ` set (retries (store w))) \<and>
        (\<forall>ws' mid'. retry_count ws' mid' (store w') =
           retry_count ws' mid' (store w) + (if ws' = ws \<and> mid' = mid then 1 else 0))"
      if ok: "retries_ok (store w)"
    proof (cases rs)
      case None
      have "retries (store w') = retries (store w) @ [st]" using create(1) None v1 v2 w2 by simp
      moreover from this create(2) None ok v1 v2 have "retries_ok (store w')"
        by (auto simp: retries_ok_def list_ex_iff)
      ultimately show ?thesis
        using retry_count_create [OF found [unfolded None] _ st(1,2)] st(2,3) None by auto
    next
      case (Some r0)
      have r0: "r_WorkspaceID r0 = ws" using find_SomeD [OF found [unfolded Some]] by simp
      have "retries (store v3) = map (\<lambda>x. if r_ID x = r_ID r0 \<and> r_WorkspaceID x = r_WorkspaceID r0 then ?f x else x)
          (retries (store v2))"
        using update Some st r0 by simp
      then have upd: "retries (store w') =
          map (\<lambda>x. if r_ID x = r_ID r0 \<and> r_WorkspaceID x = r_WorkspaceID r0 then ?f x else x) (retries (store w))"
        using v1 v2 w2 by simp
      then have "map r_ID (retries (store w')) = map r_ID (retries (store w))"
        and "map r_MessageID (retries (store w')) = map r_MessageID (retries (store w))" by auto
      with ok have "retries_ok (store w')"
        and "r_MessageID ` set (retries (store w')) = r_MessageID ` set (retries (store w))"
        by (simp_all add: retries_ok_def flip: set_map)
      with retry_count_update [OF ok found [unfolded Some] upd] st(3) Some show ?thesis by auto
    qed
    ultimately show ?thesis
      using out low found by (auto simp: requeues_def outside_def retry_count_def)
  qed
qed

text \<open>The relations look at the world only through these three fields.\<close>

lemma same_view:
  assumes "store v = store w" and "handed v = handed w" and "suppressions v = suppressions w"
  shows "requeues ws mid v w' = requeues ws mid w w'" and "quiet ws mid S v w' = quiet ws mid S w w'"
  using assms by (simp_all add: requeues_def quiet_def still_def)

lemma idGen_view:
  "run_state (idGen gen) w = (r, w') \<Longrightarrow> store w' = store w \<and> handed w' = handed w \<and> suppressions w' = suppressions w"
  for w w' :: delivery_world
  by (auto simp: idGen_def next_outcome_def split: list.splits if_splits)

lemma save_retry_cases:
  assumes run: "run_state (save_retry P msg a rs st now e) v = (x, w')"
    and msg: "m_Status msg = ''queued''" "m_WorkspaceID msg = ws" "m_ID msg = mid"
    and found: "find (retry_of ws mid) (retries (store v)) = rs"
    and st: "r_WorkspaceID st = ws" "r_MessageID st = mid"
      "r_RetryCount st = (case rs of None \<Rightarrow> 0 | Some r \<Rightarrow> r_RetryCount r) + 1"
      "case rs of None \<Rightarrow> True | Some r \<Rightarrow> r_ID st = r_ID r"
    and low: "(case rs of None \<Rightarrow> 0 | Some r \<Rightarrow> r_RetryCount r) < DefaultMaxRetries"
  shows "quiet ws mid S v w' \<or> requeues ws mid v w'"
proof (rule retry_tx [OF msg found st low])
  show "state_io_rel (quiet ws mid {}) (do { due_writeEvent P msg MessageEventRetryScheduled MessageStatusQueued
              ''provider_temporary_failure'' (p_errtext P e) now;
            saveRetryScheduledEvent P msg st now })"
    unfolding saveRetryScheduledEvent_def by (intro quiet_calls quiet_writeEvent quiet_save_event)
qed (use run in \<open>simp add: save_retry_def\<close>)

lemma next_retry_state_facts:
  assumes "run_state (next_retry_state P msg rs t now e) v = (st, v1)"
  shows "store v1 = store v \<and> handed v1 = handed v \<and> suppressions v1 = suppressions v"
    and "st = Inr s \<Longrightarrow> r_RetryCount s = (case rs of None \<Rightarrow> 0 | Some r \<Rightarrow> r_RetryCount r) + 1 \<and>
      (case rs of None \<Rightarrow> r_WorkspaceID s = m_WorkspaceID msg \<and> r_MessageID s = m_ID msg
       | Some r \<Rightarrow> r_ID s = r_ID r \<and> r_WorkspaceID s = r_WorkspaceID r \<and> r_MessageID s = r_MessageID r)"
  using assms
  by (auto simp: next_retry_state_def run_bindE split: option.splits prod.splits sum.splits dest: idGen_view)

lemma handleTemporaryFailure_cases:
  assumes run: "run_state (handleTemporaryFailure P msg a now e) w = (u, w')"
    and ws: "m_WorkspaceID msg = ws" "m_ID msg = mid"
  shows "quiet ws mid {''failed''} w w' \<or> requeues ws mid w w'"
proof -
  obtain found v where F: "run_state (Retry_FindByMessage ws mid) w = (found, v)" by fastforce
  then have wv: "quiet ws mid {''failed''} w v" using quiet_other_tables(5) by blast
  have fail: "quiet ws mid {''failed''} w w'"
    if "run_state (failMessageWithAttempt P msg b now c t) v = (u, w')" for b c t
    using that quiet_failMessageWithAttempt [of "{''failed''}" msg P b now c t] wv ws
    by (auto intro: quiet.R_trans)
  show ?thesis
  proof (cases found)
    case (Inl err)
    with run F ws show ?thesis by (intro disjI1 fail) (auto simp: handleTemporaryFailure_def Let_def)
  next
    case (Inr rs)
    with exec_InrD [OF F [unfolded Inr Retry_FindByMessage_def]]
    have rs: "find (retry_of ws mid) (retries (store v)) = rs" and sv: "store v = store w" by auto
    have view: "store v = store w" "handed v = handed w" "suppressions v = suppressions w"
      using wv sv by (auto simp: quiet_def still_def)
    define c where "c = (case rs of None \<Rightarrow> 0 | Some r \<Rightarrow> r_RetryCount r)"
    show ?thesis
    proof (cases "DefaultMaxRetries \<le> c")
      case True
      with run F ws Inr show ?thesis
        by (intro disjI1 fail) (auto simp: handleTemporaryFailure_def Let_def c_def [symmetric])
    next
      case False
      define t where "t = now + computeRetryDelay (p_rand P (id_ctr v)) c"
      define q where "q = msg\<lparr>m_Status := MessageStatusQueued, m_ScheduledAt := Some t, m_UpdatedAt := now\<rparr>"
      obtain st v1 where N: "run_state (next_retry_state P q rs t now e) v = (st, v1)" by fastforce
      note v1 = next_retry_state_facts [OF N]
      show ?thesis
      proof (cases st)
        case (Inl err)
        with run F ws Inr N False have "w' = v1"
          by (auto simp: handleTemporaryFailure_def Let_def c_def [symmetric] t_def q_def)
        with v1(1) view show ?thesis by (simp add: quiet_def still_def)
      next
        case (Inr s)
        from run F ws \<open>found = Inr rs\<close> N Inr False obtain b x where
          S: "run_state (save_retry P q b rs s now e) v1 = (x, w')"
          by (auto simp: handleTemporaryFailure_def Let_def c_def [symmetric] t_def q_def split: prod.splits)
        have q: "m_Status q = ''queued''" "m_WorkspaceID q = ws" "m_ID q = mid" using ws by (simp_all add: q_def)
        have rs1: "find (retry_of ws mid) (retries (store v1)) = rs" using rs v1(1) by simp
        have "retry_of ws mid r" if "rs = Some r" for r
          using find_SomeD [OF rs [unfolded that]] by simp
        with v1(2) [OF Inr] q have s: "r_WorkspaceID s = ws" "r_MessageID s = mid"
            "r_RetryCount s = (case rs of None \<Rightarrow> 0 | Some r \<Rightarrow> r_RetryCount r) + 1"
            "case rs of None \<Rightarrow> True | Some r \<Rightarrow> r_ID s = r_ID r"
          by (simp_all split: option.splits)
        from False have "(case rs of None \<Rightarrow> 0 | Some r \<Rightarrow> r_RetryCount r) < DefaultMaxRetries"
          by (simp add: c_def)
        note save_retry_cases [OF S q rs1 s this, of "{''failed''}"]
        with same_view [of v1 w] v1(1) view show ?thesis by simp
      qed
    qed
  qed
qed

section \<open>One message\<close>

text \<open>
  What processing a message can do under any faults: nothing is handed over and at most the message
  fails; or exactly one mail is handed over, for this message and to its recipient. If the
  adapter reported success the message is not queued again. If it did not, the message fails, stays,
  or is queued again with its retry count raised.
\<close>

definition processed :: "Message \<Rightarrow> delivery_world \<Rightarrow> delivery_world \<Rightarrow> bool" where
  "processed msg w w' \<longleftrightarrow>
     (let ws = m_WorkspaceID msg; mid = m_ID msg in
      quiet ws mid {''failed''} w w' \<or>
      (\<exists>h. handed w' = handed w @ [h] \<and> h_MessageID h = mid \<and> h_To h = [rs_Email (m_RecipientSnapshot msg)] \<and>
         (if h_Reported h then h_Taken h \<and> still ws mid {''accepted'', ''dlq'', ''failed''} w w'
          else still ws mid {''failed''} w w' \<or> requeues ws mid (w\<lparr>handed := handed w'\<rparr>) w')))"

lemma quiet_noneD:
  "quiet ws mid {} w v \<Longrightarrow> messages (store v) = messages (store w) \<and> retries (store v) = retries (store w) \<and>
     handed v = handed w \<and> suppressions v = suppressions w"
  by (auto simp: quiet_def still_def dest: moves_none)

lemma view_still:
  assumes "messages (store v) = messages (store w)" and "retries (store v) = retries (store w)"
    and "suppressions v = suppressions w"
  shows "still ws mid S v w' = still ws mid S w w'" and "still ws mid S w' v = still ws mid S w' w"
    and "requeues ws mid (v\<lparr>handed := hs\<rparr>) w' = requeues ws mid (w\<lparr>handed := hs\<rparr>) w'"
  using assms by (simp_all add: requeues_def still_def moves_def retry_count_def retries_ok_def)

lemma processed_pre:
  assumes "quiet (m_WorkspaceID msg) (m_ID msg) {} w v" and "processed msg v w'"
  shows "processed msg w w'"
  using assms(2) quiet_noneD [OF assms(1)] view_still [of v w]
  by (auto simp: processed_def Let_def quiet_def)

lemma processed_post:
  assumes "processed msg w v" and "quiet (m_WorkspaceID msg) (m_ID msg) {} v w'"
  shows "processed msg w w'"
proof -
  note q = quiet_noneD [OF assms(2)]
  then have "requeues ws mid u w' = requeues ws mid u v" for ws mid u
    by (simp add: requeues_def moves_def retry_count_def retries_ok_def)
  with q view_still(2) [of w' v] have "processed msg w w' = processed msg w v"
    by (simp add: processed_def Let_def quiet_def)
  with assms(1) show ?thesis by simp
qed

lemma io_rel_bindI:
  assumes "state_io_rel R f" and "\<And>a. state_io_rel Q (g a)" and "\<And>u v w. R u v \<Longrightarrow> Q v w \<Longrightarrow> T u w"
  shows "state_io_rel T (State_Monad.bind f g)"
proof (rule state_io_relI)
  fix b w w' assume "run_state (State_Monad.bind f g) w = (b, w')"
  then obtain a v where "run_state f w = (a, v)" and "run_state (g a) v = (b, w')"
    by (auto split: prod.splits)
  with assms show "T w w'" by (meson state_io_relD)
qed

lemma processed_bind:
  assumes "state_io_rel (quiet (m_WorkspaceID msg) (m_ID msg) {}) f" and "\<And>a. state_io_rel (processed msg) (g a)"
  shows "state_io_rel (processed msg) (State_Monad.bind f g)"
  using assms by (rule io_rel_bindI) (rule processed_pre)

lemma processed_quiet:
  "state_io_rel (quiet (m_WorkspaceID msg) (m_ID msg) {''failed''}) f \<Longrightarrow> state_io_rel (processed msg) f"
  unfolding state_io_rel_def processed_def Let_def by blast

lemma processed_failMessage: "state_io_rel (processed msg) (failMessage P msg now c t \<bind> (\<lambda>_. ret st))"
  by (intro processed_quiet quiet.keeps_bind quiet_failMessage quiet.keeps_return) simp

lemma processed_ret: "state_io_rel (processed msg) (ret st)"
  by (intro processed_quiet quiet.keeps_return)

text \<open>What happens after the mail went out, for each answer of the adapter.\<close>

lemma process_answer_cases:
  assumes run: "run_state (process_answer P msg' a now answer) v = (st, w')"
    and key: "m_WorkspaceID msg' = ws" "m_ID msg' = mid"
  shows "case answer of
        Inl e \<Rightarrow> quiet ws mid {''failed''} v w' \<or> requeues ws mid v w'
      | Inr pr \<Rightarrow> quiet ws mid {''accepted'', ''dlq'', ''failed''} v w'"
proof (cases answer)
  case (Inl e)
  have "quiet ws mid {''failed''} v w'"
    if "run_state (failMessageWithAttempt P msg' a now c t) v = (u, w')" for c t u
    using that quiet_failMessageWithAttempt [of "{''failed''}" msg' P a now c t] key by blast
  with run Inl show ?thesis
    by (auto simp: process_answer_def split: prod.splits if_splits dest: handleTemporaryFailure_cases [OF _ key])
next
  case (Inr pr)
  have "quiet ws mid {''accepted'', ''dlq'', ''failed''} v w'"
    if "run_state (failMessageWithAttempt P msg' a now c t) v = (u, w')" for c t u
    using that quiet_failMessageWithAttempt [of "{''accepted'', ''dlq'', ''failed''}" msg' P a now c t] key by blast
  moreover have "quiet ws mid {''accepted'', ''dlq'', ''failed''} v w'"
    if "run_state (process_accepted P msg' a now pr) v = (u, w')" for u
    using that quiet_process_accepted [of "{''accepted'', ''dlq'', ''failed''}" msg' P a now pr] key by blast
  ultimately show ?thesis
    using run Inr by (auto simp: process_answer_def split: prod.splits if_splits)
qed

lemma processed_hand_over:
  assumes send: "run_state (SendEmail P (m_ID msg) req) w = ((answer, headers), v)"
    and to: "ps_To req = [rs_Email (m_RecipientSnapshot msg)]"
    and rest: "case answer of
        Inl e \<Rightarrow> quiet (m_WorkspaceID msg) (m_ID msg) {''failed''} v w' \<or> requeues (m_WorkspaceID msg) (m_ID msg) v w'
      | Inr pr \<Rightarrow> quiet (m_WorkspaceID msg) (m_ID msg) {''accepted'', ''dlq'', ''failed''} v w'"
  shows "processed msg w w'"
proof -
  let ?ws = "m_WorkspaceID msg" and ?mid = "m_ID msg"
  from SendEmail_hands_over [OF send] obtain h where v: "store v = store w" "suppressions v = suppressions w"
    and h: "handed v = handed w @ [h]" "h_MessageID h = ?mid" "h_To h = ps_To req"
      "h_Reported h \<longleftrightarrow> (\<exists>pr. answer = Inr pr)" "h_Reported h \<longrightarrow> h_Taken h" by blast
  from rest have w': "handed w' = handed v"
    by (auto simp: quiet_def requeues_def split: sum.splits)
  have q: "quiet ?ws ?mid S v w' \<Longrightarrow> still ?ws ?mid S w w'" for S
    using view_still(1) [of v w] v by (simp add: quiet_def)
  have "v = v\<lparr>handed := handed w'\<rparr>" using w' by simp
  then have r: "requeues ?ws ?mid v w' \<Longrightarrow> requeues ?ws ?mid (w\<lparr>handed := handed w'\<rparr>) w'"
    using view_still(3) [of v w ?ws ?mid "handed w'" w'] v by simp
  from rest h q r w' to show ?thesis
    unfolding processed_def Let_def by (cases answer) auto
qed

lemma processed_sending:
  assumes to: "ps_To req = [rs_Email (m_RecipientSnapshot msg)]"
  shows "state_io_rel (processed msg) (SendEmail P (m_ID msg) req \<bind>
    (\<lambda>sent. case sent of (answer, headers) \<Rightarrow> process_answer P (msg\<lparr>m_Headers := headers\<rparr>) a now answer))"
proof (rule state_io_relI)
  fix st w w'
  assume run: "run_state (SendEmail P (m_ID msg) req \<bind>
    (\<lambda>sent. case sent of (answer, headers) \<Rightarrow> process_answer P (msg\<lparr>m_Headers := headers\<rparr>) a now answer)) w = (st, w')"
  obtain answer headers v where send: "run_state (SendEmail P (m_ID msg) req) w = ((answer, headers), v)"
    by (metis surj_pair)
  with run have "run_state (process_answer P (msg\<lparr>m_Headers := headers\<rparr>) a now answer) v = (st, w')" by simp
  from process_answer_cases [OF this, of "m_WorkspaceID msg" "m_ID msg"]
  show "processed msg w w'" by (intro processed_hand_over [OF send to]) simp
qed

lemma processed_process_send: "state_io_rel (processed msg) (process_send P msg now content)"
  unfolding process_send_def
  by (rule processed_failMessage processed_sending quiet_other_tables quiet.keeps_idGen quiet_loadAttachments
      processed_bind io_rel_split | simp)+

lemma processed_process_checked: "state_io_rel (processed msg) (process_checked P msg now)"
  unfolding process_checked_def process_recipient_def process_content_def
  by (rule processed_failMessage processed_process_send quiet_remote quiet_CheckSuppression
      processed_bind io_rel_split)+

lemma processed_processMessage: "state_io_rel (processed msg) (processMessage P msg now)"
proof -
  have ret: "state_io_rel (processed msg) (process_checked P msg now \<bind> (\<lambda>st. ret (Inr st)))"
    by (rule io_rel_bindI [OF processed_process_checked quiet.keeps_return]) (rule processed_post)
  have release: "state_io_rel (processed msg)
      (process_checked P msg now \<bind> (\<lambda>st. ReleaseMessageLock mid token \<bind> (\<lambda>_. ret (Inr st))))" for mid token
    unfolding ReleaseMessageLock_def
    by (rule io_rel_bindI [OF processed_process_checked quiet.keeps_bind [OF quiet_ReleaseLock quiet.keeps_return]])
      (rule processed_post)
  show ?thesis
    unfolding processMessage_def AcquireMessageLock_def
    by (rule ret release processed_ret quiet_writeEvent quiet_AcquireLock processed_bind io_rel_split)+
qed

end
