(* ===== verification/Delivery_Provider_Event.thy ===== *)
theory Delivery_Provider_Event
  imports Delivery_Safety
begin

text \<open>
  The consumer of normalized provider events,
  \<open>internal/modules/delivery/app/process/provider_event.go\<close>, with the adapter through which it creates
  suppression entries (\<open>internal/apps/worker/delivery_adapters.go\<close>). The instant \<open>time.Now()\<close> inside the
  transaction is the clock of the ports.
\<close>

section \<open>Handler\<close>

record ProviderEventInput =
  pe_EventID :: string
  pe_NormalizedEventID :: string
  pe_RawEventID :: string
  pe_WorkspaceID :: string
  pe_MessageID :: string
  pe_Provider :: string
  pe_ProviderEventID :: string
  pe_ProviderMessageID :: string
  pe_EventType :: string
  pe_OccurredAt :: gotime
  pe_ReceivedAt :: gotime

record ProviderEventResult =
  per_Handled :: bool
  per_Ignored :: bool
  per_MessageID :: string
  per_WorkspaceID :: string
  per_PreviousStatus :: string
  per_NewStatus :: string
  per_SuppressionCreated :: bool
  per_SuppressionEntryID :: string

definition ignored_result :: ProviderEventResult where
  "ignored_result = \<lparr>per_Handled = False, per_Ignored = True, per_MessageID = [], per_WorkspaceID = [],
     per_PreviousStatus = [], per_NewStatus = [], per_SuppressionCreated = False, per_SuppressionEntryID = []\<rparr>"

definition handled_result :: "Message \<Rightarrow> string \<Rightarrow> bool \<times> string \<Rightarrow> ProviderEventResult" where
  "handled_result msg newStatus spr = \<lparr>per_Handled = True, per_Ignored = False, per_MessageID = m_ID msg,
     per_WorkspaceID = m_WorkspaceID msg, per_PreviousStatus = m_Status msg, per_NewStatus = newStatus,
     per_SuppressionCreated = fst spr, per_SuppressionEntryID = snd spr\<rparr>"

text \<open>The timeline entry; like its counterpart in the worker, but the status is that of the message.\<close>

definition pe_writeEvent ::
  "ports \<Rightarrow> Message \<Rightarrow> string \<Rightarrow> string \<Rightarrow> string \<Rightarrow> gotime \<Rightarrow> (delivery_world, unit) state" where
  "pe_writeEvent P msg eventType reasonCode reasonMessage now =
     (if \<not> p_hasEventRepo P then ret ()
      else do {
        i \<leftarrow> idGen (p_gen P);
        case i of
          Inl (e :: error goerr) \<Rightarrow> ret ()
        | Inr eventID \<Rightarrow> do {
            _ \<leftarrow> Event_Create \<lparr>e_ID = eventID, e_WorkspaceID = m_WorkspaceID msg, e_MessageID = m_ID msg,
              e_TransactionalRequestID = m_TransactionalRequestID msg, e_EventType = eventType,
              e_Status = m_Status msg, e_ReasonCode = reasonCode, e_ReasonMessage = reasonMessage,
              e_OccurredAt = now, e_CreatedAt = now\<rparr>;
            ret ()
          }
      })"

definition writeMessageEvent :: "ports \<Rightarrow> Message \<Rightarrow> string \<Rightarrow> gotime \<Rightarrow> (delivery_world, unit) state" where
  "writeMessageEvent P msg targetStatus now =
     (if targetStatus = MessageStatusDelivered then pe_writeEvent P msg MessageEventDelivered [] [] now
      else if targetStatus = MessageStatusBounced then pe_writeEvent P msg MessageEventBounced ''provider_bounce'' [] now
      else if targetStatus = MessageStatusComplained
        then pe_writeEvent P msg MessageEventComplained ''provider_complaint'' [] now
      else if targetStatus = MessageStatusDelayed then pe_writeEvent P msg MessageStatusDelayed ''provider_delayed'' [] now
      else if targetStatus = MessageStatusFailed then pe_writeEvent P msg MessageEventFailed ''provider_rejected'' [] now
      else ret ())"

text \<open>
  \<open>SuppressFromSignal\<close> calls the suppression module; the reason says which signal it was. The entry's
  address is the normalized one of the message, the scope the workspace.
\<close>

definition SuppressFromSignal ::
  "ports \<Rightarrow> CreateSystemInput \<Rightarrow> (delivery_world, (supp_error, string \<times> bool) result) state" where
  "SuppressFromSignal P input =
     bindE (CreateSystemHandler (p_gen P) input) (\<lambda>(entry, created). ret (Inr (s_ID entry, created)))"

definition suppression_input :: "Message \<Rightarrow> ProviderEventInput \<Rightarrow> string \<Rightarrow> string \<Rightarrow> gotime \<Rightarrow> CreateSystemInput" where
  "suppression_input msg input reason note now =
     \<lparr>cs_WorkspaceID = m_WorkspaceID msg, cs_Email = rs_Email (m_RecipientSnapshot msg),
      cs_EmailNormalized = m_RecipientEmailNormalized msg, cs_Scope = ''workspace'', cs_Reason = reason,
      cs_Source = ''provider_event'', cs_SourceEventID = pe_NormalizedEventID input, cs_Note = note, cs_Now = now\<rparr>"

text \<open>The three payload types have the same fields; the request id is never set.\<close>

definition event_payload :: "ports \<Rightarrow> Message \<Rightarrow> ProviderEventInput \<Rightarrow> json" where
  "event_payload P msg input =
     JObj ([(''message_id'', JStr (m_ID msg)), (''workspace_id'', JStr (m_WorkspaceID msg))] @
       omitempty ''campaign_id'' (m_CampaignID msg) @
       [(''provider'', JStr (m_Provider msg)), (''provider_message_id'', JStr (m_ProviderMessageID msg))] @
       omitempty ''provider_event_id'' (pe_ProviderEventID input) @
       [(''normalized_event_id'', JStr (pe_NormalizedEventID input)),
        (''occurred_at'', JStr (p_rfc3339 P (pe_OccurredAt input))),
        (''received_at'', JStr (p_rfc3339 P (pe_ReceivedAt input)))])"

text \<open>
  The \<open>switch\<close> on the target status: the updated message, the type of the outbox event (\<open>None\<close> when
  there is none) and the suppression to create.
\<close>

definition apply_event ::
  "Message \<Rightarrow> ProviderEventInput \<Rightarrow> string \<Rightarrow> gotime \<Rightarrow>
   (Message \<times> string option \<times> CreateSystemInput option) option" where
  "apply_event current input targetStatus now =
     (let updated = current\<lparr>m_Status := targetStatus, m_UpdatedAt := now\<rparr> in
      if targetStatus = MessageStatusDelivered then
        Some (updated\<lparr>m_DeliveredAt := Some (pe_OccurredAt input), m_LastErrorClass := [], m_LastErrorMessage := []\<rparr>,
              Some ''delivery.message.delivered.v1'', None)
      else if targetStatus = MessageStatusBounced then
        Some (updated\<lparr>m_BouncedAt := Some (pe_OccurredAt input), m_LastErrorClass := ''provider_bounce'',
                m_LastErrorMessage := []\<rparr>,
              Some ''delivery.message.bounced.v1'',
              Some (suppression_input updated input ''bounce'' ''auto-suppressed from provider bounce'' now))
      else if targetStatus = MessageStatusComplained then
        Some (updated\<lparr>m_ComplainedAt := Some (pe_OccurredAt input), m_LastErrorClass := ''provider_complaint'',
                m_LastErrorMessage := []\<rparr>,
              Some ''delivery.message.complained.v1'',
              Some (suppression_input updated input ''complaint'' ''auto-suppressed from provider complaint'' now))
      else if targetStatus = MessageStatusDelayed then
        Some (updated\<lparr>m_LastErrorClass := ''provider_delayed'', m_LastErrorMessage := []\<rparr>, None, None)
      else if targetStatus = MessageStatusFailed then
        Some (updated\<lparr>m_FailedAt := Some (pe_OccurredAt input), m_LastErrorClass := ''provider_rejected'',
                m_LastErrorMessage := []\<rparr>, None, None)
      else None)"

definition suppressed_payload :: "ports \<Rightarrow> Message \<Rightarrow> CreateSystemInput \<Rightarrow> string \<Rightarrow> gotime \<Rightarrow> json" where
  "suppressed_payload P msg spr entryID now =
     JObj ([(''suppression_id'', JStr entryID), (''workspace_id'', JStr (m_WorkspaceID msg)),
        (''email_normalized'', JStr (m_RecipientEmailNormalized msg)), (''scope'', JStr ''workspace''),
        (''reason'', JStr (cs_Reason spr)), (''source'', JStr (cs_Source spr))] @
       omitempty ''source_event_id'' (cs_SourceEventID spr) @
       [(''created_at'', JStr (p_rfc3339 P now))])"

text \<open>The outbox part of the transaction.\<close>

definition publish ::
  "ports \<Rightarrow> Message \<Rightarrow> ProviderEventInput \<Rightarrow> string option \<Rightarrow> CreateSystemInput option \<Rightarrow> bool \<times> string \<Rightarrow>
   gotime \<Rightarrow> unit dprog" where
  "publish P updated input eventType supInput spr now =
     (case eventType of
        None \<Rightarrow> ret (Inr ())
      | Some t \<Rightarrow>
          bindE (idGen (p_gen P)) (\<lambda>eventID.
            thenE (save_event eventID t ''message'' (m_ID updated) (m_WorkspaceID updated) now
                     (event_payload P updated input))
              (case supInput of
                 None \<Rightarrow> ret (Inr ())
               | Some si \<Rightarrow>
                   if fst spr then
                     bindE (idGen (p_gen P)) (\<lambda>supEventID.
                       save_event supEventID ''suppression.recipient_suppressed.v1'' ''suppression_entry'' (snd spr)
                         (m_WorkspaceID updated) now (suppressed_payload P updated si (snd spr) now))
                   else ret (Inr ()))))"

text \<open>
  The effects once the transition is allowed. A failure to count the recipient or to create the
  suppression is only logged. The result is what \<open>result.SuppressionCreated\<close> and
  \<open>result.SuppressionEntryID\<close> hold afterwards.
\<close>

definition pe_count :: "Message \<Rightarrow> gotime \<Rightarrow> unit dprog" where
  "pe_count updated now =
     (if m_TransactionalRequestID updated \<noteq> [] \<and> IsTerminal updated
      then UpdateAggregates (m_WorkspaceID updated) (m_TransactionalRequestID updated) True
             (m_Status updated = MessageStatusDelivered) now
      else ret (Inr ()))"

definition pe_suppress :: "ports \<Rightarrow> CreateSystemInput option \<Rightarrow> (delivery_world, bool \<times> string) state" where
  "pe_suppress P supInput =
     (case supInput of
        Some si \<Rightarrow>
          if p_hasSuppressor P then do {
            r \<leftarrow> SuppressFromSignal P si;
            ret (case r of Inl _ \<Rightarrow> (False, []) | Inr (entryID, created) \<Rightarrow> (created, entryID))
          } else ret (False, [])
      | None \<Rightarrow> ret (False, []))"

definition pe_after ::
  "ports \<Rightarrow> ProviderEventInput \<Rightarrow> string \<Rightarrow> Message \<Rightarrow> string option \<Rightarrow> CreateSystemInput option \<Rightarrow> gotime \<Rightarrow>
   (bool \<times> string) dprog" where
  "pe_after P input targetStatus updated eventType supInput now = do {
     writeMessageEvent P updated targetStatus now;
     _ \<leftarrow> pe_count updated now;
     spr \<leftarrow> pe_suppress P supInput;
     thenE (publish P updated input eventType supInput spr now) (ret (Inr spr))
   }"

definition pe_effects ::
  "ports \<Rightarrow> ProviderEventInput \<Rightarrow> string \<Rightarrow> Message \<Rightarrow> string option \<Rightarrow> CreateSystemInput option \<Rightarrow> gotime \<Rightarrow>
   (bool \<times> string) dprog" where
  "pe_effects P input targetStatus updated eventType supInput now =
     thenE (Message_Update updated) (pe_after P input targetStatus updated eventType supInput now)"

definition pe_body ::
  "ports \<Rightarrow> ProviderEventInput \<Rightarrow> string \<Rightarrow> Message \<Rightarrow> gotime \<Rightarrow> (bool \<times> string) dprog" where
  "pe_body P input targetStatus message now = do {
     found \<leftarrow> FindByIDForUpdate (m_WorkspaceID message) (m_ID message);
     case (case found of Inl e \<Rightarrow> if e = Err ErrMessageNotFound then Inr message else Inl e | Inr m \<Rightarrow> Inr m) of
       Inl err \<Rightarrow> ret (Inl err)
     | Inr current \<Rightarrow>
         if \<not> CanTransitionToStatus (m_Status current) targetStatus then ret (Inr (False, []))
         else if m_Status current = targetStatus then ret (Inr (False, []))
         else case apply_event current input targetStatus now of
           None \<Rightarrow> ret (Inr (False, []))
         | Some (updated, eventType, supInput) \<Rightarrow> pe_effects P input targetStatus updated eventType supInput now
   }"

definition pe_transaction ::
  "ports \<Rightarrow> ProviderEventInput \<Rightarrow> string \<Rightarrow> Message \<Rightarrow> (bool \<times> string) dprog" where
  "pe_transaction P input targetStatus message = WithinTx (pe_body P input targetStatus message (p_clock P))"

definition resolve :: "ProviderEventInput \<Rightarrow> (Message option) dprog" where
  "resolve input =
     (if pe_WorkspaceID input \<noteq> [] \<and> pe_MessageID input \<noteq> []
      then bindE (FindByID (pe_WorkspaceID input) (pe_MessageID input)) (\<lambda>m. ret (Inr (Some m)))
      else if pe_Provider input \<noteq> [] \<and> pe_ProviderMessageID input \<noteq> []
      then bindE (FindByProviderMessageID (pe_Provider input) (pe_ProviderMessageID input)) (\<lambda>m.
        if pe_WorkspaceID input \<noteq> [] \<and> m_WorkspaceID m \<noteq> pe_WorkspaceID input then ret (Inr None)
        else ret (Inr (Some m)))
      else ret (Inr None))"

definition pe_Execute :: "ports \<Rightarrow> ProviderEventInput \<Rightarrow> ProviderEventResult dprog" where
  "pe_Execute P input =
     (if pe_EventID input = [] \<or> pe_Provider input = [] \<or> pe_EventType input = []
        then ret (Inl (NonRetryable (Err ErrPayloadInvalid)))
      else if IsZero (pe_OccurredAt input) \<or> IsZero (pe_ReceivedAt input)
        then ret (Inl (NonRetryable (Err ErrPayloadInvalid)))
      else case ClassifyProviderEvent (pe_EventType input) of
        None \<Rightarrow> ret (Inr ignored_result)
      | Some targetStatus \<Rightarrow> do {
          resolved \<leftarrow> resolve input;
          case resolved of
            Inl e \<Rightarrow> if e = Err ErrMessageNotFound then ret (Inr ignored_result) else ret (Inl e)
          | Inr None \<Rightarrow> ret (Inr ignored_result)
          | Inr (Some message) \<Rightarrow>
              if \<not> CanTransitionToStatus (m_Status message) targetStatus
                then ret (Inr (handled_result message (m_Status message) (False, [])))
              else if targetStatus = m_Status message
                then ret (Inr (handled_result message (m_Status message) (False, [])))
              else bindE (pe_transaction P input targetStatus message) (\<lambda>spr.
                ret (Inr (handled_result message targetStatus spr)))
        })"

section \<open>What the handler can change\<close>

text \<open>
  As \<open>quiet\<close>, but the suppression list may change: the handler creates entries.
\<close>

definition calm :: "string \<Rightarrow> string \<Rightarrow> string set \<Rightarrow> delivery_world \<Rightarrow> delivery_world \<Rightarrow> bool" where
  "calm ws mid S w w' \<longleftrightarrow>
     moves ws mid S (store w) (store w') \<and> retries (store w') = retries (store w) \<and> handed w' = handed w"

interpretation calm: world_rel "calm ws mid S" for ws mid S
  by unfold_locales (auto simp: calm_def intro: moves_trans)

lemma quiet_calm: "state_io_rel (quiet ws mid S) f \<Longrightarrow> state_io_rel (calm ws mid S) f"
  unfolding state_io_rel_def quiet_def still_def calm_def by blast

lemma calm_exec_pool: "state_io_rel (calm ws mid S) (exec_pool q)"
  by (auto simp: state_io_rel_def exec_pool_def next_outcome_def calm_def split: list.splits sql.splits)

lemma calm_SuppressFromSignal: "state_io_rel (calm ws mid S) (SuppressFromSignal P si)"
  unfolding SuppressFromSignal_def CreateSystemHandler_def FindActiveByEmail_def Supp_Create_def
  by (intro calm.keeps_prog calm_exec_pool)

lemma quiet_pe_writeEvent: "state_io_rel (quiet ws mid S) (pe_writeEvent P msg t c r now)"
  unfolding pe_writeEvent_def by (intro quiet_calls)

lemma quiet_writeMessageEvent: "state_io_rel (quiet ws mid S) (writeMessageEvent P msg t now)"
  unfolding writeMessageEvent_def by (intro quiet_calls quiet_pe_writeEvent)

lemma quiet_publish: "state_io_rel (quiet ws mid S) (publish P msg input t si spr now)"
  unfolding publish_def by (intro quiet_calls quiet_save_event)

lemma quiet_resolve: "state_io_rel (quiet ws mid S) (resolve input)"
  unfolding resolve_def FindByID_def FindByProviderMessageID_def by (intro quiet_calls)

lemma calm_pe_after: "state_io_rel (calm ws mid S) (pe_after P input t updated et si now)"
  unfolding pe_after_def pe_count_def pe_suppress_def
  by (intro calm.keeps_prog calm_SuppressFromSignal quiet_calm [OF quiet_writeMessageEvent]
      quiet_calm [OF quiet_UpdateAggregates] quiet_calm [OF quiet_publish])

lemma calm_pe_effects:
  assumes "m_Status updated \<in> S"
  shows "state_io_rel (calm (m_WorkspaceID updated) (m_ID updated) S) (pe_effects P input t updated et si now)"
  unfolding pe_effects_def
  by (intro calm.keeps_thenE calm_pe_after quiet_calm [OF quiet_Message_Update] assms)

lemma apply_event_facts:
  "apply_event current input t now = Some (updated, et, si) \<Longrightarrow>
   m_Status updated = t \<and> m_ID updated = m_ID current \<and> m_WorkspaceID updated = m_WorkspaceID current \<and>
   m_RecipientEmailNormalized updated = m_RecipientEmailNormalized current \<and>
   m_RecipientSnapshot updated = m_RecipientSnapshot current"
  by (auto simp: apply_event_def Let_def split: if_splits)

lemma find_row_Inr:
  assumes "run_state (find_row Q) w = (Inr m, w')"
  shows "m \<in> set (messages (store w)) \<and> Q m \<and> store w' = store w"
  using exec_InrD [OF assms [unfolded find_row_def]] by (auto split: option.splits dest: find_SomeD)

lemma find_row_Inl:
  assumes "run_state (find_row Q) w = (Inl (Err ErrMessageNotFound), w')"
  shows "\<forall>m \<in> set (messages (store w)). \<not> Q m"
  using assms
  by (auto simp: find_row_def exec_def next_outcome_def find_None_iff split: list.splits if_splits option.splits)

lemma find_row_store: "run_state (find_row Q) w = (r, w') \<Longrightarrow> store w' = store w"
  by (auto simp: find_row_def exec_def next_outcome_def split: list.splits if_splits)

lemma Message_Update_Inr:
  assumes "run_state (Message_Update msg) w = (Inr u, w')"
  shows "\<exists>m \<in> set (messages (store w)). has_key (m_WorkspaceID msg) (m_ID msg) m"
  using exec_InrD [OF assms [unfolded Message_Update_def update_row_keys_def]]
  by (auto simp: affected_def list_ex_iff split: if_splits)

text \<open>
  A body that ran to its end: nothing moved, or the row was there, its status allowed the target,
  and only that row moved, to the target.
\<close>

lemma pe_body_cases:
  assumes run: "run_state (pe_body P input t message now) w = (Inr a, w')"
    and key: "m_WorkspaceID message = ws" "m_ID message = mid"
  shows "store w' = store w \<or>
    (\<exists>current. current \<in> set (messages (store w)) \<and> has_key ws mid current \<and>
       CanTransitionToStatus (m_Status current) t \<and> m_Status current \<noteq> t \<and>
       moves ws mid {t} (store w) (store w'))"
proof -
  obtain found v where F: "run_state (find_row (has_key ws mid)) w = (found, v)" by fastforce
  note v = find_row_store [OF F]
  have eff: "moves ws mid {t} (store v) (store w') \<and> (\<exists>m \<in> set (messages (store v)). has_key ws mid m)"
    if "apply_event current input t now = Some (updated, et, si)" and "has_key ws mid current"
      and "run_state (pe_effects P input t updated et si now) v = (Inr a, w')" for current updated et si
  proof -
    note u = apply_event_facts [OF that(1)]
    then have "calm ws mid {t} v w'"
      using calm_pe_effects [of updated "{t}" P input t et si now] that(2,3) by (auto dest: state_io_relD)
    moreover from that(3) obtain x v1 where "run_state (Message_Update updated) v = (Inr x, v1)"
      unfolding pe_effects_def by (rule thenE_InrD)
    then have "\<exists>m \<in> set (messages (store v)). has_key ws mid m"
      using Message_Update_Inr u that(2) by fastforce
    ultimately show ?thesis by (simp add: calm_def)
  qed
  show ?thesis
  proof (cases found)
    case (Inl e)
    with F v run key find_row_Inl [of "has_key ws mid" w v] eff [of message] show ?thesis
      by (auto simp: pe_body_def FindByIDForUpdate_def split: if_splits option.splits prod.splits)
  next
    case (Inr m)
    note m = find_row_Inr [OF F [unfolded Inr]]
    with Inr F v run key eff [of m] show ?thesis
      by (auto simp: pe_body_def FindByIDForUpdate_def split: if_splits option.splits prod.splits)
  qed
qed

lemma pe_transaction_cases:
  assumes run: "run_state (pe_transaction P input t message) w = (r, w')"
    and key: "m_WorkspaceID message = ws" "m_ID message = mid"
  shows "store w' = store w \<or>
    (\<exists>current. current \<in> set (messages (store w)) \<and> has_key ws mid current \<and>
       CanTransitionToStatus (m_Status current) t \<and> m_Status current \<noteq> t \<and>
       moves ws mid {t} (store w) (store w'))"
  using WithinTx_atomic [OF run [unfolded pe_transaction_def]] pe_body_cases [OF _ key] by metis

definition keeps_log :: "delivery_world \<Rightarrow> delivery_world \<Rightarrow> bool" where
  "keeps_log w w' \<longleftrightarrow> retries (store w') = retries (store w) \<and> handed w' = handed w"

interpretation keeps_log: world_rel keeps_log
  by unfold_locales (auto simp: keeps_log_def)

lemma calm_keeps_log: "state_io_rel (calm ws mid S) f \<Longrightarrow> state_io_rel keeps_log f"
  unfolding state_io_rel_def calm_def keeps_log_def by blast

lemma keeps_log_pe_transaction: "state_io_rel keeps_log (pe_transaction P input t message)"
  unfolding pe_transaction_def pe_body_def FindByIDForUpdate_def
  by (intro keeps_log.keeps_prog calm_keeps_log [OF calm_pe_effects [where S = UNIV]]
      calm_keeps_log [OF quiet_calm [OF quiet_other_tables(1)]]) simp

lemma resolve_store: "run_state (resolve input) w = (r, w') \<Longrightarrow> store w' = store w"
  by (auto simp: resolve_def FindByID_def FindByProviderMessageID_def run_bindE
      split: if_splits prod.splits sum.splits dest!: find_row_store)

lemma pe_Execute_cases:
  assumes run: "run_state (pe_Execute P input) w = (r, w')"
  shows "retries (store w') = retries (store w) \<and> handed w' = handed w \<and>
    (store w' = store w \<or>
     (\<exists>t current. ClassifyProviderEvent (pe_EventType input) = Some t \<and> current \<in> set (messages (store w)) \<and>
       CanTransitionToStatus (m_Status current) t \<and> m_Status current \<noteq> t \<and>
       moves (m_WorkspaceID current) (m_ID current) {t} (store w) (store w')))"
proof (cases "ClassifyProviderEvent (pe_EventType input)")
  case None
  with run show ?thesis by (auto simp: pe_Execute_def split: if_splits)
next
  case (Some t)
  obtain res v where R: "run_state (resolve input) w = (res, v)" by fastforce
  note v = resolve_store [OF R]
  have "quiet [] [] {} w v" using R quiet_resolve by blast
  then have log: "retries (store v) = retries (store w)" "handed v = handed w"
    by (simp_all add: quiet_def still_def)
  have idle: ?thesis if "w' = w \<or> w' = v" using that v log by auto
  have tx: ?thesis if T: "run_state (pe_transaction P input t message) v = (x, w')" for message x
  proof -
    have "keeps_log v w'" using T keeps_log_pe_transaction by blast
    with log pe_transaction_cases [OF T refl refl] v Some show ?thesis
      by (auto simp: keeps_log_def)
  qed
  from run R Some idle tx show ?thesis
    by (auto simp: pe_Execute_def run_bindE split: if_splits sum.splits option.splits prod.splits)
qed

end
