(* ===== verification/Delivery_Lifecycle.thy ===== *)
theory Delivery_Lifecycle
  imports Delivery_Provider_Event Delivery_Create
begin

text \<open>
  The life of a message over any sequence of batches, provider events and new messages, with any
  faults: claims are disjoint, the number of mails handed over is bounded by the number of retries, and a
  message whose mail was reported as taken is never sent again.
\<close>

section \<open>Claiming\<close>

definition start :: "gotime \<Rightarrow> Message \<Rightarrow> Message" where
  "start now m = m\<lparr>m_Status := ''processing'', m_ProcessingStartedAt := Some now, m_UpdatedAt := now\<rparr>"

lemma start_simps [simp]:
  "m_ID (start now m) = m_ID m" "m_WorkspaceID (start now m) = m_WorkspaceID m"
  "m_Status (start now m) = ''processing''" "m_RecipientSnapshot (start now m) = m_RecipientSnapshot m"
  by (simp_all add: start_def)

definition claimable :: "DueMessageQuery \<Rightarrow> delivery_world \<Rightarrow> Message list" where
  "claimable q w = due_rows q (filter (\<lambda>m. m_ID m \<notin> set (row_locks w)) (messages (store w)))"

definition claim_rows :: "gotime \<Rightarrow> Message list \<Rightarrow> Message list \<Rightarrow> Message list" where
  "claim_rows now claimed rows = map (\<lambda>m. if m_ID m \<in> set (map m_ID claimed) then start now m else m) rows"

lemma claimable_due:
  assumes "m \<in> set (claimable q w)"
  shows "m \<in> set (messages (store w)) \<and> m_WorkspaceID m = dq_WorkspaceID q \<and>
    is_due (dq_MessageType q) (dq_Now q) m \<and> m_ID m \<notin> set (row_locks w)"
  using assms unfolding claimable_def due_rows_def by (auto dest: in_set_takeD)

lemma claimable_length: "length (claimable q w) \<le> nat (dq_Limit q)"
  by (simp add: claimable_def due_rows_def)

lemma claimable_all:
  assumes "length (claimable q w) < nat (dq_Limit q)" and "m \<in> set (messages (store w))"
    and "m_WorkspaceID m = dq_WorkspaceID q" and "is_due (dq_MessageType q) (dq_Now q) m" and "m_ID m \<notin> set (row_locks w)"
  shows "m \<in> set (claimable q w)"
proof -
  let ?l = "filter (\<lambda>m. m_WorkspaceID m = dq_WorkspaceID q \<and> is_due (dq_MessageType q) (dq_Now q) m)
    (filter (\<lambda>m. m_ID m \<notin> set (row_locks w)) (messages (store w)))"
  have "length ?l \<le> nat (dq_Limit q)"
    using assms(1) unfolding claimable_def due_rows_def by simp
  then have "claimable q w = sort_key due_key ?l"
    unfolding claimable_def due_rows_def by simp
  with assms(2-5) show ?thesis by simp
qed

lemma claimable_distinct: "distinct (map m_ID (messages (store w))) \<Longrightarrow> distinct (map m_ID (claimable q w))"
  unfolding claimable_def due_rows_def take_map [symmetric]
  by (rule distinct_take) (simp add: distinct_map inj_on_def)

lemma claim_exec:
  "run_state (ClaimDueMessages q now) w = run_state (exec (\<lambda>d.
     let claimed = due_rows q (filter (\<lambda>m. m_ID m \<notin> set (row_locks w)) (messages d))
     in SqlOk (Inr (map (start now) claimed)) (d\<lparr>messages := claim_rows now claimed (messages d)\<rparr>))) w"
  unfolding ClaimDueMessages_def Let_def claim_rows_def start_def by simp

lemma Claim_cases:
  assumes "run_state (ClaimDueMessages q now) w = (r, w')"
  shows "handed w' = handed w \<and> suppressions w' = suppressions w \<and> row_locks w' = row_locks w \<and>
    (store w' = store w \<and> (\<forall>ms. r \<noteq> Inr ms) \<or>
     store w' = (store w)\<lparr>messages := claim_rows now (claimable q w) (messages (store w))\<rparr> \<and>
       (\<forall>ms. r = Inr ms \<longrightarrow> ms = map (start now) (claimable q w)))"
  using assms unfolding claim_exec
  by (auto simp: exec_def next_outcome_def claimable_def Let_def split: list.splits if_splits)

lemma claim_retries: "run_state (ClaimDueMessages q now) w = (r, w') \<Longrightarrow> retries (store w') = retries (store w)"
  using Claim_cases [of q now w r w'] by auto

section \<open>The invariant\<close>

definition mails :: "string \<Rightarrow> delivery_world \<Rightarrow> handover list" where
  "mails mid w = filter (\<lambda>h. h_MessageID h = mid) (handed w)"

abbreviation tries :: "Message \<Rightarrow> delivery_world \<Rightarrow> int" where
  "tries m w \<equiv> retry_count (m_WorkspaceID m) (m_ID m) (store w)"

text \<open>
  Per row: the retry count is between 0 and the maximum, a queued message has had at most one mail per
  retry, any other at most one more; a queued message has no mail that was reported as taken, and
  for any message a reported mail is the last.
\<close>

definition row_inv :: "delivery_world \<Rightarrow> Message \<Rightarrow> bool" where
  "row_inv w m \<longleftrightarrow>
     0 \<le> tries m w \<and> tries m w \<le> DefaultMaxRetries \<and>
     int (length (mails (m_ID m) w)) \<le> tries m w + (if m_Status m = ''queued'' then 0 else 1) \<and>
     (m_Status m = ''queued'' \<longrightarrow> (\<forall>h \<in> set (mails (m_ID m) w). \<not> h_Reported h)) \<and>
     (\<forall>h \<in> set (butlast (mails (m_ID m) w)). \<not> h_Reported h)"

definition life_inv :: "delivery_world \<Rightarrow> bool" where
  "life_inv w \<longleftrightarrow>
     distinct (map m_ID (messages (store w))) \<and> retries_ok (store w) \<and>
     (\<forall>m \<in> set (messages (store w)). row_inv w m) \<and>
     h_MessageID ` set (handed w) \<subseteq> m_ID ` set (messages (store w)) \<and>
     r_MessageID ` set (retries (store w)) \<subseteq> m_ID ` set (messages (store w))"

text \<open>A message that was claimed and not processed yet: as if it were still queued.\<close>

definition ready :: "delivery_world \<Rightarrow> Message \<Rightarrow> bool" where
  "ready w c \<longleftrightarrow>
     (\<exists>m \<in> set (messages (store w)). has_key (m_WorkspaceID c) (m_ID c) m \<and> m_Status m \<noteq> ''queued'') \<and>
     int (length (mails (m_ID c) w)) \<le> tries c w \<and> (\<forall>h \<in> set (mails (m_ID c) w). \<not> h_Reported h)"

lemma moves_ids: "moves ws mid S d d' \<Longrightarrow> map m_ID (messages d') = map m_ID (messages d)"
  unfolding moves_def by (induction rule: list_all2_induct) auto

lemma moves_row:
  assumes "moves ws mid S d d'" and "m' \<in> set (messages d')"
  shows "m' \<in> set (messages d) \<or>
    (\<exists>m \<in> set (messages d). has_key ws mid m \<and> has_key ws mid m' \<and> m_Status m' \<in> S)"
  using assms unfolding moves_def by (induction rule: list_all2_induct) auto

lemma moves_row':
  assumes "moves ws mid S d d'" and "m \<in> set (messages d)"
  shows "m \<in> set (messages d') \<or>
    (\<exists>m' \<in> set (messages d'). has_key ws mid m \<and> has_key ws mid m' \<and> m_Status m' \<in> S)"
  using assms unfolding moves_def by (induction rule: list_all2_induct) auto

lemma same_retries: "retries (store v) = retries (store w) \<Longrightarrow> retry_count ws mid (store v) = retry_count ws mid (store w)"
  by (simp add: retry_count_def)

lemma row_inv_cong:
  assumes "retries (store v) = retries (store w)" and "handed v = handed w"
  shows "row_inv v m = row_inv w m"
  using same_retries [OF assms(1)] assms(2) by (simp add: row_inv_def mails_def)

text \<open>A row that leaves the queue keeps its invariant.\<close>

lemma row_inv_leave:
  assumes "row_inv w m" and "has_key (m_WorkspaceID m) (m_ID m) m'" and "m_Status m' \<noteq> ''queued''"
  shows "row_inv w m'"
  using assms by (auto simp: row_inv_def split: if_splits)

text \<open>Steps that move rows away from the queue and leave the rest alone keep the invariant.\<close>

lemma life_inv_leave:
  assumes inv: "life_inv w" and mv: "moves ws mid S (store w) (store w')" and S: "''queued'' \<notin> S"
    and log: "retries (store w') = retries (store w)" "handed w' = handed w"
  shows "life_inv w'"
proof -
  have "row_inv w' m'" if "m' \<in> set (messages (store w'))" for m'
  proof -
    have "row_inv w m'"
      using moves_row [OF mv that]
    proof
      assume "m' \<in> set (messages (store w))"
      with inv show ?thesis by (simp add: life_inv_def)
    next
      assume "\<exists>m \<in> set (messages (store w)). has_key ws mid m \<and> has_key ws mid m' \<and> m_Status m' \<in> S"
      then obtain m where "m \<in> set (messages (store w))" "has_key ws mid m" "has_key ws mid m'" "m_Status m' \<in> S" by blast
      moreover from this(1) inv have "row_inv w m" by (simp add: life_inv_def)
      moreover have "m_Status m' \<noteq> ''queued''" using \<open>m_Status m' \<in> S\<close> S by metis
      ultimately show ?thesis using row_inv_leave [of w m m'] by simp
    qed
    with row_inv_cong [OF log] show ?thesis by simp
  qed
  moreover have "m_ID ` set (messages (store w')) = m_ID ` set (messages (store w))"
    using arg_cong [OF moves_ids [OF mv], of set] by simp
  ultimately show ?thesis
    using inv moves_ids [OF mv] log by (simp add: life_inv_def retries_ok_def)
qed

lemma ready_leave:
  assumes "ready w c" and mv: "moves ws mid S (store w) (store w')" and S: "''queued'' \<notin> S"
    and log: "retries (store w') = retries (store w)" "handed w' = handed w"
  shows "ready w' c"
proof -
  from assms(1) obtain m where m: "m \<in> set (messages (store w))" "has_key (m_WorkspaceID c) (m_ID c) m"
    "m_Status m \<noteq> ''queued''" by (auto simp: ready_def)
  with moves_row' [OF mv this(1)] S
  have "\<exists>m \<in> set (messages (store w')). has_key (m_WorkspaceID c) (m_ID c) m \<and> m_Status m \<noteq> ''queued''" by auto
  with assms(1) same_retries [OF log(1)] log(2) show ?thesis by (simp add: ready_def mails_def)
qed

lemma mails_append: "handed w' = handed w @ [h] \<Longrightarrow>
    mails mid w' = mails mid w @ (if h_MessageID h = mid then [h] else [])"
  by (simp add: mails_def)

lemma row_unique:
  assumes "life_inv w" and "m \<in> set (messages (store w))" and "n \<in> set (messages (store w))" and "m_ID m = m_ID n"
  shows "m = n"
  using assms by (auto simp: life_inv_def distinct_map inj_on_def)

text \<open>
  Handing over one mail for a message that was claimed: either the message stays out of the queue, or
  it goes back with its retry count raised and the mail was not reported as taken.
\<close>

lemma mail_step:
  assumes inv: "life_inv w" and rdy: "ready w c"
    and mv: "moves (m_WorkspaceID c) (m_ID c) S (store w) (store w')"
    and hd: "handed w' = handed w @ [h]" "h_MessageID h = m_ID c"
    and ok: "retries_ok (store w')"
      "r_MessageID ` set (retries (store w')) \<subseteq> insert (m_ID c) (r_MessageID ` set (retries (store w)))"
    and cnt: "\<And>ws mid. retry_count ws mid (store w') =
      retry_count ws mid (store w) + (if ws = m_WorkspaceID c \<and> mid = m_ID c then k else 0)"
    and k: "k = 0 \<and> ''queued'' \<notin> S \<or> k = 1 \<and> \<not> h_Reported h \<and> tries c w < DefaultMaxRetries"
  shows "life_inv w'" and "ready w b \<Longrightarrow> m_ID b \<noteq> m_ID c \<Longrightarrow> ready w' b"
proof -
  obtain m where m: "m \<in> set (messages (store w))" "has_key (m_WorkspaceID c) (m_ID c) m" "m_Status m \<noteq> ''queued''"
    and few: "int (length (mails (m_ID c) w)) \<le> tries c w" and un: "\<forall>h \<in> set (mails (m_ID c) w). \<not> h_Reported h"
    using rdy by (auto simp: ready_def)
  have rm: "row_inv w m" using inv m(1) by (simp add: life_inv_def)
  have row: "row_inv w' m'" if m': "m' \<in> set (messages (store w'))" for m'
  proof (cases "m_ID m' = m_ID c")
    case False
    then have "m' \<in> set (messages (store w))" using moves_row [OF mv m'] by auto
    then have "row_inv w m'" using inv by (simp add: life_inv_def)
    with False cnt hd show ?thesis by (simp add: row_inv_def mails_append)
  next
    case True
    have "m' = m \<or> has_key (m_WorkspaceID c) (m_ID c) m' \<and> m_Status m' \<in> S"
      using moves_row [OF mv m'] row_unique [OF inv _ m(1)] m(2) True by auto
    then have "m_WorkspaceID m' = m_WorkspaceID c" and st: "m_Status m' = ''queued'' \<Longrightarrow> k = 1 \<and> \<not> h_Reported h"
      using m k by auto
    with True cnt have "tries m' w' = tries c w + k" by simp
    moreover have "0 \<le> tries c w" "tries c w \<le> DefaultMaxRetries" using rm m(2) by (auto simp: row_inv_def)
    ultimately show ?thesis
      using True few un k st hd by (auto simp: row_inv_def mails_append)
  qed
  have ids: "m_ID ` set (messages (store w')) = m_ID ` set (messages (store w))"
    using arg_cong [OF moves_ids [OF mv], of set] by simp
  have c: "m_ID c \<in> m_ID ` set (messages (store w))" using m(1,2) by (metis imageI)
  have sub: "r_MessageID ` set (retries (store w)) \<subseteq> m_ID ` set (messages (store w))"
    "h_MessageID ` set (handed w) \<subseteq> m_ID ` set (messages (store w))"
    using inv by (simp_all add: life_inv_def)
  have "r_MessageID ` set (retries (store w')) \<subseteq> m_ID ` set (messages (store w'))"
    unfolding ids by (rule subset_trans [OF ok(2)]) (simp add: c sub)
  moreover have "h_MessageID ` set (handed w') \<subseteq> m_ID ` set (messages (store w'))"
    unfolding ids hd(1) using c sub(2) hd(2) by simp
  ultimately have "r_MessageID ` set (retries (store w')) \<subseteq> m_ID ` set (messages (store w'))"
    and "h_MessageID ` set (handed w') \<subseteq> m_ID ` set (messages (store w'))" .
  with inv row ok(1) moves_ids [OF mv] show "life_inv w'"
    by (simp add: life_inv_def)
  show "ready w' b" if "ready w b" "m_ID b \<noteq> m_ID c"
  proof -
    from that(1) obtain n where "n \<in> set (messages (store w))" "has_key (m_WorkspaceID b) (m_ID b) n"
      "m_Status n \<noteq> ''queued''" by (auto simp: ready_def)
    moreover from this that(2) moves_row' [OF mv this(1)] have "n \<in> set (messages (store w'))" by auto
    ultimately show ?thesis using that cnt hd by (auto simp: ready_def mails_append)
  qed
qed

lemma processed_step:
  assumes inv: "life_inv w" and rdy: "ready w c" and proc: "processed c w w'"
  shows "life_inv w'" and "ready w b \<Longrightarrow> m_ID b \<noteq> m_ID c \<Longrightarrow> ready w' b"
proof -
  let ?ws = "m_WorkspaceID c" and ?mid = "m_ID c"
  from proc consider "quiet ?ws ?mid {''failed''} w w'"
    | h S where "handed w' = handed w @ [h]" "h_MessageID h = ?mid" "still ?ws ?mid S w w'" "''queued'' \<notin> S"
    | h where "handed w' = handed w @ [h]" "h_MessageID h = ?mid" "\<not> h_Reported h"
        "requeues ?ws ?mid (w\<lparr>handed := handed w'\<rparr>) w'"
    by (auto simp: processed_def Let_def split: if_splits)
  then have "life_inv w' \<and> (\<forall>b. ready w b \<and> m_ID b \<noteq> m_ID c \<longrightarrow> ready w' b)"
  proof cases
    case 1
    then have q: "moves ?ws ?mid {''failed''} (store w) (store w')" "retries (store w') = retries (store w)"
      "handed w' = handed w" by (auto simp: quiet_def still_def)
    with life_inv_leave [OF inv q(1)] ready_leave [OF _ q(1)] show ?thesis by auto
  next
    case 2
    then have st: "moves ?ws ?mid S (store w) (store w')" "retries (store w') = retries (store w)"
      by (auto simp: still_def)
    have c0: "retry_count ws mid (store w') =
        retry_count ws mid (store w) + (if ws = ?ws \<and> mid = ?mid then 0 else 0)" for ws mid
      using same_retries [OF st(2)] by simp
    have "retries_ok (store w')" using inv st(2) by (simp add: life_inv_def retries_ok_def)
    note step = mail_step [OF inv rdy st(1) 2(1,2) this _ c0]
    show ?thesis using step st(2) 2(4) by auto
  next
    case 3
    have "retries_ok (store w)" using inv by (simp add: life_inv_def)
    with 3(4) have rq: "moves ?ws ?mid {''queued''} (store w) (store w')" "retries_ok (store w')"
      "r_MessageID ` set (retries (store w')) \<subseteq> insert ?mid (r_MessageID ` set (retries (store w)))"
      "tries c w < DefaultMaxRetries"
      and cnt: "\<And>ws mid. retry_count ws mid (store w') =
        retry_count ws mid (store w) + (if ws = ?ws \<and> mid = ?mid then 1 else 0)"
      by (auto simp: requeues_def)
    show ?thesis using mail_step [OF inv rdy rq(1) 3(1,2) rq(2,3) cnt] rq(4) 3(3) by auto
  qed
  then show "life_inv w'" and "ready w b \<Longrightarrow> m_ID b \<noteq> m_ID c \<Longrightarrow> ready w' b" by blast+
qed

section \<open>Batches\<close>

lemma process_all_inv:
  "life_inv w \<Longrightarrow> \<forall>c \<in> set cs. ready w c \<Longrightarrow> distinct (map m_ID cs) \<Longrightarrow>
   life_inv (snd (run_state (process_all P cs now) w))"
proof (induction cs arbitrary: w)
  case (Cons c cs)
  obtain r v where R: "run_state (processMessage P c now) w = (r, v)" by fastforce
  then have "processed c w v" using processed_processMessage by blast
  note step = processed_step [OF Cons.prems(1) _ this]
  from Cons.prems have "life_inv v" by (intro step) simp
  moreover have "ready v b" if "b \<in> set cs" for b
  proof (rule step)
    show "m_ID b \<noteq> m_ID c" using that Cons.prems(3) by simp (metis imageI)
  qed (use that Cons.prems in auto)
  ultimately have "life_inv v" and "\<forall>b \<in> set cs. ready v b" by blast+
  with Cons.IH [of v] Cons.prems R show ?case by (auto split: prod.splits)
qed simp

lemma claim_inv:
  assumes inv: "life_inv w" and run: "run_state (ClaimDueMessages q now) w = (r, w')"
  shows "life_inv w'" and "r = Inr ms \<Longrightarrow> (\<forall>c \<in> set ms. ready w' c) \<and> distinct (map m_ID ms)"
proof -
  let ?c = "claimable q w"
  note cases = Claim_cases [OF run]
  have moved: "life_inv w'" if w': "store w' = (store w)\<lparr>messages := claim_rows now ?c (messages (store w))\<rparr>"
  proof -
    have log: "retries (store w') = retries (store w)" "handed w' = handed w" using w' cases by auto
    have ids: "map m_ID (messages (store w')) = map m_ID (messages (store w))"
      by (simp add: w' claim_rows_def)
    have "row_inv w' m'" if "m' \<in> set (messages (store w'))" for m'
    proof -
      from that obtain m where "m \<in> set (messages (store w))" "m' = m \<or> m' = start now m"
        by (auto simp: w' claim_rows_def split: if_splits)
      moreover from this(1) inv have "row_inv w m" by (simp add: life_inv_def)
      ultimately have "row_inv w m'" using row_inv_leave [of w m "start now m"] by auto
      with row_inv_cong [OF log] show ?thesis by simp
    qed
    with inv log ids show ?thesis
      by (simp add: life_inv_def retries_ok_def flip: set_map)
  qed
  from cases show "life_inv w'"
  proof (elim conjE disjE)
    assume "store w' = store w" "handed w' = handed w"
    with inv show ?thesis by (simp add: life_inv_def row_inv_def mails_def)
  qed (rule moved)
  assume "r = Inr ms"
  with cases have ms: "ms = map (start now) ?c"
    and w': "store w' = (store w)\<lparr>messages := claim_rows now ?c (messages (store w))\<rparr>" and hd: "handed w' = handed w"
    by auto
  have "ready w' (start now m)" if m: "m \<in> set ?c" for m
  proof -
    have row: "m \<in> set (messages (store w))" "m_Status m = ''queued''"
      using claimable_due [OF m] by (auto simp: is_due_def)
    then have "start now m \<in> set (messages (store w'))"
      using m by (force simp: w' claim_rows_def image_iff)
    moreover have "row_inv w m" using inv row(1) by (simp add: life_inv_def)
    moreover have "mails i w' = mails i w" and "retry_count ws i (store w') = retry_count ws i (store w)" for ws i
      using hd w' by (simp_all add: mails_def retry_count_def)
    ultimately show ?thesis
      using row(2) unfolding ready_def row_inv_def by (intro conjI bexI [of _ "start now m"]) simp_all
  qed
  moreover have "distinct (map m_ID ms)"
    using claimable_distinct [of w q] inv by (simp add: ms life_inv_def comp_def)
  ultimately show "(\<forall>c \<in> set ms. ready w' c) \<and> distinct (map m_ID ms)" by (auto simp: ms)
qed

lemma batch_inv:
  assumes "life_inv w"
  shows "life_inv (snd (run_state (ProcessDueMessages P input) w))"
proof -
  let ?q = "\<lparr>dq_Now = pi_Now input, dq_Limit = clamp_limit (pi_Limit input),
             dq_MessageType = pi_MessageType input, dq_WorkspaceID = pi_WorkspaceID input\<rparr>"
  obtain r v where R: "run_state (ClaimDueMessages ?q (pi_Now input)) w = (r, v)" by fastforce
  note c = claim_inv [OF assms R]
  have "life_inv (snd (run_state (process_all P ms (pi_Now input)) v))" if "r = Inr ms" for ms
    using c(2) [OF that] by (intro process_all_inv [OF c(1)]) auto
  with R c(1) assms show ?thesis
    by (auto simp: ProcessDueMessages_def run_bindE split: prod.splits sum.splits)
qed

lemma workspaces_inv: "life_inv w \<Longrightarrow> life_inv (snd (run_state (process_workspaces P wss t l now) w))"
proof (induction wss arbitrary: w)
  case (Cons ws wss)
  let ?in = "\<lparr>pi_WorkspaceID = ws, pi_MessageType = t, pi_Limit = l, pi_Now = now\<rparr>"
  from batch_inv [OF Cons.prems, of P ?in] Cons.IH show ?case by (simp add: case_prod_beta)
qed simp

lemma life_inv_cong:
  assumes "messages (store v) = messages (store w)" and "retries (store v) = retries (store w)" and "handed v = handed w"
  shows "life_inv v = life_inv w"
  using assms row_inv_cong [of v w] by (simp add: life_inv_def retries_ok_def)

lemma all_workspaces_inv:
  assumes "life_inv w"
  shows "life_inv (snd (run_state (ProcessDueMessagesAllWorkspaces P t l now) w))"
proof -
  obtain r v where R: "run_state (ListDistinctWorkspacesWithDue t now) w = (r, v)" by fastforce
  then have "store v = store w" "handed v = handed w"
    by (auto simp: ListDistinctWorkspacesWithDue_def exec_def next_outcome_def split: list.splits if_splits)
  with life_inv_cong [of v w] assms have "life_inv v" by simp
  with R assms show ?thesis
    by (auto simp: ProcessDueMessagesAllWorkspaces_def run_bindE case_prod_beta workspaces_inv split: sum.splits)
qed

section \<open>Provider events and new messages\<close>

lemma event_inv:
  assumes "life_inv w"
  shows "life_inv (snd (run_state (pe_Execute P input) w))"
proof -
  obtain r w' where R: "run_state (pe_Execute P input) w = (r, w')" by fastforce
  note c = pe_Execute_cases [OF R]
  then have "life_inv w'"
  proof (elim conjE disjE exE)
    assume "store w' = store w" "handed w' = handed w"
    with assms life_inv_cong [of w' w] show ?thesis by simp
  next
    fix t current
    assume "ClassifyProviderEvent (pe_EventType input) = Some t"
      and mv: "moves (m_WorkspaceID current) (m_ID current) {t} (store w) (store w')"
      and log: "retries (store w') = retries (store w)" "handed w' = handed w"
    then have "''queued'' \<notin> {t}" by (auto dest: ClassifyProviderEvent_not_queued)
    with life_inv_leave [OF assms mv _ log] show ?thesis by blast
  qed
  with R show ?thesis by simp
qed

lemma insert_inv:
  assumes inv: "life_inv w" and ins: "insert_rows (messages (store w)) ms = (t, ids)"
    and w': "messages (store w') = t" "retries (store w') = retries (store w)" "handed w' = handed w"
  shows "life_inv w'"
proof -
  from insert_rows_append [OF ins] obtain new where t: "t = messages (store w) @ new" by blast
  have dist: "distinct (map m_ID t)"
    using insert_rows_distinct [OF ins] inv by (simp add: life_inv_def)
  have "row_inv w' m" if "m \<in> set (messages (store w'))" for m
  proof (cases "m \<in> set (messages (store w))")
    case True
    with inv row_inv_cong [OF w'(2,3)] show ?thesis by (simp add: life_inv_def)
  next
    case False
    with that w'(1) t dist have fresh: "m_ID m \<notin> m_ID ` set (messages (store w))" by auto
    then have "m_ID m \<notin> h_MessageID ` set (handed w')" and noretry: "m_ID m \<notin> r_MessageID ` set (retries (store w'))"
      using inv w'(2,3) by (auto simp: life_inv_def simp del: image_iff)
    then have "mails (m_ID m) w' = []" by (simp add: mails_def filter_empty_conv) (metis imageI)
    moreover have "find (retry_of (m_WorkspaceID m) (m_ID m)) (retries (store w')) = None"
      using noretry by (simp add: find_None_iff) (metis imageI)
    ultimately show ?thesis by (simp add: row_inv_def retry_count_def DefaultMaxRetries_def)
  qed
  moreover have sub: "m_ID ` set (messages (store w)) \<subseteq> m_ID ` set (messages (store w'))"
    using w'(1) t by (simp add: image_Un)
  moreover have "h_MessageID ` set (handed w') \<subseteq> m_ID ` set (messages (store w'))"
    and "r_MessageID ` set (retries (store w')) \<subseteq> m_ID ` set (messages (store w'))"
    using inv w'(2,3) by (simp_all add: life_inv_def subset_trans [OF _ sub])
  ultimately show ?thesis
    using inv dist w' by (simp add: life_inv_def retries_ok_def)
qed

lemma create_inv:
  assumes "life_inv w"
  shows "life_inv (snd (run_state (CreateMany cols msgs) w))"
proof -
  obtain r w' where R: "run_state (CreateMany cols msgs) w = (r, w')" by fastforce
  obtain t ids where ins: "insert_rows (messages (store w))
      (map (inserted cols) msgs) = (t, ids)" by fastforce
  from R ins have "handed w' = handed w \<and> (store w' = store w \<or> store w' = (store w)\<lparr>messages := t\<rparr>)"
    by (auto simp: CreateMany_def exec_def next_outcome_def split: list.splits if_splits)
  with assms insert_inv [OF assms ins, of w'] life_inv_cong [of w' w] R show ?thesis by auto
qed

section \<open>The system\<close>

inductive life_step :: "delivery_world \<Rightarrow> delivery_world \<Rightarrow> bool" where
  life_batch: "w' = snd (run_state (ProcessDueMessages P input) (w\<lparr>outcomes := xs\<rparr>)) \<Longrightarrow> life_step w w'"
| life_all: "w' = snd (run_state (ProcessDueMessagesAllWorkspaces P t l now) (w\<lparr>outcomes := xs\<rparr>)) \<Longrightarrow> life_step w w'"
| life_event: "w' = snd (run_state (pe_Execute P ev) (w\<lparr>outcomes := xs\<rparr>)) \<Longrightarrow> life_step w w'"
| life_create: "w' = snd (run_state (CreateMany cols msgs) (w\<lparr>outcomes := xs\<rparr>)) \<Longrightarrow> life_step w w'"
| life_other: "w' = w\<lparr>suppressions := sups, locks := ls, idem := ie, row_locks := rls, objects := os, quota := qs\<rparr> \<Longrightarrow> life_step w w'"

definition life_init :: "delivery_world \<Rightarrow> bool" where
  "life_init w \<longleftrightarrow> messages (store w) = [] \<and> retries (store w) = [] \<and> handed w = []"

lemma life_inv_outcomes: "life_inv w \<Longrightarrow> life_inv (w\<lparr>outcomes := xs\<rparr>)"
  using life_inv_cong [of "w\<lparr>outcomes := xs\<rparr>" w] by simp

interpretation life: invariant_system life_init life_step life_inv
proof
  fix w assume "life_init w"
  then show "life_inv w" by (simp add: life_init_def life_inv_def retries_ok_def)
next
  fix w w' assume inv: "life_inv w" and "life_step w w'"
  from this(2) show "life_inv w'"
  proof cases
    case (life_other sups ls ie rls os qs)
    with inv life_inv_cong [of w' w] show ?thesis by simp
  qed (simp_all add: batch_inv all_workspaces_inv event_inv create_inv life_inv_outcomes inv)
qed

section \<open>Claims\<close>

text \<open>
  What happens after a claim, statement by statement: other claims, single messages that are processed, provider events, new messages, and
  changes outside of the tables, each with any faults. Several workers are an interleaving of these steps.
\<close>

inductive work_step :: "delivery_world \<Rightarrow> delivery_world \<Rightarrow> bool" where
  work_claim: "w' = snd (run_state (ClaimDueMessages q now) (w\<lparr>outcomes := xs\<rparr>)) \<Longrightarrow> work_step w w'"
| work_message: "w' = snd (run_state (processMessage P msg now) (w\<lparr>outcomes := xs\<rparr>)) \<Longrightarrow> work_step w w'"
| work_event: "w' = snd (run_state (pe_Execute P ev) (w\<lparr>outcomes := xs\<rparr>)) \<Longrightarrow> work_step w w'"
| work_create: "w' = snd (run_state (CreateMany cols msgs) (w\<lparr>outcomes := xs\<rparr>)) \<Longrightarrow> work_step w w'"
| work_other: "w' = w\<lparr>suppressions := sups, locks := ls, idem := ie, row_locks := rls, objects := os, quota := qs\<rparr> \<Longrightarrow> work_step w w'"

text \<open>A message that was claimed when it had \<open>n\<close> retries: it is out of the queue unless a retry has been scheduled since.\<close>

definition held :: "string \<Rightarrow> string \<Rightarrow> int \<Rightarrow> delivery_world \<Rightarrow> bool" where
  "held ws mid n w \<longleftrightarrow> distinct (map m_ID (messages (store w))) \<and> retries_ok (store w) \<and> n \<le> retry_count ws mid (store w) \<and>
     (\<exists>m \<in> set (messages (store w)). has_key ws mid m \<and> (m_Status m \<noteq> ''queued'' \<or> n < retry_count ws mid (store w)))"

lemma held_same:
  assumes "held ws mid n w" "messages (store w') = messages (store w)" "retries (store w') = retries (store w)"
  shows "held ws mid n w'"
  using assms same_retries [OF assms(3)] by (auto simp: held_def retries_ok_def)

lemma held_leave:
  assumes h: "held ws mid n w" and mv: "moves ws' mid' S (store w) (store w')" and S: "''queued'' \<notin> S"
    and log: "retries (store w') = retries (store w)"
  shows "held ws mid n w'"
proof -
  from h obtain m where m: "m \<in> set (messages (store w))" "has_key ws mid m"
    "m_Status m \<noteq> ''queued'' \<or> n < retry_count ws mid (store w)" by (auto simp: held_def)
  from moves_row' [OF mv m(1)] m S
  have "\<exists>m \<in> set (messages (store w')). has_key ws mid m \<and> (m_Status m \<noteq> ''queued'' \<or> n < retry_count ws mid (store w))" by auto
  with h moves_ids [OF mv] log same_retries [OF log] show ?thesis by (simp add: held_def retries_ok_def)
qed

lemma held_requeue:
  assumes h: "held ws mid n w" and rq: "requeues ws' mid' w w'"
  shows "held ws mid n w'"
proof -
  from h have ok: "retries_ok (store w)" "n \<le> retry_count ws mid (store w)" by (auto simp: held_def)
  with rq have mv: "moves ws' mid' {''queued''} (store w) (store w')" and ok': "retries_ok (store w')"
    and cnt: "retry_count ws mid (store w') = retry_count ws mid (store w) + (if ws = ws' \<and> mid = mid' then 1 else 0)"
    by (auto simp: requeues_def)
  from h obtain m where m: "m \<in> set (messages (store w))" "has_key ws mid m"
    "m_Status m \<noteq> ''queued'' \<or> n < retry_count ws mid (store w)" by (auto simp: held_def)
  from moves_row' [OF mv m(1)] m ok(2) cnt
  have "\<exists>m \<in> set (messages (store w')). has_key ws mid m \<and> (m_Status m \<noteq> ''queued'' \<or> n < retry_count ws mid (store w'))"
    by auto
  moreover have "n \<le> retry_count ws mid (store w')" unfolding cnt using ok(2) by auto
  ultimately show ?thesis using h ok' moves_ids [OF mv] by (simp add: held_def)
qed

lemma held_processed:
  assumes "held ws mid n w" "processed c w w'"
  shows "held ws mid n w'"
proof -
  have "held ws mid n (w\<lparr>handed := hs\<rparr>)" for hs by (rule held_same [OF assms(1)]) simp_all
  then show ?thesis
    using assms held_leave [OF assms(1)] held_requeue
    by (fastforce simp: processed_def quiet_def still_def Let_def split: if_splits)
qed

lemma held_claim:
  assumes h: "held ws mid n w" and run: "run_state (ClaimDueMessages q now) w = (r, w')"
  shows "held ws mid n w'"
proof (cases "store w' = store w")
  case True
  then show ?thesis by (intro held_same [OF h]) simp_all
next
  case False
  with Claim_cases [OF run] have w': "store w' = (store w)\<lparr>messages := claim_rows now (claimable q w) (messages (store w))\<rparr>" by blast
  then have rc: "retry_count ws mid (store w') = retry_count ws mid (store w)" by (simp add: retry_count_def)
  from h obtain m where m: "m \<in> set (messages (store w))" "has_key ws mid m"
    "m_Status m \<noteq> ''queued'' \<or> n < retry_count ws mid (store w)" by (auto simp: held_def)
  let ?m = "if m_ID m \<in> set (map m_ID (claimable q w)) then start now m else m"
  have "?m \<in> set (messages (store w'))" using m(1) by (simp add: w' claim_rows_def)
  moreover have "has_key ws mid ?m \<and> (m_Status ?m \<noteq> ''queued'' \<or> n < retry_count ws mid (store w'))" using m rc by simp
  moreover have "map m_ID (messages (store w')) = map m_ID (messages (store w))" by (simp add: w' claim_rows_def)
  ultimately show ?thesis using h rc by (auto simp: held_def retries_ok_def w')
qed

lemma held_event:
  assumes "held ws mid n w" "run_state (pe_Execute P input) w = (r, w')"
  shows "held ws mid n w'"
  using pe_Execute_cases [OF assms(2)]
proof (elim conjE disjE exE)
  assume "store w' = store w"
  then show ?thesis by (intro held_same [OF assms(1)]) simp_all
next
  fix t current
  assume "ClassifyProviderEvent (pe_EventType input) = Some t"
    and mv: "moves (m_WorkspaceID current) (m_ID current) {t} (store w) (store w')"
    and log: "retries (store w') = retries (store w)"
  then have "''queued'' \<notin> {t}" by (auto dest: ClassifyProviderEvent_not_queued)
  from held_leave [OF assms(1) mv this log] show ?thesis .
qed

lemma held_create:
  assumes h: "held ws mid n w" and run: "run_state (CreateMany cols msgs) w = (r, w')"
  shows "held ws mid n w'"
proof -
  obtain t ids where ins: "insert_rows (messages (store w))
      (map (inserted cols) msgs) = (t, ids)" by fastforce
  from run ins have "store w' = store w \<or> store w' = (store w)\<lparr>messages := t\<rparr>"
    by (auto simp: CreateMany_def exec_def next_outcome_def split: list.splits if_splits)
  then show ?thesis
  proof
    assume "store w' = store w"
    then show ?thesis by (intro held_same [OF h]) simp_all
  next
    assume w': "store w' = (store w)\<lparr>messages := t\<rparr>"
    then have "retry_count ws mid (store w') = retry_count ws mid (store w)" by (simp add: retry_count_def)
    with h insert_rows_append [OF ins] insert_rows_distinct [OF ins] w' show ?thesis by (auto simp: held_def retries_ok_def)
  qed
qed

lemma held_step:
  assumes "work_step w w'" and h: "held ws mid n w"
  shows "held ws mid n w'"
  using assms(1)
proof cases
  case (work_claim q now xs)
  show ?thesis unfolding work_claim by (rule held_claim [OF _ prod.collapse [symmetric]]) (rule held_same [OF h], simp_all)
next
  case (work_message P msg now xs)
  have "processed msg (w\<lparr>outcomes := xs\<rparr>) w'"
    unfolding work_message by (rule state_io_relD [OF processed_processMessage prod.collapse [symmetric]])
  then show ?thesis by (rule held_processed [rotated]) (rule held_same [OF h], simp_all)
next
  case (work_event P ev xs)
  show ?thesis unfolding work_event by (rule held_event [OF _ prod.collapse [symmetric]]) (rule held_same [OF h], simp_all)
next
  case (work_create cols msgs xs)
  show ?thesis unfolding work_create by (rule held_create [OF _ prod.collapse [symmetric]]) (rule held_same [OF h], simp_all)
next
  case work_other
  then show ?thesis by (intro held_same [OF h]) simp_all
qed

lemma held_steps: "work_step\<^sup>*\<^sup>* w w' \<Longrightarrow> held ws mid n w \<Longrightarrow> held ws mid n w'"
  by (induction rule: rtranclp_induct) (auto intro: held_step)

lemma held_not_claimed:
  assumes h: "held ws mid n w" "retry_count ws mid (store w) = n" and run: "run_state (ClaimDueMessages q now) w = (Inr ms, w')"
  shows "mid \<notin> set (map m_ID ms)"
proof
  assume "mid \<in> set (map m_ID ms)"
  with Claim_cases [OF run] obtain k where k: "k \<in> set (claimable q w)" "m_ID k = mid" by auto
  with claimable_due [OF k(1)] have k': "k \<in> set (messages (store w))" "m_Status k = ''queued''" by (auto simp: is_due_def)
  from h obtain m where m: "m \<in> set (messages (store w))" "m_ID m = mid" "m_Status m \<noteq> ''queued''" by (auto simp: held_def)
  with k k' h(1) have "m = k" by (auto simp: held_def distinct_map inj_on_def)
  with m(3) k'(2) show False by simp
qed

section \<open>Properties\<close>

text \<open>
  Claim C2. A claim takes at most as many messages as asked for, only messages of the workspace and type
  that are due and that no other session has locked, earliest first; afterwards exactly these rows are
  in processing, every other row is as it was, and when there is room left no due message was passed
  over. After any number of further steps (claims of any worker, messages being processed, provider events, new messages,
  with any faults) no claim returns one of them again, unless a retry of that message has been scheduled in between: as long as its retry
  count is what it was.
\<close>

theorem claims_due_disjoint:
  assumes run: "run_state (ClaimDueMessages q now) w = (Inr ms, w')"
    and table: "distinct (map m_ID (messages (store w)))" "retries_ok (store w)"
  shows "length ms \<le> nat (dq_Limit q) \<and>
    (\<forall>c \<in> set ms. c \<in> set (messages (store w')) \<and> m_Status c = ''processing'' \<and>
       (\<exists>m \<in> set (messages (store w)). c = start now m \<and> m_WorkspaceID m = dq_WorkspaceID q \<and>
          is_due (dq_MessageType q) (dq_Now q) m \<and> m_ID m \<notin> set (row_locks w))) \<and>
    (\<forall>m \<in> set (messages (store w)). m_ID m \<notin> set (map m_ID ms) \<longrightarrow> m \<in> set (messages (store w'))) \<and>
    (length ms < nat (dq_Limit q) \<longrightarrow>
       (\<forall>m \<in> set (messages (store w')). m_WorkspaceID m = dq_WorkspaceID q \<and> m_ID m \<notin> set (row_locks w) \<longrightarrow>
          \<not> is_due (dq_MessageType q) (dq_Now q) m)) \<and>
    (\<forall>c \<in> set ms. \<forall>w2 q2 now2 ms2 w3. work_step\<^sup>*\<^sup>* w' w2 \<longrightarrow>
       retry_count (m_WorkspaceID c) (m_ID c) (store w2) = retry_count (m_WorkspaceID c) (m_ID c) (store w') \<longrightarrow>
       run_state (ClaimDueMessages q2 now2) w2 = (Inr ms2, w3) \<longrightarrow> m_ID c \<notin> set (map m_ID ms2))"
proof -
  let ?c = "claimable q w"
  from Claim_cases [OF run] have ms: "ms = map (start now) ?c"
    and w': "store w' = (store w)\<lparr>messages := claim_rows now ?c (messages (store w))\<rparr>"
    by auto
  have c: "m \<in> set ?c \<Longrightarrow> start now m \<in> set (messages (store w'))" for m
    using claimable_due [of m q w] unfolding w' claim_rows_def by (force simp: image_iff)
  have taken: "\<not> is_due t u n" if "n \<in> set (messages (store w'))" "m_ID n \<in> set (map m_ID ?c)" for n t u
    using that unfolding w' claim_rows_def is_due_def by (auto split: if_splits)
  have "\<not> is_due (dq_MessageType q) (dq_Now q) n"
    if room: "length ms < nat (dq_Limit q)" and n: "n \<in> set (messages (store w'))"
      and ws: "m_WorkspaceID n = dq_WorkspaceID q" "m_ID n \<notin> set (row_locks w)" for n
  proof (cases "m_ID n \<in> set (map m_ID ?c)")
    case False
    with n have "n \<in> set (messages (store w))" unfolding w' claim_rows_def by (auto split: if_splits)
    with False claimable_all [of q w n] room ws ms show ?thesis by auto
  qed (rule taken [OF n])
  moreover have held: "held (m_WorkspaceID d) (m_ID d) (retry_count (m_WorkspaceID d) (m_ID d) (store w')) w'" if "d \<in> set ms" for d
    using that c table unfolding ms
    by (auto simp: held_def w' claim_rows_def retries_ok_def comp_def if_distrib cong: if_cong)
  moreover have "m \<in> set (messages (store w'))"
    if "m \<in> set (messages (store w))" "m_ID m \<notin> set (map m_ID ms)" for m
    using that ms unfolding w' claim_rows_def by (force simp: image_iff)
  moreover have "c' \<in> set (messages (store w')) \<and> m_Status c' = ''processing'' \<and>
       (\<exists>m \<in> set (messages (store w)). c' = start now m \<and> m_WorkspaceID m = dq_WorkspaceID q \<and>
          is_due (dq_MessageType q) (dq_Now q) m \<and> m_ID m \<notin> set (row_locks w))" if "c' \<in> set ms" for c'
    using that c claimable_due [of _ q w] unfolding ms by auto
  moreover have "m_ID d \<notin> set (map m_ID ms2)"
    if "d \<in> set ms" "work_step\<^sup>*\<^sup>* w' w2" "run_state (ClaimDueMessages q2 now2) w2 = (Inr ms2, w3)"
      "retry_count (m_WorkspaceID d) (m_ID d) (store w2) = retry_count (m_WorkspaceID d) (m_ID d) (store w')" for d w2 q2 now2 ms2 w3
    using held_not_claimed [OF held_steps [OF that(2) held [OF that(1)]] that(4,3)] .
  ultimately show ?thesis using claimable_length [of q w] unfolding ms length_map by blast
qed

theorem claims_due_disjoint_witness:
  "\<exists>w' w2. run_state (ClaimDueMessages \<lparr>dq_Now = 5, dq_Limit = 10, dq_MessageType = ''transactional'', dq_WorkspaceID = ''w1''\<rparr> 5)
      (plain_world (empty_db\<lparr>messages := [sample_message ''m1'']\<rparr>)) = (Inr [start 5 (sample_message ''m1'')], w') \<and>
     work_step w' w2 \<and>
     (\<forall>q2 now2 ms2 w3. run_state (ClaimDueMessages q2 now2) w2 = (Inr ms2, w3) \<longrightarrow> ''m1'' \<notin> set (map m_ID ms2))"
proof -
  let ?q = "\<lparr>dq_Now = 5, dq_Limit = 10, dq_MessageType = ''transactional'', dq_WorkspaceID = ''w1''\<rparr>"
  let ?w = "plain_world (empty_db\<lparr>messages := [sample_message ''m1'']\<rparr>)"
  obtain r w' where run: "run_state (ClaimDueMessages ?q 5) ?w = (r, w')" by fastforce
  then have r: "r = Inr [start 5 (sample_message ''m1'')]"
    by (auto simp: ClaimDueMessages_def due_rows_def is_due_def zero_Message_def start_def)
  let ?w2 = "snd (run_state (ClaimDueMessages ?q 6) (w'\<lparr>outcomes := []\<rparr>))"
  have step: "work_step w' ?w2" by (rule work_claim [where xs = "[]"]) simp
  have "retries (store ?w2) = retries (store (w'\<lparr>outcomes := []\<rparr>))" by (rule claim_retries [OF prod.collapse [symmetric]])
  then have "retries (store ?w2) = retries (store w')" by simp
  then have "retry_count ''w1'' ''m1'' (store ?w2) = retry_count ''w1'' ''m1'' (store w')" by (rule same_retries)
  moreover have "''m1'' \<notin> set (map m_ID ms2)" if "work_step\<^sup>*\<^sup>* w' w2" "run_state (ClaimDueMessages q2 now2) w2 = (Inr ms2, w3)"
      "retry_count ''w1'' ''m1'' (store w2) = retry_count ''w1'' ''m1'' (store w')" for w2 q2 now2 ms2 w3
    using claims_due_disjoint [OF run [unfolded r]] that by (simp add: retries_ok_def) blast
  ultimately have "\<forall>q2 now2 ms2 w3. run_state (ClaimDueMessages q2 now2) ?w2 = (Inr ms2, w3) \<longrightarrow> ''m1'' \<notin> set (map m_ID ms2)"
    using step by blast
  with run r step show ?thesis by blast
qed

text \<open>
  Claim C1. Over the whole life of a message, through any sequence of batches, provider events and new
  messages and with any faults in between, at most six mails are handed over for it (the first try and
  five retries), and once the mail adapter has reported a mail as taken no further mail is handed
  over for the message: the reported one is the last, and the message is not in the queue.
\<close>

theorem at_most_six_and_never_twice:
  assumes "reach life_init life_step w" and "m \<in> set (messages (store w))"
  shows "length (mails (m_ID m) w) \<le> 6 \<and>
    (\<forall>h \<in> set (butlast (mails (m_ID m) w)). \<not> h_Reported h) \<and>
    ((\<exists>h \<in> set (mails (m_ID m) w). h_Reported h) \<longrightarrow> m_Status m \<noteq> ''queued'')"
proof -
  have "row_inv w m" using life.reach_inv [OF assms(1)] assms(2) by (simp add: life_inv_def)
  then show ?thesis by (auto simp: row_inv_def DefaultMaxRetries_def split: if_splits)
qed

theorem at_most_six_and_never_twice_witness:
  "\<exists>w. reach life_init life_step w \<and> sample_message ''m1'' \<in> set (messages (store w)) \<and>
     length (mails ''m1'' w) \<le> 6"
proof -
  have fit: "list_all2 fits sample_columns (insert_args (sample_message ''m1''))"
    by (rule aligned_fits) simp
  have run: "run_state (CreateMany sample_columns [sample_message ''m1'']) (plain_world empty_db\<lparr>outcomes := []\<rparr>) =
      (Inr [''m1''], plain_world (empty_db\<lparr>messages := [sample_message ''m1'']\<rparr>))"
    using fit by (simp add: CreateMany_def)
  let ?w = "plain_world (empty_db\<lparr>messages := [sample_message ''m1'']\<rparr>)"
  have "life_step (plain_world empty_db) ?w"
    by (rule life_create [where cols = sample_columns and msgs = "[sample_message ''m1'']" and xs = "[]"])
      (use run in simp)
  then have "reach life_init life_step ?w"
    by (rule reach_step [rotated]) (rule reach_init, simp add: life_init_def)
  with at_most_six_and_never_twice [of ?w "sample_message ''m1''"] show ?thesis
    by (intro exI [of _ ?w]) simp
qed

text \<open>
  Processing one claimed message, whatever goes wrong, changes no other message, hands over at
  most one mail, to the recipient of this message, and leaves the message unchanged, failed,
  accepted, in the dead letter queue, or, if its mail was not reported as taken, queued again.
\<close>

lemma process_message_safe:
  assumes "run_state (processMessage P msg now) w = (r, w')"
  defines "ws \<equiv> m_WorkspaceID msg" and "mid \<equiv> m_ID msg"
  shows "\<exists>hs. handed w' = handed w @ hs \<and> length hs \<le> 1 \<and>
    (\<forall>h \<in> set hs. h_MessageID h = mid \<and> h_To h = [rs_Email (m_RecipientSnapshot msg)]) \<and>
    list_all2 (\<lambda>m m'. m' = m \<or> has_key ws mid m \<and> has_key ws mid m' \<and>
        (m_Status m' \<in> {''failed'', ''accepted'', ''dlq''} \<or>
         m_Status m' = ''queued'' \<and> (\<forall>h \<in> set hs. \<not> h_Reported h)))
      (messages (store w)) (messages (store w'))"
proof -
  have "processed msg w w'" using assms(1) processed_processMessage by blast
  then consider "quiet ws mid {''failed''} w w'"
    | h where "handed w' = handed w @ [h]" "h_MessageID h = mid" "h_To h = [rs_Email (m_RecipientSnapshot msg)]"
      "still ws mid {''accepted'', ''dlq'', ''failed''} w w'"
    | h where "handed w' = handed w @ [h]" "h_MessageID h = mid" "h_To h = [rs_Email (m_RecipientSnapshot msg)]"
      "\<not> h_Reported h" "requeues ws mid (w\<lparr>handed := handed w'\<rparr>) w'"
    unfolding processed_def Let_def ws_def mid_def
    by (auto split: if_splits intro: still_mono)
  then show ?thesis
  proof cases
    case 1
    then show ?thesis
      by (intro exI [of _ "[]"]) (auto simp: quiet_def still_def moves_def elim!: list_all2_mono)
  next
    case 2
    then show ?thesis
      by (intro exI [of _ "[h]"]) (auto simp: still_def moves_def elim!: list_all2_mono)
  next
    case 3
    then show ?thesis
      by (intro exI [of _ "[h]"]) (auto simp: requeues_def moves_def elim!: list_all2_mono)
  qed
qed

abbreviation sample_ports :: ports where
  "sample_ports \<equiv> \<lparr>p_gen = (\<lambda>n. ''id'' @ replicate n (CHR ''x'')), p_token = (\<lambda>n. ''token'' @ replicate n (CHR ''x'')),
     p_ready = (\<lambda>ws d. Inr True),
     p_render = (\<lambda>ws t v d. Inr \<lparr>rm_Subject = [], rm_HTMLBody = [], rm_TextBody = []\<rparr>),
     p_sender = (\<lambda>n m. None), p_providerName = ''smtp'', p_clock = 7, p_rand = (\<lambda>n. 0), p_rfc3339 = (\<lambda>t. ''t''),
     p_errtext = (\<lambda>e. ''error''), p_hasCache = True, p_hasEventRepo = True, p_hasAttachmentRepo = False,
     p_hasObjectStorage = False, p_hasSuppressor = True\<rparr>"

end
