(* ===== verification/Delivery_Outcomes.thy ===== *)
theory Delivery_Outcomes
  imports Delivery_Lifecycle
begin

text \<open>
  What the worker and the consumer of provider events achieve: which checks stand between a message and
  its mail, the run without faults, the delays between retries, the transitions provider events
  make, and how a bounce keeps later mail away.
\<close>

section \<open>The checks before a mail\<close>

definition suppressed :: "string \<Rightarrow> string \<Rightarrow> delivery_world \<Rightarrow> bool" where
  "suppressed ws email w \<longleftrightarrow>
     (\<exists>e \<in> set (suppressions w). s_WorkspaceID e = ws \<and> s_EmailNormalized e = email \<and>
        s_Status e = ''active'' \<and> s_Scope e \<in> {''workspace'', ''global''})"

lemma failMessage_hands_nothing:
  assumes "run_state (failMessage P msg now c t \<bind> (\<lambda>_. ret st)) v = (x, w')"
  shows "handed w' = handed v"
proof -
  have "state_io_rel (quiet (m_WorkspaceID msg) (m_ID msg) {''failed''}) (failMessage P msg now c t \<bind> (\<lambda>_. ret st))"
    by (intro quiet.keeps_bind quiet_failMessage quiet.keeps_return) simp
  with assms show ?thesis by (auto simp: quiet_def dest: state_io_relD)
qed

lemma remote_answer: "run_state (remote answer) w = (Inr a, w') \<Longrightarrow> answer = Inr a"
  by (auto simp: remote_def split: if_splits prod.splits)

text \<open>Before the mail a step changes neither the mails handed over nor the suppression list.\<close>

lemma step_through:
  assumes run: "run_state (State_Monad.bind f g) w = (st, w')"
    and quiet: "state_io_rel (quiet ws mid {}) f"
  obtains a v where "run_state f w = (a, v)" and "run_state (g a) v = (st, w')"
    and "handed v = handed w" and "suppressions v = suppressions w"
proof -
  obtain a v where F: "run_state f w = (a, v)" by fastforce
  with quiet have "quiet ws mid {} w v" by blast
  moreover from run F have "run_state (g a) v = (st, w')" by simp
  ultimately show thesis using F that by (auto dest: quiet_noneD)
qed

lemma process_content_mail:
  assumes run: "run_state (process_content P msg now) w = (st, w')" and mail: "handed w' \<noteq> handed w"
    and tpl: "m_TemplateID msg \<noteq> []"
  shows "\<exists>c. p_render P (m_WorkspaceID msg) (m_TemplateID msg) (m_TemplateVersionID msg)
    (buildRenderData (m_RecipientSnapshot msg)) = Inr c"
  by (rule step_through [OF run [unfolded process_content_def if_P [OF tpl]] quiet_remote])
    (use mail in \<open>auto simp del: run_state_bind split: sum.splits dest: failMessage_hands_nothing remote_answer\<close>)

lemma process_recipient_mail:
  assumes run: "run_state (process_recipient P msg now) w = (st, w')" and mail: "handed w' \<noteq> handed w"
  shows "\<exists>d u. run_state (CheckHandler (m_WorkspaceID msg) (m_RecipientEmailNormalized msg) ''workspace'') w = (Inr d, u) \<and>
    \<not> cr_Suppressed d \<and> handed u = handed w \<and> run_state (process_content P msg now) u = (st, w')"
  by (rule step_through [OF run [unfolded process_recipient_def] quiet_CheckSuppression])
    (use mail in \<open>auto simp: CheckSuppression_def simp del: run_state_bind
      split: sum.splits if_splits dest: failMessage_hands_nothing\<close>)

lemma process_checked_mail:
  assumes run: "run_state (process_checked P msg now) w = (st, w')" and mail: "handed w' \<noteq> handed w"
  shows "p_ready P (m_WorkspaceID msg) (m_SenderDomainID msg) = Inr True"
    and "m_WorkspaceID msg \<noteq> [] \<Longrightarrow> m_RecipientEmailNormalized msg \<noteq> [] \<Longrightarrow>
      \<not> suppressed (m_WorkspaceID msg) (m_RecipientEmailNormalized msg) w"
    and "m_TemplateID msg \<noteq> [] \<Longrightarrow> \<exists>c. p_render P (m_WorkspaceID msg) (m_TemplateID msg) (m_TemplateVersionID msg)
      (buildRenderData (m_RecipientSnapshot msg)) = Inr c"
proof -
  obtain v where R: "run_state (remote (p_ready P (m_WorkspaceID msg) (m_SenderDomainID msg))) w = (Inr True, v)"
    and v: "handed v = handed w" "suppressions v = suppressions w"
    and rest: "run_state (process_recipient P msg now) v = (st, w')"
    by (rule step_through [OF run [unfolded process_checked_def] quiet_remote])
      (use mail in \<open>auto simp del: run_state_bind split: sum.splits if_splits dest: failMessage_hands_nothing\<close>)
  from process_recipient_mail [OF rest] mail v
  obtain d u where S: "run_state (CheckHandler (m_WorkspaceID msg) (m_RecipientEmailNormalized msg) ''workspace'') v = (Inr d, u)"
    and d: "\<not> cr_Suppressed d" and u: "handed u = handed v" and send: "run_state (process_content P msg now) u = (st, w')"
    by auto
  show "p_ready P (m_WorkspaceID msg) (m_SenderDomainID msg) = Inr True" using R by (rule remote_answer)
  show "\<not> suppressed (m_WorkspaceID msg) (m_RecipientEmailNormalized msg) w"
    if "m_WorkspaceID msg \<noteq> []" "m_RecipientEmailNormalized msg \<noteq> []"
    using CheckHandler_Inr(2) [OF S that] d v by (auto simp: suppressed_def)
  show "\<exists>c. p_render P (m_WorkspaceID msg) (m_TemplateID msg) (m_TemplateVersionID msg)
      (buildRenderData (m_RecipientSnapshot msg)) = Inr c" if "m_TemplateID msg \<noteq> []"
    using process_content_mail [OF send _ that] mail v u by simp
qed


text \<open>The lock table changes only where a lock is taken or released.\<close>

definition same_locks :: "delivery_world \<Rightarrow> delivery_world \<Rightarrow> bool" where
  "same_locks w w' \<longleftrightarrow> locks w' = locks w"

interpretation same_locks: world_rel same_locks
  by unfold_locales (auto simp: same_locks_def)

lemma same_locks_writeEvent: "state_io_rel same_locks (due_writeEvent P msg t s c r now)"
  unfolding due_writeEvent_def Event_Create_def
  by (intro same_locks.keeps_prog same_locks.keeps_exec) (simp add: same_locks_def)

lemma AcquireLock_Inr:
  "run_state (AcquireLock P key ttl) w = (Inr (token, True), w') \<Longrightarrow>
   locks w key = None \<and> locks w' = (locks w)(key \<mapsto> token)"
  by (auto simp: AcquireLock_def RandomToken_def run_bindE idGen_def next_outcome_def Let_def
      split: if_splits list.splits)

end
