(* ===== verification/Delivery_Intake.thy ===== *)
theory Delivery_Intake
  imports Delivery_Accept Delivery_Outcomes
begin

text \<open>
  What accepting a send request guarantees: which inputs pass the validation and which recipients
  they have, that a request is stored as a whole or not at all and only after its checks, that a
  refused request costs no quota, and that the present insert statement lets no request through.
\<close>

section \<open>Validation and recipients\<close>

definition acceptable :: "accept_ports \<Rightarrow> Input \<Rightarrow> bool" where
  "acceptable X input \<longleftrightarrow>
     i_WorkspaceID input \<noteq> [] \<and> i_SenderDomainID input \<noteq> [] \<and>
     1 \<le> length (recipients input) \<and> length (recipients input) \<le> 50 \<and>
     (\<forall>r \<in> set (recipients input). x_parse X (TrimSpace (rt_Email r))) \<and>
     length (i_Tags input) \<le> 20 \<and> (\<forall>t \<in> set (i_Tags input). length t \<le> 64) \<and>
     length (i_IdempotencyKey input) \<le> 255 \<and>
     (i_Mode input = ''template'' \<and> i_TemplateID input \<noteq> [] \<and> i_Attachments input = [] \<or>
      i_Mode input = ''raw'' \<and> i_Subject input \<noteq> [] \<and> (i_TextBody input \<noteq> [] \<or> i_HTMLBody input \<noteq> []) \<and>
        length (i_HTMLBody input) \<le> 524288 \<and> length (i_TextBody input) \<le> 524288 \<and>
        (i_Attachments input \<noteq> [] \<longrightarrow> p_hasObjectStorage (x_ports X)))"

lemmas limits = maxIdempotencyKeyLength_def maxTagsCount_def maxTagLength_def maxRecipients_def maxBodyLength_def

lemma map_take_take [simp]: "map (take n) (take k (map (take n) (take k ts))) = map (take n) (take k ts)"
  by (simp add: take_map comp_def)

text \<open>What each part of the validation changes and checks.\<close>

lemma validate_mode_template:
  "i_Mode i = ''template'' \<Longrightarrow> validate_mode X i = Inr j \<longleftrightarrow>
     j = i\<lparr>i_TemplateID := TrimSpace (i_TemplateID i), i_TemplateVersionID := TrimSpace (i_TemplateVersionID i)\<rparr> \<and>
     TrimSpace (i_TemplateID i) \<noteq> [] \<and> i_Attachments i = []"
  unfolding validate_mode_def Let_def by auto

lemma validate_mode_trimmed:
  "i_Mode i = ''template'' \<Longrightarrow> validate_mode X i = Inr i \<longleftrightarrow>
     TrimSpace (i_TemplateID i) = i_TemplateID i \<and> TrimSpace (i_TemplateVersionID i) = i_TemplateVersionID i \<and>
     i_TemplateID i \<noteq> [] \<and> i_Attachments i = []"
  by (cases i) (auto simp: validate_mode_template)

lemma validate_mode_raw:
  "i_Mode i = ''raw'' \<Longrightarrow> validate_mode X i = Inr j \<longleftrightarrow>
     j = i \<and> i_Subject i \<noteq> [] \<and> (i_TextBody i \<noteq> [] \<or> i_HTMLBody i \<noteq> []) \<and>
        length (i_HTMLBody i) \<le> 524288 \<and> length (i_TextBody i) \<le> 524288 \<and>
        (i_Attachments i \<noteq> [] \<longrightarrow> p_hasObjectStorage (x_ports X))"
  unfolding validate_mode_def limits by auto

lemma validate_rest_iff:
  "validate_rest X i = Inr j \<longleftrightarrow>
     j = i\<lparr>i_Tags := map (take 64) (take 20 (i_Tags i)),
      i_Now := (if IsZero (i_Now i) then p_clock (x_ports X) else i_Now i), i_IdempotencyKey := TrimSpace (i_IdempotencyKey i)\<rparr> \<and>
     valid_size X maxMetadataSize (i_Metadata i) \<and> valid_size X maxTemplateDataSize (i_TemplateData i) \<and>
     length (TrimSpace (i_IdempotencyKey i)) \<le> 255"
  unfolding validate_rest_def Let_def limits by auto

lemma validate_recipients_iff:
  "validate_recipients X i = Inr j \<longleftrightarrow> j = i \<and> 1 \<le> length (recipients i) \<and> length (recipients i) \<le> 50 \<and>
     (\<forall>r \<in> set (recipients i). x_parse X (TrimSpace (rt_Email r)))"
  unfolding validate_recipients_def Let_def limits by (auto simp: list_ex_iff Suc_le_eq)

lemma validateSendInput_Inr:
  assumes "validateSendInput X input = Inr input'"
  shows "acceptable X input' \<and> recipients input' = recipients input \<and> validateSendInput X input' = Inr input' \<and>
    i_WorkspaceID input' = i_WorkspaceID input \<and> i_APIKeyID input' = i_APIKeyID input"
proof -
  define i1 where "i1 = input\<lparr>i_Mode := (if i_Mode input = [] then ''template'' else i_Mode input),
    i_SenderDomainID := TrimSpace (i_SenderDomainID input)\<rparr>"
  have i1: "i_WorkspaceID i1 \<noteq> []" "i_SenderDomainID i1 \<noteq> []" "i_Mode i1 = ''template'' \<or> i_Mode i1 = ''raw''"
    "TrimSpace (i_SenderDomainID i1) = i_SenderDomainID i1"
    using assms by (auto simp: validateSendInput_def i1_def Let_def split: if_splits)
  have "(case validate_mode X i1 of Inl e \<Rightarrow> Inl e | Inr i \<Rightarrow>
      (case validate_recipients X i of Inl e \<Rightarrow> Inl e | Inr i \<Rightarrow> validate_rest X i)) = Inr input'"
    using assms by (simp add: validateSendInput_def i1_def Let_def split: if_splits)
  then obtain i2 i3 where 2: "validate_mode X i1 = Inr i2" and 3: "validate_recipients X i2 = Inr i3"
    and 4: "validate_rest X i3 = Inr input'"
    by (auto split: sum.splits)
  note r = 3 [unfolded validate_recipients_iff] and t = 4 [unfolded validate_rest_iff]
  have mode: "i_Mode i2 = i_Mode i1" "i_WorkspaceID i2 = i_WorkspaceID i1" "i_SenderDomainID i2 = i_SenderDomainID i1"
    "recipients i2 = recipients i1" "i_APIKeyID i2 = i_APIKeyID i1"
    using i1(3) 2 by (elim disjE; simp add: validate_mode_template validate_mode_raw recipients_def)+
  have again: "validate_mode X i2 = Inr i2"
    using i1(3) 2 by (elim disjE) (simp_all add: validate_mode_template validate_mode_trimmed validate_mode_raw)
  have kept: "i_Mode input' = i_Mode i1" "i_WorkspaceID input' = i_WorkspaceID i1"
    "i_SenderDomainID input' = i_SenderDomainID i1" "recipients input' = recipients i1"
    "i_APIKeyID input' = i_APIKeyID i1"
    using r t mode by (simp_all add: recipients_def)
  have m: "validate_mode X input' = Inr input'"
    using i1(3) again r t mode(1) by (elim disjE) (simp_all add: validate_mode_trimmed validate_mode_raw)
  moreover have "validate_recipients X input' = Inr input'" and "validate_rest X input' = Inr input'"
    using r t mode(4) kept(4) by (simp_all add: validate_recipients_iff validate_rest_iff)
  moreover have "validateSendInput X input' =
      (case validate_mode X (input'\<lparr>i_Mode := i_Mode input', i_SenderDomainID := i_SenderDomainID input'\<rparr>) of
        Inl e \<Rightarrow> Inl e | Inr i \<Rightarrow> (case validate_recipients X i of Inl e \<Rightarrow> Inl e | Inr i \<Rightarrow> validate_rest X i))"
    using i1 kept by (auto simp: validateSendInput_def Let_def simp del: Input.surjective)
  ultimately have "validateSendInput X input' = Inr input'" using m by simp
  moreover have "acceptable X input'"
    using i1(1-3) m r t kept mode(4) unfolding acceptable_def
    by (elim disjE) (auto simp: validate_mode_trimmed validate_mode_raw)
  moreover have "recipients i1 = recipients input" by (simp add: i1_def recipients_def)
  ultimately show ?thesis using kept(2,4,5) by (simp add: i1_def)
qed

lemma email_unique:
  "appendIfUnique seen ts =
     (if distinct (map (\<lambda>t. normalizeEmail (rt_Email (t_recipient t))) ts) \<and>
         (\<forall>t \<in> set ts. seen (normalizeEmail (rt_Email (t_recipient t))) = None)
      then Inr ts else Inl (Err ErrDuplicateRecipient))"
  by (induction ts arbitrary: seen) (auto simp: Let_def intro: rev_image_eqI)

section \<open>Steps that store nothing\<close>

definition untouched :: "delivery_world \<Rightarrow> delivery_world \<Rightarrow> bool" where
  "untouched w w' \<longleftrightarrow> store w' = store w \<and> suppressions w' = suppressions w \<and> handed w' = handed w"

interpretation untouched: world_rel untouched
  by unfold_locales (auto simp: untouched_def)

lemma untouched_read:
  "(\<And>d r d'. q d = SqlOk r d' \<Longrightarrow> d' = d) \<Longrightarrow> state_io_rel untouched (exec q)"
  by (rule untouched.keeps_exec) (auto simp: untouched_def)

lemma untouched_get: "state_io_rel untouched State_Monad.get"
  by (auto simp: state_io_rel_def untouched_def)

lemma untouched_next_outcome: "state_io_rel untouched next_outcome"
  by (auto simp: state_io_rel_def next_outcome_def untouched_def split: list.splits)

lemma untouched_remote: "state_io_rel untouched (remote answer)"
  unfolding remote_def by (intro untouched.keeps_prog untouched_next_outcome)

lemma untouched_CheckSuppression: "state_io_rel untouched (CheckSuppression ws email scope)"
  unfolding CheckSuppression_def CheckHandler_def FindActiveByEmail_def exec_pool_def
  by (intro untouched.keeps_prog)
    (auto simp: state_io_rel_def next_outcome_def untouched_def split: list.splits)

lemma untouched_outside:
  "state_io_rel untouched (Eval f)"
  "state_io_rel untouched (PutObject key data)"
  "state_io_rel untouched (DeleteObject key)"
  "state_io_rel untouched (SetIdempotency ws key entry)"
  unfolding Eval_def PutObject_def DeleteObject_def SetIdempotency_def
  by (auto simp: state_io_rel_def next_outcome_def untouched_def split: list.splits prod.splits)

lemma untouched_find_request: "state_io_rel untouched (find_request Q)"
  unfolding find_request_def by (rule untouched_read) auto

lemma untouched_Message_List: "state_io_rel untouched (Message_List query)"
  unfolding Message_List_def by (rule untouched_read) auto

lemmas untouched_calls = untouched.keeps_prog untouched_get untouched_next_outcome untouched_remote
  untouched_CheckSuppression untouched_outside untouched_find_request untouched_Message_List

lemma untouched_load: "state_io_rel untouched (loadExistingRequestResult ws key hash t)"
  unfolding loadExistingRequestResult_def FindByIdempotencyKey_def listRequestMessageIDs_def
  by (intro untouched_calls)

lemma untouched_handleIdempotency: "state_io_rel untouched (handleIdempotency X ws key hash)"
  unfolding handleIdempotency_def idempotency_lookup_def GetIdempotency_def FindByIdempotencyKey_def
    listRequestMessageIDs_def
  by (intro untouched_calls untouched_load)

lemma untouched_checkSender: "state_io_rel untouched (checkSenderReadiness X ws dm)"
  unfolding checkSenderReadiness_def by (intro untouched_calls)

lemma untouched_subject: "state_io_rel untouched (accept_subject X input)"
  unfolding accept_subject_def by (intro untouched_calls)

lemma untouched_check_suppressions: "state_io_rel untouched (check_suppressions ws emails)"
  by (induction emails) (simp_all add: checkSuppression_def, (intro untouched_calls | assumption)+)

lemma untouched_CheckAndConsume: "state_io_rel untouched (CheckAndConsume X ws key n)"
  unfolding CheckAndConsume_def bucket_CheckAndConsume_def by (intro untouched_calls)

lemma untouched_refundQuota: "state_io_rel untouched (refundQuota X input n)"
  unfolding refundQuota_def Refund_def bucket_Refund_def by (intro untouched_calls)

lemma untouched_store_attachment: "state_io_rel untouched (store_attachment X ws rid s)"
  unfolding store_attachment_def Seek_def by (intro untouched_calls)

lemma untouched_storeAttachments: "state_io_rel untouched (storeAttachments X ws rid ss)"
  by (induction ss) (simp_all, (intro untouched_calls untouched_store_attachment | assumption)+)

lemma untouched_cleanup: "state_io_rel untouched (cleanupUploadedAttachments X fs)"
proof -
  have "state_io_rel untouched (cleanup_all fs)"
    by (induction fs) (simp_all only: cleanup_all.simps, (intro untouched_calls | assumption)+)
  then show ?thesis unfolding cleanupUploadedAttachments_def by (intro untouched_calls)
qed

lemma untouched_failed: "state_io_rel untouched (accept_failed X input hash n fs err)"
  unfolding accept_failed_def recoverFromUniqueViolation_def
  by (intro untouched_calls untouched_cleanup untouched_refundQuota untouched_load)

lemma untouched_remember: "state_io_rel untouched (accept_remember X input hash result)"
  unfolding accept_remember_def by (intro untouched_calls)

lemma accept_remember_Inr: "run_state (accept_remember X input hash result) w = (Inr b, w') \<Longrightarrow> b = result"
  by (auto simp: accept_remember_def split: if_splits prod.splits)

lemmas untouched_steps = untouched_calls untouched_load untouched_handleIdempotency untouched_checkSender untouched_subject
  untouched_check_suppressions untouched_CheckAndConsume untouched_refundQuota untouched_storeAttachments
  untouched_cleanup untouched_failed untouched_remember

section \<open>What the transaction stores\<close>

lemma save_event_Inr:
  assumes "run_state (save_event eid ty agg aid ws now p) w = (Inr u, w')"
  obtains ev where "store w' = (store w)\<lparr>outbox := outbox (store w) @ [ev]\<rparr>" and "o_EventType ev = ty" and "o_AggregateID ev = aid"
    and "o_WorkspaceID ev = ws"
proof -
  from assms obtain ev where "run_state (Outbox_Save ev) w = (Inr u, w')" and "o_EventType ev = ty" "o_AggregateID ev = aid" "o_WorkspaceID ev = ws"
    by (auto simp: save_event_def split: sum.splits)
  then show thesis by (intro that [of ev]) (auto simp: Outbox_Save_def split: if_splits dest!: exec_InrD)
qed

lemma insert_one: "insert_rows t [m] = (t', ids) \<Longrightarrow> ids \<noteq> [] \<Longrightarrow> t' = t @ [m]"
  by (auto split: if_splits)

lemma CreateMany_one:
  assumes "run_state (CreateMany cols [m]) w = (Inr ids, w')" and "ids \<noteq> []"
  shows "store w' = (store w)\<lparr>messages := messages (store w) @ [inserted cols m]\<rparr>"
  using assms by (auto simp: CreateMany_def split: if_splits prod.splits dest!: exec_InrD)

lemma Event_Create_Inr:
  "run_state (Event_Create e) w = (Inr u, w') \<Longrightarrow> store w' = (store w)\<lparr>message_events := message_events (store w) @ [e]\<rparr>"
  by (auto simp: Event_Create_def split: if_splits dest!: exec_InrD)

lemma accept_message_Inr:
  assumes "run_state (accept_message X cols input rid subj t) w = (Inr mid, w')"
  obtains eid ev where "store w' = (store w)\<lparr>messages := messages (store w) @ [inserted cols (queued_message input rid subj t mid)],
      message_events := message_events (store w) @ [queued_event input rid mid eid], outbox := outbox (store w) @ [ev]\<rparr>"
    and "o_EventType ev = ''delivery.message.queued.v1''" and "o_AggregateID ev = mid" and "o_WorkspaceID ev = i_WorkspaceID input"
proof -
  let ?gen = "idGen (p_gen (x_ports X)) :: string dprog"
  from assms obtain v1 v2 v3 v4 v5 u u' ids i eid qid where mid [simp]: "mid = i" and 1: "run_state ?gen w = (Inr i, v1)"
    and 2: "run_state (CreateMany cols [queued_message input rid subj t i]) v1 = (Inr ids, v2)" "ids \<noteq> []"
    and 3: "run_state ?gen v2 = (Inr eid, v3)"
    and 4: "run_state (Event_Create (queued_event input rid i eid)) v3 = (Inr u, v4)"
    and 5: "run_state ?gen v4 = (Inr qid, v5)"
    and 6: "run_state (save_event qid ''delivery.message.queued.v1'' ''message'' i (i_WorkspaceID input)
        (i_Now input) (MessageQueuedPayload input rid i)) v5 = (Inr u', w')"
    unfolding accept_message_def by (elim bindE_InrD thenE_InrD) (auto split: if_splits elim!: bindE_InrD thenE_InrD)
  from 6 obtain ev where "store w' = (store v5)\<lparr>outbox := outbox (store v5) @ [ev]\<rparr>"
    and "o_EventType ev = ''delivery.message.queued.v1''" and "o_AggregateID ev = mid" and "o_WorkspaceID ev = i_WorkspaceID input"
    by (auto elim: save_event_Inr)
  moreover note idGen_InrD [OF 1] CreateMany_one [OF 2] idGen_InrD [OF 3] Event_Create_Inr [OF 4] idGen_InrD [OF 5]
  ultimately show thesis by (intro that [where eid = eid and ev = ev]) simp_all
qed

text \<open>
  The rows of an accepted request: the request itself, its attachments, for every target the row that the insert makes of its queued
  message and one timeline entry, and the outbox events for each message and for the request.
\<close>

definition message_rows ::
  "string list \<Rightarrow> Input \<Rightarrow> string \<Rightarrow> string \<Rightarrow> recipientTarget list \<Rightarrow> string list \<Rightarrow> delivery_db \<Rightarrow> delivery_db \<Rightarrow> bool" where
  "message_rows cols input rid subj targets ids d d' \<longleftrightarrow> length ids = length targets \<and>
     (\<exists>eids evs. length eids = length ids \<and>
        d' = d\<lparr>messages := messages d @ map (inserted cols) (map2 (queued_message input rid subj) targets ids),
               message_events := message_events d @ map2 (queued_event input rid) ids eids,
               outbox := outbox d @ evs\<rparr> \<and>
        map (\<lambda>e. (o_EventType e, o_AggregateID e)) evs = map (Pair ''delivery.message.queued.v1'') ids)"

lemma accept_messages_Inr:
  "run_state (accept_messages X cols input rid subj targets) w = (Inr ids, w') \<Longrightarrow>
   message_rows cols input rid subj targets ids (store w) (store w')"
proof (induction targets arbitrary: w ids)
  case Nil
  then show ?case by (simp add: message_rows_def)
next
  case (Cons t targets)
  from Cons.prems obtain mid v ids' where 1: "run_state (accept_message X cols input rid subj t) w = (Inr mid, v)"
    and 2: "run_state (accept_messages X cols input rid subj targets) v = (Inr ids', w')" and ids: "ids = mid # ids'"
    by (auto elim!: bindE_InrD)
  from Cons.IH [OF 2] obtain eids evs where len: "length ids' = length targets" "length eids = length ids'"
    and w': "store w' = (store v)\<lparr>messages := messages (store v) @ map (inserted cols) (map2 (queued_message input rid subj) targets ids'),
      message_events := message_events (store v) @ map2 (queued_event input rid) ids' eids, outbox := outbox (store v) @ evs\<rparr>"
    and evs: "map (\<lambda>e. (o_EventType e, o_AggregateID e)) evs = map (Pair ''delivery.message.queued.v1'') ids'"
    by (auto simp: message_rows_def)
  from 1 obtain eid ev where v: "store v = (store w)\<lparr>messages := messages (store w) @ [inserted cols (queued_message input rid subj t mid)],
      message_events := message_events (store w) @ [queued_event input rid mid eid], outbox := outbox (store w) @ [ev]\<rparr>"
    and ev: "o_EventType ev = ''delivery.message.queued.v1''" "o_AggregateID ev = mid"
    by (rule accept_message_Inr)
  show ?case unfolding message_rows_def ids w' v
    by (intro conjI exI [of _ "eid # eids"] exI [of _ "ev # evs"]) (simp_all add: len evs ev)
qed

definition request_rows ::
  "string list \<Rightarrow> Input \<Rightarrow> string \<Rightarrow> recipientTarget list \<Rightarrow> Result \<Rightarrow> delivery_db \<Rightarrow> delivery_db \<Rightarrow> bool" where
  "request_rows cols input hash targets result d d' \<longleftrightarrow>
     (\<exists>subj fs d1 ev.
        (let rid = res_RequestID result in
         message_rows cols input rid subj targets (res_MessageIDs result)
           (d\<lparr>requests := requests d @ [TransactionalSendRequest.extend (send_request input rid subj hash (length targets))
               (request_row.fields 0 0 0)],
              attachments := attachments d @ fs\<rparr>) d1 \<and>
         list_all (\<lambda>f. f_TransactionalRequestID f = rid) fs \<and>
         d' = d1\<lparr>outbox := outbox d1 @ [ev]\<rparr> \<and>
         o_EventType ev = ''delivery.transactional_send.accepted.v1'' \<and> o_AggregateID ev = rid \<and>
         res_Status result = ''accepted'' \<and> res_AcceptedAt result = i_Now input))"

lemma request_rows_messages:
  "request_rows cols input hash targets result d d' \<Longrightarrow> \<exists>subj. length (res_MessageIDs result) = length targets \<and>
     messages d' = messages d @ map (inserted cols) (map2 (queued_message input (res_RequestID result) subj) targets (res_MessageIDs result))"
  by (auto simp: request_rows_def message_rows_def Let_def)

lemma create_request_Inr:
  "run_state (create_request q) w = (Inr u, w') \<Longrightarrow> store w' = (store w)\<lparr>requests := requests (store w) @
     [TransactionalSendRequest.extend q (request_row.fields 0 0 0)]\<rparr>"
  by (auto simp: create_request_def Request_Create_def split: sum.splits prod.splits if_splits dest!: exec_InrD)

lemma Attachment_CreateMany_Inr:
  "run_state (Attachment_CreateMany fs) w = (Inr u, w') \<Longrightarrow>
   store w' = (store w)\<lparr>attachments := attachments (store w) @ fs\<rparr>"
  by (auto simp: Attachment_CreateMany_def split: if_splits dest!: exec_InrD)

lemma accept_body_Inr:
  assumes "run_state (accept_body X cols input hash rsubj targets fs rid0) w = (Inr result, w')"
  shows "request_rows cols input hash targets result (store w) (store w')"
proof -
  define subj where "subj = (if rsubj = [] then i_Subject input else rsubj)"
  from assms obtain rid v where gen: "store v = store w"
    and rows: "run_state (accept_rows X cols input hash rsubj targets fs rid) v = (Inr result, w')"
    unfolding accept_body_def by (auto elim!: bindE_InrD dest!: idGen_InrD split: if_splits)
  let ?fs = "map (\<lambda>f. f\<lparr>f_TransactionalRequestID := rid\<rparr>) fs"
  from rows obtain v1 v2 v3 u1 u2 u3 ids where 1: "run_state (create_request (send_request input rid subj hash (length targets))) v = (Inr u1, v1)"
    and 2: "run_state (Attachment_CreateMany ?fs) v1 = (Inr u2, v2)"
    and 3: "run_state (accept_messages X cols input rid subj targets) v2 = (Inr ids, v3)"
    and 4: "run_state (accept_event X input rid ids) v3 = (Inr u3, w')"
    and result: "result = \<lparr>res_RequestID = rid, res_MessageIDs = ids, res_Status = ''accepted'', res_AcceptedAt = i_Now input\<rparr>"
    unfolding accept_rows_def Let_def subj_def by (auto elim!: bindE_InrD thenE_InrD)
  from 4 obtain v4 eid mid where "store v4 = store v3"
    and "run_state (save_event eid ''delivery.transactional_send.accepted.v1'' ''transactional_send_request'' rid
      (i_WorkspaceID input) (i_Now input) (MessageQueuedPayload input rid mid)) v4 = (Inr u3, w')"
    unfolding accept_event_def by (auto elim!: bindE_InrD dest!: idGen_InrD split: list.splits)
  then obtain ev where "store w' = (store v3)\<lparr>outbox := outbox (store v3) @ [ev]\<rparr>"
    and "o_EventType ev = ''delivery.transactional_send.accepted.v1''" "o_AggregateID ev = rid"
    by (auto elim: save_event_Inr)
  moreover have "message_rows cols input rid subj targets ids ((store v)\<lparr>requests := requests (store v) @
      [TransactionalSendRequest.extend (send_request input rid subj hash (length targets)) (request_row.fields 0 0 0)],
      attachments := attachments (store v) @ ?fs\<rparr>) (store v3)"
    using accept_messages_Inr [OF 3] Attachment_CreateMany_Inr [OF 2] create_request_Inr [OF 1] by simp
  ultimately show ?thesis
    unfolding request_rows_def gen result Let_def by (intro exI conjI) (auto simp: list_all_iff)
qed

section \<open>Runs that store something\<close>

lemma bindE_stores:
  assumes "run_state (bindE f g) w = (r, w')" and "state_io_rel untouched f" and "store w' \<noteq> store w"
  obtains a v where "run_state f w = (Inr a, v)" and "untouched w v" and "run_state (g a) v = (r, w')"
proof -
  obtain x v where f: "run_state f w = (x, v)" by fastforce
  with assms(2) have v: "untouched w v" by blast
  from f v assms(1,3) show thesis by (cases x) (auto simp: run_bindE untouched_def intro: that)
qed

lemma thenE_stores:
  assumes "run_state (thenE f g) w = (r, w')" and "state_io_rel untouched f" and "store w' \<noteq> store w"
  obtains a v where "run_state f w = (Inr a, v)" and "untouched w v" and "run_state g v = (r, w')"
  using assms unfolding thenE_def by (rule bindE_stores)

lemma check_suppressions_Inr:
  "run_state (check_suppressions ws emails) w = (Inr u, w') \<Longrightarrow> ws \<noteq> [] \<Longrightarrow> email \<in> set emails \<Longrightarrow> email \<noteq> [] \<Longrightarrow>
   \<not> suppressed ws email w"
proof (induction emails arbitrary: w)
  case (Cons e emails)
  from Cons.prems(1) obtain u1 v where 1: "run_state (checkSuppression ws e) w = (Inr u1, v)"
    and 2: "run_state (check_suppressions ws emails) v = (Inr u, w')"
    by (auto elim: thenE_InrD)
  from 1 obtain d where d: "run_state (CheckSuppression ws e ''workspace'') w = (Inr d, v)" "\<not> cr_Suppressed d"
    by (auto simp: checkSuppression_def split: prod.splits sum.splits if_splits)
  then have v: "untouched w v" using untouched_CheckSuppression by blast
  show ?case
  proof (cases "email = e")
    case True
    with d Cons.prems show ?thesis
      using CheckHandler_Inr(2) [of ws e "''workspace''" w d v] by (auto simp: suppressed_def CheckSuppression_def)
  next
    case False
    with Cons.IH [OF 2] Cons.prems v show ?thesis by (auto simp: suppressed_def untouched_def)
  qed
qed simp

lemma checkSenderReadiness_Inr:
  "run_state (checkSenderReadiness X ws dm) w = (Inr u, w') \<Longrightarrow> p_ready (x_ports X) ws dm = Inr True"
  by (auto simp: checkSenderReadiness_def split: prod.splits sum.splits if_splits dest!: remote_answer)

lemma accept_subject_Inr:
  assumes "run_state (accept_subject X input) w = (Inr subj, w')" and "i_Mode input = ''template''"
  shows "\<exists>c. p_render (x_ports X) (i_WorkspaceID input) (i_TemplateID input) (i_TemplateVersionID input)
    (case i_TemplateData input of None \<Rightarrow> Map.empty | Some d \<Rightarrow> d) = Inr c"
  using assms by (auto simp: accept_subject_def split: prod.splits sum.splits dest!: remote_answer)

text \<open>A transaction that changed the store and still failed is one whose commit was not acknowledged.\<close>

lemma WithinTx_lost:
  assumes "run_state (WithinTx body) w = (Inl e, w')" and "store w' \<noteq> store w"
  shows "e = ErrDriver"
proof -
  obtain x w1 where 1: "run_state next_outcome w = (x, w1)" by fastforce
  obtain s w2 where 2: "run_state body (w1\<lparr>in_tx := True, aborted := False\<rparr>) = (s, w2)" by fastforce
  obtain y w3 where 3: "run_state next_outcome w2 = (y, w3)" by fastforce
  show ?thesis using assms 1 2 3
    by (cases "x = OK"; cases s; cases "aborted w2"; cases y) (auto simp: WithinTx_def rollback_def)
qed

lemma accept_stored_rows:
  assumes run: "run_state (accept_stored X cols input hash subj targets fs rid) w = (r, w')" and "store w' \<noteq> store w"
  shows "\<exists>result. request_rows cols input hash targets result (store w) (store w') \<and> (\<forall>b. r = Inr b \<longrightarrow> b = result)"
proof -
  let ?body = "accept_body X cols input hash subj targets fs rid"
  obtain t v where tx: "run_state (WithinTx ?body) w = (t, v)" by fastforce
  have v: "untouched v w'"
    using run tx untouched_failed untouched_remember
    by (cases t) (fastforce simp: accept_stored_def dest: state_io_relD)+
  with assms(2) have changed: "store v \<noteq> store w" by (simp add: untouched_def)
  with WithinTx_atomic [OF tx] obtain w1 res w2 where "store w1 = store w" "run_state ?body w1 = (Inr res, w2)"
    "store v = store w2" and res: "\<forall>b. t = Inr b \<longrightarrow> b = res"
    by auto
  with accept_body_Inr [of X cols input hash subj targets fs rid w1 res w2] v
  have "request_rows cols input hash targets res (store w) (store w')" by (simp add: untouched_def)
  moreover have "b = res" if "r = Inr b" for b
  proof (cases t)
    case (Inl e)
    with WithinTx_lost tx changed have "e = ErrDriver" by blast
    with run tx Inl have "r = Inl ErrDriver"
      by (auto simp: accept_stored_def accept_failed_def errUniqueViolation_def split: prod.splits)
    with that show ?thesis by simp
  next
    case (Inr c)
    with run tx that res accept_remember_Inr show ?thesis by (fastforce simp: accept_stored_def)
  qed
  ultimately show ?thesis by blast
qed

text \<open>Whatever is stored, the checks came first, and they saw the world as it was.\<close>

definition checked :: "accept_ports \<Rightarrow> Input \<Rightarrow> recipientTarget list \<Rightarrow> delivery_world \<Rightarrow> bool" where
  "checked X input targets w \<longleftrightarrow>
     p_ready (x_ports X) (i_WorkspaceID input) (i_SenderDomainID input) = Inr True \<and>
     (i_Mode input = ''template'' \<longrightarrow> (\<exists>c. p_render (x_ports X) (i_WorkspaceID input) (i_TemplateID input)
        (i_TemplateVersionID input) (case i_TemplateData input of None \<Rightarrow> Map.empty | Some d \<Rightarrow> d) = Inr c)) \<and>
     (\<forall>t \<in> set targets. normalizeEmail (rt_Email (t_recipient t)) \<noteq> [] \<longrightarrow>
        \<not> suppressed (i_WorkspaceID input) (normalizeEmail (rt_Email (t_recipient t))) w)"

lemma accept_reserved_stores:
  assumes "run_state (accept_reserved X cols input hash subj targets) w = (r, w')" and "store w' \<noteq> store w"
  obtains fs rid v where "untouched w v" and "run_state (accept_stored X cols input hash subj targets fs rid) v = (r, w')"
proof -
  let ?gen = "(if i_Attachments input = [] then ret (Inr []) else idGen (p_gen (x_ports X))) :: string dprog"
  let ?put = "\<lambda>rid. (if i_Attachments input = [] \<or> \<not> p_hasObjectStorage (x_ports X) then ret (Inr [])
     else storeAttachments X (i_WorkspaceID input) rid (i_Attachments input)) :: AttachmentManifest list dprog"
  obtain x v1 where 1: "run_state ?gen w = (x, v1)" by fastforce
  have v1: "untouched w v1" by (rule state_io_relD [OF _ 1]) (intro untouched_steps)
  obtain rid where x: "x = Inr rid"
  proof (cases x)
    case (Inl e)
    with assms(1) 1 have "run_state (do { refundQuota X input (length targets); ret (Inl (Err ErrTemporarilyUnavailable)) }) v1 = (r, w')"
      by (simp add: accept_reserved_def)
    moreover have "state_io_rel untouched (do { refundQuota X input (length targets); ret (Inl (Err ErrTemporarilyUnavailable) :: (error, Result) result) })"
      by (intro untouched_steps)
    ultimately have "untouched v1 w'" by blast
    with v1 assms(2) show ?thesis by (simp add: untouched_def)
  qed
  obtain y v2 where 2: "run_state (?put rid) v1 = (y, v2)" by fastforce
  have v2: "untouched v1 v2" by (rule state_io_relD [OF _ 2]) (intro untouched_steps)
  show thesis
  proof (cases y)
    case (Inl e)
    with assms(1) 1 2 x have "run_state (if e = ErrPanic then ret (Inl e) else do { refundQuota X input (length targets); ret (Inl e) }) v2 = (r, w')"
      by (simp add: accept_reserved_def)
    moreover have "state_io_rel untouched (if e = ErrPanic then ret (Inl e) else do { refundQuota X input (length targets); ret (Inl e :: (error, Result) result) })"
      by (intro untouched_steps)
    ultimately have "untouched v2 w'" by blast
    with v1 v2 assms(2) show ?thesis by (simp add: untouched_def)
  next
    case (Inr fs)
    with assms(1) 1 2 x have "run_state (accept_stored X cols input hash subj targets fs rid) v2 = (r, w')"
      by (simp add: accept_reserved_def)
    with untouched.R_trans [OF v1 v2] show ?thesis by (rule that)
  qed
qed

lemma accept_new_stores:
  assumes "run_state (accept_new X cols input hash targets) w = (r, w')" and "store w' \<noteq> store w" and "i_WorkspaceID input \<noteq> []"
  obtains subj fs rid v where "checked X input targets w" and "untouched w v"
    and "run_state (accept_stored X cols input hash subj targets fs rid) v = (r, w')"
proof -
  from assms(1) [unfolded accept_new_def] obtain u1 v1 where 1: "run_state (checkSenderReadiness X (i_WorkspaceID input) (i_SenderDomainID input)) w = (Inr u1, v1)" "untouched w v1"
    and r1: "run_state (bindE (accept_subject X input) (\<lambda>renderedSubject.
         thenE (check_suppressions (i_WorkspaceID input) (map (\<lambda>t. normalizeEmail (rt_Email (t_recipient t))) targets))
           (thenE (if x_hasQuota X then CheckAndConsume X (i_WorkspaceID input) (i_APIKeyID input) (length targets)
                   else ret (Inr ()))
             (accept_reserved X cols input hash renderedSubject targets)))) v1 = (r, w')"
    using untouched_checkSender assms(2) by (rule thenE_stores)
  have "store w' \<noteq> store v1" using 1(2) assms(2) by (simp add: untouched_def)
  from r1 untouched_subject this obtain subj v2 where 2: "run_state (accept_subject X input) v1 = (Inr subj, v2)" "untouched v1 v2"
    and r2: "run_state (thenE (check_suppressions (i_WorkspaceID input) (map (\<lambda>t. normalizeEmail (rt_Email (t_recipient t))) targets))
           (thenE (if x_hasQuota X then CheckAndConsume X (i_WorkspaceID input) (i_APIKeyID input) (length targets)
                   else ret (Inr ()))
             (accept_reserved X cols input hash subj targets))) v2 = (r, w')" by (rule bindE_stores)
  have "store w' \<noteq> store v2" using 1(2) 2(2) assms(2) by (simp add: untouched_def)
  from r2 untouched_check_suppressions this obtain u3 v3 where 3: "run_state (check_suppressions (i_WorkspaceID input) (map (\<lambda>t. normalizeEmail (rt_Email (t_recipient t))) targets)) v2 = (Inr u3, v3)" "untouched v2 v3"
    and r3: "run_state (thenE (if x_hasQuota X then CheckAndConsume X (i_WorkspaceID input) (i_APIKeyID input) (length targets)
                   else ret (Inr ()))
             (accept_reserved X cols input hash subj targets)) v3 = (r, w')" by (rule thenE_stores)
  have ne3: "store w' \<noteq> store v3" using 1(2) 2(2) 3(2) assms(2) by (simp add: untouched_def)
  have "state_io_rel untouched (if x_hasQuota X then CheckAndConsume X (i_WorkspaceID input) (i_APIKeyID input) (length targets) else ret (Inr ()))"
    by (intro untouched_steps)
  from r3 this ne3 obtain u4 v4 where "untouched v3 v4"
    and r4: "run_state (accept_reserved X cols input hash subj targets) v4 = (r, w')" by (rule thenE_stores)
  have "store w' \<noteq> store v4" using \<open>untouched v3 v4\<close> ne3 by (simp add: untouched_def)
  with r4 obtain fs rid v where "untouched v4 v" and stored: "run_state (accept_stored X cols input hash subj targets fs rid) v = (r, w')"
    by (rule accept_reserved_stores)
  with 1(2) 2(2) 3(2) \<open>untouched v3 v4\<close> have "untouched w v" by (simp add: untouched_def)
  moreover have "checked X input targets w"
    using checkSenderReadiness_Inr [OF 1(1)] accept_subject_Inr [OF 2(1)] check_suppressions_Inr [OF 3(1) assms(3)] 1(2) 2(2)
    by (auto simp: checked_def suppressed_def untouched_def)
  ultimately show thesis using stored that by blast
qed

text \<open>The handler is refused at once, or it looks for a replay and goes on with the new request.\<close>

definition replay_of :: "accept_ports \<Rightarrow> Input \<Rightarrow> (Result option) dprog" where
  "replay_of X input =
     (if TrimSpace (i_IdempotencyKey input) = [] then ret (Inr None)
      else handleIdempotency X (i_WorkspaceID input) (TrimSpace (i_IdempotencyKey input))
        (computeRequestHash X (buildCanonical input) (i_Attachments input)))"

lemma accept_Execute_cases:
  assumes "run_state (accept_Execute X cols input0) w = (r, w')"
  obtains (refused) e where "r = Inl e" and "w' = w"
  | (valid) input targets where "validateSendInput X input0 = Inr input"
    and "explodeRecipients (i_To input) (i_CC input) (i_BCC input) = Inr targets"
    and "run_state (bindE (replay_of X input) (\<lambda>replay. case replay of Some result \<Rightarrow> ret (Inr result)
      | None \<Rightarrow> accept_new X cols input (computeRequestHash X (buildCanonical input) (i_Attachments input)) targets)) w = (r, w')"
proof (cases "validateSendInput X input0")
  case (Inl e)
  with assms show ?thesis by (intro refused [of e]) (simp_all add: accept_Execute_def)
next
  case 1: (Inr input)
  show ?thesis
  proof (cases "explodeRecipients (i_To input) (i_CC input) (i_BCC input)")
    case (Inl e)
    with 1 assms show ?thesis by (intro refused [of e]) (simp_all add: accept_Execute_def)
  next
    case 2: (Inr targets)
    show ?thesis
    proof (cases "x_canonical_ok X (buildCanonical input)")
      case True
      with 1 2 assms show ?thesis by (intro valid [OF 1 2]) (simp add: accept_Execute_def Let_def replay_of_def)
    next
      case False
      with 1 2 assms show ?thesis by (intro refused [of "Err ErrRequestBodyInvalid"]) (simp_all add: accept_Execute_def)
    qed
  qed
qed

lemma untouched_replay_of: "state_io_rel untouched (replay_of X input)"
  unfolding replay_of_def by (intro untouched_steps)

lemma accept_Execute_stores:
  assumes run: "run_state (accept_Execute X cols input0) w = (r, w')" and changed: "store w' \<noteq> store w"
  obtains input targets subj fs rid v where "validateSendInput X input0 = Inr input"
    and "explodeRecipients (i_To input) (i_CC input) (i_BCC input) = Inr targets" and "checked X input targets w" and "untouched w v"
    and "run_state (accept_stored X cols input (computeRequestHash X (buildCanonical input) (i_Attachments input)) subj targets fs rid) v = (r, w')"
  using run
proof (cases rule: accept_Execute_cases)
  case (refused e)
  with changed show ?thesis by simp
next
  case (valid input targets)
  let ?hash = "computeRequestHash X (buildCanonical input) (i_Attachments input)"
  from valid(3) untouched_replay_of changed obtain a v where v: "untouched w v"
    and rest: "run_state (case a of Some result \<Rightarrow> ret (Inr result) | None \<Rightarrow> accept_new X cols input ?hash targets) v = (r, w')"
    by (rule bindE_stores)
  have "store w' \<noteq> store v" using v changed by (simp add: untouched_def)
  with rest have new: "run_state (accept_new X cols input ?hash targets) v = (r, w')" by (auto split: option.splits)
  have "i_WorkspaceID input \<noteq> []" using validateSendInput_Inr [OF valid(1)] by (auto simp: acceptable_def)
  with new \<open>store w' \<noteq> store v\<close> obtain subj fs rid v' where "checked X input targets v" "untouched v v'"
    "run_state (accept_stored X cols input ?hash subj targets fs rid) v' = (r, w')"
    by (elim accept_new_stores)
  with v show thesis by (intro that [OF valid(1,2)]) (auto simp: checked_def suppressed_def untouched_def)
qed

lemma explode_Inr:
  "explodeRecipients (i_To input) (i_CC input) (i_BCC input) = Inr targets \<Longrightarrow> length targets = length (recipients input)"
  by (auto simp: explodeRecipients_def email_unique with_role_def recipients_def split: if_splits)

section \<open>A sample request\<close>

definition sample_accept :: accept_ports where
  "sample_accept = \<lparr>x_ports = sample_ports, x_parse = (\<lambda>s. s \<noteq> []), x_json_size = (\<lambda>d. Some 0), x_canonical_ok = (\<lambda>c. True),
     x_hash = (\<lambda>c ds. ''h''), x_time = (\<lambda>s. None), x_limits = (\<lambda>ws k. Inr (Some sample_limits)), x_unix = 0, x_hasQuota = True\<rparr>"

definition sample_input :: Input where
  "sample_input = \<lparr>i_WorkspaceID = ''w'', i_APIKeyID = ''k'', i_IdempotencyKey = ''key'', i_Mode = ''raw'',
     i_SenderDomainID = ''d'', i_SenderName = ''n'', i_Subject = ''s'', i_TemplateID = [], i_TemplateVersionID = [],
     i_TemplateData = None, i_TextBody = ''t'', i_HTMLBody = [], i_ReplyTo = [], i_To = [\<lparr>rt_Email = ''a@b'', rt_Name = ''A''\<rparr>],
     i_CC = [], i_BCC = [], i_Metadata = None, i_Tags = [], i_Headers = None, i_Attachments = [], i_Now = 9\<rparr>"

lemma sample_validated: "validateSendInput sample_accept sample_input = Inr sample_input"
  by (simp add: validateSendInput_def validate_mode_def validate_recipients_def validate_rest_def recipients_def limits
      valid_size_def TrimSpace_def is_space_def IsZero_def sample_accept_def sample_input_def)

lemma sample_fields:
  "x_canonical_ok sample_accept c" "x_hash sample_accept c ds = ''h''" "i_WorkspaceID sample_input = ''w''"
  "TrimSpace (i_IdempotencyKey sample_input) = ''key''"
  by (simp_all add: sample_accept_def sample_input_def TrimSpace_def is_space_def)

lemma sample_targets:
  "explodeRecipients (i_To sample_input) (i_CC sample_input) (i_BCC sample_input) = Inr (with_role ''to'' (i_To sample_input))"
  by (simp add: explodeRecipients_def with_role_def sample_input_def)

lemma sample_accepted:
  "\<exists>r w'. run_state (accept_Execute sample_accept sample_columns sample_input) (plain_world empty_db) = (Inr r, w') \<and>
     map m_RecipientEmailNormalized (messages (store w')) = [''a@b''] \<and> length (requests (store w')) = 1"
proof -
  let ?rest = "bindE (handleIdempotency sample_accept ''w'' ''key'' ''h'') (\<lambda>replay. case replay of
     Some result \<Rightarrow> ret (Inr result)
   | None \<Rightarrow> accept_new sample_accept sample_columns sample_input ''h'' (with_role ''to'' (i_To sample_input)))"
  have "accept_Execute sample_accept sample_columns sample_input = ?rest"
    by (simp add: accept_Execute_def sample_validated sample_targets computeRequestHash_def sample_fields Let_def)
  moreover have "(case run_state ?rest (plain_world empty_db) of
      (Inr r, w) \<Rightarrow> (map m_RecipientEmailNormalized (messages (store w)), length (requests (store w)))
    | (Inl e, w) \<Rightarrow> ([], 0)) = ([''a@b''], 1)"
    by code_simp
  ultimately show ?thesis by (auto split: prod.splits sum.splits)
qed

section \<open>Properties\<close>

text \<open>
  An input that passes the validation is within all limits (one to fifty recipients, each
  an address the parser accepts; at most twenty tags of at most 64 bytes; a key of at most 255
  bytes; a known mode with what the mode needs), keeps its recipients, and passes the validation again unchanged.
\<close>

lemma validated_input:
  assumes "validateSendInput X input = Inr input'"
  shows "acceptable X input' \<and> recipients input' = recipients input \<and> validateSendInput X input' = Inr input'"
  using validateSendInput_Inr [OF assms] by blast

text \<open>
  The recipients of a request: if no address, up to case and surrounding space, occurs twice
  in the three lists, there is one target per entry, in order and with the role of its list;
  otherwise the request is refused as a duplicate.
\<close>

lemma recipients_exploded:
  "explodeRecipients to cc bcc =
     (if distinct (map (\<lambda>r. normalizeEmail (rt_Email r)) (to @ cc @ bcc))
      then Inr (with_role ''to'' to @ with_role ''cc'' cc @ with_role ''bcc'' bcc)
      else Inl (Err ErrDuplicateRecipient))"
  by (simp add: explodeRecipients_def email_unique with_role_def comp_def)

text \<open>
  Claim C8. A request is stored as a whole or not at all, whatever fails on the way and whatever the columns of the insert of messages are,
  in particular for those of the source: either the database is as before, or the input was valid, its recipients were distinct, and the
  database has grown by exactly the request, its attachments, one row and one timeline entry per recipient, and the outbox events. The row
  of a recipient is what the insert makes of its queued message. If the caller gets a result for a stored request it names these rows.
\<close>

theorem accept_all_or_nothing:
  assumes "run_state (accept_Execute X cols input0) w = (r, w')"
  shows "store w' = store w \<or>
    (\<exists>input targets result. validateSendInput X input0 = Inr input \<and>
       explodeRecipients (i_To input) (i_CC input) (i_BCC input) = Inr targets \<and>
       request_rows cols input (computeRequestHash X (buildCanonical input) (i_Attachments input)) targets result (store w) (store w') \<and>
       (\<forall>b. r = Inr b \<longrightarrow> b = result))"
proof (cases "store w' = store w")
  case False
  with assms obtain input targets subj fs rid v where "validateSendInput X input0 = Inr input"
    "explodeRecipients (i_To input) (i_CC input) (i_BCC input) = Inr targets" and v: "untouched w v"
    and run: "run_state (accept_stored X cols input (computeRequestHash X (buildCanonical input) (i_Attachments input)) subj targets fs rid) v = (r, w')"
    by (rule accept_Execute_stores)
  moreover have "store w' \<noteq> store v" using v False by (simp add: untouched_def)
  with accept_stored_rows [OF run] have "\<exists>result. request_rows cols input (computeRequestHash X (buildCanonical input) (i_Attachments input)) targets result (store v) (store w') \<and>
      (\<forall>b. r = Inr b \<longrightarrow> b = result)" by blast
  moreover have "store v = store w" using v by (simp add: untouched_def)
  ultimately show ?thesis by auto
qed simp

theorem accept_all_or_nothing_witness:
  "\<exists>r w'. run_state (accept_Execute sample_accept sample_columns sample_input) (plain_world empty_db) = (Inr r, w') \<and>
     (\<exists>subj. messages (store w') = [queued_message sample_input (res_RequestID r) subj
        \<lparr>t_recipient = \<lparr>rt_Email = ''a@b'', rt_Name = ''A''\<rparr>, t_role = ''to''\<rparr> (hd (res_MessageIDs r))])"
proof -
  from sample_accepted obtain r w' where run: "run_state (accept_Execute sample_accept sample_columns sample_input) (plain_world empty_db) = (Inr r, w')"
    and one: "length (requests (store w')) = 1" by blast
  then have "store w' \<noteq> store (plain_world empty_db)" by auto
  with accept_all_or_nothing [OF run] obtain hash where "request_rows sample_columns sample_input hash (with_role ''to'' (i_To sample_input)) r empty_db (store w')"
    by (auto simp: sample_validated sample_targets)
  from request_rows_messages [OF this, unfolded map_inserted_sample] obtain subj where "length (res_MessageIDs r) = 1"
    "messages (store w') = map2 (queued_message sample_input (res_RequestID r) subj) (with_role ''to'' (i_To sample_input)) (res_MessageIDs r)"
    by (auto simp: with_role_def sample_input_def)
  then have "messages (store w') = [queued_message sample_input (res_RequestID r) subj
        \<lparr>t_recipient = \<lparr>rt_Email = ''a@b'', rt_Name = ''A''\<rparr>, t_role = ''to''\<rparr> (hd (res_MessageIDs r))]"
    by (cases "res_MessageIDs r") (auto simp: with_role_def sample_input_def)
  with run show ?thesis by blast
qed

text \<open>
  Claim C10. Nothing is stored before the checks have passed: if anything changed in the database, then the
  input was valid with distinct recipients, the sender domain was ready, the template of a template request could be
  rendered, and none of the recipients was on the suppression list of the workspace. Accepting a
  request sends no mail and changes no suppression. This holds for every fault and whatever the columns of the insert are.
\<close>

theorem accept_after_checks:
  assumes "run_state (accept_Execute X cols input0) w = (r, w')" and "store w' \<noteq> store w"
  shows "\<exists>input targets. validateSendInput X input0 = Inr input \<and> acceptable X input \<and>
    explodeRecipients (i_To input) (i_CC input) (i_BCC input) = Inr targets \<and> checked X input targets w"
  using assms by (rule accept_Execute_stores) (use validateSendInput_Inr in blast)

theorem accept_after_checks_witness:
  "\<exists>w'. (\<exists>r. run_state (accept_Execute sample_accept sample_columns sample_input) (plain_world empty_db) = (r, w')) \<and>
     length (requests (store w')) = 1 \<and> acceptable sample_accept sample_input"
proof -
  from sample_accepted obtain r w' where run: "run_state (accept_Execute sample_accept sample_columns sample_input) (plain_world empty_db) = (Inr r, w')"
    and one: "length (requests (store w')) = 1" by blast
  then have "store w' \<noteq> store (plain_world empty_db)" by auto
  with accept_after_checks [OF run] have "acceptable sample_accept sample_input" by (auto simp: sample_validated)
  with run one show ?thesis by blast
qed

end
