(* ===== verification/Delivery_Charging.thy ===== *)
theory Delivery_Charging
  imports Delivery_Intake
begin

text \<open>
  What a send request costs, and what comes of it today. Without faults the quota of the API key is charged for
  exactly the requests that are stored. With the insert statement as it is in the source no request is ever accepted.
\<close>

section \<open>Runs without faults that leave the quota alone\<close>

definition plain :: "delivery_world \<Rightarrow> delivery_world \<Rightarrow> bool" where
  "plain w w' \<longleftrightarrow> (outcomes w = [] \<longrightarrow> outcomes w' = []) \<and> quota w' = quota w"

interpretation plain: world_rel plain
  by unfold_locales (auto simp: plain_def)

lemma plain_exec: "state_io_rel plain (exec q)"
  by (rule plain.keeps_exec) (auto simp: plain_def)

lemma plain_get: "state_io_rel plain State_Monad.get"
  by (auto simp: state_io_rel_def plain_def)

lemma plain_next_outcome: "state_io_rel plain next_outcome"
  by (auto simp: state_io_rel_def next_outcome_def plain_def split: list.splits)

lemma plain_remote: "state_io_rel plain (remote answer)"
  unfolding remote_def by (intro plain.keeps_prog plain_next_outcome)

lemma plain_CheckSuppression: "state_io_rel plain (CheckSuppression ws email scope)"
  unfolding CheckSuppression_def CheckHandler_def FindActiveByEmail_def exec_pool_def
  by (intro plain.keeps_prog)
    (auto simp: state_io_rel_def next_outcome_def plain_def split: list.splits)

lemma plain_outside:
  "state_io_rel plain (PutObject key data)"
  "state_io_rel plain (DeleteObject key)"
  "state_io_rel plain (SetIdempotency ws key entry)"
  unfolding PutObject_def DeleteObject_def SetIdempotency_def
  by (auto simp: state_io_rel_def next_outcome_def plain_def split: list.splits)

lemmas plain_calls = plain.keeps_prog plain_exec plain_get plain_next_outcome plain_remote plain_CheckSuppression plain_outside

lemma plain_load: "state_io_rel plain (loadExistingRequestResult ws key hash t)"
  unfolding loadExistingRequestResult_def FindByIdempotencyKey_def listRequestMessageIDs_def find_request_def Message_List_def
  by (intro plain_calls)

lemma plain_handleIdempotency: "state_io_rel plain (handleIdempotency X ws key hash)"
  unfolding handleIdempotency_def idempotency_lookup_def GetIdempotency_def FindByIdempotencyKey_def
    listRequestMessageIDs_def find_request_def Message_List_def
  by (intro plain_calls plain_load)

lemma plain_checks:
  "state_io_rel plain (checkSenderReadiness X ws dm)" "state_io_rel plain (accept_subject X input)"
  "state_io_rel plain (check_suppressions ws emails)"
  unfolding checkSenderReadiness_def accept_subject_def
  by (intro plain_calls, intro plain_calls, induction emails)
    (simp_all add: checkSuppression_def, (intro plain_calls | assumption)+)

lemma plain_storeAttachments: "state_io_rel plain (storeAttachments X ws rid ss)"
proof -
  have "state_io_rel plain (store_attachment X ws rid s)" for s
    unfolding store_attachment_def Seek_def by (intro plain_calls)
  then show ?thesis by (induction ss) (simp_all, (intro plain_calls | assumption)+)
qed

lemma plain_cleanup: "state_io_rel plain (cleanupUploadedAttachments X fs)"
proof -
  have "state_io_rel plain (cleanup_all fs)"
    by (induction fs) (simp_all only: cleanup_all.simps, (intro plain_calls | assumption)+)
  then show ?thesis unfolding cleanupUploadedAttachments_def by (intro plain_calls)
qed

lemma plain_remember: "state_io_rel plain (accept_remember X input hash result)"
  unfolding accept_remember_def by (intro plain_calls)

lemma plain_accept_messages: "state_io_rel plain (accept_messages X cols input rid subj ts)"
proof -
  have "state_io_rel plain (accept_message X cols input rid subj t)" for t
    unfolding accept_message_def CreateMany_def Event_Create_def save_event_def Outbox_Save_def by (intro plain_calls)
  then show ?thesis by (induction ts) (simp_all, (intro plain_calls | assumption)+)
qed

lemma plain_body: "state_io_rel plain (accept_body X cols input hash subj targets fs rid)"
  unfolding accept_body_def accept_rows_def create_request_def Request_Create_def Attachment_CreateMany_def accept_event_def
    save_event_def Outbox_Save_def Let_def
  by (intro plain_calls plain_accept_messages) (auto split: list.splits intro!: plain_calls)

section \<open>A stored request is visible\<close>

definition same_requests :: "delivery_world \<Rightarrow> delivery_world \<Rightarrow> bool" where
  "same_requests w w' \<longleftrightarrow> requests (store w') = requests (store w)"

interpretation same_requests: world_rel same_requests
  by unfold_locales (auto simp: same_requests_def)

lemma same_requests_exec:
  "(\<And>d r d'. q d = SqlOk r d' \<Longrightarrow> requests d' = requests d) \<Longrightarrow> state_io_rel same_requests (exec q)"
  by (rule same_requests.keeps_exec) (auto simp: same_requests_def)

lemma same_requests_calls:
  "state_io_rel same_requests (CreateMany cols ms)" "state_io_rel same_requests (Event_Create e)"
  "state_io_rel same_requests (Outbox_Save ev)" "state_io_rel same_requests (Attachment_CreateMany fs)"
  unfolding CreateMany_def Event_Create_def Outbox_Save_def Attachment_CreateMany_def
  by (intro same_requests.keeps_prog same_requests_exec; auto split: if_splits prod.splits)+

lemma same_requests_messages: "state_io_rel same_requests (accept_messages X cols input rid subj ts)"
proof -
  have "state_io_rel same_requests (accept_message X cols input rid subj t)" for t
    unfolding accept_message_def save_event_def by (intro same_requests.keeps_prog same_requests_calls)
  then show ?thesis by (induction ts) (simp_all, (intro same_requests.keeps_prog | assumption)+)
qed

lemma accept_body_requests:
  assumes "run_state (accept_body X cols input hash subj targets fs rid0) w = (Inr result, w')"
  shows "requests (store w') \<noteq> requests (store w)"
proof -
  from assms obtain rid v where gen: "store v = store w"
    and rows: "run_state (accept_rows X cols input hash subj targets fs rid) v = (Inr result, w')"
    unfolding accept_body_def by (auto elim!: bindE_InrD dest!: idGen_InrD split: if_splits)
  let ?rest = "\<lambda>subj. thenE (Attachment_CreateMany (map (\<lambda>f. f\<lparr>f_TransactionalRequestID := rid\<rparr>) fs))
          (bindE (accept_messages X cols input rid subj targets) (\<lambda>messageIDs.
            thenE (accept_event X input rid messageIDs)
              (ret (Inr \<lparr>res_RequestID = rid, res_MessageIDs = messageIDs,
                 res_Status = TxRequestStatusAccepted, res_AcceptedAt = i_Now input\<rparr>))))"
  have rest: "state_io_rel same_requests (?rest s)" for s
    unfolding accept_event_def save_event_def
    by (intro same_requests.keeps_prog same_requests_calls same_requests_messages)
      (auto split: list.splits intro!: same_requests.keeps_prog same_requests_calls)
  from rows obtain s q u v1 where "run_state (create_request q) v = (Inr u, v1)" and "run_state (?rest s) v1 = (Inr result, w')"
    unfolding accept_rows_def Let_def by (rule thenE_InrD)
  with create_request_Inr [of q v u v1] state_io_relD [OF rest] gen show ?thesis
    by (auto simp: same_requests_def)
qed

section \<open>Charging\<close>

lemma refund_run:
  assumes "outcomes w = []" and "x_hasQuota X" and "x_limits X (i_WorkspaceID input) (i_APIKeyID input) = Inr (Some l)" and "\<not> IsEmpty l"
  shows "run_state (refundQuota X input n) w =
    ((), w\<lparr>quota := give_back (x_unix X) (i_WorkspaceID input) (i_APIKeyID input) (int n) (Some l) (quota w)\<rparr>)"
  using assms by (simp add: refundQuota_def Refund_def run_bindE remote_def bucket_Refund_def unlimited_def Eval_def)

lemma consume_run:
  assumes "outcomes w = []" and "x_limits X ws key = Inr (Some l)" and "\<not> IsEmpty l"
    and "consume (x_unix X) ws key (int n) (Some l) (quota w) = (allowed, m)"
  shows "run_state (CheckAndConsume X ws key n) w =
    (if allowed then Inr () else Inl (Err ErrAPIKeyQuotaExceeded), w\<lparr>quota := m\<rparr>)"
  using assms by (simp add: CheckAndConsume_def run_bindE remote_def bucket_CheckAndConsume_def unlimited_def Eval_def)

lemma tx_without_faults:
  assumes "outcomes w = []" and "state_io_rel plain body" and "run_state (WithinTx body) w = (r, w')"
  shows "case r of Inl e \<Rightarrow> store w' = store w
    | Inr a \<Rightarrow> \<exists>w2. run_state body (w\<lparr>in_tx := True, aborted := False\<rparr>) = (Inr a, w2) \<and> store w' = store w2"
proof -
  obtain s w2 where 2: "run_state body (w\<lparr>in_tx := True, aborted := False\<rparr>) = (s, w2)" by fastforce
  with assms(1,2) have "outcomes w2 = []" by (auto simp: plain_def dest: state_io_relD)
  with assms(1,3) 2 have "store w' = store w \<and> (\<exists>e. r = Inl e) \<or> (\<exists>a. s = Inr a \<and> r = Inr a \<and> store w' = store w2)"
    by (cases s; cases "aborted w2") (auto simp: WithinTx_def rollback_def)
  then show ?thesis using 2 by auto
qed

text \<open>After the quota was taken: it is kept for a stored request and given back otherwise.\<close>

definition settled ::
  "accept_ports \<Rightarrow> Input \<Rightarrow> EmailQuotaLimits \<Rightarrow> nat \<Rightarrow> delivery_world \<Rightarrow> delivery_world \<Rightarrow> bool" where
  "settled X input l n w w' \<longleftrightarrow>
     (if store w' = store w
      then quota w' = give_back (x_unix X) (i_WorkspaceID input) (i_APIKeyID input) (int n) (Some l) (quota w)
      else quota w' = quota w)"

lemma accept_failed_settled:
  assumes "outcomes w = []" and "x_hasQuota X" and "x_limits X (i_WorkspaceID input) (i_APIKeyID input) = Inr (Some l)" and "\<not> IsEmpty l"
    and "run_state (accept_failed X input hash n fs err) w = (r, w')" and "r \<noteq> Inl ErrPanic"
  shows "quota w' = give_back (x_unix X) (i_WorkspaceID input) (i_APIKeyID input) (int n) (Some l) (quota w)"
proof -
  let ?clean = "if fs = [] then ret () else cleanupUploadedAttachments X fs"
  let ?finish = "if err = errUniqueViolation
    then recoverFromUniqueViolation (i_WorkspaceID input) (TrimSpace (i_IdempotencyKey input)) hash else ret (Inl err)"
  have ne: "err \<noteq> ErrPanic" using assms(5,6) by (auto simp: accept_failed_def)
  obtain u v where 1: "run_state ?clean w = (u, v)" by (cases "run_state ?clean w")
  have "state_io_rel plain ?clean" by (intro plain_calls plain_cleanup)
  with 1 assms(1) have v: "outcomes v = []" "quota v = quota w" by (auto simp: plain_def dest: state_io_relD)
  have "state_io_rel plain ?finish" unfolding recoverFromUniqueViolation_def by (intro plain_calls plain_load)
  moreover have "run_state ?finish (snd (run_state (refundQuota X input n) v)) = (r, w')"
    using assms(5) ne 1 by (auto simp: accept_failed_def split: prod.splits)
  ultimately have "plain (snd (run_state (refundQuota X input n) v)) w'" by blast
  with v refund_run [OF v(1) assms(2-4)] show ?thesis by (simp add: plain_def)
qed

lemma accept_stored_settled:
  assumes "outcomes w = []" and "x_hasQuota X" and "x_limits X (i_WorkspaceID input) (i_APIKeyID input) = Inr (Some l)" and "\<not> IsEmpty l"
    and "run_state (accept_stored X cols input hash subj targets fs rid) w = (r, w')" and "r \<noteq> Inl ErrPanic"
  shows "settled X input l (length targets) w w'"
proof -
  let ?body = "accept_body X cols input hash subj targets fs rid"
  obtain t v where tx: "run_state (WithinTx ?body) w = (t, v)" by fastforce
  have "state_io_rel plain (WithinTx ?body)" by (intro plain.keeps_WithinTx plain_body)
  with tx assms(1) have v: "outcomes v = []" "quota v = quota w" by (auto simp: plain_def dest: state_io_relD)
  note st = tx_without_faults [OF assms(1) plain_body tx]
  show ?thesis
  proof (cases t)
    case (Inl e)
    with assms(5) tx have run: "run_state (accept_failed X input hash (length targets) fs e) v = (r, w')" by (simp add: accept_stored_def)
    have "untouched v w'" by (rule state_io_relD [OF untouched_failed run])
    with Inl st accept_failed_settled [OF v(1) assms(2-4) run assms(6)] v(2) show ?thesis
      by (simp add: settled_def untouched_def)
  next
    case (Inr res)
    with assms(5) tx have run: "run_state (accept_remember X input hash res) v = (r, w')" by (simp add: accept_stored_def)
    have "untouched v w'" "plain v w'" using run untouched_remember plain_remember by blast+
    moreover have "store v \<noteq> store w" using Inr st accept_body_requests by fastforce
    ultimately show ?thesis using v(2) by (simp add: settled_def untouched_def plain_def)
  qed
qed

lemma accept_reserved_settled:
  assumes "outcomes w = []" and "x_hasQuota X" and "x_limits X (i_WorkspaceID input) (i_APIKeyID input) = Inr (Some l)" and "\<not> IsEmpty l"
    and "run_state (accept_reserved X cols input hash subj targets) w = (r, w')" and "r \<noteq> Inl ErrPanic"
  shows "settled X input l (length targets) w w'"
proof -
  let ?gen = "(if i_Attachments input = [] then ret (Inr []) else idGen (p_gen (x_ports X))) :: string dprog"
  let ?put = "\<lambda>rid. (if i_Attachments input = [] \<or> \<not> p_hasObjectStorage (x_ports X) then ret (Inr [])
     else storeAttachments X (i_WorkspaceID input) rid (i_Attachments input)) :: AttachmentManifest list dprog"
  obtain rid v1 where 1: "run_state ?gen w = (Inr rid, v1)" and v1: "outcomes v1 = []" "quota v1 = quota w" "store v1 = store w"
    using assms(1) by (cases "i_Attachments input") auto
  obtain y v2 where 2: "run_state (?put rid) v1 = (y, v2)" by fastforce
  have "state_io_rel plain (?put rid)" by (intro plain_calls plain_storeAttachments)
  moreover have "state_io_rel untouched (?put rid)" by (intro untouched_steps)
  ultimately have "plain v1 v2" "untouched v1 v2" using 2 by blast+
  with v1 have v2: "outcomes v2 = []" "quota v2 = quota w" "store v2 = store w" by (simp_all add: plain_def untouched_def)
  show ?thesis
  proof (cases y)
    case (Inl e)
    with assms(5,6) 1 2 refund_run [OF v2(1) assms(2-4)] v2 show ?thesis
      by (auto simp: accept_reserved_def settled_def split: if_splits)
  next
    case (Inr fs)
    with assms(5) 1 2 have "run_state (accept_stored X cols input hash subj targets fs rid) v2 = (r, w')"
      by (simp add: accept_reserved_def)
    from accept_stored_settled [OF v2(1) assms(2-4) this assms(6)] v2 show ?thesis by (simp add: settled_def)
  qed
qed

text \<open>A step before the quota: the run ends there, or goes on with quota and tables as they were.\<close>

lemma free_step:
  assumes "run_state (bindE f g) w = (r, w')" and "outcomes w = []" and "state_io_rel plain f" and "state_io_rel untouched f"
  obtains (stop) "store w' = store w" and "quota w' = quota w"
  | (go) a v where "run_state (g a) v = (r, w')" and "outcomes v = []" and "quota v = quota w" and "store v = store w"
proof -
  obtain x v where f: "run_state f w = (x, v)" by fastforce
  with assms(2-4) have "outcomes v = []" "quota v = quota w" "store v = store w"
    by (auto simp: plain_def untouched_def dest: state_io_relD)
  with f assms(1) show thesis by (cases x) (auto simp: run_bindE intro: stop go)
qed

lemma plain_replay_of: "state_io_rel plain (replay_of X input)"
  unfolding replay_of_def by (intro plain_calls plain_handleIdempotency)

lemma accept_new_settled:
  assumes "outcomes w = []" and "x_hasQuota X" and "x_limits X (i_WorkspaceID input) (i_APIKeyID input) = Inr (Some l)" and "\<not> IsEmpty l"
    and "run_state (accept_new X cols input hash targets) w = (r, w')" and "r \<noteq> Inl ErrPanic"
  shows "store w' = store w \<and> quota w' = quota w \<or>
    (\<exists>v. consume (x_unix X) (i_WorkspaceID input) (i_APIKeyID input) (int (length targets)) (Some l) (quota w) = (True, quota v) \<and>
       store v = store w \<and> settled X input l (length targets) v w')"
  using assms(5) [unfolded accept_new_def thenE_def] assms(1) plain_checks(1) untouched_checkSender
proof (cases rule: free_step)
  case 1: (go a v1)
  from 1(1,2) plain_checks(2) untouched_subject show ?thesis
  proof (cases rule: free_step)
    case 2: (go subj v2)
    from 2(1,2) plain_checks(3) untouched_check_suppressions show ?thesis
    proof (cases rule: free_step)
      case 3: (go u v3)
      let ?use = "consume (x_unix X) (i_WorkspaceID input) (i_APIKeyID input) (int (length targets)) (Some l) (quota w)"
      obtain allowed m where use: "?use = (allowed, m)" by fastforce
      with consume_run [OF 3(2) assms(3,4), of "length targets" allowed m] 1(3) 2(3) 3(3)
      have c: "run_state (CheckAndConsume X (i_WorkspaceID input) (i_APIKeyID input) (length targets)) v3 =
          (if allowed then Inr () else Inl (Err ErrAPIKeyQuotaExceeded), v3\<lparr>quota := m\<rparr>)" by simp
      show ?thesis
      proof (cases allowed)
        case True
        with 3(1) c assms(2) have "run_state (accept_reserved X cols input hash subj targets) (v3\<lparr>quota := m\<rparr>) = (r, w')"
          by (simp add: run_bindE)
        from accept_reserved_settled [OF _ assms(2-4) this assms(6)] 3(2)
        have "settled X input l (length targets) (v3\<lparr>quota := m\<rparr>) w'" by simp
        with use True 1(4) 2(4) 3(4) show ?thesis by (intro disjI2 exI [of _ "v3\<lparr>quota := m\<rparr>"]) simp
      next
        case False
        with use assms(4) tokenBucketLua_reject [of "x_unix X" "int (length targets)"
            "configured (i_WorkspaceID input) (i_APIKeyID input) l" "quota w"]
        have "m = quota w" by (auto simp: consume_def split: prod.splits)
        with False 3(1) c assms(2) 1(4) 2(4) 3(4) show ?thesis by (auto simp: run_bindE)
      qed
    qed (use 1(3,4) 2(3,4) in simp)
  qed (use 1(3,4) in simp)
qed simp

section \<open>Refusal\<close>

definition refuses :: "'a dprog \<Rightarrow> bool" where
  "refuses f \<longleftrightarrow> (\<forall>w b w'. run_state f w \<noteq> (Inr b, w'))"

lemma refuses_bindE: "refuses f \<or> (\<forall>a. refuses (g a)) \<Longrightarrow> refuses (bindE f g)"
  unfolding refuses_def by (metis bindE_InrD)

lemma refuses_thenE: "refuses f \<or> refuses g \<Longrightarrow> refuses (thenE f g)"
  unfolding thenE_def by (blast intro: refuses_bindE)

lemma refuses_bind: "(\<And>a. refuses (g a)) \<Longrightarrow> refuses (State_Monad.bind f g)"
  unfolding refuses_def by (auto split: prod.splits)

lemma refuses_error: "refuses (ret (Inl e))"
  by (simp add: refuses_def)

lemma refuses_split:
  "(\<And>e. x = Inl e \<Longrightarrow> refuses (f e)) \<Longrightarrow> (\<And>a. x = Inr a \<Longrightarrow> refuses (g a)) \<Longrightarrow> refuses (case x of Inl e \<Rightarrow> f e | Inr a \<Rightarrow> g a)"
  "(b \<Longrightarrow> refuses h) \<Longrightarrow> (\<not> b \<Longrightarrow> refuses k) \<Longrightarrow> refuses (if b then h else k)"
  by (cases x) simp_all

lemmas refuses_prog = refuses_bind refuses_error refuses_split

lemma refuses_WithinTx: "refuses body \<Longrightarrow> refuses (WithinTx body)"
  unfolding refuses_def by (metis WithinTx_InrD)

lemma refuses_WithinTx_store:
  assumes "refuses body" and "run_state (WithinTx body) w = (r, w')"
  shows "store w' = store w"
  using WithinTx_atomic [OF assms(2)] assms(1) unfolding refuses_def by blast

lemma refuses_source_insert: "refuses (CreateMany insert_columns [queued_message input rid subj t i])"
proof -
  have "\<not> list_all2 fits insert_columns (insert_args (queued_message input rid subj t i))"
    by (rule source_misfit) (simp add: queued_message_def Let_def zero_Message_def)
  then show ?thesis unfolding refuses_def CreateMany_def by (auto dest: exec_InrD)
qed

lemma refuses_messages: "ts \<noteq> [] \<Longrightarrow> refuses (accept_messages X insert_columns input rid subj ts)"
  by (cases ts) (auto simp: accept_message_def intro!: refuses_bindE refuses_source_insert)

lemma refuses_body: "ts \<noteq> [] \<Longrightarrow> refuses (accept_body X insert_columns input hash subj ts fs rid)"
  unfolding accept_body_def accept_rows_def Let_def
  by (rule refuses_bindE) (simp add: refuses_thenE refuses_bindE refuses_messages)

text \<open>The hash the repository returns is always empty, so no replay is ever recognised.\<close>

lemma refuses_load: "hash \<noteq> [] \<Longrightarrow> refuses (loadExistingRequestResult ws key hash t)"
  unfolding refuses_def loadExistingRequestResult_def
  by (auto simp: FindByIdempotencyKey_def find_request_def selected_request_def
      split: prod.splits sum.splits if_splits option.splits dest!: exec_InrD)

lemma no_replay:
  assumes "hash \<noteq> []" and "run_state (handleIdempotency X ws key hash) w = (Inr a, w')"
  shows "a = None"
proof -
  have lookup: "a = None" if "run_state (idempotency_lookup X ws key hash) v = (Inr a, v')" for v v'
    using that assms(1) unfolding idempotency_lookup_def
    by (auto simp: FindByIdempotencyKey_def find_request_def selected_request_def
        split: prod.splits sum.splits if_splits option.splits dest!: exec_InrD)
  show ?thesis
    using assms(2) refuses_load [OF assms(1)] lookup unfolding handleIdempotency_def refuses_def
    by (auto split: prod.splits sum.splits if_splits elim!: bindE_InrD)
qed

lemma refuses_stored:
  assumes "ts \<noteq> []" and "hash \<noteq> []"
  shows "refuses (accept_stored X insert_columns input hash subj ts fs rid)"
proof -
  have failed: "refuses (accept_failed X input hash n fs e)" for n e
    unfolding accept_failed_def recoverFromUniqueViolation_def by (intro refuses_prog refuses_load assms(2))
  have "refuses (WithinTx (accept_body X insert_columns input hash subj ts fs rid))"
    by (intro refuses_WithinTx refuses_body assms(1))
  with failed show ?thesis unfolding accept_stored_def by (auto simp: refuses_def split: prod.splits sum.splits)
qed

lemma stored_refused:
  assumes "ts \<noteq> []" and "run_state (accept_stored X insert_columns input hash subj ts fs rid) w = (r, w')"
  shows "store w' = store w"
proof -
  let ?body = "accept_body X insert_columns input hash subj ts fs rid"
  obtain t v where tx: "run_state (WithinTx ?body) w = (t, v)" by fastforce
  have body: "refuses ?body" by (rule refuses_body [OF assms(1)])
  with refuses_WithinTx tx obtain e where "t = Inl e" by (cases t) (auto simp: refuses_def)
  with assms(2) tx have "run_state (accept_failed X input hash (length ts) fs e) v = (r, w')" by (simp add: accept_stored_def)
  then have "untouched v w'" using untouched_failed by blast
  with refuses_WithinTx_store [OF body tx] show ?thesis by (simp add: untouched_def)
qed

lemma refuses_new:
  assumes "ts \<noteq> []" and "hash \<noteq> []"
  shows "refuses (accept_new X insert_columns input hash ts)"
proof -
  have "refuses (accept_reserved X insert_columns input hash subj ts)" for subj
    unfolding accept_reserved_def by (intro refuses_prog refuses_stored assms)
  then show ?thesis unfolding accept_new_def by (simp add: refuses_thenE refuses_bindE)
qed

section \<open>Properties\<close>

text \<open>
  Claim C14. The quota is charged for exactly the requests that are stored: in a run without faults and
  without a panic, every configured window of the API key has afterwards the tokens it had
  before, less one per recipient if and only if the request was stored. Requests that are invalid, refused
  by a check, replayed, over the quota, or fail in the database cost nothing.
\<close>

theorem quota_charged_exactly:
  assumes "run_state (accept_Execute X cols input) w = (r, w')" and "outcomes w = []" and "r \<noteq> Inl ErrPanic"
    and "x_hasQuota X" and "x_limits X (i_WorkspaceID input) (i_APIKeyID input) = Inr (Some l)" and "ValidLimits l"
    and "win \<in> set (configured (i_WorkspaceID input) (i_APIKeyID input) l)" and "bucket_ok (x_unix X) win (quota w)"
  shows "avail (x_unix X) win (quota w') = avail (x_unix X) win (quota w) -
    (if store w' = store w then 0 else of_nat (length (recipients input)))"
  using assms(1)
proof (cases rule: accept_Execute_cases)
  case (valid input' targets)
  have same: "i_WorkspaceID input' = i_WorkspaceID input" "i_APIKeyID input' = i_APIKeyID input" "recipients input' = recipients input"
    using validateSendInput_Inr [OF valid(1)] by blast+
  with explode_Inr [OF valid(2)] have n: "length targets = length (recipients input)" by simp
  have ne: "\<not> IsEmpty l" using assms(7) configured_empty by auto
  let ?n = "int (length targets)"
  from valid(3) assms(2) plain_replay_of untouched_replay_of show ?thesis
  proof (cases rule: free_step)
    case (go a v)
    show ?thesis
    proof (cases a)
      case None
      have new: "run_state (accept_new X cols input' (computeRequestHash X (buildCanonical input') (i_Attachments input')) targets) v = (r, w')"
        using go(1) None by simp
      have "x_limits X (i_WorkspaceID input') (i_APIKeyID input') = Inr (Some l)" using same assms(5) by simp
      from accept_new_settled [OF go(2) assms(4) this ne new assms(3)] same go(3,4) consider "store w' = store w" "quota w' = quota w"
        | u where "consume (x_unix X) (i_WorkspaceID input) (i_APIKeyID input) ?n (Some l) (quota w) = (True, quota u)"
            "store u = store w" "settled X input' l (length targets) u w'" by auto
      then show ?thesis
      proof cases
        case (2 u)
        with consume_level [OF 2(1) assms(6-8)] refund_undoes [OF assms(6-8) 2(1) order_refl refl] same n
        show ?thesis by (auto simp: settled_def split: if_splits)
      qed simp
    next
      case (Some res)
      with go show ?thesis by simp
    qed
  qed simp
qed simp


text \<open>
  Claim C15. With the insert of messages as the repository has it, no send request is ever accepted: whatever
  the request, the database and the faults, the caller gets an error and nothing is stored. Nor is a
  replay ever answered from the stored request, because the lookup by idempotency key leaves the hash empty. The
  only assumption is that the digest is not the empty string.
\<close>

theorem accept_never_succeeds:
  assumes "run_state (accept_Execute X insert_columns input0) w = (r, w')" and "\<forall>c ds. x_hash X c ds \<noteq> []"
  shows "(\<nexists>result. r = Inr result) \<and> store w' = store w"
proof -
  have targets: "ts \<noteq> []" if "validateSendInput X input0 = Inr input"
    "explodeRecipients (i_To input) (i_CC input) (i_BCC input) = Inr ts" for input ts
    using validateSendInput_Inr [OF that(1)] explode_Inr [OF that(2)] by (auto simp: acceptable_def)
  have hash: "computeRequestHash X c as \<noteq> []" for c as using assms(2) by (simp add: computeRequestHash_def)
  have "\<nexists>result. r = Inr result"
    using assms(1)
  proof (cases rule: accept_Execute_cases)
    case (valid input ts)
    have "a = None" if "run_state (replay_of X input) w = (Inr a, v)" for a v
      using that no_replay [OF hash] by (auto simp: replay_of_def split: if_splits)
    with valid(3) refuses_new [OF targets [OF valid(1,2)] hash] show ?thesis
      unfolding refuses_def by (force elim!: bindE_InrD)
  qed simp
  moreover have "store w' = store w"
  proof (rule ccontr)
    assume "store w' \<noteq> store w"
    with assms(1) obtain input ts subj fs rid v where i: "validateSendInput X input0 = Inr input"
      "explodeRecipients (i_To input) (i_CC input) (i_BCC input) = Inr ts" and v: "untouched w v"
      and run: "run_state (accept_stored X insert_columns input (computeRequestHash X (buildCanonical input) (i_Attachments input)) subj ts fs rid) v = (r, w')"
      by (rule accept_Execute_stores)
    from stored_refused [OF targets [OF i] run] v \<open>store w' \<noteq> store w\<close> show False by (simp add: untouched_def)
  qed
  ultimately show ?thesis ..
qed

theorem quota_charged_exactly_witness:
  "\<exists>r w'. run_state (accept_Execute sample_accept sample_columns sample_input) (plain_world empty_db) = (Inr r, w') \<and>
     avail 0 minute_window (quota w') = 9"
proof -
  from sample_accepted obtain r w' where run: "run_state (accept_Execute sample_accept sample_columns sample_input) (plain_world empty_db) = (Inr r, w')"
    and one: "length (requests (store w')) = 1" by blast
  have "avail (x_unix sample_accept) minute_window (quota w') =
      avail (x_unix sample_accept) minute_window (quota (plain_world empty_db)) -
      (if store w' = store (plain_world empty_db) then 0 else of_nat (length (recipients sample_input)))"
    by (rule quota_charged_exactly [OF run, of sample_limits])
      (simp_all add: sample_accept_def sample_input_def ValidLimits_def limit_ok_def configured_def quotaWindows_def bucket_ok_def)
  moreover have "store w' \<noteq> store (plain_world empty_db)" using one by auto
  moreover have "x_unix sample_accept = 0" "length (recipients sample_input) = 1"
    by (simp_all add: sample_accept_def sample_input_def recipients_def)
  ultimately have "avail 0 minute_window (quota w') = 9" by (simp add: live_def refilled_def)
  with run show ?thesis by blast
qed

theorem accept_never_succeeds_witness:
  "\<exists>e w'. run_state (accept_Execute sample_accept insert_columns sample_input) (plain_world empty_db) = (Inl e, w') \<and>
     store w' = empty_db"
proof -
  obtain r w' where run: "run_state (accept_Execute sample_accept insert_columns sample_input) (plain_world empty_db) = (r, w')"
    by fastforce
  have "(\<nexists>result. r = Inr result) \<and> store w' = store (plain_world empty_db)"
    by (rule accept_never_succeeds [OF run]) (simp add: sample_fields)
  with run show ?thesis by (cases r) auto
qed

end
