(* ===== verification/Delivery_Success.thy ===== *)
theory Delivery_Success
  imports Delivery_Outcomes
begin

text \<open>
  The run without faults: a message that passes its checks and whose mail the server takes is accepted,
  and the attempt, the timeline and the outbox say so.
\<close>

section \<open>Fresh ids\<close>

definition used_ids :: "delivery_db \<Rightarrow> string set" where
  "used_ids d = e_ID ` set (message_events d) \<union> a_ID ` set (attempts d) \<union> o_ID ` set (outbox d) \<union>
     m_ProviderMessageID ` set (messages d)"

lemma used_ids_step:
  assumes "message_events d' = message_events d" and "a_ID ` set (attempts d') = a_ID ` set (attempts d)"
    and "outbox d' = outbox d" and "m_ProviderMessageID ` set (messages d') \<subseteq> insert x (m_ProviderMessageID ` set (messages d))"
    and "x \<in> X"
  shows "used_ids d' \<subseteq> used_ids d \<union> X"
proof -
  have "M' \<subseteq> insert x M \<Longrightarrow> x \<in> X \<Longrightarrow> E \<union> A \<union> O' \<union> M' \<subseteq> E \<union> A \<union> O' \<union> M \<union> X" for M' M E A O' by blast
  from this [OF assms(4,5)] show ?thesis unfolding used_ids_def assms(1-3) .
qed

text \<open>What is relied on of the id generator: ids are not blank, do not repeat and are not in use.\<close>

definition fresh :: "ports \<Rightarrow> delivery_world \<Rightarrow> bool" where
  "fresh P w \<longleftrightarrow> inj (p_gen P) \<and> (\<forall>n. TrimSpace (p_gen P n) \<noteq> []) \<and>
     (\<forall>n \<ge> id_ctr w. p_gen P n \<notin> used_ids (store w))"

lemma fresh_step:
  assumes "fresh P w" and "id_ctr w \<le> id_ctr w'"
    and "used_ids (store w') \<subseteq> used_ids (store w) \<union> p_gen P ` {..<id_ctr w'}"
  shows "fresh P w'"
  using assms by (auto simp: fresh_def inj_eq dest!: subsetD)

lemma fresh_id:
  assumes "fresh P w" and "id_ctr w \<le> n"
  shows "e \<in> set (message_events (store w)) \<Longrightarrow> e_ID e \<noteq> p_gen P n"
    and "a \<in> set (attempts (store w)) \<Longrightarrow> a_ID a \<noteq> p_gen P n"
    and "ev \<in> set (outbox (store w)) \<Longrightarrow> o_ID ev \<noteq> p_gen P n"
    and "m \<in> set (messages (store w)) \<Longrightarrow> m_ProviderMessageID m \<noteq> p_gen P n"
    and "p_gen P n \<noteq> []" and "TrimSpace (p_gen P n) \<noteq> []"
proof -
  have "p_gen P n \<notin> used_ids (store w)" and t: "TrimSpace (p_gen P n) \<noteq> []" using assms by (simp_all add: fresh_def)
  then show "e \<in> set (message_events (store w)) \<Longrightarrow> e_ID e \<noteq> p_gen P n"
    and "a \<in> set (attempts (store w)) \<Longrightarrow> a_ID a \<noteq> p_gen P n"
    and "ev \<in> set (outbox (store w)) \<Longrightarrow> o_ID ev \<noteq> p_gen P n"
    and "m \<in> set (messages (store w)) \<Longrightarrow> m_ProviderMessageID m \<noteq> p_gen P n"
    unfolding used_ids_def by (metis UnCI imageI)+
  show "p_gen P n \<noteq> []" and "TrimSpace (p_gen P n) \<noteq> []" using t by (metis TrimSpace_Nil)+
qed

section \<open>Steps without faults\<close>

abbreviation sound :: "delivery_world \<Rightarrow> bool" where
  "sound w \<equiv> outcomes w = [] \<and> \<not> aborted w"

lemma writeEvent_ok:
  assumes "sound w" and "fresh P w"
  shows "\<exists>es n. run_state (due_writeEvent P msg t s c r now) w =
      ((), w\<lparr>store := (store w)\<lparr>message_events := message_events (store w) @ es\<rparr>, id_ctr := n\<rparr>) \<and>
    id_ctr w \<le> n \<and> e_ID ` set es \<subseteq> p_gen P ` {..<n}"
proof (cases "p_hasEventRepo P")
  case False
  then show ?thesis by (intro exI [of _ "[]"] exI [of _ "id_ctr w"]) (simp add: due_writeEvent_def)
next
  case True
  let ?e = "\<lparr>e_ID = p_gen P (id_ctr w), e_WorkspaceID = m_WorkspaceID msg, e_MessageID = m_ID msg,
              e_TransactionalRequestID = m_TransactionalRequestID msg, e_EventType = t, e_Status = s,
              e_ReasonCode = c, e_ReasonMessage = r, e_OccurredAt = now, e_CreatedAt = now\<rparr>"
  have "\<not> list_ex (\<lambda>e. e_ID e = p_gen P (id_ctr w)) (message_events (store w))"
    using fresh_id(1) [OF assms(2) order_refl] by (auto simp: list_ex_iff)
  with True assms(1) show ?thesis
    by (intro exI [of _ "[?e]"] exI [of _ "Suc (id_ctr w)"]) (auto simp: due_writeEvent_def Event_Create_def)
qed

lemma save_event_ok:
  assumes "sound w" and "fresh P w" and "n < id_ctr w" and "p_gen P n \<notin> o_ID ` set (outbox (store w))"
    and "TrimSpace t \<noteq> []" and "TrimSpace agg \<noteq> []"
  shows "\<exists>ev. run_state (save_event (p_gen P n) t agt agg ws now payload) w =
      (Inr (), w\<lparr>store := (store w)\<lparr>outbox := outbox (store w) @ [ev]\<rparr>\<rparr>) \<and>
    o_ID ev = p_gen P n \<and> o_EventType ev = t \<and> o_AggregateID ev = agg \<and> o_WorkspaceID ev = ws \<and>
    Payload (o_Payload ev) = Some payload"
proof -
  have "TrimSpace (p_gen P n) \<noteq> []" using assms(2) by (simp add: fresh_def)
  moreover have "\<not> list_ex (\<lambda>e. o_ID e = p_gen P n) (outbox (store w))"
    using assms(4) unfolding list_ex_iff by (metis imageI)
  ultimately show ?thesis
    using assms
    by (simp add: save_event_def NewEnvelope_def Marshal_def Validate_def Outbox_Save_def Let_def)
      (rule exI, rule conjI [OF refl], simp)
qed


text \<open>What \<open>Attempt_Update\<close> and \<open>MarkAccepted\<close> make of a row.\<close>

definition finish_attempt :: "DeliveryAttempt \<Rightarrow> DeliveryAttempt \<Rightarrow> DeliveryAttempt" where
  "finish_attempt attempt a = (if a_ID a = a_ID attempt \<and> a_WorkspaceID a = a_WorkspaceID attempt
     then a\<lparr>a_Provider := a_Provider attempt, a_Status := a_Status attempt,
            a_RequestSnapshot := a_RequestSnapshot attempt, a_ResponseSnapshot := a_ResponseSnapshot attempt,
            a_ErrorClass := a_ErrorClass attempt, a_ErrorMessage := a_ErrorMessage attempt,
            a_FinishedAt := a_FinishedAt attempt\<rparr> else a)"

definition accept_row :: "Message \<Rightarrow> Message \<Rightarrow> Message" where
  "accept_row msg m = (if has_key (m_WorkspaceID msg) (m_ID msg) m
     then m\<lparr>m_Status := ''accepted'', m_AcceptedAt := m_AcceptedAt msg, m_Provider := m_Provider msg,
            m_ProviderMessageID := m_ProviderMessageID msg, m_UpdatedAt := m_UpdatedAt msg\<rparr> else m)"

lemma finish_attempt_ID [simp]: "a_ID (finish_attempt attempt a) = a_ID a"
  by (simp add: finish_attempt_def)

lemma Attempt_Update_ok:
  "sound w \<Longrightarrow> list_ex (\<lambda>a. a_ID a = a_ID attempt \<and> a_WorkspaceID a = a_WorkspaceID attempt) (attempts (store w)) \<Longrightarrow>
   run_state (Attempt_Update attempt) w =
     (Inr (), w\<lparr>store := (store w)\<lparr>attempts := map (finish_attempt attempt) (attempts (store w))\<rparr>\<rparr>)"
  by (simp add: Attempt_Update_def finish_attempt_def Let_def fun_eq_iff)

lemma MarkAccepted_ok:
  assumes "sound w" and row: "\<exists>m \<in> set (messages (store w)). has_key (m_WorkspaceID msg) (m_ID msg) m"
    and new: "\<forall>m \<in> set (messages (store w)). m_ProviderMessageID m \<noteq> m_ProviderMessageID msg"
    and clash: "\<forall>m \<in> set (messages (store w)). \<forall>n \<in> set (messages (store w)).
      has_key (m_WorkspaceID msg) (m_ID msg) m \<and> \<not> has_key (m_WorkspaceID msg) (m_ID msg) n \<longrightarrow> \<not> row_conflict m n"
  shows "run_state (MarkAccepted msg) w =
     (Inr (), w\<lparr>store := (store w)\<lparr>messages := map (accept_row msg) (messages (store w))\<rparr>\<rparr>)"
proof -
  have "\<not> list_ex (\<lambda>m. has_key (m_WorkspaceID msg) (m_ID msg) m \<and>
      list_ex (\<lambda>n. \<not> has_key (m_WorkspaceID msg) (m_ID msg) n \<and> row_conflict (accept_row msg m) n)
        (messages (store w))) (messages (store w))"
    using new clash by (fastforce simp: list_ex_iff accept_row_def row_conflict_def)
  moreover have "list_ex (has_key (m_WorkspaceID msg) (m_ID msg)) (messages (store w))"
    using row by (simp add: list_ex_iff)
  ultimately show ?thesis
    using assms(1)
    by (simp add: MarkAccepted_def update_row_keys_def affected_def set_message_def accept_row_def
        cong: conj_cong if_cong)
qed

text \<open>The transaction that records the acceptance.\<close>

lemma accept_body_ok:
  assumes ok: "sound w" and fresh: "fresh P w" and n: "n < id_ctr w" "p_gen P n \<notin> used_ids (store w)"
    and att: "list_ex (\<lambda>a. a_ID a = a_ID attempt \<and> a_WorkspaceID a = a_WorkspaceID attempt) (attempts (store w))"
    and row: "\<exists>m \<in> set (messages (store w)). has_key (m_WorkspaceID msg) (m_ID msg) m"
    and new: "\<forall>m \<in> set (messages (store w)). m_ProviderMessageID m \<noteq> m_ProviderMessageID msg"
    and pid: "m_ProviderMessageID msg \<in> p_gen P ` {..<id_ctr w}" and mid: "TrimSpace (m_ID msg) \<noteq> []"
    and clash: "\<forall>m \<in> set (messages (store w)). \<forall>n \<in> set (messages (store w)).
      has_key (m_WorkspaceID msg) (m_ID msg) m \<and> \<not> has_key (m_WorkspaceID msg) (m_ID msg) n \<longrightarrow> \<not> row_conflict m n"
  shows "\<exists>es ev k. run_state (thenE (Attempt_Update attempt) (thenE (MarkAccepted msg)
        (saveAcceptedEvent P msg pr now (p_gen P n)))) w =
      (Inr (), w\<lparr>store := (store w)\<lparr>attempts := map (finish_attempt attempt) (attempts (store w)),
         messages := map (accept_row msg) (messages (store w)),
         message_events := message_events (store w) @ es, outbox := outbox (store w) @ [ev]\<rparr>, id_ctr := k\<rparr>) \<and>
    o_EventType ev = ''delivery.message.accepted.v1'' \<and> o_AggregateID ev = m_ID msg \<and>
    Payload (o_Payload ev) = Some (MessageAcceptedPayload P msg pr now)"
proof -
  let ?w1 = "w\<lparr>store := (store w)\<lparr>attempts := map (finish_attempt attempt) (attempts (store w))\<rparr>\<rparr>"
  define w2 where "w2 = w\<lparr>store := (store w)\<lparr>attempts := map (finish_attempt attempt) (attempts (store w)),
         messages := map (accept_row msg) (messages (store w))\<rparr>\<rparr>"
  have 1: "run_state (Attempt_Update attempt) w = (Inr (), ?w1)" using Attempt_Update_ok [OF ok att] .
  have 2: "run_state (MarkAccepted msg) ?w1 = (Inr (), w2)"
    using MarkAccepted_ok [of ?w1 msg] ok row new clash by (simp add: w2_def)
  have a: "a_ID ` set (attempts (store w2)) = a_ID ` set (attempts (store w))"
    by (simp add: w2_def image_image)
  have m: "m_ProviderMessageID ` set (messages (store w2)) \<subseteq>
      insert (m_ProviderMessageID msg) (m_ProviderMessageID ` set (messages (store w)))"
    by (auto simp: accept_row_def w2_def)
  have "used_ids (store w2) \<subseteq> used_ids (store w) \<union> p_gen P ` {..<id_ctr w}"
    by (rule used_ids_step [OF _ a _ m pid]) (simp_all add: w2_def)
  then have f2: "fresh P w2" by (intro fresh_step [OF fresh]) (simp_all add: w2_def)
  have s2: "sound w2" and o2: "outbox (store w2) = outbox (store w)" "id_ctr w2 = id_ctr w" using ok by (simp_all add: w2_def)
  obtain es k where
    3: "run_state (due_writeEvent P msg MessageEventProviderAccepted MessageStatusAccepted [] [] now) w2 =
      ((), w2\<lparr>store := (store w2)\<lparr>message_events := message_events (store w2) @ es\<rparr>, id_ctr := k\<rparr>)"
    and k: "id_ctr w2 \<le> k" "e_ID ` set es \<subseteq> p_gen P ` {..<k}"
    using writeEvent_ok [OF s2 f2] by blast
  define w3 where "w3 = w2\<lparr>store := (store w2)\<lparr>message_events := message_events (store w2) @ es\<rparr>, id_ctr := k\<rparr>"
  have "used_ids (store w3) = used_ids (store w2) \<union> e_ID ` set es" by (auto simp: used_ids_def w3_def)
  then have f3: "fresh P w3" using k by (intro fresh_step [OF f2]) (auto simp: w3_def)
  have s3: "sound w3" and n3: "n < id_ctr w3" using s2 k(1) n(1) o2 by (simp_all add: w3_def)
  have o3: "p_gen P n \<notin> o_ID ` set (outbox (store w3))" using n(2) o2 by (simp add: used_ids_def w3_def)
  have t: "TrimSpace ''delivery.message.accepted.v1'' \<noteq> []" by (simp add: TrimSpace_def is_space_def)
  obtain ev where 4: "run_state (save_event (p_gen P n) ''delivery.message.accepted.v1'' ''message'' (m_ID msg)
      (m_WorkspaceID msg) now (MessageAcceptedPayload P msg pr now)) w3 =
        (Inr (), w3\<lparr>store := (store w3)\<lparr>outbox := outbox (store w3) @ [ev]\<rparr>\<rparr>)"
    and "o_EventType ev = ''delivery.message.accepted.v1''" "o_AggregateID ev = m_ID msg"
      "Payload (o_Payload ev) = Some (MessageAcceptedPayload P msg pr now)"
    using save_event_ok [OF s3 f3 n3 o3 t mid] by blast
  then show ?thesis
    using 1 2 3 [folded w3_def]
    by (intro exI [of _ es] exI [of _ ev] exI [of _ k])
      (simp add: run_thenE saveAcceptedEvent_def, simp add: w3_def w2_def)
qed

lemma persist_ok:
  assumes ok: "sound w" and fresh: "fresh P w"
    and att: "list_ex (\<lambda>a. a_ID a = a_ID attempt \<and> a_WorkspaceID a = a_WorkspaceID attempt) (attempts (store w))"
    and row: "\<exists>m \<in> set (messages (store w)). has_key (m_WorkspaceID msg) (m_ID msg) m"
    and new: "\<forall>m \<in> set (messages (store w)). m_ProviderMessageID m \<noteq> m_ProviderMessageID msg"
    and pid: "m_ProviderMessageID msg \<in> p_gen P ` {..<id_ctr w}" and mid: "TrimSpace (m_ID msg) \<noteq> []"
    and clash: "\<forall>m \<in> set (messages (store w)). \<forall>n \<in> set (messages (store w)).
      has_key (m_WorkspaceID msg) (m_ID msg) m \<and> \<not> has_key (m_WorkspaceID msg) (m_ID msg) n \<longrightarrow> \<not> row_conflict m n"
  shows "\<exists>es ev k. run_state (persistAcceptedState P msg attempt pr now) w =
      (Inr (), w\<lparr>store := (store w)\<lparr>attempts := map (finish_attempt attempt) (attempts (store w)),
         messages := map (accept_row msg) (messages (store w)),
         message_events := message_events (store w) @ es, outbox := outbox (store w) @ [ev]\<rparr>,
         in_tx := False, aborted := False, id_ctr := k\<rparr>) \<and>
    o_EventType ev = ''delivery.message.accepted.v1'' \<and> o_AggregateID ev = m_ID msg \<and>
    Payload (o_Payload ev) = Some (MessageAcceptedPayload P msg pr now)"
proof -
  define w1 where "w1 = w\<lparr>id_ctr := Suc (id_ctr w)\<rparr>"
  define w2 where "w2 = w1\<lparr>in_tx := True, aborted := False\<rparr>"
  have gen: "run_state (idGen (p_gen P)) w = (Inr (p_gen P (id_ctr w)), w1)" using ok by (simp add: w1_def)
  have w2: "sound w2" "id_ctr w < id_ctr w2" "store w2 = store w" using ok by (simp_all add: w1_def w2_def)
  have n: "p_gen P (id_ctr w) \<notin> used_ids (store w2)" using fresh w2(3) by (simp add: fresh_def)
  have f: "fresh P w2" using w2(2,3) by (intro fresh_step [OF fresh]) simp_all
  have "m_ProviderMessageID msg \<in> p_gen P ` {..<id_ctr w2}" using pid w2(2) by auto
  note body_ok = accept_body_ok [OF w2(1) f w2(2) n att [folded w2(3)] row [folded w2(3)] new [folded w2(3)] this mid
      clash [folded w2(3)], of pr now]
  then obtain es ev k where body: "run_state (thenE (Attempt_Update attempt) (thenE (MarkAccepted msg)
        (saveAcceptedEvent P msg pr now (p_gen P (id_ctr w))))) w2 =
      (Inr (), w2\<lparr>store := (store w2)\<lparr>attempts := map (finish_attempt attempt) (attempts (store w2)),
         messages := map (accept_row msg) (messages (store w2)),
         message_events := message_events (store w2) @ es, outbox := outbox (store w2) @ [ev]\<rparr>, id_ctr := k\<rparr>)"
    and "o_EventType ev = ''delivery.message.accepted.v1''" "o_AggregateID ev = m_ID msg"
      "Payload (o_Payload ev) = Some (MessageAcceptedPayload P msg pr now)"
    by blast
  moreover from WithinTx_ok [OF _ body [unfolded w2_def]] ok
  have "run_state (WithinTx (thenE (Attempt_Update attempt) (thenE (MarkAccepted msg)
        (saveAcceptedEvent P msg pr now (p_gen P (id_ctr w)))))) w1 =
      (Inr (), w\<lparr>store := (store w)\<lparr>attempts := map (finish_attempt attempt) (attempts (store w)),
         messages := map (accept_row msg) (messages (store w)),
         message_events := message_events (store w) @ es, outbox := outbox (store w) @ [ev]\<rparr>,
         in_tx := False, aborted := False, id_ctr := k\<rparr>)"
    by (simp add: w1_def)
  ultimately show ?thesis
    by (intro exI [of _ es] exI [of _ ev] exI [of _ k])
      (simp add: persistAcceptedState_def run_bindE gen numeral_3_eq_3)
qed

section \<open>Attempt numbers\<close>

lemma fold_max_ge: "b \<in> set bs \<or> b = a \<Longrightarrow> b \<le> fold max bs (a :: int)"
proof (induction bs arbitrary: a b)
  case (Cons c bs)
  have "max c a \<le> fold max bs (max c a)" by (rule Cons.IH) simp
  with Cons show ?case by fastforce
qed simp

lemma next_no_greater:
  assumes "a \<in> set as" and "a_WorkspaceID a = ws" and "a_MessageID a = mid"
  shows "a_AttemptNo a < next_no ws mid as"
proof -
  have "a \<in> set (filter (\<lambda>a. a_WorkspaceID a = ws \<and> a_MessageID a = mid) as)" using assms by simp
  then show ?thesis
    unfolding next_no_def
    by (cases "filter (\<lambda>a. a_WorkspaceID a = ws \<and> a_MessageID a = mid) as")
      (auto simp: less_iff_succ_less_eq intro: fold_max_ge)
qed

section \<open>The whole run\<close>

text \<open>
  The conditions under which a message goes out: no faults, fresh ids, its checks pass, the server takes
  mail, its row is in a table that respects the unique indexes, and the attachments of its request are in the object storage.
\<close>

definition deliverable :: "ports \<Rightarrow> Message \<Rightarrow> delivery_world \<Rightarrow> bool" where
  "deliverable P msg w \<longleftrightarrow>
     sound w \<and> \<not> in_tx w \<and> fresh P w \<and>
     p_ready P (m_WorkspaceID msg) (m_SenderDomainID msg) = Inr True \<and>
     m_WorkspaceID msg \<noteq> [] \<and> m_RecipientEmailNormalized msg \<noteq> [] \<and>
     \<not> suppressed (m_WorkspaceID msg) (m_RecipientEmailNormalized msg) w \<and>
     (m_TemplateID msg \<noteq> [] \<longrightarrow> (\<exists>c. p_render P (m_WorkspaceID msg) (m_TemplateID msg) (m_TemplateVersionID msg)
        (buildRenderData (m_RecipientSnapshot msg)) = Inr c)) \<and>
     (\<forall>f \<in> set (attachments (store w)). f_WorkspaceID f = m_WorkspaceID msg \<and>
        f_TransactionalRequestID f = m_TransactionalRequestID msg \<longrightarrow> objects w (f_StorageKey f) \<noteq> None) \<and>
     (\<forall>mail. p_sender P (length (handed w)) mail = None) \<and>
     TrimSpace (m_ID msg) \<noteq> [] \<and>
     (\<exists>m \<in> set (messages (store w)). has_key (m_WorkspaceID msg) (m_ID msg) m) \<and>
     (\<forall>m \<in> set (messages (store w)). \<forall>n \<in> set (messages (store w)).
        has_key (m_WorkspaceID msg) (m_ID msg) m \<and> \<not> has_key (m_WorkspaceID msg) (m_ID msg) n \<longrightarrow> \<not> row_conflict m n) \<and>
     (\<forall>a \<in> set (attempts (store w)). a_MessageID a = m_ID msg \<longrightarrow> a_WorkspaceID a = m_WorkspaceID msg)"

text \<open>What the acceptance leaves behind, seen from the world before.\<close>

definition delivered_to :: "ports \<Rightarrow> Message \<Rightarrow> gotime \<Rightarrow> delivery_world \<Rightarrow> delivery_world \<Rightarrow> bool" where
  "delivered_to P msg now w w' \<longleftrightarrow>
     handed w' = handed w @ [\<lparr>h_MessageID = m_ID msg, h_To = [rs_Email (m_RecipientSnapshot msg)],
       h_Taken = True, h_Reported = True\<rparr>] \<and>
     (\<exists>pid. pid \<noteq> [] \<and> messages (store w') = map (\<lambda>m. if has_key (m_WorkspaceID msg) (m_ID msg) m
        then m\<lparr>m_Status := ''accepted'', m_AcceptedAt := Some now, m_Provider := p_providerName P,
               m_ProviderMessageID := pid, m_UpdatedAt := now\<rparr> else m) (messages (store w))) \<and>
     (\<exists>a. attempts (store w') = attempts (store w) @ [a] \<and> a_MessageID a = m_ID msg \<and>
        a_Status a = ''accepted'' \<and> a_AttemptNo a = next_no (m_WorkspaceID msg) (m_ID msg) (attempts (store w))) \<and>
     (\<exists>ev. outbox (store w') = outbox (store w) @ [ev] \<and> o_EventType ev = ''delivery.message.accepted.v1'' \<and>
        o_AggregateID ev = m_ID msg) \<and>
     (\<exists>es. message_events (store w') = message_events (store w) @ es) \<and>
     retries (store w') = retries (store w) \<and> requests (store w') = requests (store w) \<and>
     attachments (store w') = attachments (store w) \<and> objects w' = objects w \<and> suppressions w' = suppressions w \<and>
     idem w' = idem w \<and> quota w' = quota w \<and> row_locks w' = row_locks w"

text \<open>The attachments of a request that are all in the object storage are loaded.\<close>

lemma load_parts_ok:
  "outcomes w = [] \<Longrightarrow> \<forall>f \<in> set fs. objects w (f_StorageKey f) \<noteq> None \<Longrightarrow> \<exists>parts. run_state (load_parts fs) w = (Inr parts, w)"
  by (induction fs) (auto simp: GetObject_def run_bindE)

lemma loadAttachments_ok:
  assumes "sound w" and "\<forall>f \<in> set (attachments (store w)). f_WorkspaceID f = m_WorkspaceID msg \<and>
    f_TransactionalRequestID f = m_TransactionalRequestID msg \<longrightarrow> objects w (f_StorageKey f) \<noteq> None"
  shows "\<exists>parts. run_state (loadAttachments P msg) w = (Inr parts, w)"
  using assms load_parts_ok [of w "sort_key f_CreatedAt (filter (\<lambda>f. f_WorkspaceID f = m_WorkspaceID msg \<and>
    f_TransactionalRequestID f = m_TransactionalRequestID msg) (attachments (store w)))"]
  by (auto simp: loadAttachments_def Attachment_ListByRequest_def run_bindE)

lemma SendEmail_ok:
  assumes "sound w" and "p_sender P (length (handed w)) mail = None"
    and "mail = \<lparr>em_To = ps_To req, em_CC = ps_CC req, em_BCC = ps_BCC req, em_Subject = ps_Subject req,
            em_Text = ps_TextBody req, em_HTML = ps_HTMLBody req, em_SenderName = ps_SenderName req,
            em_Headers = reply_headers (ps_ReplyTo req) (ps_Headers req),
            em_Attachments = map attachment_part (ps_Attachments req)\<rparr>"
  shows "\<exists>headers. run_state (SendEmail P mid req) w =
      ((Inr \<lparr>pr_Provider = p_providerName P, pr_ProviderMessageID = p_gen P (id_ctr w), pr_AcceptedAt = p_clock P\<rparr>, headers),
       w\<lparr>id_ctr := Suc (id_ctr w), handed := handed w @ [\<lparr>h_MessageID = mid, h_To = ps_To req, h_Taken = True, h_Reported = True\<rparr>]\<rparr>)"
  using assms by (simp add: SendEmail_def hand_over_def Let_def)

text \<open>From the provider's answer to the end.\<close>

lemma process_accepted_ok:
  assumes ok: "sound w" and fresh: "fresh P w"
    and att: "list_ex (\<lambda>a. a_ID a = a_ID attempt \<and> a_WorkspaceID a = a_WorkspaceID attempt) (attempts (store w))"
    and row: "\<exists>m \<in> set (messages (store w)). has_key (m_WorkspaceID msg) (m_ID msg) m"
    and new: "\<forall>m \<in> set (messages (store w)). m_ProviderMessageID m \<noteq> pr_ProviderMessageID pr"
    and pid: "pr_ProviderMessageID pr \<in> p_gen P ` {..<id_ctr w}" and mid: "TrimSpace (m_ID msg) \<noteq> []"
    and clash: "\<forall>m \<in> set (messages (store w)). \<forall>n \<in> set (messages (store w)).
      has_key (m_WorkspaceID msg) (m_ID msg) m \<and> \<not> has_key (m_WorkspaceID msg) (m_ID msg) n \<longrightarrow> \<not> row_conflict m n"
  shows "\<exists>es ev k. run_state (process_answer P msg attempt now (Inr pr)) w =
      (messageStatusAccepted, w\<lparr>store := (store w)\<lparr>
         attempts := map (finish_attempt (attempt\<lparr>a_Status := AttemptStatusAccepted, a_Provider := pr_Provider pr,
            a_ResponseSnapshot := JObj [(''provider'', JStr (pr_Provider pr)),
              (''provider_message_id'', JStr (pr_ProviderMessageID pr))],
            a_FinishedAt := Some now\<rparr>)) (attempts (store w)),
         messages := map (accept_row (msg\<lparr>m_UpdatedAt := now, m_Provider := pr_Provider pr,
            m_ProviderMessageID := pr_ProviderMessageID pr, m_AcceptedAt := Some now\<rparr>)) (messages (store w)),
         message_events := message_events (store w) @ es, outbox := outbox (store w) @ [ev]\<rparr>,
         in_tx := False, aborted := False, id_ctr := k\<rparr>) \<and>
    o_EventType ev = ''delivery.message.accepted.v1'' \<and> o_AggregateID ev = m_ID msg"
proof -
  let ?a = "attempt\<lparr>a_Status := AttemptStatusAccepted, a_Provider := pr_Provider pr,
            a_ResponseSnapshot := JObj [(''provider'', JStr (pr_Provider pr)),
              (''provider_message_id'', JStr (pr_ProviderMessageID pr))],
            a_FinishedAt := Some now\<rparr>"
  let ?m = "msg\<lparr>m_UpdatedAt := now, m_Provider := pr_Provider pr,
            m_ProviderMessageID := pr_ProviderMessageID pr, m_AcceptedAt := Some now\<rparr>"
  have "pr_ProviderMessageID pr \<noteq> []" using pid fresh by (auto simp: fresh_def) (metis TrimSpace_Nil)
  moreover obtain es ev k where "run_state (persistAcceptedState P ?m ?a pr now) w =
      (Inr (), w\<lparr>store := (store w)\<lparr>attempts := map (finish_attempt ?a) (attempts (store w)),
         messages := map (accept_row ?m) (messages (store w)),
         message_events := message_events (store w) @ es, outbox := outbox (store w) @ [ev]\<rparr>,
         in_tx := False, aborted := False, id_ctr := k\<rparr>)"
    and "o_EventType ev = ''delivery.message.accepted.v1''" "o_AggregateID ev = m_ID msg"
    using persist_ok [OF ok fresh, of ?a ?m pr now] att row new pid mid clash by auto
  ultimately show ?thesis
    by (intro exI [of _ es] exI [of _ ev] exI [of _ k]) (simp add: process_answer_def process_accepted_def Let_def)
qed

lemma process_send_ok:
  assumes d: "deliverable P msg w"
  shows "\<exists>w'. run_state (process_send P msg now content) w = (messageStatusAccepted, w') \<and>
    delivered_to P msg now w w' \<and> locks w' = locks w \<and> outcomes w' = []"
proof -
  let ?ws = "m_WorkspaceID msg" and ?mid = "m_ID msg" and ?c = "id_ctr w"
  let ?no = "next_no ?ws ?mid (attempts (store w))"
  have ok: "sound w" and fresh: "fresh P w" using d by (simp_all add: deliverable_def)
  define att where "att = \<lparr>a_ID = p_gen P ?c, a_WorkspaceID = ?ws, a_MessageID = ?mid, a_AttemptNo = ?no, a_Provider = [],
    a_Status = AttemptStatusStarted, a_RequestSnapshot = buildRequestSnapshot msg ?no, a_ResponseSnapshot = JNull,
    a_ErrorClass = [], a_ErrorMessage = [], a_StartedAt = now, a_FinishedAt = None\<rparr>"
  define w1 where "w1 = w\<lparr>store := (store w)\<lparr>attempts := attempts (store w) @ [att]\<rparr>, id_ctr := Suc ?c\<rparr>"
  define req where "req parts = \<lparr>ps_To = [rs_Email (m_RecipientSnapshot msg)], ps_CC = [], ps_BCC = [],
    ps_ReplyTo = (if m_ReplyTo msg \<noteq> [] then [m_ReplyTo msg] else []),
    ps_Subject = rm_Subject content, ps_HTMLBody = rm_HTMLBody content,
    ps_TextBody = rm_TextBody content, ps_SenderName = m_SenderName msg,
    ps_Headers = m_Headers msg, ps_Attachments = parts\<rparr>" for parts
  define h where "h = \<lparr>h_MessageID = ?mid, h_To = [rs_Email (m_RecipientSnapshot msg)], h_Taken = True, h_Reported = True\<rparr>"
  define pr where "pr = \<lparr>pr_Provider = p_providerName P, pr_ProviderMessageID = p_gen P (Suc ?c), pr_AcceptedAt = p_clock P\<rparr>"
  define w2 where "w2 = w1\<lparr>id_ctr := Suc (Suc ?c), handed := handed w @ [h]\<rparr>"
  have old: "a_ID a \<noteq> p_gen P ?c \<and> \<not> (a_MessageID a = ?mid \<and> a_AttemptNo a = ?no)" if "a \<in> set (attempts (store w))" for a
    using fresh_id(2) [OF fresh order_refl that] next_no_greater [OF that, of ?ws ?mid] d that
    by (force simp: deliverable_def)
  then have "\<not> list_ex (\<lambda>a. a_ID a = a_ID att \<or> a_MessageID a = a_MessageID att \<and> a_AttemptNo a = a_AttemptNo att)
      (attempts (store w))"
    by (auto simp: list_ex_iff att_def)
  then have create: "run_state (Attempt_Create att) (w\<lparr>id_ctr := Suc ?c\<rparr>) = (Inr (), w1)"
    using ok by (simp add: Attempt_Create_def w1_def)
  have s1: "sound w1" "p_sender P (length (handed w1)) mail = None" for mail
    using d by (simp_all add: deliverable_def w1_def)
  from loadAttachments_ok [OF s1(1), of msg P] d obtain parts where load: "run_state (loadAttachments P msg) w1 = (Inr parts, w1)"
    by (auto simp: deliverable_def w1_def)
  from SendEmail_ok [OF s1 refl, of ?mid "req parts"] obtain headers where
    send: "run_state (SendEmail P ?mid (req parts)) w1 = ((Inr pr, headers), w2)"
    by (auto simp: w1_def w2_def pr_def h_def req_def)
  have w2: "sound w2" "messages (store w2) = messages (store w)" "id_ctr w2 = Suc (Suc ?c)"
    and at2: "attempts (store w2) = attempts (store w) @ [att]"
    using ok by (simp_all add: w2_def w1_def)
  have "used_ids (store w2) = used_ids (store w) \<union> {p_gen P ?c}"
    by (auto simp: used_ids_def w2_def w1_def att_def)
  then have f2: "fresh P w2" using w2(3) by (intro fresh_step [OF fresh]) auto
  have row: "\<exists>m \<in> set (messages (store w2)). has_key ?ws ?mid m"
    and clash: "\<forall>m \<in> set (messages (store w2)). \<forall>n \<in> set (messages (store w2)).
      has_key ?ws ?mid m \<and> \<not> has_key ?ws ?mid n \<longrightarrow> \<not> row_conflict m n"
    and mid: "TrimSpace ?mid \<noteq> []"
    using d unfolding w2(2) by (simp_all add: deliverable_def)
  have new: "\<forall>m \<in> set (messages (store w2)). m_ProviderMessageID m \<noteq> pr_ProviderMessageID pr"
    using fresh_id(4) [OF fresh, of "Suc ?c"] unfolding w2(2) by (simp add: pr_def)
  have pid: "pr_ProviderMessageID pr \<in> p_gen P ` {..<id_ctr w2}" using w2(3) by (simp add: pr_def)
  have exists: "list_ex (\<lambda>a. a_ID a = a_ID att \<and> a_WorkspaceID a = a_WorkspaceID att) (attempts (store w2))"
    by (simp add: at2)
  let ?msg = "msg\<lparr>m_Headers := headers\<rparr>"
  from process_accepted_ok [OF w2(1) f2 exists _ new pid, of ?msg now] row clash mid
  obtain es ev k w' where fin: "run_state (process_answer P ?msg att now (Inr pr)) w2 = (messageStatusAccepted, w')"
    and w': "w' = w2\<lparr>store := (store w2)\<lparr>
         attempts := map (finish_attempt (att\<lparr>a_Status := AttemptStatusAccepted, a_Provider := pr_Provider pr,
            a_ResponseSnapshot := JObj [(''provider'', JStr (pr_Provider pr)),
              (''provider_message_id'', JStr (pr_ProviderMessageID pr))],
            a_FinishedAt := Some now\<rparr>)) (attempts (store w2)),
         messages := map (accept_row (?msg\<lparr>m_UpdatedAt := now, m_Provider := pr_Provider pr,
            m_ProviderMessageID := pr_ProviderMessageID pr, m_AcceptedAt := Some now\<rparr>)) (messages (store w2)),
         message_events := message_events (store w2) @ es, outbox := outbox (store w2) @ [ev]\<rparr>,
         in_tx := False, aborted := False, id_ctr := k\<rparr>"
    and ev: "o_EventType ev = ''delivery.message.accepted.v1''" "o_AggregateID ev = ?mid"
    by auto
  have "run_state (process_send P msg now content) w = (messageStatusAccepted, w')"
    using ok create load send fin
    by (cases "m_ReplyTo msg = []") (simp_all add: process_send_def NextAttemptNumber_def Let_def att_def req_def)
  moreover have "delivered_to P msg now w w'"
    unfolding delivered_to_def
  proof (intro conjI)
    have keep: "map (finish_attempt a) (attempts (store w)) = attempts (store w)" if "a_ID a = p_gen P ?c" for a
      using old that by (intro map_idI) (auto simp: finish_attempt_def)
    show "\<exists>pid. pid \<noteq> [] \<and> messages (store w') = map (\<lambda>m. if has_key ?ws ?mid m
        then m\<lparr>m_Status := ''accepted'', m_AcceptedAt := Some now, m_Provider := p_providerName P,
               m_ProviderMessageID := pid, m_UpdatedAt := now\<rparr> else m) (messages (store w))"
      using fresh_id(5) [OF fresh, of "Suc ?c"]
      by (intro exI [of _ "p_gen P (Suc ?c)"]) (simp add: w' w2(2) accept_row_def pr_def)
    show "\<exists>a. attempts (store w') = attempts (store w) @ [a] \<and> a_MessageID a = ?mid \<and>
        a_Status a = ''accepted'' \<and> a_AttemptNo a = ?no"
      by (simp add: w' at2 keep att_def) (simp add: finish_attempt_def)
    show "\<exists>ev. outbox (store w') = outbox (store w) @ [ev] \<and> o_EventType ev = ''delivery.message.accepted.v1'' \<and>
        o_AggregateID ev = ?mid"
      using ev by (intro exI [of _ ev]) (simp add: w' w2_def w1_def)
  qed (simp_all add: w' w2_def w1_def h_def)
  moreover have "locks w' = locks w" "outcomes w' = []" using ok by (simp_all add: w' w2_def w1_def)
  ultimately show ?thesis by blast
qed

text \<open>The view of the tables that both predicates depend on.\<close>

definition same_tables :: "delivery_world \<Rightarrow> delivery_world \<Rightarrow> bool" where
  "same_tables w v \<longleftrightarrow>
     messages (store v) = messages (store w) \<and> attempts (store v) = attempts (store w) \<and>
     outbox (store v) = outbox (store w) \<and> retries (store v) = retries (store w) \<and>
     requests (store v) = requests (store w) \<and> attachments (store v) = attachments (store w) \<and>
     (\<exists>es. message_events (store v) = message_events (store w) @ es) \<and> handed v = handed w \<and> objects v = objects w \<and>
     suppressions v = suppressions w \<and> idem v = idem w \<and> quota v = quota w \<and> row_locks v = row_locks w"

lemma deliverable_step:
  assumes "deliverable P msg w" and "same_tables w v" and "sound v" and "\<not> in_tx v" and "fresh P v"
  shows "deliverable P msg v"
  using assms by (simp add: deliverable_def same_tables_def suppressed_def)

lemma delivered_to_step:
  assumes "same_tables w v" and "delivered_to P msg now v v'" and "same_tables v' w'"
  shows "delivered_to P msg now w w'"
  using assms by (auto simp: delivered_to_def same_tables_def)

lemma CheckHandler_ok:
  assumes "outcomes w = []"
  shows "\<exists>r. run_state (CheckHandler ws email scope) w = (Inr r, w)"
  using FindActiveByEmail_ok [OF assms, of "\<lparr>cq_WorkspaceID = ws, cq_EmailNormalized = email,
    cq_Scopes = [if scope = [] then ''workspace'' else scope, ''global''], cq_Reasons = []\<rparr>"]
  by (auto simp: CheckHandler_def run_bindE Let_def split: option.split)

lemma process_checked_ok:
  assumes d: "deliverable P msg w"
  shows "\<exists>w'. run_state (process_checked P msg now) w = (messageStatusAccepted, w') \<and>
    delivered_to P msg now w w' \<and> locks w' = locks w \<and> outcomes w' = []"
proof -
  have ok: "outcomes w = []" and ready: "p_ready P (m_WorkspaceID msg) (m_SenderDomainID msg) = Inr True"
    and ne: "m_WorkspaceID msg \<noteq> []" "m_RecipientEmailNormalized msg \<noteq> []"
    and free: "\<not> suppressed (m_WorkspaceID msg) (m_RecipientEmailNormalized msg) w"
    using d by (simp_all add: deliverable_def)
  obtain r where S: "run_state (CheckHandler (m_WorkspaceID msg) (m_RecipientEmailNormalized msg) ''workspace'') w = (Inr r, w)"
    using CheckHandler_ok [OF ok] by blast
  with CheckHandler_Inr(2) [OF S ne] free have r: "\<not> cr_Suppressed r" by (auto simp: suppressed_def)
  obtain content where "run_state (process_content P msg now) w = run_state (process_send P msg now content) w"
    using d ok by (cases "m_TemplateID msg = []") (auto simp: deliverable_def process_content_def remote_def)
  with ok ready S r process_send_ok [OF d, of now content] show ?thesis
    by (simp add: process_checked_def process_recipient_def CheckSuppression_def remote_def)
qed

lemma processMessage_ok:
  assumes "deliverable P msg w" and "p_hasCache P \<Longrightarrow> locks w (KeyLockMessage (m_ID msg)) = None"
  shows "\<exists>w'. run_state (processMessage P msg now) w = (Inr messageStatusAccepted, w') \<and>
    delivered_to P msg now w w' \<and> locks w' = locks w"
proof -
  have ok: "sound w" "\<not> in_tx w" and fresh: "fresh P w" using assms(1) by (simp_all add: deliverable_def)
  let ?key = "KeyLockMessage (m_ID msg)"
  obtain es k where E: "run_state (due_writeEvent P msg MessageEventProcessingStarted MessageStatusProcessing [] [] now) w =
      ((), w\<lparr>store := (store w)\<lparr>message_events := message_events (store w) @ es\<rparr>, id_ctr := k\<rparr>)"
    and k: "id_ctr w \<le> k" "e_ID ` set es \<subseteq> p_gen P ` {..<k}"
    using writeEvent_ok [OF ok(1) fresh] by blast
  define v where "v = w\<lparr>store := (store w)\<lparr>message_events := message_events (store w) @ es\<rparr>, id_ctr := k\<rparr>"
  have used: "used_ids (store v) = used_ids (store w) \<union> e_ID ` set es" by (auto simp: used_ids_def v_def)
  have v: "sound v" "\<not> in_tx v" "same_tables w v" "locks v = locks w" "id_ctr v = k"
    using ok by (simp_all add: v_def same_tables_def)
  have "fresh P v" using k used v(5) by (intro fresh_step [OF fresh]) auto
  note dv = deliverable_step [OF assms(1) v(3,1,2) this]
  define u where "u = v\<lparr>id_ctr := Suc k, locks := (locks v)(?key \<mapsto> p_token P k)\<rparr>"
  have u: "sound u" "\<not> in_tx u" "same_tables v u" using v by (simp_all add: u_def same_tables_def)
  have "fresh P u" using \<open>fresh P v\<close> v(5) by (intro fresh_step [OF \<open>fresh P v\<close>]) (auto simp: u_def)
  note du = deliverable_step [OF dv u(3,1,2) this]
  show ?thesis
  proof (cases "p_hasCache P")
    case False
    from process_checked_ok [OF dv, of now] obtain w' where
      "run_state (process_checked P msg now) v = (messageStatusAccepted, w')"
      "delivered_to P msg now v w'" "locks w' = locks w" using v(4) by auto
    with False E delivered_to_step [OF v(3) this(2), of w'] show ?thesis
      by (simp add: processMessage_def v_def [symmetric] same_tables_def)
  next
    case True
    with assms(2) have free: "locks v ?key = None" using v(4) by simp
    then have lock: "run_state (AcquireMessageLock P (m_ID msg) (30 * second)) v = (Inr (p_token P k, True), u)"
      using v(1,5) by (simp add: AcquireMessageLock_def AcquireLock_def RandomToken_def run_bindE Let_def u_def)
    from process_checked_ok [OF du, of now] obtain w1 where
      C: "run_state (process_checked P msg now) u = (messageStatusAccepted, w1)"
      "delivered_to P msg now u w1" "locks w1 = locks u" "outcomes w1 = []" by blast
    let ?w' = "w1\<lparr>locks := (locks w1)(?key := None)\<rparr>"
    have rel: "run_state (ReleaseMessageLock (m_ID msg) (p_token P k)) w1 = (Inr True, ?w')"
      using C(3,4) by (simp add: ReleaseMessageLock_def ReleaseLock_def u_def Let_def)
    have "same_tables w u" using v(3) u(3) by (auto simp: same_tables_def)
    from delivered_to_step [OF this C(2), of ?w'] have "delivered_to P msg now w ?w'" by (simp add: same_tables_def)
    moreover have "locks ?w' = locks w" using C(3) free v(4) by (auto simp: u_def fun_eq_iff)
    ultimately show ?thesis
      using True E lock C(1) rel by (simp add: processMessage_def v_def [symmetric])
  qed
qed

text \<open>
  Claim C4. Without faults and with fresh ids, a message of a table that respects its indexes is sent and recorded if its checks pass (sender
  domain ready, recipient not suppressed, template rendered, lock free, mail server taking mail) and all attachments of its request, if it
  has any, are in the object storage. Processing it reports it as accepted; exactly one mail went to its recipient and was taken; its row
  is accepted with the provider's reference and every other row is as it was; one attempt with the next number is recorded as accepted;
  one accepted event is in the outbox; entries were only added to the timeline; and the retries, requests, attachments, stored objects,
  suppressions, quotas and locks are as before.
\<close>

theorem deliverable_is_accepted:
  assumes "deliverable P msg w" and "p_hasCache P \<Longrightarrow> locks w (KeyLockMessage (m_ID msg)) = None"
  shows "\<exists>w'. run_state (processMessage P msg now) w = (Inr messageStatusAccepted, w') \<and>
    delivered_to P msg now w w' \<and> locks w' = locks w"
  using assms by (rule processMessage_ok)

lemma sample_gen:
  "inj (p_gen sample_ports)" "TrimSpace (p_gen sample_ports n) \<noteq> []"
proof -
  show "inj (p_gen sample_ports)" by (auto simp: inj_def dest: arg_cong [of _ _ length])
  have "TrimSpace (p_gen sample_ports n) = p_gen sample_ports n"
    by (intro TrimSpace_fix) (simp add: is_space_def last_replicate)
  then show "TrimSpace (p_gen sample_ports n) \<noteq> []" by simp
qed

lemma sample_deliverable:
  "deliverable sample_ports (sample_message ''m1'') (plain_world (empty_db\<lparr>messages := [sample_message ''m1'']\<rparr>))"
  unfolding deliverable_def fresh_def used_ids_def suppressed_def
  using sample_gen by (simp add: zero_Message_def TrimSpace_def is_space_def)

text \<open>A message of a transactional request with an attachment, with the attachment repository and the storage configured as in the worker.\<close>

abbreviation storage_ports :: ports where
  "storage_ports \<equiv> sample_ports\<lparr>p_hasAttachmentRepo := True, p_hasObjectStorage := True\<rparr>"

abbreviation attached_message :: Message where
  "attached_message \<equiv> (sample_message ''m1'')\<lparr>m_TransactionalRequestID := ''r1''\<rparr>"

abbreviation attached_world :: delivery_world where
  "attached_world \<equiv> (plain_world (empty_db\<lparr>messages := [attached_message], attachments := [\<lparr>f_ID = ''f1'', f_WorkspaceID = ''w1'',
     f_TransactionalRequestID = ''r1'', f_StorageKey = ''k'', f_OriginalFilename = ''a.txt'', f_ContentType = ''text/plain'', f_ByteSize = 4,
     f_SHA256Digest = [], f_Disposition = [], f_ContentID = [], f_CreatedAt = 1\<rparr>]\<rparr>))\<lparr>objects := [''k'' \<mapsto> ''data'']\<rparr>"

lemma attached_deliverable: "deliverable storage_ports attached_message attached_world"
  unfolding deliverable_def fresh_def used_ids_def suppressed_def
  using sample_gen by (simp add: zero_Message_def TrimSpace_def is_space_def)

theorem deliverable_is_accepted_witness:
  "\<exists>w'. run_state (processMessage storage_ports attached_message 5) attached_world = (Inr messageStatusAccepted, w') \<and>
    map m_Status (messages (store w')) = [''accepted''] \<and> length (handed w') = 1"
  using deliverable_is_accepted [OF attached_deliverable, of 5] by (auto simp: delivered_to_def zero_Message_def)

lemma processMessage_checks:
  assumes run: "run_state (processMessage P msg now) w = (r, w')" and mail: "handed w' \<noteq> handed w"
  shows "p_ready P (m_WorkspaceID msg) (m_SenderDomainID msg) = Inr True \<and>
    (m_WorkspaceID msg \<noteq> [] \<and> m_RecipientEmailNormalized msg \<noteq> [] \<longrightarrow>
       \<not> suppressed (m_WorkspaceID msg) (m_RecipientEmailNormalized msg) w) \<and>
    (m_TemplateID msg \<noteq> [] \<longrightarrow> (\<exists>c. p_render P (m_WorkspaceID msg) (m_TemplateID msg) (m_TemplateVersionID msg)
       (buildRenderData (m_RecipientSnapshot msg)) = Inr c)) \<and>
    (p_hasCache P \<longrightarrow> locks w (KeyLockMessage (m_ID msg)) = None)"
proof -
  let ?event = "due_writeEvent P msg MessageEventProcessingStarted MessageStatusProcessing [] [] now"
  let ?lock = "AcquireMessageLock P (m_ID msg) (30 * second)"
  obtain v1 where E: "run_state ?event w = ((), v1)" by (cases "run_state ?event w") auto
  have v1: "handed v1 = handed w" "suppressions v1 = suppressions w" "locks v1 = locks w"
    using quiet_writeEvent [of "[]" "[]" "{}", THEN state_io_relD, OF E] same_locks_writeEvent [THEN state_io_relD, OF E]
    by (auto simp: same_locks_def dest: quiet_noneD)
  obtain l v2 where L: "run_state ?lock v1 = (l, v2)" by fastforce
  have v2: "handed v2 = handed w" "suppressions v2 = suppressions w"
    using quiet_AcquireLock [of "[]" "[]" "{}", THEN state_io_relD, OF L [unfolded AcquireMessageLock_def]] v1
    by (auto dest: quiet_noneD)
  obtain st v3 where C: "run_state (process_checked P msg now) (if p_hasCache P then v2 else v1) = (st, v3)" by fastforce
  have "w' = v3 \<or> (\<exists>token. quiet [] [] {} v3 w' \<and> l = Inr (token, True))"
    if "handed w' \<noteq> handed v2 \<or> \<not> p_hasCache P"
    using run E L C that quiet_ReleaseLock [of "[]" "[]" "{}"]
    by (auto simp: processMessage_def ReleaseMessageLock_def split: sum.splits if_splits prod.splits dest: state_io_relD)
  with mail v2 have "handed w' = handed v3" and "p_hasCache P \<Longrightarrow> \<exists>token. l = Inr (token, True)"
    using run E L C by (auto simp: processMessage_def split: sum.splits if_splits prod.splits dest: quiet_noneD)
  moreover have "locks w (KeyLockMessage (m_ID msg)) = None" if "l = Inr (token, True)" for token
    using AcquireLock_Inr [OF L [unfolded that AcquireMessageLock_def]] v1 by simp
  ultimately show ?thesis
    using process_checked_mail [OF C] mail v1 v2 by (auto simp: suppressed_def split: if_splits)
qed

text \<open>
  Claim C3. No mail goes out before the checks, whatever else goes wrong: if processing a message
  hands over a mail, then the sender domain was reported ready, the recipient was not suppressed in
  the workspace, a template message was rendered, and, when the cache is configured, nobody held
  the lock of the message.
\<close>

theorem mail_only_after_checks:
  assumes run: "run_state (processMessage P msg now) w = (r, w')" and mail: "handed w' \<noteq> handed w"
  shows "p_ready P (m_WorkspaceID msg) (m_SenderDomainID msg) = Inr True \<and>
    (m_WorkspaceID msg \<noteq> [] \<and> m_RecipientEmailNormalized msg \<noteq> [] \<longrightarrow>
       \<not> suppressed (m_WorkspaceID msg) (m_RecipientEmailNormalized msg) w) \<and>
    (m_TemplateID msg \<noteq> [] \<longrightarrow> (\<exists>c. p_render P (m_WorkspaceID msg) (m_TemplateID msg) (m_TemplateVersionID msg)
       (buildRenderData (m_RecipientSnapshot msg)) = Inr c)) \<and>
    (p_hasCache P \<longrightarrow> locks w (KeyLockMessage (m_ID msg)) = None)"
  using assms by (rule processMessage_checks)

theorem mail_only_after_checks_witness:
  "\<exists>r w'. run_state (processMessage sample_ports (sample_message ''m1'') 5)
      (plain_world (empty_db\<lparr>messages := [sample_message ''m1'']\<rparr>)) = (r, w') \<and> handed w' \<noteq> [] \<and>
    p_ready sample_ports ''w1'' ''d1'' = Inr True"
proof -
  let ?w = "plain_world (empty_db\<lparr>messages := [sample_message ''m1'']\<rparr>)"
  obtain w' where run: "run_state (processMessage sample_ports (sample_message ''m1'') 5) ?w = (Inr messageStatusAccepted, w')"
    and "delivered_to sample_ports (sample_message ''m1'') 5 ?w w'"
    using processMessage_ok [OF sample_deliverable, of 5] by auto
  then have mail: "handed w' \<noteq> handed ?w" by (simp add: delivered_to_def)
  from mail_only_after_checks [OF run mail] mail run show ?thesis by auto
qed

end
