(* ===== verification/Delivery_Signals.thy ===== *)
theory Delivery_Signals
  imports Delivery_Success
begin

text \<open>
  What provider events do to messages and to later mail: transitions only where the status allows them,
  no second effect of a redelivered event, and suppression of the recipient after a bounce or complaint.
\<close>

section \<open>The transaction that succeeded\<close>

lemma messages_calm_none: "calm ws mid {} w w' \<Longrightarrow> messages (store w') = messages (store w)"
  by (auto simp: calm_def dest: moves_none)

lemma Message_Update_rows:
  assumes "run_state (Message_Update msg) w = (Inr u, w')"
  shows "messages (store w') =
    map (\<lambda>m. if has_key (m_WorkspaceID msg) (m_ID msg) m then msg\<lparr>m_CreatedAt := m_CreatedAt m\<rparr> else m) (messages (store w))"
  using exec_InrD [OF assms [unfolded Message_Update_def update_row_keys_def]]
  by (auto simp: set_message_def split: if_splits dest!: sym [where t = "store w'"])

text \<open>If the handler reports a suppression entry, the recipient is suppressed.\<close>

lemma pe_suppress_reported:
  assumes run: "run_state (pe_suppress P (Some si)) w = ((created, i), w')" and i: "i \<noteq> []"
    and si: "cs_Scope si = ''workspace''" "cs_EmailNormalized si \<noteq> []"
  shows "suppressed (cs_WorkspaceID si) (cs_EmailNormalized si) w'"
proof -
  from run i obtain e where "run_state (CreateSystemHandler (p_gen P) si) w = (Inr (e, created), w')"
    by (auto simp: pe_suppress_def SuppressFromSignal_def run_bindE split: if_splits sum.splits prod.splits)
  from CreateSystemHandler_Inr [OF this] si show ?thesis by (auto simp: suppressed_def)
qed

lemma suppressed_outside: "outside w w' \<Longrightarrow> suppressed ws email w' = suppressed ws email w"
  by (simp add: outside_def suppressed_def)

lemma pe_after_reported:
  assumes run: "run_state (pe_after P input t updated et (Some si) now) w = (Inr (created, i), w')" and i: "i \<noteq> []"
    and si: "cs_Scope si = ''workspace''" "cs_EmailNormalized si \<noteq> []"
  shows "suppressed (cs_WorkspaceID si) (cs_EmailNormalized si) w'"
proof -
  from run obtain u v spr v2 where S: "run_state (pe_suppress P (Some si)) u = (spr, v)"
    and "run_state (thenE (publish P updated input et (Some si) spr now) (ret (Inr spr))) v = (Inr (created, i), w')"
    by (auto simp: pe_after_def split: prod.splits)
  then obtain x where "run_state (publish P updated input et (Some si) spr now) v = (x, w')" and spr: "spr = (created, i)"
    by (auto simp: run_thenE split: prod.splits sum.splits)
  with quiet_outside [OF quiet_publish] have "outside v w'" by blast
  from suppressed_outside [OF this] pe_suppress_reported [OF S [unfolded spr] i si] show ?thesis by simp
qed

lemma pe_after_unreported:
  assumes "run_state (pe_after P input t updated et None now) w = (Inr (created, i), w')"
  shows "i = []"
  using assms by (auto simp: pe_after_def pe_suppress_def run_thenE split: prod.splits sum.splits)

lemma apply_event_suppression:
  assumes "apply_event current input t now = Some (updated, et, Some si)"
  shows "cs_Scope si = ''workspace''" and "cs_EmailNormalized si = m_RecipientEmailNormalized current"
    and "cs_WorkspaceID si = m_WorkspaceID current"
  using assms by (auto simp: apply_event_def suppression_input_def Let_def split: if_splits)

lemma apply_event_known: "ClassifyProviderEvent ty = Some t \<Longrightarrow> apply_event current input t now \<noteq> None"
  by (drule ClassifyProviderEvent_range) (unfold insert_iff empty_iff, elim disjE, simp_all add: apply_event_def Let_def)

text \<open>What a handler that succeeded has done to the row it found.\<close>

definition event_done :: "string \<Rightarrow> Message \<Rightarrow> bool \<times> string \<Rightarrow> delivery_world \<Rightarrow> delivery_world \<Rightarrow> bool" where
  "event_done t current spr w w' \<longleftrightarrow>
     (\<exists>updated. m_Status updated = t \<and> m_ID updated = m_ID current \<and> m_WorkspaceID updated = m_WorkspaceID current \<and>
        m_Provider updated = m_Provider current \<and> m_ProviderMessageID updated = m_ProviderMessageID current \<and>
        messages (store w') = map (\<lambda>m. if has_key (m_WorkspaceID current) (m_ID current) m
          then updated\<lparr>m_CreatedAt := m_CreatedAt m\<rparr> else m) (messages (store w))) \<and>
     (snd spr \<noteq> [] \<and> m_RecipientEmailNormalized current \<noteq> [] \<longrightarrow>
        suppressed (m_WorkspaceID current) (m_RecipientEmailNormalized current) w')"

lemma pe_effects_done:
  assumes app: "apply_event current input t now = Some (updated, et, si)"
    and run: "run_state (pe_effects P input t updated et si now) w = (Inr spr, w')"
  shows "event_done t current spr w w'"
proof -
  note u = apply_event_facts [OF app]
  have prov: "m_Provider updated = m_Provider current" "m_ProviderMessageID updated = m_ProviderMessageID current"
    using app by (auto simp: apply_event_def Let_def split: if_splits)
  from run obtain x v where U: "run_state (Message_Update updated) w = (Inr x, v)"
    and A: "run_state (pe_after P input t updated et si now) v = (Inr spr, w')"
    unfolding pe_effects_def by (rule thenE_InrD)
  have "calm [] [] {} v w'" using A calm_pe_after by blast
  with Message_Update_rows [OF U] u have rows: "messages (store w') =
      map (\<lambda>m. if has_key (m_WorkspaceID current) (m_ID current) m then updated\<lparr>m_CreatedAt := m_CreatedAt m\<rparr> else m)
        (messages (store w))" by (simp add: messages_calm_none)
  have "suppressed (m_WorkspaceID current) (m_RecipientEmailNormalized current) w'"
    if ne: "snd spr \<noteq> []" "m_RecipientEmailNormalized current \<noteq> []"
  proof (cases si)
    case None
    with A ne pe_after_unreported [of P input t updated et now v "fst spr" "snd spr" w'] show ?thesis by simp
  next
    case (Some s)
    note s = apply_event_suppression [OF app [unfolded Some]]
    from A Some have "run_state (pe_after P input t updated et (Some s) now) v = (Inr (fst spr, snd spr), w')" by simp
    from pe_after_reported [OF this ne(1)] s ne(2) show ?thesis by simp
  qed
  with rows u prov show ?thesis unfolding event_done_def by blast
qed

lemma pe_body_done:
  assumes run: "run_state (pe_body P input t message now) w = (Inr spr, w')"
    and ty: "ClassifyProviderEvent (pe_EventType input) = Some t"
    and found: "find (has_key (m_WorkspaceID message) (m_ID message)) (messages (store w)) = Some message"
    and can: "CanTransitionToStatus (m_Status message) t" "m_Status message \<noteq> t"
  shows "event_done t message spr w w'"
proof -
  obtain f v where F: "run_state (FindByIDForUpdate (m_WorkspaceID message) (m_ID message)) w = (f, v)" by fastforce
  then have v: "store v = store w" "outside w v"
    using find_row_store quiet_outside [OF quiet_other_tables(1)] unfolding FindByIDForUpdate_def by blast+
  have f: "f = Inr message \<or> (\<exists>e. f = Inl e \<and> e \<noteq> Err ErrMessageNotFound)"
    using F found find_row_Inl [of _ w v] unfolding FindByIDForUpdate_def
    by (cases f) (auto simp: find_row_def dest!: exec_InrD dest: find_SomeD)
  from apply_event_known [OF ty] obtain u et si where app: "apply_event message input t now = Some (u, et, si)"
    by (metis option.exhaust prod_cases3)
  from run F f can app have "run_state (pe_effects P input t u et si now) v = (Inr spr, w')"
    by (auto simp: pe_body_def)
  from pe_effects_done [OF app this] v(1) show ?thesis by (simp add: event_done_def)
qed

lemma pe_transaction_done:
  assumes run: "run_state (pe_transaction P input t message) w = (Inr spr, w')"
    and ty: "ClassifyProviderEvent (pe_EventType input) = Some t"
    and found: "find (has_key (m_WorkspaceID message) (m_ID message)) (messages (store w)) = Some message"
    and can: "CanTransitionToStatus (m_Status message) t" "m_Status message \<noteq> t"
  shows "event_done t message spr w w'"
proof -
  from run obtain xs w2 ys where "run_state (pe_body P input t message (p_clock P))
      (w\<lparr>outcomes := xs, in_tx := True, aborted := False\<rparr>) = (Inr spr, w2)" and w': "w' = w2\<lparr>outcomes := ys, in_tx := False\<rparr>"
    unfolding pe_transaction_def by (rule WithinTx_InrD)
  from pe_body_done [OF this(1) ty _ can] found w' show ?thesis
    by (simp add: event_done_def suppressed_def)
qed

text \<open>The row an event is about, as a function of the table.\<close>

definition target_row :: "ProviderEventInput \<Rightarrow> Message list \<Rightarrow> Message option" where
  "target_row input rows =
     (if pe_WorkspaceID input \<noteq> [] \<and> pe_MessageID input \<noteq> [] then find (has_key (pe_WorkspaceID input) (pe_MessageID input)) rows
      else if pe_ProviderMessageID input \<noteq> [] then
        case find (\<lambda>m. m_Provider m = pe_Provider input \<and> m_ProviderMessageID m = pe_ProviderMessageID input) rows of
          None \<Rightarrow> None
        | Some m \<Rightarrow> if pe_WorkspaceID input \<noteq> [] \<and> m_WorkspaceID m \<noteq> pe_WorkspaceID input then None else Some m
      else None)"

lemma resolve_Inr:
  assumes "run_state (resolve input) w = (Inr x, v)" and "pe_Provider input \<noteq> []"
  shows "x = target_row input (messages (store w))"
  using assms
  by (auto simp: resolve_def target_row_def FindByID_def FindByProviderMessageID_def find_row_def
      elim!: bindE_InrD dest!: exec_InrD split: if_splits option.splits)

lemma target_row_key:
  assumes "distinct (map m_ID rows)" and "target_row input rows = Some m"
  shows "m \<in> set rows" and "find (has_key (m_WorkspaceID m) (m_ID m)) rows = Some m"
proof -
  show m: "m \<in> set rows" using assms(2) by (auto simp: target_row_def split: if_splits option.splits dest!: find_SomeD)
  show "find (has_key (m_WorkspaceID m) (m_ID m)) rows = Some m"
    using m assms(1) by (induction rows) auto
qed

lemma find_map_on: "\<forall>x \<in> set xs. Q (f x) = Q x \<Longrightarrow> find Q (map f xs) = map_option f (find Q xs)"
  by (induction xs) auto

lemma target_row_done:
  assumes dist: "distinct (map m_ID (messages (store w)))" and m: "target_row input (messages (store w)) = Some m"
    and don: "event_done t m spr w w'"
  shows "\<exists>m'. target_row input (messages (store w')) = Some m' \<and> m_Status m' = t"
proof -
  from don obtain u where u: "m_Status u = t" "has_key (m_WorkspaceID m) (m_ID m) u"
      "m_Provider u = m_Provider m" "m_ProviderMessageID u = m_ProviderMessageID m"
    and rows: "messages (store w') = map (\<lambda>x. if has_key (m_WorkspaceID m) (m_ID m) x
      then u\<lparr>m_CreatedAt := m_CreatedAt x\<rparr> else x) (messages (store w))"
    unfolding event_done_def by auto
  let ?g = "\<lambda>x. if has_key (m_WorkspaceID m) (m_ID m) x then u\<lparr>m_CreatedAt := m_CreatedAt x\<rparr> else x"
  have mem: "m \<in> set (messages (store w))" using target_row_key [OF dist m] by simp
  have same: "x = m" if "x \<in> set (messages (store w))" "m_ID x = m_ID m" for x
    using that mem dist by (auto simp: distinct_map inj_on_def)
  have find: "find Q (messages (store w')) = map_option ?g (find Q (messages (store w)))"
    if "\<And>x. Q (u\<lparr>m_CreatedAt := x\<rparr>) = Q m" for Q
    unfolding rows by (rule find_map_on) (auto dest!: same simp: that)
  have ws: "m_WorkspaceID (?g x) = m_WorkspaceID x" for x using u(2) by simp
  have "target_row input (messages (store w')) = map_option ?g (target_row input (messages (store w)))"
    using u ws unfolding target_row_def by (simp add: find split: option.split)
  with m u show ?thesis by simp
qed

lemma pe_Execute_handled:
  assumes run: "run_state (pe_Execute P input) w = (Inr res, w')" and handled: "per_Handled res"
    and dist: "distinct (map m_ID (messages (store w)))"
  obtains t m where "ClassifyProviderEvent (pe_EventType input) = Some t" and "pe_Provider input \<noteq> []"
    and "target_row input (messages (store w)) = Some m"
    and "per_WorkspaceID res = m_WorkspaceID m" "per_MessageID res = m_ID m" "per_PreviousStatus res = m_Status m"
    and "(\<not> CanTransitionToStatus (m_Status m) t \<or> m_Status m = t) \<and> store w' = store w \<and>
        per_NewStatus res = m_Status m \<and> per_SuppressionEntryID res = [] \<or>
      CanTransitionToStatus (m_Status m) t \<and> m_Status m \<noteq> t \<and> per_NewStatus res = t \<and>
        event_done t m (per_SuppressionCreated res, per_SuppressionEntryID res) w w'"
proof -
  from run handled obtain t where ty: "ClassifyProviderEvent (pe_EventType input) = Some t"
    and prov: "pe_Provider input \<noteq> []"
    by (auto simp: pe_Execute_def ignored_result_def split: if_splits option.splits)
  obtain x v where R: "run_state (resolve input) w = (x, v)" by fastforce
  note sv = resolve_store [OF R]
  from run handled R ty obtain m where x: "x = Inr (Some m)"
    by (auto simp: pe_Execute_def ignored_result_def split: if_splits option.splits sum.splits)
  have m: "target_row input (messages (store w)) = Some m" using resolve_Inr [OF R [unfolded x] prov] by simp
  show thesis
  proof (cases "\<not> CanTransitionToStatus (m_Status m) t \<or> m_Status m = t")
    case True
    with run R x ty sv handled have "res = handled_result m (m_Status m) (False, [])" "store w' = store w"
      by (auto simp: pe_Execute_def split: if_splits)
    with that [OF ty prov m] True show thesis by (auto simp: handled_result_def)
  next
    case False
    with run R x ty obtain spr where T: "run_state (pe_transaction P input t m) v = (Inr spr, w')"
      and res: "res = handled_result m t spr"
      by (auto simp: pe_Execute_def run_bindE split: if_splits sum.splits prod.splits)
    have "find (has_key (m_WorkspaceID m) (m_ID m)) (messages (store v)) = Some m"
      using target_row_key(2) [OF dist m] sv by simp
    from pe_transaction_done [OF T ty this] False have "event_done t m spr v w'" by simp
    then have "event_done t m spr w w'" using sv by (simp add: event_done_def)
    with that [OF ty prov m] False res show thesis by (auto simp: handled_result_def)
  qed
qed

section \<open>Properties\<close>

text \<open>A bounce for a message that was accepted, run on a concrete world.\<close>

abbreviation sample_event :: ProviderEventInput where
  "sample_event \<equiv> \<lparr>pe_EventID = ''e1'', pe_NormalizedEventID = ''n1'', pe_RawEventID = [], pe_WorkspaceID = ''w1'',
     pe_MessageID = ''m1'', pe_Provider = ''smtp'', pe_ProviderEventID = [], pe_ProviderMessageID = [],
     pe_EventType = ''bounced'', pe_OccurredAt = 6, pe_ReceivedAt = 7\<rparr>"

abbreviation accepted_world :: delivery_world where
  "accepted_world \<equiv> plain_world (empty_db\<lparr>messages := [(sample_message ''m1'')\<lparr>m_Status := ''accepted''\<rparr>]\<rparr>)"

lemma sample_event_run:
  "\<exists>res w'. run_state (pe_Execute sample_ports sample_event) accepted_world = (Inr res, w') \<and>
     per_Handled res \<and> per_SuppressionEntryID res \<noteq> [] \<and> per_NewStatus res = ''bounced''"
  by (simp add: pe_Execute_def IsZero_def ClassifyProviderEvent_def resolve_def FindByID_def find_row_def run_bindE run_thenE
      zero_Message_def CanTransitionToStatus_def pe_transaction_def WithinTx_def pe_body_def FindByIDForUpdate_def
      apply_event_def pe_effects_def Message_Update_def update_row_keys_def affected_def set_message_def pe_after_def
      writeMessageEvent_def pe_writeEvent_def Event_Create_def pe_count_def pe_suppress_def SuppressFromSignal_def
      CreateSystemHandler_def ValidSuppressionScope_def ValidSuppressionReason_def suppression_input_def
      FindActiveByEmail_def order_desc_def Supp_Create_def publish_def save_event_def NewEnvelope_def Validate_def
      TrimSpace_def is_space_def Marshal_def Outbox_Save_def handled_result_def Let_def)

text \<open>
  Claim C6. A provider event moves at most the message it is about, and only along the table of allowed
  transitions: whatever fails, every row is unchanged or went from a status that allows the target to
  the target of the event, so that nothing leaves a terminal status except from delivered to
  complained. No event hands over a mail or schedules a retry.
\<close>

theorem provider_event_transitions:
  assumes run: "run_state (pe_Execute P input) w = (r, w')"
    and dist: "distinct (map m_ID (messages (store w)))"
  shows "handed w' = handed w \<and> retries (store w') = retries (store w) \<and>
    (\<exists>i. list_all2 (\<lambda>m m'. m' = m \<or> m_ID m = i \<and> m_ID m' = i \<and>
        ClassifyProviderEvent (pe_EventType input) = Some (m_Status m') \<and>
        CanTransitionToStatus (m_Status m) (m_Status m') \<and> m_Status m' \<noteq> m_Status m \<and>
        (IsTerminal m \<longrightarrow> m_Status m = ''delivered'' \<and> m_Status m' = ''complained''))
      (messages (store w)) (messages (store w')))"
proof -
  define R where "R i m m' \<longleftrightarrow> m' = m \<or> m_ID m = i \<and> m_ID m' = i \<and>
      ClassifyProviderEvent (pe_EventType input) = Some (m_Status m') \<and>
      CanTransitionToStatus (m_Status m) (m_Status m') \<and> m_Status m' \<noteq> m_Status m \<and>
      (IsTerminal m \<longrightarrow> m_Status m = ''delivered'' \<and> m_Status m' = ''complained'')" for i m m'
  note c = pe_Execute_cases [OF run]
  then have "\<exists>i. list_all2 (R i) (messages (store w)) (messages (store w'))"
  proof (elim conjE disjE exE)
    assume "store w' = store w"
    then show ?thesis by (auto simp: R_def intro!: list.rel_refl)
  next
    fix t current
    assume ty: "ClassifyProviderEvent (pe_EventType input) = Some t" and cur: "current \<in> set (messages (store w))"
      and can: "CanTransitionToStatus (m_Status current) t" "m_Status current \<noteq> t"
      and mv: "moves (m_WorkspaceID current) (m_ID current) {t} (store w) (store w')"
    have only: "x = current" if "x \<in> set (messages (store w))" "m_ID x = m_ID current" for x
      using that cur dist by (auto simp: distinct_map inj_on_def)
    from mv ty can terminal_transition [of current t] show ?thesis
      unfolding moves_def R_def
      by (intro exI [of _ "m_ID current"]) (erule list.rel_mono_strong, auto dest: only)
  qed
  with c show ?thesis unfolding R_def by blast
qed

theorem provider_event_transitions_witness:
  "\<exists>r w'. run_state (pe_Execute sample_ports sample_event) accepted_world = (r, w') \<and> handed w' = []"
proof -
  obtain r w' where run: "run_state (pe_Execute sample_ports sample_event) accepted_world = (r, w')" by fastforce
  from provider_event_transitions [OF run] run show ?thesis by auto
qed

text \<open>
  Claim C7. Provider events arrive at least once; a second copy has no effect. After an event was handled,
  handling it again, whatever fails this time, leaves the database as it is, and if it answers
  it reports that the status did not change and that no suppression was created.
\<close>

theorem provider_event_idempotent:
  assumes run: "run_state (pe_Execute P input) w = (Inr res, w')" and handled: "per_Handled res"
    and dist: "distinct (map m_ID (messages (store w)))"
    and again: "run_state (pe_Execute P2 input) (w'\<lparr>outcomes := xs\<rparr>) = (r2, w2)"
  shows "store w2 = store w' \<and> suppressions w2 = suppressions w' \<and>
    (\<forall>res2. r2 = Inr res2 \<longrightarrow> per_NewStatus res2 = per_PreviousStatus res2 \<and> \<not> per_SuppressionCreated res2)"
proof -
  from pe_Execute_handled [OF run handled dist] obtain t m where ty: "ClassifyProviderEvent (pe_EventType input) = Some t"
    and prov: "pe_Provider input \<noteq> []" and m: "target_row input (messages (store w)) = Some m"
    and cases: "(\<not> CanTransitionToStatus (m_Status m) t \<or> m_Status m = t) \<and> store w' = store w \<or>
      event_done t m (per_SuppressionCreated res, per_SuppressionEntryID res) w w'"
    by metis
  have stuck: "\<exists>m'. target_row input (messages (store w')) = Some m' \<and> (\<not> CanTransitionToStatus (m_Status m') t \<or> m_Status m' = t)"
    using cases m target_row_done [OF dist m] by metis
  obtain x v where R: "run_state (resolve input) (w'\<lparr>outcomes := xs\<rparr>) = (x, v)" by fastforce
  have v: "store v = store w'" "suppressions v = suppressions w'"
    using resolve_store [OF R] quiet_resolve [of "[]" "[]" "{}", THEN state_io_relD, OF R] by (auto dest: quiet_noneD)
  have "x = Inr y \<Longrightarrow> y = target_row input (messages (store w'))" for y
    using resolve_Inr [of input "w'\<lparr>outcomes := xs\<rparr>" y v] R prov by simp
  with stuck have "(\<exists>e. x = Inl e) \<or> (\<exists>m'. x = Inr (Some m') \<and> (\<not> CanTransitionToStatus (m_Status m') t \<or> m_Status m' = t))"
    by (cases x) auto
  with again R ty v show ?thesis
    by (auto simp: pe_Execute_def ignored_result_def handled_result_def split: if_splits)
qed

theorem provider_event_idempotent_witness:
  "\<exists>res w' r2 w2. run_state (pe_Execute sample_ports sample_event) accepted_world = (Inr res, w') \<and>
     per_NewStatus res = ''bounced'' \<and>
     run_state (pe_Execute sample_ports sample_event) (w'\<lparr>outcomes := []\<rparr>) = (r2, w2) \<and> store w2 = store w'"
proof -
  obtain res w' where run: "run_state (pe_Execute sample_ports sample_event) accepted_world = (Inr res, w')"
    "per_Handled res" "per_NewStatus res = ''bounced''" using sample_event_run by blast
  obtain r2 w2 where again: "run_state (pe_Execute sample_ports sample_event) (w'\<lparr>outcomes := []\<rparr>) = (r2, w2)" by fastforce
  from provider_event_idempotent [OF run(1,2) _ again] run again show ?thesis by auto
qed

text \<open>
  Claim C5. A bounce or complaint keeps later mail away until it is lifted, across the two modules: when the handler of a
  provider event reports a suppression entry, then in every later state in which the active entries of the
  workspace for this address have not been removed, no message of the workspace to the address is sent, whatever faults
  occur and whatever else has changed.
\<close>

theorem bounce_stops_mail:
  assumes run: "run_state (pe_Execute P input) w = (Inr res, w')" and handled: "per_Handled res"
    and entry: "per_SuppressionEntryID res \<noteq> []"
    and dist: "distinct (map m_ID (messages (store w)))"
    and msg: "m \<in> set (messages (store w))" "m_ID m = per_MessageID res"
      "m_RecipientEmailNormalized m \<noteq> []" "m_WorkspaceID m \<noteq> []"
    and later: "\<forall>e \<in> actives (suppressions w'). s_WorkspaceID e = m_WorkspaceID m \<and>
      s_EmailNormalized e = m_RecipientEmailNormalized m \<longrightarrow> e \<in> set (suppressions w2)"
    and other: "m_WorkspaceID n = m_WorkspaceID m" "m_RecipientEmailNormalized n = m_RecipientEmailNormalized m"
    and process: "run_state (processMessage P2 n now) w2 = (r, w3)"
  shows "handed w3 = handed w2"
proof (rule ccontr)
  assume mail: "handed w3 \<noteq> handed w2"
  from pe_Execute_handled [OF run handled dist] entry obtain t m' where
    m': "target_row input (messages (store w)) = Some m'" "per_MessageID res = m_ID m'"
    and don: "event_done t m' (per_SuppressionCreated res, per_SuppressionEntryID res) w w'"
    by metis
  have "m' = m" using target_row_key(1) [OF dist m'(1)] m'(2) msg(1,2) dist by (auto simp: distinct_map inj_on_def)
  with don entry msg(3) have "suppressed (m_WorkspaceID m) (m_RecipientEmailNormalized m) w'" by (simp add: event_done_def)
  with later have "suppressed (m_WorkspaceID m) (m_RecipientEmailNormalized m) w2"
    by (auto simp: suppressed_def actives_def)
  with processMessage_checks [OF process mail] msg(3,4) other show False by simp
qed

theorem bounce_stops_mail_witness:
  "\<exists>w' r w3. run_state (processMessage sample_ports ((sample_message ''m2'')) 9) w' = (r, w3) \<and>
     suppressions w' \<noteq> [] \<and> handed w3 = handed w'"
proof -
  obtain res w' where run: "run_state (pe_Execute sample_ports sample_event) accepted_world = (Inr res, w')"
    "per_Handled res" "per_SuppressionEntryID res \<noteq> []" using sample_event_run by blast
  obtain r w3 where process: "run_state (processMessage sample_ports (sample_message ''m2'') 9) w' = (r, w3)" by fastforce
  have "per_MessageID res = ''m1''" and "suppressed ''w1'' ''a@x.io'' w'"
    by (rule pe_Execute_handled [OF run(1,2)], simp, use run(3) in \<open>auto simp: target_row_def event_done_def split: if_splits\<close>)+
  with bounce_stops_mail [OF run, of "(sample_message ''m1'')\<lparr>m_Status := ''accepted''\<rparr>" w' "sample_message ''m2''"
      sample_ports 9 r w3] process
  show ?thesis by (intro exI [of _ w'] exI [of _ r] exI [of _ w3]) (auto simp: suppressed_def actives_def)
qed

end
