(* ===== verification/Delivery_Limits.thy ===== *)
theory Delivery_Limits
  imports Delivery_Signals
begin

text \<open>
  Bounds and counters: the delay before a retry, the size of a batch, and the counters of a
  transactional request.
\<close>

section \<open>Retry delays\<close>

lemma retry_delay_base:
  assumes "0 \<le> k"
  shows "min (of_int baseRetryDelay * 2 powi k) (of_int maxRetryDelay) = (of_int (min (minute * 2 ^ nat k) hour) :: rat)"
  using assms by (simp add: baseRetryDelay_def maxRetryDelay_def power_int_def of_int_min)

lemma retry_delay_bounds_aux:
  assumes "0 \<le> r" and "r < 1" and "0 \<le> k"
  defines "base \<equiv> min (minute * 2 ^ nat k) hour"
  shows "base \<le> computeRetryDelay r k" and "10 * computeRetryDelay r k < 11 * base"
proof -
  let ?b = "of_int base :: rat"
  have pos: "0 < base" by (simp add: base_def)
  have d: "computeRetryDelay r k = \<lfloor>?b + r * ?b * (1 / 10)\<rfloor>"
    unfolding computeRetryDelay_def Let_def retry_delay_base [OF assms(3)] base_def ..
  have "0 \<le> r * ?b * (1 / 10)" using assms(1) pos by simp
  then show "base \<le> computeRetryDelay r k" unfolding d by (simp add: le_floor_iff)
  have "r * ?b < 1 * ?b" using assms(2) pos by (intro mult_strict_right_mono) simp_all
  moreover have "of_int (computeRetryDelay r k) \<le> ?b + r * ?b * (1 / 10)" unfolding d by (rule of_int_floor_le)
  ultimately have "10 * of_int (computeRetryDelay r k) < 11 * ?b" by simp
  then have "(of_int (10 * computeRetryDelay r k) :: rat) < of_int (11 * base)" by simp
  then show "10 * computeRetryDelay r k < 11 * base" by (simp only: of_int_less_iff)
qed

text \<open>
  The delay before a retry is the base delay, doubled per retry and capped at an hour, plus
  less than a tenth of it, whatever the random source returns. For the counts the worker uses (below
  the maximum number of retries) the cap is never reached, and each delay is longer than the one before.
\<close>

lemma retry_delay_bounds:
  assumes "0 \<le> r" and "r < 1" and "0 \<le> r'" and "r' < 1" and "0 \<le> k"
  shows "min (minute * 2 ^ nat k) hour \<le> computeRetryDelay r k \<and>
    10 * computeRetryDelay r k < 11 * min (minute * 2 ^ nat k) hour \<and>
    (k < DefaultMaxRetries \<longrightarrow> computeRetryDelay r k < maxRetryDelay \<and>
       computeRetryDelay r k < computeRetryDelay r' (k + 1))"
proof -
  note d = retry_delay_bounds_aux [OF assms(1,2,5)]
  have "0 \<le> k + 1" using assms(5) by simp
  note d' = retry_delay_bounds_aux(1) [OF assms(3,4) this]
  have "computeRetryDelay r k < maxRetryDelay \<and> computeRetryDelay r k < computeRetryDelay r' (k + 1)"
    if "k < DefaultMaxRetries"
  proof -
    have "k \<in> {0, 1, 2, 3, 4}" using that assms(5) by (auto simp: DefaultMaxRetries_def)
    with d d' show ?thesis by (elim insertE emptyE) (simp_all add: maxRetryDelay_def)
  qed
  with d show ?thesis by blast
qed

section \<open>Counters of a request\<close>

text \<open>Recipients of a request are counted one after the other, each with its outcome and time.\<close>

fun count_all :: "(bool \<times> gotime) list \<Rightarrow> request_row \<Rightarrow> request_row" where
  "count_all [] q = q"
| "count_all ((s, now) # os) q = count_all os (count_recipient s now q)"

lemma count_all_totals:
  "q_recipient_terminal_total (count_all os q) = q_recipient_terminal_total q + int (length os) \<and>
   q_recipient_success_total (count_all os q) = q_recipient_success_total q + int (length (filter fst os)) \<and>
   q_recipient_failure_total (count_all os q) = q_recipient_failure_total q + int (length (filter (\<lambda>o'. \<not> fst o') os)) \<and>
   q_TotalRecipients (count_all os q) = q_TotalRecipients q"
  by (induction os q rule: count_all.induct) (auto simp: count_recipient_def Let_def)

lemma count_all_status:
  "q_Status (count_all os q) =
     (if os \<noteq> [] \<and> q_TotalRecipients q \<le> q_recipient_terminal_total q + int (length os) then ''completed'' else q_Status q)"
proof (induction os q rule: count_all.induct)
  case (2 s now os q)
  then show ?case by (auto simp: count_recipient_def Let_def)
qed simp

text \<open>
  The counters of a transactional request add up: counting the recipients of a request whose
  counters agree keeps successes and failures adding up to the number counted, counts each recipient
  once, and the request is completed from the moment all its recipients are counted and not before.
\<close>

lemma request_counters_add_up:
  fixes outs :: "(bool \<times> gotime) list"
  assumes "q_recipient_terminal_total q = q_recipient_success_total q + q_recipient_failure_total q"
    and "q_recipient_terminal_total q < q_TotalRecipients q" and "q_Status q \<noteq> ''completed''"
  defines "q' \<equiv> count_all outs q"
  shows "q_recipient_terminal_total q' = q_recipient_success_total q' + q_recipient_failure_total q' \<and>
    q_recipient_terminal_total q' = q_recipient_terminal_total q + int (length outs) \<and>
    (q_Status q' = ''completed'' \<longleftrightarrow> q_TotalRecipients q' \<le> q_recipient_terminal_total q')"
proof -
  have "length (filter fst outs) + length (filter (\<lambda>x. \<not> fst x) outs) = length outs"
    by (rule sum_length_filter_compl)
  then have "int (length (filter fst outs)) + int (length (filter (\<lambda>x. \<not> fst x) outs)) = int (length outs)"
    by (metis of_nat_add)
  with assms(1-3) count_all_totals [of outs q] count_all_status [of outs q] show ?thesis
    unfolding q'_def by auto
qed

abbreviation sample_request :: "int \<Rightarrow> request_row" where
  "sample_request n \<equiv> TransactionalSendRequest.extend
     \<lparr>q_ID = ''q1'', q_WorkspaceID = ''w1'', q_IdempotencyKey = None, q_Status = ''accepted'',
      q_RequestPayload = zero_CanonicalSendRequest, q_Mode = [], q_Subject = [], q_SenderName = [],
      q_SourceAPIKeyID = [], q_RequestHash = [], q_TotalRecipients = n,
      q_CreatedAt = 1, q_UpdatedAt = 1, q_CompletedAt = None, q_FailedAt = None\<rparr> (request_row.fields 0 0 0)"

text \<open>
  A request with two recipients: the first message was accepted, the second is still queued.
\<close>

definition two_recipients :: delivery_world where
  "two_recipients = plain_world (empty_db\<lparr>
     messages := [(sample_message ''m1'')\<lparr>m_Status := ''accepted'', m_TransactionalRequestID := ''q1'',
         m_Provider := ''smtp'', m_ProviderMessageID := ''p1''\<rparr>,
       (sample_message ''m2'')\<lparr>m_TransactionalRequestID := ''q1''\<rparr>],
     requests := [sample_request 2]\<rparr>)"

lemmas run_pe = pe_Execute_def IsZero_def ClassifyProviderEvent_def resolve_def FindByID_def find_row_def run_bindE run_thenE
      zero_Message_def CanTransitionToStatus_def IsTerminal_def pe_transaction_def WithinTx_def pe_body_def FindByIDForUpdate_def
      apply_event_def pe_effects_def Message_Update_def update_row_keys_def row_conflict_def affected_def set_message_def
      pe_after_def writeMessageEvent_def pe_writeEvent_def Event_Create_def pe_count_def UpdateAggregates_def
      request_affected_def set_request_def count_recipient_def pe_suppress_def SuppressFromSignal_def
      CreateSystemHandler_def ValidSuppressionScope_def ValidSuppressionReason_def suppression_input_def
      FindActiveByEmail_def order_desc_def Supp_Create_def publish_def save_event_def NewEnvelope_def Validate_def
      TrimSpace_def is_space_def Marshal_def Outbox_Save_def handled_result_def Let_def
      TransactionalSendRequest.extend_def request_row.fields_def

text \<open>
  A defect of the counting: a complaint about a message that was delivered counts its recipient a
  second time. Here a request with two recipients is completed after a delivery and a complaint for the first
  message, while the second message is still queued.
\<close>

lemma complaint_counted_twice:
  "\<exists>res w1. run_state (pe_Execute sample_ports (sample_event\<lparr>pe_EventType := ''delivered''\<rparr>)) two_recipients = (Inr res, w1) \<and>
     map q_recipient_terminal_total (requests (store w1)) = [1] \<and>
     (\<exists>res2 w2. run_state (pe_Execute sample_ports (sample_event\<lparr>pe_EventType := ''complained''\<rparr>)) w1 = (Inr res2, w2) \<and>
        map q_recipient_terminal_total (requests (store w2)) = [2] \<and>
        map q_Status (requests (store w2)) = [''completed''] \<and>
        map m_Status (messages (store w2)) = [''complained'', ''queued''])"
  by (simp add: two_recipients_def run_pe)

end
