(* ===== verification/Campaign.thy ===== *)
theory Campaign
  imports World Events Pagination
begin

text \<open>
  The campaign module: \<open>internal/modules/campaign\<close> with its domain (\<open>domain/campaign.go\<close>), its PostgreSQL
  repository, the commands on a campaign (\<open>app/draft\<close>) and the queries (\<open>app/read\<close>). The tables are
  lists of rows. What the module asks of other modules is the record \<open>campaign_ports\<close>. Fields carry a
  prefix: \<open>cp_\<close> for \<open>Campaign\<close>, \<open>cc_\<close> for \<open>CampaignMessageCandidate\<close>, \<open>ar_\<close> for \<open>AudienceRef\<close>.
\<close>

section \<open>Domain\<close>

datatype camp_error =
    CampReadDenied
  | CampWriteDenied
  | CampSendDenied
  | CampCampaignNotFound
  | CampPayloadInvalid
  | CampAudienceNotReady
  | CampSenderNotVerified
  | CampTemplatePublishRequired
  | CampInvalidStateTransition
  | CampCandidateNotFound

record AudienceRef =
  ar_Type :: string
  ar_ID :: string
  ar_ContactIDs :: "string list"

record TemplateRef =
  tr_TemplateID :: string
  tr_TemplateVersionID :: string

record Campaign =
  cp_ID :: string
  cp_WorkspaceID :: string
  cp_Name :: string
  cp_Status :: string
  cp_AudienceRef :: AudienceRef
  cp_TemplateRef :: TemplateRef
  cp_SenderDomainID :: string
  cp_MessageType :: string
  cp_ScheduledAt :: "gotime option"
  cp_PlannedRecipients :: int
  cp_CreatedAt :: gotime
  cp_UpdatedAt :: gotime
  cp_CancelledAt :: "gotime option"
  cp_PausedAt :: "gotime option"
  cp_CompletedAt :: "gotime option"

record CampaignSnapshot =
  sn_ContactID :: string
  sn_Email :: string
  sn_EmailNormalized :: string
  sn_FirstName :: string
  sn_LastName :: string
  sn_Tags :: "string list"
  sn_Attributes :: "jsonmap option"

record CampaignMessageCandidate =
  cc_ID :: string
  cc_WorkspaceID :: string
  cc_CampaignID :: string
  cc_ContactID :: string
  cc_EmailNormalized :: string
  cc_RecipientSnapshot :: CampaignSnapshot
  cc_Status :: string
  cc_CreatedAt :: gotime
  cc_UpdatedAt :: gotime

definition CampaignStatusDraft :: string where [simp]: "CampaignStatusDraft = ''draft''"
definition CampaignStatusScheduled :: string where [simp]: "CampaignStatusScheduled = ''scheduled''"
definition CampaignStatusRunning :: string where [simp]: "CampaignStatusRunning = ''running''"
definition CampaignStatusPaused :: string where [simp]: "CampaignStatusPaused = ''paused''"
definition CampaignStatusCancelled :: string where [simp]: "CampaignStatusCancelled = ''cancelled''"
definition CampaignStatusCompleted :: string where [simp]: "CampaignStatusCompleted = ''completed''"

definition AudienceTypeContacts :: string where [simp]: "AudienceTypeContacts = ''contacts''"
definition AudienceTypeList :: string where [simp]: "AudienceTypeList = ''list''"
definition AudienceTypeSegment :: string where [simp]: "AudienceTypeSegment = ''segment''"

definition ValidCampaignStatus :: "string \<Rightarrow> bool" where
  "ValidCampaignStatus s \<longleftrightarrow>
     s \<in> set [CampaignStatusDraft, CampaignStatusScheduled, CampaignStatusRunning,
       CampaignStatusPaused, CampaignStatusCancelled, CampaignStatusCompleted]"

definition ValidAudienceType :: "string \<Rightarrow> bool" where
  "ValidAudienceType s \<longleftrightarrow> s \<in> set [AudienceTypeContacts, AudienceTypeList, AudienceTypeSegment]"

definition Campaign_ValidMessageType :: "string \<Rightarrow> bool" where
  "Campaign_ValidMessageType s \<longleftrightarrow> s \<in> set [''marketing'', ''transactional'']"

definition ValidCandidateStatus :: "string \<Rightarrow> bool" where
  "ValidCandidateStatus s \<longleftrightarrow> s \<in> set [''planned'', ''queued'', ''skipped'']"

text \<open>The validators return \<open>None\<close> where the Go functions return nil.\<close>

definition ValidateCampaignName :: "string \<Rightarrow> camp_error option" where
  "ValidateCampaignName name = (if TrimSpace name = [] then Some CampPayloadInvalid else None)"

definition ValidateAudienceRef :: "AudienceRef \<Rightarrow> camp_error option" where
  "ValidateAudienceRef ref =
     (if ar_Type ref = AudienceTypeContacts then if ar_ContactIDs ref = [] then Some CampAudienceNotReady else None
      else if ar_Type ref = AudienceTypeList then if ar_ID ref = [] then Some CampPayloadInvalid else None
      else if ar_Type ref = AudienceTypeSegment then if ar_ID ref = [] then Some CampPayloadInvalid else None
      else Some CampPayloadInvalid)"

definition CanUpdateDraft :: "Campaign \<Rightarrow> bool" where
  "CanUpdateDraft c \<longleftrightarrow> cp_Status c = CampaignStatusDraft"

definition CanSchedule :: "Campaign \<Rightarrow> bool" where
  "CanSchedule c \<longleftrightarrow> cp_Status c = CampaignStatusDraft"

definition CanPause :: "Campaign \<Rightarrow> bool" where
  "CanPause c \<longleftrightarrow> cp_Status c = CampaignStatusScheduled \<or> cp_Status c = CampaignStatusRunning"

definition CanResume :: "Campaign \<Rightarrow> bool" where
  "CanResume c \<longleftrightarrow> cp_Status c = CampaignStatusPaused"

definition CanCancel :: "Campaign \<Rightarrow> bool" where
  "CanCancel c \<longleftrightarrow> cp_Status c = CampaignStatusDraft \<or> cp_Status c = CampaignStatusScheduled \<or>
     cp_Status c = CampaignStatusPaused"

section \<open>Repository\<close>

record campaign_db =
  campaigns :: "Campaign list"
  candidates :: "CampaignMessageCandidate list"
  c_outbox :: "OutboxEvent list"

type_synonym campaign_world = "campaign_db world"
type_synonym 'a cprog = "(campaign_world, (camp_error, 'a) result) state"

abbreviation campaign_key :: "string \<Rightarrow> string \<Rightarrow> Campaign \<Rightarrow> bool" where
  "campaign_key ws cid c \<equiv> cp_ID c = cid \<and> cp_WorkspaceID c = ws"

abbreviation candidate_of :: "string \<Rightarrow> string \<Rightarrow> CampaignMessageCandidate \<Rightarrow> bool" where
  "candidate_of ws cid cand \<equiv> cc_WorkspaceID cand = ws \<and> cc_CampaignID cand = cid"

definition Campaign_FindByID :: "string \<Rightarrow> string \<Rightarrow> Campaign cprog" where
  "Campaign_FindByID workspaceID campaignID = exec (\<lambda>d. SqlOk
     (case find (campaign_key workspaceID campaignID) (campaigns d) of
        None \<Rightarrow> Inl (Err CampCampaignNotFound) | Some c \<Rightarrow> Inr c) d)"

record CampaignListQuery =
  cl_WorkspaceID :: string
  cl_Status :: string
  cl_SenderDomainID :: string
  cl_TemplateID :: string
  cl_Limit :: int
  cl_Cursor :: string

definition campaign_where :: "CampaignListQuery \<Rightarrow> Campaign \<Rightarrow> bool" where
  "campaign_where query c \<longleftrightarrow>
     cp_WorkspaceID c = cl_WorkspaceID query \<and>
     (cl_Status query \<noteq> [] \<longrightarrow> cp_Status c = cl_Status query) \<and>
     (cl_SenderDomainID query \<noteq> [] \<longrightarrow> cp_SenderDomainID c = cl_SenderDomainID query) \<and>
     (cl_TemplateID query \<noteq> [] \<longrightarrow> tr_TemplateID (cp_TemplateRef c) = cl_TemplateID query)"

definition campaign_limit :: "int \<Rightarrow> nat" where
  "campaign_limit l = nat (if l \<le> 0 then DefaultPageSize else l)"

definition campaign_order :: "Campaign \<Rightarrow> gotime \<times> string" where
  "campaign_order c = (cp_CreatedAt c, cp_ID c)"

definition Campaign_List :: "CampaignListQuery \<Rightarrow> (Campaign list \<times> string) cprog" where
  "Campaign_List query = exec (\<lambda>d. SqlOk (Inr
     (list_page campaign_order cp_ID (campaign_where query) (campaign_limit (cl_Limit query)) (cl_Cursor query)
        (campaigns d))) d)"

record CandidateListQuery =
  dl_WorkspaceID :: string
  dl_CampaignID :: string
  dl_Status :: string
  dl_Limit :: int
  dl_Cursor :: string

definition candidate_where :: "CandidateListQuery \<Rightarrow> CampaignMessageCandidate \<Rightarrow> bool" where
  "candidate_where query cand \<longleftrightarrow>
     candidate_of (dl_WorkspaceID query) (dl_CampaignID query) cand \<and>
     (dl_Status query \<noteq> [] \<longrightarrow> cc_Status cand = dl_Status query)"

definition candidate_order :: "CampaignMessageCandidate \<Rightarrow> gotime \<times> string" where
  "candidate_order cand = (cc_CreatedAt cand, cc_ID cand)"

definition candidate_page ::
  "CandidateListQuery \<Rightarrow> CampaignMessageCandidate list \<Rightarrow> CampaignMessageCandidate list \<times> string" where
  "candidate_page query rows =
     list_page candidate_order cc_ID (candidate_where query) (campaign_limit (dl_Limit query)) (dl_Cursor query) rows"

definition Campaign_ListCandidates :: "CandidateListQuery \<Rightarrow> (CampaignMessageCandidate list \<times> string) cprog" where
  "Campaign_ListCandidates query = exec (\<lambda>d. SqlOk (Inr (candidate_page query (candidates d))) d)"

definition candidate_count :: "string \<Rightarrow> string \<Rightarrow> CampaignMessageCandidate list \<Rightarrow> int" where
  "candidate_count ws cid rows = int (length (filter (candidate_of ws cid) rows))"

definition Campaign_CountCandidates :: "string \<Rightarrow> string \<Rightarrow> int cprog" where
  "Campaign_CountCandidates workspaceID campaignID = exec (\<lambda>d. SqlOk (Inr
     (candidate_count workspaceID campaignID (candidates d))) d)"

definition Campaign_Create :: "Campaign \<Rightarrow> unit cprog" where
  "Campaign_Create c = exec (\<lambda>d.
     if list_ex (\<lambda>r. cp_ID r = cp_ID c) (campaigns d) then SqlErr ErrDriver
     else SqlOk (Inr ()) (d\<lparr>campaigns := campaigns d @ [c]\<rparr>))"

text \<open>Every column but the key and \<open>created_at\<close> is written.\<close>

definition Campaign_Update :: "Campaign \<Rightarrow> unit cprog" where
  "Campaign_Update c = exec (\<lambda>d.
     let hit = campaign_key (cp_WorkspaceID c) (cp_ID c) in
     SqlOk (if list_ex hit (campaigns d) then Inr () else Inl (Err CampCampaignNotFound))
       (d\<lparr>campaigns := map (\<lambda>row. if hit row then c\<lparr>cp_CreatedAt := cp_CreatedAt row\<rparr> else row) (campaigns d)\<rparr>))"

text \<open>
  Two statements: a \<open>DELETE\<close> and one \<open>INSERT\<close>, refused on a duplicate id or contact. The \<open>INSERT\<close> has nine
  parameters per candidate, and PostgreSQL's protocol counts the parameters of a statement in 16 bits.
\<close>

definition candidate_clash :: "CampaignMessageCandidate \<Rightarrow> CampaignMessageCandidate \<Rightarrow> bool" where
  "candidate_clash a b \<longleftrightarrow>
     cc_ID a = cc_ID b \<or> cc_CampaignID a = cc_CampaignID b \<and> cc_ContactID a = cc_ContactID b"

fun clash_free :: "CampaignMessageCandidate list \<Rightarrow> bool" where
  "clash_free [] = True"
| "clash_free (a # as) = (\<not> list_ex (candidate_clash a) as \<and> clash_free as)"

definition insertable :: "CampaignMessageCandidate list \<Rightarrow> bool" where
  "insertable as \<longleftrightarrow> clash_free as \<and> 9 * int (length as) \<le> 65535"

definition delete_candidates :: "string \<Rightarrow> string \<Rightarrow> unit cprog" where
  "delete_candidates ws cid = exec (\<lambda>d. SqlOk (Inr ())
     (d\<lparr>candidates := filter (\<lambda>a. \<not> candidate_of ws cid a) (candidates d)\<rparr>))"

definition insert_candidates :: "CampaignMessageCandidate list \<Rightarrow> unit cprog" where
  "insert_candidates as = exec (\<lambda>d.
     if \<not> insertable as \<or> list_ex (\<lambda>a. list_ex (candidate_clash a) (candidates d)) as then SqlErr ErrDriver
     else SqlOk (Inr ()) (d\<lparr>candidates := candidates d @ as\<rparr>))"

definition ReplaceCandidates :: "string \<Rightarrow> string \<Rightarrow> CampaignMessageCandidate list \<Rightarrow> unit cprog" where
  "ReplaceCandidates workspaceID campaignID as =
     thenE (delete_candidates workspaceID campaignID)
       (if as = [] then ret (Inr ()) else insert_candidates as)"

definition Campaign_Outbox_Save :: "OutboxEvent \<Rightarrow> unit cprog" where
  "Campaign_Outbox_Save event = exec (\<lambda>d.
     if list_ex (\<lambda>e. o_ID e = o_ID event) (c_outbox d) then SqlErr ErrDriver
     else SqlOk (Inr ()) (d\<lparr>c_outbox := c_outbox d @ [event]\<rparr>))"

section \<open>Ports\<close>

record AudienceSelectionRef =
  as_ListID :: string
  as_SegmentID :: string
  as_ContactIDs :: "string list"

record Recipient =
  rc_ContactID :: string
  rc_Email :: string
  rc_EmailNormalized :: string
  rc_FirstName :: string
  rc_LastName :: string
  rc_Tags :: "string list"
  rc_Attributes :: "jsonmap option"

text \<open>
  \<open>k_perm\<close>: the answer of the access checker for a workspace, a user and a permission; \<open>k_ready\<close>: the sender
  module's readiness (a nil answer is False); \<open>k_version\<close>: the id of the published version of a template;
  \<open>k_renderable\<close>: whether it can be rendered; \<open>k_resolve\<close>: the audience module's recipients.
\<close>

record campaign_ports =
  k_gen :: "nat \<Rightarrow> string"
  k_perm :: "string \<Rightarrow> string \<Rightarrow> string \<Rightarrow> (camp_error, unit) result"
  k_ready :: "string \<Rightarrow> string \<Rightarrow> (camp_error, bool) result"
  k_version :: "string \<Rightarrow> string \<Rightarrow> (camp_error, string option) result"
  k_renderable :: "string \<Rightarrow> string \<Rightarrow> (camp_error, unit) result"
  k_resolve :: "string \<Rightarrow> string \<Rightarrow> AudienceSelectionRef \<Rightarrow> (camp_error, Recipient list) result"
  k_rfc3339 :: "gotime \<Rightarrow> string"

text \<open>The access check at the start of every command: a denied read is reported as the command's own denial.\<close>

definition require :: "campaign_ports \<Rightarrow> camp_error \<Rightarrow> string \<Rightarrow> string \<Rightarrow> string \<Rightarrow> unit cprog" where
  "require K denied workspaceID userID permission = do {
     r \<leftarrow> remote (k_perm K workspaceID userID permission);
     ret (case r of Inl e \<Rightarrow> Inl (if e = Err CampReadDenied then Err denied else e) | Inr u \<Rightarrow> Inr u)
   }"

section \<open>Commands\<close>

record CreateInput =
  ci_WorkspaceID :: string
  ci_UserID :: string
  ci_Name :: string
  ci_AudienceRef :: AudienceRef
  ci_TemplateID :: string
  ci_SenderDomainID :: string
  ci_MessageType :: string
  ci_Now :: gotime

definition create_invalid :: "CreateInput \<Rightarrow> camp_error option" where
  "create_invalid cmd =
     (case ValidateCampaignName (ci_Name cmd) of Some e \<Rightarrow> Some e | None \<Rightarrow>
        if \<not> Campaign_ValidMessageType (ci_MessageType cmd) then Some CampPayloadInvalid
        else if \<not> ValidAudienceType (ar_Type (ci_AudienceRef cmd)) then Some CampPayloadInvalid
        else case ValidateAudienceRef (ci_AudienceRef cmd) of Some e \<Rightarrow> Some e | None \<Rightarrow>
          if ci_TemplateID cmd = [] then Some CampPayloadInvalid
          else if ci_SenderDomainID cmd = [] then Some CampPayloadInvalid
          else None)"

definition Create_Execute :: "campaign_ports \<Rightarrow> CreateInput \<Rightarrow> Campaign cprog" where
  "Create_Execute K cmd =
     thenE (require K CampWriteDenied (ci_WorkspaceID cmd) (ci_UserID cmd) ''campaign.write'')
       (case create_invalid cmd of
          Some e \<Rightarrow> ret (Inl (Err e))
        | None \<Rightarrow> bindE (idGen (k_gen K)) (\<lambda>i.
            let campaign = \<lparr>cp_ID = i, cp_WorkspaceID = ci_WorkspaceID cmd, cp_Name = ci_Name cmd,
                  cp_Status = CampaignStatusDraft, cp_AudienceRef = ci_AudienceRef cmd,
                  cp_TemplateRef = \<lparr>tr_TemplateID = ci_TemplateID cmd, tr_TemplateVersionID = []\<rparr>,
                  cp_SenderDomainID = ci_SenderDomainID cmd, cp_MessageType = ci_MessageType cmd,
                  cp_ScheduledAt = None, cp_PlannedRecipients = 0, cp_CreatedAt = ci_Now cmd, cp_UpdatedAt = ci_Now cmd,
                  cp_CancelledAt = None, cp_PausedAt = None, cp_CompletedAt = None\<rparr>
            in thenE (Campaign_Create campaign) (ret (Inr campaign))))"

record UpdateInput =
  ui_WorkspaceID :: string
  ui_CampaignID :: string
  ui_UserID :: string
  ui_Name :: "string option"
  ui_AudienceRef :: "AudienceRef option"
  ui_TemplateID :: "string option"
  ui_SenderDomainID :: "string option"
  ui_MessageType :: "string option"
  ui_Now :: gotime

text \<open>The optional fields, each checked and then written.\<close>

definition set_name :: "UpdateInput \<Rightarrow> Campaign \<Rightarrow> camp_error + Campaign" where
  "set_name cmd c = (case ui_Name cmd of None \<Rightarrow> Inr c
     | Some n \<Rightarrow> (case ValidateCampaignName n of Some e \<Rightarrow> Inl e | None \<Rightarrow> Inr (c\<lparr>cp_Name := n\<rparr>)))"

definition set_audience :: "UpdateInput \<Rightarrow> Campaign \<Rightarrow> camp_error + Campaign" where
  "set_audience cmd c = (case ui_AudienceRef cmd of None \<Rightarrow> Inr c
     | Some a \<Rightarrow> (case ValidateAudienceRef a of Some e \<Rightarrow> Inl e | None \<Rightarrow> Inr (c\<lparr>cp_AudienceRef := a\<rparr>)))"

definition set_template :: "UpdateInput \<Rightarrow> Campaign \<Rightarrow> camp_error + Campaign" where
  "set_template cmd c = (case ui_TemplateID cmd of None \<Rightarrow> Inr c
     | Some t \<Rightarrow> if t = [] then Inl CampPayloadInvalid
                  else Inr (c\<lparr>cp_TemplateRef := \<lparr>tr_TemplateID = t, tr_TemplateVersionID = []\<rparr>\<rparr>))"

definition set_sender :: "UpdateInput \<Rightarrow> Campaign \<Rightarrow> camp_error + Campaign" where
  "set_sender cmd c = (case ui_SenderDomainID cmd of None \<Rightarrow> Inr c
     | Some s \<Rightarrow> if s = [] then Inl CampPayloadInvalid else Inr (c\<lparr>cp_SenderDomainID := s\<rparr>))"

definition set_type :: "UpdateInput \<Rightarrow> Campaign \<Rightarrow> camp_error + Campaign" where
  "set_type cmd c = (case ui_MessageType cmd of None \<Rightarrow> Inr c
     | Some t \<Rightarrow> if \<not> Campaign_ValidMessageType t then Inl CampPayloadInvalid else Inr (c\<lparr>cp_MessageType := t\<rparr>))"

fun in_turn :: "(Campaign \<Rightarrow> camp_error + Campaign) list \<Rightarrow> Campaign \<Rightarrow> camp_error + Campaign" where
  "in_turn [] c = Inr c"
| "in_turn (f # fs) c = (case f c of Inl e \<Rightarrow> Inl e | Inr c' \<Rightarrow> in_turn fs c')"

definition edited :: "UpdateInput \<Rightarrow> Campaign \<Rightarrow> camp_error + Campaign" where
  "edited cmd = in_turn [set_name cmd, set_audience cmd, set_template cmd, set_sender cmd, set_type cmd]"

definition Update_Execute :: "campaign_ports \<Rightarrow> UpdateInput \<Rightarrow> Campaign cprog" where
  "Update_Execute K cmd =
     thenE (require K CampWriteDenied (ui_WorkspaceID cmd) (ui_UserID cmd) ''campaign.write'')
       (bindE (Campaign_FindByID (ui_WorkspaceID cmd) (ui_CampaignID cmd)) (\<lambda>campaign.
         if \<not> CanUpdateDraft campaign then ret (Inl (Err CampInvalidStateTransition))
         else case edited cmd campaign of
           Inl e \<Rightarrow> ret (Inl (Err e))
         | Inr c \<Rightarrow> let c = c\<lparr>cp_UpdatedAt := ui_Now cmd\<rparr> in thenE (Campaign_Update c) (ret (Inr c))))"

record CampaignCommand =
  cm_WorkspaceID :: string
  cm_CampaignID :: string
  cm_UserID :: string
  cm_Now :: gotime

text \<open>The shape that pause, resume and cancel share: a guard and a change.\<close>

definition change_status ::
  "campaign_ports \<Rightarrow> CampaignCommand \<Rightarrow> (Campaign \<Rightarrow> bool) \<Rightarrow> (Campaign \<Rightarrow> Campaign) \<Rightarrow> Campaign cprog" where
  "change_status K cmd can f =
     thenE (require K CampSendDenied (cm_WorkspaceID cmd) (cm_UserID cmd) ''campaign.send'')
       (bindE (Campaign_FindByID (cm_WorkspaceID cmd) (cm_CampaignID cmd)) (\<lambda>campaign.
         if \<not> can campaign then ret (Inl (Err CampInvalidStateTransition))
         else thenE (Campaign_Update (f campaign)) (ret (Inr (f campaign)))))"

definition Pause_Execute :: "campaign_ports \<Rightarrow> CampaignCommand \<Rightarrow> Campaign cprog" where
  "Pause_Execute K cmd = change_status K cmd CanPause
     (\<lambda>c. c\<lparr>cp_Status := CampaignStatusPaused, cp_PausedAt := Some (cm_Now cmd), cp_UpdatedAt := cm_Now cmd\<rparr>)"

definition Resume_Execute :: "campaign_ports \<Rightarrow> CampaignCommand \<Rightarrow> Campaign cprog" where
  "Resume_Execute K cmd = change_status K cmd CanResume
     (\<lambda>c. c\<lparr>cp_Status := CampaignStatusScheduled, cp_UpdatedAt := cm_Now cmd\<rparr>)"

definition Cancel_Execute :: "campaign_ports \<Rightarrow> CampaignCommand \<Rightarrow> Campaign cprog" where
  "Cancel_Execute K cmd = change_status K cmd CanCancel
     (\<lambda>c. c\<lparr>cp_Status := CampaignStatusCancelled, cp_CancelledAt := Some (cm_Now cmd), cp_UpdatedAt := cm_Now cmd\<rparr>)"

section \<open>Scheduling\<close>

record ScheduleInput =
  si_WorkspaceID :: string
  si_CampaignID :: string
  si_UserID :: string
  si_ScheduledAt :: "gotime option"
  si_Now :: gotime

record ScheduleResult =
  sr_Campaign :: Campaign
  sr_Candidates :: "CampaignMessageCandidate list"

definition audience_selection :: "AudienceRef \<Rightarrow> AudienceSelectionRef" where
  "audience_selection ref =
     \<lparr>as_ListID = (if ar_Type ref = AudienceTypeList then ar_ID ref else []),
      as_SegmentID = (if ar_Type ref = AudienceTypeSegment then ar_ID ref else []),
      as_ContactIDs = ar_ContactIDs ref\<rparr>"

definition planned_candidate :: "ScheduleInput \<Rightarrow> string \<Rightarrow> string \<Rightarrow> Recipient \<Rightarrow> CampaignMessageCandidate" where
  "planned_candidate cmd campaignID cid r =
     \<lparr>cc_ID = cid, cc_WorkspaceID = si_WorkspaceID cmd, cc_CampaignID = campaignID, cc_ContactID = rc_ContactID r,
      cc_EmailNormalized = rc_EmailNormalized r,
      cc_RecipientSnapshot = \<lparr>sn_ContactID = rc_ContactID r, sn_Email = rc_Email r,
        sn_EmailNormalized = rc_EmailNormalized r, sn_FirstName = rc_FirstName r, sn_LastName = rc_LastName r,
        sn_Tags = rc_Tags r, sn_Attributes = rc_Attributes r\<rparr>,
      cc_Status = ''planned'', cc_CreatedAt = si_Now cmd, cc_UpdatedAt = si_Now cmd\<rparr>"

fun plan_candidates ::
  "campaign_ports \<Rightarrow> ScheduleInput \<Rightarrow> string \<Rightarrow> Recipient list \<Rightarrow> (CampaignMessageCandidate list) cprog" where
  "plan_candidates K cmd campaignID [] = ret (Inr [])"
| "plan_candidates K cmd campaignID (r # rs) =
     bindE (idGen (k_gen K)) (\<lambda>cid.
       bindE (plan_candidates K cmd campaignID rs) (\<lambda>cs. ret (Inr (planned_candidate cmd campaignID cid r # cs))))"

definition audience_json :: "AudienceRef \<Rightarrow> json" where
  "audience_json ref = JObj [(''Type'', JStr (ar_Type ref)), (''ID'', JStr (ar_ID ref)),
     (''ContactIDs'', JArr (map JStr (ar_ContactIDs ref)))]"

definition CampaignScheduledPayload :: "campaign_ports \<Rightarrow> string \<Rightarrow> Campaign \<Rightarrow> gotime \<Rightarrow> json" where
  "CampaignScheduledPayload K workspaceID c scheduledAt =
     JObj [(''campaign_id'', JStr (cp_ID c)), (''workspace_id'', JStr workspaceID),
       (''audience_ref'', audience_json (cp_AudienceRef c)),
       (''template_id'', JStr (tr_TemplateID (cp_TemplateRef c))),
       (''template_version_id'', JStr (tr_TemplateVersionID (cp_TemplateRef c))),
       (''sender_domain_id'', JStr (cp_SenderDomainID c)), (''message_type'', JStr (cp_MessageType c)),
       (''scheduled_at'', JStr (k_rfc3339 K scheduledAt)), (''planned_recipients'', JNum (cp_PlannedRecipients c))]"

definition scheduled :: "ScheduleInput \<Rightarrow> string \<Rightarrow> nat \<Rightarrow> Campaign \<Rightarrow> Campaign" where
  "scheduled cmd version n c =
     c\<lparr>cp_Status := CampaignStatusScheduled,
       cp_TemplateRef := (cp_TemplateRef c)\<lparr>tr_TemplateVersionID := version\<rparr>,
       cp_PlannedRecipients := int n,
       cp_ScheduledAt := Some (case si_ScheduledAt cmd of None \<Rightarrow> si_Now cmd | Some t \<Rightarrow> t),
       cp_UpdatedAt := si_Now cmd\<rparr>"

definition store_schedule ::
  "string \<Rightarrow> Campaign \<Rightarrow> CampaignMessageCandidate list \<Rightarrow> OutboxEvent \<Rightarrow> unit cprog" where
  "store_schedule workspaceID c cs event =
     WithinTx (thenE (Campaign_Update c)
       (thenE (ReplaceCandidates workspaceID (cp_ID c) cs) (Campaign_Outbox_Save event)))"

text \<open>From the resolved recipients on.\<close>

definition schedule_recipients ::
  "campaign_ports \<Rightarrow> ScheduleInput \<Rightarrow> Campaign \<Rightarrow> string \<Rightarrow> Recipient list \<Rightarrow> ScheduleResult cprog" where
  "schedule_recipients K cmd campaign version recipients =
     (let c = scheduled cmd version (length recipients) campaign in
      bindE (plan_candidates K cmd (cp_ID c) recipients) (\<lambda>cs.
      bindE (idGen (k_gen K)) (\<lambda>eventID.
        case NewEnvelope (si_Now cmd) \<lparr>opt_EventID = eventID, opt_EventType = ''campaign.scheduled.v1'',
               opt_EventVersion = 1, opt_AggregateType = ''campaign'', opt_AggregateID = cp_ID c,
               opt_WorkspaceID = si_WorkspaceID cmd, opt_OccurredAt = si_Now cmd, opt_Metadata = None\<rparr>
               (CampaignScheduledPayload K (si_WorkspaceID cmd) c (case si_ScheduledAt cmd of None \<Rightarrow> si_Now cmd | Some t \<Rightarrow> t)) of
          Inl _ \<Rightarrow> ret (Inl ErrEnvelope)
        | Inr envelope \<Rightarrow>
            (case Marshal envelope of
               Inl _ \<Rightarrow> ret (Inl ErrEnvelope)
             | Inr payloadBytes \<Rightarrow>
                 thenE (store_schedule (si_WorkspaceID cmd) c cs \<lparr>o_ID = eventID, o_AggregateType = ''campaign'', o_AggregateID = cp_ID c,
                     o_EventType = ''campaign.scheduled.v1'', o_Payload = payloadBytes,
                     o_WorkspaceID = si_WorkspaceID cmd, o_OccurredAt = si_Now cmd\<rparr>)
                   (ret (Inr \<lparr>sr_Campaign = c, sr_Candidates = cs\<rparr>))))))"

definition schedule_checked :: "campaign_ports \<Rightarrow> ScheduleInput \<Rightarrow> Campaign \<Rightarrow> ScheduleResult cprog" where
  "schedule_checked K cmd campaign =
     bindE (remote (k_ready K (si_WorkspaceID cmd) (cp_SenderDomainID campaign))) (\<lambda>ready.
       if \<not> ready then ret (Inl (Err CampSenderNotVerified))
       else do {
         v \<leftarrow> remote (k_version K (si_WorkspaceID cmd) (tr_TemplateID (cp_TemplateRef campaign)));
         case v of
           Inl _ \<Rightarrow> ret (Inl (Err CampTemplatePublishRequired))
         | Inr None \<Rightarrow> ret (Inl (Err CampTemplatePublishRequired))
         | Inr (Some version) \<Rightarrow> do {
             ok \<leftarrow> remote (k_renderable K (si_WorkspaceID cmd) (tr_TemplateID (cp_TemplateRef campaign)));
             case ok of
               Inl _ \<Rightarrow> ret (Inl (Err CampTemplatePublishRequired))
             | Inr _ \<Rightarrow>
                 bindE (remote (k_resolve K (si_WorkspaceID cmd) (si_UserID cmd) (audience_selection (cp_AudienceRef campaign))))
                   (\<lambda>recipients.
                     if recipients = [] then ret (Inl (Err CampAudienceNotReady))
                     else schedule_recipients K cmd campaign version recipients)
           }
       })"

definition Schedule_Execute :: "campaign_ports \<Rightarrow> ScheduleInput \<Rightarrow> ScheduleResult cprog" where
  "Schedule_Execute K cmd =
     thenE (require K CampSendDenied (si_WorkspaceID cmd) (si_UserID cmd) ''campaign.send'')
       (bindE (Campaign_FindByID (si_WorkspaceID cmd) (si_CampaignID cmd)) (\<lambda>campaign.
         if \<not> CanSchedule campaign then ret (Inl (Err CampInvalidStateTransition))
         else schedule_checked K cmd campaign))"

section \<open>Queries\<close>

text \<open>A count that fails is reported as zero.\<close>

definition GetCampaign :: "campaign_ports \<Rightarrow> string \<Rightarrow> string \<Rightarrow> string \<Rightarrow> (Campaign \<times> int) cprog" where
  "GetCampaign K workspaceID campaignID userID =
     thenE (remote (k_perm K workspaceID userID ''campaign.read''))
       (bindE (Campaign_FindByID workspaceID campaignID) (\<lambda>campaign. do {
          n \<leftarrow> Campaign_CountCandidates workspaceID campaignID;
          ret (Inr (campaign, case n of Inl _ \<Rightarrow> 0 | Inr k \<Rightarrow> k))
        }))"

definition query_limit :: "int \<Rightarrow> int" where
  "query_limit l = (if l \<le> 0 \<or> 100 < l then DefaultPageSize else l)"

definition ListCampaigns :: "campaign_ports \<Rightarrow> CampaignListQuery \<Rightarrow> string \<Rightarrow> (Campaign list \<times> string) cprog" where
  "ListCampaigns K input userID =
     thenE (remote (k_perm K (cl_WorkspaceID input) userID ''campaign.read''))
       (Campaign_List (input\<lparr>cl_Limit := query_limit (cl_Limit input)\<rparr>))"

definition ListCampaignCandidates ::
  "campaign_ports \<Rightarrow> CandidateListQuery \<Rightarrow> string \<Rightarrow> (CampaignMessageCandidate list \<times> string) cprog" where
  "ListCampaignCandidates K input userID =
     thenE (remote (k_perm K (dl_WorkspaceID input) userID ''campaign.read''))
       (thenE (Campaign_FindByID (dl_WorkspaceID input) (dl_CampaignID input))
         (Campaign_ListCandidates (input\<lparr>dl_Limit := query_limit (dl_Limit input)\<rparr>)))"

end
