(* ===== verification/Campaign_Lifecycle.thy ===== *)
theory Campaign_Lifecycle
  imports Campaign
begin

text \<open>
  The life of a campaign as an abstract machine on the tables (\<open>campaign_step\<close>), the refinement of this machine by the
  commands of \<open>app/draft\<close> under every fault, and what follows for all campaigns at all times.
\<close>

section \<open>The abstract machine\<close>

definition put :: "Campaign \<Rightarrow> campaign_db \<Rightarrow> campaign_db" where
  "put c d = d\<lparr>campaigns := map (\<lambda>row. if campaign_key (cp_WorkspaceID c) (cp_ID c) row
     then c\<lparr>cp_CreatedAt := cp_CreatedAt row\<rparr> else row) (campaigns d)\<rparr>"

definition moves_to :: "(string \<times> string) set" where
  "moves_to = {(''scheduled'', ''paused''), (''running'', ''paused''), (''paused'', ''scheduled''),
     (''draft'', ''cancelled''), (''scheduled'', ''cancelled''), (''paused'', ''cancelled'')}"

definition same_plan :: "Campaign \<Rightarrow> Campaign \<Rightarrow> bool" where
  "same_plan c c' \<longleftrightarrow> cp_ID c' = cp_ID c \<and> cp_WorkspaceID c' = cp_WorkspaceID c \<and>
     cp_PlannedRecipients c' = cp_PlannedRecipients c \<and> cp_ScheduledAt c' = cp_ScheduledAt c"

definition same_content :: "Campaign \<Rightarrow> Campaign \<Rightarrow> bool" where
  "same_content c c' \<longleftrightarrow> same_plan c c' \<and> cp_Name c' = cp_Name c \<and> cp_AudienceRef c' = cp_AudienceRef c \<and>
     cp_TemplateRef c' = cp_TemplateRef c \<and> cp_SenderDomainID c' = cp_SenderDomainID c \<and> cp_MessageType c' = cp_MessageType c"

definition frozen :: "Campaign \<Rightarrow> Campaign \<Rightarrow> CampaignMessageCandidate list \<Rightarrow> OutboxEvent \<Rightarrow> bool" where
  "frozen c c' cs ev \<longleftrightarrow>
     cp_ID c' = cp_ID c \<and> cp_WorkspaceID c' = cp_WorkspaceID c \<and> cp_Name c' = cp_Name c \<and>
     cp_AudienceRef c' = cp_AudienceRef c \<and> cp_SenderDomainID c' = cp_SenderDomainID c \<and>
     cp_MessageType c' = cp_MessageType c \<and> tr_TemplateID (cp_TemplateRef c') = tr_TemplateID (cp_TemplateRef c) \<and>
     cs \<noteq> [] \<and> cp_PlannedRecipients c' = int (length cs) \<and> cp_ScheduledAt c' \<noteq> None \<and>
     list_all (candidate_of (cp_WorkspaceID c) (cp_ID c)) cs \<and>
     o_EventType ev = ''campaign.scheduled.v1'' \<and> o_AggregateID ev = cp_ID c"

inductive campaign_step :: "campaign_db \<Rightarrow> campaign_db \<Rightarrow> bool" where
  step_create: "cp_Status c = ''draft'' \<Longrightarrow> cp_PlannedRecipients c = 0 \<Longrightarrow> cp_ScheduledAt c = None \<Longrightarrow>
    \<not> list_ex (\<lambda>r. cp_ID r = cp_ID c) (campaigns d) \<Longrightarrow> campaign_step d (d\<lparr>campaigns := campaigns d @ [c]\<rparr>)"
| step_edit: "c \<in> set (campaigns d) \<Longrightarrow> cp_Status c = ''draft'' \<Longrightarrow> cp_Status c' = ''draft'' \<Longrightarrow> same_plan c c' \<Longrightarrow>
    campaign_step d (put c' d)"
| step_move: "c \<in> set (campaigns d) \<Longrightarrow> (cp_Status c, cp_Status c') \<in> moves_to \<Longrightarrow> same_content c c' \<Longrightarrow>
    campaign_step d (put c' d)"
| step_schedule: "c \<in> set (campaigns d) \<Longrightarrow> cp_Status c = ''draft'' \<Longrightarrow> cp_Status c' = ''scheduled'' \<Longrightarrow> frozen c c' cs ev \<Longrightarrow>
    distinct (map cc_ContactID cs) \<Longrightarrow> int (length cs) \<le> 7281 \<Longrightarrow> d' = put c' d \<Longrightarrow>
    campaign_step d (d'\<lparr>candidates := filter (\<lambda>a. \<not> candidate_of (cp_WorkspaceID c) (cp_ID c) a) (candidates d) @ cs,
      c_outbox := c_outbox d @ [ev]\<rparr>)"

section \<open>The commands\<close>

datatype campaign_command =
    Create CreateInput
  | Update UpdateInput
  | Schedule ScheduleInput
  | Pause CampaignCommand
  | Resume CampaignCommand
  | Cancel CampaignCommand

definition completes :: "('s, ('e, 'a) result) state \<Rightarrow> ('s, bool) state" where
  "completes f = do { r \<leftarrow> f; ret (case r of Inl _ \<Rightarrow> False | Inr _ \<Rightarrow> True) }"

fun run_command :: "campaign_ports \<Rightarrow> campaign_command \<Rightarrow> (campaign_world, bool) state" where
  "run_command K (Create cmd) = completes (Create_Execute K cmd)"
| "run_command K (Update cmd) = completes (Update_Execute K cmd)"
| "run_command K (Schedule cmd) = completes (Schedule_Execute K cmd)"
| "run_command K (Pause cmd) = completes (Pause_Execute K cmd)"
| "run_command K (Resume cmd) = completes (Resume_Execute K cmd)"
| "run_command K (Cancel cmd) = completes (Cancel_Execute K cmd)"

definition refines :: "'a cprog \<Rightarrow> bool" where
  "refines f \<longleftrightarrow> (\<forall>w r w'. run_state f w = (r, w') \<longrightarrow>
     campaign_step (store w) (store w') \<or> store w' = store w \<and> (\<exists>e. r = Inl e))"

text \<open>A statement either runs or leaves the store alone; if it is acknowledged, it has run.\<close>

lemma exec_store:
  assumes "run_state (exec q) w = (r, w')"
  shows "store w' = store w \<and> (\<exists>e. r = Inl e) \<or> (\<exists>x. q (store w) = SqlOk x (store w') \<and> (\<forall>a. r = Inr a \<longrightarrow> x = Inr a))"
  using assms by (auto simp: exec_def next_outcome_def split: list.splits if_splits sql.splits)

definition looks :: "'a cprog \<Rightarrow> bool" where
  "looks f \<longleftrightarrow> (\<forall>w r w'. run_state f w = (r, w') \<longrightarrow> store w' = store w)"

lemma looks_calls:
  "looks (ret a)" "looks (remote answer)" "looks (idGen gen)" "looks (require K e ws u p)"
  by (auto simp: looks_def remote_def require_def idGen_def next_outcome_def split: list.splits prod.splits if_splits)

lemma looks_bindE: "looks f \<Longrightarrow> (\<And>a. looks (g a)) \<Longrightarrow> looks (bindE f g)"
  unfolding looks_def by (auto simp: run_bindE split: prod.splits sum.splits)

lemma looks_plan: "looks (plan_candidates K cmd cid rs)"
  by (induction rs) (auto intro!: looks_bindE looks_calls)

lemma refines_error: "refines (ret (Inl e))"
  by (simp add: refines_def)

lemma refines_bindE:
  assumes "looks f" and "\<And>a. refines (g a)"
  shows "refines (bindE f g)"
  unfolding refines_def
proof (intro allI impI)
  fix w r w' assume run: "run_state (bindE f g) w = (r, w')"
  obtain x v where f: "run_state f w = (x, v)" by fastforce
  with assms(1) have "store v = store w" by (auto simp: looks_def)
  with run f assms(2) show "campaign_step (store w) (store w') \<or> store w' = store w \<and> (\<exists>e. r = Inl e)"
    unfolding refines_def by (cases x) (auto simp: run_bindE, metis+)
qed

lemma refines_thenE: "looks f \<Longrightarrow> refines g \<Longrightarrow> refines (thenE f g)"
  unfolding thenE_def by (rule refines_bindE)

lemma refines_bind:
  assumes "\<And>w r w'. run_state f w = (r, w') \<Longrightarrow> store w' = store w" and "\<And>a. refines (g a)"
  shows "refines (State_Monad.bind f g)"
  unfolding refines_def
proof (intro allI impI)
  fix w r w' assume run: "run_state (State_Monad.bind f g) w = (r, w')"
  obtain x v where f: "run_state f w = (x, v)" by fastforce
  with run have "run_state (g x) v = (r, w')" by simp
  with assms f show "campaign_step (store w) (store w') \<or> store w' = store w \<and> (\<exists>e. r = Inl e)"
    unfolding refines_def by metis
qed

lemma refines_completes: "refines f \<Longrightarrow> run_state (completes f) w = (ok, w') \<Longrightarrow>
    campaign_step (store w) (store w') \<or> store w' = store w \<and> \<not> ok"
  unfolding refines_def completes_def by (fastforce split: prod.splits sum.splits)

text \<open>Reading a campaign: whatever is done with it is done to a row of the table.\<close>

lemma refines_found:
  assumes "\<And>c w r w'. c \<in> set (campaigns (store w)) \<Longrightarrow> campaign_key ws cid c \<Longrightarrow> run_state (g c) w = (r, w') \<Longrightarrow>
    campaign_step (store w) (store w') \<or> store w' = store w \<and> (\<exists>e. r = Inl e)"
  shows "refines (bindE (Campaign_FindByID ws cid) g)"
  unfolding refines_def
proof (intro allI impI)
  fix w r w' assume run: "run_state (bindE (Campaign_FindByID ws cid) g) w = (r, w')"
  obtain x v where f: "run_state (Campaign_FindByID ws cid) w = (x, v)" by fastforce
  then have v: "store v = store w" and x: "\<And>c. x = Inr c \<Longrightarrow> find (campaign_key ws cid) (campaigns (store w)) = Some c"
    unfolding Campaign_FindByID_def by (auto dest!: exec_store split: option.splits)
  show "campaign_step (store w) (store w') \<or> store w' = store w \<and> (\<exists>e. r = Inl e)"
  proof (cases x)
    case (Inl e)
    with run f v show ?thesis by (auto simp: run_bindE)
  next
    case (Inr c)
    with x have "c \<in> set (campaigns (store w))" "campaign_key ws cid c" by (auto simp: find_Some_iff)
    with assms [of c v r w'] run f v Inr show ?thesis by (simp add: run_bindE)
  qed
qed

lemma Campaign_Update_effect:
  assumes "run_state (thenE (Campaign_Update c) (ret (Inr x))) w = (r, w')"
  shows "store w' = put c (store w) \<or> store w' = store w \<and> (\<exists>e. r = Inl e)"
proof -
  obtain y v where u: "run_state (Campaign_Update c) w = (y, v)" by fastforce
  then have "store v = put c (store w) \<or> store v = store w \<and> (\<exists>e. y = Inl e)"
    unfolding Campaign_Update_def Let_def put_def by (auto dest!: exec_store split: if_splits)
  with assms u show ?thesis by (auto simp: run_thenE split: sum.splits)
qed

lemma refines_change_status:
  assumes "\<And>c. can c \<Longrightarrow> (cp_Status c, cp_Status (f c)) \<in> moves_to \<and> same_content c (f c)"
  shows "refines (change_status K cmd can f)"
  unfolding change_status_def
proof (intro refines_thenE looks_calls refines_found)
  fix c w r w'
  assume c: "c \<in> set (campaigns (store w))"
    and run: "run_state (if \<not> can c then ret (Inl (Err CampInvalidStateTransition))
      else thenE (Campaign_Update (f c)) (ret (Inr (f c)))) w = (r, w')"
  show "campaign_step (store w) (store w') \<or> store w' = store w \<and> (\<exists>e. r = Inl e)"
  proof (cases "can c")
    case True
    with run have "store w' = put (f c) (store w) \<or> store w' = store w \<and> (\<exists>e. r = Inl e)"
      by (simp add: Campaign_Update_effect)
    with step_move [OF c, of "f c"] assms [OF True] show ?thesis by auto
  qed (use run in auto)
qed

lemma refines_status_commands:
  "refines (Pause_Execute K cmd)" "refines (Resume_Execute K cmd)" "refines (Cancel_Execute K cmd)"
  unfolding Pause_Execute_def Resume_Execute_def Cancel_Execute_def
  by (rule refines_change_status;
      auto simp: CanPause_def CanResume_def CanCancel_def moves_to_def same_content_def same_plan_def)+

lemma edited_same:
  assumes "edited cmd c = Inr c'"
  shows "same_plan c c' \<and> cp_Status c' = cp_Status c"
  using assms unfolding edited_def
  by (auto simp: set_name_def set_audience_def set_template_def set_sender_def set_type_def same_plan_def
      split: option.splits sum.splits if_splits)

lemma refines_update: "refines (Update_Execute K cmd)"
  unfolding Update_Execute_def
proof (intro refines_thenE looks_calls refines_found)
  fix c w r w'
  assume c: "c \<in> set (campaigns (store w))"
    and run: "run_state (if \<not> CanUpdateDraft c then ret (Inl (Err CampInvalidStateTransition))
      else case edited cmd c of Inl e \<Rightarrow> ret (Inl (Err e))
        | Inr c \<Rightarrow> let c = c\<lparr>cp_UpdatedAt := ui_Now cmd\<rparr> in thenE (Campaign_Update c) (ret (Inr c))) w = (r, w')"
  show "campaign_step (store w) (store w') \<or> store w' = store w \<and> (\<exists>e. r = Inl e)"
  proof (cases "CanUpdateDraft c \<and> (\<exists>c'. edited cmd c = Inr c')")
    case True
    then obtain c' where c': "edited cmd c = Inr c'" "cp_Status c = ''draft''" by (auto simp: CanUpdateDraft_def)
    with True run Campaign_Update_effect [of "c'\<lparr>cp_UpdatedAt := ui_Now cmd\<rparr>"]
    have "store w' = put (c'\<lparr>cp_UpdatedAt := ui_Now cmd\<rparr>) (store w) \<or> store w' = store w \<and> (\<exists>e. r = Inl e)"
      by (simp add: Let_def)
    with step_edit [OF c c'(2), of "c'\<lparr>cp_UpdatedAt := ui_Now cmd\<rparr>"] edited_same [OF c'(1)] c'(2) show ?thesis
      by (auto simp: same_plan_def)
  qed (use run in \<open>auto split: sum.splits if_splits\<close>)
qed

lemma refines_create: "refines (Create_Execute K cmd)"
proof -
  have stored: "refines (thenE (Campaign_Create c) (ret (Inr c)))"
    if "cp_Status c = ''draft''" "cp_PlannedRecipients c = 0" "cp_ScheduledAt c = None" for c
    unfolding refines_def
  proof (intro allI impI)
    fix w r w' assume run: "run_state (thenE (Campaign_Create c) (ret (Inr c))) w = (r, w')"
    obtain y v where u: "run_state (Campaign_Create c) w = (y, v)" by fastforce
    then have "store v = store w \<and> (\<exists>e. y = Inl e) \<or> \<not> list_ex (\<lambda>r. cp_ID r = cp_ID c) (campaigns (store w)) \<and>
        store v = (store w)\<lparr>campaigns := campaigns (store w) @ [c]\<rparr>"
      unfolding Campaign_Create_def by (auto dest!: exec_store split: if_splits)
    with run u step_create [OF that, of "store w"] show "campaign_step (store w) (store w') \<or> store w' = store w \<and> (\<exists>e. r = Inl e)"
      by (auto simp: run_thenE split: sum.splits)
  qed
  show ?thesis
  proof (cases "create_invalid cmd")
    case None
    then show ?thesis unfolding Create_Execute_def Let_def
      by (auto intro!: refines_thenE [OF looks_calls(4)] refines_bindE [OF looks_calls(3)] stored)
  next
    case (Some e)
    then show ?thesis unfolding Create_Execute_def by (auto intro!: refines_thenE [OF looks_calls(4)] refines_error)
  qed
qed

section \<open>Scheduling\<close>

lemma plan_candidates_Inr:
  "run_state (plan_candidates K cmd cid rs) w = (Inr cs, w') \<Longrightarrow>
   length cs = length rs \<and> list_all (candidate_of (si_WorkspaceID cmd) cid) cs \<and>
   map cc_EmailNormalized cs = map rc_EmailNormalized rs \<and> map cc_ContactID cs = map rc_ContactID rs"
proof (induction rs arbitrary: w cs)
  case (Cons r rs)
  then show ?case by (auto elim!: bindE_InrD simp: planned_candidate_def)
qed simp

lemma delete_candidates_Inr:
  "run_state (delete_candidates ws cid) w = (Inr u, w') \<Longrightarrow>
   store w' = (store w)\<lparr>candidates := filter (\<lambda>a. \<not> candidate_of ws cid a) (candidates (store w))\<rparr>"
  unfolding delete_candidates_def by (drule exec_InrD) simp

lemma insert_candidates_Inr:
  "run_state (insert_candidates cs) w = (Inr u, w') \<Longrightarrow>
   store w' = (store w)\<lparr>candidates := candidates (store w) @ cs\<rparr> \<and> insertable cs"
  unfolding insert_candidates_def by (drule exec_InrD) (simp split: if_splits)

lemma ReplaceCandidates_Inr:
  assumes "run_state (ReplaceCandidates ws cid cs) w = (Inr u, w')"
  shows "store w' = (store w)\<lparr>candidates := filter (\<lambda>a. \<not> candidate_of ws cid a) (candidates (store w)) @ cs\<rparr> \<and> insertable cs"
proof -
  from assms obtain x v where d: "run_state (delete_candidates ws cid) w = (Inr x, v)"
    and i: "run_state (if cs = [] then ret (Inr ()) else insert_candidates cs) v = (Inr u, w')"
    unfolding ReplaceCandidates_def by (rule thenE_InrD)
  from delete_candidates_Inr [OF d] i show ?thesis by (auto dest: insert_candidates_Inr simp: insertable_def split: if_splits)
qed

lemma store_schedule_effect:
  assumes "run_state (store_schedule ws c' cs ev) w = (r, w')"
  shows "store w' = store w \<and> (\<exists>e. r = Inl e) \<or> insertable cs \<and>
    store w' = (put c' (store w))\<lparr>candidates := filter (\<lambda>a. \<not> candidate_of ws (cp_ID c') a) (candidates (store w)) @ cs,
      c_outbox := c_outbox (store w) @ [ev]\<rparr>"
proof -
  have body: "insertable cs \<and> store v = (put c' (store u))\<lparr>candidates := filter (\<lambda>a. \<not> candidate_of ws (cp_ID c') a) (candidates (store u)) @ cs,
      c_outbox := c_outbox (store u) @ [ev]\<rparr>"
    if "run_state (thenE (Campaign_Update c') (thenE (ReplaceCandidates ws (cp_ID c') cs) (Campaign_Outbox_Save ev))) u = (Inr a, v)"
    for u v a
  proof -
    from that obtain a1 a2 v1 v2 where 1: "run_state (Campaign_Update c') u = (Inr a1, v1)"
      and 2: "run_state (ReplaceCandidates ws (cp_ID c') cs) v1 = (Inr a2, v2)"
      and 3: "run_state (Campaign_Outbox_Save ev) v2 = (Inr a, v)"
      by (auto elim!: thenE_InrD)
    from 1 have "store v1 = put c' (store u)"
      unfolding Campaign_Update_def Let_def put_def by (auto dest!: exec_InrD split: if_splits)
    moreover from 3 have "store v = (store v2)\<lparr>c_outbox := c_outbox (store v2) @ [ev]\<rparr>"
      unfolding Campaign_Outbox_Save_def by (auto dest!: exec_InrD split: if_splits)
    ultimately show ?thesis using ReplaceCandidates_Inr [OF 2] by (simp add: put_def)
  qed
  from WithinTx_atomic [OF assms [unfolded store_schedule_def]] show ?thesis
  proof (elim disjE exE conjE)
    assume "store w' = store w" "\<forall>a. r \<noteq> Inr a"
    then show ?thesis by (cases r) auto
  next
    fix w1 a w2 assume "store w1 = store w" "store w' = store w2"
      "run_state (thenE (Campaign_Update c') (thenE (ReplaceCandidates ws (cp_ID c') cs) (Campaign_Outbox_Save ev))) w1 = (Inr a, w2)"
    with body show ?thesis by auto
  qed
qed

text \<open>The same for one state: what was read may be used in what follows.\<close>

definition refines_at :: "campaign_world \<Rightarrow> 'a cprog \<Rightarrow> bool" where
  "refines_at w f \<longleftrightarrow> (\<forall>r w'. run_state f w = (r, w') \<longrightarrow>
     campaign_step (store w) (store w') \<or> store w' = store w \<and> (\<exists>e. r = Inl e))"

lemma refines_at_error: "refines_at w (ret (Inl e))"
  by (simp add: refines_at_def)

lemma refines_at_bindE:
  assumes f: "looks f" and g: "\<And>a v. run_state f w = (Inr a, v) \<Longrightarrow> store v = store w \<Longrightarrow> refines_at v (g a)"
  shows "refines_at w (bindE f g)"
  unfolding refines_at_def
proof (intro allI impI)
  fix r w' assume run: "run_state (bindE f g) w = (r, w')"
  obtain x v where x: "run_state f w = (x, v)" by fastforce
  with f have v: "store v = store w" by (auto simp: looks_def)
  show "campaign_step (store w) (store w') \<or> store w' = store w \<and> (\<exists>e. r = Inl e)"
    using run x v g [of _ v] by (cases x) (auto simp: run_bindE refines_at_def)
qed

lemma refines_at_bind:
  assumes f: "looks f" and g: "\<And>x v. run_state f w = (x, v) \<Longrightarrow> store v = store w \<Longrightarrow> refines_at v (g x)"
  shows "refines_at w (State_Monad.bind f g)"
  unfolding refines_at_def
proof (intro allI impI)
  fix r w' assume run: "run_state (State_Monad.bind f g) w = (r, w')"
  obtain x v where x: "run_state f w = (x, v)" by fastforce
  with f have v: "store v = store w" by (auto simp: looks_def)
  with g [OF x] run x show "campaign_step (store w) (store w') \<or> store w' = store w \<and> (\<exists>e. r = Inl e)"
    by (simp add: refines_at_def)
qed

lemma clash_free_contacts:
  "clash_free cs \<Longrightarrow> list_all (candidate_of ws cid) cs \<Longrightarrow> distinct (map cc_ContactID cs)"
  by (induction cs) (auto simp: candidate_clash_def list_all_iff list_ex_iff)

lemma insertable_candidates:
  "insertable cs \<Longrightarrow> list_all (candidate_of ws cid) cs \<Longrightarrow> distinct (map cc_ContactID cs) \<and> int (length cs) \<le> 7281"
  using clash_free_contacts by (auto simp: insertable_def)

lemma store_schedule_step:
  assumes "c \<in> set (campaigns (store w))" "cp_Status c = ''draft''" "cp_WorkspaceID c = ws"
    and "cp_Status c' = ''scheduled''" "frozen c c' cs ev"
  shows "refines_at w (thenE (store_schedule ws c' cs ev) (ret (Inr x)))"
  unfolding refines_at_def
proof (intro allI impI)
  fix r w' assume run: "run_state (thenE (store_schedule ws c' cs ev) (ret (Inr x))) w = (r, w')"
  obtain y v where y: "run_state (store_schedule ws c' cs ev) w = (y, v)" by fastforce
  have "cp_ID c' = cp_ID c" and "insertable cs \<Longrightarrow> distinct (map cc_ContactID cs) \<and> int (length cs) \<le> 7281"
    using assms(5) insertable_candidates by (auto simp: frozen_def)
  with store_schedule_effect [OF y] step_schedule [OF assms(1,2,4,5) _ _ refl] assms(3) run y
  show "campaign_step (store w) (store w') \<or> store w' = store w \<and> (\<exists>e. r = Inl e)"
    by (auto simp: run_thenE put_def split: sum.splits)
qed

lemma scheduled_ID: "cp_ID (scheduled cmd version n c) = cp_ID c"
  by (simp add: scheduled_def)

lemma schedule_recipients_step:
  assumes c: "c \<in> set (campaigns (store w))" "cp_Status c = ''draft''" "cp_WorkspaceID c = si_WorkspaceID cmd"
    and rs: "rs \<noteq> []"
  shows "refines_at w (schedule_recipients K cmd c version rs)"
  unfolding schedule_recipients_def Let_def
proof (intro refines_at_bindE looks_plan looks_calls)
  fix cs eid and v v' :: campaign_world
  assume plan: "run_state (plan_candidates K cmd (cp_ID (scheduled cmd version (length rs) c)) rs) w = (Inr cs, v)"
    and v: "store v = store w" "store v' = store v"
  let ?c = "scheduled cmd version (length rs) c"
  have "frozen c ?c cs ev"
    if "o_EventType ev = ''campaign.scheduled.v1''" "o_AggregateID ev = cp_ID c" for ev
    using plan_candidates_Inr [OF plan] rs c(3) that unfolding frozen_def scheduled_def by (auto split: option.splits)
  then have "refines_at v' (thenE (store_schedule (si_WorkspaceID cmd) ?c cs ev) (ret (Inr x)))"
    if "o_EventType ev = ''campaign.scheduled.v1''" "o_AggregateID ev = cp_ID c" for ev and x :: ScheduleResult
    using store_schedule_step [of c v' _ ?c cs ev x] c v that by (simp add: scheduled_def)
  then show "refines_at v' (case NewEnvelope (si_Now cmd) \<lparr>opt_EventID = eid, opt_EventType = ''campaign.scheduled.v1'',
               opt_EventVersion = 1, opt_AggregateType = ''campaign'', opt_AggregateID = cp_ID ?c,
               opt_WorkspaceID = si_WorkspaceID cmd, opt_OccurredAt = si_Now cmd, opt_Metadata = None\<rparr>
               (CampaignScheduledPayload K (si_WorkspaceID cmd) ?c (case si_ScheduledAt cmd of None \<Rightarrow> si_Now cmd | Some t \<Rightarrow> t)) of
          Inl _ \<Rightarrow> ret (Inl ErrEnvelope)
        | Inr envelope \<Rightarrow>
            (case Marshal envelope of
               Inl _ \<Rightarrow> ret (Inl ErrEnvelope)
             | Inr payloadBytes \<Rightarrow>
                 thenE (store_schedule (si_WorkspaceID cmd) ?c cs \<lparr>o_ID = eid, o_AggregateType = ''campaign'', o_AggregateID = cp_ID ?c,
                     o_EventType = ''campaign.scheduled.v1'', o_Payload = payloadBytes,
                     o_WorkspaceID = si_WorkspaceID cmd, o_OccurredAt = si_Now cmd\<rparr>)
                   (ret (Inr \<lparr>sr_Campaign = ?c, sr_Candidates = cs\<rparr>))))"
    by (auto simp: refines_at_error scheduled_ID split: sum.splits)
qed

lemma schedule_checked_step:
  assumes "c \<in> set (campaigns (store w))" "cp_Status c = ''draft''" "cp_WorkspaceID c = si_WorkspaceID cmd"
  shows "refines_at w (schedule_checked K cmd c)"
  unfolding schedule_checked_def
  using assms
  by (auto intro!: refines_at_bindE refines_at_bind looks_calls refines_at_error schedule_recipients_step
      split: sum.splits option.splits)

lemma refines_schedule: "refines (Schedule_Execute K cmd)"
  unfolding Schedule_Execute_def
proof (intro refines_thenE looks_calls refines_found)
  fix c w r w'
  assume c: "c \<in> set (campaigns (store w))" "campaign_key (si_WorkspaceID cmd) (si_CampaignID cmd) c"
    and run: "run_state (if \<not> CanSchedule c then ret (Inl (Err CampInvalidStateTransition)) else schedule_checked K cmd c) w = (r, w')"
  then show "campaign_step (store w) (store w') \<or> store w' = store w \<and> (\<exists>e. r = Inl e)"
    using schedule_checked_step [of c w cmd K] by (auto simp: CanSchedule_def refines_at_def split: if_splits)
qed

section \<open>All campaigns at all times\<close>

definition campaign_sound :: "campaign_db \<Rightarrow> Campaign \<Rightarrow> bool" where
  "campaign_sound d c \<longleftrightarrow>
     (let mine = filter (candidate_of (cp_WorkspaceID c) (cp_ID c)) (candidates d);
          events = filter (\<lambda>e. o_AggregateID e = cp_ID c) (c_outbox d) in
      cp_Status c \<in> {''draft'', ''scheduled'', ''paused'', ''cancelled''} \<and>
      cp_PlannedRecipients c = int (length mine) \<and> int (length mine) \<le> 7281 \<and> distinct (map cc_ContactID mine) \<and>
      (cp_ScheduledAt c = None \<longleftrightarrow> mine = []) \<and> (cp_Status c = ''draft'' \<longrightarrow> mine = []) \<and>
      (cp_Status c \<in> {''scheduled'', ''paused''} \<longrightarrow> mine \<noteq> []) \<and>
      map o_EventType events = (if mine = [] then [] else [''campaign.scheduled.v1'']))"

definition campaign_inv :: "campaign_db \<Rightarrow> bool" where
  "campaign_inv d \<longleftrightarrow>
     distinct (map cp_ID (campaigns d)) \<and> list_all (campaign_sound d) (campaigns d) \<and>
     list_all (\<lambda>a. list_ex (campaign_key (cc_WorkspaceID a) (cc_CampaignID a)) (campaigns d)) (candidates d) \<and>
     list_all (\<lambda>e. list_ex (\<lambda>c. cp_ID c = o_AggregateID e) (campaigns d)) (c_outbox d)"

definition no_campaigns :: "campaign_db \<Rightarrow> bool" where
  "no_campaigns d \<longleftrightarrow> campaigns d = [] \<and> candidates d = [] \<and> c_outbox d = []"

lemma put_tables [simp]: "candidates (put c d) = candidates d" "c_outbox (put c d) = c_outbox d"
  by (simp_all add: put_def)

lemma put_ids [simp]: "map cp_ID (campaigns (put c d)) = map cp_ID (campaigns d)"
  by (auto simp: put_def)

lemma put_ex:
  assumes "\<And>x t. campaign_key (cp_WorkspaceID c) (cp_ID c) x \<Longrightarrow> P (c\<lparr>cp_CreatedAt := t\<rparr>) = P x"
  shows "list_ex P (campaigns (put c d)) = list_ex P (campaigns d)"
proof -
  have "list_ex P (map (\<lambda>row. if campaign_key (cp_WorkspaceID c) (cp_ID c) row
      then c\<lparr>cp_CreatedAt := cp_CreatedAt row\<rparr> else row) rows) = list_ex P rows" for rows
    by (induction rows) (auto simp: assms)
  then show ?thesis by (simp add: put_def)
qed

lemma put_keys:
  "list_ex (campaign_key ws cid) (campaigns (put c d)) = list_ex (campaign_key ws cid) (campaigns d)"
  "list_ex (\<lambda>r. cp_ID r = i) (campaigns (put c d)) = list_ex (\<lambda>r. cp_ID r = i) (campaigns d)"
  by (rule put_ex; auto)+

lemma put_rows:
  assumes "distinct (map cp_ID (campaigns d))" "c \<in> set (campaigns d)" "cp_ID c' = cp_ID c" "cp_WorkspaceID c' = cp_WorkspaceID c"
    and "x \<in> set (campaigns (put c' d))"
  shows "x \<in> set (campaigns d) \<and> cp_ID x \<noteq> cp_ID c \<or> x = c'\<lparr>cp_CreatedAt := cp_CreatedAt c\<rparr>"
  using assms by (auto simp: put_def distinct_map inj_on_def split: if_splits)

text \<open>Soundness of a campaign only looks at its own candidates and events.\<close>

lemma campaign_sound_cong:
  assumes "filter (candidate_of (cp_WorkspaceID c) (cp_ID c)) (candidates d') = filter (candidate_of (cp_WorkspaceID c) (cp_ID c)) (candidates d)"
    and "filter (\<lambda>e. o_AggregateID e = cp_ID c) (c_outbox d') = filter (\<lambda>e. o_AggregateID e = cp_ID c) (c_outbox d)"
  shows "campaign_sound d' c = campaign_sound d c"
  by (simp add: campaign_sound_def assms)

lemma campaign_sound_created: "campaign_sound d (c\<lparr>cp_CreatedAt := t\<rparr>) = campaign_sound d c"
  by (simp add: campaign_sound_def)

lemma campaign_inv_put:
  assumes "campaign_inv d" "c \<in> set (campaigns d)" "same_plan c c'" "campaign_sound d c'"
  shows "campaign_inv (put c' d)"
proof -
  have "campaign_sound (put c' d) x" if "x \<in> set (campaigns (put c' d))" for x
  proof -
    have "campaign_sound (put c' d) x = campaign_sound d x" by (rule campaign_sound_cong) simp_all
    moreover have "campaign_sound d x"
      using put_rows [OF _ assms(2) _ _ that] assms
      by (auto simp: campaign_inv_def same_plan_def list_all_iff campaign_sound_created)
    ultimately show ?thesis by simp
  qed
  with assms(1) show ?thesis
    by (auto simp: campaign_inv_def list_all_iff put_keys)
qed

lemma campaign_sound_moved:
  assumes "campaign_sound d c" "same_plan c c'"
    and "cp_Status c = ''draft'' \<and> cp_Status c' = ''draft'' \<or> (cp_Status c, cp_Status c') \<in> moves_to"
  shows "campaign_sound d c'"
  using assms by (auto simp: campaign_sound_def same_plan_def moves_to_def Let_def)

lemma campaign_inv_create:
  assumes inv: "campaign_inv d" and fresh: "\<not> list_ex (\<lambda>r. cp_ID r = cp_ID c) (campaigns d)"
    and c: "cp_Status c = ''draft''" "cp_PlannedRecipients c = 0" "cp_ScheduledAt c = None"
  shows "campaign_inv (d\<lparr>campaigns := campaigns d @ [c]\<rparr>)"
proof -
  from inv fresh have "filter (candidate_of (cp_WorkspaceID c) (cp_ID c)) (candidates d) = []"
    "filter (\<lambda>e. o_AggregateID e = cp_ID c) (c_outbox d) = []"
    by (fastforce simp: campaign_inv_def list_all_iff list_ex_iff filter_empty_conv)+
  with c have "campaign_sound d c" by (simp add: campaign_sound_def)
  moreover have "campaign_sound (d\<lparr>campaigns := campaigns d @ [c]\<rparr>) x = campaign_sound d x" for x
    by (rule campaign_sound_cong) simp_all
  ultimately show ?thesis using inv fresh by (auto simp: campaign_inv_def list_all_iff list_ex_iff)
qed

lemma campaign_inv_schedule:
  assumes inv: "campaign_inv d" and c: "c \<in> set (campaigns d)" "cp_Status c = ''draft''" "cp_Status c' = ''scheduled''"
    and fr: "frozen c c' cs ev" and di: "distinct (map cc_ContactID cs)" "int (length cs) \<le> 7281"
    and d': "d' = (put c' d)\<lparr>candidates := filter (\<lambda>a. \<not> candidate_of (cp_WorkspaceID c) (cp_ID c) a) (candidates d) @ cs,
      c_outbox := c_outbox d @ [ev]\<rparr>"
  shows "campaign_inv d'"
proof -
  have key: "cp_ID c' = cp_ID c" "cp_WorkspaceID c' = cp_WorkspaceID c" using fr by (auto simp: frozen_def)
  have rows: "campaigns d' = campaigns (put c' d)" by (simp add: d')
  from inv c have sound: "campaign_sound d c" and ids: "distinct (map cp_ID (campaigns d))"
    by (auto simp: campaign_inv_def list_all_iff)
  have "campaign_sound d' x" if x: "x \<in> set (campaigns d')" for x
    using put_rows [OF ids c(1) key x [unfolded rows]]
  proof
    assume x: "x \<in> set (campaigns d) \<and> cp_ID x \<noteq> cp_ID c"
    with inv have "campaign_sound d x" by (auto simp: campaign_inv_def list_all_iff)
    moreover have "campaign_sound d' x = campaign_sound d x"
    proof (rule campaign_sound_cong)
      show "filter (candidate_of (cp_WorkspaceID x) (cp_ID x)) (candidates d') = filter (candidate_of (cp_WorkspaceID x) (cp_ID x)) (candidates d)"
        using x fr by (auto simp: d' frozen_def list_all_iff filter_empty_conv intro!: filter_cong)
      show "filter (\<lambda>e. o_AggregateID e = cp_ID x) (c_outbox d') = filter (\<lambda>e. o_AggregateID e = cp_ID x) (c_outbox d)"
        using x fr by (auto simp: d' frozen_def)
    qed
    ultimately show ?thesis by simp
  next
    assume x: "x = c'\<lparr>cp_CreatedAt := cp_CreatedAt c\<rparr>"
    have "filter (candidate_of (cp_WorkspaceID c) (cp_ID c)) (candidates d') = cs"
      using fr by (auto simp: d' frozen_def list_all_iff filter_empty_conv intro!: filter_True)
    moreover have "filter (\<lambda>e. o_AggregateID e = cp_ID c) (c_outbox d') = [ev]"
      using sound c(2) fr by (auto simp: d' frozen_def campaign_sound_def Let_def)
    ultimately have "campaign_sound d' c'"
      using fr di c(3) unfolding campaign_sound_def key by (auto simp: frozen_def)
    with x show ?thesis by (simp add: campaign_sound_created)
  qed
  moreover have "list_all (\<lambda>a. list_ex (campaign_key (cc_WorkspaceID a) (cc_CampaignID a)) (campaigns d')) (candidates d')"
    unfolding rows put_keys using inv c(1) fr by (auto simp: campaign_inv_def d' list_all_iff list_ex_iff frozen_def)
  moreover have "list_all (\<lambda>e. list_ex (\<lambda>c. cp_ID c = o_AggregateID e) (campaigns d')) (c_outbox d')"
    unfolding rows put_keys using inv c(1) fr by (auto simp: campaign_inv_def d' list_all_iff list_ex_iff frozen_def)
  ultimately show ?thesis using ids by (simp add: campaign_inv_def list_all_iff rows)
qed

interpretation camp: invariant_system no_campaigns campaign_step campaign_inv
proof
  fix d assume "no_campaigns d"
  then show "campaign_inv d" by (simp add: no_campaigns_def campaign_inv_def)
next
  fix d d' assume inv: "campaign_inv d" and "campaign_step d d'"
  from this(2) show "campaign_inv d'"
  proof cases
    case (step_create c)
    with inv show ?thesis by (simp add: campaign_inv_create)
  next
    case (step_edit c c')
    with inv campaign_sound_moved [of d c c'] campaign_inv_put [of d c c'] show ?thesis
      by (simp add: campaign_inv_def list_all_iff)
  next
    case (step_move c c')
    with inv campaign_sound_moved [of d c c'] campaign_inv_put [of d c c'] show ?thesis
      by (simp add: campaign_inv_def list_all_iff same_content_def)
  next
    case (step_schedule c c' cs ev)
    with inv campaign_inv_schedule [of d c c' cs ev d'] show ?thesis by simp
  qed
qed

section \<open>Runs of commands\<close>

fun run_commands :: "campaign_ports \<Rightarrow> campaign_command list \<Rightarrow> campaign_world \<Rightarrow> campaign_world" where
  "run_commands K [] w = w"
| "run_commands K (cmd # cmds) w = run_commands K cmds (snd (run_state (run_command K cmd) w))"

lemma command_refines:
  "run_state (run_command K cmd) w = (ok, w') \<Longrightarrow> campaign_step (store w) (store w') \<or> store w' = store w \<and> \<not> ok"
  using refines_create refines_update refines_schedule refines_status_commands
  by (cases cmd) (auto dest!: refines_completes [rotated])

lemma command_step: "campaign_step\<^sup>=\<^sup>= (store w) (store (snd (run_state (run_command K cmd) w)))"
proof -
  obtain ok w' where run: "run_state (run_command K cmd) w = (ok, w')" by fastforce
  with command_refines [OF run] show ?thesis by auto
qed

lemma commands_steps: "campaign_step\<^sup>*\<^sup>* (store w) (store (run_commands K cmds w))"
proof (induction cmds arbitrary: w)
  case (Cons cmd cmds)
  have "campaign_step\<^sup>*\<^sup>* (store w) (store (snd (run_state (run_command K cmd) w)))"
    using command_step [of w K cmd] by auto
  with Cons show ?case by simp (metis rtranclp_trans)
qed simp

text \<open>What a campaign keeps once it has left the draft state: \<open>c\<close> is the row it had, \<open>mine\<close> its candidates.\<close>

definition settled :: "Campaign \<Rightarrow> CampaignMessageCandidate list \<Rightarrow> campaign_db \<Rightarrow> bool" where
  "settled c mine d \<longleftrightarrow>
     (\<exists>c'\<in>set (campaigns d). same_content c c' \<and> cp_Status c' \<noteq> ''draft'' \<and> (cp_Status c = ''cancelled'' \<longrightarrow> c' = c)) \<and>
     filter (candidate_of (cp_WorkspaceID c) (cp_ID c)) (candidates d) = mine"

lemma put_keeps:
  assumes "x \<in> set (campaigns d)" "cp_ID x \<noteq> cp_ID c"
  shows "x \<in> set (campaigns (put c d))"
  using assms by (auto simp: put_def)

lemma put_writes:
  assumes "x \<in> set (campaigns d)" "cp_ID c = cp_ID x" "cp_WorkspaceID c = cp_WorkspaceID x"
  shows "c\<lparr>cp_CreatedAt := cp_CreatedAt x\<rparr> \<in> set (campaigns (put c d))"
  using assms by (force simp: put_def)

lemma settled_step:
  assumes inv: "campaign_inv d" and st: "settled c mine d" and step: "campaign_step d d'"
  shows "settled c mine d'"
proof -
  from st obtain x where x: "x \<in> set (campaigns d)" "same_content c x" "cp_Status x \<noteq> ''draft''"
    "cp_Status c = ''cancelled'' \<longrightarrow> x = c" and mine: "filter (candidate_of (cp_WorkspaceID c) (cp_ID c)) (candidates d) = mine"
    by (auto simp: settled_def)
  have same: "y = x" if "y \<in> set (campaigns d)" "cp_ID y = cp_ID x" for y
    using inv x(1) that by (auto simp: campaign_inv_def distinct_map inj_on_def)
  have key: "cp_ID x = cp_ID c" "cp_WorkspaceID x = cp_WorkspaceID c"
    using x(2) by (auto simp: same_content_def same_plan_def)
  from step show ?thesis
  proof cases
    case step_create
    with x mine show ?thesis by (auto simp: settled_def)
  next
    case (step_edit y y')
    then have "cp_ID x \<noteq> cp_ID y'" using same x(3) by (auto simp: same_plan_def)
    with put_keeps [OF x(1)] x mine step_edit show ?thesis by (auto simp: settled_def)
  next
    case (step_move y y')
    show ?thesis
    proof (cases "cp_ID x = cp_ID y'")
      case True
      with step_move same have y: "y = x" by (auto simp: same_content_def same_plan_def)
      with step_move have "same_content c y'" "cp_Status y' \<noteq> ''draft''" "cp_Status x \<noteq> ''cancelled''"
        "cp_ID y' = cp_ID x" "cp_WorkspaceID y' = cp_WorkspaceID x"
        using x(2) by (auto simp: same_content_def same_plan_def moves_to_def)
      then have w: "y'\<lparr>cp_CreatedAt := cp_CreatedAt x\<rparr> \<in> set (campaigns d')"
        and keep: "same_content c (y'\<lparr>cp_CreatedAt := cp_CreatedAt x\<rparr>)" "cp_Status y' \<noteq> ''draft''" "cp_Status c \<noteq> ''cancelled''"
        using put_writes [OF x(1), of y'] x(4) step_move(1) by (auto simp: same_content_def same_plan_def)
      from mine step_move(1) show ?thesis
        unfolding settled_def by (intro conjI bexI [OF _ w]) (simp_all add: keep)
    qed (use put_keeps [OF x(1)] x mine step_move in \<open>auto simp: settled_def\<close>)
  next
    case (step_schedule y y' cs ev)
    then have ne: "cp_ID x \<noteq> cp_ID y'" "cp_ID x \<noteq> cp_ID y" using same x(3) by (auto simp: frozen_def)
    have "filter (candidate_of (cp_WorkspaceID c) (cp_ID c)) (candidates d') = filter (candidate_of (cp_WorkspaceID c) (cp_ID c)) (candidates d)"
      using step_schedule ne key by (auto simp: frozen_def list_all_iff filter_empty_conv intro!: filter_cong)
    with put_keeps [OF x(1) ne(1)] x mine step_schedule show ?thesis by (auto simp: settled_def)
  qed
qed

lemma settled_run: "campaign_step\<^sup>*\<^sup>* d d' \<Longrightarrow> campaign_inv d \<Longrightarrow> settled c mine d \<Longrightarrow> settled c mine d'"
  by (induction rule: rtranclp_induct) (auto intro: settled_step camp.run_inv)

text \<open>A workspace with one list of two contacts, in which everything is allowed and ready.\<close>

definition sample_camp :: campaign_ports where
  "sample_camp = \<lparr>k_gen = (\<lambda>n. replicate (Suc n) (CHR ''i'')), k_perm = (\<lambda>_ _ _. Inr ()), k_ready = (\<lambda>_ _. Inr True),
     k_version = (\<lambda>_ _. Inr (Some ''v1'')), k_renderable = (\<lambda>_ _. Inr ()),
     k_resolve = (\<lambda>_ _ _. Inr (map (\<lambda>n. \<lparr>rc_ContactID = n, rc_Email = n, rc_EmailNormalized = n, rc_FirstName = [],
       rc_LastName = [], rc_Tags = [], rc_Attributes = None\<rparr>) [''a'', ''b''])),
     k_rfc3339 = (\<lambda>_. ''t'')\<rparr>"

definition sample_create :: campaign_command where
  "sample_create = Create \<lparr>ci_WorkspaceID = ''w'', ci_UserID = ''u'', ci_Name = ''n'',
     ci_AudienceRef = \<lparr>ar_Type = ''list'', ar_ID = ''l'', ar_ContactIDs = []\<rparr>, ci_TemplateID = ''t'',
     ci_SenderDomainID = ''s'', ci_MessageType = ''marketing'', ci_Now = 1\<rparr>"

definition sample_schedule :: campaign_command where
  "sample_schedule = Schedule \<lparr>si_WorkspaceID = ''w'', si_CampaignID = ''i'', si_UserID = ''u'', si_ScheduledAt = None, si_Now = 2\<rparr>"

definition sample_cancel :: campaign_command where
  "sample_cancel = Cancel \<lparr>cm_WorkspaceID = ''w'', cm_CampaignID = ''i'', cm_UserID = ''u'', cm_Now = 3\<rparr>"

definition sample_campaigns :: campaign_world where
  "sample_campaigns = \<lparr>store = \<lparr>campaigns = [], candidates = [], c_outbox = []\<rparr>, in_tx = False, aborted = False,
     outcomes = [], id_ctr = 0\<rparr>"

lemma sample_created:
  "fst (run_state (run_command sample_camp sample_create) sample_campaigns)" by code_simp

definition sample_settled :: campaign_world where
  "sample_settled = run_commands sample_camp [sample_create, sample_schedule, sample_cancel] sample_campaigns"

lemma sample_settled_rows:
  "map cp_Status (campaigns (store sample_settled)) = [''cancelled'']"
  "map cc_ContactID (candidates (store sample_settled)) = [''a'', ''b'']"
  by code_simp+

lemma sample_settled_inv: "campaign_inv (store sample_settled)"
  by code_simp

section \<open>Properties\<close>

text \<open>
  Claim C30. Every command on campaigns (create, update, schedule, pause, resume, cancel), whatever the access check,
  the other modules and the database answer or fail to answer, is one step of the abstract campaign machine
  \<open>campaign_step\<close>, or it changes nothing and reports an error: in particular a command that reports success has taken its step.
\<close>

theorem campaign_refines:
  assumes "run_state (run_command K cmd) w = (ok, w')"
  shows "campaign_step (store w) (store w') \<or> store w' = store w \<and> \<not> ok"
  using assms by (rule command_refines)

theorem campaign_refines_witness:
  "\<exists>w'. run_state (run_command sample_camp sample_create) sample_campaigns = (True, w') \<and>
     campaign_step (store sample_campaigns) (store w')"
proof -
  obtain ok w' where run: "run_state (run_command sample_camp sample_create) sample_campaigns = (ok, w')" by fastforce
  with sample_created have "ok" by simp
  with campaign_refines [OF run] run show ?thesis by auto
qed

text \<open>
  After any sequence of commands on tables that start empty, under any faults, campaign ids are unique and every campaign is
  in the state draft, scheduled, paused or cancelled (running and completed are never reached); its planned-recipients
  count is the number of its candidates, which are at most 7281, no contact is a candidate of it twice, it has a schedule time exactly
  if it has candidates, which a draft has not and a scheduled or paused campaign has; and the outbox holds exactly one scheduled
  event for a campaign with candidates and none for the others.
\<close>

lemma campaign_invariant:
  assumes "no_campaigns (store w)"
  shows "campaign_inv (store (run_commands K cmds w))"
  using camp.run_inv [OF commands_steps] camp.init_inv [OF assms] by blast

text \<open>
  Once a campaign has left the draft state, no sequence of commands changes its name, audience, template
  version, sender, message type, schedule time or recipient count, nor its candidates, nor makes it a draft again;
  and the row of a cancelled campaign is not changed at all.
\<close>

lemma campaign_settled:
  assumes "campaign_inv (store w)" "c \<in> set (campaigns (store w))" "cp_Status c \<noteq> ''draft''"
  shows "settled c (filter (candidate_of (cp_WorkspaceID c) (cp_ID c)) (candidates (store w))) (store (run_commands K cmds w))"
proof (rule settled_run [OF commands_steps assms(1)])
  show "settled c (filter (candidate_of (cp_WorkspaceID c) (cp_ID c)) (candidates (store w))) (store w)"
    using assms(2,3) by (auto simp: settled_def same_content_def same_plan_def)
qed

end
