(* ===== verification/Campaign_Queue.thy ===== *)
theory Campaign_Queue
  imports Delivery_Charging Delivery_Success Campaign
begin

text \<open>
  Queueing the messages of a scheduled campaign: \<open>delivery/app/campaign/scheduled.go\<close> and \<open>queue.go\<close> with
  the reader of candidates (\<open>delivery/infrastructure/campaign/adapter.go\<close>), the payload parser
  (\<open>delivery/contracts/campaign.go\<close>) and the consumer of the worker. The candidates are rows of the campaign
  module's table, which the handler only reads: they are an argument. Of the pipeline with one processor
  the model takes the run in which a page of 500 candidates, which is also the size of a write batch, is
  written before the next page is read.
\<close>

section \<open>The event payload\<close>

record ScheduledPayload =
  sp_CampaignID :: string
  sp_WorkspaceID :: string
  sp_TemplateID :: string
  sp_TemplateVersionID :: string
  sp_SenderDomainID :: string
  sp_MessageType :: string
  sp_ScheduledAt :: string
  sp_PlannedRecipients :: int

definition decode_scheduled :: "json \<Rightarrow> ScheduledPayload option" where
  "decode_scheduled j = do {
     c \<leftarrow> str_field ''campaign_id'' j;
     w \<leftarrow> str_field ''workspace_id'' j;
     t \<leftarrow> str_field ''template_id'' j;
     v \<leftarrow> str_field ''template_version_id'' j;
     s \<leftarrow> str_field ''sender_domain_id'' j;
     m \<leftarrow> str_field ''message_type'' j;
     a \<leftarrow> str_field ''scheduled_at'' j;
     n \<leftarrow> num_field ''planned_recipients'' j;
     Some \<lparr>sp_CampaignID = c, sp_WorkspaceID = w, sp_TemplateID = t, sp_TemplateVersionID = v,
       sp_SenderDomainID = s, sp_MessageType = m, sp_ScheduledAt = a, sp_PlannedRecipients = n\<rparr>
   }"

text \<open>\<open>parse\<close> is \<open>time.Parse\<close> for RFC 3339.\<close>

definition ParseCampaignScheduledPayload ::
  "(string \<Rightarrow> gotime option) \<Rightarrow> string \<Rightarrow> json \<Rightarrow> (error, ScheduledPayload) result" where
  "ParseCampaignScheduledPayload parse eventType payload =
     (if eventType \<noteq> ''campaign.scheduled.v1'' then Inl (ErrLocal ''unsupported event type'')
      else case decode_scheduled payload of
        None \<Rightarrow> Inl (ErrLocal ''decode payload'')
      | Some p \<Rightarrow>
          if sp_CampaignID p = [] then Inl (ErrLocal ''invalid payload'')
          else if sp_WorkspaceID p = [] then Inl (ErrLocal ''invalid payload'')
          else if sp_TemplateID p = [] then Inl (ErrLocal ''invalid payload'')
          else if sp_TemplateVersionID p = [] then Inl (ErrLocal ''invalid payload'')
          else if sp_SenderDomainID p = [] then Inl (ErrLocal ''invalid payload'')
          else if sp_MessageType p = [] then Inl (ErrLocal ''invalid payload'')
          else if parse (sp_ScheduledAt p) = None then Inl (ErrLocal ''invalid scheduled_at timestamp'')
          else Inr p)"

section \<open>Reading candidates\<close>

record QueueCampaignMessagesInput =
  qi_WorkspaceID :: string
  qi_CampaignID :: string
  qi_TemplateID :: string
  qi_TemplateVersionID :: string
  qi_SenderDomainID :: string
  qi_MessageType :: string
  qi_ScheduledAt :: gotime
  qi_Now :: gotime

record QueueCampaignMessagesResult =
  qr_QueuedCount :: nat
  qr_CandidateCount :: int

definition candidates_query :: "QueueCampaignMessagesInput \<Rightarrow> string \<Rightarrow> CandidateListQuery" where
  "candidates_query input cursor =
     \<lparr>dl_WorkspaceID = qi_WorkspaceID input, dl_CampaignID = qi_CampaignID input, dl_Status = [],
      dl_Limit = 500, dl_Cursor = cursor\<rparr>"

definition Reader_ListCandidates ::
  "CampaignMessageCandidate list \<Rightarrow> QueueCampaignMessagesInput \<Rightarrow> string \<Rightarrow> (CampaignMessageCandidate list \<times> string) dprog" where
  "Reader_ListCandidates rows input cursor = remote (Inr (candidate_page (candidates_query input cursor) rows))"

definition Reader_CountCandidates ::
  "CampaignMessageCandidate list \<Rightarrow> QueueCampaignMessagesInput \<Rightarrow> int dprog" where
  "Reader_CountCandidates rows input = remote (Inr (candidate_count (qi_WorkspaceID input) (qi_CampaignID input) rows))"

text \<open>The snapshot goes from one module to the other as JSON with the same field names.\<close>

definition delivery_snapshot :: "CampaignSnapshot \<Rightarrow> RecipientSnapshot" where
  "delivery_snapshot s =
     \<lparr>rs_ContactID = sn_ContactID s, rs_Email = sn_Email s, rs_EmailNormalized = sn_EmailNormalized s,
      rs_FirstName = sn_FirstName s, rs_LastName = sn_LastName s, rs_Tags = sn_Tags s,
      rs_Attributes = sn_Attributes s, rs_TemplateData = None\<rparr>"

section \<open>The pipeline\<close>

definition campaign_message :: "QueueCampaignMessagesInput \<Rightarrow> CampaignMessageCandidate \<Rightarrow> string \<Rightarrow> Message" where
  "campaign_message input c msgID =
     zero_Message\<lparr>m_ID := msgID, m_WorkspaceID := qi_WorkspaceID input, m_CampaignID := qi_CampaignID input,
       m_CampaignCandidateID := cc_ID c, m_ContactID := cc_ContactID c,
       m_RecipientEmailNormalized := cc_EmailNormalized c,
       m_RecipientSnapshot := delivery_snapshot (cc_RecipientSnapshot c),
       m_TemplateID := qi_TemplateID input, m_TemplateVersionID := qi_TemplateVersionID input,
       m_SenderDomainID := qi_SenderDomainID input, m_MessageType := qi_MessageType input,
       m_SourceType := MessageSourceCampaign, m_Status := MessageStatusQueued,
       m_ScheduledAt := Some (qi_ScheduledAt input), m_QueuedAt := Some (qi_Now input),
       m_CreatedAt := qi_Now input, m_UpdatedAt := qi_Now input\<rparr>"

fun process_candidates ::
  "ports \<Rightarrow> QueueCampaignMessagesInput \<Rightarrow> CampaignMessageCandidate list \<Rightarrow> (Message list) dprog" where
  "process_candidates P input [] = ret (Inr [])"
| "process_candidates P input (c # cs) =
     bindE (idGen (p_gen P)) (\<lambda>msgID.
       bindE (process_candidates P input cs) (\<lambda>ms. ret (Inr (campaign_message input c msgID # ms))))"

definition campaign_queued_payload :: "ports \<Rightarrow> Message \<Rightarrow> json" where
  "campaign_queued_payload P msg =
     JObj ([(''message_id'', JStr (m_ID msg)), (''workspace_id'', JStr (m_WorkspaceID msg))] @
       omitempty ''campaign_id'' (m_CampaignID msg) @ omitempty ''campaign_candidate_id'' (m_CampaignCandidateID msg) @
       [(''template_id'', JStr (m_TemplateID msg)), (''template_version_id'', JStr (m_TemplateVersionID msg)),
        (''sender_domain_id'', JStr (m_SenderDomainID msg)), (''message_type'', JStr (m_MessageType msg)),
        (''source_type'', JStr (m_SourceType msg))] @
       omitempty ''scheduled_at'' (case m_ScheduledAt msg of None \<Rightarrow> [] | Some t \<Rightarrow> p_rfc3339 P t))"

fun queue_events ::
  "ports \<Rightarrow> QueueCampaignMessagesInput \<Rightarrow> string list \<Rightarrow> Message list \<Rightarrow> unit dprog" where
  "queue_events P input insertedIDs [] = ret (Inr ())"
| "queue_events P input insertedIDs (msg # ms) =
     (if m_ID msg \<notin> set insertedIDs then queue_events P input insertedIDs ms
      else bindE (idGen (p_gen P)) (\<lambda>eventID.
        thenE (save_event eventID ''delivery.message.queued.v1'' ''message'' (m_ID msg) (m_WorkspaceID msg)
            (qi_Now input) (campaign_queued_payload P msg))
          (queue_events P input insertedIDs ms)))"

definition write_messages ::
  "ports \<Rightarrow> string list \<Rightarrow> QueueCampaignMessagesInput \<Rightarrow> Message list \<Rightarrow> nat dprog" where
  "write_messages P cols input ms = WithinTx
     (bindE (CreateMany cols ms) (\<lambda>insertedIDs.
       thenE (queue_events P input insertedIDs ms) (ret (Inr (length insertedIDs)))))"

text \<open>
  The loop over the pages. The fuel counts pages; a run that uses it up is \<open>None\<close>.
\<close>

fun queue_pages ::
  "ports \<Rightarrow> CampaignMessageCandidate list \<Rightarrow> string list \<Rightarrow> QueueCampaignMessagesInput \<Rightarrow> nat \<Rightarrow> string \<Rightarrow> nat \<Rightarrow>
   (nat option) dprog" where
  "queue_pages P rows cols input 0 cursor acc = ret (Inr None)"
| "queue_pages P rows cols input (Suc fuel) cursor acc =
     bindE (Reader_ListCandidates rows input cursor) (\<lambda>(page, nextCursor).
       if page = [] then ret (Inr (Some acc))
       else
         bindE (process_candidates P input page) (\<lambda>ms.
         bindE (write_messages P cols input ms) (\<lambda>queued.
           if nextCursor = [] then ret (Inr (Some (acc + queued)))
           else queue_pages P rows cols input fuel nextCursor (acc + queued))))"

definition QueueCampaignMessages_Execute ::
  "ports \<Rightarrow> CampaignMessageCandidate list \<Rightarrow> string list \<Rightarrow> QueueCampaignMessagesInput \<Rightarrow>
   (QueueCampaignMessagesResult option) dprog" where
  "QueueCampaignMessages_Execute P rows cols input =
     (if qi_WorkspaceID input = [] \<or> qi_CampaignID input = [] \<or> qi_TemplateID input = [] \<or>
         qi_TemplateVersionID input = [] \<or> qi_SenderDomainID input = [] \<or> qi_MessageType input = []
      then ret (Inl (Err ErrPayloadInvalid))
      else if IsZero (qi_Now input) then ret (Inl (Err ErrPayloadInvalid))
      else bindE (Reader_CountCandidates rows input) (\<lambda>count.
        if count = 0 then ret (Inl (Err ErrCampaignCandidatesNotFound))
        else bindE (queue_pages P rows cols input (Suc (length rows)) [] 0) (\<lambda>acc.
          ret (Inr (map_option (\<lambda>n. \<lparr>qr_QueuedCount = n, qr_CandidateCount = count\<rparr>) acc)))))"

section \<open>The event handler\<close>

definition queue_input :: "ScheduledPayload \<Rightarrow> gotime \<Rightarrow> gotime \<Rightarrow> QueueCampaignMessagesInput" where
  "queue_input p scheduledAt now =
     \<lparr>qi_WorkspaceID = sp_WorkspaceID p, qi_CampaignID = sp_CampaignID p, qi_TemplateID = sp_TemplateID p,
      qi_TemplateVersionID = sp_TemplateVersionID p, qi_SenderDomainID = sp_SenderDomainID p,
      qi_MessageType = sp_MessageType p, qi_ScheduledAt = scheduledAt, qi_Now = now\<rparr>"

definition CampaignScheduled_Execute ::
  "ports \<Rightarrow> (string \<Rightarrow> gotime option) \<Rightarrow> CampaignMessageCandidate list \<Rightarrow> string list \<Rightarrow> string \<Rightarrow> string \<Rightarrow> json \<Rightarrow> gotime \<Rightarrow>
   (QueueCampaignMessagesResult option) dprog" where
  "CampaignScheduled_Execute P parse rows cols eventID eventType payload now =
     (if eventID = [] then ret (Inl (NonRetryable (Err ErrPayloadInvalid)))
      else case ParseCampaignScheduledPayload parse eventType payload of
        Inl e \<Rightarrow> ret (Inl (NonRetryable e))
      | Inr p \<Rightarrow>
          (case parse (sp_ScheduledAt p) of
             None \<Rightarrow> ret (Inl (NonRetryable (Err ErrCampaignScheduleInvalid)))
           | Some scheduledAt \<Rightarrow> do {
               r \<leftarrow> QueueCampaignMessages_Execute P rows cols (queue_input p scheduledAt now);
               ret (case r of
                   Inl e \<Rightarrow> Inl (if e = Err ErrPayloadInvalid then NonRetryable e else e)
                 | Inr res \<Rightarrow> Inr res)
             }))"

text \<open>The consumer of the worker: it opens the envelope.\<close>

definition CampaignScheduled_HandleEvent ::
  "ports \<Rightarrow> (string \<Rightarrow> gotime option) \<Rightarrow> CampaignMessageCandidate list \<Rightarrow> string list \<Rightarrow> string \<Rightarrow> Envelope \<Rightarrow> gotime \<Rightarrow>
   (QueueCampaignMessagesResult option) dprog" where
  "CampaignScheduled_HandleEvent P parse rows cols eventID raw now =
     (case Unmarshal raw of
        Inl _ \<Rightarrow> ret (Inl (NonRetryable ErrEnvelope))
      | Inr env \<Rightarrow> CampaignScheduled_Execute P parse rows cols eventID (EventType env)
          (case Payload env of None \<Rightarrow> JNull | Some p \<Rightarrow> p) now)"

section \<open>What is stored, whatever fails\<close>

abbreviation rows_ok :: "delivery_db \<Rightarrow> bool" where
  "rows_ok d \<equiv> sorted_wrt (\<lambda>m n. \<not> row_conflict n m) (messages d)"

text \<open>
  What a run adds: new messages of candidates of the campaign, each stored as the row the insert makes of it, and one event for each.
\<close>

definition queued_from ::
  "string list \<Rightarrow> QueueCampaignMessagesInput \<Rightarrow> CampaignMessageCandidate list \<Rightarrow> nat \<Rightarrow> delivery_db \<Rightarrow> delivery_db \<Rightarrow> bool" where
  "queued_from cols input rows n d d' \<longleftrightarrow> (\<exists>new evs.
     d' = d\<lparr>messages := messages d @ map (inserted cols) new, outbox := outbox d @ evs\<rparr> \<and> length new = n \<and> rows_ok d' \<and>
     map o_AggregateID evs = map m_ID new \<and> list_all (\<lambda>e. o_EventType e = ''delivery.message.queued.v1'') evs \<and>
     list_all (\<lambda>m. list_ex (\<lambda>c. candidate_of (qi_WorkspaceID input) (qi_CampaignID input) c \<and>
       m = campaign_message input c (m_ID m)) rows) new)"

lemma queued_from_refl: "rows_ok d \<Longrightarrow> queued_from cols input rows 0 d d"
  unfolding queued_from_def by (intro exI [of _ "[]"]) simp

lemma queued_from_trans:
  assumes "queued_from cols input rows n d d'" "queued_from cols input rows k d' d''"
  shows "queued_from cols input rows (n + k) d d''"
proof -
  from assms(1) obtain new evs where 1: "d' = d\<lparr>messages := messages d @ map (inserted cols) new, outbox := outbox d @ evs\<rparr>"
    "length new = n" "map o_AggregateID evs = map m_ID new" "list_all (\<lambda>e. o_EventType e = ''delivery.message.queued.v1'') evs"
    "list_all (\<lambda>m. list_ex (\<lambda>c. candidate_of (qi_WorkspaceID input) (qi_CampaignID input) c \<and>
       m = campaign_message input c (m_ID m)) rows) new"
    unfolding queued_from_def by blast
  from assms(2) obtain new' evs' where 2: "d'' = d'\<lparr>messages := messages d' @ map (inserted cols) new', outbox := outbox d' @ evs'\<rparr>"
    "length new' = k" "map o_AggregateID evs' = map m_ID new'" "list_all (\<lambda>e. o_EventType e = ''delivery.message.queued.v1'') evs'"
    "list_all (\<lambda>m. list_ex (\<lambda>c. candidate_of (qi_WorkspaceID input) (qi_CampaignID input) c \<and>
       m = campaign_message input c (m_ID m)) rows) new'" "rows_ok d''"
    unfolding queued_from_def by blast
  show ?thesis unfolding queued_from_def
    by (intro exI [of _ "new @ new'"] exI [of _ "evs @ evs'"]) (use 1 2 in simp)
qed

lemma store_idGen: "run_state (idGen gen) w = (r, w') \<Longrightarrow> store w' = store w"
  by (auto simp: idGen_def next_outcome_def split: list.splits if_splits)

lemma store_remote: "run_state (remote answer) w = (r, w') \<Longrightarrow> store w' = store w"
  by (auto simp: remote_def next_outcome_def split: list.splits)

lemma store_process: "run_state (process_candidates P input cs) w = (r, w') \<Longrightarrow> store w' = store w"
proof (induction cs arbitrary: w r w')
  case (Cons c cs)
  obtain x :: "(error, string) result" and v where v: "run_state (idGen (p_gen P)) w = (x, v)" by fastforce
  obtain y u where u: "run_state (process_candidates P input cs) v = (y, u)" by fastforce
  from Cons.IH [OF u] store_idGen [OF v] Cons.prems v u show ?case
    by (auto simp: run_bindE split: sum.splits)
qed simp

lemma process_candidates_Inr:
  "run_state (process_candidates P input cs) w = (Inr ms, w') \<Longrightarrow>
   ms = map2 (campaign_message input) cs (map (p_gen P) [id_ctr w..<id_ctr w + length cs]) \<and>
   id_ctr w' = id_ctr w + length cs"
proof (induction cs arbitrary: w ms)
  case (Cons c cs)
  from Cons.prems [unfolded process_candidates.simps] obtain i v where v: "run_state (idGen (p_gen P)) w = (Inr i :: (error, string) result, v)"
    and rest: "run_state (bindE (process_candidates P input cs) (\<lambda>ms. ret (Inr (campaign_message input c i # ms)))) v = (Inr ms, w')"
    by (rule bindE_InrD)
  from rest obtain ns where u: "run_state (process_candidates P input cs) v = (Inr ns, w')"
    and ms: "ms = campaign_message input c i # ns"
    by (rule bindE_InrD) auto
  from Cons.IH [OF u] idGen_InrD [OF v] show ?case
    by (simp add: ms upt_conv_Cons del: upt_Suc)
qed simp

lemma campaign_message_ids: "m_ID (campaign_message input c i) = i"
  by (simp_all add: campaign_message_def)

lemma campaign_message_new: "m_BouncedAt (campaign_message input c i) = None"
  by (simp add: campaign_message_def zero_Message_def)

lemma processed_ids:
  assumes "inj (p_gen P)" "run_state (process_candidates P input cs) w = (Inr ms, w')"
  shows "distinct (map m_ID ms)"
proof -
  let ?is = "map (p_gen P) [id_ctr w..<id_ctr w + length cs]"
  have "map m_ID (map2 (campaign_message input) cs ids) = take (length cs) ids" for ids
    by (induction cs ids rule: list_induct2') (simp_all add: campaign_message_ids)
  then have "map m_ID ms = ?is"
    unfolding process_candidates_Inr [OF assms(2), THEN conjunct1] by simp
  moreover have "distinct ?is" by (simp add: distinct_map inj_on_subset [OF assms(1)])
  ultimately show ?thesis by simp
qed

lemma queue_events_Inr:
  assumes "run_state (queue_events P input ids ms) w = (Inr u, w')"
  shows "\<exists>evs. store w' = (store w)\<lparr>outbox := outbox (store w) @ evs\<rparr> \<and>
    map o_AggregateID evs = map m_ID (filter (\<lambda>m. m_ID m \<in> set ids) ms) \<and>
    list_all (\<lambda>e. o_EventType e = ''delivery.message.queued.v1'') evs"
  using assms
proof (induction ms arbitrary: w)
  case Nil
  then show ?case by (intro exI [of _ "[]"]) simp
next
  case (Cons m ms)
  show ?case
  proof (cases "m_ID m \<in> set ids")
    case False
    with Cons show ?thesis by simp
  next
    case True
    with Cons.prems have "run_state (bindE (idGen (p_gen P)) (\<lambda>i. thenE (save_event i ''delivery.message.queued.v1'' ''message''
      (m_ID m) (m_WorkspaceID m) (qi_Now input) (campaign_queued_payload P m)) (queue_events P input ids ms))) w = (Inr u, w')"
      by simp
    then obtain i v where 1: "run_state (idGen (p_gen P)) w = (Inr i :: (error, string) result, v)"
      and rest: "run_state (thenE (save_event i ''delivery.message.queued.v1'' ''message'' (m_ID m) (m_WorkspaceID m)
            (qi_Now input) (campaign_queued_payload P m)) (queue_events P input ids ms)) v = (Inr u, w')"
      by (rule bindE_InrD)
    from rest obtain x v' where 2: "run_state (save_event i ''delivery.message.queued.v1'' ''message'' (m_ID m) (m_WorkspaceID m)
            (qi_Now input) (campaign_queued_payload P m)) v = (Inr x, v')"
      and 3: "run_state (queue_events P input ids ms) v' = (Inr u, w')"
      by (rule thenE_InrD)
    from 2 obtain ev where ev: "store v' = (store v)\<lparr>outbox := outbox (store v) @ [ev]\<rparr>"
      "o_EventType ev = ''delivery.message.queued.v1''" "o_AggregateID ev = m_ID m"
      by (rule save_event_Inr)
    from Cons.IH [OF 3] obtain evs where "store w' = (store v')\<lparr>outbox := outbox (store v') @ evs\<rparr>"
      "map o_AggregateID evs = map m_ID (filter (\<lambda>m. m_ID m \<in> set ids) ms)"
      "list_all (\<lambda>e. o_EventType e = ''delivery.message.queued.v1'') evs" by blast
    with ev True store_idGen [OF 1] show ?thesis by (intro exI [of _ "ev # evs"]) simp
  qed
qed

lemma subseq_selected:
  assumes "subseq new ms" "distinct (map m_ID ms)"
  shows "filter (\<lambda>m. m_ID m \<in> m_ID ` set new) ms = new"
  using assms
proof (induction new ms rule: list_emb.induct)
  case (list_emb_Cons new ms m)
  then have "set new \<subseteq> set ms" by (auto dest: list_emb_set)
  with list_emb_Cons.prems have "m_ID m \<notin> m_ID ` set new" by auto
  with list_emb_Cons show ?case by simp
next
  case (list_emb_Cons2 a b new ms)
  then have "filter (\<lambda>m. m_ID m = m_ID b \<or> m_ID m \<in> m_ID ` set new) ms = filter (\<lambda>m. m_ID m \<in> m_ID ` set new) ms"
    by (intro filter_cong refl) (auto simp: image_iff)
  with list_emb_Cons2 show ?case by simp
qed simp

lemma write_messages_effect:
  assumes "run_state (write_messages P (''id'' # cols) input ms) w = (r, w')" "rows_ok (store w)" "distinct (map m_ID ms)"
    and "\<forall>m\<in>set ms. list_ex (\<lambda>c. candidate_of (qi_WorkspaceID input) (qi_CampaignID input) c \<and>
       m = campaign_message input c (m_ID m)) rows"
  shows "\<exists>n. queued_from (''id'' # cols) input rows n (store w) (store w') \<and> (\<forall>k. r = Inr k \<longrightarrow> k = n)"
proof -
  let ?cols = "''id'' # cols"
  from WithinTx_atomic [OF assms(1) [unfolded write_messages_def]] show ?thesis
  proof (elim disjE exE conjE)
    assume "store w' = store w" "\<forall>a. r \<noteq> Inr a"
    with queued_from_refl [OF assms(2)] show ?thesis by (auto intro!: exI [of _ 0])
  next
    fix w1 a w2 assume w1: "store w1 = store w" and w': "store w' = store w2" "\<forall>b. r = Inr b \<longrightarrow> b = a"
      and body: "run_state (bindE (CreateMany ?cols ms) (\<lambda>insertedIDs. thenE (queue_events P input insertedIDs ms)
        (ret (Inr (length insertedIDs))))) w1 = (Inr a, w2)"
    from body obtain ids v where c: "run_state (CreateMany ?cols ms) w1 = (Inr ids, v)"
      and rest: "run_state (thenE (queue_events P input ids ms) (ret (Inr (length ids)))) v = (Inr a, w2)"
      by (rule bindE_InrD)
    from rest obtain u where e: "run_state (queue_events P input ids ms) v = (Inr u, w2)" and a: "a = length ids"
      by (rule thenE_InrD) auto
    from create_many_rows [OF c] assms(2) w1 obtain new where
      new: "store v = (store w1)\<lparr>messages := messages (store w1) @ map (inserted ?cols) new\<rparr>" "subseq new ms" "ids = map m_ID new"
      "rows_ok (store v)" by (auto simp: comp_def)
    have "set new \<subseteq> set ms" using new(2) by (auto dest: list_emb_set)
    with assms(4) have "list_all (\<lambda>m. list_ex (\<lambda>c. candidate_of (qi_WorkspaceID input) (qi_CampaignID input) c \<and>
       m = campaign_message input c (m_ID m)) rows) new" by (auto simp: list_all_iff)
    moreover obtain evs where "store w2 = (store v)\<lparr>outbox := outbox (store v) @ evs\<rparr>" "map o_AggregateID evs = map m_ID new"
      "list_all (\<lambda>e. o_EventType e = ''delivery.message.queued.v1'') evs"
      using queue_events_Inr [OF e] subseq_selected [OF new(2) assms(3)] new(3) by auto
    ultimately have "queued_from ?cols input rows (length new) (store w) (store w')"
      unfolding queued_from_def by (intro exI [of _ new] exI [of _ evs]) (use new w1 w' in simp)
    with new(3) a w'(2) show ?thesis by auto
  qed
qed

lemma page_candidates:
  "c \<in> set (fst (candidate_page (candidates_query input cursor) rows)) \<Longrightarrow>
   c \<in> set rows \<and> candidate_of (qi_WorkspaceID input) (qi_CampaignID input) c"
  by (auto simp: candidate_page_def list_page_def candidates_query_def candidate_where_def Let_def
      dest!: in_set_takeD split: if_splits)

lemma processed_messages:
  assumes "run_state (process_candidates P input (fst (candidate_page (candidates_query input cursor) rows))) w = (Inr ms, w')"
    and "m \<in> set ms"
  shows "list_ex (\<lambda>c. candidate_of (qi_WorkspaceID input) (qi_CampaignID input) c \<and>
       m = campaign_message input c (m_ID m)) rows"
proof -
  from assms process_candidates_Inr [OF assms(1)] obtain c i
    where "c \<in> set (fst (candidate_page (candidates_query input cursor) rows))" "m = campaign_message input c i"
    by (auto dest!: set_zip_leftD)
  then show ?thesis using page_candidates [of c input cursor rows]
    by (auto simp: campaign_message_ids list_ex_iff)
qed

lemma queue_pages_effect:
  assumes "inj (p_gen P)"
  shows "run_state (queue_pages P rows (''id'' # cols) input fuel cursor acc) w = (r, w') \<Longrightarrow> rows_ok (store w) \<Longrightarrow>
    \<exists>n. queued_from (''id'' # cols) input rows n (store w) (store w') \<and> (\<forall>t. r = Inr (Some t) \<longrightarrow> t = acc + n)"
proof (induction fuel arbitrary: cursor acc w r)
  case 0
  then show ?case by (auto intro!: exI [of _ 0] queued_from_refl)
next
  case (Suc fuel)
  obtain page nxt where pg: "candidate_page (candidates_query input cursor) rows = (page, nxt)" by fastforce
  obtain x v where read: "run_state (Reader_ListCandidates rows input cursor) w = (x, v)" by fastforce
  then have v: "store v = store w" and x: "\<And>y. x = Inr y \<Longrightarrow> y = (page, nxt)"
    by (auto simp: Reader_ListCandidates_def remote_def pg next_outcome_def split: list.splits if_splits)
  show ?case
  proof (cases "x = Inr (page, nxt) \<and> page \<noteq> []")
    case False
    with Suc.prems read v x show ?thesis
      by (cases x) (auto simp: run_bindE intro!: exI [of _ 0] queued_from_refl)
  next
    case True
    obtain y u where proc: "run_state (process_candidates P input page) v = (y, u)" by fastforce
    note u = store_process [OF proc]
    show ?thesis
    proof (cases y)
      case (Inl e)
      with Suc.prems read True proc u v show ?thesis
        by (auto simp: run_bindE intro!: exI [of _ 0] queued_from_refl)
    next
      case (Inr ms)
      obtain z t where wr: "run_state (write_messages P (''id'' # cols) input ms) u = (z, t)" by fastforce
      have "\<exists>n. queued_from (''id'' # cols) input rows n (store u) (store t) \<and> (\<forall>k. z = Inr k \<longrightarrow> k = n)"
      proof (rule write_messages_effect [OF wr])
        show "rows_ok (store u)" using Suc.prems(2) u v by simp
        show "distinct (map m_ID ms)" using processed_ids [OF assms] proc Inr by blast
        show "\<forall>m\<in>set ms. list_ex (\<lambda>c. candidate_of (qi_WorkspaceID input) (qi_CampaignID input) c \<and>
            m = campaign_message input c (m_ID m)) rows"
          using processed_messages [of P input cursor rows v ms u] proc Inr pg by simp
      qed
      then obtain n where n: "queued_from (''id'' # cols) input rows n (store w) (store t)" "\<And>k. z = Inr k \<Longrightarrow> k = n"
        using u v by auto
      show ?thesis
      proof (cases "\<exists>k. z = Inr k \<and> nxt \<noteq> []")
        case False
        with Suc.prems(1) read True proc Inr wr n show ?thesis
          by (cases z) (auto simp: run_bindE)
      next
        case True
        with n have z: "z = Inr n" "nxt \<noteq> []" by auto
        with Suc.prems(1) read \<open>x = Inr (page, nxt) \<and> page \<noteq> []\<close> proc Inr wr
        have "run_state (queue_pages P rows (''id'' # cols) input fuel nxt (acc + n)) t = (r, w')"
          by (simp add: run_bindE)
        from Suc.IH [OF this] n(1) obtain k where "queued_from (''id'' # cols) input rows k (store t) (store w')"
          "\<forall>b. r = Inr (Some b) \<longrightarrow> b = acc + n + k" by (auto simp: queued_from_def)
        with queued_from_trans [OF n(1)] show ?thesis by (auto intro!: exI [of _ "n + k"])
      qed
    qed
  qed
qed

lemma queue_effect:
  assumes "inj (p_gen P)" "rows_ok (store w)"
    and run: "run_state (QueueCampaignMessages_Execute P rows (''id'' # cols) input) w = (r, w')"
  shows "\<exists>n. queued_from (''id'' # cols) input rows n (store w) (store w') \<and> (\<forall>res. r = Inr (Some res) \<longrightarrow> qr_QueuedCount res = n)"
proof -
  have none: ?thesis if "store w' = store w" "\<And>res. r \<noteq> Inr (Some res)"
    using that queued_from_refl [OF assms(2)] by (auto intro!: exI [of _ 0])
  obtain x v where c: "run_state (Reader_CountCandidates rows input) w = (x, v)" by fastforce
  then have v: "store v = store w" by (auto simp: Reader_CountCandidates_def store_remote)
  let ?ok = "\<lambda>k. x = Inr k \<and>
     run_state (bindE (queue_pages P rows (''id'' # cols) input (Suc (length rows)) [] 0) (\<lambda>acc.
          ret (Inr (map_option (\<lambda>n. \<lparr>qr_QueuedCount = n, qr_CandidateCount = k\<rparr>) acc)))) v = (r, w')"
  show ?thesis
  proof (cases "\<exists>k. ?ok k")
    case False
    with run c v show ?thesis unfolding QueueCampaignMessages_Execute_def
      by (intro none) (auto simp: run_bindE [where f = "Reader_CountCandidates rows input"] split: if_splits sum.splits)
  next
    case True
    then obtain k where k: "?ok k" by blast
    obtain y u where q: "run_state (queue_pages P rows (''id'' # cols) input (Suc (length rows)) [] 0) v = (y, u)" by fastforce
    with k queue_pages_effect [OF assms(1) q] assms(2) v obtain n where
      n: "queued_from (''id'' # cols) input rows n (store w) (store u)" "\<forall>t. y = Inr (Some t) \<longrightarrow> t = n" by auto
    with k q show ?thesis by (cases y) (auto simp: run_bindE intro!: exI [of _ n])
  qed
qed

section \<open>The loop ends\<close>

lemma candidate_where_cursor: "candidate_where (candidates_query input cursor) = candidate_where (candidates_query input [])"
  by (simp add: fun_eq_iff candidate_where_def candidates_query_def)

lemma read_page:
  assumes "run_state (Reader_ListCandidates rows input cursor) w = (Inr (page, nxt), v)"
  shows "list_page candidate_order cc_ID (candidate_where (candidates_query input [])) 500 cursor rows = (page, nxt)"
  using remote_answer [OF assms [unfolded Reader_ListCandidates_def]]
  by (simp add: candidate_page_def candidate_where_cursor [of input cursor]) (simp add: candidates_query_def campaign_limit_def)

text \<open>As often as a client that follows the cursor reaches the end, so does the loop, unless it ends with an error before.\<close>

lemma queue_pages_ends:
  assumes "follow candidate_order cc_ID (candidate_where (candidates_query input [])) 500 rows fuel cursor \<noteq> None"
    and "run_state (queue_pages P rows cols input fuel cursor acc) w = (Inr x, w')"
  shows "x \<noteq> None"
  using assms
proof (induction fuel arbitrary: cursor acc w)
  case (Suc fuel)
  from Suc.prems(2) obtain page nxt v where read: "run_state (Reader_ListCandidates rows input cursor) w = (Inr (page, nxt), v)"
    and rest: "run_state (if page = [] then ret (Inr (Some acc)) else bindE (process_candidates P input page) (\<lambda>ms.
         bindE (write_messages P cols input ms) (\<lambda>queued. if nxt = [] then ret (Inr (Some (acc + queued)))
           else queue_pages P rows cols input fuel nxt (acc + queued)))) v = (Inr x, w')"
    by (auto elim!: bindE_InrD)
  show ?case
  proof (cases "page = [] \<or> nxt = []")
    case True
    with rest show ?thesis by (auto elim!: bindE_InrD split: if_splits)
  next
    case False
    with rest obtain queued u where "run_state (queue_pages P rows cols input fuel nxt (acc + queued)) u = (Inr x, w')"
      by (auto elim!: bindE_InrD)
    moreover have "follow candidate_order cc_ID (candidate_where (candidates_query input [])) 500 rows fuel nxt \<noteq> None"
      using Suc.prems(1) read_page [OF read] False by simp
    ultimately show ?thesis by (rule Suc.IH [rotated])
  qed
qed simp

lemma queue_ends:
  assumes "distinct (map cc_ID rows)" "[] \<notin> set (map cc_ID rows)"
    and "run_state (QueueCampaignMessages_Execute P rows cols input) w = (r, w')"
  shows "r \<noteq> Inr None"
proof
  assume r: "r = Inr None"
  have ids: "inj_on cc_ID (set rows)" "distinct rows" using assms(1) by (simp_all add: distinct_map)
  then have "inj_on candidate_order (set rows)" by (auto simp: inj_on_def candidate_order_def)
  moreover have "\<forall>r\<in>set rows. cc_ID r \<noteq> []" using assms(2) by (metis imageI set_map)
  ultimately have "follow candidate_order cc_ID (candidate_where (candidates_query input [])) 500 rows (Suc (length rows)) [] \<noteq> None"
    using follow_complete [OF _ ids] by fastforce
  moreover from assms(3) [unfolded r QueueCampaignMessages_Execute_def]
  obtain v w1 where "run_state (queue_pages P rows cols input (Suc (length rows)) [] 0) v = (Inr None, w1)"
    by (auto simp del: queue_pages.simps elim!: bindE_InrD split: if_splits)
  ultimately show False by (rule queue_pages_ends [THEN notE]) simp
qed

section \<open>The insert of the source\<close>

lemma refuses_campaign_insert:
  assumes "ms \<noteq> []" "\<forall>m\<in>set ms. m_BouncedAt m = None"
  shows "refuses (bindE (CreateMany insert_columns ms) f)"
proof -
  from assms have "\<not> list_all (\<lambda>m. list_all2 fits insert_columns (insert_args m)) ms"
    using source_misfit by (cases ms) auto
  with assms(1) show ?thesis
    by (intro refuses_bindE) (auto simp: refuses_def CreateMany_def dest: exec_InrD)
qed

lemma first_page:
  assumes "candidate_count (qi_WorkspaceID input) (qi_CampaignID input) rows \<noteq> 0"
    and "run_state (Reader_ListCandidates rows input []) w = (Inr (page, nxt), v)"
  shows "page \<noteq> []"
  using read_page [OF assms(2)] assms(1)
  by (auto simp: list_page_def Let_def candidate_count_def candidate_where_def candidates_query_def after_cursor_def filter_empty_conv
      dest: arg_cong [of _ _ length] split: if_splits)

lemma queue_pages_refused:
  assumes "candidate_count (qi_WorkspaceID input) (qi_CampaignID input) rows \<noteq> 0"
    and run: "run_state (queue_pages P rows insert_columns input (Suc fuel) [] acc) w = (r, w')"
  shows "(\<exists>e. r = Inl e) \<and> store w' = store w"
proof -
  obtain x v where read: "run_state (Reader_ListCandidates rows input []) w = (x, v)" by fastforce
  then have v: "store v = store w" by (auto simp: Reader_ListCandidates_def store_remote)
  show ?thesis
  proof (cases x)
    case (Inl e)
    with run read v show ?thesis by (auto simp: run_bindE)
  next
    case (Inr y)
    obtain page nxt where y: "y = (page, nxt)" by fastforce
    have page: "page \<noteq> []" using first_page [OF assms(1)] read Inr y by blast
    obtain z u where proc: "run_state (process_candidates P input page) v = (z, u)" by fastforce
    note u = store_process [OF proc]
    show ?thesis
    proof (cases z)
      case (Inl e)
      with run read Inr y page proc u v show ?thesis by (auto simp: run_bindE)
    next
      case (Inr ms)
      note ms = process_candidates_Inr [OF proc [unfolded Inr]]
      then have "ms \<noteq> []" using page by (auto dest: arg_cong [of _ _ length])
      moreover have "\<forall>m\<in>set ms. m_BouncedAt m = None" using ms by (auto simp: campaign_message_new)
      ultimately have no: "refuses (bindE (CreateMany insert_columns ms) f)" for f :: "string list \<Rightarrow> nat dprog"
        by (rule refuses_campaign_insert)
      obtain t w1 where wr: "run_state (write_messages P insert_columns input ms) u = (t, w1)" by fastforce
      note tx = wr [unfolded write_messages_def]
      have "store w1 = store u" by (rule refuses_WithinTx_store [OF no tx])
      moreover have "\<exists>e. t = Inl e" using refuses_WithinTx [OF no, unfolded refuses_def] tx by (cases t) blast+
      ultimately have "store w1 = store u" "\<exists>e. t = Inl e" by simp_all
      with run read \<open>x = Inr y\<close> y page proc Inr wr u v show ?thesis by (auto simp: run_bindE)
    qed
  qed
qed

lemma queue_refused:
  assumes "run_state (QueueCampaignMessages_Execute P rows insert_columns input) w = (r, w')"
  shows "(\<exists>e. r = Inl e) \<and> store w' = store w"
proof -
  obtain x v where c: "run_state (Reader_CountCandidates rows input) w = (x, v)" by fastforce
  then have v: "store v = store w" and x: "\<And>k. x = Inr k \<Longrightarrow> k = candidate_count (qi_WorkspaceID input) (qi_CampaignID input) rows"
    by (auto simp: Reader_CountCandidates_def store_remote dest: remote_answer)
  obtain y u where q: "run_state (queue_pages P rows insert_columns input (Suc (length rows)) [] 0) v = (y, u)" by fastforce
  show ?thesis
  proof (cases "\<exists>k. x = Inr k \<and> k \<noteq> 0")
    case False
    with assms c v show ?thesis unfolding QueueCampaignMessages_Execute_def
      by (cases x) (auto simp: run_bindE [where f = "Reader_CountCandidates rows input"] split: if_splits)
  next
    case True
    with x queue_pages_refused [OF _ q] have "\<exists>e. y = Inl e" "store u = store v" by auto
    with assms True c v q show ?thesis unfolding QueueCampaignMessages_Execute_def
      by (auto simp: run_bindE simp del: queue_pages.simps split: if_splits)
  qed
qed

section \<open>Properties\<close>

definition sample_candidate :: "string \<Rightarrow> CampaignMessageCandidate" where
  "sample_candidate i = \<lparr>cc_ID = i, cc_WorkspaceID = ''w'', cc_CampaignID = ''c'', cc_ContactID = i, cc_EmailNormalized = i,
     cc_RecipientSnapshot = \<lparr>sn_ContactID = i, sn_Email = i, sn_EmailNormalized = i, sn_FirstName = [], sn_LastName = [],
       sn_Tags = [], sn_Attributes = None\<rparr>, cc_Status = ''planned'', cc_CreatedAt = 1, cc_UpdatedAt = 1\<rparr>"

definition sample_queue :: QueueCampaignMessagesInput where
  "sample_queue = \<lparr>qi_WorkspaceID = ''w'', qi_CampaignID = ''c'', qi_TemplateID = ''t'', qi_TemplateVersionID = ''v'',
     qi_SenderDomainID = ''s'', qi_MessageType = ''marketing'', qi_ScheduledAt = 2, qi_Now = 3\<rparr>"

text \<open>
  Claim C18. Whatever fails while the messages of a campaign are queued, also when the event is handled again, and for every insert that
  writes the id first, like that of the source: the tables only grow, by the rows the insert makes of queued messages for candidates of
  this campaign, with exactly one queued event in the outbox for each new message; a reported count is the number of new messages;
  and no candidate ever has two messages.
\<close>

theorem campaign_queue_safe:
  assumes "inj (p_gen P)" "rows_ok (store w)" "qi_CampaignID input \<noteq> []"
    and "run_state (QueueCampaignMessages_Execute P rows (''id'' # cols) input) w = (r, w')"
  shows "\<exists>n. queued_from (''id'' # cols) input rows n (store w) (store w') \<and> (\<forall>res. r = Inr (Some res) \<longrightarrow> qr_QueuedCount res = n) \<and>
    (\<forall>i. i \<noteq> [] \<longrightarrow>
      length (filter (\<lambda>m. m_CampaignID m = qi_CampaignID input \<and> m_CampaignCandidateID m = i) (messages (store w'))) \<le> 1)"
proof -
  from queue_effect [OF assms(1,2,4)] obtain n where n: "queued_from (''id'' # cols) input rows n (store w) (store w')"
    "\<forall>res. r = Inr (Some res) \<longrightarrow> qr_QueuedCount res = n" by blast
  then have "rows_ok (store w')" by (auto simp: queued_from_def)
  with n candidate_once [OF _ assms(3)] show ?thesis by blast
qed

theorem campaign_queue_safe_witness:
  "\<exists>w' r n. run_state (QueueCampaignMessages_Execute sample_ports [sample_candidate ''a'', sample_candidate ''b''] sample_columns sample_queue)
      (plain_world empty_db) = (r, w') \<and>
    queued_from sample_columns sample_queue [sample_candidate ''a'', sample_candidate ''b''] n empty_db (store w')"
proof -
  obtain r w' where run: "run_state (QueueCampaignMessages_Execute sample_ports [sample_candidate ''a'', sample_candidate ''b''] sample_columns
    sample_queue) (plain_world empty_db) = (r, w')" by fastforce
  obtain cols where cols: "sample_columns = ''id'' # cols" by (simp add: sample_columns_def)
  from campaign_queue_safe [OF _ _ _ run [unfolded cols]] sample_gen(1) run cols show ?thesis
    by (auto simp: sample_queue_def)
qed

text \<open>
  Claim C20. What the handler returns. For every insert and whatever fails, the loop over the pages comes to an end, however many candidates
  there are, if their ids are distinct and not empty. With the columns of the source the handler never succeeds: it returns an error and
  stores nothing, whatever the input, the candidates and the state are.
\<close>

theorem campaign_queue_returns:
  assumes "distinct (map cc_ID rows)" "[] \<notin> set (map cc_ID rows)"
    and "run_state (QueueCampaignMessages_Execute P rows cols input) w = (r, w')"
  shows "r \<noteq> Inr None \<and> (cols = insert_columns \<longrightarrow> (\<exists>e. r = Inl e) \<and> store w' = store w)"
  using queue_ends [OF assms] queue_refused assms(3) by blast

theorem campaign_queue_returns_witness:
  "\<exists>e w'. run_state (QueueCampaignMessages_Execute sample_ports [sample_candidate ''a'', sample_candidate ''b''] insert_columns sample_queue)
      (plain_world empty_db) = (Inl e, w') \<and> store w' = empty_db"
proof -
  obtain r w' where run: "run_state (QueueCampaignMessages_Execute sample_ports [sample_candidate ''a'', sample_candidate ''b''] insert_columns
    sample_queue) (plain_world empty_db) = (r, w')" by fastforce
  from campaign_queue_returns [OF _ _ run] run show ?thesis by (auto simp: sample_candidate_def)
qed

end
