(* ===== verification/Spec2Isabelle.thy ===== *)
theory Spec2Isabelle
  imports Access_Properties Webhook_Properties Workspace_Properties Batching Ids Delivery_Charging Delivery_Limits Campaign_Lifecycle Campaign_Queue
begin

text \<open>
  \<^bold>\<open>Verification of send-flow\<close>, the backend of an email delivery platform (Go; sources under \<open>src/internal\<close>).

  \<^bold>\<open>The program.\<close> A client sends mails through the API (\<open>modules/delivery/app/send\<close>) or schedules a campaign
  (\<open>modules/campaign\<close>). Accepted requests and scheduled campaigns become rows of the \<open>messages\<close> table with an event in the
  outbox. A worker claims due messages and hands them to the mail server (\<open>modules/delivery/app/process/due.go\<close>);
  events of the provider come back and move the messages on (\<open>provider_event.go\<close>); bounces and complaints put addresses on
  the suppression list (\<open>modules/suppression\<close>), which sending and accepting consult. API keys have token-bucket
  quotas. Users sign in and administer workspaces, members and roles through \<open>modules/identity\<close>. Events of a workspace are sent to the
  endpoints it has registered (\<open>modules/webhooks\<close>). Modules talk through tables, an outbox with event envelopes
  (\<open>platform/events\<close>, \<open>platform/outbox\<close>) and small ports.

  \<^bold>\<open>How it is modelled.\<close>
  \<^item> \<open>Prelude\<close>: instants, trimming, reachability and the locales \<open>invariant_system\<close> and \<open>terminating_system\<close>.
  \<^item> \<open>World\<close>: a handler is a program of the state monad over a world that holds the database and the list of what will
    happen to the next calls (success, failure without effect, effect with a lost answer): \<open>exec\<close>, \<open>WithinTx\<close>
    (\<open>platform/transaction\<close>), \<open>idGen\<close>, \<open>remote\<close>. Theorems about all worlds are theorems about all faults. The locale
    \<open>world_rel\<close> lifts a relation from statements to handlers.
  \<^item> \<open>Batching\<close> (\<open>platform/batching/pipeline.go\<close>): the goroutines as a step relation. \<open>Events\<close>, \<open>Ids\<close>, \<open>Pagination\<close>:
    envelopes, UUIDs, the keyset pagination of all list queries.
  \<^item> \<open>Suppression\<close>: the module \<open>suppression\<close>.
  \<^item> \<open>Delivery_Domain\<close>, \<open>Delivery_Store\<close>, \<open>Delivery_Create\<close>: domain and repositories of \<open>delivery\<close>; \<open>Delivery_Process\<close>: the
    due worker; \<open>Delivery_Provider_Event\<close>: provider events; \<open>Quota\<close>: the Lua token buckets (locale \<open>limiter\<close>);
    \<open>Delivery_Accept\<close>: accepting requests.
  \<^item> \<open>Campaign\<close>: the module \<open>campaign\<close>; \<open>Campaign_Queue\<close>: the consumer that turns a scheduled campaign into messages.
  \<^item> \<open>Permissions\<close>, \<open>Security\<close>, \<open>Jwt\<close>: permission masks, the primitives of \<open>platform/security\<close>, signed tokens; \<open>Identity_Store\<close>,
    \<open>Identity_Auth\<close>: repositories and sign-in commands of \<open>identity\<close>; \<open>Workspace_Store\<close>, \<open>Workspaces\<close>: repositories, cache and
    commands for workspaces. \<open>Atomic\<close>: rules for handlers that read, decide and write once.
  \<^item> \<open>Access\<close>: the module \<open>access\<close> (API keys). \<open>Webhook_Store\<close>, \<open>Webhooks\<close>: domain, repositories, HTTP client, commands and workers of \<open>webhooks\<close>; requests are logged.
  Tables are lists of rows, structs are records, statuses are strings as in the code, errors are values of \<open>goerr\<close>, maps are
  partial functions, floating-point numbers are rationals, and integers are unbounded where the code only counts or compares them.

  \<^bold>\<open>What is shown.\<close>
  \<^item> \<open>Delivery_Safety\<close>, \<open>Delivery_Lifecycle\<close>, \<open>Delivery_Outcomes\<close>, \<open>Delivery_Success\<close>: over any sequence of batches, events and
    faults a message is handed over at most six times and never again after the server took it, a claimed message is not claimed
    again before a retry is scheduled (step relation \<open>work_step\<close>, invariant \<open>held\<close>),
    mails are sent only after all checks, and without faults a deliverable message is accepted.
  \<^item> \<open>Delivery_Signals\<close>, \<open>Delivery_Limits\<close>: provider events are idempotent and follow the transition table; a bounce stops later
    mail; retry delays and request counters.
  \<^item> \<open>Delivery_Intake\<close>, \<open>Delivery_Charging\<close>, \<open>Quota\<close>: accepting is all or nothing, only after all checks, and charged exactly; the
    quota bounds the rate in every interval.
  \<^item> \<open>Campaign_Lifecycle\<close>: the commands refine an abstract machine, with an invariant of all campaigns and what never changes
    once a campaign has left the draft state. \<open>Campaign_Queue\<close>: at most one message per candidate; the page loop ends;
    with the insert of the source nothing is queued.
  \<^item> \<open>Identity_Runs\<close>, \<open>Identity_Secrets\<close>, \<open>Identity_Safety\<close>, \<open>Identity_Properties\<close>: what a command does to each table as one relation
    (locales \<open>table_rel\<close>, \<open>auth_rel\<close>); sessions are opened only for the right factors, tokens and codes work once, revoked sessions are dead.
  \<^item> \<open>Workspace_Effects\<close>, \<open>Workspace_Safety\<close>, \<open>Workspace_Properties\<close>: each command makes one change under conditions of the tables;
    every workspace keeps an owner (locale \<open>ws_kept\<close>), workspaces do not touch each other, invitations work once, settings are versioned.
  \<^item> \<open>Webhook_Effects\<close>, \<open>Webhook_Safety\<close>, \<open>Webhook_Properties\<close>: weakest preconditions for the handlers, and what every command keeps
    (locale \<open>wh_kept\<close>): requests are bounded, signed and never go to private addresses, a success is final, events reach their webhooks.
  \<^item> \<open>Access_Properties\<close>: a new secret is accepted until it expires, a revoked key never, unless an update overlaps the revocation.
  \<^item> This theory: the event a campaign is announced with is understood by the delivery module.
  Several theorems state defects of the source: the insert of messages has its columns in another order than its arguments
  (\<open>create_many_misaligned\<close>) and refuses every new message, so that no send request is accepted (\<open>accept_never_succeeds\<close>) and no campaign
  is queued (\<open>campaign_queue_returns\<close>). The handlers that insert take the column list as an argument; the theorems about them hold for
  every list, or every list that begins with the id, and so also for \<open>insert_columns\<close>, the one of the source. \<open>sample_columns\<close> is no code of the
  program: it is the value at which examples show that these theorems are not only about failing inserts. The index on the provider reference
  would admit one unsent message only (\<open>one_unsent_message\<close>); a listing of webhook deliveries leaves out rows between pages.

  \<^bold>\<open>Bounds and fuel.\<close> The three tries of \<open>persistAcceptedState\<close> and the page size of 500 are those of the code. The page loop of
  \<open>Campaign_Queue\<close> has fuel for one page more than there are candidates; \<open>campaign_queue_returns\<close> shows that it is enough, for every
  insert and all faults.
  Everything else is structurally recursive.

  \<^bold>\<open>Limits of the model.\<close> There is one database: every read sees the writes before it. The program has a read and a write pool
  (\<open>platform/postgres/postgres.go\<close>); with \<open>DATABASE_READ_URL\<close> empty, the default, both are the primary and the model is exact. When the read
  pool is a replica, as in \<open>.env.example\<close>, the lookups of \<open>access\<close>, the session check of \<open>authenticate.go\<close>, the suppression check and the
  lookups of \<open>webhooks\<close> may be stale, and the theorems that rest on them (among them \<open>api_key_revoked_final\<close>, \<open>revoke_is_final\<close>,
  \<open>webhook_success_final\<close>, \<open>bounce_stops_mail\<close>) hold only once the replica has caught up. Handlers run one at a time: concurrency is modelled for the pipeline, by the locks in Redis and by
  the row locks of a claim, and between the messages of several workers, not for the interleaving of two handlers. Waiting, logging and metrics are left out. JSON is a value, not
  bytes. Quota scripts see one clock.

  \<^bold>\<open>Not modelled.\<close> The modules operations, sender, content, audience, ingestion, notification, tracking,
  analytics and audit (what the modelled modules ask of them is a parameter); the HTTP layer, the wiring of the worker, Kafka, SMTP,
  configuration and other wrappers of libraries.
\<close>

section \<open>From the campaign module to the delivery module\<close>

text \<open>The input of the queueing handler for a scheduled campaign.\<close>

definition campaign_input :: "Campaign \<Rightarrow> gotime \<Rightarrow> gotime \<Rightarrow> QueueCampaignMessagesInput" where
  "campaign_input c scheduledAt now =
     \<lparr>qi_WorkspaceID = cp_WorkspaceID c, qi_CampaignID = cp_ID c, qi_TemplateID = tr_TemplateID (cp_TemplateRef c),
      qi_TemplateVersionID = tr_TemplateVersionID (cp_TemplateRef c), qi_SenderDomainID = cp_SenderDomainID c,
      qi_MessageType = cp_MessageType c, qi_ScheduledAt = scheduledAt, qi_Now = now\<rparr>"

definition campaign_complete :: "Campaign \<Rightarrow> bool" where
  "campaign_complete c \<longleftrightarrow> [] \<notin> set [cp_WorkspaceID c, cp_ID c, tr_TemplateID (cp_TemplateRef c),
     tr_TemplateVersionID (cp_TemplateRef c), cp_SenderDomainID c, cp_MessageType c]"

lemma decode_encode:
  "decode_scheduled (CampaignScheduledPayload K ws c t) = Some
     \<lparr>sp_CampaignID = cp_ID c, sp_WorkspaceID = ws, sp_TemplateID = tr_TemplateID (cp_TemplateRef c),
      sp_TemplateVersionID = tr_TemplateVersionID (cp_TemplateRef c), sp_SenderDomainID = cp_SenderDomainID c,
      sp_MessageType = cp_MessageType c, sp_ScheduledAt = k_rfc3339 K t, sp_PlannedRecipients = cp_PlannedRecipients c\<rparr>"
  by (simp add: decode_scheduled_def CampaignScheduledPayload_def str_field_def num_field_def json_field_def)

lemma scheduled_parses:
  assumes "campaign_complete c" "cp_WorkspaceID c = ws" "parseTime (k_rfc3339 K t) = Some t'" "eid \<noteq> []"
  shows "CampaignScheduled_Execute P parseTime rows cols eid ''campaign.scheduled.v1'' (CampaignScheduledPayload K ws c t) now =
    do { r \<leftarrow> QueueCampaignMessages_Execute P rows cols (campaign_input c t' now);
         ret (case r of Inl e \<Rightarrow> Inl (if e = Err ErrPayloadInvalid then NonRetryable e else e) | Inr res \<Rightarrow> Inr res) }"
  using assms
  by (auto simp: CampaignScheduled_Execute_def ParseCampaignScheduledPayload_def decode_encode campaign_complete_def
      queue_input_def campaign_input_def)

text \<open>What a successful schedule leaves in the outbox.\<close>

lemma envelope_Inr:
  assumes "NewEnvelope clock opts p = Inr env" "Marshal env = Inr bytes"
  shows "bytes = env \<and> Validate bytes = None \<and> EventID bytes = opt_EventID opts \<and> EventType bytes = opt_EventType opts \<and>
    Payload bytes = Some p"
  using assms NewEnvelope_valid [OF assms(1)]
  by (auto simp: NewEnvelope_def Marshal_def Let_def split: option.splits)

lemma store_schedule_Inr:
  assumes "run_state (thenE (store_schedule ws c cs ev) (ret (Inr res))) w = (Inr res', w')"
  shows "res' = res \<and> c_outbox (store w') = c_outbox (store w) @ [ev]"
proof -
  from assms obtain u where "run_state (store_schedule ws c cs ev) w = (Inr u, w')" and "res' = res"
    by (rule thenE_InrD) auto
  with store_schedule_effect [OF this(1)] show ?thesis by auto
qed

lemma schedule_recipients_Inr:
  assumes "run_state (schedule_recipients K cmd c version rs) w = (Inr res, w')"
  shows "sr_Campaign res = scheduled cmd version (length rs) c \<and> (\<exists>ev. c_outbox (store w') = c_outbox (store w) @ [ev] \<and>
    Validate (o_Payload ev) = None \<and> o_ID ev = EventID (o_Payload ev) \<and> EventType (o_Payload ev) = ''campaign.scheduled.v1'' \<and>
    Payload (o_Payload ev) = Some (CampaignScheduledPayload K (si_WorkspaceID cmd) (sr_Campaign res)
      (case si_ScheduledAt cmd of None \<Rightarrow> si_Now cmd | Some t \<Rightarrow> t)))"
proof -
  let ?c = "scheduled cmd version (length rs) c"
  note run = assms [unfolded schedule_recipients_def Let_def]
  from run obtain cs v where p: "run_state (plan_candidates K cmd (cp_ID ?c) rs) w = (Inr cs, v)"
    and rest: "run_state (bindE (idGen (k_gen K)) (\<lambda>eventID.
        case NewEnvelope (si_Now cmd) \<lparr>opt_EventID = eventID, opt_EventType = ''campaign.scheduled.v1'',
               opt_EventVersion = 1, opt_AggregateType = ''campaign'', opt_AggregateID = cp_ID ?c,
               opt_WorkspaceID = si_WorkspaceID cmd, opt_OccurredAt = si_Now cmd, opt_Metadata = None\<rparr>
               (CampaignScheduledPayload K (si_WorkspaceID cmd) ?c (case si_ScheduledAt cmd of None \<Rightarrow> si_Now cmd | Some t \<Rightarrow> t)) of
          Inl _ \<Rightarrow> ret (Inl ErrEnvelope)
        | Inr envelope \<Rightarrow>
            (case Marshal envelope of
               Inl _ \<Rightarrow> ret (Inl ErrEnvelope)
             | Inr payloadBytes \<Rightarrow>
                 thenE (store_schedule (si_WorkspaceID cmd) ?c cs \<lparr>o_ID = eventID, o_AggregateType = ''campaign'', o_AggregateID = cp_ID ?c,
                     o_EventType = ''campaign.scheduled.v1'', o_Payload = payloadBytes,
                     o_WorkspaceID = si_WorkspaceID cmd, o_OccurredAt = si_Now cmd\<rparr>)
                   (ret (Inr \<lparr>sr_Campaign = ?c, sr_Candidates = cs\<rparr>))))) v = (Inr res, w')"
    by (rule bindE_InrD)
  from rest obtain eid u env bytes where u: "run_state (idGen (k_gen K)) v = (Inr eid :: (camp_error, string) result, u)"
    and env: "NewEnvelope (si_Now cmd) \<lparr>opt_EventID = eid, opt_EventType = ''campaign.scheduled.v1'',
               opt_EventVersion = 1, opt_AggregateType = ''campaign'', opt_AggregateID = cp_ID ?c,
               opt_WorkspaceID = si_WorkspaceID cmd, opt_OccurredAt = si_Now cmd, opt_Metadata = None\<rparr>
               (CampaignScheduledPayload K (si_WorkspaceID cmd) ?c (case si_ScheduledAt cmd of None \<Rightarrow> si_Now cmd | Some t \<Rightarrow> t)) = Inr env"
    and bytes: "Marshal env = Inr bytes"
    and st: "run_state (thenE (store_schedule (si_WorkspaceID cmd) ?c cs \<lparr>o_ID = eid, o_AggregateType = ''campaign'', o_AggregateID = cp_ID ?c,
                     o_EventType = ''campaign.scheduled.v1'', o_Payload = bytes,
                     o_WorkspaceID = si_WorkspaceID cmd, o_OccurredAt = si_Now cmd\<rparr>)
                   (ret (Inr \<lparr>sr_Campaign = ?c, sr_Candidates = cs\<rparr>))) u = (Inr res, w')"
    by (rule bindE_InrD) (auto split: sum.splits)
  have "store u = store w" using looks_plan p u looks_calls(3) by (metis looks_def)
  with store_schedule_Inr [OF st] envelope_Inr [OF env bytes] show ?thesis by auto
qed

lemma looks_FindByID: "looks (Campaign_FindByID ws cid)"
  unfolding looks_def Campaign_FindByID_def by (auto dest!: exec_store split: option.splits)

lemma schedule_checked_Inr:
  assumes "run_state (schedule_checked K cmd c) w = (Inr res, w')"
  obtains version rs v where "run_state (schedule_recipients K cmd c version rs) v = (Inr res, w')" "store v = store w"
  using assms unfolding schedule_checked_def remote_def
  by (auto elim!: bindE_InrD simp: next_outcome_def split: if_splits sum.splits option.splits list.splits)

lemma Schedule_Execute_Inr:
  assumes "run_state (Schedule_Execute K cmd) w = (Inr res, w')"
  obtains c version rs v where "cp_WorkspaceID c = si_WorkspaceID cmd"
    "run_state (schedule_recipients K cmd c version rs) v = (Inr res, w')" "store v = store w"
proof -
  from assms obtain u v1 where 1: "run_state (require K CampSendDenied (si_WorkspaceID cmd) (si_UserID cmd) ''campaign.send'') w = (Inr u, v1)"
    and rest: "run_state (bindE (Campaign_FindByID (si_WorkspaceID cmd) (si_CampaignID cmd)) (\<lambda>campaign.
         if \<not> CanSchedule campaign then ret (Inl (Err CampInvalidStateTransition)) else schedule_checked K cmd campaign)) v1 = (Inr res, w')"
    unfolding Schedule_Execute_def by (rule thenE_InrD)
  from rest obtain c v2 where 2: "run_state (Campaign_FindByID (si_WorkspaceID cmd) (si_CampaignID cmd)) v1 = (Inr c, v2)"
    and 3: "run_state (schedule_checked K cmd c) v2 = (Inr res, w')"
    by (rule bindE_InrD) (auto split: if_splits)
  from 2 have "cp_WorkspaceID c = si_WorkspaceID cmd"
    by (auto simp: Campaign_FindByID_def find_Some_iff split: option.splits dest!: exec_InrD)
  moreover have "store v1 = store w" "store v2 = store v1"
    using looks_calls(4) 1 looks_FindByID 2 by (metis looks_def)+
  ultimately show thesis using 3 that by (metis schedule_checked_Inr)
qed

definition sample_schedule_input :: ScheduleInput where
  "sample_schedule_input = \<lparr>si_WorkspaceID = ''w'', si_CampaignID = ''i'', si_UserID = ''u'', si_ScheduledAt = None, si_Now = 2\<rparr>"

definition sample_draft :: campaign_world where
  "sample_draft = run_commands sample_camp [sample_create] sample_campaigns"

lemma sample_schedules:
  "case fst (run_state (Schedule_Execute sample_camp sample_schedule_input) sample_draft) of
     Inl _ \<Rightarrow> False | Inr res \<Rightarrow> campaign_complete (sr_Campaign res)"
  by code_simp

section \<open>Properties\<close>

text \<open>
  Claim C22. The event that a successful schedule command puts into the outbox is understood by the delivery module: handled by
  its consumer, whatever the state of the delivery module, it runs the queueing handler for exactly this campaign, with its workspace, template, published
  template version, sender, message type and time (the formatted time is parsed again).
\<close>

theorem scheduled_event_understood:
  assumes run: "run_state (Schedule_Execute K cmd) w = (Inr res, w')"
    and complete: "campaign_complete (sr_Campaign res)"
    and time: "\<forall>t. parseTime (k_rfc3339 K t) \<noteq> None"
  shows "\<exists>ev t t'. c_outbox (store w') = c_outbox (store w) @ [ev] \<and> cp_ScheduledAt (sr_Campaign res) = Some t \<and>
    parseTime (k_rfc3339 K t) = Some t' \<and>
    CampaignScheduled_HandleEvent P parseTime rows cols (o_ID ev) (o_Payload ev) now =
      do { r \<leftarrow> QueueCampaignMessages_Execute P rows cols (campaign_input (sr_Campaign res) t' now);
           ret (case r of Inl e \<Rightarrow> Inl (if e = Err ErrPayloadInvalid then NonRetryable e else e) | Inr res \<Rightarrow> Inr res) }"
proof -
  let ?t = "case si_ScheduledAt cmd of None \<Rightarrow> si_Now cmd | Some t \<Rightarrow> t"
  from run obtain c version rs v where c: "cp_WorkspaceID c = si_WorkspaceID cmd" "store v = store w"
    and st: "run_state (schedule_recipients K cmd c version rs) v = (Inr res, w')" by (rule Schedule_Execute_Inr)
  from schedule_recipients_Inr [OF st] obtain ev where ev: "c_outbox (store w') = c_outbox (store w) @ [ev]"
    "Validate (o_Payload ev) = None" "o_ID ev = EventID (o_Payload ev)" "EventType (o_Payload ev) = ''campaign.scheduled.v1''"
    "Payload (o_Payload ev) = Some (CampaignScheduledPayload K (si_WorkspaceID cmd) (sr_Campaign res) ?t)"
    and res: "sr_Campaign res = scheduled cmd version (length rs) c" using c(2) by auto
  from time obtain t' where t': "parseTime (k_rfc3339 K ?t) = Some t'" by (meson not_None_eq)
  have "o_ID ev \<noteq> []" using ev(2,3) by (auto simp: Validate_None_iff)
  moreover have "cp_WorkspaceID (sr_Campaign res) = si_WorkspaceID cmd" "cp_ScheduledAt (sr_Campaign res) = Some ?t"
    using res c(1) by (simp_all add: scheduled_def)
  ultimately show ?thesis
    using ev scheduled_parses [where parseTime = parseTime and K = K and t' = t', OF complete _ t'] t' by (auto simp: CampaignScheduled_HandleEvent_def Unmarshal_def)
qed

theorem scheduled_event_understood_witness:
  "\<exists>res (ev :: OutboxEvent) t'. fst (run_state (Schedule_Execute sample_camp sample_schedule_input) sample_draft) = Inr res \<and>
    CampaignScheduled_HandleEvent sample_ports (\<lambda>s. Some 7) [sample_candidate ''a''] sample_columns (o_ID ev) (o_Payload ev) 3 =
      do { r \<leftarrow> QueueCampaignMessages_Execute sample_ports [sample_candidate ''a''] sample_columns (campaign_input (sr_Campaign res) t' 3);
           ret (case r of Inl e \<Rightarrow> Inl (if e = Err ErrPayloadInvalid then NonRetryable e else e) | Inr res \<Rightarrow> Inr res) }"
proof -
  obtain r w' where run: "run_state (Schedule_Execute sample_camp sample_schedule_input) sample_draft = (r, w')" by fastforce
  with sample_schedules obtain res where res: "r = Inr res" "campaign_complete (sr_Campaign res)" by (auto split: sum.splits)
  have "fst (run_state (Schedule_Execute sample_camp sample_schedule_input) sample_draft) = Inr res" using run res(1) by simp
  moreover have "\<forall>t. (\<lambda>s. Some 7) (k_rfc3339 sample_camp t) \<noteq> None" by simp
  note scheduled_event_understood [OF run [unfolded res(1)] res(2) this, of sample_ports "[sample_candidate ''a'']" sample_columns 3]
  ultimately show ?thesis by blast
qed

end
